(* ===== verification/Prelude.thy ===== *)
theory Prelude
  imports Main "HOL-Library.Char_ord" "HOL-Library.List_Lexorder" "HOL-Library.Multiset"
begin

text \<open>
  What every other theory shares: the exceptions the Python code raises, the result type
  \<open>'a res\<close> (a value or the exception that was raised), sequencing of computations that may
  raise, and the generic facts on lists (sorting, duplicates) the component proofs rest on.

  \<open>bnd m k\<close> is "run \<open>m\<close>, then \<open>k\<close> on its value"; an exception ends the computation, as
  a \<open>raise\<close> ends the Python function.  \<open>ensure b e\<close> is \<open>if not b: raise e\<close> and
  \<open>checks\<close> runs a list of such statements in order.
\<close>

section \<open>Named collections\<close>

named_theorems res_simps \<open>evaluation of computations that may raise\<close>
named_theorems py_simps \<open>evaluation of operations on Python values\<close>

section \<open>Exceptions and results\<close>

text \<open>
  \<open>ContractError code detail\<close> is the class of \<open>contracts.py\<close> (its attribute \<open>code\<close>
  and the detail of its message), \<open>PricingContractError\<close> the one of \<open>pricing.py\<close>,
  \<open>ExecutionContractError\<close> the one of \<open>execution_contracts.py\<close> and \<open>WorkspaceError\<close> the one of
  \<open>workspace.py\<close>, \<open>ProtocolError\<close> the one of \<open>protocol.py\<close>, \<open>BrokerError\<close> the one of \<open>brokers.py\<close>,
  \<open>AdapterError\<close> the one of \<open>adapters/base.py\<close>; the others are the exceptions of the library.
\<close>

datatype pyexn =
    ContractError (exn_code: string) (exn_detail: string)
  | PricingContractError (exn_code: string) (exn_detail: string)
  | ExecutionContractError (exn_code: string) (exn_detail: string)
  | WorkspaceError (exn_code: string) (exn_detail: string)
  | AdapterError (exn_code: string)
  | ProtocolError (exn_code: string) (exn_detail: string)
  | BrokerError (exn_code: string) (exn_detail: string)
  | TypeError
  | KeyError
  | AttributeError
  | ValueError
  | JSONDecodeError
  | UnicodeDecodeError
  | RecursionError
  | UnicodeEncodeError
  | OverflowError
  | IndexError
  | StopIteration

text \<open>\<open>except ValueError\<close> catches the errors of this code and those of the library that derive from it.\<close>

fun value_error :: "pyexn \<Rightarrow> bool" where
  "value_error (ContractError c d) = True"
| "value_error (PricingContractError c d) = True"
| "value_error (ExecutionContractError c d) = True"
| "value_error (WorkspaceError c d) = True"
| "value_error (ProtocolError c d) = True"
| "value_error (BrokerError c d) = True"
| "value_error (AdapterError c) = True"
| "value_error ValueError = True"
| "value_error JSONDecodeError = True"
| "value_error UnicodeDecodeError = True"
| "value_error UnicodeEncodeError = True"
| "value_error e = False"

type_synonym 'a res = "pyexn + 'a"

fun bnd :: "'a res \<Rightarrow> ('a \<Rightarrow> 'b res) \<Rightarrow> 'b res" where
  "bnd (Inl e) k = Inl e"
| "bnd (Inr x) k = k x"

definition ensure :: "bool \<Rightarrow> pyexn \<Rightarrow> unit res" where
  "ensure b e = (if b then Inr () else Inl e)"

definition void :: "'a res \<Rightarrow> unit res" where
  "void m = bnd m (\<lambda>_. Inr ())"

fun checks :: "unit res list \<Rightarrow> unit res" where
  "checks [] = Inr ()"
| "checks (c # cs) = bnd c (\<lambda>_. checks cs)"

fun map_res :: "('a \<Rightarrow> 'b res) \<Rightarrow> 'a list \<Rightarrow> 'b list res" where
  "map_res f [] = Inr []"
| "map_res f (x # xs) = bnd (f x) (\<lambda>y. bnd (map_res f xs) (\<lambda>ys. Inr (y # ys)))"

text \<open>\<open>try: m except: handler\<close>, where the handler may re-raise what it does not catch.\<close>

definition catch :: "'a res \<Rightarrow> (pyexn \<Rightarrow> 'a res) \<Rightarrow> 'a res" where
  "catch m h = (case m of Inl e \<Rightarrow> h e | Inr x \<Rightarrow> Inr x)"

lemma bnd_Inr_iff [res_simps]: "bnd m k = Inr y \<longleftrightarrow> (\<exists>x. m = Inr x \<and> k x = Inr y)"
  by (cases m) auto

lemma bnd_InrE: "bnd m k = Inr y \<Longrightarrow> (\<And>x. m = Inr x \<Longrightarrow> k x = Inr y \<Longrightarrow> P) \<Longrightarrow> P"
  by (cases m) auto

lemma bnd_Inl_iff: "bnd m k = Inl e \<longleftrightarrow> m = Inl e \<or> (\<exists>x. m = Inr x \<and> k x = Inl e)"
  by (cases m) auto

lemma bnd_assoc: "bnd (bnd m k) l = bnd m (\<lambda>x. bnd (k x) l)"
  by (cases m) auto

lemma bnd_cong [fundef_cong]:
  "m = n \<Longrightarrow> (\<And>x. n = Inr x \<Longrightarrow> k x = l x) \<Longrightarrow> bnd m k = bnd n l"
  by (cases n) auto

lemma ensure_Inr_iff [res_simps]: "ensure b e = Inr u \<longleftrightarrow> b"
  by (simp add: ensure_def)

lemma ensure_Inl_iff: "ensure b e = Inl e' \<longleftrightarrow> \<not> b \<and> e' = e"
  by (auto simp: ensure_def)

lemma ensure_simps [simp]: "ensure True e = Inr ()" "ensure False e = Inl e"
  by (simp_all add: ensure_def)

lemma void_Inr_iff [res_simps]: "void m = Inr u \<longleftrightarrow> (\<exists>x. m = Inr x)"
  by (cases m) (auto simp: void_def)

lemma void_simps [simp]: "void (Inr x) = Inr ()" "void (Inl e) = Inl e"
  by (simp_all add: void_def)

lemma checks_Inr_iff: "checks cs = Inr u \<longleftrightarrow> (\<forall>c\<in>set cs. c = Inr ())"
  by (induction cs) (auto simp: res_simps)

lemma checks_Nil_iff [res_simps]: "checks [] = Inr u"
  by simp

lemma checks_Cons_iff [res_simps]: "checks (c # cs) = Inr u \<longleftrightarrow> c = Inr () \<and> checks cs = Inr ()"
  by (auto simp: res_simps)

lemma catch_simps [simp]: "catch (Inr x) h = Inr x" "catch (Inl e) h = h e"
  by (simp_all add: catch_def)

lemma catch_Inr_iff [res_simps]:
  "catch m h = Inr y \<longleftrightarrow> m = Inr y \<or> (\<exists>e. m = Inl e \<and> h e = Inr y)"
  by (cases m) auto

lemma map_res_Inr_iff: "map_res f xs = Inr ys \<longleftrightarrow> list_all2 (\<lambda>x y. f x = Inr y) xs ys"
proof (induction xs arbitrary: ys)
  case Nil
  then show ?case by (cases ys) auto
next
  case (Cons x xs)
  then show ?case by (cases ys) (auto simp: res_simps)
qed

lemma map_res_length: "map_res f xs = Inr ys \<Longrightarrow> length ys = length xs"
  by (auto simp: map_res_Inr_iff dest: list_all2_lengthD)

lemma map_res_map:
  assumes "\<And>y. y \<in> set ys \<Longrightarrow> f (g y) = Inr y"
  shows "map_res f (map g ys) = Inr ys"
  using assms by (induction ys) auto

lemma map_res_set:
  assumes "map_res f xs = Inr ys" and "y \<in> set ys"
  shows "\<exists>x\<in>set xs. f x = Inr y"
  using assms by (auto simp: map_res_Inr_iff list_all2_conv_all_nth set_conv_nth)

section \<open>Lists\<close>

text \<open>
  Python's \<open>sorted(xs)\<close> is \<open>sort xs\<close>; strings compare by code point, which on the
  byte strings used here is the lexicographic order of \<open>List_Lexorder\<close>.
  \<open>sorted(set(xs))\<close> is \<open>usort xs\<close>.
\<close>

definition usort :: "'a::linorder list \<Rightarrow> 'a list" where
  "usort xs = sort (remdups xs)"

lemma set_usort [simp]: "set (usort xs) = set xs"
  by (simp add: usort_def)

lemma sorted_usort [simp]: "sorted (usort xs)"
  by (simp add: usort_def)

lemma distinct_usort [simp]: "distinct (usort xs)"
  by (simp add: usort_def)

lemma usort_unique: "set xs = set ys \<Longrightarrow> usort xs = usort ys"
  by (metis distinct_usort set_usort sorted_distinct_set_unique sorted_usort)

lemma usort_fixed_iff: "usort xs = xs \<longleftrightarrow> sorted xs \<and> distinct xs"
  by (metis distinct_usort sorted_usort distinct_remdups_id sorted_sort_id usort_def)

lemma usort_Nil_iff [simp]: "usort xs = [] \<longleftrightarrow> xs = []"
  by (metis set_empty set_usort)

lemma length_usort_le: "length (usort xs) \<le> length xs"
  by (simp add: usort_def length_remdups_leq)

lemma sort_mset_cong: "mset xs = mset ys \<Longrightarrow> sort xs = sort ys"
  by (metis mset_sort properties_for_sort sorted_sort)

lemma usort_mset_cong: "mset xs = mset ys \<Longrightarrow> usort xs = usort ys"
  by (metis set_mset_mset usort_unique)

text \<open>Python's \<open>len(set(xs)) == len(xs)\<close>.\<close>

lemma length_remdups_eq_iff: "length (remdups xs) = length xs \<longleftrightarrow> distinct xs"
  by (metis distinct_remdups_id length_remdups_card_conv distinct_card card_distinct)

text \<open>\<open>",".join(xs)\<close>.\<close>

fun join :: "string \<Rightarrow> string list \<Rightarrow> string" where
  "join sep [] = []"
| "join sep [x] = x"
| "join sep (x # y # ys) = x @ sep @ join sep (y # ys)"

section \<open>Runs of a labelled transition relation\<close>

fun runs :: "('s \<Rightarrow> 'c \<Rightarrow> 's \<Rightarrow> bool) \<Rightarrow> 's \<Rightarrow> 'c list \<Rightarrow> 's \<Rightarrow> bool" where
  "runs step s [] t = (s = t)"
| "runs step s (c # cs) t = (\<exists>u. step s c u \<and> runs step u cs t)"

lemma runs_append: "runs step s (cs @ ds) t \<longleftrightarrow> (\<exists>u. runs step s cs u \<and> runs step u ds t)"
  by (induction cs arbitrary: s) auto

text \<open>A machine with an invariant every command keeps.\<close>

locale invariant_machine =
  fixes step :: "'s \<Rightarrow> 'c \<Rightarrow> 's \<Rightarrow> bool" and inv :: "'s \<Rightarrow> bool"
  assumes inv_step: "inv s \<Longrightarrow> step s c t \<Longrightarrow> inv t"
begin

lemma inv_runs: "inv s \<Longrightarrow> runs step s cs t \<Longrightarrow> inv t"
  by (induction cs arbitrary: s) (auto intro: inv_step)

end

text \<open>A machine with, besides, final states that no command leaves.\<close>

locale guarded_machine = invariant_machine step inv
  for step :: "'s \<Rightarrow> 'c \<Rightarrow> 's \<Rightarrow> bool" and inv :: "'s \<Rightarrow> bool" +
  fixes final :: "'s \<Rightarrow> bool"
  assumes final_stuck: "final s \<Longrightarrow> \<not> step s c t"
begin

lemma final_runs: "final s \<Longrightarrow> runs step s cs t \<Longrightarrow> cs = [] \<and> t = s"
  by (cases cs) (auto simp: final_stuck)

text \<open>A run that ends in a final state passes no final state before its last command.\<close>

lemma runs_not_final_before: "runs step s (cs @ d # ds) t \<Longrightarrow> runs step s cs u \<Longrightarrow> step u d v \<Longrightarrow> \<not> final u"
  using final_stuck by blast

end

end
