(* ===== verification/TaskState.thy ===== *)
theory TaskState
  imports Prelude
begin

text \<open>
  \<open>models.py\<close> (the enumerations of the control plane) and \<open>state.py\<close>: the closed M4 transition
  graph, the policy that authorizes a transition command, and the retry classification.

  \<open>authorize_transition\<close> follows the function branch by branch.  The reachability of task states
  under authorized commands is an inductive relation over it.
\<close>

section \<open>Enumerations\<close>

datatype TaskStatus =
    INBOX | TRIAGED | WAITING_DESIGN_APPROVAL | QUEUED | LEASED | ANALYZING | IMPLEMENTING
  | VERIFYING | REVIEWING | READY_FOR_HUMAN | RETRY | NEEDS_HUMAN | DEAD | CANCELLED | SUPERSEDED

datatype FailureClass =
    DATABASE_UNAVAILABLE | WORKER_LOST | PROVIDER_TRANSPORT_UNAVAILABLE
  | TEMPORARY_RESOURCE_EXHAUSTION | VALIDATION | POLICY | AUTHENTICATION | UNSUPPORTED_CAPABILITY
  | BUDGET | SECURITY | STALE_INPUT | PROTOCOL | PROVIDER_QUALITY

datatype TransitionOperation =
    CLAIM | RETRY_EXHAUSTED | PHASE | RELEASE_COMPLETED | RELEASE_FAILURE | CANCEL | SUPERSEDE
  | RECONCILE_EXPIRED | RECONCILE_DEADLINE | OPERATOR_REQUEUE

definition all_statuses :: "TaskStatus list" where
  "all_statuses =
     [INBOX, TRIAGED, WAITING_DESIGN_APPROVAL, QUEUED, LEASED, ANALYZING, IMPLEMENTING, VERIFYING,
      REVIEWING, READY_FOR_HUMAN, RETRY, NEEDS_HUMAN, DEAD, CANCELLED, SUPERSEDED]"

section \<open>The transition graph\<close>

definition TERMINAL :: "TaskStatus list" where
  "TERMINAL = [DEAD, CANCELLED, SUPERSEDED, READY_FOR_HUMAN]"

text \<open>\<open>TRANSITIONS.get(s, set())\<close>: the four terminal states are not keys of the table.\<close>

fun TRANSITIONS :: "TaskStatus \<Rightarrow> TaskStatus list option" where
  "TRANSITIONS INBOX = Some [TRIAGED, CANCELLED, SUPERSEDED, NEEDS_HUMAN]"
| "TRANSITIONS TRIAGED =
     Some [WAITING_DESIGN_APPROVAL, QUEUED, CANCELLED, SUPERSEDED, NEEDS_HUMAN]"
| "TRANSITIONS WAITING_DESIGN_APPROVAL = Some [QUEUED, CANCELLED, SUPERSEDED, NEEDS_HUMAN]"
| "TRANSITIONS QUEUED = Some [LEASED, CANCELLED, SUPERSEDED, NEEDS_HUMAN, DEAD]"
| "TRANSITIONS RETRY = Some [QUEUED, LEASED, CANCELLED, SUPERSEDED, NEEDS_HUMAN, DEAD]"
| "TRANSITIONS LEASED = Some [ANALYZING, RETRY, NEEDS_HUMAN, DEAD, CANCELLED, SUPERSEDED]"
| "TRANSITIONS ANALYZING = Some [IMPLEMENTING, RETRY, NEEDS_HUMAN, DEAD, CANCELLED, SUPERSEDED]"
| "TRANSITIONS IMPLEMENTING = Some [VERIFYING, RETRY, NEEDS_HUMAN, DEAD, CANCELLED, SUPERSEDED]"
| "TRANSITIONS VERIFYING = Some [REVIEWING, RETRY, NEEDS_HUMAN, DEAD, CANCELLED, SUPERSEDED]"
| "TRANSITIONS REVIEWING =
     Some [READY_FOR_HUMAN, RETRY, NEEDS_HUMAN, DEAD, CANCELLED, SUPERSEDED]"
| "TRANSITIONS NEEDS_HUMAN = Some [QUEUED, CANCELLED, SUPERSEDED, DEAD]"
| "TRANSITIONS s = None"

definition successors :: "TaskStatus \<Rightarrow> TaskStatus list" where
  "successors s = (case TRANSITIONS s of None \<Rightarrow> [] | Some ts \<Rightarrow> ts)"

definition transition_keys :: "TaskStatus list" where
  "transition_keys = filter (\<lambda>s. TRANSITIONS s \<noteq> None) all_statuses"

section \<open>Authorization\<close>

record transition_command =
  tc_actor_kind :: string
  tc_target :: TaskStatus
  tc_operation :: TransitionOperation
  tc_operator_decision_id :: "string option"

record transition_decision =
  td_code :: string
  td_reason :: string

definition decide :: "string \<Rightarrow> string \<Rightarrow> transition_decision" where
  "decide code reason = \<lparr>td_code = code, td_reason = reason\<rparr>"

text \<open>The next phase of a worker, and the states in which a worker holds the task.\<close>

fun phase_edges :: "TaskStatus \<Rightarrow> TaskStatus option" where
  "phase_edges LEASED = Some ANALYZING"
| "phase_edges ANALYZING = Some IMPLEMENTING"
| "phase_edges IMPLEMENTING = Some VERIFYING"
| "phase_edges VERIFYING = Some REVIEWING"
| "phase_edges s = None"

definition held_states :: "TaskStatus list" where
  "held_states = [LEASED, ANALYZING, IMPLEMENTING, VERIFYING, REVIEWING]"

text \<open>The table \<open>permitted\<close>: actor kind, sources, targets.\<close>

fun permitted :: "TransitionOperation \<Rightarrow> (string \<times> TaskStatus list \<times> TaskStatus list) option" where
  "permitted CLAIM = Some (''control_plane'', [QUEUED, RETRY], [LEASED])"
| "permitted RETRY_EXHAUSTED = Some (''control_plane'', [QUEUED, RETRY], [DEAD])"
| "permitted RELEASE_FAILURE = Some (''worker'', held_states, [RETRY, NEEDS_HUMAN, DEAD])"
| "permitted CANCEL = Some (''control_plane'', transition_keys, [CANCELLED])"
| "permitted SUPERSEDE = Some (''control_plane'', transition_keys, [SUPERSEDED])"
| "permitted RECONCILE_EXPIRED = Some (''control_plane'', held_states, [RETRY, NEEDS_HUMAN, DEAD])"
| "permitted RECONCILE_DEADLINE = Some (''control_plane'', [QUEUED, RETRY], [NEEDS_HUMAN, DEAD])"
| "permitted _ = None"

definition completed_release_compatibility ::
  "TaskStatus \<Rightarrow> TaskStatus \<Rightarrow> transition_command \<Rightarrow> bool" where
  "completed_release_compatibility current target command =
     (current = LEASED \<and> target = READY_FOR_HUMAN \<and> tc_actor_kind command = ''worker'' \<and>
      tc_operation command = RELEASE_COMPLETED)"

text \<open>A decision id is truthy when it is present and not empty.\<close>

definition has_decision :: "transition_command \<Rightarrow> bool" where
  "has_decision command =
     (case tc_operator_decision_id command of None \<Rightarrow> False | Some d \<Rightarrow> d \<noteq> [])"

definition authorize_transition ::
  "TaskStatus \<Rightarrow> TaskStatus \<Rightarrow> transition_command \<Rightarrow> transition_decision" where
  "authorize_transition current target command =
     (if tc_actor_kind command \<notin> {''control_plane'', ''operator'', ''worker''}
      then decide ''forbidden'' ''untrusted actor cannot select state''
      else if target \<noteq> tc_target command
      then decide ''forbidden'' ''command target does not match requested state''
      else if current \<in> set TERMINAL
      then decide ''forbidden'' ''transition is not in the closed M4 graph''
      else if target \<notin> set (successors current) \<and> \<not> completed_release_compatibility current target command
      then decide ''forbidden'' ''transition is not in the closed M4 graph''
      else if tc_operation command = PHASE
      then (if tc_actor_kind command = ''worker'' \<and> phase_edges current = Some target
            then decide ''allowed'' ''next fenced worker phase authorized''
            else decide ''forbidden'' ''phase operation permits only the next worker phase'')
      else if tc_operation command = RELEASE_COMPLETED
      then (if tc_actor_kind command \<noteq> ''worker'' \<or> target \<noteq> READY_FOR_HUMAN
            then decide ''forbidden'' ''completed release requires a worker completion target''
            else if completed_release_compatibility current target command
            then decide ''allowed'' ''legacy completed-release compatibility''
            else if current = REVIEWING
            then decide ''allowed'' ''reviewed completion authorized''
            else decide ''forbidden'' ''completed release requires leased compatibility or reviewing'')
      else if tc_operation command = OPERATOR_REQUEUE
      then (if current \<noteq> NEEDS_HUMAN \<or> target \<noteq> QUEUED
            then decide ''forbidden'' ''operator requeue applies only to needs_human''
            else if tc_actor_kind command \<noteq> ''operator'' \<or> \<not> has_decision command
            then decide ''needs_human'' ''persisted operator decision required''
            else decide ''allowed'' ''persisted operator decision authorized'')
      else (case permitted (tc_operation command) of
          None \<Rightarrow> decide ''forbidden'' ''unknown transition operation''
        | Some (actor_kind, sources, targets) \<Rightarrow>
            (if tc_actor_kind command \<noteq> actor_kind \<or> current \<notin> set sources \<or> target \<notin> set targets
             then decide ''forbidden'' ''transition is outside operation policy''
             else if target \<notin> set (successors current)
             then decide ''forbidden'' ''transition is not in the closed M4 graph''
             else decide ''allowed'' ''closed transition authorized'')))"

section \<open>Retry classification\<close>

definition RETRYABLE :: "FailureClass list" where
  "RETRYABLE =
     [DATABASE_UNAVAILABLE, WORKER_LOST, PROVIDER_TRANSPORT_UNAVAILABLE, TEMPORARY_RESOURCE_EXHAUSTION]"

record retry_decision =
  rd_retry :: bool
  rd_terminal :: "TaskStatus option"
  rd_reason :: string

definition classify_retry :: "FailureClass \<Rightarrow> int \<Rightarrow> int \<Rightarrow> retry_decision" where
  "classify_retry failure attempt_no infrastructure_retries =
     (if attempt_no < 1 \<or> \<not> (0 \<le> infrastructure_retries \<and> infrastructure_retries \<le> 2)
      then \<lparr>rd_retry = False, rd_terminal = Some NEEDS_HUMAN, rd_reason = ''invalid attempt evidence''\<rparr>
      else if failure \<notin> set RETRYABLE
      then \<lparr>rd_retry = False, rd_terminal = Some NEEDS_HUMAN, rd_reason = ''failure class is not retryable''\<rparr>
      else if infrastructure_retries < attempt_no
      then \<lparr>rd_retry = False, rd_terminal = Some DEAD,
            rd_reason = ''initial attempt plus accepted retries exhausted''\<rparr>
      else \<lparr>rd_retry = True, rd_terminal = Some RETRY, rd_reason = ''typed infrastructure retry''\<rparr>)"

section \<open>The abstract policy\<close>

text \<open>
  What the policy promises, as a table of rules: the actor, the operation, the edge.  The
  refinement theorem says that the function allows exactly these.
\<close>

inductive policy_rule :: "string \<Rightarrow> TransitionOperation \<Rightarrow> bool \<Rightarrow> TaskStatus \<Rightarrow> TaskStatus \<Rightarrow> bool" where
  phase: "phase_edges s = Some t \<Longrightarrow> policy_rule ''worker'' PHASE d s t"
| complete: "s \<in> {LEASED, REVIEWING} \<Longrightarrow> policy_rule ''worker'' RELEASE_COMPLETED d s READY_FOR_HUMAN"
| fail: "s \<in> set held_states \<Longrightarrow> t \<in> {RETRY, NEEDS_HUMAN, DEAD} \<Longrightarrow> policy_rule ''worker'' RELEASE_FAILURE d s t"
| expire: "s \<in> set held_states \<Longrightarrow> t \<in> {RETRY, NEEDS_HUMAN, DEAD} \<Longrightarrow>
    policy_rule ''control_plane'' RECONCILE_EXPIRED d s t"
| claim: "s \<in> {QUEUED, RETRY} \<Longrightarrow> policy_rule ''control_plane'' CLAIM d s LEASED"
| exhaust: "s \<in> {QUEUED, RETRY} \<Longrightarrow> policy_rule ''control_plane'' RETRY_EXHAUSTED d s DEAD"
| deadline: "s \<in> {QUEUED, RETRY} \<Longrightarrow> t \<in> {NEEDS_HUMAN, DEAD} \<Longrightarrow>
    policy_rule ''control_plane'' RECONCILE_DEADLINE d s t"
| cancel: "s \<notin> set TERMINAL \<Longrightarrow> policy_rule ''control_plane'' CANCEL d s CANCELLED"
| supersede: "s \<notin> set TERMINAL \<Longrightarrow> policy_rule ''control_plane'' SUPERSEDE d s SUPERSEDED"
| requeue: "policy_rule ''operator'' OPERATOR_REQUEUE True NEEDS_HUMAN QUEUED"

inductive_simps policy_rule_simps:
  "policy_rule a PHASE d s t" "policy_rule a RELEASE_COMPLETED d s t" "policy_rule a RELEASE_FAILURE d s t"
  "policy_rule a RECONCILE_EXPIRED d s t" "policy_rule a CLAIM d s t" "policy_rule a RETRY_EXHAUSTED d s t"
  "policy_rule a RECONCILE_DEADLINE d s t" "policy_rule a CANCEL d s t" "policy_rule a SUPERSEDE d s t"
  "policy_rule a OPERATOR_REQUEUE d s t"

lemmas state_tables =
  TERMINAL_def successors_def transition_keys_def all_statuses_def held_states_def decide_def
  completed_release_compatibility_def

lemma td_code_decide [simp]: "td_code (decide c r) = c"
  by (simp add: decide_def)

lemma authorize_allowed_iff:
  "td_code (authorize_transition s t c) = ''allowed'' \<longleftrightarrow>
     t = tc_target c \<and> policy_rule (tc_actor_kind c) (tc_operation c) (has_decision c) s t"
proof (cases "t = tc_target c")
  case True
  show ?thesis
    by (cases "tc_operation c"; cases s)
      (auto simp: authorize_transition_def policy_rule_simps state_tables True)
next
  case False
  then show ?thesis by (simp add: authorize_transition_def)
qed

section \<open>Runs of a task\<close>

text \<open>One authorized command moves the task to its target.\<close>

definition authorized_step :: "TaskStatus \<Rightarrow> transition_command \<Rightarrow> TaskStatus \<Rightarrow> bool" where
  "authorized_step s c t = (td_code (authorize_transition s t c) = ''allowed'')"

lemma authorized_step_iff:
  "authorized_step s c t \<longleftrightarrow>
     t = tc_target c \<and> policy_rule (tc_actor_kind c) (tc_operation c) (has_decision c) s t"
  by (simp add: authorized_step_def authorize_allowed_iff)

text \<open>The states before the queue, which no authorized command advances.\<close>

definition intake_states :: "TaskStatus list" where
  "intake_states = [INBOX, TRIAGED, WAITING_DESIGN_APPROVAL]"

lemma policy_rule_not_terminal: "policy_rule a op d s t \<Longrightarrow> s \<notin> set TERMINAL"
  by (induction rule: policy_rule.induct) (auto simp: state_tables elim: phase_edges.elims)

lemma policy_rule_from_intake:
  "policy_rule a op d s t \<Longrightarrow> s \<in> set intake_states \<Longrightarrow> t \<in> {CANCELLED, SUPERSEDED}"
  by (induction rule: policy_rule.induct) (auto simp: state_tables intake_states_def)

interpretation task: guarded_machine authorized_step "\<lambda>s. s \<in> {INBOX, CANCELLED, SUPERSEDED}"
  "\<lambda>s. s \<in> set TERMINAL"
proof
  fix s c t
  show "s \<in> set TERMINAL \<Longrightarrow> \<not> authorized_step s c t"
    using policy_rule_not_terminal by (auto simp: authorized_step_iff)
  assume "s \<in> {INBOX, CANCELLED, SUPERSEDED}" "authorized_step s c t"
  then show "t \<in> {INBOX, CANCELLED, SUPERSEDED}"
    using policy_rule_from_intake policy_rule_not_terminal
    by (fastforce simp: authorized_step_iff state_tables intake_states_def)
qed

text \<open>How a task gets to a worker, and how a worker hands it over.\<close>

lemma policy_rule_to_ready:
  "policy_rule a op d s READY_FOR_HUMAN \<Longrightarrow>
     a = ''worker'' \<and> op = RELEASE_COMPLETED \<and> s \<in> {LEASED, REVIEWING}"
  by (cases op) (auto simp: policy_rule_simps elim: phase_edges.elims)

lemma policy_rule_to_held:
  "policy_rule a op d s t \<Longrightarrow> t \<in> set held_states \<Longrightarrow>
     (a = ''control_plane'' \<and> op = CLAIM \<and> t = LEASED) \<or> (a = ''worker'' \<and> op = PHASE \<and> phase_edges s = Some t)"
  by (cases op) (auto simp: policy_rule_simps state_tables)

lemma phase_edges_source: "phase_edges s = Some t \<Longrightarrow> s \<in> set held_states"
  by (cases s) (auto simp: held_states_def)

definition is_claim :: "transition_command \<Rightarrow> bool" where
  "is_claim c = (tc_actor_kind c = ''control_plane'' \<and> tc_operation c = CLAIM \<and> tc_target c = LEASED)"

definition is_phase :: "transition_command \<Rightarrow> bool" where
  "is_phase c = (tc_actor_kind c = ''worker'' \<and> tc_operation c = PHASE)"

lemma run_to_held:
  assumes "runs authorized_step s cs t" "t \<in> set held_states" "s \<notin> set held_states"
  shows "\<exists>pre c phases. cs = pre @ c # phases \<and> is_claim c \<and> list_all is_phase phases"
  using assms
proof (induction cs arbitrary: t rule: rev_induct)
  case Nil
  then show ?case by simp
next
  case (snoc c cs)
  then obtain u where u: "runs authorized_step s cs u" "authorized_step u c t"
    by (auto simp: runs_append)
  from u(2) snoc.prems(2) consider "is_claim c" | "is_phase c" "phase_edges u = Some t"
    using policy_rule_to_held by (fastforce simp: authorized_step_iff is_claim_def is_phase_def)
  then show ?case
  proof cases
    case 1
    then show ?thesis by fastforce
  next
    case 2
    then obtain pre d phases where "cs = pre @ d # phases" "is_claim d" "list_all is_phase phases"
      using snoc.IH [OF u(1) _ snoc.prems(3)] phase_edges_source by blast
    with 2 have "cs @ [c] = pre @ d # (phases @ [c]) \<and> is_claim d \<and> list_all is_phase (phases @ [c])"
      by simp
    then show ?thesis by blast
  qed
qed

section \<open>Properties\<close>

text \<open>
  C23: \<open>authorize_transition\<close> allows a command exactly when its target is the requested state and
  the closed policy table has a rule for its actor, operation and edge: the function implements
  the table, on every state pair and every command.
\<close>

theorem authorize_transition_refines_policy:
  "td_code (authorize_transition s t c) = ''allowed'' \<longleftrightarrow>
     t = tc_target c \<and> policy_rule (tc_actor_kind c) (tc_operation c) (has_decision c) s t"
  by (rule authorize_allowed_iff)

text \<open>
  a task reaches \<open>ready_for_human\<close> from any state outside a worker's hands only through a
  control-plane claim, then worker phases only, then a worker's completed release: no other
  interleaving of authorized commands ends there.
\<close>

theorem ready_for_human_needs_claim:
  assumes "runs authorized_step s cs READY_FOR_HUMAN"
    and "s \<notin> set held_states" and "s \<noteq> READY_FOR_HUMAN"
  shows "\<exists>pre claim phases release. cs = pre @ claim # phases @ [release] \<and>
    is_claim claim \<and> list_all is_phase phases \<and>
    tc_actor_kind release = ''worker'' \<and> tc_operation release = RELEASE_COMPLETED"
proof -
  from assms(1,3) obtain ds c where cs: "cs = ds @ [c]" by (cases cs rule: rev_cases) auto
  with assms(1) obtain u where u: "runs authorized_step s ds u" "authorized_step u c READY_FOR_HUMAN"
    by (auto simp: runs_append)
  then have c: "tc_actor_kind c = ''worker'' \<and> tc_operation c = RELEASE_COMPLETED" and "u \<in> set held_states"
    using policy_rule_to_ready by (auto simp: authorized_step_iff held_states_def)
  with run_to_held [OF u(1) _ assms(2)] obtain pre d phases
    where "ds = pre @ d # phases" "is_claim d" "list_all is_phase phases" by blast
  with cs c show ?thesis by (intro exI [of _ pre] exI [of _ d] exI [of _ phases] exI [of _ c]) simp
qed

definition demo_command :: "string \<Rightarrow> TransitionOperation \<Rightarrow> TaskStatus \<Rightarrow> transition_command" where
  "demo_command a op t =
     \<lparr>tc_actor_kind = a, tc_target = t, tc_operation = op, tc_operator_decision_id = None\<rparr>"

theorem ready_for_human_needs_claim_witness:
  "\<exists>pre claim phases release.
     [demo_command ''control_plane'' CLAIM LEASED, demo_command ''worker'' RELEASE_COMPLETED READY_FOR_HUMAN]
       = pre @ claim # phases @ [release] \<and>
     is_claim claim \<and> list_all is_phase phases \<and>
     tc_actor_kind release = ''worker'' \<and> tc_operation release = RELEASE_COMPLETED"
  by (rule ready_for_human_needs_claim [of QUEUED])
    (simp_all add: demo_command_def authorized_step_iff policy_rule_simps held_states_def)

text \<open>
  C37: the four terminal states are absorbing: whatever commands arrive, of whatever actor, a run
  of authorized commands from a terminal state is empty.
\<close>

theorem terminal_states_absorbing:
  "s \<in> set TERMINAL \<Longrightarrow> runs authorized_step s cs t \<Longrightarrow> cs = [] \<and> t = s"
  by (rule task.final_runs)

theorem terminal_states_absorbing_witness: "\<exists>cs. runs authorized_step DEAD cs DEAD \<and> cs = []"
proof -
  have "runs authorized_step DEAD [] DEAD" by simp
  moreover have "[] = ([] :: transition_command list) \<and> DEAD = DEAD"
    by (rule terminal_states_absorbing) (simp_all add: TERMINAL_def)
  ultimately show ?thesis by blast
qed

text \<open>
  C38: the graph lists the edges \<open>inbox \<rightarrow> triaged\<close>, \<open>triaged \<rightarrow> queued\<close> and others out of the
  intake states, but no operation of the policy authorizes them: from \<open>inbox\<close> the authorized
  commands reach only \<open>cancelled\<close> and \<open>superseded\<close>.
\<close>

theorem inbox_never_queued:
  "runs authorized_step INBOX cs t \<Longrightarrow> t \<in> {INBOX, CANCELLED, SUPERSEDED}"
  by (rule task.inv_runs) simp_all

theorem inbox_never_queued_witness: "CANCELLED \<in> {INBOX, CANCELLED, SUPERSEDED}"
  by (rule inbox_never_queued [of "[demo_command ''control_plane'' CANCEL CANCELLED]"])
    (simp add: demo_command_def authorized_step_iff policy_rule_simps TERMINAL_def)

text \<open>
  C39: a failure is retried exactly when its class is retryable, the evidence is well formed and the
  attempt is within the accepted retries; so at most two retries follow an initial attempt, and
  an attempt that is not retried ends in \<open>dead\<close> or \<open>needs_human\<close>.
\<close>

theorem classify_retry_bound:
  "(rd_retry (classify_retry f n r) \<longleftrightarrow> f \<in> set RETRYABLE \<and> 1 \<le> n \<and> n \<le> r \<and> r \<le> 2) \<and>
   rd_terminal (classify_retry f n r) =
     (if rd_retry (classify_retry f n r) then Some RETRY
      else if f \<in> set RETRYABLE \<and> 1 \<le> n \<and> 0 \<le> r \<and> r \<le> 2 then Some DEAD else Some NEEDS_HUMAN) \<and>
   card {k. rd_retry (classify_retry f k r)} \<le> 2"
proof -
  have "{k. rd_retry (classify_retry f k r)} \<subseteq> {1, 2}"
    by (auto simp: classify_retry_def split: if_splits)
  then have "card {k. rd_retry (classify_retry f k r)} \<le> card {1, 2 :: int}"
    by (intro card_mono) auto
  then show ?thesis by (auto simp: classify_retry_def)
qed


interpretation unqueued: invariant_machine authorized_step "\<lambda>s. s \<in> set intake_states \<union> {CANCELLED, SUPERSEDED}"
proof
  fix s c t assume "s \<in> set intake_states \<union> {CANCELLED, SUPERSEDED}" "authorized_step s c t"
  then show "t \<in> set intake_states \<union> {CANCELLED, SUPERSEDED}"
    using policy_rule_from_intake policy_rule_not_terminal by (fastforce simp: authorized_step_iff TERMINAL_def)
qed

lemma held_reaches_ready:
  "runs authorized_step LEASED [demo_command ''worker'' RELEASE_COMPLETED READY_FOR_HUMAN] READY_FOR_HUMAN"
  "runs authorized_step REVIEWING [demo_command ''worker'' RELEASE_COMPLETED READY_FOR_HUMAN] READY_FOR_HUMAN"
  by (simp_all add: demo_command_def authorized_step_iff policy_rule_simps)

lemma one_more: "authorized_step s c t \<Longrightarrow> \<exists>cs. runs authorized_step t cs u \<Longrightarrow> \<exists>cs. runs authorized_step s cs u"
  by (metis runs.simps(2))

definition requeue_command :: transition_command where
  "requeue_command = \<lparr>tc_actor_kind = ''operator'', tc_target = QUEUED, tc_operation = OPERATOR_REQUEUE,
     tc_operator_decision_id = Some ''decision''\<rparr>"

lemma ready_steps:
  "authorized_step ANALYZING (demo_command ''worker'' PHASE IMPLEMENTING) IMPLEMENTING"
  "authorized_step IMPLEMENTING (demo_command ''worker'' PHASE VERIFYING) VERIFYING"
  "authorized_step VERIFYING (demo_command ''worker'' PHASE REVIEWING) REVIEWING"
  "authorized_step QUEUED (demo_command ''control_plane'' CLAIM LEASED) LEASED"
  "authorized_step RETRY (demo_command ''control_plane'' CLAIM LEASED) LEASED"
  "authorized_step NEEDS_HUMAN requeue_command QUEUED"
  by (simp_all add: demo_command_def requeue_command_def authorized_step_iff policy_rule_simps has_decision_def)

text \<open>
  C36: a task can still be delivered to a human from exactly the states that left intake and are not
  dead, cancelled or superseded: from each of them some run of authorized commands ends in
  \<open>ready_for_human\<close>, and from the others none does.
\<close>

theorem ready_reachable_iff:
  "(\<exists>cs. runs authorized_step s cs READY_FOR_HUMAN) \<longleftrightarrow>
     s \<notin> {INBOX, TRIAGED, WAITING_DESIGN_APPROVAL, DEAD, CANCELLED, SUPERSEDED}"
proof
  assume "\<exists>cs. runs authorized_step s cs READY_FOR_HUMAN"
  then obtain cs where cs: "runs authorized_step s cs READY_FOR_HUMAN" by blast
  have "s \<notin> set intake_states \<union> {CANCELLED, SUPERSEDED}"
    using unqueued.inv_runs [OF _ cs] by (auto simp: intake_states_def)
  moreover have "s \<noteq> DEAD" using task.final_runs [OF _ cs] by (auto simp: TERMINAL_def)
  ultimately show "s \<notin> {INBOX, TRIAGED, WAITING_DESIGN_APPROVAL, DEAD, CANCELLED, SUPERSEDED}"
    by (simp add: intake_states_def)
next
  let ?ready = "\<lambda>s. \<exists>cs. runs authorized_step s cs READY_FOR_HUMAN"
  have "?ready READY_FOR_HUMAN" by (rule exI [of _ "[]"]) simp
  moreover have "?ready LEASED" "?ready REVIEWING" using held_reaches_ready by blast+
  moreover from this have "?ready VERIFYING" "?ready QUEUED" "?ready RETRY" by (blast intro: one_more ready_steps)+
  moreover from this have "?ready IMPLEMENTING" "?ready NEEDS_HUMAN" by (blast intro: one_more ready_steps)+
  moreover from this have "?ready ANALYZING" by (blast intro: one_more ready_steps)
  moreover assume "s \<notin> {INBOX, TRIAGED, WAITING_DESIGN_APPROVAL, DEAD, CANCELLED, SUPERSEDED}"
  ultimately show "?ready s" by (cases s) auto
qed

end
