(* ===== verification/PyString.thy ===== *)
theory PyString
  imports Prelude
begin

text \<open>
  Python strings, and the character classes and patterns the contracts match them against.

  A \<open>str\<close> is its WTF-8 byte string: one \<open>char\<close> per byte of the UTF-8 encoding, with a
  lone surrogate written as the three bytes \<open>ED A0..BF xx\<close> (which UTF-8 proper forbids, so
  \<open>has_surrogate\<close> says when \<open>s.encode("utf-8")\<close> raises).  Then \<open>len(s.encode("utf-8"))\<close>
  is \<open>length s\<close>, a code point below 32 is a byte below 32, and the order of Python strings
  (by code point) is the lexicographic order of the bytes.
\<close>

section \<open>Strings\<close>

definition byte :: "char \<Rightarrow> nat" where
  "byte c = of_char c"

fun has_surrogate :: "string \<Rightarrow> bool" where
  "has_surrogate (c # d # cs) = ((byte c = 237 \<and> 160 \<le> byte d) \<or> has_surrogate (d # cs))"
| "has_surrogate cs = False"

text \<open>The characters of a string, each as its own byte string: \<open>set(s)\<close> is their set.\<close>

fun code_points :: "string \<Rightarrow> string list" where
  "code_points [] = []"
| "code_points (c # cs) =
     (case code_points cs of
        [] \<Rightarrow> [[c]]
      | p # ps \<Rightarrow> (if 128 \<le> byte (hd p) \<and> byte (hd p) < 192 then (c # p) # ps else [c] # p # ps))"

definition has_control :: "string \<Rightarrow> bool" where
  "has_control s = list_ex (\<lambda>c. byte c < 32) s"

definition digits_chars :: string where
  "digits_chars = ''0123456789''"

definition lower_chars :: string where
  "lower_chars = ''abcdefghijklmnopqrstuvwxyz''"

definition upper_chars :: string where
  "upper_chars = ''ABCDEFGHIJKLMNOPQRSTUVWXYZ''"

definition is_digit :: "char \<Rightarrow> bool" where
  "is_digit c = (c \<in> set digits_chars)"

definition is_alnum :: "char \<Rightarrow> bool" where
  "is_alnum c = (c \<in> set digits_chars \<or> c \<in> set lower_chars \<or> c \<in> set upper_chars)"

definition is_hex :: "char \<Rightarrow> bool" where
  "is_hex c = (c \<in> set digits_chars \<or> c \<in> set ''abcdef'')"

text \<open>
  \<open>[A-Za-z0-9][EXTRA A-Za-z0-9]{0,n}\<close> as a full match: the shape of all identifier patterns.
\<close>

definition ident_match :: "string \<Rightarrow> nat \<Rightarrow> string \<Rightarrow> bool" where
  "ident_match extra n s =
     (case s of [] \<Rightarrow> False
      | c # cs \<Rightarrow> is_alnum c \<and> length cs \<le> n \<and> list_all (\<lambda>d. is_alnum d \<or> d \<in> set extra) cs)"

definition ascii :: "string \<Rightarrow> bool" where
  "ascii s = list_all (\<lambda>c. byte c < 128) s"

lemma ident_match_Nil [simp]: "\<not> ident_match extra n []"
  by (simp add: ident_match_def)

lemma code_points_Nil_iff [simp]: "code_points s = [] \<longleftrightarrow> s = []"
  by (cases s) (auto split: list.splits)

section \<open>Comparing literals\<close>

text \<open>Equality of strings, decided bit by bit and stopping at the first difference.\<close>

fun char_eq :: "char \<Rightarrow> char \<Rightarrow> bool" where
  "char_eq (Char a0 a1 a2 a3 a4 a5 a6 a7) (Char b0 b1 b2 b3 b4 b5 b6 b7) =
     (if a0 = b0 then if a1 = b1 then if a2 = b2 then if a3 = b3 then
      if a4 = b4 then if a5 = b5 then if a6 = b6 then a7 = b7
      else False else False else False else False else False else False else False)"

fun str_eq :: "string \<Rightarrow> string \<Rightarrow> bool" where
  "str_eq [] [] = True"
| "str_eq (x # xs) (y # ys) = (if char_eq x y then str_eq xs ys else False)"
| "str_eq [] (y # ys) = False"
| "str_eq (x # xs) [] = False"

lemma char_eq_iff: "char_eq c d \<longleftrightarrow> c = d"
  by (cases c; cases d) auto

lemma str_eq_iff: "str_eq s t \<longleftrightarrow> s = t"
  by (induction s t rule: str_eq.induct) (auto simp: char_eq_iff)

end
