(* ===== verification/PyTime.thy ===== *)
theory PyTime
  imports PyString "HOL-Library.Product_Lexorder"
begin

text \<open>
  Timezone-aware \<open>datetime\<close> values and the three library calls the contracts make on them:
  \<open>fromisoformat\<close>, \<open>astimezone(timezone.utc)\<close> and \<open>isoformat\<close>.

  A \<open>datetime\<close> is held in UTC, by its fields.  Two aware datetimes of Python are equal, and
  ordered, by the instant they denote, so the UTC form stands for all of them; a value whose
  \<open>tzinfo\<close> is \<open>None\<close> appears only inside \<open>fromisoformat\<close> (\<open>Naive\<close>).  The parser follows
  \<open>Lib/datetime.py\<close> of Python 3.11 (the oldest version the package accepts), with digits
  required where the C accelerator requires them.  \<open>valid_dt\<close> is what the constructor of
  \<open>datetime\<close> enforces: every Python object satisfies it.
\<close>

section \<open>Calendar\<close>

datatype datetime =
  DateTime (dt_year: int) (dt_month: int) (dt_day: int) (dt_hour: int) (dt_minute: int)
    (dt_second: int) (dt_micro: int)

definition is_leap :: "int \<Rightarrow> bool" where
  "is_leap y = (y mod 4 = 0 \<and> (y mod 100 \<noteq> 0 \<or> y mod 400 = 0))"

definition days_in_month :: "int \<Rightarrow> int \<Rightarrow> int" where
  "days_in_month y m =
     (if m = 2 then (if is_leap y then 29 else 28)
      else if m = 4 \<or> m = 6 \<or> m = 9 \<or> m = 11 then 30 else 31)"

definition days_before_year :: "int \<Rightarrow> int" where
  "days_before_year y = (y - 1) * 365 + (y - 1) div 4 - (y - 1) div 100 + (y - 1) div 400"

definition month_offsets :: "int list" where
  "month_offsets = [-1, 0, 31, 59, 90, 120, 151, 181, 212, 243, 273, 304, 334]"

definition days_before_month :: "int \<Rightarrow> int \<Rightarrow> int" where
  "days_before_month y m = month_offsets ! nat m + (if 2 < m \<and> is_leap y then 1 else 0)"

definition ymd2ord :: "int \<Rightarrow> int \<Rightarrow> int \<Rightarrow> int" where
  "ymd2ord y m d = days_before_year y + days_before_month y m + d"

definition max_ordinal :: int where
  "max_ordinal = 3652059"

text \<open>\<open>_ord2ymd\<close>: the month and day of offset \<open>n\<close> within a year, then the year.\<close>

definition month_day :: "bool \<Rightarrow> int \<Rightarrow> int \<times> int" where
  "month_day leap n =
     (let month = (n + 50) div 32;
          prec = month_offsets ! nat month + (if 2 < month \<and> leap then 1 else 0)
      in if n < prec
         then (let m = month - 1
               in (m, n - (month_offsets ! nat m + (if 2 < m \<and> leap then 1 else 0)) + 1))
         else (month, n - prec + 1))"

definition ord2ymd :: "int \<Rightarrow> int \<times> int \<times> int" where
  "ord2ymd ordinal =
     (let n = ordinal - 1; n400 = n div 146097; n = n mod 146097;
          n100 = n div 36524; n = n mod 36524;
          n4 = n div 1461; n = n mod 1461;
          n1 = n div 365; n = n mod 365;
          year = n400 * 400 + 1 + n100 * 100 + n4 * 4 + n1
      in if n1 = 4 \<or> n100 = 4 then (year - 1, 12, 31)
         else (year, month_day (is_leap year) n))"

definition valid_date :: "int \<Rightarrow> int \<Rightarrow> int \<Rightarrow> bool" where
  "valid_date y m d =
     (1 \<le> y \<and> y \<le> 9999 \<and> 1 \<le> m \<and> m \<le> 12 \<and> 1 \<le> d \<and> d \<le> days_in_month y m)"

definition valid_dt :: "datetime \<Rightarrow> bool" where
  "valid_dt t =
     (valid_date (dt_year t) (dt_month t) (dt_day t) \<and>
      0 \<le> dt_hour t \<and> dt_hour t \<le> 23 \<and> 0 \<le> dt_minute t \<and> dt_minute t \<le> 59 \<and>
      0 \<le> dt_second t \<and> dt_second t \<le> 59 \<and> 0 \<le> dt_micro t \<and> dt_micro t \<le> 999999)"

section \<open>Order and instants\<close>

definition dt_fields :: "datetime \<Rightarrow> int \<times> int \<times> int \<times> int \<times> int \<times> int \<times> int" where
  "dt_fields t =
     (dt_year t, dt_month t, dt_day t, dt_hour t, dt_minute t, dt_second t, dt_micro t)"

lemma dt_fields_inj: "dt_fields s = dt_fields t \<longleftrightarrow> s = t"
  by (cases s; cases t) (auto simp: dt_fields_def)

instantiation datetime :: linorder
begin

definition less_eq_datetime :: "datetime \<Rightarrow> datetime \<Rightarrow> bool" where
  "less_eq_datetime s t = (dt_fields s \<le> dt_fields t)"

definition less_datetime :: "datetime \<Rightarrow> datetime \<Rightarrow> bool" where
  "less_datetime s t = (dt_fields s < dt_fields t)"

instance
  by standard (auto simp: less_eq_datetime_def less_datetime_def less_le_not_le dt_fields_inj
      dest: order.antisym)

end

text \<open>The \<open>date()\<close> of a UTC datetime and its distance in microseconds from 0001-01-01.\<close>

definition dt_date :: "datetime \<Rightarrow> int \<times> int \<times> int" where
  "dt_date t = (dt_year t, dt_month t, dt_day t)"

definition instant :: "datetime \<Rightarrow> int" where
  "instant t =
     ((((ymd2ord (dt_year t) (dt_month t) (dt_day t) - 1) * 24 + dt_hour t) * 60 + dt_minute t) * 60
       + dt_second t) * 1000000 + dt_micro t"

definition of_instant :: "int \<Rightarrow> datetime res" where
  "of_instant i =
     (let us = i mod 1000000; secs = i div 1000000; s = secs mod 60; mins = secs div 60;
          m = mins mod 60; hours = mins div 60; h = hours mod 24; ordinal = hours div 24 + 1
      in if 1 \<le> ordinal \<and> ordinal \<le> max_ordinal
         then (case ord2ymd ordinal of (y, mo, d) \<Rightarrow> Inr (DateTime y mo d h m s us))
         else Inl OverflowError)"

lemma month_day_valid:
  assumes "0 \<le> n" "n \<le> 365" "n = 365 \<longrightarrow> leap" "month_day leap n = (m, d)"
  shows "1 \<le> m \<and> m \<le> 12 \<and> 1 \<le> d \<and>
         d \<le> (if m = 2 then (if leap then 29 else 28)
              else if m = 4 \<or> m = 6 \<or> m = 9 \<or> m = 11 then 30 else 31)"
proof -
  define k where "k = (n + 50) div 32"
  define p where "p = month_offsets ! nat k + (if 2 < k \<and> leap then 1 else 0)"
  have bounds: "32 * k \<le> n + 50" "n + 50 < 32 * k + 32"
    unfolding k_def by (simp_all add: mult.commute)
  have "1 \<le> k" "k \<le> 12" using bounds assms(1,2) by linarith+
  then have "k = 1 \<or> k = 2 \<or> k = 3 \<or> k = 4 \<or> k = 5 \<or> k = 6 \<or> k = 7 \<or> k = 8 \<or> k = 9 \<or> k = 10 \<or>
      k = 11 \<or> k = 12"
    by presburger
  moreover have res: "(m, d) = (if n < p
      then (k - 1, n - (month_offsets ! nat (k - 1) + (if 2 < k - 1 \<and> leap then 1 else 0)) + 1)
      else (k, n - p + 1))"
    using assms(4) unfolding month_day_def Let_def k_def [symmetric] p_def [symmetric] by metis
  ultimately show ?thesis
    by (elim disjE) (use bounds assms(1-3) in
      \<open>cases leap; auto simp: p_def month_offsets_def split: if_splits\<close>)+
qed

lemma ord2ymd_valid:
  assumes "1 \<le> n" "n \<le> max_ordinal" "ord2ymd n = (y, m, d)"
  shows "valid_date y m d"
proof -
  define n400 where "n400 = (n - 1) div 146097"
  define r400 where "r400 = (n - 1) mod 146097"
  define n100 where "n100 = r400 div 36524"
  define r100 where "r100 = r400 mod 36524"
  define n4 where "n4 = r100 div 1461"
  define r4 where "r4 = r100 mod 1461"
  define n1 where "n1 = r4 div 365"
  define r where "r = r4 mod 365"
  define year where "year = n400 * 400 + 1 + n100 * 100 + n4 * 4 + n1"
  note defs = n400_def r400_def n100_def r100_def n4_def r4_def n1_def r_def
  have eq: "n - 1 = 146097 * n400 + r400" "r400 = 36524 * n100 + r100" "r100 = 1461 * n4 + r4"
    "r4 = 365 * n1 + r"
    unfolding defs by simp_all
  have b: "0 \<le> r400" "r400 < 146097" "0 \<le> r100" "r100 < 36524" "0 \<le> r4" "r4 < 1461"
    "0 \<le> r" "r < 365" "0 \<le> n400" "0 \<le> n100" "0 \<le> n4" "0 \<le> n1"
    unfolding defs using assms(1) by simp_all
  have c: "n400 \<le> 24" "n100 \<le> 4" "n4 \<le> 24" "n1 \<le> 4"
    using eq b assms(2) unfolding max_ordinal_def by linarith+
  have e: "ord2ymd n = (if n1 = 4 \<or> n100 = 4 then (year - 1, 12, 31)
      else (year, month_day (is_leap year) r))"
    unfolding ord2ymd_def Let_def year_def defs by simp
  show ?thesis
  proof (cases "n1 = 4 \<or> n100 = 4")
    case True
    have "year - 1 \<le> 9999" "1 \<le> year - 1"
      using True eq b c assms(2) unfolding year_def max_ordinal_def by auto
    then show ?thesis using True e assms(3) by (simp add: valid_date_def days_in_month_def)
  next
    case False
    have y: "year \<le> 9999" "1 \<le> year"
      using False eq b c assms(2) unfolding year_def max_ordinal_def by auto
    have "y = year" "month_day (is_leap year) r = (m, d)"
      using False e assms(3) by auto
    moreover have "1 \<le> m \<and> m \<le> 12 \<and> 1 \<le> d \<and>
         d \<le> (if m = 2 then (if is_leap year then 29 else 28)
              else if m = 4 \<or> m = 6 \<or> m = 9 \<or> m = 11 then 30 else 31)"
      by (rule month_day_valid [OF _ _ _ calculation(2)]) (use b in auto)
    ultimately show ?thesis using y by (auto simp: valid_date_def days_in_month_def)
  qed
qed

lemma of_instant_valid:
  assumes "of_instant i = Inr t"
  shows "valid_dt t"
proof -
  define us where "us = i mod 1000000"
  define s where "s = i div 1000000 mod 60"
  define m where "m = i div 1000000 div 60 mod 60"
  define h where "h = i div 1000000 div 60 div 60 mod 24"
  define n where "n = i div 1000000 div 60 div 60 div 24 + 1"
  obtain y mo d where ymd: "ord2ymd n = (y, mo, d)" by (metis prod_cases3)
  have eq: "of_instant i = (if 1 \<le> n \<and> n \<le> max_ordinal
      then (case ord2ymd n of (y, mo, d) \<Rightarrow> Inr (DateTime y mo d h m s us)) else Inl OverflowError)"
    by (simp only: of_instant_def Let_def us_def s_def m_def h_def n_def)
  have b: "0 \<le> h \<and> h \<le> 23" "0 \<le> m \<and> m \<le> 59" "0 \<le> s \<and> s \<le> 59" "0 \<le> us \<and> us \<le> 999999"
    using pos_mod_bound [of 24] pos_mod_bound [of 60] pos_mod_bound [of 1000000]
    unfolding us_def s_def m_def h_def by simp_all
  have c: "1 \<le> n \<and> n \<le> max_ordinal"
    using assms unfolding eq by (meson Inl_Inr_False)
  then have t: "t = DateTime y mo d h m s us"
    using assms unfolding eq ymd by simp
  show ?thesis
    using b ord2ymd_valid [OF _ _ ymd] c unfolding t valid_dt_def datetime.sel by blast
qed

section \<open>Digits\<close>

definition digit_char :: "int \<Rightarrow> char" where
  "digit_char d = digits_chars ! nat d"

fun digits_val :: "int \<Rightarrow> string \<Rightarrow> int" where
  "digits_val acc [] = acc"
| "digits_val acc (c # cs) = digits_val (acc * 10 + (int (byte c) - 48)) cs"

text \<open>The number written by exactly the next \<open>k\<close> characters, all of them digits.\<close>

definition num :: "nat \<Rightarrow> string \<Rightarrow> int option" where
  "num k s =
     (if k \<le> length s \<and> list_all is_digit (take k s) then Some (digits_val 0 (take k s)) else None)"

definition two_digits :: "int \<Rightarrow> string" where
  "two_digits n = [digit_char (n div 10 mod 10), digit_char (n mod 10)]"

definition four_digits :: "int \<Rightarrow> string" where
  "four_digits n = two_digits (n div 100) @ two_digits (n mod 100)"

definition six_digits :: "int \<Rightarrow> string" where
  "six_digits n = two_digits (n div 10000) @ four_digits (n mod 10000)"

section \<open>\<open>isoformat\<close> of a UTC datetime\<close>

definition isoformat :: "datetime \<Rightarrow> string" where
  "isoformat t =
     four_digits (dt_year t) @ ''-'' @ two_digits (dt_month t) @ ''-'' @ two_digits (dt_day t) @ ''T'' @
     two_digits (dt_hour t) @ '':'' @ two_digits (dt_minute t) @ '':'' @ two_digits (dt_second t) @
     (if dt_micro t = 0 then [] else ''.'' @ six_digits (dt_micro t)) @ ''+00:00''"

section \<open>\<open>fromisoformat\<close>\<close>

datatype iso_result =
    IsoValueError
  | Naive datetime
  | Aware datetime int

text \<open>Every non-ASCII character as one byte that no branch of the parser accepts.\<close>

definition fold_ascii :: "string \<Rightarrow> string" where
  "fold_ascii s = map (\<lambda>p. if length p = 1 then hd p else char_of (255::nat)) (code_points s)"

definition digit_run :: "nat \<Rightarrow> string \<Rightarrow> nat" where
  "digit_run i s = i + length (takeWhile is_digit (drop i s))"

text \<open>\<open>_find_isoformat_datetime_separator\<close>, for a string of at least seven characters.\<close>

definition separator_index :: "string \<Rightarrow> nat option" where
  "separator_index s =
     (let n = length s in
      if n = 7 then Some 7
      else if s ! 4 = CHR ''-'' then
        (if s ! 5 = CHR ''W'' then
           (if n < 8 then None
            else if 8 < n \<and> s ! 8 = CHR ''-'' then
              (if n = 9 then None
               else if 10 < n \<and> is_digit (s ! 10) then Some 8 else Some 10)
            else Some 8)
         else Some 10)
      else if s ! 4 = CHR ''W'' then
        (let idx = digit_run 7 s
         in if idx < 9 then Some idx else if even idx then Some 7 else Some 8)
      else Some 8)"

definition week1_monday :: "int \<Rightarrow> int" where
  "week1_monday y =
     (let firstday = ymd2ord y 1 1; firstweekday = (firstday + 6) mod 7; monday = firstday - firstweekday
      in if 3 < firstweekday then monday + 7 else monday)"

definition iso_week_date :: "int \<Rightarrow> int \<Rightarrow> int \<Rightarrow> (int \<times> int \<times> int) option" where
  "iso_week_date y w d =
     (let first_weekday = ymd2ord y 1 1 mod 7;
          week_ok = (0 < w \<and> w < 53) \<or>
            (w = 53 \<and> (first_weekday = 4 \<or> (first_weekday = 3 \<and> is_leap y)))
      in if \<not> (1 \<le> y \<and> y \<le> 9999) \<or> \<not> week_ok \<or> \<not> (0 < d \<and> d < 8) then None
         else Some (ord2ymd (week1_monday y + (w - 1) * 7 + (d - 1))))"

definition parse_week :: "int \<Rightarrow> bool \<Rightarrow> string \<Rightarrow> (int \<times> int \<times> int) option" where
  "parse_week y sep s =
     (case num 2 s of None \<Rightarrow> None
      | Some w \<Rightarrow>
        (let r = drop 2 s in
         if r = [] then iso_week_date y w 1
         else if (hd r = CHR ''-'') \<noteq> sep then None
         else (case num 1 (if sep then tl r else r) of None \<Rightarrow> None
               | Some d \<Rightarrow> iso_week_date y w d)))"

definition parse_date :: "string \<Rightarrow> (int \<times> int \<times> int) option" where
  "parse_date s =
     (case num 4 s of None \<Rightarrow> None
      | Some y \<Rightarrow>
        (let sep = (s ! 4 = CHR ''-''); r = drop (if sep then 5 else 4) s in
         if r \<noteq> [] \<and> hd r = CHR ''W'' then parse_week y sep (tl r)
         else (case num 2 r of None \<Rightarrow> None
           | Some m \<Rightarrow>
             (let r' = drop 2 r in
              if (r' \<noteq> [] \<and> hd r' = CHR ''-'') \<noteq> sep then None
              else (case num 2 (if sep then tl r' else r') of None \<Rightarrow> None
                    | Some d \<Rightarrow> Some (y, m, d))))))"

text \<open>
  \<open>_parse_hh_mm_ss_ff\<close>: \<open>parse_hms\<close> reads up to three components (\<open>k\<close> counts them,
  \<open>sep\<close> is whether the first was followed by a colon) and returns what is left.
\<close>

function parse_hms :: "nat \<Rightarrow> bool \<Rightarrow> string \<Rightarrow> (int list \<times> string) option" where
  "parse_hms k sep s =
     (case num 2 s of None \<Rightarrow> None
      | Some v \<Rightarrow>
        (let r = drop 2 s; sep' = (if k = 0 then r \<noteq> [] \<and> hd r = CHR '':'' else sep) in
         if r = [] \<or> 2 \<le> k then Some ([v], r)
         else if sep' \<and> hd r \<noteq> CHR '':'' then None
         else (case parse_hms (Suc k) sep' (if sep' then tl r else r) of None \<Rightarrow> None
               | Some (vs, r') \<Rightarrow> Some (v # vs, r'))))"
  by pat_completeness auto
termination
  by (relation "measure (\<lambda>(k, _, _). 3 - k)") auto

declare parse_hms.simps [simp del]

definition parse_fraction :: "string \<Rightarrow> int option" where
  "parse_fraction r =
     (case r of [] \<Rightarrow> Some 0
      | c # fs \<Rightarrow>
        (if c \<noteq> CHR ''.'' \<and> c \<noteq> CHR '','' \<or> fs = [] then None
         else (case num (min 6 (length fs)) fs of None \<Rightarrow> None
               | Some v \<Rightarrow>
                 (if list_all is_digit (drop 6 fs) then Some (v * 10 ^ (6 - min 6 (length fs)))
                  else None))))"

definition comp_at :: "int list \<Rightarrow> nat \<Rightarrow> int" where
  "comp_at vs i = (if i < length vs then vs ! i else 0)"

definition parse_time_comps :: "string \<Rightarrow> (int \<times> int \<times> int \<times> int) option" where
  "parse_time_comps s =
     (case parse_hms 0 True s of None \<Rightarrow> None
      | Some (vs, r) \<Rightarrow>
        (case parse_fraction r of None \<Rightarrow> None
         | Some us \<Rightarrow> Some (comp_at vs 0, comp_at vs 1, comp_at vs 2, us)))"

definition find_char :: "char \<Rightarrow> string \<Rightarrow> nat option" where
  "find_char c s = (let i = length (takeWhile (\<lambda>d. d \<noteq> c) s) in if i < length s then Some i else None)"

definition tz_index :: "string \<Rightarrow> nat option" where
  "tz_index s =
     (case find_char CHR ''-'' s of Some i \<Rightarrow> Some i
      | None \<Rightarrow> (case find_char CHR ''+'' s of Some i \<Rightarrow> Some i | None \<Rightarrow> find_char CHR ''Z'' s))"

text \<open>The offset in microseconds of the characters after the sign at the head of \<open>s\<close>.\<close>

definition parse_offset :: "string \<Rightarrow> int option" where
  "parse_offset s =
     (if length s \<in> {1, 2, 4} \<or> hd s = CHR ''Z'' then None
      else (case parse_time_comps (tl s) of None \<Rightarrow> None
        | Some (h, m, sec, us) \<Rightarrow>
          (let total = ((h * 60 + m) * 60 + sec) * 1000000 + us
           in if total < 86400000000
              then Some (if hd s = CHR ''-'' then - total else total) else None)))"

text \<open>\<open>_parse_isoformat_time\<close>: the components and the offset, if there is one.\<close>

definition parse_time :: "string \<Rightarrow> ((int \<times> int \<times> int \<times> int) \<times> int option) option" where
  "parse_time s =
     (if length s < 2 then None
      else (case tz_index s of
          None \<Rightarrow> (case parse_time_comps s of None \<Rightarrow> None | Some t \<Rightarrow> Some (t, None))
        | Some i \<Rightarrow>
          (case parse_time_comps (take i s) of None \<Rightarrow> None
           | Some t \<Rightarrow>
             (if drop i s = ''Z'' then Some (t, Some 0)
              else (case parse_offset (drop i s) of None \<Rightarrow> None | Some off \<Rightarrow> Some (t, Some off))))))"

text \<open>The constructor call at the end of \<open>fromisoformat\<close>.\<close>

definition make_datetime :: "int \<times> int \<times> int \<Rightarrow> (int \<times> int \<times> int \<times> int) \<times> int option \<Rightarrow> iso_result" where
  "make_datetime date time =
     (case date of (y, mo, d) \<Rightarrow> case time of ((h, m, sec, us), off) \<Rightarrow>
       (let t = DateTime y mo d h m sec us in
        if \<not> valid_dt t then IsoValueError
        else (case off of None \<Rightarrow> Naive t | Some z \<Rightarrow> Aware t z)))"

definition fromisoformat :: "string \<Rightarrow> iso_result" where
  "fromisoformat text =
     (let s = fold_ascii text in
      if length s < 7 then IsoValueError
      else (case separator_index s of None \<Rightarrow> IsoValueError
        | Some i \<Rightarrow>
          (case parse_date (take i s) of None \<Rightarrow> IsoValueError
           | Some date \<Rightarrow>
             (let rest = drop (Suc i) s in
              case (if rest = [] then Some ((0, 0, 0, 0), None) else parse_time rest) of
                None \<Rightarrow> IsoValueError
              | Some time \<Rightarrow> make_datetime date time))))"

lemma make_datetime_Aware: "make_datetime date time = Aware t off \<Longrightarrow> valid_dt t"
  by (auto simp: make_datetime_def Let_def split: prod.splits if_splits option.splits)

lemma fromisoformat_Aware_valid:
  assumes "fromisoformat s = Aware t off"
  shows "valid_dt t"
proof -
  obtain date time where "make_datetime date time = Aware t off"
    using assms unfolding fromisoformat_def Let_def
    by (auto split: option.splits if_split_asm)
  then show ?thesis by (rule make_datetime_Aware)
qed

text \<open>\<open>astimezone(timezone.utc)\<close> of a value with the given UTC offset.\<close>

definition astimezone_utc :: "datetime \<Rightarrow> int \<Rightarrow> datetime res" where
  "astimezone_utc t off = (if off = 0 then Inr t else of_instant (instant t - off))"

section \<open>\<open>str.replace\<close>\<close>

function str_replace :: "string \<Rightarrow> string \<Rightarrow> string \<Rightarrow> string" where
  "str_replace old new s =
     (if s = [] \<or> old = [] then s
      else if take (length old) s = old then new @ str_replace old new (drop (length old) s)
      else hd s # str_replace old new (tl s))"
  by pat_completeness auto
termination
  by (relation "measure (\<lambda>(_, _, s). length s)") auto

declare str_replace.simps [simp del]

lemma str_replace_at_end:
  assumes "old \<noteq> []" "hd old \<notin> set xs"
  shows "str_replace old new (xs @ old) = xs @ new"
  using assms
proof (induction xs)
  case Nil
  then show ?case
    by (subst str_replace.simps) (simp add: str_replace.simps [of old new "[]"])
next
  case (Cons x xs)
  then have "take (length old) (x # xs @ old) \<noteq> old"
    by (cases old) auto
  with Cons show ?case
    by (subst str_replace.simps) simp
qed

section \<open>The round trip\<close>

lemma length_digits [simp]:
  "length (two_digits n) = 2" "length (four_digits n) = 4" "length (six_digits n) = 6"
  by (simp_all add: two_digits_def four_digits_def six_digits_def)

lemma digit_cases:
  assumes "0 \<le> d" "d \<le> (9::int)"
  shows "d \<in> {0, 1, 2, 3, 4, 5, 6, 7, 8, 9}"
  using assms by auto presburger

lemma byte_digit_char: "0 \<le> d \<Longrightarrow> d \<le> 9 \<Longrightarrow> int (byte (digit_char d)) = 48 + d"
  using digit_cases [of d] by (auto simp: digit_char_def digits_chars_def byte_def)

lemma is_digit_digit_char: "0 \<le> d \<Longrightarrow> d \<le> 9 \<Longrightarrow> is_digit (digit_char d)"
  using digit_cases [of d] by (auto simp: digit_char_def digits_chars_def is_digit_def)

lemma digits_val_append: "digits_val acc (xs @ ys) = digits_val (digits_val acc xs) ys"
  by (induction xs arbitrary: acc) auto

lemma two_digits_read:
  "0 \<le> n \<Longrightarrow> n \<le> 99 \<Longrightarrow> digits_val acc (two_digits n) = acc * 100 + n"
  "list_all is_digit (two_digits n)"
  by (auto simp: two_digits_def byte_digit_char is_digit_digit_char)

lemma four_digits_read:
  assumes "0 \<le> n" "n \<le> 9999"
  shows "digits_val acc (four_digits n) = acc * 10000 + n"
proof -
  have "0 \<le> n div 100" "n div 100 \<le> 99" "0 \<le> n mod 100" "n mod 100 \<le> 99"
    using assms by auto
  then have "digits_val acc (four_digits n) = (acc * 100 + n div 100) * 100 + n mod 100"
    unfolding four_digits_def digits_val_append by (simp only: two_digits_read)
  then show ?thesis by simp
qed

lemma six_digits_read:
  assumes "0 \<le> n" "n \<le> 999999"
  shows "digits_val acc (six_digits n) = acc * 1000000 + n"
proof -
  have "0 \<le> n div 10000" "n div 10000 \<le> 99" "0 \<le> n mod 10000" "n mod 10000 \<le> 9999"
    using assms by auto
  then have "digits_val acc (six_digits n) = (acc * 100 + n div 10000) * 10000 + n mod 10000"
    unfolding six_digits_def digits_val_append by (simp only: two_digits_read four_digits_read)
  then show ?thesis by simp
qed

lemma digits_all:
  "list_all is_digit (two_digits n)" "list_all is_digit (four_digits n)" "list_all is_digit (six_digits n)"
  by (simp_all add: two_digits_read(2) four_digits_def six_digits_def)

lemma num_digits:
  "0 \<le> n \<Longrightarrow> n \<le> 99 \<Longrightarrow> num 2 (two_digits n @ r) = Some n"
  "0 \<le> n \<Longrightarrow> n \<le> 9999 \<Longrightarrow> num 4 (four_digits n @ r) = Some n"
  "0 \<le> n \<Longrightarrow> n \<le> 999999 \<Longrightarrow> num 6 (six_digits n @ r) = Some n"
  by (simp_all add: num_def digits_all two_digits_read(1) four_digits_read six_digits_read)

lemma is_digit_not:
  "is_digit c \<Longrightarrow> c \<noteq> CHR ''+'' \<and> c \<noteq> CHR ''-'' \<and> c \<noteq> CHR ''Z'' \<and> c \<noteq> CHR ''W'' \<and> c \<noteq> CHR '':'' \<and> byte c < 128"
  by (auto simp: is_digit_def digits_chars_def byte_def)

lemma digits_not:
  assumes "list_all is_digit s"
  shows "CHR ''+'' \<notin> set s" "CHR ''-'' \<notin> set s" "CHR ''Z'' \<notin> set s" "CHR '':'' \<notin> set s" "ascii s"
  using assms is_digit_not by (auto simp: list_all_iff ascii_def)

lemma code_points_ascii: "ascii s \<Longrightarrow> code_points s = map (\<lambda>c. [c]) s"
proof (induction s)
  case (Cons c s)
  then have "code_points s = map (\<lambda>c. [c]) s" by (simp add: ascii_def)
  with Cons.prems show ?case by (cases s) (auto simp: ascii_def)
qed simp

lemma fold_ascii_id: "ascii s \<Longrightarrow> fold_ascii s = s"
  by (simp add: fold_ascii_def code_points_ascii comp_def)

definition time_body :: "datetime \<Rightarrow> string" where
  "time_body t = two_digits (dt_hour t) @ '':'' @ two_digits (dt_minute t) @ '':'' @ two_digits (dt_second t) @
     (if dt_micro t = 0 then [] else ''.'' @ six_digits (dt_micro t))"

definition date_body :: "datetime \<Rightarrow> string" where
  "date_body t = four_digits (dt_year t) @ ''-'' @ two_digits (dt_month t) @ ''-'' @ two_digits (dt_day t)"

lemma isoformat_split: "isoformat t = (date_body t @ ''T'' @ time_body t) @ ''+00:00''"
  by (simp add: isoformat_def date_body_def time_body_def)

lemma bodies_not:
  "CHR ''+'' \<notin> set (date_body t @ ''T'' @ time_body t)" "CHR ''Z'' \<notin> set (date_body t @ ''T'' @ time_body t)"
  "ascii (isoformat t)" "CHR ''-'' \<notin> set (time_body t)" "CHR ''+'' \<notin> set (time_body t)"
  using digits_not [OF digits_all(1)] digits_not [OF digits_all(2)] digits_not [OF digits_all(3)]
  by (auto simp: isoformat_def date_body_def time_body_def ascii_def byte_def)

lemma parse_date_body:
  assumes "valid_dt t"
  shows "parse_date (date_body t) = Some (dt_year t, dt_month t, dt_day t)"
proof -
  have b: "0 \<le> dt_year t" "dt_year t \<le> 9999" "0 \<le> dt_month t" "dt_month t \<le> 99"
    "0 \<le> dt_day t" "dt_day t \<le> 99"
    using assms by (auto simp: valid_dt_def valid_date_def days_in_month_def split: if_splits)
  have hd: "hd (two_digits n @ r) \<noteq> CHR ''W''" for n r
    using is_digit_not [OF is_digit_digit_char, of "n div 10 mod 10"] by (simp add: two_digits_def)
  have n: "num 4 (date_body t) = Some (dt_year t)"
    "num 2 (two_digits (dt_month t) @ ''-'' @ two_digits (dt_day t)) = Some (dt_month t)"
    "num 2 (two_digits (dt_day t)) = Some (dt_day t)"
    using b num_digits(1) [of "dt_day t" "[]"]
    unfolding date_body_def by (simp_all only: num_digits append_Nil2)
  have "date_body t ! 4 = CHR ''-''"
    "drop 5 (date_body t) = two_digits (dt_month t) @ ''-'' @ two_digits (dt_day t)"
    "drop 2 (two_digits (dt_month t) @ ''-'' @ two_digits (dt_day t)) = ''-'' @ two_digits (dt_day t)"
    unfolding date_body_def by (simp_all add: nth_append)
  then show ?thesis
    unfolding parse_date_def Let_def using n hd [of "dt_month t"] by simp
qed

lemma parse_time_body:
  assumes "valid_dt t"
  shows "parse_time_comps (time_body t) = Some (dt_hour t, dt_minute t, dt_second t, dt_micro t)"
proof -
  define frac where "frac = (if dt_micro t = 0 then [] else ''.'' @ six_digits (dt_micro t))"
  have b: "0 \<le> dt_hour t" "dt_hour t \<le> 99" "0 \<le> dt_minute t" "dt_minute t \<le> 99"
    "0 \<le> dt_second t" "dt_second t \<le> 99" "0 \<le> dt_micro t" "dt_micro t \<le> 999999"
    using assms by (auto simp: valid_dt_def)
  have s: "parse_hms (Suc (Suc 0)) True (two_digits (dt_second t) @ frac) = Some ([dt_second t], frac)"
    using b by (subst parse_hms.simps) (simp add: num_digits)
  have m: "parse_hms (Suc 0) True (two_digits (dt_minute t) @ '':'' @ two_digits (dt_second t) @ frac)
      = Some ([dt_minute t, dt_second t], frac)"
    using b s by (subst parse_hms.simps) (simp add: num_digits)
  have "parse_hms 0 True (time_body t) = Some ([dt_hour t, dt_minute t, dt_second t], frac)"
    unfolding time_body_def frac_def [symmetric]
    using b m by (subst parse_hms.simps) (simp add: num_digits)
  moreover have "parse_fraction frac = Some (dt_micro t)"
    using b num_digits(3) [of "dt_micro t" "[]"] length_digits(3) [of "dt_micro t"]
    by (cases "six_digits (dt_micro t) = []") (auto simp: parse_fraction_def frac_def)
  ultimately show ?thesis
    by (simp add: parse_time_comps_def comp_at_def)
qed

lemma find_char_none: "c \<notin> set s \<Longrightarrow> find_char c s = None"
proof -
  assume "c \<notin> set s"
  then have s: "takeWhile (\<lambda>d. d \<noteq> c) s = s" by (auto simp: takeWhile_eq_all_conv)
  show ?thesis unfolding find_char_def Let_def s by simp
qed

lemma find_char_some: "c \<notin> set xs \<Longrightarrow> find_char c (xs @ c # ys) = Some (length xs)"
proof -
  assume "c \<notin> set xs"
  then have "takeWhile (\<lambda>d. d \<noteq> c) (xs @ c # ys) = xs" by (auto simp: takeWhile_append)
  then show ?thesis by (simp add: find_char_def)
qed

lemma parse_offset_zero: "parse_offset ''+00:00'' = Some 0"
  by code_simp

lemma parse_time_utc:
  assumes "valid_dt t"
  shows "parse_time (time_body t @ ''+00:00'')
    = Some ((dt_hour t, dt_minute t, dt_second t, dt_micro t), Some 0)"
proof -
  have "tz_index (time_body t @ ''+00:00'') = Some (length (time_body t))"
    using bodies_not(4,5) [of t] find_char_some [of "CHR ''+''" "time_body t" "''00:00''"]
    by (simp add: tz_index_def find_char_none)
  moreover have "2 \<le> length (time_body t)" by (simp add: time_body_def)
  ultimately show ?thesis
    using parse_time_body [OF assms] parse_offset_zero by (simp add: parse_time_def)
qed

theorem fromisoformat_isoformat:
  assumes "valid_dt t"
  shows "fromisoformat (isoformat t) = Aware t 0"
proof -
  have len: "length (date_body t) = 10" by (simp add: date_body_def)
  have eq: "isoformat t = date_body t @ CHR ''T'' # time_body t @ ''+00:00''"
    by (simp add: isoformat_split)
  have "isoformat t ! 4 = CHR ''-''" "isoformat t ! 5 = digit_char (dt_month t div 10 mod 10)"
    by (simp_all add: isoformat_def nth_append two_digits_def)
  then have "separator_index (isoformat t) = Some 10"
    using is_digit_not [OF is_digit_digit_char, of "dt_month t div 10 mod 10"]
    by (simp add: separator_index_def eq len)
  moreover have "take 10 (isoformat t) = date_body t" "drop 11 (isoformat t) = time_body t @ ''+00:00''"
    using len by (simp_all add: eq)
  moreover have "7 \<le> length (isoformat t)" by (simp add: eq len)
  ultimately show ?thesis
    unfolding fromisoformat_def fold_ascii_id [OF bodies_not(3)] Let_def
    using parse_date_body [OF assms] parse_time_utc [OF assms] assms
    by (cases t) (simp add: make_datetime_def)
qed

text \<open>\<open>value.isoformat().replace("+00:00", "Z")\<close>, and back.\<close>

lemma str_replace_isoformat:
  "str_replace ''+00:00'' ''Z'' (isoformat t) = date_body t @ ''T'' @ time_body t @ ''Z''"
  "str_replace ''Z'' ''+00:00'' (date_body t @ ''T'' @ time_body t @ ''Z'') = isoformat t"
proof -
  let ?b = "date_body t @ ''T'' @ time_body t"
  have "str_replace ''+00:00'' ''Z'' (?b @ ''+00:00'') = ?b @ ''Z''"
    by (rule str_replace_at_end) (use bodies_not(1) [of t] in auto)
  then show "str_replace ''+00:00'' ''Z'' (isoformat t) = date_body t @ ''T'' @ time_body t @ ''Z''"
    by (simp add: isoformat_split)
  have "str_replace ''Z'' ''+00:00'' (?b @ ''Z'') = ?b @ ''+00:00''"
    by (rule str_replace_at_end) (use bodies_not(2) [of t] in auto)
  then show "str_replace ''Z'' ''+00:00'' (date_body t @ ''T'' @ time_body t @ ''Z'') = isoformat t"
    by (simp add: isoformat_split)
qed

end
