(* ===== verification/PyValue.thy ===== *)
theory PyValue
  imports PyTime
begin

text \<open>
  The Python values the contracts are parsed from, and the few built-in operations the code
  applies to them.

  A float is carried by its \<open>repr\<close>, which determines it; the only float operation the code
  reaches is the comparison with an integer literal.  A \<open>dict\<close> is its list of items, in
  insertion order, with distinct keys.
\<close>

section \<open>Values\<close>

datatype pyval =
    PNone
  | PBool bool
  | PInt int
  | PFloat string
  | PStr string
  | PTime datetime
  | PList "pyval list"
  | PDict "(pyval \<times> pyval) list"

fun is_str :: "pyval \<Rightarrow> bool" where
  "is_str (PStr s) = True"
| "is_str v = False"

fun str_of :: "pyval \<Rightarrow> string" where
  "str_of (PStr s) = s"
| "str_of v = []"

fun hashable :: "pyval \<Rightarrow> bool" where
  "hashable (PList xs) = False"
| "hashable (PDict kvs) = False"
| "hashable v = True"

text \<open>\<open>v == 1\<close> for an untyped \<open>v\<close>: Python has \<open>True == 1 == 1.0\<close>.\<close>

fun py_eq_one :: "pyval \<Rightarrow> bool" where
  "py_eq_one (PInt n) = (n = 1)"
| "py_eq_one (PBool b) = b"
| "py_eq_one (PFloat r) = (r = ''1.0'')"
| "py_eq_one v = False"

text \<open>\<open>v == "literal"\<close> for an untyped \<open>v\<close>.\<close>

definition py_eq_str :: "pyval \<Rightarrow> string \<Rightarrow> bool" where
  "py_eq_str v s = (v = PStr s)"

text \<open>
  \<open>v in SET_OF_STRINGS\<close>: a \<open>set\<close> hashes the value first, so a list or a dict raises
  \<open>TypeError\<close>; \<open>v in TUPLE\<close> only compares.
\<close>

definition in_str_set :: "pyval \<Rightarrow> string list \<Rightarrow> bool res" where
  "in_str_set v ss = (if hashable v then Inr (v \<in> PStr ` set ss) else Inl TypeError)"

definition in_str_tuple :: "pyval \<Rightarrow> string list \<Rightarrow> bool" where
  "in_str_tuple v ss = (v \<in> PStr ` set ss)"

section \<open>Dictionaries\<close>

fun dict_lookup :: "(pyval \<times> pyval) list \<Rightarrow> string \<Rightarrow> pyval option" where
  "dict_lookup [] k = None"
| "dict_lookup ((k', v) # kvs) k = (if k' = PStr k then Some v else dict_lookup kvs k)"

text \<open>\<open>data[k]\<close>: a missing key of a dict is a \<open>KeyError\<close>; a list, a string and the
  scalars do not take a string subscript.\<close>

fun getitem :: "pyval \<Rightarrow> string \<Rightarrow> pyval res" where
  "getitem (PDict kvs) k = (case dict_lookup kvs k of Some v \<Rightarrow> Inr v | None \<Rightarrow> Inl KeyError)"
| "getitem v k = Inl TypeError"

text \<open>A Python dict display with string keys.\<close>

definition py_dict :: "(string \<times> pyval) list \<Rightarrow> pyval" where
  "py_dict kvs = PDict (map (\<lambda>(k, v). (PStr k, v)) kvs)"

fun assoc :: "(string \<times> 'a) list \<Rightarrow> string \<Rightarrow> 'a option" where
  "assoc [] k = None"
| "assoc ((k', v) # kvs) k = (if k' = k then Some v else assoc kvs k)"

declare assoc.simps(2) [simp del]

lemma assoc_Cons [py_simps]: "assoc ((k', v) # kvs) k = (if str_eq k' k then Some v else assoc kvs k)"
  by (simp add: str_eq_iff assoc.simps)

lemma dict_lookup_py_dict [py_simps]:
  "dict_lookup (map (\<lambda>(k, v). (PStr k, v)) kvs) k = assoc kvs k"
  by (induction kvs) (auto simp: assoc.simps)

lemma getitem_py_dict [py_simps]:
  "getitem (py_dict kvs) k = (case assoc kvs k of Some v \<Rightarrow> Inr v | None \<Rightarrow> Inl KeyError)"
  by (simp add: py_dict_def py_simps)

lemma getitem_Inr_iff [res_simps]:
  "getitem d k = Inr v \<longleftrightarrow> (\<exists>kvs. d = PDict kvs \<and> dict_lookup kvs k = Some v)"
  by (cases d) (auto split: option.splits)

text \<open>\<open>parser(data[k])\<close>.\<close>

definition field :: "pyval \<Rightarrow> string \<Rightarrow> (pyval \<Rightarrow> 'a res) \<Rightarrow> 'a res" where
  "field d k parser = bnd (getitem d k) parser"

lemma field_Inr [res_simps]:
  "field d k f = Inr x \<longleftrightarrow> (\<exists>v. getitem d k = Inr v \<and> f v = Inr x)"
  by (simp add: field_def res_simps)

lemma field_py_dict [py_simps]:
  "field (py_dict kvs) k f = (case assoc kvs k of Some v \<Rightarrow> f v | None \<Rightarrow> Inl KeyError)"
  by (simp add: field_def py_simps split: option.splits)

text \<open>
  Congruences that keep the simplifier out of dictionary displays and string literals while it looks
  a key up: only the comparison of the keys is evaluated.
\<close>

lemma literal_congs:
  "py_dict kvs = py_dict kvs" "assoc xs k = assoc xs k" "str_eq s t = str_eq s t" "char_eq c d = char_eq c d"
  by (rule refl)+

section \<open>The items a \<open>set(...)\<close> call sees\<close>

fun set_items :: "pyval \<Rightarrow> pyval list res" where
  "set_items (PDict kvs) = Inr (map fst kvs)"
| "set_items (PList xs) = (if list_all hashable xs then Inr xs else Inl TypeError)"
| "set_items (PStr s) = Inr (map PStr (code_points s))"
| "set_items v = Inl TypeError"

section \<open>\<open>isinstance(v, Mapping)\<close>\<close>

fun is_mapping :: "pyval \<Rightarrow> bool" where
  "is_mapping (PDict kvs) = True"
| "is_mapping v = False"

fun str_keys :: "pyval \<Rightarrow> bool" where
  "str_keys (PDict kvs) = list_all (\<lambda>(k, v). is_str k) kvs"
| "str_keys v = False"

lemma is_mapping_py_dict [py_simps]: "is_mapping (py_dict kvs)"
  by (simp add: py_dict_def)

lemma str_keys_py_dict [py_simps]: "str_keys (py_dict kvs)"
  by (induction kvs) (auto simp: py_dict_def)

lemma set_items_py_dict [py_simps]: "set_items (py_dict kvs) = Inr (map (PStr \<circ> fst) kvs)"
  by (induction kvs) (auto simp: py_dict_def)

lemma is_str_iff: "is_str v \<longleftrightarrow> (\<exists>s. v = PStr s)"
  by (cases v) auto

lemma PStr_image_iff [simp]: "PStr s \<in> PStr ` A \<longleftrightarrow> s \<in> A"
  by auto

lemma map_PStr_eq [simp]: "map PStr xs = map PStr ys \<longleftrightarrow> xs = ys"
  by (rule inj_map_eq_map) (simp add: inj_def)

lemma in_str_set_PStr [py_simps]: "in_str_set (PStr s) ss = Inr (s \<in> set ss)"
  by (simp add: in_str_set_def)

lemma in_str_set_True: "in_str_set v ss = Inr True \<longleftrightarrow> (\<exists>s\<in>set ss. v = PStr s)"
  by (cases v) (auto simp: in_str_set_def)

section \<open>Optional values\<close>

definition opt_str :: "string option \<Rightarrow> pyval" where
  "opt_str v = (case v of None \<Rightarrow> PNone | Some s \<Rightarrow> PStr s)"

definition opt_time :: "datetime option \<Rightarrow> pyval" where
  "opt_time v = (case v of None \<Rightarrow> PNone | Some t \<Rightarrow> PTime t)"

lemma opt_str_simps [simp]: "opt_str None = PNone" "opt_str (Some s) = PStr s"
  by (simp_all add: opt_str_def)

lemma opt_time_simps [simp]: "opt_time None = PNone" "opt_time (Some t) = PTime t"
  by (simp_all add: opt_time_def)

lemma opt_str_inject [simp]: "opt_str a = opt_str b \<longleftrightarrow> a = b"
  by (cases a; cases b) simp_all

text \<open>\<open>None if v is None else parser(v)\<close>.\<close>

definition opt_field :: "(pyval \<Rightarrow> 'a res) \<Rightarrow> pyval \<Rightarrow> 'a option res" where
  "opt_field parser v = (if v = PNone then Inr None else bnd (parser v) (\<lambda>x. Inr (Some x)))"

lemma opt_field_Inr:
  "opt_field f v = Inr r \<longleftrightarrow> v = PNone \<and> r = None \<or> v \<noteq> PNone \<and> (\<exists>x. f v = Inr x \<and> r = Some x)"
  by (auto simp: opt_field_def res_simps)

end
