(* ===== verification/Sha256.thy ===== *)
theory Sha256
  imports PyString "HOL-Library.Word"
begin

text \<open>
  \<open>hashlib.sha256(data).hexdigest()\<close>, as FIPS 180-4 defines it, on byte strings.  Every digest
  of the code goes through it.  What the proofs use of it is the shape of its result, 64
  lower-case hexadecimal digits; nothing is assumed about collisions, and the theorems that need
  to say so name the collision explicitly (\<open>sha256_collision\<close>).
\<close>

unbundle bit_operations_syntax

type_synonym w32 = "32 word"

text \<open>
  The constants of the standard are the first 32 bits of the fractional parts of the cube roots of the
  first 64 primes, and of the square roots of the first 8.  \<open>iroot k b n\<close> is the integer \<open>k\<close>-th root of \<open>n\<close>,
  found one binary digit at a time; \<open>b\<close> digits are enough for \<open>n < 2 ^ (k * b)\<close>.
\<close>

fun iroot :: "nat \<Rightarrow> nat \<Rightarrow> int \<Rightarrow> int" where
  "iroot k 0 n = 0"
| "iroot k (Suc b) n =
     (let r = 2 * iroot k b (n div 2 ^ k) in if (r + 1) ^ k \<le> n then r + 1 else r)"

definition small_primes :: "nat list" where
  "small_primes = filter (\<lambda>n. list_all (\<lambda>d. n mod d \<noteq> 0 \<or> d = n) [2..<18]) [2..<312]"

definition root_fraction :: "nat \<Rightarrow> nat \<Rightarrow> w32" where
  "root_fraction k p = of_int (iroot k 48 (int p * 2 ^ (32 * k)))"

definition sha_k :: "w32 list" where
  "sha_k = map (root_fraction 3) small_primes"

definition sha_h0 :: "w32 list" where
  "sha_h0 = map (root_fraction 2) (take 8 small_primes)"

definition small_sigma0 :: "w32 \<Rightarrow> w32" where
  "small_sigma0 x = word_rotr 7 x XOR word_rotr 18 x XOR drop_bit 3 x"

definition small_sigma1 :: "w32 \<Rightarrow> w32" where
  "small_sigma1 x = word_rotr 17 x XOR word_rotr 19 x XOR drop_bit 10 x"

definition big_sigma0 :: "w32 \<Rightarrow> w32" where
  "big_sigma0 x = word_rotr 2 x XOR word_rotr 13 x XOR word_rotr 22 x"

definition big_sigma1 :: "w32 \<Rightarrow> w32" where
  "big_sigma1 x = word_rotr 6 x XOR word_rotr 11 x XOR word_rotr 25 x"

definition sha_ch :: "w32 \<Rightarrow> w32 \<Rightarrow> w32 \<Rightarrow> w32" where
  "sha_ch x y z = (x AND y) XOR (NOT x AND z)"

definition sha_maj :: "w32 \<Rightarrow> w32 \<Rightarrow> w32 \<Rightarrow> w32" where
  "sha_maj x y z = (x AND y) XOR (x AND z) XOR (y AND z)"

text \<open>The message schedule, the newest word first.\<close>

fun sha_schedule :: "nat \<Rightarrow> w32 list \<Rightarrow> w32 list" where
  "sha_schedule 0 ws = ws"
| "sha_schedule (Suc n) ws =
     sha_schedule n
       ((small_sigma1 (ws ! 1) + ws ! 6 + small_sigma0 (ws ! 14) + ws ! 15) # ws)"

definition sha_round :: "w32 list \<Rightarrow> w32 \<times> w32 \<Rightarrow> w32 list" where
  "sha_round s kw =
     (let a = s ! 0; b = s ! 1; c = s ! 2; d = s ! 3; e = s ! 4; f = s ! 5; g = s ! 6; h = s ! 7;
          t1 = h + big_sigma1 e + sha_ch e f g + fst kw + snd kw;
          t2 = big_sigma0 a + sha_maj a b c
      in [t1 + t2, a, b, c, d + t1, e, f, g])"

definition be_word :: "string \<Rightarrow> w32" where
  "be_word cs = of_nat (foldl (\<lambda>acc c. acc * 256 + byte c) 0 cs)"

definition be_bytes :: "nat \<Rightarrow> nat \<Rightarrow> string" where
  "be_bytes k n = map (\<lambda>i. char_of (n div 256 ^ (k - Suc i) mod 256)) [0..<k]"

fun chunks :: "nat \<Rightarrow> nat \<Rightarrow> string \<Rightarrow> string list" where
  "chunks 0 k s = []"
| "chunks (Suc n) k s = take k s # chunks n k (drop k s)"

definition sha_block :: "w32 list \<Rightarrow> string \<Rightarrow> w32 list" where
  "sha_block h blk =
     (let ws = rev (sha_schedule 48 (rev (map be_word (chunks 16 4 blk))))
      in map2 (+) h (foldl sha_round h (zip sha_k ws)))"

definition sha_pad :: "string \<Rightarrow> string" where
  "sha_pad s =
     (let n = length s; z = (119 - n mod 64) mod 64
      in s @ [char_of (128::nat)] @ replicate z (char_of (0::nat)) @ be_bytes 8 (8 * n))"

definition sha256_words :: "string \<Rightarrow> w32 list" where
  "sha256_words s =
     (let p = sha_pad s in foldl sha_block sha_h0 (chunks (length p div 64) 64 p))"

definition hex_digit :: "nat \<Rightarrow> char" where
  "hex_digit n = ''0123456789abcdef'' ! (n mod 16)"

definition hex_word :: "w32 \<Rightarrow> string" where
  "hex_word w = map (\<lambda>i. hex_digit (unat w div 16 ^ (7 - i))) [0..<8]"

definition sha256 :: "string \<Rightarrow> string" where
  "sha256 s = concat (map hex_word (sha256_words s))"

text \<open>A pair of distinct byte strings with the same digest.\<close>

definition sha256_collision :: "string \<Rightarrow> string \<Rightarrow> bool" where
  "sha256_collision x y = (x \<noteq> y \<and> sha256 x = sha256 y)"

section \<open>The shape of a digest\<close>

definition hex_string :: "nat \<Rightarrow> string \<Rightarrow> bool" where
  "hex_string n s = (length s = n \<and> list_all is_hex s)"

lemma hex_replicate [simp]: "is_hex c \<Longrightarrow> hex_string n (replicate n c)"
  by (simp add: hex_string_def list_all_iff)

lemma is_hex_hex_digit: "is_hex (hex_digit n)"
proof -
  have "n mod 16 < length ''0123456789abcdef''" by simp
  then have "hex_digit n \<in> set ''0123456789abcdef''"
    unfolding hex_digit_def by (rule nth_mem)
  then show ?thesis by (auto simp: is_hex_def digits_chars_def)
qed

lemma hex_word: "length (hex_word w) = 8" "list_all is_hex (hex_word w)"
  by (auto simp: hex_word_def list_all_iff is_hex_hex_digit)

lemma length_sha_block: "length h = 8 \<Longrightarrow> length (sha_block h blk) = 8"
proof -
  assume h: "length h = 8"
  have "length (foldl sha_round h xs) = 8" for xs
    using h by (induction xs arbitrary: h) (auto simp: sha_round_def Let_def)
  with h show ?thesis by (simp add: sha_block_def Let_def)
qed

lemma length_sha_h0: "length sha_h0 = 8"
proof -
  let ?P = "\<lambda>n. list_all (\<lambda>d. n mod d \<noteq> 0 \<or> d = n) [2..<18::nat]"
  have split: "[2..<312::nat] = [2..<20] @ [20..<312]" using upt_add_eq_append [of 2 20 292] by simp
  have "filter ?P [2..<20] = [2, 3, 5, 7, 11, 13, 17, 19]" by (simp add: upt_rec)
  then have "length (filter ?P [2..<20]) = 8" by simp
  then have "8 \<le> length small_primes"
    unfolding small_primes_def split filter_append length_append by linarith
  then show ?thesis by (simp add: sha_h0_def)
qed

lemma length_sha256_words: "length (sha256_words s) = 8"
proof -
  have "length h = 8 \<Longrightarrow> length (foldl sha_block h xs) = 8" for h xs
    by (induction xs arbitrary: h) (auto simp: length_sha_block)
  then show ?thesis by (simp add: sha256_words_def length_sha_h0 Let_def)
qed

lemma hex_words:
  "length (concat (map hex_word ws)) = 8 * length ws" "list_all is_hex (concat (map hex_word ws))"
  by (induction ws) (auto simp: hex_word)

theorem sha256_hex: "hex_string 64 (sha256 s)"
  by (simp add: hex_string_def sha256_def hex_words length_sha256_words)

end
