(* ===== verification/Contracts.thy ===== *)
theory Contracts
  imports PyValue Sha256
begin

text \<open>
  \<open>factory/src/adaptive_factory/contracts.py\<close>: the canonical JSON text and its digest, the field
  validators every contract uses, and the M4 intake contracts (architecture and governance
  handoffs, M0 authority, task limits, task intake).

  Validators take an untyped value and either return it at its type or raise.  The one library
  function that is a parameter is \<open>nfc\<close>, \<open>unicodedata.normalize("NFC", _)\<close>, whose tables are
  not part of the program.  A field of a record has the class's field name behind a short prefix
  (\<open>ah_\<close>, \<open>gh_\<close>, \<open>m0_\<close>, \<open>tl_\<close>, \<open>ti_\<close>).
\<close>

section \<open>Canonical JSON\<close>

definition timestamp_text :: "datetime \<Rightarrow> string" where
  "timestamp_text t = str_replace ''+00:00'' ''Z'' (isoformat t)"

text \<open>\<open>_canonical\<close>; a dataclass reaches it as the dict \<open>asdict\<close> gives.\<close>

fun canonical :: "pyval \<Rightarrow> pyval" where
  "canonical (PTime t) = PStr (timestamp_text t)"
| "canonical (PDict kvs) =
     PDict (sort_key (\<lambda>kv. str_of (fst kv)) (map (\<lambda>(k, v). (k, canonical v)) kvs))"
| "canonical (PList xs) = PList (map canonical xs)"
| "canonical v = v"

definition json_escape :: "char \<Rightarrow> string" where
  "json_escape c =
     (if c = CHR 0x22 then [CHR 0x5C, CHR 0x22]
      else if c = CHR 0x5C then [CHR 0x5C, CHR 0x5C]
      else if c = CHR 0x0A then [CHR 0x5C, CHR ''n'']
      else if c = CHR 0x0D then [CHR 0x5C, CHR ''r'']
      else if c = CHR 0x09 then [CHR 0x5C, CHR ''t'']
      else if c = CHR 0x0C then [CHR 0x5C, CHR ''f'']
      else if c = CHR 0x08 then [CHR 0x5C, CHR ''b'']
      else if byte c < 32 then [CHR 0x5C, CHR ''u'', CHR ''0'', CHR ''0'', hex_digit (byte c div 16), hex_digit (byte c)]
      else [c])"

definition json_string :: "string \<Rightarrow> string" where
  "json_string s = [CHR 0x22] @ concat (map json_escape s) @ [CHR 0x22]"

fun nat_text :: "nat \<Rightarrow> string" where
  "nat_text n = (if n < 10 then [digit_char (int n)] else nat_text (n div 10) @ [digit_char (int (n mod 10))])"

declare nat_text.simps [simp del]

definition int_text :: "int \<Rightarrow> string" where
  "int_text i = (if i < 0 then ''-'' @ nat_text (nat (- i)) else nat_text (nat i))"

definition float_text :: "string \<Rightarrow> string" where
  "float_text r =
     (if r = ''nan'' then ''NaN'' else if r = ''inf'' then ''Infinity''
      else if r = ''-inf'' then ''-Infinity'' else r)"

text \<open>
  \<open>json.dumps\<close> with \<open>separators=(",", ":")\<close> and \<open>ensure_ascii=False\<close>, on a value whose
  dictionaries \<open>canonical\<close> has sorted; the result is its UTF-8 text.  Every text the code
  digests has passed a validator that rejects lone surrogates, so \<open>.encode\<close> does not raise.
\<close>

fun json_text :: "pyval \<Rightarrow> string" where
  "json_text PNone = ''null''"
| "json_text (PBool b) = (if b then ''true'' else ''false'')"
| "json_text (PInt i) = int_text i"
| "json_text (PFloat r) = float_text r"
| "json_text (PStr s) = json_string s"
| "json_text (PTime t) = json_string (timestamp_text t)"
| "json_text (PList xs) = ''['' @ join '','' (map json_text xs) @ '']''"
| "json_text (PDict kvs) =
     ''{'' @ join '','' (map (\<lambda>(k, v). json_string (str_of k) @ '':'' @ json_text v) kvs) @ ''}''"

definition canonical_json :: "pyval \<Rightarrow> string" where
  "canonical_json v = json_text (canonical v)"

definition canonical_digest :: "pyval \<Rightarrow> string" where
  "canonical_digest v = sha256 (canonical_json v)"

text \<open>\<open>_domain_digest\<close> of the shadow and autonomy modules.\<close>

definition domain_digest :: "string \<Rightarrow> pyval \<Rightarrow> string" where
  "domain_digest domain v = sha256 (domain @ [char_of (0::nat)] @ canonical_json v)"

section \<open>Validators\<close>

datatype hexpat = HEX40 | HEX64

fun hexpat_len :: "hexpat \<Rightarrow> nat" where
  "hexpat_len HEX40 = 40"
| "hexpat_len HEX64 = 64"

definition ID_match :: "string \<Rightarrow> bool" where
  "ID_match s = ident_match ''._:/-'' 127 s"

definition ACCEPTANCE_ID_match :: "string \<Rightarrow> bool" where
  "ACCEPTANCE_ID_match s =
     (take 3 s = ''AC-'' \<and> 6 \<le> length s \<and> length s \<le> 9 \<and> list_all is_digit (drop 3 s))"

text \<open>\<open>_closed(data, expected)\<close>: exactly the expected keys.\<close>

definition closed :: "pyval \<Rightarrow> string list \<Rightarrow> unit res" where
  "closed data expected =
     bnd (set_items data) (\<lambda>ks.
       let unknown = filter (\<lambda>k. k \<notin> PStr ` set expected) ks;
           missing = filter (\<lambda>e. PStr e \<notin> set ks) expected
       in if unknown \<noteq> []
          then (if list_all is_str unknown
                then Inl (ContractError ''unknown_fields'' (join '','' (usort (map str_of unknown))))
                else Inl TypeError)
          else if missing \<noteq> [] then Inl (ContractError ''missing_fields'' (join '','' (usort missing)))
          else Inr ())"

definition text_field :: "(string \<Rightarrow> string) \<Rightarrow> pyval \<Rightarrow> string \<Rightarrow> nat \<Rightarrow> string res" where
  "text_field nfc value name maximum =
     (case value of
        PStr s \<Rightarrow>
          (if s = [] then Inl (ContractError ''invalid_text'' name)
           else if has_surrogate s then Inl UnicodeEncodeError
           else if maximum < length s then Inl (ContractError ''invalid_text'' name)
           else if nfc s \<noteq> s \<or> has_control s then Inl (ContractError ''invalid_text'' name)
           else Inr s)
      | _ \<Rightarrow> Inl (ContractError ''invalid_text'' name))"

definition id_field :: "(string \<Rightarrow> string) \<Rightarrow> pyval \<Rightarrow> string \<Rightarrow> string res" where
  "id_field nfc value name =
     bnd (text_field nfc value name 128) (\<lambda>s.
       if ID_match s then Inr s else Inl (ContractError ''invalid_identifier'' name))"

definition hex_field :: "pyval \<Rightarrow> string \<Rightarrow> hexpat \<Rightarrow> string res" where
  "hex_field value name pattern =
     (let err = ContractError (if pattern = HEX40 then ''invalid_sha'' else ''invalid_digest'') name in
      case value of
        PStr s \<Rightarrow> (if hex_string (hexpat_len pattern) s then Inr s else Inl err)
      | _ \<Rightarrow> Inl err)"

definition time_field :: "pyval \<Rightarrow> string \<Rightarrow> datetime res" where
  "time_field value name =
     (case value of
        PStr s \<Rightarrow>
          (case fromisoformat (str_replace ''Z'' ''+00:00'' s) of
             IsoValueError \<Rightarrow> Inl (ContractError ''invalid_time'' name)
           | Naive t \<Rightarrow> Inl (ContractError ''invalid_time'' name)
           | Aware t off \<Rightarrow> astimezone_utc t off)
      | _ \<Rightarrow> Inl (ContractError ''invalid_time'' name))"

section \<open>What the validators guarantee\<close>

lemma text_field_Inr [res_simps]:
  "text_field nfc v name m = Inr s \<longleftrightarrow>
     v = PStr s \<and> s \<noteq> [] \<and> \<not> has_surrogate s \<and> length s \<le> m \<and> nfc s = s \<and> \<not> has_control s"
  by (auto simp: text_field_def split: pyval.splits)

definition id_ok :: "(string \<Rightarrow> string) \<Rightarrow> string \<Rightarrow> bool" where
  "id_ok nfc s = (ID_match s \<and> \<not> has_surrogate s \<and> \<not> has_control s \<and> length s \<le> 128 \<and> nfc s = s)"

lemma id_field_Inr [res_simps]: "id_field nfc v name = Inr s \<longleftrightarrow> v = PStr s \<and> id_ok nfc s"
proof -
  have "ID_match s \<Longrightarrow> s \<noteq> []" by (auto simp: ID_match_def)
  then show ?thesis
    unfolding id_field_def id_ok_def bnd_Inr_iff text_field_Inr by (auto split: if_split_asm)
qed

lemma hex_field_Inr [res_simps]:
  "hex_field v name p = Inr s \<longleftrightarrow> v = PStr s \<and> hex_string (hexpat_len p) s"
  by (auto simp: hex_field_def Let_def split: pyval.splits)

lemma opt_hex_Inr [res_simps]:
  "opt_field (\<lambda>v. hex_field v n p) v = Inr r \<longleftrightarrow> v = opt_str r \<and> pred_option (hex_string (hexpat_len p)) r"
  by (cases r) (auto simp: opt_field_Inr hex_field_Inr)

lemma astimezone_utc_valid: "astimezone_utc t off = Inr u \<Longrightarrow> valid_dt t \<Longrightarrow> valid_dt u"
  unfolding astimezone_utc_def by (metis Inr_inject of_instant_valid)

lemma time_field_valid: "time_field v name = Inr t \<Longrightarrow> valid_dt t"
  unfolding time_field_def
  by (auto split: pyval.splits iso_result.splits
      dest: fromisoformat_Aware_valid astimezone_utc_valid)

lemma time_field_timestamp_text [simp]:
  "valid_dt t \<Longrightarrow> time_field (PStr (timestamp_text t)) name = Inr t"
  by (simp add: time_field_def timestamp_text_def str_replace_isoformat
      fromisoformat_isoformat astimezone_utc_def del: append_Cons append_Nil)

text \<open>
  A dataclass with a \<open>__post_init__\<close>: the constructor runs it and an object exists only if it
  passes, so \<open>isinstance(x, C)\<close> is \<open>instance_of\<close> the check of \<open>C\<close>.
\<close>

definition construct :: "('a \<Rightarrow> unit res) \<Rightarrow> 'a \<Rightarrow> 'a res" where
  "construct post_init x = bnd (post_init x) (\<lambda>_. Inr x)"

definition instance_of :: "('a \<Rightarrow> unit res) \<Rightarrow> 'a \<Rightarrow> bool" where
  "instance_of post_init x = (post_init x = Inr ())"

lemma construct_Inr [res_simps]: "construct p y = Inr x \<longleftrightarrow> p y = Inr () \<and> x = y"
  by (auto simp: construct_def bnd_Inr_iff)

lemma construct_checked: "construct p y = Inr x \<Longrightarrow> (p x = Inr () \<Longrightarrow> P) \<Longrightarrow> P"
  by (simp add: construct_Inr)

lemma void_hex_field [res_simps]:
  "void (hex_field (PStr s) n p) = Inr u \<longleftrightarrow> hex_string (hexpat_len p) s"
  by (simp add: void_Inr_iff hex_field_Inr)

text \<open>Characters the identifier patterns admit are ASCII, so the NFC test is the only one left.\<close>

lemma alnum_not: "is_alnum c \<Longrightarrow> 32 \<le> byte c \<and> byte c < 128"
  by (auto simp: is_alnum_def digits_chars_def lower_chars_def upper_chars_def byte_def)

lemma has_surrogate_ascii: "ascii s \<Longrightarrow> \<not> has_surrogate s"
  by (induction s rule: has_surrogate.induct) (auto simp: ascii_def)

lemma hex_no_surrogate: "hex_string n s \<Longrightarrow> \<not> has_surrogate s"
proof (rule has_surrogate_ascii)
  have "list_all (\<lambda>c. byte c < 128) (digits_chars @ ''abcdef'')" by code_simp
  then have "is_hex c \<Longrightarrow> byte c < 128" for c unfolding is_hex_def list_all_iff by auto
  then show "hex_string n s \<Longrightarrow> ascii s" by (auto simp: hex_string_def ascii_def list_all_iff)
qed

lemmas literal_no_surrogate = has_surrogate_ascii ascii_def byte_def

lemma ident_match_ascii:
  assumes "ident_match extra n s" "\<forall>c\<in>set extra. 32 \<le> byte c \<and> byte c < 128"
  shows "ascii s \<and> \<not> has_control s \<and> length s \<le> Suc n"
  using assms alnum_not
  by (cases s) (auto simp: ident_match_def ascii_def has_control_def list_all_iff list_ex_iff leD)

lemma id_ok_iff: "id_ok nfc s \<longleftrightarrow> ID_match s \<and> nfc s = s"
proof -
  have "ID_match s \<Longrightarrow> ascii s \<and> \<not> has_control s \<and> length s \<le> 128"
    using ident_match_ascii [of "''._:/-''" 127 s] by (simp add: ID_match_def byte_def)
  then show ?thesis by (auto simp: id_ok_def has_surrogate_ascii)
qed

lemma hex_string_sha256 [simp]:
  "hex_string 64 (canonical_digest v)" "hex_string 64 (domain_digest domain v)"
  by (simp_all add: canonical_digest_def domain_digest_def sha256_hex)

lemma closed_Inr:
  assumes "closed d expected = Inr ()"
  shows "\<exists>ks. set_items d = Inr ks \<and> set ks = PStr ` set expected"
  using assms by (auto simp: closed_def res_simps Let_def filter_empty_conv split: if_splits)

lemma closed_py_dict [py_simps]:
  "set (map fst kvs) = set expected \<Longrightarrow> closed (py_dict kvs) expected = Inr ()"
  by (auto simp: closed_def py_simps Let_def filter_empty_conv image_iff)

section \<open>The interface of a contract class\<close>

text \<open>
  A contract class offers a parser (\<open>from_dict\<close>) and a renderer (\<open>to_dict\<close>).  What the callers
  rely on is that rendering a parsed object and parsing it again gives the object back: digests are
  computed from the rendering, and \<open>M7AutonomyBridgeV1\<close> re-parses what it is given and compares.
  The classes with a \<open>__post_init__\<close> promise more: whatever passes the check can be rendered and
  parsed, and the parser only returns objects that pass it.
\<close>

locale stable_codec =
  fixes parse :: "pyval \<Rightarrow> 'a res" and render :: "'a \<Rightarrow> pyval"
  assumes stable: "parse d = Inr x \<Longrightarrow> parse (render x) = Inr x"
begin

lemma render_inj: "parse d = Inr x \<Longrightarrow> parse e = Inr y \<Longrightarrow> render x = render y \<Longrightarrow> x = y"
  by (metis Inr_inject stable)

lemma map_stable:
  "map_res parse ds = Inr xs \<Longrightarrow> map_res parse (map render xs) = Inr xs"
proof (rule map_res_map)
  fix x assume "map_res parse ds = Inr xs" "x \<in> set xs"
  then obtain d where "parse d = Inr x" using map_res_set by metis
  then show "parse (render x) = Inr x" by (rule stable)
qed

lemma render_map_inj:
  "map_res parse ds = Inr xs \<Longrightarrow> map_res parse es = Inr ys \<Longrightarrow> map render xs = map render ys \<Longrightarrow> xs = ys"
  by (metis Inr_inject map_stable)

end

locale checked_codec =
  fixes parse :: "pyval \<Rightarrow> 'a res" and render :: "'a \<Rightarrow> pyval" and post_init :: "'a \<Rightarrow> unit res"
  assumes parse_checked: "parse d = Inr x \<Longrightarrow> post_init x = Inr ()"
    and parse_render: "post_init x = Inr () \<Longrightarrow> parse (render x) = Inr x"
begin

sublocale stable_codec parse render
  by unfold_locales (rule parse_render [OF parse_checked])

lemma post_init_iff: "post_init x = Inr () \<longleftrightarrow> (\<exists>d. parse d = Inr x)"
  using parse_checked parse_render by blast

lemma map_parse_render:
  "(\<And>x. x \<in> set xs \<Longrightarrow> post_init x = Inr ()) \<Longrightarrow> map_res parse (map render xs) = Inr xs"
  by (rule map_res_map) (rule parse_render)

lemma map_parse_checked: "map_res parse ds = Inr xs \<Longrightarrow> x \<in> set xs \<Longrightarrow> post_init x = Inr ()"
  by (metis map_res_set parse_checked)

end

end
