(* ===== verification/SemanticContracts.thy ===== *)
theory SemanticContracts
  imports Contracts
begin

text \<open>
  \<open>semantic_contracts.py\<close>: the closed contracts of semantic validation - requirements, validators,
  the subject under review, findings, coverage reports, verdicts and repair directives - and the
  \<open>validate_for\<close> checks that bind evidence to one subject.

  \<open>asdict\<close> of a class is written out per class; \<open>to_dict\<close> is its canonical form, which is what
  \<open>json.loads(canonical_json(asdict(self)))\<close> returns.  Field prefixes: \<open>rr_\<close> requirement, \<open>vi_\<close>
  validator, \<open>ss_\<close> subject, \<open>sf_\<close> finding, \<open>ce_\<close> coverage entry, \<open>sc_\<close> coverage, \<open>sv_\<close> verdict,
  \<open>rp_\<close> repair directive.
\<close>

section \<open>Constants and validators\<close>

definition MAX_ITEMS :: nat where "MAX_ITEMS = 256"

definition REQUIREMENT_KINDS :: "string list" where
  "REQUIREMENT_KINDS =
     [''acceptance_criterion'', ''invariant'', ''forbidden_outcome'', ''architecture_rule'',
      ''non_functional_requirement'']"

definition VALIDATOR_CAPABILITIES :: "string list" where
  "VALIDATOR_CAPABILITIES = [''repository_read'', ''semantic_validate'']"

definition FORBIDDEN_VALIDATOR_CAPABILITIES :: "string list" where
  "FORBIDDEN_VALIDATOR_CAPABILITIES =
     [''application_write'', ''adjudicate'', ''external_write'', ''network'', ''credential_read'']"

definition RISK_LEVELS :: "string list" where
  "RISK_LEVELS = [''none'', ''low'', ''medium'', ''high'', ''critical'']"

text \<open>\<open>RISK_LEVELS - {"none"}\<close>.\<close>

definition SUBJECT_RISKS :: "string list" where
  "SUBJECT_RISKS = [''low'', ''medium'', ''high'', ''critical'']"

definition SAFE_REF_match :: "string \<Rightarrow> bool" where
  "SAFE_REF_match s = ident_match ''._:/@+-'' 255 s"

definition sem_object :: "pyval \<Rightarrow> string \<Rightarrow> unit res" where
  "sem_object data name =
     ensure (is_mapping data \<and> str_keys data) (ContractError ''invalid_object'' name)"

definition sem_text :: "(string \<Rightarrow> string) \<Rightarrow> pyval \<Rightarrow> string \<Rightarrow> nat \<Rightarrow> string res" where
  "sem_text nfc value name maximum =
     (case value of
        PStr s \<Rightarrow>
          (if s = [] \<or> has_surrogate s \<or> maximum < length s \<or> has_control s \<or> nfc s \<noteq> s
           then Inl (ContractError ''invalid_text'' name) else Inr s)
      | _ \<Rightarrow> Inl (ContractError ''invalid_text'' name))"

definition sem_id :: "(string \<Rightarrow> string) \<Rightarrow> pyval \<Rightarrow> string \<Rightarrow> string res" where
  "sem_id nfc value name =
     catch (id_field nfc value name)
       (\<lambda>e. if e = UnicodeEncodeError then Inl (ContractError ''invalid_identifier'' name) else Inl e)"

definition sem_reference :: "(string \<Rightarrow> string) \<Rightarrow> pyval \<Rightarrow> string \<Rightarrow> string res" where
  "sem_reference nfc value name =
     bnd (sem_text nfc value name 256) (\<lambda>s.
       if SAFE_REF_match s then Inr s else Inl (ContractError ''invalid_reference'' name))"

definition sem_integer :: "pyval \<Rightarrow> string \<Rightarrow> int \<Rightarrow> int \<Rightarrow> int res" where
  "sem_integer value name minimum maximum =
     (case value of
        PInt n \<Rightarrow> (if minimum \<le> n \<and> n \<le> maximum then Inr n else Inl (ContractError ''invalid_integer'' name))
      | _ \<Rightarrow> Inl (ContractError ''invalid_integer'' name))"

text \<open>\<open>_sorted_unique\<close>, with the \<open>_sort_key\<close> of the parsed items as an argument.\<close>

definition sorted_unique ::
  "('a \<Rightarrow> string) \<Rightarrow> pyval \<Rightarrow> string \<Rightarrow> (pyval \<Rightarrow> 'a res) \<Rightarrow> bool \<Rightarrow> 'a list res" where
  "sorted_unique sort_key_of values name parser allow_empty =
     (case values of
        PList items \<Rightarrow>
          (if MAX_ITEMS < length items \<or> (\<not> allow_empty \<and> items = []) then Inl (ContractError name [])
           else bnd (map_res parser items) (\<lambda>parsed.
             let keys = map sort_key_of parsed in
             if keys \<noteq> sort keys \<or> \<not> distinct keys then Inl (ContractError name []) else Inr parsed))
      | _ \<Rightarrow> Inl (ContractError name []))"

text \<open>\<open>data[k] in STRINGS\<close> for a set of strings, the value as the string it then is.\<close>

definition enum_field :: "pyval \<Rightarrow> string list \<Rightarrow> pyexn \<Rightarrow> string res" where
  "enum_field v allowed err =
     bnd (in_str_set v allowed) (\<lambda>known. if known then Inr (str_of v) else Inl err)"

text \<open>\<open>data["schema_version"] != 1\<close> raises; the object then holds the literal 1.\<close>

definition sem_version :: "pyval \<Rightarrow> string \<Rightarrow> unit res" where
  "sem_version v name = ensure (py_eq_one v) (ContractError ''unsupported_version'' name)"

lemma sem_object_Inr [res_simps]: "sem_object d name = Inr u \<longleftrightarrow> is_mapping d \<and> str_keys d"
  by (simp add: sem_object_def res_simps)

lemma sem_text_Inr [res_simps]:
  "sem_text nfc v name m = Inr s \<longleftrightarrow>
     v = PStr s \<and> s \<noteq> [] \<and> \<not> has_surrogate s \<and> length s \<le> m \<and> \<not> has_control s \<and> nfc s = s"
  by (auto simp: sem_text_def split: pyval.splits)

lemma sem_id_Inr [res_simps]: "sem_id nfc v name = Inr s \<longleftrightarrow> v = PStr s \<and> id_ok nfc s"
  by (auto simp: sem_id_def res_simps)

definition ref_ok :: "(string \<Rightarrow> string) \<Rightarrow> string \<Rightarrow> bool" where
  "ref_ok nfc s = (SAFE_REF_match s \<and> nfc s = s)"

lemma sem_reference_Inr [res_simps]: "sem_reference nfc v name = Inr s \<longleftrightarrow> v = PStr s \<and> ref_ok nfc s"
proof -
  have "SAFE_REF_match s \<Longrightarrow> s \<noteq> [] \<and> \<not> has_surrogate s \<and> length s \<le> 256 \<and> \<not> has_control s"
    using ident_match_ascii [of "''._:/@+-''" 255 s] has_surrogate_ascii [of s]
    by (auto simp: SAFE_REF_match_def byte_def)
  then show ?thesis
    unfolding sem_reference_def ref_ok_def bnd_Inr_iff sem_text_Inr by (auto split: if_split_asm)
qed

lemma sem_integer_Inr [res_simps]:
  "sem_integer v name lo hi = Inr n \<longleftrightarrow> v = PInt n \<and> lo \<le> n \<and> n \<le> hi"
  by (auto simp: sem_integer_def split: pyval.splits)

lemma enum_field_Inr [res_simps]: "enum_field v ss err = Inr s \<longleftrightarrow> v = PStr s \<and> s \<in> set ss"
  by (cases v) (auto simp: enum_field_def in_str_set_def)

lemma sem_version_Inr [res_simps]: "sem_version v name = Inr u \<longleftrightarrow> py_eq_one v"
  by (simp add: sem_version_def res_simps)

definition keys_ok :: "('a \<Rightarrow> string) \<Rightarrow> bool \<Rightarrow> 'a list \<Rightarrow> bool" where
  "keys_ok key allow_empty xs =
     (length xs \<le> MAX_ITEMS \<and> (allow_empty \<or> xs \<noteq> []) \<and> sorted (map key xs) \<and> distinct (map key xs))"

lemma eq_sort_iff: "(xs = sort xs) = sorted xs"
  by (metis sorted_sort sorted_sort_id)

lemma sorted_unique_Inr [res_simps]:
  "sorted_unique key v name parser ae = Inr xs \<longleftrightarrow>
     (\<exists>vs. v = PList vs \<and> map_res parser vs = Inr xs \<and> keys_ok key ae xs)"
proof (cases v)
  case (PList vs)
  show ?thesis
  proof (cases "map_res parser vs")
    case (Inl e)
    then show ?thesis by (simp add: sorted_unique_def PList)
  next
    case (Inr ys)
    then have len: "length vs = length ys" using map_res_length by metis
    then have nil: "vs = [] \<longleftrightarrow> ys = []" by auto
    show ?thesis
      by (auto simp: sorted_unique_def keys_ok_def PList Inr len nil eq_sort_iff Let_def)
  qed
qed (simp_all add: sorted_unique_def)

text \<open>Lists of strings: what parses is exactly a list of strings that each pass the validator.\<close>

lemma map_res_strings:
  assumes "\<And>v s. f v = Inr s \<longleftrightarrow> v = PStr s \<and> P s"
  shows "map_res f vs = Inr ss \<longleftrightarrow> vs = map PStr ss \<and> list_all P ss"
proof (induction vs arbitrary: ss)
  case Nil
  show ?case by (cases ss) auto
next
  case (Cons v vs)
  show ?case by (cases ss) (auto simp: bnd_Inr_iff assms Cons.IH)
qed

lemma map_res_ids [res_simps]:
  "map_res (\<lambda>i. sem_id nfc i n) vs = Inr ss \<longleftrightarrow> vs = map PStr ss \<and> list_all (id_ok nfc) ss"
  by (rule map_res_strings) (rule sem_id_Inr)

lemma map_res_references [res_simps]:
  "map_res (\<lambda>i. sem_reference nfc i n) vs = Inr ss \<longleftrightarrow> vs = map PStr ss \<and> list_all (ref_ok nfc) ss"
  by (rule map_res_strings) (rule sem_reference_Inr)

lemma map_res_hex [res_simps]:
  "map_res (\<lambda>i. hex_field i n p) vs = Inr ss \<longleftrightarrow>
     vs = map PStr ss \<and> list_all (hex_string (hexpat_len p)) ss"
  by (rule map_res_strings) (rule hex_field_Inr)

section \<open>Canonical dictionaries\<close>

lemma dict_lookup_filter:
  "dict_lookup kvs k = (case filter (\<lambda>kv. fst kv = PStr k) kvs of [] \<Rightarrow> None | kv # _ \<Rightarrow> Some (snd kv))"
  by (induction kvs) auto

text \<open>Sorting the items of a dictionary by key is stable, so it does not change what a key finds.\<close>

lemma dict_lookup_sort:
  assumes "\<And>kv. kv \<in> set kvs \<Longrightarrow> is_str (fst kv)"
  shows "dict_lookup (sort_key (\<lambda>kv. str_of (fst kv)) kvs) k = dict_lookup kvs k"
proof -
  let ?key = "\<lambda>kv::pyval \<times> pyval. str_of (fst kv)"
  have f: "filter (\<lambda>kv. fst kv = PStr k) xs = filter (\<lambda>kv. ?key kv = k) xs"
    if "\<And>kv. kv \<in> set xs \<Longrightarrow> is_str (fst kv)" for xs
    using that by (intro filter_cong refl) (fastforce simp: is_str_iff)
  have "filter (\<lambda>kv. fst kv = PStr k) (sort_key ?key kvs) = filter (\<lambda>kv. ?key kv = k) (sort_key ?key kvs)"
    by (rule f) (simp add: assms)
  also have "\<dots> = filter (\<lambda>kv. ?key kv = k) kvs"
    by (rule sort_key_stable)
  also have "\<dots> = filter (\<lambda>kv. fst kv = PStr k) kvs"
    by (rule f [symmetric]) (rule assms)
  finally have "filter (\<lambda>kv. fst kv = PStr k) (sort_key ?key kvs) = filter (\<lambda>kv. fst kv = PStr k) kvs" .
  then show ?thesis by (simp add: dict_lookup_filter)
qed

lemma canonical_py_dict:
  "canonical (py_dict kvs) =
     PDict (sort_key (\<lambda>kv. str_of (fst kv)) (map (\<lambda>(k, v). (PStr k, canonical v)) kvs))"
proof -
  have "(\<lambda>(k, v). (k, canonical v)) \<circ> (\<lambda>(k, v). (PStr k, v)) = (\<lambda>(k, v). (PStr k, canonical v))"
    by auto
  then show ?thesis by (simp add: py_dict_def)
qed

lemma getitem_canonical [py_simps]:
  "getitem (canonical (py_dict kvs)) k =
    (case assoc kvs k of Some v \<Rightarrow> Inr (canonical v) | None \<Rightarrow> Inl KeyError)"
proof -
  let ?kvs = "map (\<lambda>(k, v). (PStr k, canonical v)) kvs"
  have "dict_lookup (sort_key (\<lambda>kv. str_of (fst kv)) ?kvs) k = dict_lookup ?kvs k"
    by (rule dict_lookup_sort) auto
  also have "\<dots> = map_option canonical (assoc kvs k)"
    by (induction kvs) (auto simp: assoc.simps)
  finally show ?thesis
    unfolding canonical_py_dict by (simp split: option.splits)
qed

lemma field_canonical [py_simps]:
  "field (canonical (py_dict kvs)) k f =
    (case assoc kvs k of Some v \<Rightarrow> f (canonical v) | None \<Rightarrow> Inl KeyError)"
  by (simp add: field_def getitem_canonical split: option.splits)

lemma mapping_canonical [py_simps]:
  "is_mapping (canonical (py_dict kvs))" "str_keys (canonical (py_dict kvs))"
  by (auto simp: canonical_py_dict list_all_iff)

lemma closed_canonical [py_simps]:
  assumes "set (map fst kvs) = set expected"
  shows "closed (canonical (py_dict kvs)) expected = Inr ()"
proof -
  let ?ks = "sort_key (\<lambda>kv. str_of (fst kv)) (map (\<lambda>(k, v). (PStr k, canonical v)) kvs)"
  have "set (map fst ?ks) = PStr ` set expected"
    using assms by (force simp: image_iff)
  then show ?thesis
    by (auto simp: closed_def canonical_py_dict Let_def filter_empty_conv simp del: set_map)
qed

lemma canonical_opt_str [py_simps]: "canonical (opt_str v) = opt_str v"
  by (cases v) simp_all

lemma canonical_comp_PStr [py_simps]: "canonical \<circ> PStr = PStr"
  by auto


section \<open>Requirements\<close>

record requirement_ref =
  rr_kind :: string
  rr_requirement_id :: string

definition requirement_ref_fields :: "string list" where
  "requirement_ref_fields =
     [''kind'', ''requirement_id'']"

definition requirement_ref_from_dict :: "(string \<Rightarrow> string) \<Rightarrow> pyval \<Rightarrow> requirement_ref res" where
  "requirement_ref_from_dict nfc data =
     bnd (sem_object data ''requirement'') (\<lambda>_.
     bnd (closed data requirement_ref_fields) (\<lambda>_.
     bnd (field data ''kind'' (\<lambda>v. enum_field v REQUIREMENT_KINDS (ContractError ''requirement_kind'' []))) (\<lambda>kind.
     bnd (field data ''requirement_id'' (\<lambda>v. sem_id nfc v ''requirement_id'')) (\<lambda>requirement_id.
     Inr \<lparr>rr_kind = kind, rr_requirement_id = requirement_id\<rparr>))))"

definition requirement_ref_asdict :: "requirement_ref \<Rightarrow> pyval" where
  "requirement_ref_asdict x = py_dict
     [(''kind'', PStr (rr_kind x)), (''requirement_id'', PStr (rr_requirement_id x))]"

definition requirement_ref_to_dict :: "requirement_ref \<Rightarrow> pyval" where
  "requirement_ref_to_dict x = canonical (requirement_ref_asdict x)"

interpretation requirement_ref: stable_codec "requirement_ref_from_dict nfc" requirement_ref_to_dict
proof
  fix d x assume "requirement_ref_from_dict nfc d = Inr x"
  then show "requirement_ref_from_dict nfc (requirement_ref_to_dict x) = Inr x"
    unfolding requirement_ref_from_dict_def [of nfc d]
    by (elim bnd_InrE, simp only: res_simps, clarify,
      simp add: requirement_ref_from_dict_def requirement_ref_to_dict_def requirement_ref_asdict_def
        requirement_ref_fields_def res_simps py_simps cong: literal_congs)
qed

definition requirement_key :: "requirement_ref \<Rightarrow> string" where
  "requirement_key r = rr_kind r @ '':'' @ rr_requirement_id r"

section \<open>Validators\<close>

record validator_identity =
  vi_validator_id :: string
  vi_role :: string
  vi_capabilities :: "string list"
  vi_definition_digest :: string
  vi_model_digest :: string
  vi_context_digest :: string

definition validator_identity_fields :: "string list" where
  "validator_identity_fields =
     [''validator_id'', ''role'', ''capabilities'', ''definition_digest'', ''model_digest'',
      ''context_digest'']"

definition validator_identity_from_dict :: "(string \<Rightarrow> string) \<Rightarrow> pyval \<Rightarrow> validator_identity res" where
  "validator_identity_from_dict nfc data =
     bnd (sem_object data ''validator'') (\<lambda>_.
     bnd (closed data validator_identity_fields) (\<lambda>_.
     bnd (getitem data ''role'') (\<lambda>role.
     bnd (ensure (py_eq_str role ''semantic_validator'') (ContractError ''validator_role'' [])) (\<lambda>_.
     bnd (field data ''capabilities'' (\<lambda>v. sorted_unique id v ''validator_capabilities'' (\<lambda>i. sem_id nfc i ''capability'') False)) (\<lambda>capabilities.
     bnd (field data ''validator_id'' (\<lambda>v. sem_id nfc v ''validator_id'')) (\<lambda>validator_id.
     bnd (field data ''definition_digest'' (\<lambda>v. hex_field v ''definition_digest'' HEX64)) (\<lambda>definition.
     bnd (field data ''model_digest'' (\<lambda>v. hex_field v ''model_digest'' HEX64)) (\<lambda>model.
     bnd (field data ''context_digest'' (\<lambda>v. hex_field v ''context_digest'' HEX64)) (\<lambda>context.
     Inr \<lparr>vi_validator_id = validator_id, vi_role = ''semantic_validator'', vi_capabilities = capabilities,
          vi_definition_digest = definition, vi_model_digest = model, vi_context_digest = context\<rparr>)))))))))"

definition validator_identity_asdict :: "validator_identity \<Rightarrow> pyval" where
  "validator_identity_asdict x = py_dict
     [(''validator_id'', PStr (vi_validator_id x)), (''role'', PStr (vi_role x)),
      (''capabilities'', PList (map PStr (vi_capabilities x))),
      (''definition_digest'', PStr (vi_definition_digest x)), (''model_digest'', PStr (vi_model_digest x)),
      (''context_digest'', PStr (vi_context_digest x))]"

definition validator_identity_to_dict :: "validator_identity \<Rightarrow> pyval" where
  "validator_identity_to_dict x = canonical (validator_identity_asdict x)"

interpretation validator_identity: stable_codec "validator_identity_from_dict nfc" validator_identity_to_dict
proof
  fix d x assume "validator_identity_from_dict nfc d = Inr x"
  then show "validator_identity_from_dict nfc (validator_identity_to_dict x) = Inr x"
    unfolding validator_identity_from_dict_def [of nfc d]
    by (elim bnd_InrE, simp only: res_simps, clarify,
      simp add: validator_identity_from_dict_def validator_identity_to_dict_def validator_identity_asdict_def
        validator_identity_fields_def res_simps py_simps py_eq_str_def cong: literal_congs)
qed

section \<open>The subject\<close>

record semantic_subject =
  ss_schema_version :: int
  ss_subject_id :: string
  ss_requirements :: "requirement_ref list"
  ss_exact_base_sha :: string
  ss_exact_head_sha :: string
  ss_spec_digest :: string
  ss_architecture_digest :: string
  ss_authority_digest :: string
  ss_diff_digest :: string
  ss_deterministic_evidence_digest :: string
  ss_holdout_evidence_digest :: string
  ss_review_evidence_digest :: string
  ss_original_writer_id :: string
  ss_original_writer_context_digest :: string
  ss_risk_level :: string
  ss_diff_lines :: int
  ss_diff_limit :: int

definition semantic_subject_fields :: "string list" where
  "semantic_subject_fields =
     [''schema_version'', ''subject_id'', ''requirements'', ''exact_base_sha'', ''exact_head_sha'',
      ''spec_digest'', ''architecture_digest'', ''authority_digest'', ''diff_digest'',
      ''deterministic_evidence_digest'', ''holdout_evidence_digest'', ''review_evidence_digest'',
      ''original_writer_id'', ''original_writer_context_digest'', ''risk_level'', ''diff_lines'',
      ''diff_limit'']"

definition semantic_subject_from_dict :: "(string \<Rightarrow> string) \<Rightarrow> pyval \<Rightarrow> semantic_subject res" where
  "semantic_subject_from_dict nfc data =
     bnd (sem_object data ''semantic_subject'') (\<lambda>_.
     bnd (closed data semantic_subject_fields) (\<lambda>_.
     bnd (field data ''schema_version'' (\<lambda>v. sem_version v ''semantic_subject'')) (\<lambda>_.
     bnd (field data ''requirements'' (\<lambda>v. sorted_unique requirement_key v ''requirements'' (requirement_ref_from_dict nfc) False)) (\<lambda>requirements.
     bnd (field data ''risk_level'' (\<lambda>v. enum_field v SUBJECT_RISKS (ContractError ''risk_level'' []))) (\<lambda>risk.
     bnd (field data ''diff_lines'' (\<lambda>v. sem_integer v ''diff_lines'' 0 1000000)) (\<lambda>diff_lines.
     bnd (field data ''diff_limit'' (\<lambda>v. sem_integer v ''diff_limit'' 1 1000000)) (\<lambda>diff_limit.
     bnd (field data ''subject_id'' (\<lambda>v. sem_id nfc v ''subject_id'')) (\<lambda>subject_id.
     bnd (field data ''exact_base_sha'' (\<lambda>v. hex_field v ''exact_base_sha'' HEX40)) (\<lambda>base.
     bnd (field data ''exact_head_sha'' (\<lambda>v. hex_field v ''exact_head_sha'' HEX40)) (\<lambda>head.
     bnd (field data ''spec_digest'' (\<lambda>v. hex_field v ''spec_digest'' HEX64)) (\<lambda>spec.
     bnd (field data ''architecture_digest'' (\<lambda>v. hex_field v ''architecture_digest'' HEX64)) (\<lambda>architecture.
     bnd (field data ''authority_digest'' (\<lambda>v. hex_field v ''authority_digest'' HEX64)) (\<lambda>authority.
     bnd (field data ''diff_digest'' (\<lambda>v. hex_field v ''diff_digest'' HEX64)) (\<lambda>diff.
     bnd (field data ''deterministic_evidence_digest'' (\<lambda>v. hex_field v ''deterministic_evidence_digest'' HEX64)) (\<lambda>deterministic.
     bnd (field data ''holdout_evidence_digest'' (\<lambda>v. hex_field v ''holdout_evidence_digest'' HEX64)) (\<lambda>holdout.
     bnd (field data ''review_evidence_digest'' (\<lambda>v. hex_field v ''review_evidence_digest'' HEX64)) (\<lambda>review.
     bnd (field data ''original_writer_id'' (\<lambda>v. sem_id nfc v ''original_writer_id'')) (\<lambda>writer.
     bnd (field data ''original_writer_context_digest'' (\<lambda>v. hex_field v ''original_writer_context_digest'' HEX64)) (\<lambda>writer_context.
     Inr \<lparr>ss_schema_version = 1, ss_subject_id = subject_id, ss_requirements = requirements,
          ss_exact_base_sha = base, ss_exact_head_sha = head, ss_spec_digest = spec,
          ss_architecture_digest = architecture, ss_authority_digest = authority, ss_diff_digest = diff,
          ss_deterministic_evidence_digest = deterministic, ss_holdout_evidence_digest = holdout,
          ss_review_evidence_digest = review, ss_original_writer_id = writer,
          ss_original_writer_context_digest = writer_context, ss_risk_level = risk,
          ss_diff_lines = diff_lines, ss_diff_limit = diff_limit\<rparr>)))))))))))))))))))"

definition semantic_subject_asdict :: "semantic_subject \<Rightarrow> pyval" where
  "semantic_subject_asdict x = py_dict
     [(''schema_version'', PInt (ss_schema_version x)), (''subject_id'', PStr (ss_subject_id x)),
      (''requirements'', PList (map requirement_ref_asdict (ss_requirements x))),
      (''exact_base_sha'', PStr (ss_exact_base_sha x)), (''exact_head_sha'', PStr (ss_exact_head_sha x)),
      (''spec_digest'', PStr (ss_spec_digest x)),
      (''architecture_digest'', PStr (ss_architecture_digest x)),
      (''authority_digest'', PStr (ss_authority_digest x)), (''diff_digest'', PStr (ss_diff_digest x)),
      (''deterministic_evidence_digest'', PStr (ss_deterministic_evidence_digest x)),
      (''holdout_evidence_digest'', PStr (ss_holdout_evidence_digest x)),
      (''review_evidence_digest'', PStr (ss_review_evidence_digest x)),
      (''original_writer_id'', PStr (ss_original_writer_id x)),
      (''original_writer_context_digest'', PStr (ss_original_writer_context_digest x)),
      (''risk_level'', PStr (ss_risk_level x)), (''diff_lines'', PInt (ss_diff_lines x)),
      (''diff_limit'', PInt (ss_diff_limit x))]"

definition semantic_subject_to_dict :: "semantic_subject \<Rightarrow> pyval" where
  "semantic_subject_to_dict x = canonical (semantic_subject_asdict x)"

lemma canonical_requirements [py_simps]: "canonical \<circ> requirement_ref_asdict = requirement_ref_to_dict"
  by (auto simp: requirement_ref_to_dict_def)

interpretation semantic_subject: stable_codec "semantic_subject_from_dict nfc" semantic_subject_to_dict
proof
  fix d x assume "semantic_subject_from_dict nfc d = Inr x"
  then show "semantic_subject_from_dict nfc (semantic_subject_to_dict x) = Inr x"
    unfolding semantic_subject_from_dict_def [of nfc d]
    apply (elim bnd_InrE, simp only: res_simps, clarify,
      simp add: semantic_subject_from_dict_def semantic_subject_to_dict_def semantic_subject_asdict_def
        semantic_subject_fields_def res_simps py_simps cong: literal_congs)
    apply (assumption | rule conjI requirement_ref.map_stable)+
    done
qed

definition subject_digest :: "semantic_subject \<Rightarrow> string" where
  "subject_digest s = canonical_digest (semantic_subject_to_dict s)"

definition requirement_keys :: "semantic_subject \<Rightarrow> string list" where
  "requirement_keys s = map requirement_key (ss_requirements s)"

text \<open>\<open>requirement_set_digest\<close>.\<close>

definition requirement_set_digest :: "semantic_subject \<Rightarrow> string" where
  "requirement_set_digest s = canonical_digest (PList (map requirement_ref_to_dict (ss_requirements s)))"

definition validator_validate_for :: "validator_identity \<Rightarrow> semantic_subject \<Rightarrow> unit res" where
  "validator_validate_for v subject =
     (let forbidden = filter (\<lambda>c. c \<in> set FORBIDDEN_VALIDATOR_CAPABILITIES) (vi_capabilities v) in
      checks
        [ensure (vi_validator_id v \<noteq> ss_original_writer_id subject) (ContractError ''validator_is_original_writer'' []),
         ensure (vi_context_digest v \<noteq> ss_original_writer_context_digest subject)
           (ContractError ''validator_context_not_independent'' []),
         ensure (set VALIDATOR_CAPABILITIES \<subseteq> set (vi_capabilities v)) (ContractError ''validator_capability_missing'' []),
         ensure (forbidden = []) (ContractError ''validator_capability_forbidden'' (join '','' (usort forbidden)))])"

definition SEVERITIES :: "string list" where
  "SEVERITIES = [''minor'', ''major'', ''critical'', ''blocker'']"

definition FINDING_CATEGORIES :: "string list" where
  "FINDING_CATEGORIES =
     [''requirement_unsatisfied'', ''evidence_gap'', ''test_gap'', ''architecture_violation'',
      ''security_boundary'', ''authority_violation'', ''contradiction'']"

definition bool_field :: "pyval \<Rightarrow> pyexn \<Rightarrow> bool res" where
  "bool_field v err = (case v of PBool b \<Rightarrow> Inr b | _ \<Rightarrow> Inl err)"

lemma bool_field_Inr [res_simps]: "bool_field v err = Inr b \<longleftrightarrow> v = PBool b"
  by (auto simp: bool_field_def split: pyval.splits)

section \<open>Findings\<close>

record semantic_finding =
  sf_schema_version :: int
  sf_subject_digest :: string
  sf_finding_id :: string
  sf_requirement :: requirement_ref
  sf_severity :: string
  sf_category :: string
  sf_rule_id :: string
  sf_message :: string
  sf_evidence_refs :: "string list"
  sf_reproduction :: string
  sf_repairable :: bool
  sf_validator :: validator_identity
  sf_created_at :: datetime

definition semantic_finding_fields :: "string list" where
  "semantic_finding_fields =
     [''schema_version'', ''subject_digest'', ''finding_id'', ''requirement'', ''severity'', ''category'',
      ''rule_id'', ''message'', ''evidence_refs'', ''reproduction'', ''repairable'', ''validator'',
      ''created_at'']"

definition semantic_finding_from_dict :: "(string \<Rightarrow> string) \<Rightarrow> pyval \<Rightarrow> semantic_finding res" where
  "semantic_finding_from_dict nfc data =
     bnd (sem_object data ''semantic_finding'') (\<lambda>_.
     bnd (closed data semantic_finding_fields) (\<lambda>_.
     bnd (field data ''schema_version'' (\<lambda>v. sem_version v ''semantic_finding'')) (\<lambda>_.
     bnd (field data ''severity'' (\<lambda>v. enum_field v SEVERITIES (ContractError ''finding_severity'' []))) (\<lambda>severity.
     bnd (field data ''category'' (\<lambda>v. enum_field v FINDING_CATEGORIES (ContractError ''finding_category'' []))) (\<lambda>category.
     bnd (field data ''repairable'' (\<lambda>v. bool_field v (ContractError ''finding_repairable'' []))) (\<lambda>repairable.
     bnd (field data ''evidence_refs'' (\<lambda>v. sorted_unique id v ''evidence_refs'' (\<lambda>i. sem_reference nfc i ''evidence_ref'') True)) (\<lambda>evidence.
     bnd (field data ''subject_digest'' (\<lambda>v. hex_field v ''subject_digest'' HEX64)) (\<lambda>subject.
     bnd (field data ''finding_id'' (\<lambda>v. sem_id nfc v ''finding_id'')) (\<lambda>finding_id.
     bnd (field data ''requirement'' (requirement_ref_from_dict nfc)) (\<lambda>requirement.
     bnd (field data ''rule_id'' (\<lambda>v. sem_id nfc v ''rule_id'')) (\<lambda>rule_id.
     bnd (field data ''message'' (\<lambda>v. sem_text nfc v ''message'' 4096)) (\<lambda>message.
     bnd (field data ''reproduction'' (\<lambda>v. sem_text nfc v ''reproduction'' 4096)) (\<lambda>reproduction.
     bnd (field data ''validator'' (validator_identity_from_dict nfc)) (\<lambda>validator.
     bnd (field data ''created_at'' (\<lambda>v. time_field v ''created_at'')) (\<lambda>created_at.
     Inr \<lparr>sf_schema_version = 1, sf_subject_digest = subject, sf_finding_id = finding_id,
          sf_requirement = requirement, sf_severity = severity, sf_category = category,
          sf_rule_id = rule_id, sf_message = message, sf_evidence_refs = evidence,
          sf_reproduction = reproduction, sf_repairable = repairable, sf_validator = validator,
          sf_created_at = created_at\<rparr>)))))))))))))))"

definition semantic_finding_asdict :: "semantic_finding \<Rightarrow> pyval" where
  "semantic_finding_asdict x = py_dict
     [(''schema_version'', PInt (sf_schema_version x)), (''subject_digest'', PStr (sf_subject_digest x)),
      (''finding_id'', PStr (sf_finding_id x)),
      (''requirement'', requirement_ref_asdict (sf_requirement x)), (''severity'', PStr (sf_severity x)),
      (''category'', PStr (sf_category x)), (''rule_id'', PStr (sf_rule_id x)),
      (''message'', PStr (sf_message x)), (''evidence_refs'', PList (map PStr (sf_evidence_refs x))),
      (''reproduction'', PStr (sf_reproduction x)), (''repairable'', PBool (sf_repairable x)),
      (''validator'', validator_identity_asdict (sf_validator x)), (''created_at'', PTime (sf_created_at x))]"

definition semantic_finding_to_dict :: "semantic_finding \<Rightarrow> pyval" where
  "semantic_finding_to_dict x = canonical (semantic_finding_asdict x)"

lemma canonical_asdict [py_simps]:
  "canonical (requirement_ref_asdict r) = requirement_ref_to_dict r"
  "canonical (validator_identity_asdict v) = validator_identity_to_dict v"
  by (simp_all add: requirement_ref_to_dict_def validator_identity_to_dict_def)

lemma time_field_reparse:
  "time_field v name = Inr t \<Longrightarrow> time_field (PStr (timestamp_text t)) name' = Inr t"
  by (simp add: time_field_valid)

interpretation semantic_finding: stable_codec "semantic_finding_from_dict nfc" semantic_finding_to_dict
proof
  fix d x assume "semantic_finding_from_dict nfc d = Inr x"
  then show "semantic_finding_from_dict nfc (semantic_finding_to_dict x) = Inr x"
    unfolding semantic_finding_from_dict_def [of nfc d]
    apply (elim bnd_InrE, simp only: res_simps, clarify,
      simp add: semantic_finding_from_dict_def semantic_finding_to_dict_def semantic_finding_asdict_def
        semantic_finding_fields_def res_simps py_simps cong: literal_congs)
    apply (assumption | rule conjI requirement_ref.stable validator_identity.stable time_field_reparse)+
    done
qed

text \<open>The identity of a finding: what it claims, not who reported it.\<close>

definition finding_identity :: "semantic_finding \<Rightarrow> string" where
  "finding_identity f = canonical_digest (py_dict
     [(''contract'', PStr ''adaptive-factory.semantic-finding-identity/v1''),
      (''requirement'', requirement_ref_asdict (sf_requirement f)), (''severity'', PStr (sf_severity f)),
      (''category'', PStr (sf_category f)), (''rule_id'', PStr (sf_rule_id f))])"

definition finding_validate_for :: "semantic_finding \<Rightarrow> semantic_subject \<Rightarrow> unit res" where
  "finding_validate_for f subject =
     checks
       [ensure (sf_subject_digest f = subject_digest subject) (ContractError ''stale_semantic_evidence'' ''finding''),
        ensure (requirement_key (sf_requirement f) \<in> set (requirement_keys subject))
          (ContractError ''finding_requirement_set'' []),
        validator_validate_for (sf_validator f) subject]"

definition COVERAGE_STATUSES :: "string list" where
  "COVERAGE_STATUSES = [''proven'', ''unproven'', ''contradicted'', ''out_of_scope'']"

section \<open>Coverage\<close>

record coverage_entry =
  ce_requirement :: requirement_ref
  ce_status :: string
  ce_evidence_refs :: "string list"

definition coverage_entry_fields :: "string list" where
  "coverage_entry_fields =
     [''requirement'', ''status'', ''evidence_refs'']"

definition coverage_entry_from_dict :: "(string \<Rightarrow> string) \<Rightarrow> pyval \<Rightarrow> coverage_entry res" where
  "coverage_entry_from_dict nfc data =
     bnd (sem_object data ''coverage_entry'') (\<lambda>_.
     bnd (closed data coverage_entry_fields) (\<lambda>_.
     bnd (field data ''status'' (\<lambda>v. enum_field v COVERAGE_STATUSES (ContractError ''coverage_status'' []))) (\<lambda>status.
     bnd (field data ''requirement'' (requirement_ref_from_dict nfc)) (\<lambda>requirement.
     bnd (field data ''evidence_refs'' (\<lambda>v. sorted_unique id v ''evidence_refs'' (\<lambda>i. sem_reference nfc i ''evidence_ref'') True)) (\<lambda>evidence.
     Inr \<lparr>ce_requirement = requirement, ce_status = status, ce_evidence_refs = evidence\<rparr>)))))"

definition coverage_entry_asdict :: "coverage_entry \<Rightarrow> pyval" where
  "coverage_entry_asdict x = py_dict
     [(''requirement'', requirement_ref_asdict (ce_requirement x)), (''status'', PStr (ce_status x)),
      (''evidence_refs'', PList (map PStr (ce_evidence_refs x)))]"

definition coverage_entry_to_dict :: "coverage_entry \<Rightarrow> pyval" where
  "coverage_entry_to_dict x = canonical (coverage_entry_asdict x)"

interpretation coverage_entry: stable_codec "coverage_entry_from_dict nfc" coverage_entry_to_dict
proof
  fix d x assume "coverage_entry_from_dict nfc d = Inr x"
  then show "coverage_entry_from_dict nfc (coverage_entry_to_dict x) = Inr x"
    unfolding coverage_entry_from_dict_def [of nfc d]
    apply (elim bnd_InrE, simp only: res_simps, clarify,
      simp add: coverage_entry_from_dict_def coverage_entry_to_dict_def coverage_entry_asdict_def
        coverage_entry_fields_def res_simps py_simps cong: literal_congs)
    apply (assumption | rule conjI requirement_ref.stable)+
    done
qed

definition entry_key :: "coverage_entry \<Rightarrow> string" where
  "entry_key e = requirement_key (ce_requirement e)"

record semantic_coverage =
  sc_schema_version :: int
  sc_subject_digest :: string
  sc_validator :: validator_identity
  sc_entries :: "coverage_entry list"
  sc_coverage_millionths :: int

definition semantic_coverage_fields :: "string list" where
  "semantic_coverage_fields =
     [''schema_version'', ''subject_digest'', ''validator'', ''entries'', ''coverage_millionths'']"

definition semantic_coverage_from_dict :: "(string \<Rightarrow> string) \<Rightarrow> pyval \<Rightarrow> semantic_coverage res" where
  "semantic_coverage_from_dict nfc data =
     bnd (sem_object data ''semantic_coverage'') (\<lambda>_.
     bnd (closed data semantic_coverage_fields) (\<lambda>_.
     bnd (field data ''schema_version'' (\<lambda>v. sem_version v ''semantic_coverage'')) (\<lambda>_.
     bnd (field data ''coverage_millionths'' (\<lambda>v. sem_integer v ''coverage_millionths'' 0 1000000)) (\<lambda>millionths.
     bnd (ensure (millionths = 1000000) (ContractError ''coverage_millionths'' [])) (\<lambda>_.
     bnd (field data ''subject_digest'' (\<lambda>v. hex_field v ''subject_digest'' HEX64)) (\<lambda>subject.
     bnd (field data ''validator'' (validator_identity_from_dict nfc)) (\<lambda>validator.
     bnd (field data ''entries'' (\<lambda>v. sorted_unique entry_key v ''coverage_entries'' (coverage_entry_from_dict nfc) False)) (\<lambda>entries.
     Inr \<lparr>sc_schema_version = 1, sc_subject_digest = subject, sc_validator = validator,
          sc_entries = entries, sc_coverage_millionths = millionths\<rparr>))))))))"

definition semantic_coverage_asdict :: "semantic_coverage \<Rightarrow> pyval" where
  "semantic_coverage_asdict x = py_dict
     [(''schema_version'', PInt (sc_schema_version x)), (''subject_digest'', PStr (sc_subject_digest x)),
      (''validator'', validator_identity_asdict (sc_validator x)),
      (''entries'', PList (map coverage_entry_asdict (sc_entries x))),
      (''coverage_millionths'', PInt (sc_coverage_millionths x))]"

definition semantic_coverage_to_dict :: "semantic_coverage \<Rightarrow> pyval" where
  "semantic_coverage_to_dict x = canonical (semantic_coverage_asdict x)"

lemma canonical_entries [py_simps]: "canonical \<circ> coverage_entry_asdict = coverage_entry_to_dict"
  by (auto simp: coverage_entry_to_dict_def)

interpretation semantic_coverage: stable_codec "semantic_coverage_from_dict nfc" semantic_coverage_to_dict
proof
  fix d x assume "semantic_coverage_from_dict nfc d = Inr x"
  then show "semantic_coverage_from_dict nfc (semantic_coverage_to_dict x) = Inr x"
    unfolding semantic_coverage_from_dict_def [of nfc d]
    apply (elim bnd_InrE, simp only: res_simps, clarify,
      simp add: semantic_coverage_from_dict_def semantic_coverage_to_dict_def semantic_coverage_asdict_def
        semantic_coverage_fields_def res_simps py_simps cong: literal_congs)
    apply (assumption | rule conjI validator_identity.stable coverage_entry.map_stable)+
    done
qed

definition coverage_validate_for :: "semantic_coverage \<Rightarrow> semantic_subject \<Rightarrow> unit res" where
  "coverage_validate_for c subject =
     checks
       [ensure (sc_subject_digest c = subject_digest subject) (ContractError ''stale_semantic_evidence'' ''coverage''),
        ensure (map entry_key (sc_entries c) = requirement_keys subject) (ContractError ''coverage_requirement_set'' []),
        validator_validate_for (sc_validator c) subject]"

section \<open>Verdicts\<close>

record semantic_verdict =
  sv_schema_version :: int
  sv_subject_digest :: string
  sv_decision :: string
  sv_decision_source :: string
  sv_finding_identity_digests :: "string list"
  sv_duplicate_identity_digests :: "string list"
  sv_correlated_requirement_keys :: "string list"
  sv_contradicted_requirement_keys :: "string list"
  sv_unsupported_pass_requirement_keys :: "string list"
  sv_residual_risk :: string

definition semantic_verdict_fields :: "string list" where
  "semantic_verdict_fields =
     [''schema_version'', ''subject_digest'', ''decision'', ''decision_source'',
      ''finding_identity_digests'', ''duplicate_identity_digests'', ''correlated_requirement_keys'',
      ''contradicted_requirement_keys'', ''unsupported_pass_requirement_keys'', ''residual_risk'']"

definition semantic_verdict_from_dict :: "(string \<Rightarrow> string) \<Rightarrow> pyval \<Rightarrow> semantic_verdict res" where
  "semantic_verdict_from_dict nfc data =
     bnd (sem_object data ''semantic_verdict'') (\<lambda>_.
     bnd (closed data semantic_verdict_fields) (\<lambda>_.
     bnd (field data ''schema_version'' (\<lambda>v. sem_version v ''semantic_verdict'')) (\<lambda>_.
     bnd (field data ''decision'' (\<lambda>v. enum_field v [''pass'', ''repair'', ''needs_human''] (ContractError ''semantic_decision'' []))) (\<lambda>decision.
     bnd (getitem data ''decision_source'') (\<lambda>source.
     bnd (ensure (py_eq_str source ''deterministic_adjudicator'') (ContractError ''decision_source'' [])) (\<lambda>_.
     bnd (field data ''residual_risk'' (\<lambda>v. enum_field v RISK_LEVELS (ContractError ''residual_risk'' []))) (\<lambda>residual.
     bnd (field data ''subject_digest'' (\<lambda>v. hex_field v ''subject_digest'' HEX64)) (\<lambda>subject.
     bnd (field data ''finding_identity_digests'' (\<lambda>v. sorted_unique id v ''finding_identity_digests'' (\<lambda>i. hex_field i ''finding_identity_digests'' HEX64) True)) (\<lambda>finding.
     bnd (field data ''duplicate_identity_digests'' (\<lambda>v. sorted_unique id v ''duplicate_identity_digests'' (\<lambda>i. hex_field i ''duplicate_identity_digests'' HEX64) True)) (\<lambda>duplicate.
     bnd (field data ''correlated_requirement_keys'' (\<lambda>v. sorted_unique id v ''correlated_requirement_keys'' (\<lambda>i. sem_reference nfc i ''correlated_requirement_keys'') True)) (\<lambda>correlated.
     bnd (field data ''contradicted_requirement_keys'' (\<lambda>v. sorted_unique id v ''contradicted_requirement_keys'' (\<lambda>i. sem_reference nfc i ''contradicted_requirement_keys'') True)) (\<lambda>contradicted.
     bnd (field data ''unsupported_pass_requirement_keys'' (\<lambda>v. sorted_unique id v ''unsupported_pass_requirement_keys'' (\<lambda>i. sem_reference nfc i ''unsupported_pass_requirement_keys'') True)) (\<lambda>unsupported.
     Inr \<lparr>sv_schema_version = 1, sv_subject_digest = subject, sv_decision = decision,
          sv_decision_source = ''deterministic_adjudicator'', sv_finding_identity_digests = finding,
          sv_duplicate_identity_digests = duplicate, sv_correlated_requirement_keys = correlated,
          sv_contradicted_requirement_keys = contradicted,
          sv_unsupported_pass_requirement_keys = unsupported, sv_residual_risk = residual\<rparr>)))))))))))))"

definition semantic_verdict_asdict :: "semantic_verdict \<Rightarrow> pyval" where
  "semantic_verdict_asdict x = py_dict
     [(''schema_version'', PInt (sv_schema_version x)), (''subject_digest'', PStr (sv_subject_digest x)),
      (''decision'', PStr (sv_decision x)), (''decision_source'', PStr (sv_decision_source x)),
      (''finding_identity_digests'', PList (map PStr (sv_finding_identity_digests x))),
      (''duplicate_identity_digests'', PList (map PStr (sv_duplicate_identity_digests x))),
      (''correlated_requirement_keys'', PList (map PStr (sv_correlated_requirement_keys x))),
      (''contradicted_requirement_keys'', PList (map PStr (sv_contradicted_requirement_keys x))),
      (''unsupported_pass_requirement_keys'', PList (map PStr (sv_unsupported_pass_requirement_keys x))),
      (''residual_risk'', PStr (sv_residual_risk x))]"

definition semantic_verdict_to_dict :: "semantic_verdict \<Rightarrow> pyval" where
  "semantic_verdict_to_dict x = canonical (semantic_verdict_asdict x)"

interpretation semantic_verdict: stable_codec "semantic_verdict_from_dict nfc" semantic_verdict_to_dict
proof
  fix d x assume "semantic_verdict_from_dict nfc d = Inr x"
  then show "semantic_verdict_from_dict nfc (semantic_verdict_to_dict x) = Inr x"
    unfolding semantic_verdict_from_dict_def [of nfc d]
    by (elim bnd_InrE, simp only: res_simps, clarify,
      simp add: semantic_verdict_from_dict_def semantic_verdict_to_dict_def semantic_verdict_asdict_def
        semantic_verdict_fields_def res_simps py_simps py_eq_str_def cong: literal_congs)
qed

definition verdict_digest :: "semantic_verdict \<Rightarrow> string" where
  "verdict_digest v = canonical_digest (semantic_verdict_to_dict v)"

definition verdict_validate_for :: "semantic_verdict \<Rightarrow> semantic_subject \<Rightarrow> unit res" where
  "verdict_validate_for v subject =
     ensure (sv_subject_digest v = subject_digest subject) (ContractError ''stale_semantic_evidence'' ''verdict'')"

section \<open>Repair directives\<close>

record repair_directive =
  rp_schema_version :: int
  rp_subject_digest :: string
  rp_verdict_digest :: string
  rp_cycle :: int
  rp_writer_id :: string
  rp_context_digest :: string
  rp_exact_head_sha :: string
  rp_finding_identity_digests :: "string list"

definition repair_directive_fields :: "string list" where
  "repair_directive_fields =
     [''schema_version'', ''subject_digest'', ''verdict_digest'', ''cycle'', ''writer_id'',
      ''context_digest'', ''exact_head_sha'', ''finding_identity_digests'']"

definition repair_directive_from_dict :: "(string \<Rightarrow> string) \<Rightarrow> pyval \<Rightarrow> repair_directive res" where
  "repair_directive_from_dict nfc data =
     bnd (sem_object data ''repair_directive'') (\<lambda>_.
     bnd (closed data repair_directive_fields) (\<lambda>_.
     bnd (field data ''schema_version'' (\<lambda>v. sem_version v ''repair_directive'')) (\<lambda>_.
     bnd (field data ''subject_digest'' (\<lambda>v. hex_field v ''subject_digest'' HEX64)) (\<lambda>subject.
     bnd (field data ''verdict_digest'' (\<lambda>v. hex_field v ''verdict_digest'' HEX64)) (\<lambda>verdict.
     bnd (field data ''cycle'' (\<lambda>v. sem_integer v ''repair_cycle'' 1 3)) (\<lambda>cycle.
     bnd (field data ''writer_id'' (\<lambda>v. sem_id nfc v ''writer_id'')) (\<lambda>writer.
     bnd (field data ''context_digest'' (\<lambda>v. hex_field v ''context_digest'' HEX64)) (\<lambda>context.
     bnd (field data ''exact_head_sha'' (\<lambda>v. hex_field v ''exact_head_sha'' HEX40)) (\<lambda>head.
     bnd (field data ''finding_identity_digests'' (\<lambda>v. sorted_unique id v ''finding_identity_digests'' (\<lambda>i. hex_field i ''finding_identity_digest'' HEX64) True)) (\<lambda>findings.
     Inr \<lparr>rp_schema_version = 1, rp_subject_digest = subject, rp_verdict_digest = verdict,
          rp_cycle = cycle, rp_writer_id = writer, rp_context_digest = context, rp_exact_head_sha = head,
          rp_finding_identity_digests = findings\<rparr>))))))))))"

definition repair_directive_asdict :: "repair_directive \<Rightarrow> pyval" where
  "repair_directive_asdict x = py_dict
     [(''schema_version'', PInt (rp_schema_version x)), (''subject_digest'', PStr (rp_subject_digest x)),
      (''verdict_digest'', PStr (rp_verdict_digest x)), (''cycle'', PInt (rp_cycle x)),
      (''writer_id'', PStr (rp_writer_id x)), (''context_digest'', PStr (rp_context_digest x)),
      (''exact_head_sha'', PStr (rp_exact_head_sha x)),
      (''finding_identity_digests'', PList (map PStr (rp_finding_identity_digests x)))]"

definition repair_directive_to_dict :: "repair_directive \<Rightarrow> pyval" where
  "repair_directive_to_dict x = canonical (repair_directive_asdict x)"

interpretation repair_directive: stable_codec "repair_directive_from_dict nfc" repair_directive_to_dict
proof
  fix d x assume "repair_directive_from_dict nfc d = Inr x"
  then show "repair_directive_from_dict nfc (repair_directive_to_dict x) = Inr x"
    unfolding repair_directive_from_dict_def [of nfc d]
    by (elim bnd_InrE, simp only: res_simps, clarify,
      simp add: repair_directive_from_dict_def repair_directive_to_dict_def repair_directive_asdict_def
        repair_directive_fields_def res_simps py_simps cong: literal_congs)
qed

definition directive_digest :: "repair_directive \<Rightarrow> string" where
  "directive_digest d = canonical_digest (repair_directive_to_dict d)"

definition directive_validate_for ::
  "repair_directive \<Rightarrow> semantic_subject \<Rightarrow> semantic_verdict option \<Rightarrow> unit res" where
  "directive_validate_for d subject verdict =
     checks
       ([ensure (rp_subject_digest d = subject_digest subject \<and> rp_exact_head_sha d = ss_exact_head_sha subject)
           (ContractError ''stale_semantic_evidence'' ''directive''),
         ensure (rp_writer_id d = ss_original_writer_id subject) (ContractError ''repair_writer_mismatch'' [])] @
        (case verdict of None \<Rightarrow> []
         | Some v \<Rightarrow>
            [verdict_validate_for v subject,
             ensure (rp_verdict_digest d = verdict_digest v)
               (ContractError ''stale_semantic_evidence'' ''directive verdict'')]))"

end
