(* ===== verification/RepairContracts.thy ===== *)
theory RepairContracts
  imports SemanticContracts
begin

text \<open>
  The contract classes of \<open>semantic_repair.py\<close>: repair request, child proposal, child task binding,
  escalation, and the lifecycle result that ties them together.

  Field prefixes: \<open>rq_\<close> request, \<open>rc_\<close> child proposal, \<open>rb_\<close> child task binding, \<open>re_\<close> escalation,
  \<open>rl_\<close> lifecycle result.
\<close>

section \<open>Constants\<close>

definition RISK_ORDER :: "(string \<times> nat) list" where
  "RISK_ORDER = [(''low'', 0), (''medium'', 1), (''high'', 2), (''critical'', 3)]"

definition ESCALATION_REASONS :: "string list" where
  "ESCALATION_REASONS =
     [''architecture_changed'', ''authority_changed'', ''base_changed'', ''budget_exhausted'',
      ''context_not_fresh'', ''deadline_exhausted'', ''diff_changed'', ''diff_limit_exceeded'',
      ''finding_recurrence'', ''head_changed'', ''original_writer_mismatch'',
      ''repair_cycle_out_of_bounds'', ''risk_increased'', ''stale_fence'', ''stale_semantic_evidence'',
      ''unsupported_result_disposition'', ''verdict_not_repair'', ''workspace_result_changed'']"

definition INT63_MAX :: int where
  "INT63_MAX = 2 ^ 63 - 1"

definition risk_field :: "pyval \<Rightarrow> string \<Rightarrow> string res" where
  "risk_field value name = enum_field value SUBJECT_RISKS (ContractError name [])"

definition true_field :: "pyval \<Rightarrow> string \<Rightarrow> unit res" where
  "true_field v name = ensure (v = PBool True) (ContractError name [])"

definition literal_field :: "pyval \<Rightarrow> string \<Rightarrow> pyexn \<Rightarrow> unit res" where
  "literal_field v s err = ensure (py_eq_str v s) err"

lemma risk_field_Inr [res_simps]: "risk_field v name = Inr s \<longleftrightarrow> v = PStr s \<and> s \<in> set SUBJECT_RISKS"
  by (simp add: risk_field_def res_simps)

lemma true_field_Inr [res_simps]: "true_field v name = Inr u \<longleftrightarrow> v = PBool True"
  by (simp add: true_field_def res_simps)

lemma literal_field_Inr [res_simps]: "literal_field v s e = Inr u \<longleftrightarrow> v = PStr s"
  by (simp add: literal_field_def res_simps py_eq_str_def)

text \<open>
  A proposal of the first cycle has no predecessor and one of a later cycle names it:
  \<open>(cycle == 1 and previous is not None) or (cycle > 1 and previous is None)\<close> raises.
\<close>

definition cycle_sequence :: "int \<Rightarrow> string option \<Rightarrow> unit res" where
  "cycle_sequence cycle previous =
     ensure (\<not> ((cycle = 1 \<and> previous \<noteq> None) \<or> (1 < cycle \<and> previous = None)))
       (ContractError ''repair_cycle_sequence'' [])"

lemma cycle_sequence_Inr [res_simps]:
  "cycle_sequence cycle previous = Inr u \<longleftrightarrow>
     (cycle = 1 \<longrightarrow> previous = None) \<and> (1 < cycle \<longrightarrow> previous \<noteq> None)"
  by (auto simp: cycle_sequence_def res_simps)


section \<open>Repair requests\<close>

record repair_request =
  rq_schema_version :: int
  rq_subject_digest :: string
  rq_verdict_digest :: string
  rq_requested_cycle :: int
  rq_previous_child_proposal_digest :: "string option"
  rq_writer_id :: string
  rq_context_digest :: string
  rq_expected_workspace_result_digest :: string
  rq_expected_fence :: int
  rq_expected_head_sha :: string
  rq_expected_base_sha :: string
  rq_expected_architecture_digest :: string
  rq_expected_authority_digest :: string
  rq_expected_diff_digest :: string
  rq_expected_risk_level :: string

definition repair_request_fields :: "string list" where
  "repair_request_fields =
     [''schema_version'', ''subject_digest'', ''verdict_digest'', ''requested_cycle'',
      ''previous_child_proposal_digest'', ''writer_id'', ''context_digest'',
      ''expected_workspace_result_digest'', ''expected_fence'', ''expected_head_sha'',
      ''expected_base_sha'', ''expected_architecture_digest'', ''expected_authority_digest'',
      ''expected_diff_digest'', ''expected_risk_level'']"

definition repair_request_from_dict :: "(string \<Rightarrow> string) \<Rightarrow> pyval \<Rightarrow> repair_request res" where
  "repair_request_from_dict nfc data =
     bnd (sem_object data ''semantic_repair_request'') (\<lambda>_.
     bnd (closed data repair_request_fields) (\<lambda>_.
     bnd (field data ''schema_version'' (\<lambda>v. sem_version v ''semantic_repair_request'')) (\<lambda>_.
     bnd (field data ''expected_risk_level'' (\<lambda>v. risk_field v ''expected_risk_level'')) (\<lambda>risk.
     bnd (field data ''requested_cycle'' (\<lambda>v. sem_integer v ''requested_cycle'' 0 1000000)) (\<lambda>cycle.
     bnd (field data ''previous_child_proposal_digest'' (opt_field (\<lambda>v. hex_field v ''previous_child_proposal_digest'' HEX64))) (\<lambda>previous.
     bnd (cycle_sequence cycle previous) (\<lambda>_.
     bnd (field data ''subject_digest'' (\<lambda>v. hex_field v ''subject_digest'' HEX64)) (\<lambda>subject.
     bnd (field data ''verdict_digest'' (\<lambda>v. hex_field v ''verdict_digest'' HEX64)) (\<lambda>verdict.
     bnd (field data ''writer_id'' (\<lambda>v. id_field nfc v ''writer_id'')) (\<lambda>writer.
     bnd (field data ''context_digest'' (\<lambda>v. hex_field v ''context_digest'' HEX64)) (\<lambda>context.
     bnd (field data ''expected_workspace_result_digest'' (\<lambda>v. hex_field v ''expected_workspace_result_digest'' HEX64)) (\<lambda>workspace.
     bnd (field data ''expected_fence'' (\<lambda>v. sem_integer v ''expected_fence'' 1 INT63_MAX)) (\<lambda>fence.
     bnd (field data ''expected_head_sha'' (\<lambda>v. hex_field v ''expected_head_sha'' HEX40)) (\<lambda>head.
     bnd (field data ''expected_base_sha'' (\<lambda>v. hex_field v ''expected_base_sha'' HEX40)) (\<lambda>base.
     bnd (field data ''expected_architecture_digest'' (\<lambda>v. hex_field v ''expected_architecture_digest'' HEX64)) (\<lambda>architecture.
     bnd (field data ''expected_authority_digest'' (\<lambda>v. hex_field v ''expected_authority_digest'' HEX64)) (\<lambda>authority.
     bnd (field data ''expected_diff_digest'' (\<lambda>v. hex_field v ''expected_diff_digest'' HEX64)) (\<lambda>diff.
     Inr \<lparr>rq_schema_version = 1, rq_subject_digest = subject, rq_verdict_digest = verdict,
          rq_requested_cycle = cycle, rq_previous_child_proposal_digest = previous, rq_writer_id = writer,
          rq_context_digest = context, rq_expected_workspace_result_digest = workspace,
          rq_expected_fence = fence, rq_expected_head_sha = head, rq_expected_base_sha = base,
          rq_expected_architecture_digest = architecture, rq_expected_authority_digest = authority,
          rq_expected_diff_digest = diff, rq_expected_risk_level = risk\<rparr>))))))))))))))))))"

definition repair_request_asdict :: "repair_request \<Rightarrow> pyval" where
  "repair_request_asdict x = py_dict
     [(''schema_version'', PInt (rq_schema_version x)), (''subject_digest'', PStr (rq_subject_digest x)),
      (''verdict_digest'', PStr (rq_verdict_digest x)), (''requested_cycle'', PInt (rq_requested_cycle x)),
      (''previous_child_proposal_digest'', opt_str (rq_previous_child_proposal_digest x)),
      (''writer_id'', PStr (rq_writer_id x)), (''context_digest'', PStr (rq_context_digest x)),
      (''expected_workspace_result_digest'', PStr (rq_expected_workspace_result_digest x)),
      (''expected_fence'', PInt (rq_expected_fence x)),
      (''expected_head_sha'', PStr (rq_expected_head_sha x)),
      (''expected_base_sha'', PStr (rq_expected_base_sha x)),
      (''expected_architecture_digest'', PStr (rq_expected_architecture_digest x)),
      (''expected_authority_digest'', PStr (rq_expected_authority_digest x)),
      (''expected_diff_digest'', PStr (rq_expected_diff_digest x)),
      (''expected_risk_level'', PStr (rq_expected_risk_level x))]"

definition repair_request_to_dict :: "repair_request \<Rightarrow> pyval" where
  "repair_request_to_dict x = canonical (repair_request_asdict x)"

interpretation repair_request: stable_codec "repair_request_from_dict nfc" repair_request_to_dict
proof
  fix d x assume "repair_request_from_dict nfc d = Inr x"
  then show "repair_request_from_dict nfc (repair_request_to_dict x) = Inr x"
    unfolding repair_request_from_dict_def [of nfc d]
    by (elim bnd_InrE, simp only: res_simps, clarify,
      simp add: repair_request_from_dict_def repair_request_to_dict_def repair_request_asdict_def
        repair_request_fields_def res_simps py_simps cong: literal_congs)
qed

definition repair_request_digest :: "repair_request \<Rightarrow> string" where
  "repair_request_digest x = canonical_digest (repair_request_to_dict x)"

section \<open>Child proposals\<close>

record repair_child =
  rc_schema_version :: int
  rc_subject_digest :: string
  rc_verdict_digest :: string
  rc_directive_digest :: string
  rc_cycle :: int
  rc_previous_child_proposal_digest :: "string option"
  rc_parent_task_id :: string
  rc_parent_run_id :: string
  rc_parent_fence :: int
  rc_parent_task_packet_digest :: string
  rc_parent_run_manifest_digest :: string
  rc_parent_workspace_result_digest :: string
  rc_parent_exact_head_sha :: string
  rc_writer_id :: string
  rc_context_digest :: string
  rc_exact_base_sha :: string
  rc_architecture_digest :: string
  rc_authority_digest :: string
  rc_diff_digest :: string
  rc_finding_identity_digests :: "string list"
  rc_baseline_risk_level :: string
  rc_max_cost_usd_micros :: int
  rc_max_token_units :: int
  rc_max_output_bytes :: int
  rc_max_events :: int
  rc_infrastructure_retries_remaining :: int
  rc_budget_remaining_units :: int
  rc_deadline_at :: datetime
  rc_proposal_state :: string
  rc_requires_new_workspace_result :: bool
  rc_requires_new_semantic_subject :: bool

definition repair_child_fields :: "string list" where
  "repair_child_fields =
     [''schema_version'', ''subject_digest'', ''verdict_digest'', ''directive_digest'', ''cycle'',
      ''previous_child_proposal_digest'', ''parent_task_id'', ''parent_run_id'', ''parent_fence'',
      ''parent_task_packet_digest'', ''parent_run_manifest_digest'', ''parent_workspace_result_digest'',
      ''parent_exact_head_sha'', ''writer_id'', ''context_digest'', ''exact_base_sha'',
      ''architecture_digest'', ''authority_digest'', ''diff_digest'', ''finding_identity_digests'',
      ''baseline_risk_level'', ''max_cost_usd_micros'', ''max_token_units'', ''max_output_bytes'',
      ''max_events'', ''infrastructure_retries_remaining'', ''budget_remaining_units'', ''deadline_at'',
      ''proposal_state'', ''requires_new_workspace_result'', ''requires_new_semantic_subject'']"

definition repair_child_from_dict :: "(string \<Rightarrow> string) \<Rightarrow> pyval \<Rightarrow> repair_child res" where
  "repair_child_from_dict nfc data =
     bnd (sem_object data ''repair_child_proposal'') (\<lambda>_.
     bnd (closed data repair_child_fields) (\<lambda>_.
     bnd (field data ''schema_version'' (\<lambda>v. sem_version v ''repair_child_proposal'')) (\<lambda>_.
     bnd (field data ''requires_new_workspace_result'' (\<lambda>v. true_field v ''requires_new_workspace_result'')) (\<lambda>_.
     bnd (field data ''requires_new_semantic_subject'' (\<lambda>v. true_field v ''requires_new_semantic_subject'')) (\<lambda>_.
     bnd (field data ''proposal_state'' (\<lambda>v. literal_field v ''pending_handoff'' (ContractError ''proposal_state'' []))) (\<lambda>_.
     bnd (field data ''cycle'' (\<lambda>v. sem_integer v ''repair_cycle'' 1 3)) (\<lambda>cycle.
     bnd (field data ''previous_child_proposal_digest'' (opt_field (\<lambda>v. hex_field v ''previous_child_proposal_digest'' HEX64))) (\<lambda>previous.
     bnd (cycle_sequence cycle previous) (\<lambda>_.
     bnd (field data ''subject_digest'' (\<lambda>v. hex_field v ''subject_digest'' HEX64)) (\<lambda>v_subject_digest.
     bnd (field data ''verdict_digest'' (\<lambda>v. hex_field v ''verdict_digest'' HEX64)) (\<lambda>v_verdict_digest.
     bnd (field data ''directive_digest'' (\<lambda>v. hex_field v ''directive_digest'' HEX64)) (\<lambda>v_directive_digest.
     bnd (field data ''parent_task_id'' (\<lambda>v. id_field nfc v ''parent_task_id'')) (\<lambda>v_parent_task_id.
     bnd (field data ''parent_run_id'' (\<lambda>v. id_field nfc v ''parent_run_id'')) (\<lambda>v_parent_run_id.
     bnd (field data ''parent_fence'' (\<lambda>v. sem_integer v ''parent_fence'' 1 INT63_MAX)) (\<lambda>v_parent_fence.
     bnd (field data ''parent_task_packet_digest'' (\<lambda>v. hex_field v ''parent_task_packet_digest'' HEX64)) (\<lambda>v_parent_task_packet_digest.
     bnd (field data ''parent_run_manifest_digest'' (\<lambda>v. hex_field v ''parent_run_manifest_digest'' HEX64)) (\<lambda>v_parent_run_manifest_digest.
     bnd (field data ''parent_workspace_result_digest'' (\<lambda>v. hex_field v ''parent_workspace_result_digest'' HEX64)) (\<lambda>v_parent_workspace_result_digest.
     bnd (field data ''parent_exact_head_sha'' (\<lambda>v. hex_field v ''parent_exact_head_sha'' HEX40)) (\<lambda>v_parent_exact_head_sha.
     bnd (field data ''writer_id'' (\<lambda>v. id_field nfc v ''writer_id'')) (\<lambda>v_writer_id.
     bnd (field data ''context_digest'' (\<lambda>v. hex_field v ''context_digest'' HEX64)) (\<lambda>v_context_digest.
     bnd (field data ''exact_base_sha'' (\<lambda>v. hex_field v ''exact_base_sha'' HEX40)) (\<lambda>v_exact_base_sha.
     bnd (field data ''architecture_digest'' (\<lambda>v. hex_field v ''architecture_digest'' HEX64)) (\<lambda>v_architecture_digest.
     bnd (field data ''authority_digest'' (\<lambda>v. hex_field v ''authority_digest'' HEX64)) (\<lambda>v_authority_digest.
     bnd (field data ''diff_digest'' (\<lambda>v. hex_field v ''diff_digest'' HEX64)) (\<lambda>v_diff_digest.
     bnd (field data ''finding_identity_digests'' (\<lambda>v. sorted_unique id v ''finding_identity_digests'' (\<lambda>i. hex_field i ''finding_identity_digest'' HEX64) True)) (\<lambda>v_finding_identity_digests.
     bnd (field data ''baseline_risk_level'' (\<lambda>v. risk_field v ''baseline_risk_level'')) (\<lambda>v_baseline_risk_level.
     bnd (field data ''max_cost_usd_micros'' (\<lambda>v. sem_integer v ''max_cost_usd_micros'' 0 INT63_MAX)) (\<lambda>v_max_cost_usd_micros.
     bnd (field data ''max_token_units'' (\<lambda>v. sem_integer v ''max_token_units'' 0 INT63_MAX)) (\<lambda>v_max_token_units.
     bnd (field data ''max_output_bytes'' (\<lambda>v. sem_integer v ''max_output_bytes'' 0 INT63_MAX)) (\<lambda>v_max_output_bytes.
     bnd (field data ''max_events'' (\<lambda>v. sem_integer v ''max_events'' 0 INT63_MAX)) (\<lambda>v_max_events.
     bnd (field data ''infrastructure_retries_remaining'' (\<lambda>v. sem_integer v ''infrastructure_retries_remaining'' 0 2)) (\<lambda>v_infrastructure_retries_remaining.
     bnd (field data ''budget_remaining_units'' (\<lambda>v. sem_integer v ''budget_remaining_units'' 1 INT63_MAX)) (\<lambda>v_budget_remaining_units.
     bnd (field data ''deadline_at'' (\<lambda>v. time_field v ''deadline_at'')) (\<lambda>v_deadline_at.
     Inr \<lparr>rc_schema_version = 1, rc_subject_digest = v_subject_digest,
          rc_verdict_digest = v_verdict_digest, rc_directive_digest = v_directive_digest, rc_cycle = cycle,
          rc_previous_child_proposal_digest = previous, rc_parent_task_id = v_parent_task_id,
          rc_parent_run_id = v_parent_run_id, rc_parent_fence = v_parent_fence,
          rc_parent_task_packet_digest = v_parent_task_packet_digest,
          rc_parent_run_manifest_digest = v_parent_run_manifest_digest,
          rc_parent_workspace_result_digest = v_parent_workspace_result_digest,
          rc_parent_exact_head_sha = v_parent_exact_head_sha, rc_writer_id = v_writer_id,
          rc_context_digest = v_context_digest, rc_exact_base_sha = v_exact_base_sha,
          rc_architecture_digest = v_architecture_digest, rc_authority_digest = v_authority_digest,
          rc_diff_digest = v_diff_digest, rc_finding_identity_digests = v_finding_identity_digests,
          rc_baseline_risk_level = v_baseline_risk_level, rc_max_cost_usd_micros = v_max_cost_usd_micros,
          rc_max_token_units = v_max_token_units, rc_max_output_bytes = v_max_output_bytes,
          rc_max_events = v_max_events,
          rc_infrastructure_retries_remaining = v_infrastructure_retries_remaining,
          rc_budget_remaining_units = v_budget_remaining_units, rc_deadline_at = v_deadline_at,
          rc_proposal_state = ''pending_handoff'', rc_requires_new_workspace_result = True,
          rc_requires_new_semantic_subject = True\<rparr>))))))))))))))))))))))))))))))))))"

definition repair_child_asdict :: "repair_child \<Rightarrow> pyval" where
  "repair_child_asdict x = py_dict
     [(''schema_version'', PInt (rc_schema_version x)), (''subject_digest'', PStr (rc_subject_digest x)),
      (''verdict_digest'', PStr (rc_verdict_digest x)),
      (''directive_digest'', PStr (rc_directive_digest x)), (''cycle'', PInt (rc_cycle x)),
      (''previous_child_proposal_digest'', opt_str (rc_previous_child_proposal_digest x)),
      (''parent_task_id'', PStr (rc_parent_task_id x)), (''parent_run_id'', PStr (rc_parent_run_id x)),
      (''parent_fence'', PInt (rc_parent_fence x)),
      (''parent_task_packet_digest'', PStr (rc_parent_task_packet_digest x)),
      (''parent_run_manifest_digest'', PStr (rc_parent_run_manifest_digest x)),
      (''parent_workspace_result_digest'', PStr (rc_parent_workspace_result_digest x)),
      (''parent_exact_head_sha'', PStr (rc_parent_exact_head_sha x)),
      (''writer_id'', PStr (rc_writer_id x)), (''context_digest'', PStr (rc_context_digest x)),
      (''exact_base_sha'', PStr (rc_exact_base_sha x)),
      (''architecture_digest'', PStr (rc_architecture_digest x)),
      (''authority_digest'', PStr (rc_authority_digest x)), (''diff_digest'', PStr (rc_diff_digest x)),
      (''finding_identity_digests'', PList (map PStr (rc_finding_identity_digests x))),
      (''baseline_risk_level'', PStr (rc_baseline_risk_level x)),
      (''max_cost_usd_micros'', PInt (rc_max_cost_usd_micros x)),
      (''max_token_units'', PInt (rc_max_token_units x)),
      (''max_output_bytes'', PInt (rc_max_output_bytes x)), (''max_events'', PInt (rc_max_events x)),
      (''infrastructure_retries_remaining'', PInt (rc_infrastructure_retries_remaining x)),
      (''budget_remaining_units'', PInt (rc_budget_remaining_units x)),
      (''deadline_at'', PTime (rc_deadline_at x)), (''proposal_state'', PStr (rc_proposal_state x)),
      (''requires_new_workspace_result'', PBool (rc_requires_new_workspace_result x)),
      (''requires_new_semantic_subject'', PBool (rc_requires_new_semantic_subject x))]"

definition repair_child_to_dict :: "repair_child \<Rightarrow> pyval" where
  "repair_child_to_dict x = canonical (repair_child_asdict x)"

interpretation repair_child: stable_codec "repair_child_from_dict nfc" repair_child_to_dict
proof
  fix d x assume "repair_child_from_dict nfc d = Inr x"
  then show "repair_child_from_dict nfc (repair_child_to_dict x) = Inr x"
    unfolding repair_child_from_dict_def [of nfc d]
    apply (elim bnd_InrE, simp only: res_simps sum.inject hexpat_len.simps not_None_eq, elim exE conjE, hypsubst)
    apply (simp (no_asm) add: repair_child_from_dict_def repair_child_to_dict_def repair_child_asdict_def
        repair_child_fields_def res_simps py_simps cong: literal_congs)
    apply (intro conjI; (assumption | (rule time_field_reparse, assumption) | simp))
    done
qed

definition repair_child_digest :: "repair_child \<Rightarrow> string" where
  "repair_child_digest x = canonical_digest (repair_child_to_dict x)"

section \<open>Child task bindings\<close>

record repair_binding =
  rb_schema_version :: int
  rb_child_proposal_digest :: string
  rb_child_task_id :: string
  rb_child_intent_digest :: string

definition repair_binding_fields :: "string list" where
  "repair_binding_fields =
     [''schema_version'', ''child_proposal_digest'', ''child_task_id'', ''child_intent_digest'']"

definition repair_binding_from_dict :: "(string \<Rightarrow> string) \<Rightarrow> pyval \<Rightarrow> repair_binding res" where
  "repair_binding_from_dict nfc data =
     bnd (sem_object data ''repair_child_task_binding'') (\<lambda>_.
     bnd (closed data repair_binding_fields) (\<lambda>_.
     bnd (field data ''schema_version'' (\<lambda>v. sem_version v ''repair_child_task_binding'')) (\<lambda>_.
     bnd (field data ''child_proposal_digest'' (\<lambda>v. hex_field v ''child_proposal_digest'' HEX64)) (\<lambda>child.
     bnd (field data ''child_task_id'' (\<lambda>v. id_field nfc v ''child_task_id'')) (\<lambda>task.
     bnd (field data ''child_intent_digest'' (\<lambda>v. hex_field v ''child_intent_digest'' HEX64)) (\<lambda>intent.
     Inr \<lparr>rb_schema_version = 1, rb_child_proposal_digest = child, rb_child_task_id = task,
          rb_child_intent_digest = intent\<rparr>))))))"

definition repair_binding_asdict :: "repair_binding \<Rightarrow> pyval" where
  "repair_binding_asdict x = py_dict
     [(''schema_version'', PInt (rb_schema_version x)),
      (''child_proposal_digest'', PStr (rb_child_proposal_digest x)),
      (''child_task_id'', PStr (rb_child_task_id x)),
      (''child_intent_digest'', PStr (rb_child_intent_digest x))]"

definition repair_binding_to_dict :: "repair_binding \<Rightarrow> pyval" where
  "repair_binding_to_dict x = canonical (repair_binding_asdict x)"

interpretation repair_binding: stable_codec "repair_binding_from_dict nfc" repair_binding_to_dict
proof
  fix d x assume "repair_binding_from_dict nfc d = Inr x"
  then show "repair_binding_from_dict nfc (repair_binding_to_dict x) = Inr x"
    unfolding repair_binding_from_dict_def [of nfc d]
    by (elim bnd_InrE, simp only: res_simps, clarify,
      simp add: repair_binding_from_dict_def repair_binding_to_dict_def repair_binding_asdict_def
        repair_binding_fields_def res_simps py_simps cong: literal_congs)
qed

definition repair_binding_digest :: "repair_binding \<Rightarrow> string" where
  "repair_binding_digest x = canonical_digest (repair_binding_to_dict x)"

section \<open>Escalations\<close>

record repair_escalation =
  re_schema_version :: int
  re_subject_digest :: string
  re_verdict_digest :: string
  re_requested_cycle :: int
  re_reason :: string
  re_request_digest :: string

definition repair_escalation_fields :: "string list" where
  "repair_escalation_fields =
     [''schema_version'', ''subject_digest'', ''verdict_digest'', ''requested_cycle'', ''reason'',
      ''request_digest'']"

definition repair_escalation_from_dict :: "(string \<Rightarrow> string) \<Rightarrow> pyval \<Rightarrow> repair_escalation res" where
  "repair_escalation_from_dict nfc data =
     bnd (sem_object data ''repair_escalation'') (\<lambda>_.
     bnd (closed data repair_escalation_fields) (\<lambda>_.
     bnd (field data ''schema_version'' (\<lambda>v. sem_version v ''repair_escalation'')) (\<lambda>_.
     bnd (field data ''reason'' (\<lambda>v. enum_field v ESCALATION_REASONS (ContractError ''repair_escalation_reason'' []))) (\<lambda>reason.
     bnd (field data ''subject_digest'' (\<lambda>v. hex_field v ''subject_digest'' HEX64)) (\<lambda>subject.
     bnd (field data ''verdict_digest'' (\<lambda>v. hex_field v ''verdict_digest'' HEX64)) (\<lambda>verdict.
     bnd (field data ''requested_cycle'' (\<lambda>v. sem_integer v ''requested_cycle'' 0 1000000)) (\<lambda>cycle.
     bnd (field data ''request_digest'' (\<lambda>v. hex_field v ''request_digest'' HEX64)) (\<lambda>request.
     Inr \<lparr>re_schema_version = 1, re_subject_digest = subject, re_verdict_digest = verdict,
          re_requested_cycle = cycle, re_reason = reason, re_request_digest = request\<rparr>))))))))"

definition repair_escalation_asdict :: "repair_escalation \<Rightarrow> pyval" where
  "repair_escalation_asdict x = py_dict
     [(''schema_version'', PInt (re_schema_version x)), (''subject_digest'', PStr (re_subject_digest x)),
      (''verdict_digest'', PStr (re_verdict_digest x)), (''requested_cycle'', PInt (re_requested_cycle x)),
      (''reason'', PStr (re_reason x)), (''request_digest'', PStr (re_request_digest x))]"

definition repair_escalation_to_dict :: "repair_escalation \<Rightarrow> pyval" where
  "repair_escalation_to_dict x = canonical (repair_escalation_asdict x)"

interpretation repair_escalation: stable_codec "repair_escalation_from_dict nfc" repair_escalation_to_dict
proof
  fix d x assume "repair_escalation_from_dict nfc d = Inr x"
  then show "repair_escalation_from_dict nfc (repair_escalation_to_dict x) = Inr x"
    unfolding repair_escalation_from_dict_def [of nfc d]
    by (elim bnd_InrE, simp only: res_simps, clarify,
      simp add: repair_escalation_from_dict_def repair_escalation_to_dict_def repair_escalation_asdict_def
        repair_escalation_fields_def res_simps py_simps cong: literal_congs)
qed

definition repair_escalation_digest :: "repair_escalation \<Rightarrow> string" where
  "repair_escalation_digest x = canonical_digest (repair_escalation_to_dict x)"

section \<open>Lifecycle results\<close>

record repair_lifecycle =
  rl_decision :: string
  rl_reason :: string
  rl_subject_digest :: string
  rl_verdict_digest :: string
  rl_cycle :: int
  rl_directive_digest :: "string option"
  rl_directive :: "repair_directive option"
  rl_child_proposal_digest :: "string option"
  rl_child_proposal :: "repair_child option"
  rl_escalation_digest :: "string option"
  rl_escalation :: "repair_escalation option"

definition repair_lifecycle_fields :: "string list" where
  "repair_lifecycle_fields =
     [''decision'', ''reason'', ''subject_digest'', ''verdict_digest'', ''cycle'', ''directive_digest'',
      ''directive'', ''child_proposal_digest'', ''child_proposal'', ''escalation_digest'', ''escalation'']"

text \<open>\<open>any(data[field] is not None for field in names)\<close>, negated.\<close>

fun all_none :: "pyval \<Rightarrow> string list \<Rightarrow> bool res" where
  "all_none data [] = Inr True"
| "all_none data (k # ks) =
     bnd (getitem data k) (\<lambda>v. if v = PNone then all_none data ks else Inr False)"

definition lifecycle_repair ::
  "(string \<Rightarrow> string) \<Rightarrow> pyval \<Rightarrow> string \<Rightarrow> string \<Rightarrow> int \<Rightarrow> repair_lifecycle res" where
  "lifecycle_repair nfc data subject verdict cycle =
     bnd (field data ''reason'' (\<lambda>v. literal_field v ''repair_allowed'' (ContractError ''repair_lifecycle_reason'' []))) (\<lambda>_.
     bnd (field data ''directive'' (repair_directive_from_dict nfc)) (\<lambda>directive.
     bnd (field data ''child_proposal'' (repair_child_from_dict nfc)) (\<lambda>child.
     bnd (field data ''directive_digest'' (\<lambda>v. hex_field v ''directive_digest'' HEX64)) (\<lambda>dd.
     bnd (field data ''child_proposal_digest'' (\<lambda>v. hex_field v ''child_proposal_digest'' HEX64)) (\<lambda>cd.
     bnd (all_none data [''escalation_digest'', ''escalation'']) (\<lambda>none.
     bnd (ensure (directive_digest directive = dd \<and> repair_child_digest child = cd \<and>
            rp_subject_digest directive = subject \<and> rp_verdict_digest directive = verdict \<and>
            rp_cycle directive = cycle \<and> rc_subject_digest child = subject \<and>
            rc_verdict_digest child = verdict \<and> rc_directive_digest child = dd \<and>
            rc_cycle child = cycle \<and> none) (ContractError ''repair_lifecycle_binding'' [])) (\<lambda>_.
     Inr \<lparr>rl_decision = ''repair'', rl_reason = ''repair_allowed'', rl_subject_digest = subject,
          rl_verdict_digest = verdict, rl_cycle = cycle, rl_directive_digest = Some dd,
          rl_directive = Some directive, rl_child_proposal_digest = Some cd,
          rl_child_proposal = Some child, rl_escalation_digest = None, rl_escalation = None\<rparr>)))))))"

definition lifecycle_human ::
  "(string \<Rightarrow> string) \<Rightarrow> pyval \<Rightarrow> string \<Rightarrow> string \<Rightarrow> int \<Rightarrow> repair_lifecycle res" where
  "lifecycle_human nfc data subject verdict cycle =
     bnd (field data ''reason'' (\<lambda>v. enum_field v ESCALATION_REASONS (ContractError ''repair_lifecycle_reason'' []))) (\<lambda>reason.
     bnd (field data ''escalation'' (repair_escalation_from_dict nfc)) (\<lambda>escalation.
     bnd (field data ''escalation_digest'' (\<lambda>v. hex_field v ''escalation_digest'' HEX64)) (\<lambda>ed.
     bnd (all_none data [''directive_digest'', ''directive'', ''child_proposal_digest'', ''child_proposal'']) (\<lambda>none.
     bnd (ensure (repair_escalation_digest escalation = ed \<and> re_subject_digest escalation = subject \<and>
            re_verdict_digest escalation = verdict \<and> re_requested_cycle escalation = cycle \<and>
            re_reason escalation = reason \<and> none) (ContractError ''repair_lifecycle_binding'' [])) (\<lambda>_.
     Inr \<lparr>rl_decision = ''needs_human'', rl_reason = reason, rl_subject_digest = subject,
          rl_verdict_digest = verdict, rl_cycle = cycle, rl_directive_digest = None,
          rl_directive = None, rl_child_proposal_digest = None, rl_child_proposal = None,
          rl_escalation_digest = Some ed, rl_escalation = Some escalation\<rparr>)))))"

definition repair_lifecycle_from_dict :: "(string \<Rightarrow> string) \<Rightarrow> pyval \<Rightarrow> repair_lifecycle res" where
  "repair_lifecycle_from_dict nfc data =
     bnd (sem_object data ''repair_lifecycle_result'') (\<lambda>_.
     bnd (closed data repair_lifecycle_fields) (\<lambda>_.
     bnd (field data ''decision'' (\<lambda>v. enum_field v [''repair'', ''needs_human''] (ContractError ''repair_lifecycle_decision'' []))) (\<lambda>decision.
     bnd (field data ''subject_digest'' (\<lambda>v. hex_field v ''subject_digest'' HEX64)) (\<lambda>subject.
     bnd (field data ''verdict_digest'' (\<lambda>v. hex_field v ''verdict_digest'' HEX64)) (\<lambda>verdict.
     bnd (field data ''cycle'' (\<lambda>v. sem_integer v ''requested_cycle'' 0 1000000)) (\<lambda>cycle.
     if decision = ''repair'' then lifecycle_repair nfc data subject verdict cycle
     else lifecycle_human nfc data subject verdict cycle))))))"

end
