(* ===== verification/SemanticExamples.thy ===== *)
theory SemanticExamples
  imports SemanticContracts
begin

text \<open>
  Concrete semantic evidence - a subject with one requirement, a validator, findings, coverage
  reports and a repair verdict - and the proofs that it parses and is bound to its subject.  The
  properties of the adjudicator and of the repair policy are applied to it.
\<close>

section \<open>A concrete subject, finding and coverage report\<close>

definition ex_digest :: "char \<Rightarrow> string" where
  "ex_digest c = replicate 64 c"

definition ex_requirement :: requirement_ref where
  "ex_requirement = \<lparr>rr_kind = ''invariant'', rr_requirement_id = ''INV-1''\<rparr>"

definition ex_subject :: semantic_subject where
  "ex_subject =
     \<lparr>ss_schema_version = 1, ss_subject_id = ''subject-1'', ss_requirements = [ex_requirement],
      ss_exact_base_sha = replicate 40 (CHR ''a''), ss_exact_head_sha = replicate 40 (CHR ''b''),
      ss_spec_digest = ex_digest (CHR ''1''), ss_architecture_digest = ex_digest (CHR ''2''),
      ss_authority_digest = ex_digest (CHR ''3''), ss_diff_digest = ex_digest (CHR ''4''),
      ss_deterministic_evidence_digest = ex_digest (CHR ''5''), ss_holdout_evidence_digest = ex_digest (CHR ''6''),
      ss_review_evidence_digest = ex_digest (CHR ''7''), ss_original_writer_id = ''writer-1'',
      ss_original_writer_context_digest = ex_digest (CHR ''8''), ss_risk_level = ''medium'',
      ss_diff_lines = 10, ss_diff_limit = 100\<rparr>"

definition ex_validator :: validator_identity where
  "ex_validator =
     \<lparr>vi_validator_id = ''validator-1'', vi_role = ''semantic_validator'',
      vi_capabilities = [''repository_read'', ''semantic_validate''], vi_definition_digest = ex_digest (CHR ''a''),
      vi_model_digest = ex_digest (CHR ''b''), vi_context_digest = ex_digest (CHR ''c'')\<rparr>"

definition ex_finding :: "bool \<Rightarrow> semantic_finding" where
  "ex_finding repairable =
     \<lparr>sf_schema_version = 1, sf_subject_digest = subject_digest ex_subject, sf_finding_id = ''finding-1'',
      sf_requirement = ex_requirement, sf_severity = ''major'', sf_category = ''evidence_gap'',
      sf_rule_id = ''rule-1'', sf_message = ''no evidence'', sf_evidence_refs = [], sf_reproduction = ''run it'',
      sf_repairable = repairable, sf_validator = ex_validator, sf_created_at = DateTime 2026 1 2 3 4 5 0\<rparr>"

definition ex_coverage :: "string \<Rightarrow> semantic_coverage" where
  "ex_coverage status =
     \<lparr>sc_schema_version = 1, sc_subject_digest = subject_digest ex_subject, sc_validator = ex_validator,
      sc_entries = [\<lparr>ce_requirement = ex_requirement, ce_status = status, ce_evidence_refs = [''log-1'']\<rparr>],
      sc_coverage_millionths = 1000000\<rparr>"

lemmas ex_defs = ex_requirement_def ex_subject_def ex_validator_def ex_finding_def ex_coverage_def

lemma ex_subject_parses:
  "semantic_subject_from_dict (\<lambda>s. s) (semantic_subject_asdict ex_subject) = Inr ex_subject"
  by (simp add: semantic_subject_from_dict_def semantic_subject_asdict_def semantic_subject_fields_def
      requirement_ref_from_dict_def requirement_ref_asdict_def requirement_ref_fields_def ex_defs ex_digest_def
      res_simps py_simps keys_ok_def MAX_ITEMS_def id_ok_iff SUBJECT_RISKS_def REQUIREMENT_KINDS_def)
    (simp add: ID_match_def ident_match_def is_alnum_def is_hex_def digits_chars_def lower_chars_def
      upper_chars_def)

text \<open>The example is well bound whatever the status and whether or not the finding is repairable.\<close>

lemma ex_validator_ok: "validator_validate_for ex_validator ex_subject = Inr ()"
  by (simp add: validator_validate_for_def ex_defs ex_digest_def VALIDATOR_CAPABILITIES_def
      FORBIDDEN_VALIDATOR_CAPABILITIES_def)

lemma ex_keys:
  "requirement_keys ex_subject = [requirement_key ex_requirement]"
  "sf_requirement (ex_finding r) = ex_requirement"
  "map entry_key (sc_entries (ex_coverage s)) = [requirement_key ex_requirement]"
  by (simp_all add: requirement_keys_def ex_subject_def ex_finding_def ex_coverage_def entry_key_def)

lemma ex_bound:
  "finding_validate_for (ex_finding r) ex_subject = Inr ()"
  "coverage_validate_for (ex_coverage s) ex_subject = Inr ()"
  by (simp_all add: finding_validate_for_def coverage_validate_for_def ex_keys)
    (simp_all add: ex_finding_def ex_coverage_def ex_validator_ok)

definition ex_verdict :: semantic_verdict where
  "ex_verdict =
     \<lparr>sv_schema_version = 1, sv_subject_digest = subject_digest ex_subject, sv_decision = ''repair'',
      sv_decision_source = ''deterministic_adjudicator'', sv_finding_identity_digests = [ex_digest (CHR ''a'')],
      sv_duplicate_identity_digests = [], sv_correlated_requirement_keys = [],
      sv_contradicted_requirement_keys = [], sv_unsupported_pass_requirement_keys = [],
      sv_residual_risk = ''medium''\<rparr>"

lemma ex_digest_hex [simp]: "is_hex c \<Longrightarrow> hex_string 64 (ex_digest c)"
  by (simp add: ex_digest_def)

lemma is_hex_simps [simp]: "is_hex (CHR ''a'')" "is_hex (CHR ''b'')" "is_hex (CHR ''c'')" "is_hex (CHR ''1'')"
  by (simp_all add: is_hex_def digits_chars_def)

lemma ex_verdict_parses:
  "semantic_verdict_from_dict (\<lambda>s. s) (semantic_verdict_asdict ex_verdict) = Inr ex_verdict"
  by (simp add: semantic_verdict_from_dict_def semantic_verdict_asdict_def semantic_verdict_fields_def
      ex_verdict_def res_simps py_simps keys_ok_def MAX_ITEMS_def RISK_LEVELS_def py_eq_str_def
      subject_digest_def cong: literal_congs)

end
