(* ===== verification/SemanticRepair.thy ===== *)
theory SemanticRepair
  imports RepairContracts SemanticExamples
begin

text \<open>
  \<open>plan_repair\<close> of \<open>semantic_repair.py\<close>: the policy that decides between one bounded repair and a
  human.  Its keyword arguments are the record \<open>repair_inputs\<close> (prefix \<open>in_\<close>), its result
  \<open>repair_decision\<close> (prefix \<open>pd_\<close>).  \<open>repair_allowed\<close> is the specification the code is proved against.
\<close>

section \<open>The repair policy\<close>

record repair_decision =
  pd_decision :: string
  pd_reason :: string
  pd_directive :: "repair_directive option"

definition human :: "string \<Rightarrow> repair_decision res" where
  "human reason = Inr \<lparr>pd_decision = ''needs_human'', pd_reason = reason, pd_directive = None\<rparr>"

text \<open>The digest lists are given at their declared type, \<open>Iterable[str]\<close>.\<close>

definition digest_values :: "string list \<Rightarrow> string \<Rightarrow> string list res" where
  "digest_values values name =
     (if MAX_ITEMS < length values \<or> values \<noteq> usort values then Inl (ContractError name [])
      else map_res (\<lambda>v. hex_field (PStr v) name HEX64) values)"

definition remaining :: "pyval \<Rightarrow> string \<Rightarrow> int res" where
  "remaining value name =
     (case value of PInt n \<Rightarrow> (if n < 0 then Inl (ContractError name []) else Inr n)
      | _ \<Rightarrow> Inl (ContractError name []))"

definition risk_rank :: "string \<Rightarrow> nat res" where
  "risk_rank risk = (case map_of RISK_ORDER risk of Some n \<Rightarrow> Inr n | None \<Rightarrow> Inl KeyError)"

text \<open>\<open>type(requested_cycle) is int and requested_cycle in {1, 2, 3}\<close>.\<close>

definition cycle_in_bounds :: "pyval \<Rightarrow> int option" where
  "cycle_in_bounds v = (case v of PInt n \<Rightarrow> (if n \<in> {1, 2, 3} then Some n else None) | _ \<Rightarrow> None)"

text \<open>The keyword arguments of \<open>plan_repair\<close>.\<close>

record repair_inputs =
  in_requested_cycle :: pyval
  in_writer_id :: pyval
  in_context_digest :: pyval
  in_prior_context_digests :: "string list"
  in_prior_finding_identity_digests :: "string list"
  in_expected_base_sha :: pyval
  in_expected_architecture_digest :: pyval
  in_expected_authority_digest :: pyval
  in_baseline_risk_level :: pyval
  in_budget_remaining_units :: pyval
  in_deadline_remaining_seconds :: pyval

text \<open>
  The gates in the order of the code, once the arguments are validated; each early return is a
  branch and the last one builds the directive.
\<close>

definition repair_gates ::
  "(string \<Rightarrow> string) \<Rightarrow> semantic_subject \<Rightarrow> semantic_verdict \<Rightarrow> pyval \<Rightarrow> string \<Rightarrow> string \<Rightarrow> string list
     \<Rightarrow> string list \<Rightarrow> string \<Rightarrow> string \<Rightarrow> string \<Rightarrow> string \<Rightarrow> int \<Rightarrow> int \<Rightarrow> repair_decision res" where
  "repair_gates nfc subject verdict requested_cycle writer context prior_contexts prior_findings
     expected_base expected_architecture expected_authority baseline budget deadline =
     (if writer \<noteq> ss_original_writer_id subject then human ''original_writer_mismatch''
      else case cycle_in_bounds requested_cycle of
        None \<Rightarrow> human ''repair_cycle_out_of_bounds''
      | Some cycle \<Rightarrow>
     if set (sv_finding_identity_digests verdict) \<inter> set prior_findings \<noteq> {} then human ''finding_recurrence''
     else bnd (risk_rank (ss_risk_level subject)) (\<lambda>rank.
          bnd (risk_rank baseline) (\<lambda>allowed.
     if allowed < rank then human ''risk_increased''
     else if ss_diff_limit subject < ss_diff_lines subject then human ''diff_limit_exceeded''
     else if ss_architecture_digest subject \<noteq> expected_architecture then human ''architecture_changed''
     else if ss_authority_digest subject \<noteq> expected_authority then human ''authority_changed''
     else if ss_exact_base_sha subject \<noteq> expected_base then human ''base_changed''
     else if budget = 0 then human ''budget_exhausted''
     else if deadline = 0 then human ''deadline_exhausted''
     else if context = ss_original_writer_context_digest subject \<or> context \<in> set prior_contexts
          then human ''context_not_fresh''
     else if sv_decision verdict \<noteq> ''repair'' then human ''verdict_not_repair''
     else bnd (repair_directive_from_dict nfc (py_dict
            [(''schema_version'', PInt 1),
             (''subject_digest'', PStr (subject_digest subject)),
             (''verdict_digest'', PStr (verdict_digest verdict)),
             (''cycle'', requested_cycle),
             (''writer_id'', PStr (ss_original_writer_id subject)),
             (''context_digest'', PStr context),
             (''exact_head_sha'', PStr (ss_exact_head_sha subject)),
             (''finding_identity_digests'', PList (map PStr (sv_finding_identity_digests verdict)))]))
          (\<lambda>directive. Inr \<lparr>pd_decision = ''repair'', pd_reason = ''repair_allowed'',
                            pd_directive = Some directive\<rparr>))))"

definition plan_repair ::
  "(string \<Rightarrow> string) \<Rightarrow> semantic_subject \<Rightarrow> semantic_verdict \<Rightarrow> repair_inputs \<Rightarrow> repair_decision res" where
  "plan_repair nfc subject verdict args =
     (case verdict_validate_for verdict subject of
        Inl e \<Rightarrow>
          (case e of
             ContractError code detail \<Rightarrow>
               (if code = ''stale_semantic_evidence'' then human ''stale_semantic_evidence'' else Inl e)
           | _ \<Rightarrow> Inl e)
      | Inr _ \<Rightarrow>
     bnd (id_field nfc (in_writer_id args) ''writer_id'') (\<lambda>writer.
     bnd (hex_field (in_context_digest args) ''context_digest'' HEX64) (\<lambda>context.
     bnd (digest_values (in_prior_context_digests args) ''prior_context_digests'') (\<lambda>prior_contexts.
     bnd (digest_values (in_prior_finding_identity_digests args) ''prior_finding_identity_digests'') (\<lambda>prior_findings.
     bnd (hex_field (in_expected_base_sha args) ''expected_base_sha'' HEX40) (\<lambda>expected_base.
     bnd (hex_field (in_expected_architecture_digest args) ''expected_architecture_digest'' HEX64) (\<lambda>expected_architecture.
     bnd (hex_field (in_expected_authority_digest args) ''expected_authority_digest'' HEX64) (\<lambda>expected_authority.
     bnd (enum_field (in_baseline_risk_level args) SUBJECT_RISKS (ContractError ''baseline_risk_level'' [])) (\<lambda>baseline.
     bnd (remaining (in_budget_remaining_units args) ''budget_remaining_units'') (\<lambda>budget.
     bnd (remaining (in_deadline_remaining_seconds args) ''deadline_remaining_seconds'') (\<lambda>deadline.
     repair_gates nfc subject verdict (in_requested_cycle args) writer context prior_contexts prior_findings
       expected_base expected_architecture expected_authority baseline budget deadline)))))))))))"

section \<open>What the policy decides\<close>

text \<open>The specification of the policy: when a repair may run, in terms of the inputs.\<close>

definition repair_allowed :: "semantic_subject \<Rightarrow> semantic_verdict \<Rightarrow> repair_inputs \<Rightarrow> bool" where
  "repair_allowed subject verdict args =
     (sv_subject_digest verdict = subject_digest subject \<and> sv_decision verdict = ''repair'' \<and>
      in_writer_id args = PStr (ss_original_writer_id subject) \<and>
      in_requested_cycle args \<in> {PInt 1, PInt 2, PInt 3} \<and>
      set (sv_finding_identity_digests verdict) \<inter> set (in_prior_finding_identity_digests args) = {} \<and>
      (\<exists>baseline \<in> set SUBJECT_RISKS. in_baseline_risk_level args = PStr baseline \<and>
         the (map_of RISK_ORDER (ss_risk_level subject)) \<le> the (map_of RISK_ORDER baseline)) \<and>
      ss_diff_lines subject \<le> ss_diff_limit subject \<and>
      in_expected_architecture_digest args = PStr (ss_architecture_digest subject) \<and>
      in_expected_authority_digest args = PStr (ss_authority_digest subject) \<and>
      in_expected_base_sha args = PStr (ss_exact_base_sha subject) \<and>
      (\<exists>n>0. in_budget_remaining_units args = PInt n) \<and>
      (\<exists>n>0. in_deadline_remaining_seconds args = PInt n) \<and>
      (\<exists>c. in_context_digest args = PStr c \<and> c \<noteq> ss_original_writer_context_digest subject \<and>
         c \<notin> set (in_prior_context_digests args)))"

text \<open>The arguments pass their validators (the requested cycle has none).\<close>

definition repair_inputs_ok :: "(string \<Rightarrow> string) \<Rightarrow> repair_inputs \<Rightarrow> bool" where
  "repair_inputs_ok nfc args =
     ((\<exists>s. in_writer_id args = PStr s \<and> id_ok nfc s) \<and>
      (\<exists>s. in_context_digest args = PStr s \<and> hex_string 64 s) \<and>
      (\<exists>s. in_expected_base_sha args = PStr s \<and> hex_string 40 s) \<and>
      (\<exists>s. in_expected_architecture_digest args = PStr s \<and> hex_string 64 s) \<and>
      (\<exists>s. in_expected_authority_digest args = PStr s \<and> hex_string 64 s) \<and>
      in_baseline_risk_level args \<in> PStr ` set SUBJECT_RISKS \<and>
      (\<exists>n\<ge>0. in_budget_remaining_units args = PInt n) \<and>
      (\<exists>n\<ge>0. in_deadline_remaining_seconds args = PInt n) \<and>
      list_all (\<lambda>xs. length xs \<le> MAX_ITEMS \<and> sorted xs \<and> distinct xs \<and> list_all (hex_string 64) xs)
        [in_prior_context_digests args, in_prior_finding_identity_digests args])"

lemma digest_values_Inr [res_simps]:
  "digest_values xs name = Inr ys \<longleftrightarrow>
     ys = xs \<and> length xs \<le> MAX_ITEMS \<and> sorted xs \<and> distinct xs \<and> list_all (hex_string 64) xs"
proof -
  have m: "map_res (\<lambda>v. hex_field (PStr v) name HEX64) xs = Inr ys \<longleftrightarrow> ys = xs \<and> list_all (hex_string 64) xs" for xs ys
    by (induction xs arbitrary: ys) (auto simp: res_simps)
  have u: "xs = usort xs \<longleftrightarrow> sorted xs \<and> distinct xs" using usort_fixed_iff [of xs] by metis
  show ?thesis by (auto simp: digest_values_def m u)
qed

lemma remaining_Inr [res_simps]: "remaining v name = Inr n \<longleftrightarrow> v = PInt n \<and> 0 \<le> n"
  by (auto simp: remaining_def split: pyval.splits)

lemma risk_rank_total: "r \<in> set SUBJECT_RISKS \<Longrightarrow> \<exists>n. risk_rank r = Inr n \<and> map_of RISK_ORDER r = Some n"
  by (auto simp: risk_rank_def RISK_ORDER_def SUBJECT_RISKS_def)

lemma cycle_in_bounds_iff: "cycle_in_bounds v = Some n \<longleftrightarrow> v = PInt n \<and> n \<in> {1, 2, 3}"
  by (auto simp: cycle_in_bounds_def split: pyval.splits)

lemma cycle_in_bounds_None: "cycle_in_bounds v = None \<longleftrightarrow> v \<notin> {PInt 1, PInt 2, PInt 3}"
  by (auto simp: cycle_in_bounds_def split: pyval.splits)

lemma human_Inr [res_simps]:
  "human reason = Inr r \<longleftrightarrow> r = \<lparr>pd_decision = ''needs_human'', pd_reason = reason, pd_directive = None\<rparr>"
  by (auto simp: human_def)

text \<open>The gates end either in an escalation or in a parsed directive.\<close>

lemma gate_reasons:
  "list_all (\<lambda>reason. reason \<in> set ESCALATION_REASONS)
     [''original_writer_mismatch'', ''repair_cycle_out_of_bounds'', ''finding_recurrence'', ''risk_increased'',
      ''diff_limit_exceeded'', ''architecture_changed'', ''authority_changed'', ''base_changed'',
      ''budget_exhausted'', ''deadline_exhausted'', ''context_not_fresh'', ''verdict_not_repair'']"
  by (simp add: ESCALATION_REASONS_def)

lemma gate_elim:
  assumes "(if c then human e else m) = Inr r" and "human e = Inr r \<Longrightarrow> P" and "m = Inr r \<Longrightarrow> P"
  shows P
  using assms by (cases c) simp_all

lemma gates_cases:
  assumes "repair_gates nfc subject verdict cycle writer ctx contexts findings base arch auth baseline
      budget deadline = Inr r"
    and human: "\<And>reason. reason \<in> set ESCALATION_REASONS \<Longrightarrow> human reason = Inr r \<Longrightarrow> P"
    and dir: "\<And>directive. repair_directive_from_dict nfc (py_dict
            [(''schema_version'', PInt 1), (''subject_digest'', PStr (subject_digest subject)),
             (''verdict_digest'', PStr (verdict_digest verdict)), (''cycle'', cycle),
             (''writer_id'', PStr (ss_original_writer_id subject)), (''context_digest'', PStr ctx),
             (''exact_head_sha'', PStr (ss_exact_head_sha subject)),
             (''finding_identity_digests'', PList (map PStr (sv_finding_identity_digests verdict)))]) =
          Inr directive \<Longrightarrow>
        r = \<lparr>pd_decision = ''repair'', pd_reason = ''repair_allowed'', pd_directive = Some directive\<rparr> \<Longrightarrow> P"
  shows P
proof (cases "cycle_in_bounds cycle")
  case None
  show P
    using assms(1) unfolding repair_gates_def None option.case
    apply (elim gate_elim)
    apply (rule human [rotated], assumption, use gate_reasons in simp)+
    done
next
  case (Some n)
  show P
    using assms(1) unfolding repair_gates_def Some option.case
    apply (elim gate_elim bnd_InrE)
    apply (rule human [rotated], assumption, use gate_reasons in simp)+
    apply (rule dir, assumption, simp)
    done
qed

text \<open>The directive of an accepted repair, as an object.\<close>

definition directive_of :: "semantic_subject \<Rightarrow> semantic_verdict \<Rightarrow> int \<Rightarrow> string \<Rightarrow> repair_directive" where
  "directive_of subject verdict cycle ctx =
     \<lparr>rp_schema_version = 1, rp_subject_digest = subject_digest subject, rp_verdict_digest = verdict_digest verdict,
      rp_cycle = cycle, rp_writer_id = ss_original_writer_id subject, rp_context_digest = ctx,
      rp_exact_head_sha = ss_exact_head_sha subject,
      rp_finding_identity_digests = sv_finding_identity_digests verdict\<rparr>"

lemma directive_parses:
  assumes "semantic_subject_from_dict nfc d = Inr subject" "semantic_verdict_from_dict nfc e = Inr verdict"
    and "1 \<le> cycle" "cycle \<le> 3" "hex_string 64 ctx"
  shows "repair_directive_from_dict nfc (py_dict
            [(''schema_version'', PInt 1),
             (''subject_digest'', PStr (subject_digest subject)),
             (''verdict_digest'', PStr (verdict_digest verdict)),
             (''cycle'', PInt cycle),
             (''writer_id'', PStr (ss_original_writer_id subject)),
             (''context_digest'', PStr ctx),
             (''exact_head_sha'', PStr (ss_exact_head_sha subject)),
             (''finding_identity_digests'', PList (map PStr (sv_finding_identity_digests verdict)))])
         = Inr (directive_of subject verdict cycle ctx)"
proof -
  have s: "id_ok nfc (ss_original_writer_id subject)" "hex_string 40 (ss_exact_head_sha subject)"
    using assms(1) by (auto simp: semantic_subject_from_dict_def res_simps)
  have v: "keys_ok id True (sv_finding_identity_digests verdict)"
    "list_all (hex_string 64) (sv_finding_identity_digests verdict)"
    using assms(2) by (auto simp: semantic_verdict_from_dict_def res_simps)
  show ?thesis
    using s v assms(3-5)
    by (simp add: repair_directive_from_dict_def repair_directive_fields_def res_simps py_simps
        directive_of_def subject_digest_def verdict_digest_def cong: literal_congs)
qed

text \<open>Every way through the policy, for parsed contracts and valid arguments.\<close>

lemma plan_repair_cases:
  assumes sub: "semantic_subject_from_dict nfc d = Inr subject"
    and ver: "semantic_verdict_from_dict nfc e = Inr verdict" and ok: "repair_inputs_ok nfc args"
  shows "(\<exists>cycle ctx. in_requested_cycle args = PInt cycle \<and> 1 \<le> cycle \<and> cycle \<le> 3 \<and>
            in_context_digest args = PStr ctx \<and> repair_allowed subject verdict args \<and>
            plan_repair nfc subject verdict args = Inr
              \<lparr>pd_decision = ''repair'', pd_reason = ''repair_allowed'',
               pd_directive = Some (directive_of subject verdict cycle ctx)\<rparr>) \<or>
         (\<exists>reason\<in>set ESCALATION_REASONS. \<not> repair_allowed subject verdict args \<and>
            plan_repair nfc subject verdict args = Inr
              \<lparr>pd_decision = ''needs_human'', pd_reason = reason, pd_directive = None\<rparr>)"
proof (cases "sv_subject_digest verdict = subject_digest subject")
  case False
  then have "\<not> repair_allowed subject verdict args" by (simp add: repair_allowed_def)
  moreover have "plan_repair nfc subject verdict args = Inr
      \<lparr>pd_decision = ''needs_human'', pd_reason = ''stale_semantic_evidence'', pd_directive = None\<rparr>"
    using False by (simp add: plan_repair_def verdict_validate_for_def human_def)
  ultimately show ?thesis by (auto simp: ESCALATION_REASONS_def)
next
  case True
  obtain writer ctx base arch auth baseline budget deadline where
    args: "in_writer_id args = PStr writer" "id_ok nfc writer"
      "in_context_digest args = PStr ctx" "hex_string 64 ctx"
      "in_expected_base_sha args = PStr base" "hex_string 40 base"
      "in_expected_architecture_digest args = PStr arch" "hex_string 64 arch"
      "in_expected_authority_digest args = PStr auth" "hex_string 64 auth"
      "in_baseline_risk_level args = PStr baseline" "baseline \<in> set SUBJECT_RISKS"
      "in_budget_remaining_units args = PInt budget" "0 \<le> budget"
      "in_deadline_remaining_seconds args = PInt deadline" "0 \<le> deadline"
    using ok unfolding repair_inputs_ok_def by blast
  define contexts findings where "contexts = in_prior_context_digests args"
    and "findings = in_prior_finding_identity_digests args"
  have "ss_risk_level subject \<in> set SUBJECT_RISKS"
    using sub by (auto simp: semantic_subject_from_dict_def res_simps)
  then obtain rank where rank: "risk_rank (ss_risk_level subject) = Inr rank"
      "map_of RISK_ORDER (ss_risk_level subject) = Some rank"
    using risk_rank_total by metis
  obtain top where top: "risk_rank baseline = Inr top" "map_of RISK_ORDER baseline = Some top"
    using risk_rank_total args(12) by metis
  have inputs: "id_field nfc (in_writer_id args) n = Inr writer"
      "hex_field (in_context_digest args) n HEX64 = Inr ctx"
      "digest_values (in_prior_context_digests args) n = Inr contexts"
      "digest_values (in_prior_finding_identity_digests args) n = Inr findings"
      "hex_field (in_expected_base_sha args) n HEX40 = Inr base"
      "hex_field (in_expected_architecture_digest args) n HEX64 = Inr arch"
      "hex_field (in_expected_authority_digest args) n HEX64 = Inr auth"
      "enum_field (in_baseline_risk_level args) SUBJECT_RISKS err = Inr baseline"
      "remaining (in_budget_remaining_units args) n = Inr budget"
      "remaining (in_deadline_remaining_seconds args) n = Inr deadline" for n err
    using ok args by (simp_all add: res_simps repair_inputs_ok_def contexts_def findings_def)
  have run: "plan_repair nfc subject verdict args =
      repair_gates nfc subject verdict (in_requested_cycle args) writer ctx contexts findings
        base arch auth baseline budget deadline"
    by (simp add: plan_repair_def verdict_validate_for_def True inputs)
  have spec: "repair_allowed subject verdict args \<longleftrightarrow>
      sv_decision verdict = ''repair'' \<and> writer = ss_original_writer_id subject \<and>
      in_requested_cycle args \<in> {PInt 1, PInt 2, PInt 3} \<and>
      set (sv_finding_identity_digests verdict) \<inter> set findings = {} \<and> rank \<le> top \<and>
      ss_diff_lines subject \<le> ss_diff_limit subject \<and> arch = ss_architecture_digest subject \<and>
      auth = ss_authority_digest subject \<and> base = ss_exact_base_sha subject \<and> budget \<noteq> 0 \<and> deadline \<noteq> 0 \<and>
      ctx \<noteq> ss_original_writer_context_digest subject \<and> ctx \<notin> set contexts"
    using args True by (auto simp: repair_allowed_def rank top contexts_def findings_def)
  show ?thesis
  proof (cases "cycle_in_bounds (in_requested_cycle args)")
    case None
    then have "\<not> repair_allowed subject verdict args" by (simp add: spec cycle_in_bounds_None)
    then show ?thesis
      using None by (auto simp: run repair_gates_def human_def ESCALATION_REASONS_def)
  next
    case (Some cycle)
    then have cycle: "in_requested_cycle args = PInt cycle" "1 \<le> cycle" "cycle \<le> 3"
      by (auto simp: cycle_in_bounds_iff)
    have "in_requested_cycle args \<in> {PInt 1, PInt 2, PInt 3}"
      using Some by (auto simp: cycle_in_bounds_iff)
    note spec' = spec [simplified this simp_thms]
    note dir = directive_parses [OF sub ver cycle(2,3) args(4)]
    show ?thesis
    proof (cases "repair_allowed subject verdict args")
      case True
      with spec have "repair_gates nfc subject verdict (in_requested_cycle args) writer ctx contexts findings
          base arch auth baseline budget deadline = Inr \<lparr>pd_decision = ''repair'', pd_reason = ''repair_allowed'',
               pd_directive = Some (directive_of subject verdict cycle ctx)\<rparr>"
        using dir by (simp add: repair_gates_def Some [unfolded cycle(1)] rank top cycle(1))
      then have "plan_repair nfc subject verdict args = Inr \<lparr>pd_decision = ''repair'', pd_reason = ''repair_allowed'',
               pd_directive = Some (directive_of subject verdict cycle ctx)\<rparr>"
        by (simp add: run)
      then show ?thesis using True cycle args(3)
        by (intro disjI1 exI [of _ cycle] exI [of _ ctx] conjI)
    next
      case False
      then have "\<exists>reason\<in>set ESCALATION_REASONS. repair_gates nfc subject verdict (in_requested_cycle args) writer
          ctx contexts findings base arch auth baseline budget deadline = human reason"
        unfolding spec' repair_gates_def Some option.case rank(1) top(1) bnd.simps
        by (simp add: ESCALATION_REASONS_def) (intro impI, elim impE, auto)
      then show ?thesis using False run by (auto simp: human_def)
    qed
  qed
qed

text \<open>A child proposal has a predecessor exactly after the first cycle.\<close>

lemma child_sequence:
  "repair_child_from_dict nfc d = Inr child \<Longrightarrow>
     rc_previous_child_proposal_digest child = None \<longleftrightarrow> rc_cycle child = 1"
  unfolding repair_child_from_dict_def
  by (elim bnd_InrE, simp only: res_simps sum.inject, elim exE conjE, hypsubst)
    (simp (no_asm_simp), linarith?)

section \<open>Properties\<close>

text \<open>
  C20: for a parsed subject, a parsed verdict and valid arguments \<open>plan_repair\<close> never raises, and it
  answers "repair" exactly when every gate holds: the verdict is bound to the subject and asks for a
  repair, the original writer comes back with a fresh context for a cycle of 1 to 3, no finding
  recurs, risk has not grown, the diff is within its limit, architecture, authority and base are
  unchanged, and budget and deadline are not exhausted.
\<close>

theorem plan_repair_allows_iff:
  assumes "semantic_subject_from_dict nfc d = Inr subject" and "semantic_verdict_from_dict nfc e = Inr verdict"
    and "repair_inputs_ok nfc args"
  shows "\<exists>r. plan_repair nfc subject verdict args = Inr r \<and>
    (pd_decision r = ''repair'' \<longleftrightarrow> repair_allowed subject verdict args)"
  using plan_repair_cases [OF assms] by auto

text \<open>Arguments under which the example verdict may be repaired.\<close>

definition ex_inputs :: repair_inputs where
  "ex_inputs =
     \<lparr>in_requested_cycle = PInt 2, in_writer_id = PStr ''writer-1'', in_context_digest = PStr (ex_digest (CHR ''b'')),
      in_prior_context_digests = [ex_digest (CHR ''c'')],
      in_prior_finding_identity_digests = [ex_digest (CHR ''1'')],
      in_expected_base_sha = PStr (ss_exact_base_sha ex_subject),
      in_expected_architecture_digest = PStr (ss_architecture_digest ex_subject),
      in_expected_authority_digest = PStr (ss_authority_digest ex_subject),
      in_baseline_risk_level = PStr ''high'', in_budget_remaining_units = PInt 5,
      in_deadline_remaining_seconds = PInt 60\<rparr>"

lemma ex_inputs_ok: "repair_inputs_ok (\<lambda>s. s) ex_inputs"
proof -
  have "id_ok (\<lambda>s. s) ''writer-1''"
    by (simp add: id_ok_iff ID_match_def ident_match_def is_alnum_def digits_chars_def lower_chars_def upper_chars_def)
  moreover have "hex_string 40 (ss_exact_base_sha ex_subject)" "hex_string 64 (ss_architecture_digest ex_subject)"
      "hex_string 64 (ss_authority_digest ex_subject)"
    by (simp_all add: ex_subject_def ex_digest_def is_hex_def digits_chars_def)
  ultimately show ?thesis
    by (simp add: repair_inputs_ok_def ex_inputs_def SUBJECT_RISKS_def MAX_ITEMS_def)
qed

lemma ex_repair_allowed: "repair_allowed ex_subject ex_verdict ex_inputs"
  by (simp add: repair_allowed_def ex_inputs_def ex_verdict_def ex_subject_def SUBJECT_RISKS_def RISK_ORDER_def
      ex_digest_def)

theorem plan_repair_allows_iff_witness:
  "\<exists>r. plan_repair (\<lambda>s. s) ex_subject ex_verdict ex_inputs = Inr r \<and> pd_decision r = ''repair''"
  using plan_repair_allows_iff [OF ex_subject_parses ex_verdict_parses ex_inputs_ok] ex_repair_allowed by blast

text \<open>
  C31: whatever the arguments, a decision for a human carries no directive and one of the closed
  escalation reasons, and a decision to repair carries a directive that passes \<open>validate_for\<close> against
  that subject and that verdict, for a cycle of 1 to 3, with exactly the verdict's findings.
\<close>

theorem plan_repair_decision_bound:
  assumes "plan_repair nfc subject verdict args = Inr r"
  shows "(pd_decision r = ''needs_human'' \<and> pd_directive r = None \<and> pd_reason r \<in> set ESCALATION_REASONS) \<or>
    (pd_decision r = ''repair'' \<and> (\<exists>directive. pd_directive r = Some directive \<and>
       directive_validate_for directive subject (Some verdict) = Inr () \<and>
       1 \<le> rp_cycle directive \<and> rp_cycle directive \<le> 3 \<and>
       rp_finding_identity_digests directive = sv_finding_identity_digests verdict))"
proof (cases "sv_subject_digest verdict = subject_digest subject")
  case False
  then show ?thesis
    using assms by (auto simp: plan_repair_def verdict_validate_for_def res_simps ESCALATION_REASONS_def)
next
  case True
  obtain cycle writer ctx contexts findings base arch auth baseline budget deadline where g:
    "repair_gates nfc subject verdict cycle writer ctx contexts findings base arch auth baseline
       budget deadline = Inr r"
    using assms unfolding plan_repair_def verdict_validate_for_def ensure_def if_P [OF True] sum.case
    by (elim bnd_InrE) blast
  have dir: "directive_validate_for directive subject (Some verdict) = Inr () \<and> 1 \<le> rp_cycle directive \<and>
      rp_cycle directive \<le> 3 \<and> rp_finding_identity_digests directive = sv_finding_identity_digests verdict"
    if "repair_directive_from_dict nfc (py_dict
            [(''schema_version'', PInt 1), (''subject_digest'', PStr (subject_digest subject)),
             (''verdict_digest'', PStr (verdict_digest verdict)), (''cycle'', cycle),
             (''writer_id'', PStr (ss_original_writer_id subject)), (''context_digest'', PStr ctx),
             (''exact_head_sha'', PStr (ss_exact_head_sha subject)),
             (''finding_identity_digests'', PList (map PStr (sv_finding_identity_digests verdict)))]) =
          Inr directive" for directive
    using that unfolding repair_directive_from_dict_def
    by (auto simp: res_simps py_simps directive_validate_for_def verdict_validate_for_def True cong: literal_congs)
  show ?thesis
  proof (rule gates_cases [OF g])
    fix reason
    assume "reason \<in> set ESCALATION_REASONS" "human reason = Inr r"
    then show ?thesis by (auto simp: res_simps)
  next
    fix directive
    assume d: "repair_directive_from_dict nfc (py_dict
            [(''schema_version'', PInt 1), (''subject_digest'', PStr (subject_digest subject)),
             (''verdict_digest'', PStr (verdict_digest verdict)), (''cycle'', cycle),
             (''writer_id'', PStr (ss_original_writer_id subject)), (''context_digest'', PStr ctx),
             (''exact_head_sha'', PStr (ss_exact_head_sha subject)),
             (''finding_identity_digests'', PList (map PStr (sv_finding_identity_digests verdict)))]) =
          Inr directive"
      and r: "r = \<lparr>pd_decision = ''repair'', pd_reason = ''repair_allowed'', pd_directive = Some directive\<rparr>"
    show ?thesis using dir [OF d] by (simp add: r)
  qed
qed

theorem plan_repair_decision_bound_witness:
  "\<exists>directive. directive_validate_for directive ex_subject (Some ex_verdict) = Inr ()"
proof -
  obtain r where r: "plan_repair (\<lambda>s. s) ex_subject ex_verdict ex_inputs = Inr r" "pd_decision r = ''repair''"
    using plan_repair_cases [OF ex_subject_parses ex_verdict_parses ex_inputs_ok] ex_repair_allowed by auto
  show ?thesis using plan_repair_decision_bound [OF r(1)] r(2) by auto
qed

text \<open>
  a lifecycle result that parses is one of two consistent bundles.  A repair carries a directive
  and a child proposal under their own digests, for the same subject, verdict and cycle, the proposal
  naming the directive, in cycles 1 to 3 and with a predecessor exactly after the first; a hand-over
  to a human carries only the escalation, under its digest and with the result's reason.
\<close>

theorem lifecycle_result_bound:
  assumes "repair_lifecycle_from_dict nfc data = Inr r"
  shows "(rl_decision r = ''repair'' \<and> (\<exists>directive child.
      rl_directive r = Some directive \<and> rl_directive_digest r = Some (directive_digest directive) \<and>
      rl_child_proposal r = Some child \<and> rl_child_proposal_digest r = Some (repair_child_digest child) \<and>
      rc_directive_digest child = directive_digest directive \<and>
      {rp_subject_digest directive, rc_subject_digest child} = {rl_subject_digest r} \<and>
      {rp_verdict_digest directive, rc_verdict_digest child} = {rl_verdict_digest r} \<and>
      {rp_cycle directive, rc_cycle child} = {rl_cycle r} \<and> 1 \<le> rl_cycle r \<and> rl_cycle r \<le> 3 \<and>
      (rc_previous_child_proposal_digest child = None \<longleftrightarrow> rl_cycle r = 1) \<and> rl_escalation r = None)) \<or>
    (rl_decision r = ''needs_human'' \<and> rl_reason r \<in> set ESCALATION_REASONS \<and> rl_directive r = None \<and>
      rl_child_proposal r = None \<and> (\<exists>escalation. rl_escalation r = Some escalation \<and>
        rl_escalation_digest r = Some (repair_escalation_digest escalation) \<and>
        re_reason escalation = rl_reason r \<and> re_subject_digest escalation = rl_subject_digest r \<and>
        re_verdict_digest escalation = rl_verdict_digest r \<and> re_requested_cycle escalation = rl_cycle r))"
proof -
  obtain decision subject verdict cycle where
    d: "decision \<in> set [''repair'', ''needs_human'']" and
    branch: "(if decision = ''repair'' then lifecycle_repair nfc data subject verdict cycle
      else lifecycle_human nfc data subject verdict cycle) = Inr r"
    using assms unfolding repair_lifecycle_from_dict_def by (elim bnd_InrE) (simp add: res_simps, blast)
  show ?thesis
  proof (cases "decision = ''repair''")
    case True
    then have run: "lifecycle_repair nfc data subject verdict cycle = Inr r" using branch by simp
    then obtain directive child where
      dir: "\<exists>v. repair_directive_from_dict nfc v = Inr directive" and
      child: "\<exists>v. repair_child_from_dict nfc v = Inr child" and
      bind: "rp_subject_digest directive = subject" "rp_verdict_digest directive = verdict" "rp_cycle directive = cycle"
        "rc_subject_digest child = subject" "rc_verdict_digest child = verdict" "rc_cycle child = cycle"
        "rc_directive_digest child = directive_digest directive" and
      r: "r = \<lparr>rl_decision = ''repair'', rl_reason = ''repair_allowed'', rl_subject_digest = subject,
          rl_verdict_digest = verdict, rl_cycle = cycle, rl_directive_digest = Some (directive_digest directive),
          rl_directive = Some directive, rl_child_proposal_digest = Some (repair_child_digest child),
          rl_child_proposal = Some child, rl_escalation_digest = None, rl_escalation = None\<rparr>"
      unfolding lifecycle_repair_def by (elim bnd_InrE) (simp add: res_simps, blast)
    have "1 \<le> rp_cycle directive \<and> rp_cycle directive \<le> 3"
      using dir unfolding repair_directive_from_dict_def by (elim exE bnd_InrE) (auto simp: res_simps)
    moreover have "rc_previous_child_proposal_digest child = None \<longleftrightarrow> rc_cycle child = 1"
      using child child_sequence by blast
    ultimately show ?thesis by (simp add: r bind)
  next
    case False
    then have run: "lifecycle_human nfc data subject verdict cycle = Inr r" using branch by simp
    then show ?thesis
      unfolding lifecycle_human_def by (elim bnd_InrE) (simp add: res_simps, clarify, simp)
  qed
qed

definition ex_escalation :: repair_escalation where
  "ex_escalation =
     \<lparr>re_schema_version = 1, re_subject_digest = ex_digest (CHR ''1''), re_verdict_digest = ex_digest (CHR ''a''),
      re_requested_cycle = 4, re_reason = ''repair_cycle_out_of_bounds'', re_request_digest = ex_digest (CHR ''b'')\<rparr>"

definition ex_lifecycle :: pyval where
  "ex_lifecycle = py_dict
     [(''decision'', PStr ''needs_human''), (''reason'', PStr ''repair_cycle_out_of_bounds''),
      (''subject_digest'', PStr (ex_digest (CHR ''1''))), (''verdict_digest'', PStr (ex_digest (CHR ''a''))),
      (''cycle'', PInt 4), (''directive_digest'', PNone), (''directive'', PNone),
      (''child_proposal_digest'', PNone), (''child_proposal'', PNone),
      (''escalation_digest'', PStr (repair_escalation_digest ex_escalation)),
      (''escalation'', repair_escalation_asdict ex_escalation)]"

lemma ex_escalation_parses:
  "repair_escalation_from_dict (\<lambda>s. s) (repair_escalation_asdict ex_escalation) = Inr ex_escalation"
  by (simp add: repair_escalation_from_dict_def repair_escalation_asdict_def repair_escalation_fields_def
      ex_escalation_def res_simps py_simps ESCALATION_REASONS_def cong: literal_congs)

theorem lifecycle_result_bound_witness:
  "\<exists>r. repair_lifecycle_from_dict (\<lambda>s. s) ex_lifecycle = Inr r \<and> rl_directive r = None \<and>
     rl_escalation r = Some ex_escalation"
proof -
  have e: "re_subject_digest ex_escalation = ex_digest (CHR ''1'')" "re_verdict_digest ex_escalation = ex_digest (CHR ''a'')"
    "re_requested_cycle ex_escalation = 4" "re_reason ex_escalation = ''repair_cycle_out_of_bounds''"
    "hex_string 64 (repair_escalation_digest ex_escalation)"
    by (simp_all add: ex_escalation_def repair_escalation_digest_def)
  have "\<exists>r. repair_lifecycle_from_dict (\<lambda>s. s) ex_lifecycle = Inr r \<and> rl_decision r = ''needs_human'' \<and>
      rl_escalation r = Some ex_escalation"
    by (simp add: repair_lifecycle_from_dict_def repair_lifecycle_fields_def ex_lifecycle_def lifecycle_human_def
        res_simps py_simps e ESCALATION_REASONS_def ex_escalation_parses cong: literal_congs)
  then show ?thesis using lifecycle_result_bound by fastforce
qed

end
