(* ===== verification/ShadowContracts.thy ===== *)
theory ShadowContracts
  imports Contracts
begin

text \<open>
  \<open>shadow_contracts.py\<close>, first half: the M4, M5 and M6 bridge contracts, the shadow task evidence
  that binds them, the operator handoff and the \<open>ReadyForPrBundleV1\<close> that packages both.

  Each class has a \<open>post_init\<close> (its \<open>__post_init__\<close>), \<open>to_dict\<close> and \<open>from_dict\<close>; the constructor
  is \<open>construct post_init\<close>.  A field the code passes to the constructor unparsed (\<open>role\<close>, the parts
  of a verdict, \<open>instructions\<close>) keeps its untyped value.  Field prefixes: \<open>m4_\<close>, \<open>m5_\<close>, \<open>m6_\<close>
  bridges, \<open>pv_\<close> pass verdict, \<open>se_\<close> evidence, \<open>oh_\<close> operator handoff, \<open>bu_\<close> bundle.
\<close>

section \<open>Validators\<close>

definition MAX_FENCE :: int where "MAX_FENCE = 9223372036854775807"

definition MANUAL_HANDOFF_INSTRUCTIONS :: "string list" where
  "MANUAL_HANDOFF_INSTRUCTIONS =
     [''human_decides_merge'', ''inspect_local_bundle'', ''obtain_human_review'', ''verify_exact_sha_trust_ci'']"

definition sh_object :: "pyval \<Rightarrow> string \<Rightarrow> unit res" where
  "sh_object data name = ensure (is_mapping data \<and> str_keys data) (ContractError ''invalid_contract'' name)"

definition sh_version :: "pyval \<Rightarrow> string \<Rightarrow> int res" where
  "sh_version value name = (if value = PInt 1 then Inr 1 else Inl (ContractError ''unsupported_version'' name))"

definition sh_identifier :: "(string \<Rightarrow> string) \<Rightarrow> pyval \<Rightarrow> string \<Rightarrow> string res" where
  "sh_identifier nfc value name =
     catch (id_field nfc value name)
       (\<lambda>e. if e = UnicodeEncodeError then Inl (ContractError ''invalid_identifier'' name) else Inl e)"

definition sh_integer :: "pyval \<Rightarrow> string \<Rightarrow> int \<Rightarrow> int \<Rightarrow> int res" where
  "sh_integer value name minimum maximum =
     (case value of
        PInt n \<Rightarrow> (if minimum \<le> n \<and> n \<le> maximum then Inr n else Inl (ContractError ''invalid_contract'' name))
      | _ \<Rightarrow> Inl (ContractError ''invalid_contract'' name))"

definition sh_boolean :: "pyval \<Rightarrow> string \<Rightarrow> bool res" where
  "sh_boolean value name = (case value of PBool b \<Rightarrow> Inr b | _ \<Rightarrow> Inl (ContractError ''invalid_contract'' name))"

definition list_items :: "pyval \<Rightarrow> pyexn \<Rightarrow> pyval list res" where
  "list_items value err = (case value of PList xs \<Rightarrow> Inr xs | _ \<Rightarrow> Inl err)"

text \<open>\<open>if v not in STRINGS: raise\<close>, for a set of strings.\<close>

definition sh_member :: "pyval \<Rightarrow> string list \<Rightarrow> pyexn \<Rightarrow> unit res" where
  "sh_member v allowed err = bnd (in_str_set v allowed) (\<lambda>known. ensure known err)"

lemma sh_member_Inr [res_simps]: "sh_member v ss err = Inr u \<longleftrightarrow> in_str_tuple v ss"
  by (cases v) (auto simp: sh_member_def in_str_set_def in_str_tuple_def res_simps)

lemma map_PInt_eq [simp]: "map PInt xs = map PInt ys \<longleftrightarrow> xs = ys"
  by (rule inj_map_eq_map) (simp add: inj_def)

lemma sh_object_Inr [res_simps]: "sh_object d name = Inr u \<longleftrightarrow> is_mapping d \<and> str_keys d"
  by (simp add: sh_object_def res_simps)

lemma sh_version_Inr [res_simps]: "sh_version v name = Inr n \<longleftrightarrow> v = PInt n \<and> n = 1"
  by (auto simp: sh_version_def)

lemma sh_identifier_Inr [res_simps]: "sh_identifier nfc v name = Inr s \<longleftrightarrow> v = PStr s \<and> id_ok nfc s"
  by (auto simp: sh_identifier_def res_simps)

lemma sh_integer_Inr [res_simps]: "sh_integer v name lo hi = Inr n \<longleftrightarrow> v = PInt n \<and> lo \<le> n \<and> n \<le> hi"
  by (auto simp: sh_integer_def split: pyval.splits)

lemma sh_boolean_Inr [res_simps]: "sh_boolean v name = Inr b \<longleftrightarrow> v = PBool b"
  by (auto simp: sh_boolean_def split: pyval.splits)

lemma list_items_Inr [res_simps]: "list_items v err = Inr xs \<longleftrightarrow> v = PList xs"
  by (auto simp: list_items_def split: pyval.splits)

lemma void_validators [res_simps]:
  "void (sh_version (PInt n) name) = Inr u \<longleftrightarrow> n = 1"
  "void (sh_identifier nfc (PStr s) name) = Inr u \<longleftrightarrow> id_ok nfc s"
  "void (sh_integer (PInt n) name lo hi) = Inr u \<longleftrightarrow> lo \<le> n \<and> n \<le> hi"
  "void (sh_boolean (PBool b) name) = Inr u"
  by (simp_all add: void_Inr_iff sh_version_Inr sh_identifier_Inr sh_integer_Inr sh_boolean_Inr)

lemma map_res_integers [res_simps]:
  "map_res (\<lambda>v. sh_integer v name lo hi) vs = Inr xs \<longleftrightarrow>
     vs = map PInt xs \<and> list_all (\<lambda>i. lo \<le> i \<and> i \<le> hi) xs"
proof (induction vs arbitrary: xs)
  case Nil
  show ?case by (cases xs) auto
next
  case (Cons v vs)
  show ?case by (cases xs) (auto simp: bnd_Inr_iff sh_integer_Inr Cons.IH)
qed

lemma checks_map [res_simps]: "checks (map f xs) = Inr u \<longleftrightarrow> list_all (\<lambda>x. f x = Inr ()) xs"
  by (induction xs) (auto simp: res_simps)


section \<open>The M4 bridge\<close>

record m4_bridge =
  m4_schema_version :: int
  m4_task_id :: string
  m4_run_id :: string
  m4_owner :: string
  m4_role :: pyval
  m4_fence :: int
  m4_intent_digest :: string
  m4_lease_packet_digest :: string

definition m4_bridge_fields :: "string list" where
  "m4_bridge_fields =
     [''schema_version'', ''task_id'', ''run_id'', ''owner'', ''role'', ''fence'', ''intent_digest'',
      ''lease_packet_digest'']"

definition m4_bridge_post_init :: "(string \<Rightarrow> string) \<Rightarrow> m4_bridge \<Rightarrow> unit res" where
  "m4_bridge_post_init nfc x = checks
     [
      void (sh_version (PInt (m4_schema_version x)) ''m4''),
      void (sh_identifier nfc (PStr (m4_task_id x)) ''m4.task_id''),
      void (sh_identifier nfc (PStr (m4_run_id x)) ''m4.run_id''),
      void (sh_identifier nfc (PStr (m4_owner x)) ''m4.owner''),
      ensure (py_eq_str (m4_role x) ''writer'') (ContractError ''writer_required'' ''m4.role''),
      void (sh_integer (PInt (m4_fence x)) ''m4.fence'' 1 MAX_FENCE),
      void (hex_field (PStr (m4_intent_digest x)) ''m4.intent_digest'' HEX64),
      void (hex_field (PStr (m4_lease_packet_digest x)) ''m4.lease_packet_digest'' HEX64),
      ensure (m4_intent_digest x = m4_lease_packet_digest x) (ContractError ''stale_binding'' ''m4.lease_packet_digest'')]"

definition m4_bridge_to_dict :: "m4_bridge \<Rightarrow> pyval" where
  "m4_bridge_to_dict x = py_dict
     [(''schema_version'', PInt (m4_schema_version x)), (''task_id'', PStr (m4_task_id x)),
      (''run_id'', PStr (m4_run_id x)), (''owner'', PStr (m4_owner x)), (''role'', m4_role x),
      (''fence'', PInt (m4_fence x)), (''intent_digest'', PStr (m4_intent_digest x)),
      (''lease_packet_digest'', PStr (m4_lease_packet_digest x))]"

definition m4_bridge_from_dict :: "(string \<Rightarrow> string) \<Rightarrow> pyval \<Rightarrow> m4_bridge res" where
  "m4_bridge_from_dict nfc data =
     bnd (sh_object data ''m4'') (\<lambda>_.
     bnd (closed data m4_bridge_fields) (\<lambda>_.
     bnd (field data ''schema_version'' (\<lambda>v. sh_version v ''m4'')) (\<lambda>version.
     bnd (field data ''task_id'' (\<lambda>v. sh_identifier nfc v ''m4.task_id'')) (\<lambda>v_task_id.
     bnd (field data ''run_id'' (\<lambda>v. sh_identifier nfc v ''m4.run_id'')) (\<lambda>v_run_id.
     bnd (field data ''owner'' (\<lambda>v. sh_identifier nfc v ''m4.owner'')) (\<lambda>v_owner.
     bnd (getitem data ''role'') (\<lambda>v_role.
     bnd (field data ''fence'' (\<lambda>v. sh_integer v ''m4.fence'' 1 MAX_FENCE)) (\<lambda>v_fence.
     bnd (field data ''intent_digest'' (\<lambda>v. hex_field v ''m4.intent_digest'' HEX64)) (\<lambda>v_intent_digest.
     bnd (field data ''lease_packet_digest'' (\<lambda>v. hex_field v ''m4.lease_packet_digest'' HEX64)) (\<lambda>v_lease_packet_digest.
     construct (m4_bridge_post_init nfc)
        \<lparr>m4_schema_version = version, m4_task_id = v_task_id, m4_run_id = v_run_id, m4_owner = v_owner,
          m4_role = v_role, m4_fence = v_fence, m4_intent_digest = v_intent_digest,
          m4_lease_packet_digest = v_lease_packet_digest\<rparr>))))))))))"

interpretation m4_bridge: checked_codec "m4_bridge_from_dict nfc" m4_bridge_to_dict "m4_bridge_post_init nfc"
proof
  fix d x assume "m4_bridge_from_dict nfc d = Inr x"
  then show "m4_bridge_post_init nfc x = Inr ()"
    unfolding m4_bridge_from_dict_def by (elim bnd_InrE construct_checked)
next
  fix x assume ok: "m4_bridge_post_init nfc x = Inr ()"
  have eta: "\<lparr>m4_schema_version = m4_schema_version x, m4_task_id = m4_task_id x, m4_run_id = m4_run_id x,
       m4_owner = m4_owner x, m4_role = m4_role x, m4_fence = m4_fence x,
       m4_intent_digest = m4_intent_digest x, m4_lease_packet_digest = m4_lease_packet_digest x\<rparr> = x"
    by (cases x) simp
  show "m4_bridge_from_dict nfc (m4_bridge_to_dict x) = Inr x"
    using ok [unfolded m4_bridge_post_init_def]
    apply (simp only: res_simps hexpat_len.simps, elim conjE)
    apply (simp (no_asm) add: m4_bridge_from_dict_def m4_bridge_to_dict_def m4_bridge_fields_def eta ok
        res_simps py_simps cong: literal_congs)
    apply ((intro conjI)?; (assumption | simp))
    done
qed

definition m4_digest :: "m4_bridge \<Rightarrow> string" where
  "m4_digest x = domain_digest ''adaptive-factory.m7-m4-control-plane-bridge/v1'' (m4_bridge_to_dict x)"

section \<open>The M5 bridge\<close>

record m5_bridge =
  m5_schema_version :: int
  m5_task_id :: string
  m5_run_id :: string
  m5_owner :: string
  m5_role :: pyval
  m5_fence :: int
  m5_repository_id :: string
  m5_legacy_intent_digest :: string
  m5_task_packet_digest :: string
  m5_run_manifest_digest :: string
  m5_workspace_snapshot_digest :: string
  m5_workspace_result_digest :: string
  m5_authority_exact_head_sha :: string
  m5_snapshot_input_head_sha :: string
  m5_snapshot_result_head_sha :: string
  m5_result_exact_head_sha :: string

definition m5_bridge_fields :: "string list" where
  "m5_bridge_fields =
     [''schema_version'', ''task_id'', ''run_id'', ''owner'', ''role'', ''fence'', ''repository_id'',
      ''legacy_intent_digest'', ''task_packet_digest'', ''run_manifest_digest'',
      ''workspace_snapshot_digest'', ''workspace_result_digest'', ''authority_exact_head_sha'',
      ''snapshot_input_head_sha'', ''snapshot_result_head_sha'', ''result_exact_head_sha'']"

definition m5_bridge_post_init :: "(string \<Rightarrow> string) \<Rightarrow> m5_bridge \<Rightarrow> unit res" where
  "m5_bridge_post_init nfc x = checks
     [
      void (sh_version (PInt (m5_schema_version x)) ''m5''),
      void (sh_identifier nfc (PStr (m5_task_id x)) ''m5.task_id''),
      void (sh_identifier nfc (PStr (m5_run_id x)) ''m5.run_id''),
      void (sh_identifier nfc (PStr (m5_owner x)) ''m5.owner''),
      ensure (py_eq_str (m5_role x) ''writer'') (ContractError ''writer_required'' ''m5.role''),
      void (sh_integer (PInt (m5_fence x)) ''m5.fence'' 1 MAX_FENCE),
      void (sh_identifier nfc (PStr (m5_repository_id x)) ''m5.repository_id''),
      void (hex_field (PStr (m5_legacy_intent_digest x)) ''m5.legacy_intent_digest'' HEX64),
      void (hex_field (PStr (m5_task_packet_digest x)) ''m5.task_packet_digest'' HEX64),
      void (hex_field (PStr (m5_run_manifest_digest x)) ''m5.run_manifest_digest'' HEX64),
      void (hex_field (PStr (m5_workspace_snapshot_digest x)) ''m5.workspace_snapshot_digest'' HEX64),
      void (hex_field (PStr (m5_workspace_result_digest x)) ''m5.workspace_result_digest'' HEX64),
      void (hex_field (PStr (m5_authority_exact_head_sha x)) ''m5.authority_exact_head_sha'' HEX40),
      void (hex_field (PStr (m5_snapshot_input_head_sha x)) ''m5.snapshot_input_head_sha'' HEX40),
      void (hex_field (PStr (m5_snapshot_result_head_sha x)) ''m5.snapshot_result_head_sha'' HEX40),
      void (hex_field (PStr (m5_result_exact_head_sha x)) ''m5.result_exact_head_sha'' HEX40),
      ensure (m5_authority_exact_head_sha x = m5_snapshot_input_head_sha x) (ContractError ''stale_binding'' ''m5.snapshot_input_head_sha''),
      ensure (m5_snapshot_result_head_sha x = m5_result_exact_head_sha x) (ContractError ''stale_binding'' ''m5.snapshot_result_head_sha'')]"

definition m5_bridge_to_dict :: "m5_bridge \<Rightarrow> pyval" where
  "m5_bridge_to_dict x = py_dict
     [(''schema_version'', PInt (m5_schema_version x)), (''task_id'', PStr (m5_task_id x)),
      (''run_id'', PStr (m5_run_id x)), (''owner'', PStr (m5_owner x)), (''role'', m5_role x),
      (''fence'', PInt (m5_fence x)), (''repository_id'', PStr (m5_repository_id x)),
      (''legacy_intent_digest'', PStr (m5_legacy_intent_digest x)),
      (''task_packet_digest'', PStr (m5_task_packet_digest x)),
      (''run_manifest_digest'', PStr (m5_run_manifest_digest x)),
      (''workspace_snapshot_digest'', PStr (m5_workspace_snapshot_digest x)),
      (''workspace_result_digest'', PStr (m5_workspace_result_digest x)),
      (''authority_exact_head_sha'', PStr (m5_authority_exact_head_sha x)),
      (''snapshot_input_head_sha'', PStr (m5_snapshot_input_head_sha x)),
      (''snapshot_result_head_sha'', PStr (m5_snapshot_result_head_sha x)),
      (''result_exact_head_sha'', PStr (m5_result_exact_head_sha x))]"

definition m5_bridge_from_dict :: "(string \<Rightarrow> string) \<Rightarrow> pyval \<Rightarrow> m5_bridge res" where
  "m5_bridge_from_dict nfc data =
     bnd (sh_object data ''m5'') (\<lambda>_.
     bnd (closed data m5_bridge_fields) (\<lambda>_.
     bnd (field data ''schema_version'' (\<lambda>v. sh_version v ''m5'')) (\<lambda>version.
     bnd (field data ''task_id'' (\<lambda>v. sh_identifier nfc v ''m5.task_id'')) (\<lambda>v_task_id.
     bnd (field data ''run_id'' (\<lambda>v. sh_identifier nfc v ''m5.run_id'')) (\<lambda>v_run_id.
     bnd (field data ''owner'' (\<lambda>v. sh_identifier nfc v ''m5.owner'')) (\<lambda>v_owner.
     bnd (getitem data ''role'') (\<lambda>v_role.
     bnd (field data ''fence'' (\<lambda>v. sh_integer v ''m5.fence'' 1 MAX_FENCE)) (\<lambda>v_fence.
     bnd (field data ''repository_id'' (\<lambda>v. sh_identifier nfc v ''m5.repository_id'')) (\<lambda>v_repository_id.
     bnd (field data ''legacy_intent_digest'' (\<lambda>v. hex_field v ''m5.legacy_intent_digest'' HEX64)) (\<lambda>v_legacy_intent_digest.
     bnd (field data ''task_packet_digest'' (\<lambda>v. hex_field v ''m5.task_packet_digest'' HEX64)) (\<lambda>v_task_packet_digest.
     bnd (field data ''run_manifest_digest'' (\<lambda>v. hex_field v ''m5.run_manifest_digest'' HEX64)) (\<lambda>v_run_manifest_digest.
     bnd (field data ''workspace_snapshot_digest'' (\<lambda>v. hex_field v ''m5.workspace_snapshot_digest'' HEX64)) (\<lambda>v_workspace_snapshot_digest.
     bnd (field data ''workspace_result_digest'' (\<lambda>v. hex_field v ''m5.workspace_result_digest'' HEX64)) (\<lambda>v_workspace_result_digest.
     bnd (field data ''authority_exact_head_sha'' (\<lambda>v. hex_field v ''m5.authority_exact_head_sha'' HEX40)) (\<lambda>v_authority_exact_head_sha.
     bnd (field data ''snapshot_input_head_sha'' (\<lambda>v. hex_field v ''m5.snapshot_input_head_sha'' HEX40)) (\<lambda>v_snapshot_input_head_sha.
     bnd (field data ''snapshot_result_head_sha'' (\<lambda>v. hex_field v ''m5.snapshot_result_head_sha'' HEX40)) (\<lambda>v_snapshot_result_head_sha.
     bnd (field data ''result_exact_head_sha'' (\<lambda>v. hex_field v ''m5.result_exact_head_sha'' HEX40)) (\<lambda>v_result_exact_head_sha.
     construct (m5_bridge_post_init nfc)
        \<lparr>m5_schema_version = version, m5_task_id = v_task_id, m5_run_id = v_run_id, m5_owner = v_owner,
          m5_role = v_role, m5_fence = v_fence, m5_repository_id = v_repository_id,
          m5_legacy_intent_digest = v_legacy_intent_digest, m5_task_packet_digest = v_task_packet_digest,
          m5_run_manifest_digest = v_run_manifest_digest,
          m5_workspace_snapshot_digest = v_workspace_snapshot_digest,
          m5_workspace_result_digest = v_workspace_result_digest,
          m5_authority_exact_head_sha = v_authority_exact_head_sha,
          m5_snapshot_input_head_sha = v_snapshot_input_head_sha,
          m5_snapshot_result_head_sha = v_snapshot_result_head_sha,
          m5_result_exact_head_sha = v_result_exact_head_sha\<rparr>))))))))))))))))))"

interpretation m5_bridge: checked_codec "m5_bridge_from_dict nfc" m5_bridge_to_dict "m5_bridge_post_init nfc"
proof
  fix d x assume "m5_bridge_from_dict nfc d = Inr x"
  then show "m5_bridge_post_init nfc x = Inr ()"
    unfolding m5_bridge_from_dict_def by (elim bnd_InrE construct_checked)
next
  fix x assume ok: "m5_bridge_post_init nfc x = Inr ()"
  have eta: "\<lparr>m5_schema_version = m5_schema_version x, m5_task_id = m5_task_id x, m5_run_id = m5_run_id x,
       m5_owner = m5_owner x, m5_role = m5_role x, m5_fence = m5_fence x,
       m5_repository_id = m5_repository_id x, m5_legacy_intent_digest = m5_legacy_intent_digest x,
       m5_task_packet_digest = m5_task_packet_digest x,
       m5_run_manifest_digest = m5_run_manifest_digest x,
       m5_workspace_snapshot_digest = m5_workspace_snapshot_digest x,
       m5_workspace_result_digest = m5_workspace_result_digest x,
       m5_authority_exact_head_sha = m5_authority_exact_head_sha x,
       m5_snapshot_input_head_sha = m5_snapshot_input_head_sha x,
       m5_snapshot_result_head_sha = m5_snapshot_result_head_sha x,
       m5_result_exact_head_sha = m5_result_exact_head_sha x\<rparr> = x"
    by (cases x) simp
  show "m5_bridge_from_dict nfc (m5_bridge_to_dict x) = Inr x"
    using ok [unfolded m5_bridge_post_init_def]
    apply (simp only: res_simps hexpat_len.simps, elim conjE)
    apply (simp (no_asm) add: m5_bridge_from_dict_def m5_bridge_to_dict_def m5_bridge_fields_def eta ok
        res_simps py_simps cong: literal_congs)
    apply ((intro conjI)?; (assumption | simp))
    done
qed

definition m5_digest :: "m5_bridge \<Rightarrow> string" where
  "m5_digest x = domain_digest ''adaptive-factory.m7-m5-execution-bridge/v1'' (m5_bridge_to_dict x)"

section \<open>The M6 bridge\<close>

record pass_verdict =
  pv_schema_version :: int
  pv_subject_digest :: string
  pv_decision :: pyval
  pv_decision_source :: pyval
  pv_finding_identity_digests :: "pyval list"
  pv_duplicate_identity_digests :: "pyval list"
  pv_correlated_requirement_keys :: "pyval list"
  pv_contradicted_requirement_keys :: "pyval list"
  pv_unsupported_pass_requirement_keys :: "pyval list"
  pv_residual_risk :: pyval

definition pass_verdict_fields :: "string list" where
  "pass_verdict_fields =
     [''schema_version'', ''subject_digest'', ''decision'', ''decision_source'',
      ''finding_identity_digests'', ''duplicate_identity_digests'', ''correlated_requirement_keys'',
      ''contradicted_requirement_keys'', ''unsupported_pass_requirement_keys'', ''residual_risk'']"

definition pass_verdict_post_init :: "pass_verdict \<Rightarrow> unit res" where
  "pass_verdict_post_init x = checks
     [
      void (sh_version (PInt (pv_schema_version x)) ''m6.verdict''),
      void (hex_field (PStr (pv_subject_digest x)) ''m6.verdict.subject_digest'' HEX64),
      ensure (py_eq_str (pv_decision x) ''pass'' \<and> py_eq_str (pv_decision_source x) ''deterministic_adjudicator'') (ContractError ''semantic_not_pass'' []),
      ensure (pv_finding_identity_digests x = []) (ContractError ''semantic_not_pass'' ''finding_identity_digests''),
      ensure (pv_duplicate_identity_digests x = []) (ContractError ''semantic_not_pass'' ''duplicate_identity_digests''),
      ensure (pv_correlated_requirement_keys x = []) (ContractError ''semantic_not_pass'' ''correlated_requirement_keys''),
      ensure (pv_contradicted_requirement_keys x = []) (ContractError ''semantic_not_pass'' ''contradicted_requirement_keys''),
      ensure (pv_unsupported_pass_requirement_keys x = []) (ContractError ''semantic_not_pass'' ''unsupported_pass_requirement_keys''),
      ensure (py_eq_str (pv_residual_risk x) ''none'') (ContractError ''semantic_not_pass'' ''residual_risk'')]"

definition pass_verdict_to_dict :: "pass_verdict \<Rightarrow> pyval" where
  "pass_verdict_to_dict x = py_dict
     [(''schema_version'', PInt (pv_schema_version x)), (''subject_digest'', PStr (pv_subject_digest x)),
      (''decision'', pv_decision x), (''decision_source'', pv_decision_source x),
      (''finding_identity_digests'', PList (pv_finding_identity_digests x)),
      (''duplicate_identity_digests'', PList (pv_duplicate_identity_digests x)),
      (''correlated_requirement_keys'', PList (pv_correlated_requirement_keys x)),
      (''contradicted_requirement_keys'', PList (pv_contradicted_requirement_keys x)),
      (''unsupported_pass_requirement_keys'', PList (pv_unsupported_pass_requirement_keys x)),
      (''residual_risk'', pv_residual_risk x)]"

definition pass_verdict_from_dict :: "pyval \<Rightarrow> pass_verdict res" where
  "pass_verdict_from_dict data =
     bnd (sh_object data ''m6.verdict'') (\<lambda>_.
     bnd (closed data pass_verdict_fields) (\<lambda>_.
     bnd (field data ''finding_identity_digests'' (\<lambda>v. list_items v (ContractError ''invalid_contract'' ''m6.verdict''))) (\<lambda>v_finding_identity_digests.
     bnd (field data ''duplicate_identity_digests'' (\<lambda>v. list_items v (ContractError ''invalid_contract'' ''m6.verdict''))) (\<lambda>v_duplicate_identity_digests.
     bnd (field data ''correlated_requirement_keys'' (\<lambda>v. list_items v (ContractError ''invalid_contract'' ''m6.verdict''))) (\<lambda>v_correlated_requirement_keys.
     bnd (field data ''contradicted_requirement_keys'' (\<lambda>v. list_items v (ContractError ''invalid_contract'' ''m6.verdict''))) (\<lambda>v_contradicted_requirement_keys.
     bnd (field data ''unsupported_pass_requirement_keys'' (\<lambda>v. list_items v (ContractError ''invalid_contract'' ''m6.verdict''))) (\<lambda>v_unsupported_pass_requirement_keys.
     bnd (field data ''schema_version'' (\<lambda>v. sh_version v ''m6.verdict'')) (\<lambda>version.
     bnd (field data ''subject_digest'' (\<lambda>v. hex_field v ''m6.verdict.subject_digest'' HEX64)) (\<lambda>subject.
     bnd (getitem data ''decision'') (\<lambda>decision.
     bnd (getitem data ''decision_source'') (\<lambda>source.
     bnd (getitem data ''residual_risk'') (\<lambda>residual.
     construct pass_verdict_post_init
        \<lparr>pv_schema_version = version, pv_subject_digest = subject, pv_decision = decision,
          pv_decision_source = source, pv_finding_identity_digests = v_finding_identity_digests,
          pv_duplicate_identity_digests = v_duplicate_identity_digests,
          pv_correlated_requirement_keys = v_correlated_requirement_keys,
          pv_contradicted_requirement_keys = v_contradicted_requirement_keys,
          pv_unsupported_pass_requirement_keys = v_unsupported_pass_requirement_keys,
          pv_residual_risk = residual\<rparr>))))))))))))"

interpretation pass_verdict: checked_codec pass_verdict_from_dict pass_verdict_to_dict pass_verdict_post_init
proof
  fix d x assume "pass_verdict_from_dict d = Inr x"
  then show "pass_verdict_post_init x = Inr ()"
    unfolding pass_verdict_from_dict_def by (elim bnd_InrE construct_checked)
next
  fix x assume ok: "pass_verdict_post_init x = Inr ()"
  have eta: "\<lparr>pv_schema_version = pv_schema_version x, pv_subject_digest = pv_subject_digest x,
       pv_decision = pv_decision x, pv_decision_source = pv_decision_source x,
       pv_finding_identity_digests = pv_finding_identity_digests x,
       pv_duplicate_identity_digests = pv_duplicate_identity_digests x,
       pv_correlated_requirement_keys = pv_correlated_requirement_keys x,
       pv_contradicted_requirement_keys = pv_contradicted_requirement_keys x,
       pv_unsupported_pass_requirement_keys = pv_unsupported_pass_requirement_keys x,
       pv_residual_risk = pv_residual_risk x\<rparr> = x"
    by (cases x) simp
  show "pass_verdict_from_dict (pass_verdict_to_dict x) = Inr x"
    using ok [unfolded pass_verdict_post_init_def]
    apply (simp only: res_simps hexpat_len.simps, elim conjE)
    apply (simp (no_asm) add: pass_verdict_from_dict_def pass_verdict_to_dict_def pass_verdict_fields_def eta ok
        res_simps py_simps cong: literal_congs)
    apply ((intro conjI)?; (assumption | simp))
    done
qed

definition pass_verdict_digest :: "pass_verdict \<Rightarrow> string" where
  "pass_verdict_digest x = canonical_digest (pass_verdict_to_dict x)"

text \<open>The digest of the semantic subject envelope the bridge recomputes.\<close>

definition envelope_digest_of :: "string \<Rightarrow> string \<Rightarrow> string \<Rightarrow> string" where
  "envelope_digest_of binding inputs subject = canonical_digest (py_dict
     [(''contract'', PStr ''adaptive-factory.semantic-subject-envelope/v1''),
      (''binding_digest'', PStr binding), (''validation_inputs_digest'', PStr inputs),
      (''subject_digest'', PStr subject)])"

record m6_bridge =
  m6_schema_version :: int
  m6_task_id :: string
  m6_run_id :: string
  m6_owner :: string
  m6_role :: pyval
  m6_fence :: int
  m6_repository_id :: string
  m6_legacy_intent_digest :: string
  m6_task_packet_digest :: string
  m6_run_manifest_digest :: string
  m6_workspace_snapshot_digest :: string
  m6_workspace_result_digest :: string
  m6_binding_input_head_sha :: string
  m6_binding_exact_head_sha :: string
  m6_subject_exact_head_sha :: string
  m6_envelope_digest :: string
  m6_binding_digest :: string
  m6_validation_inputs_digest :: string
  m6_subject_digest :: string
  m6_evidence_set_digest :: string
  m6_verdict_digest :: string
  m6_verdict :: pass_verdict

definition m6_bridge_fields :: "string list" where
  "m6_bridge_fields =
     [''schema_version'', ''task_id'', ''run_id'', ''owner'', ''role'', ''fence'', ''repository_id'',
      ''legacy_intent_digest'', ''task_packet_digest'', ''run_manifest_digest'',
      ''workspace_snapshot_digest'', ''workspace_result_digest'', ''binding_input_head_sha'',
      ''binding_exact_head_sha'', ''subject_exact_head_sha'', ''envelope_digest'', ''binding_digest'',
      ''validation_inputs_digest'', ''subject_digest'', ''evidence_set_digest'', ''verdict_digest'',
      ''verdict'']"

definition m6_bridge_post_init :: "(string \<Rightarrow> string) \<Rightarrow> m6_bridge \<Rightarrow> unit res" where
  "m6_bridge_post_init nfc x = checks
     [
      void (sh_version (PInt (m6_schema_version x)) ''m6''),
      void (sh_identifier nfc (PStr (m6_task_id x)) ''m6.task_id''),
      void (sh_identifier nfc (PStr (m6_run_id x)) ''m6.run_id''),
      void (sh_identifier nfc (PStr (m6_owner x)) ''m6.owner''),
      ensure (py_eq_str (m6_role x) ''writer'') (ContractError ''writer_required'' ''m6.role''),
      void (sh_integer (PInt (m6_fence x)) ''m6.fence'' 1 MAX_FENCE),
      void (sh_identifier nfc (PStr (m6_repository_id x)) ''m6.repository_id''),
      void (hex_field (PStr (m6_legacy_intent_digest x)) ''m6.legacy_intent_digest'' HEX64),
      void (hex_field (PStr (m6_task_packet_digest x)) ''m6.task_packet_digest'' HEX64),
      void (hex_field (PStr (m6_run_manifest_digest x)) ''m6.run_manifest_digest'' HEX64),
      void (hex_field (PStr (m6_workspace_snapshot_digest x)) ''m6.workspace_snapshot_digest'' HEX64),
      void (hex_field (PStr (m6_workspace_result_digest x)) ''m6.workspace_result_digest'' HEX64),
      void (hex_field (PStr (m6_envelope_digest x)) ''m6.envelope_digest'' HEX64),
      void (hex_field (PStr (m6_binding_digest x)) ''m6.binding_digest'' HEX64),
      void (hex_field (PStr (m6_validation_inputs_digest x)) ''m6.validation_inputs_digest'' HEX64),
      void (hex_field (PStr (m6_subject_digest x)) ''m6.subject_digest'' HEX64),
      void (hex_field (PStr (m6_evidence_set_digest x)) ''m6.evidence_set_digest'' HEX64),
      void (hex_field (PStr (m6_verdict_digest x)) ''m6.verdict_digest'' HEX64),
      void (hex_field (PStr (m6_binding_input_head_sha x)) ''m6.binding_input_head_sha'' HEX40),
      void (hex_field (PStr (m6_binding_exact_head_sha x)) ''m6.binding_exact_head_sha'' HEX40),
      void (hex_field (PStr (m6_subject_exact_head_sha x)) ''m6.subject_exact_head_sha'' HEX40),
      ensure (instance_of pass_verdict_post_init (m6_verdict x)) (ContractError ''invalid_contract'' ''m6.verdict''),
      ensure (pv_subject_digest (m6_verdict x) = m6_subject_digest x) (ContractError ''stale_binding'' ''m6.verdict.subject_digest''),
      ensure (pass_verdict_digest (m6_verdict x) = m6_verdict_digest x) (ContractError ''digest_mismatch'' ''m6.verdict_digest''),
      ensure (envelope_digest_of (m6_binding_digest x) (m6_validation_inputs_digest x) (m6_subject_digest x) =
         m6_envelope_digest x) (ContractError ''digest_mismatch'' ''m6.envelope_digest'')]"

definition m6_bridge_to_dict :: "m6_bridge \<Rightarrow> pyval" where
  "m6_bridge_to_dict x = py_dict
     [(''schema_version'', PInt (m6_schema_version x)), (''task_id'', PStr (m6_task_id x)),
      (''run_id'', PStr (m6_run_id x)), (''owner'', PStr (m6_owner x)), (''role'', m6_role x),
      (''fence'', PInt (m6_fence x)), (''repository_id'', PStr (m6_repository_id x)),
      (''legacy_intent_digest'', PStr (m6_legacy_intent_digest x)),
      (''task_packet_digest'', PStr (m6_task_packet_digest x)),
      (''run_manifest_digest'', PStr (m6_run_manifest_digest x)),
      (''workspace_snapshot_digest'', PStr (m6_workspace_snapshot_digest x)),
      (''workspace_result_digest'', PStr (m6_workspace_result_digest x)),
      (''binding_input_head_sha'', PStr (m6_binding_input_head_sha x)),
      (''binding_exact_head_sha'', PStr (m6_binding_exact_head_sha x)),
      (''subject_exact_head_sha'', PStr (m6_subject_exact_head_sha x)),
      (''envelope_digest'', PStr (m6_envelope_digest x)), (''binding_digest'', PStr (m6_binding_digest x)),
      (''validation_inputs_digest'', PStr (m6_validation_inputs_digest x)),
      (''subject_digest'', PStr (m6_subject_digest x)),
      (''evidence_set_digest'', PStr (m6_evidence_set_digest x)),
      (''verdict_digest'', PStr (m6_verdict_digest x)), (''verdict'', pass_verdict_to_dict (m6_verdict x))]"

definition m6_bridge_from_dict :: "(string \<Rightarrow> string) \<Rightarrow> pyval \<Rightarrow> m6_bridge res" where
  "m6_bridge_from_dict nfc data =
     bnd (sh_object data ''m6'') (\<lambda>_.
     bnd (closed data m6_bridge_fields) (\<lambda>_.
     bnd (field data ''schema_version'' (\<lambda>v. sh_version v ''m6'')) (\<lambda>version.
     bnd (field data ''task_id'' (\<lambda>v. sh_identifier nfc v ''m6.task_id'')) (\<lambda>v_task_id.
     bnd (field data ''run_id'' (\<lambda>v. sh_identifier nfc v ''m6.run_id'')) (\<lambda>v_run_id.
     bnd (field data ''owner'' (\<lambda>v. sh_identifier nfc v ''m6.owner'')) (\<lambda>v_owner.
     bnd (getitem data ''role'') (\<lambda>v_role.
     bnd (field data ''fence'' (\<lambda>v. sh_integer v ''m6.fence'' 1 MAX_FENCE)) (\<lambda>v_fence.
     bnd (field data ''repository_id'' (\<lambda>v. sh_identifier nfc v ''m6.repository_id'')) (\<lambda>v_repository_id.
     bnd (field data ''legacy_intent_digest'' (\<lambda>v. hex_field v ''m6.legacy_intent_digest'' HEX64)) (\<lambda>v_legacy_intent_digest.
     bnd (field data ''task_packet_digest'' (\<lambda>v. hex_field v ''m6.task_packet_digest'' HEX64)) (\<lambda>v_task_packet_digest.
     bnd (field data ''run_manifest_digest'' (\<lambda>v. hex_field v ''m6.run_manifest_digest'' HEX64)) (\<lambda>v_run_manifest_digest.
     bnd (field data ''workspace_snapshot_digest'' (\<lambda>v. hex_field v ''m6.workspace_snapshot_digest'' HEX64)) (\<lambda>v_workspace_snapshot_digest.
     bnd (field data ''workspace_result_digest'' (\<lambda>v. hex_field v ''m6.workspace_result_digest'' HEX64)) (\<lambda>v_workspace_result_digest.
     bnd (field data ''binding_input_head_sha'' (\<lambda>v. hex_field v ''m6.binding_input_head_sha'' HEX40)) (\<lambda>v_binding_input_head_sha.
     bnd (field data ''binding_exact_head_sha'' (\<lambda>v. hex_field v ''m6.binding_exact_head_sha'' HEX40)) (\<lambda>v_binding_exact_head_sha.
     bnd (field data ''subject_exact_head_sha'' (\<lambda>v. hex_field v ''m6.subject_exact_head_sha'' HEX40)) (\<lambda>v_subject_exact_head_sha.
     bnd (field data ''envelope_digest'' (\<lambda>v. hex_field v ''m6.envelope_digest'' HEX64)) (\<lambda>v_envelope_digest.
     bnd (field data ''binding_digest'' (\<lambda>v. hex_field v ''m6.binding_digest'' HEX64)) (\<lambda>v_binding_digest.
     bnd (field data ''validation_inputs_digest'' (\<lambda>v. hex_field v ''m6.validation_inputs_digest'' HEX64)) (\<lambda>v_validation_inputs_digest.
     bnd (field data ''subject_digest'' (\<lambda>v. hex_field v ''m6.subject_digest'' HEX64)) (\<lambda>v_subject_digest.
     bnd (field data ''evidence_set_digest'' (\<lambda>v. hex_field v ''m6.evidence_set_digest'' HEX64)) (\<lambda>v_evidence_set_digest.
     bnd (field data ''verdict_digest'' (\<lambda>v. hex_field v ''m6.verdict_digest'' HEX64)) (\<lambda>v_verdict_digest.
     bnd (field data ''verdict'' pass_verdict_from_dict) (\<lambda>v_verdict.
     construct (m6_bridge_post_init nfc)
        \<lparr>m6_schema_version = version, m6_task_id = v_task_id, m6_run_id = v_run_id, m6_owner = v_owner,
          m6_role = v_role, m6_fence = v_fence, m6_repository_id = v_repository_id,
          m6_legacy_intent_digest = v_legacy_intent_digest, m6_task_packet_digest = v_task_packet_digest,
          m6_run_manifest_digest = v_run_manifest_digest,
          m6_workspace_snapshot_digest = v_workspace_snapshot_digest,
          m6_workspace_result_digest = v_workspace_result_digest,
          m6_binding_input_head_sha = v_binding_input_head_sha,
          m6_binding_exact_head_sha = v_binding_exact_head_sha,
          m6_subject_exact_head_sha = v_subject_exact_head_sha, m6_envelope_digest = v_envelope_digest,
          m6_binding_digest = v_binding_digest, m6_validation_inputs_digest = v_validation_inputs_digest,
          m6_subject_digest = v_subject_digest, m6_evidence_set_digest = v_evidence_set_digest,
          m6_verdict_digest = v_verdict_digest, m6_verdict = v_verdict\<rparr>))))))))))))))))))))))))"

interpretation m6_bridge: checked_codec "m6_bridge_from_dict nfc" m6_bridge_to_dict "m6_bridge_post_init nfc"
proof
  fix d x assume "m6_bridge_from_dict nfc d = Inr x"
  then show "m6_bridge_post_init nfc x = Inr ()"
    unfolding m6_bridge_from_dict_def by (elim bnd_InrE construct_checked)
next
  fix x assume ok: "m6_bridge_post_init nfc x = Inr ()"
  have eta: "\<lparr>m6_schema_version = m6_schema_version x, m6_task_id = m6_task_id x, m6_run_id = m6_run_id x,
       m6_owner = m6_owner x, m6_role = m6_role x, m6_fence = m6_fence x,
       m6_repository_id = m6_repository_id x, m6_legacy_intent_digest = m6_legacy_intent_digest x,
       m6_task_packet_digest = m6_task_packet_digest x,
       m6_run_manifest_digest = m6_run_manifest_digest x,
       m6_workspace_snapshot_digest = m6_workspace_snapshot_digest x,
       m6_workspace_result_digest = m6_workspace_result_digest x,
       m6_binding_input_head_sha = m6_binding_input_head_sha x,
       m6_binding_exact_head_sha = m6_binding_exact_head_sha x,
       m6_subject_exact_head_sha = m6_subject_exact_head_sha x,
       m6_envelope_digest = m6_envelope_digest x, m6_binding_digest = m6_binding_digest x,
       m6_validation_inputs_digest = m6_validation_inputs_digest x,
       m6_subject_digest = m6_subject_digest x, m6_evidence_set_digest = m6_evidence_set_digest x,
       m6_verdict_digest = m6_verdict_digest x, m6_verdict = m6_verdict x\<rparr> = x"
    by (cases x) simp
  have "instance_of (pass_verdict_post_init) (m6_verdict x)"
    using ok unfolding m6_bridge_post_init_def by (simp only: res_simps)
  then have nested0: "pass_verdict_from_dict (pass_verdict_to_dict (m6_verdict x)) = Inr (m6_verdict x)"
    unfolding instance_of_def by (rule pass_verdict.parse_render)
  show "m6_bridge_from_dict nfc (m6_bridge_to_dict x) = Inr x"
    using ok [unfolded m6_bridge_post_init_def]
    apply (simp only: res_simps hexpat_len.simps, elim conjE)
    apply (simp (no_asm) add: m6_bridge_from_dict_def m6_bridge_to_dict_def m6_bridge_fields_def eta ok
        res_simps py_simps nested0 cong: literal_congs)
    apply ((intro conjI)?; (assumption | simp))
    done
qed

definition m6_digest :: "m6_bridge \<Rightarrow> string" where
  "m6_digest x = domain_digest ''adaptive-factory.m7-m6-semantic-bridge/v1'' (m6_bridge_to_dict x)"

section \<open>Shadow task evidence\<close>

record shadow_evidence =
  se_schema_version :: int
  se_m4 :: m4_bridge
  se_m5 :: m5_bridge
  se_m6 :: m6_bridge

definition shadow_evidence_fields :: "string list" where
  "shadow_evidence_fields =
     [''schema_version'', ''m4'', ''m5'', ''m6'']"

definition shadow_evidence_post_init :: "(string \<Rightarrow> string) \<Rightarrow> shadow_evidence \<Rightarrow> unit res" where
  "shadow_evidence_post_init nfc x = checks
     [
      void (sh_version (PInt (se_schema_version x)) ''shadow_task_evidence''),
      ensure (instance_of (m4_bridge_post_init nfc) (se_m4 x)) (ContractError ''invalid_contract'' ''m4''),
      ensure (instance_of (m5_bridge_post_init nfc) (se_m5 x)) (ContractError ''invalid_contract'' ''m5''),
      ensure (instance_of (m6_bridge_post_init nfc) (se_m6 x)) (ContractError ''invalid_contract'' ''m6''),
      ensure (m4_task_id (se_m4 x) = m5_task_id (se_m5 x) \<and> m5_task_id (se_m5 x) = m6_task_id (se_m6 x)) (ContractError ''stale_binding'' ''task_id''),
      ensure (m4_run_id (se_m4 x) = m5_run_id (se_m5 x) \<and> m5_run_id (se_m5 x) = m6_run_id (se_m6 x)) (ContractError ''stale_binding'' ''run_id''),
      ensure (m4_owner (se_m4 x) = m5_owner (se_m5 x) \<and> m5_owner (se_m5 x) = m6_owner (se_m6 x)) (ContractError ''stale_binding'' ''owner''),
      ensure (m4_role (se_m4 x) = m5_role (se_m5 x) \<and> m5_role (se_m5 x) = m6_role (se_m6 x)) (ContractError ''stale_binding'' ''role''),
      ensure (m4_fence (se_m4 x) = m5_fence (se_m5 x) \<and> m5_fence (se_m5 x) = m6_fence (se_m6 x)) (ContractError ''stale_binding'' ''fence''),
      ensure (m4_intent_digest (se_m4 x) = m4_lease_packet_digest (se_m4 x) \<and>
         m4_lease_packet_digest (se_m4 x) = m5_legacy_intent_digest (se_m5 x) \<and>
         m5_legacy_intent_digest (se_m5 x) = m6_legacy_intent_digest (se_m6 x)) (ContractError ''stale_binding'' ''legacy_intent_digest''),
      ensure (m5_repository_id (se_m5 x) = m6_repository_id (se_m6 x)) (ContractError ''stale_binding'' ''repository_id''),
      ensure (m5_task_packet_digest (se_m5 x) = m6_task_packet_digest (se_m6 x)) (ContractError ''stale_binding'' ''task_packet_digest''),
      ensure (m5_run_manifest_digest (se_m5 x) = m6_run_manifest_digest (se_m6 x)) (ContractError ''stale_binding'' ''run_manifest_digest''),
      ensure (m5_workspace_snapshot_digest (se_m5 x) = m6_workspace_snapshot_digest (se_m6 x)) (ContractError ''stale_binding'' ''workspace_snapshot_digest''),
      ensure (m5_workspace_result_digest (se_m5 x) = m6_workspace_result_digest (se_m6 x)) (ContractError ''stale_binding'' ''workspace_result_digest''),
      ensure (m6_binding_input_head_sha (se_m6 x) = m5_authority_exact_head_sha (se_m5 x)) (ContractError ''stale_binding'' ''binding_input_head_sha''),
      ensure (m5_result_exact_head_sha (se_m5 x) = m6_binding_exact_head_sha (se_m6 x) \<and>
         m6_binding_exact_head_sha (se_m6 x) = m6_subject_exact_head_sha (se_m6 x)) (ContractError ''stale_binding'' ''subject_exact_head_sha'')]"

definition shadow_evidence_to_dict :: "shadow_evidence \<Rightarrow> pyval" where
  "shadow_evidence_to_dict x = py_dict
     [(''schema_version'', PInt (se_schema_version x)), (''m4'', m4_bridge_to_dict (se_m4 x)),
      (''m5'', m5_bridge_to_dict (se_m5 x)), (''m6'', m6_bridge_to_dict (se_m6 x))]"

definition shadow_evidence_from_dict :: "(string \<Rightarrow> string) \<Rightarrow> pyval \<Rightarrow> shadow_evidence res" where
  "shadow_evidence_from_dict nfc data =
     bnd (sh_object data ''shadow_task_evidence'') (\<lambda>_.
     bnd (closed data shadow_evidence_fields) (\<lambda>_.
     bnd (field data ''schema_version'' (\<lambda>v. sh_version v ''shadow_task_evidence'')) (\<lambda>version.
     bnd (field data ''m4'' (m4_bridge_from_dict nfc)) (\<lambda>m4.
     bnd (field data ''m5'' (m5_bridge_from_dict nfc)) (\<lambda>m5.
     bnd (field data ''m6'' (m6_bridge_from_dict nfc)) (\<lambda>m6.
     construct (shadow_evidence_post_init nfc)
        \<lparr>se_schema_version = version, se_m4 = m4, se_m5 = m5, se_m6 = m6\<rparr>))))))"

interpretation shadow_evidence: checked_codec "shadow_evidence_from_dict nfc" shadow_evidence_to_dict "shadow_evidence_post_init nfc"
proof
  fix d x assume "shadow_evidence_from_dict nfc d = Inr x"
  then show "shadow_evidence_post_init nfc x = Inr ()"
    unfolding shadow_evidence_from_dict_def by (elim bnd_InrE construct_checked)
next
  fix x assume ok: "shadow_evidence_post_init nfc x = Inr ()"
  have eta: "\<lparr>se_schema_version = se_schema_version x, se_m4 = se_m4 x, se_m5 = se_m5 x, se_m6 = se_m6 x\<rparr> = x"
    by (cases x) simp
  have "instance_of (m4_bridge_post_init nfc) (se_m4 x)"
    using ok unfolding shadow_evidence_post_init_def by (simp only: res_simps)
  then have nested0: "m4_bridge_from_dict nfc (m4_bridge_to_dict (se_m4 x)) = Inr (se_m4 x)"
    unfolding instance_of_def by (rule m4_bridge.parse_render)
  have "instance_of (m5_bridge_post_init nfc) (se_m5 x)"
    using ok unfolding shadow_evidence_post_init_def by (simp only: res_simps)
  then have nested1: "m5_bridge_from_dict nfc (m5_bridge_to_dict (se_m5 x)) = Inr (se_m5 x)"
    unfolding instance_of_def by (rule m5_bridge.parse_render)
  have "instance_of (m6_bridge_post_init nfc) (se_m6 x)"
    using ok unfolding shadow_evidence_post_init_def by (simp only: res_simps)
  then have nested2: "m6_bridge_from_dict nfc (m6_bridge_to_dict (se_m6 x)) = Inr (se_m6 x)"
    unfolding instance_of_def by (rule m6_bridge.parse_render)
  show "shadow_evidence_from_dict nfc (shadow_evidence_to_dict x) = Inr x"
    using ok [unfolded shadow_evidence_post_init_def]
    apply (simp only: res_simps hexpat_len.simps, elim conjE)
    apply (simp (no_asm) add: shadow_evidence_from_dict_def shadow_evidence_to_dict_def shadow_evidence_fields_def eta ok
        res_simps py_simps nested0 nested1 nested2 cong: literal_congs)
    apply ((intro conjI)?; (assumption | simp))
    done
qed

definition evidence_digest :: "shadow_evidence \<Rightarrow> string" where
  "evidence_digest x = domain_digest ''adaptive-factory.m7-shadow-task-evidence/v1'' (shadow_evidence_to_dict x)"

section \<open>The operator handoff\<close>

record operator_handoff =
  oh_schema_version :: int
  oh_subject_digest :: string
  oh_external_capability :: pyval
  oh_recommended_action :: pyval
  oh_instructions :: "pyval list"

definition operator_handoff_fields :: "string list" where
  "operator_handoff_fields =
     [''schema_version'', ''subject_digest'', ''external_capability'', ''recommended_action'',
      ''instructions'']"

definition operator_handoff_post_init :: "operator_handoff \<Rightarrow> unit res" where
  "operator_handoff_post_init x = checks
     [
      void (sh_version (PInt (oh_schema_version x)) ''operator_handoff''),
      void (hex_field (PStr (oh_subject_digest x)) ''subject_digest'' HEX64),
      ensure (py_eq_str (oh_external_capability x) ''absent'') (ContractError ''external_capability_forbidden'' []),
      ensure (py_eq_str (oh_recommended_action x) ''human_review'') (ContractError ''invalid_recommendation'' []),
      ensure (oh_instructions x = map PStr MANUAL_HANDOFF_INSTRUCTIONS) (ContractError ''invalid_instructions'' [])]"

definition operator_handoff_to_dict :: "operator_handoff \<Rightarrow> pyval" where
  "operator_handoff_to_dict x = py_dict
     [(''schema_version'', PInt (oh_schema_version x)), (''subject_digest'', PStr (oh_subject_digest x)),
      (''external_capability'', oh_external_capability x),
      (''recommended_action'', oh_recommended_action x), (''instructions'', PList (oh_instructions x))]"

definition operator_handoff_from_dict :: "pyval \<Rightarrow> operator_handoff res" where
  "operator_handoff_from_dict data =
     bnd (sh_object data ''operator_handoff'') (\<lambda>_.
     bnd (closed data operator_handoff_fields) (\<lambda>_.
     bnd (field data ''instructions'' (\<lambda>v. list_items v (ContractError ''invalid_instructions'' []))) (\<lambda>instructions.
     bnd (field data ''schema_version'' (\<lambda>v. sh_version v ''operator_handoff'')) (\<lambda>version.
     bnd (field data ''subject_digest'' (\<lambda>v. hex_field v ''subject_digest'' HEX64)) (\<lambda>subject.
     bnd (getitem data ''external_capability'') (\<lambda>capability.
     bnd (getitem data ''recommended_action'') (\<lambda>action.
     construct operator_handoff_post_init
        \<lparr>oh_schema_version = version, oh_subject_digest = subject, oh_external_capability = capability,
          oh_recommended_action = action, oh_instructions = instructions\<rparr>)))))))"

interpretation operator_handoff: checked_codec operator_handoff_from_dict operator_handoff_to_dict operator_handoff_post_init
proof
  fix d x assume "operator_handoff_from_dict d = Inr x"
  then show "operator_handoff_post_init x = Inr ()"
    unfolding operator_handoff_from_dict_def by (elim bnd_InrE construct_checked)
next
  fix x assume ok: "operator_handoff_post_init x = Inr ()"
  have eta: "\<lparr>oh_schema_version = oh_schema_version x, oh_subject_digest = oh_subject_digest x,
       oh_external_capability = oh_external_capability x,
       oh_recommended_action = oh_recommended_action x, oh_instructions = oh_instructions x\<rparr> = x"
    by (cases x) simp
  show "operator_handoff_from_dict (operator_handoff_to_dict x) = Inr x"
    using ok [unfolded operator_handoff_post_init_def]
    apply (simp only: res_simps hexpat_len.simps, elim conjE)
    apply (simp (no_asm) add: operator_handoff_from_dict_def operator_handoff_to_dict_def operator_handoff_fields_def eta ok
        res_simps py_simps cong: literal_congs)
    apply ((intro conjI)?; (assumption | simp))
    done
qed

definition handoff_digest :: "operator_handoff \<Rightarrow> string" where
  "handoff_digest x = domain_digest ''adaptive-factory.m7-operator-handoff-proposal/v1'' (operator_handoff_to_dict x)"

section \<open>The ready-for-PR bundle\<close>

definition BUNDLE_STATUS :: string where
  "BUNDLE_STATUS = ''blocked_pending_durable_lookup''"

record pr_bundle =
  bu_schema_version :: int
  bu_status :: pyval
  bu_evidence :: shadow_evidence
  bu_operator_handoff :: operator_handoff
  bu_bundle_digest :: string

definition pr_bundle_fields :: "string list" where
  "pr_bundle_fields = [''schema_version'', ''status'', ''evidence'', ''operator_handoff'', ''bundle_digest'']"

text \<open>The digest over everything but the digest itself: \<open>_unsigned_dict\<close> and \<open>_expected_digest\<close>.\<close>

definition bundle_unsigned :: "int \<Rightarrow> pyval \<Rightarrow> shadow_evidence \<Rightarrow> operator_handoff \<Rightarrow> (string \<times> pyval) list" where
  "bundle_unsigned version status evidence handoff =
     [(''schema_version'', PInt version), (''status'', status), (''evidence'', shadow_evidence_to_dict evidence),
      (''operator_handoff'', operator_handoff_to_dict handoff)]"

definition bundle_digest_of :: "int \<Rightarrow> pyval \<Rightarrow> shadow_evidence \<Rightarrow> operator_handoff \<Rightarrow> string" where
  "bundle_digest_of version status evidence handoff =
     domain_digest ''adaptive-factory.m7-ready-for-pr-bundle/v1'' (py_dict (bundle_unsigned version status evidence handoff))"

definition pr_bundle_post_init :: "(string \<Rightarrow> string) \<Rightarrow> pr_bundle \<Rightarrow> unit res" where
  "pr_bundle_post_init nfc x = checks
     [void (sh_version (PInt (bu_schema_version x)) ''ready_for_pr_bundle''),
      ensure (py_eq_str (bu_status x) BUNDLE_STATUS) (ContractError ''invalid_bundle_status'' []),
      ensure (instance_of (shadow_evidence_post_init nfc) (bu_evidence x)) (ContractError ''invalid_contract'' ''evidence''),
      ensure (instance_of operator_handoff_post_init (bu_operator_handoff x))
        (ContractError ''invalid_contract'' ''operator_handoff''),
      ensure (oh_subject_digest (bu_operator_handoff x) = evidence_digest (bu_evidence x))
        (ContractError ''stale_binding'' ''operator_handoff.subject_digest''),
      void (hex_field (PStr (bu_bundle_digest x)) ''bundle_digest'' HEX64),
      ensure (bu_bundle_digest x =
          bundle_digest_of (bu_schema_version x) (bu_status x) (bu_evidence x) (bu_operator_handoff x))
        (ContractError ''digest_mismatch'' ''bundle_digest'')]"

definition bundle_from_components ::
  "(string \<Rightarrow> string) \<Rightarrow> shadow_evidence \<Rightarrow> operator_handoff \<Rightarrow> pr_bundle res" where
  "bundle_from_components nfc evidence handoff =
     bnd (ensure (instance_of (shadow_evidence_post_init nfc) evidence) (ContractError ''invalid_contract'' ''evidence'')) (\<lambda>_.
     bnd (ensure (instance_of operator_handoff_post_init handoff) (ContractError ''invalid_contract'' ''operator_handoff'')) (\<lambda>_.
     bnd (ensure (oh_subject_digest handoff = evidence_digest evidence)
       (ContractError ''stale_binding'' ''operator_handoff.subject_digest'')) (\<lambda>_.
     construct (pr_bundle_post_init nfc)
       \<lparr>bu_schema_version = 1, bu_status = PStr BUNDLE_STATUS, bu_evidence = evidence,
        bu_operator_handoff = handoff,
        bu_bundle_digest = bundle_digest_of 1 (PStr BUNDLE_STATUS) evidence handoff\<rparr>)))"

definition pr_bundle_from_dict :: "(string \<Rightarrow> string) \<Rightarrow> pyval \<Rightarrow> pr_bundle res" where
  "pr_bundle_from_dict nfc data =
     bnd (sh_object data ''ready_for_pr_bundle'') (\<lambda>_.
     bnd (closed data pr_bundle_fields) (\<lambda>_.
     bnd (field data ''schema_version'' (\<lambda>v. sh_version v ''ready_for_pr_bundle'')) (\<lambda>version.
     bnd (getitem data ''status'') (\<lambda>status.
     bnd (ensure (py_eq_str status BUNDLE_STATUS) (ContractError ''invalid_bundle_status'' [])) (\<lambda>_.
     bnd (field data ''evidence'' (shadow_evidence_from_dict nfc)) (\<lambda>evidence.
     bnd (field data ''operator_handoff'' operator_handoff_from_dict) (\<lambda>handoff.
     bnd (field data ''bundle_digest'' (\<lambda>v. hex_field v ''bundle_digest'' HEX64)) (\<lambda>supplied.
     bnd (ensure (supplied = bundle_digest_of version status evidence handoff)
       (ContractError ''digest_mismatch'' ''bundle_digest'')) (\<lambda>_.
     construct (pr_bundle_post_init nfc)
       \<lparr>bu_schema_version = version, bu_status = status, bu_evidence = evidence,
        bu_operator_handoff = handoff, bu_bundle_digest = supplied\<rparr>)))))))))"

definition pr_bundle_to_dict :: "pr_bundle \<Rightarrow> pyval" where
  "pr_bundle_to_dict x = py_dict
     [(''schema_version'', PInt (bu_schema_version x)), (''status'', bu_status x),
      (''evidence'', shadow_evidence_to_dict (bu_evidence x)),
      (''operator_handoff'', operator_handoff_to_dict (bu_operator_handoff x)),
      (''bundle_digest'', PStr (bu_bundle_digest x))]"

text \<open>\<open>to_dict\<close> is the unsigned dictionary with the digest appended.\<close>

lemma pr_bundle_to_dict_unsigned:
  "pr_bundle_to_dict x = py_dict (bundle_unsigned (bu_schema_version x) (bu_status x) (bu_evidence x)
     (bu_operator_handoff x) @ [(''bundle_digest'', PStr (bu_bundle_digest x))])"
  by (simp add: pr_bundle_to_dict_def bundle_unsigned_def)


interpretation pr_bundle: checked_codec "pr_bundle_from_dict nfc" pr_bundle_to_dict "pr_bundle_post_init nfc"
proof
  fix d x assume "pr_bundle_from_dict nfc d = Inr x"
  then show "pr_bundle_post_init nfc x = Inr ()"
    unfolding pr_bundle_from_dict_def by (elim bnd_InrE construct_checked)
next
  fix x assume ok: "pr_bundle_post_init nfc x = Inr ()"
  have eta: "\<lparr>bu_schema_version = bu_schema_version x, bu_status = bu_status x,
       bu_evidence = bu_evidence x, bu_operator_handoff = bu_operator_handoff x,
       bu_bundle_digest = bu_bundle_digest x\<rparr> = x"
    by (cases x) simp
  have "instance_of (shadow_evidence_post_init nfc) (bu_evidence x)"
    using ok unfolding pr_bundle_post_init_def by (simp only: res_simps)
  then have nested0: "shadow_evidence_from_dict nfc (shadow_evidence_to_dict (bu_evidence x)) = Inr (bu_evidence x)"
    unfolding instance_of_def by (rule shadow_evidence.parse_render)
  have "instance_of (operator_handoff_post_init) (bu_operator_handoff x)"
    using ok unfolding pr_bundle_post_init_def by (simp only: res_simps)
  then have nested1: "operator_handoff_from_dict (operator_handoff_to_dict (bu_operator_handoff x)) = Inr (bu_operator_handoff x)"
    unfolding instance_of_def by (rule operator_handoff.parse_render)
  show "pr_bundle_from_dict nfc (pr_bundle_to_dict x) = Inr x"
    using ok [unfolded pr_bundle_post_init_def]
    apply (simp only: res_simps hexpat_len.simps, elim conjE)
    apply (simp (no_asm) add: pr_bundle_from_dict_def pr_bundle_to_dict_def pr_bundle_fields_def eta ok
        res_simps py_simps nested0 nested1 cong: literal_congs)
    apply ((intro conjI)?; (assumption | simp))
    done
qed

end
