(* ===== verification/ShadowCohort.thy ===== *)
theory ShadowCohort
  imports ShadowContracts
begin

text \<open>
  \<open>shadow_contracts.py\<close>, second half: the cohort key, the outcome of one shadow task and the cohort
  of outcomes under one key.  Field prefixes: \<open>ck_\<close> key, \<open>so_\<close> outcome, \<open>sh_\<close> cohort.
\<close>

definition CHANGE_CLASSES :: "string list" where
  "CHANGE_CLASSES = [''ai'', ''api'', ''bugfix'', ''data'', ''feature'', ''integration'', ''release'', ''security'']"

definition MAX_COHORT_ITEMS :: nat where "MAX_COHORT_ITEMS = 10000"

definition MAX_EVIDENCE_COUNT :: int where "MAX_EVIDENCE_COUNT = 1000000"

definition MAX_REVIEW_SECONDS :: int where "MAX_REVIEW_SECONDS = 604800"


section \<open>The cohort key\<close>

record cohort_key =
  ck_schema_version :: int
  ck_repository_id :: string
  ck_change_class :: pyval
  ck_agent_digest :: string
  ck_validator_digest :: string
  ck_model_digest :: string
  ck_prompt_digest :: string
  ck_policy_digest :: string
  ck_runner_digest :: string
  ck_holdout_digest :: string
  ck_authority_digest :: string

definition cohort_key_fields :: "string list" where
  "cohort_key_fields =
     [''schema_version'', ''repository_id'', ''change_class'', ''agent_digest'', ''validator_digest'',
      ''model_digest'', ''prompt_digest'', ''policy_digest'', ''runner_digest'', ''holdout_digest'',
      ''authority_digest'']"

definition cohort_key_post_init :: "(string \<Rightarrow> string) \<Rightarrow> cohort_key \<Rightarrow> unit res" where
  "cohort_key_post_init nfc x = checks
     [
      void (sh_version (PInt (ck_schema_version x)) ''shadow_cohort_key''),
      void (sh_identifier nfc (PStr (ck_repository_id x)) ''repository_id''),
      sh_member (ck_change_class x) CHANGE_CLASSES (ContractError ''invalid_contract'' ''change_class''),
      void (hex_field (PStr (ck_agent_digest x)) ''agent_digest'' HEX64),
      void (hex_field (PStr (ck_validator_digest x)) ''validator_digest'' HEX64),
      void (hex_field (PStr (ck_model_digest x)) ''model_digest'' HEX64),
      void (hex_field (PStr (ck_prompt_digest x)) ''prompt_digest'' HEX64),
      void (hex_field (PStr (ck_policy_digest x)) ''policy_digest'' HEX64),
      void (hex_field (PStr (ck_runner_digest x)) ''runner_digest'' HEX64),
      void (hex_field (PStr (ck_holdout_digest x)) ''holdout_digest'' HEX64),
      void (hex_field (PStr (ck_authority_digest x)) ''authority_digest'' HEX64)]"

definition cohort_key_to_dict :: "cohort_key \<Rightarrow> pyval" where
  "cohort_key_to_dict x = py_dict
     [(''schema_version'', PInt (ck_schema_version x)), (''repository_id'', PStr (ck_repository_id x)),
      (''change_class'', ck_change_class x), (''agent_digest'', PStr (ck_agent_digest x)),
      (''validator_digest'', PStr (ck_validator_digest x)), (''model_digest'', PStr (ck_model_digest x)),
      (''prompt_digest'', PStr (ck_prompt_digest x)), (''policy_digest'', PStr (ck_policy_digest x)),
      (''runner_digest'', PStr (ck_runner_digest x)), (''holdout_digest'', PStr (ck_holdout_digest x)),
      (''authority_digest'', PStr (ck_authority_digest x))]"

definition cohort_key_from_dict :: "(string \<Rightarrow> string) \<Rightarrow> pyval \<Rightarrow> cohort_key res" where
  "cohort_key_from_dict nfc data =
     bnd (sh_object data ''shadow_cohort_key'') (\<lambda>_.
     bnd (closed data cohort_key_fields) (\<lambda>_.
     bnd (field data ''schema_version'' (\<lambda>v. sh_version v ''shadow_cohort_key'')) (\<lambda>version.
     bnd (field data ''repository_id'' (\<lambda>v. sh_identifier nfc v ''repository_id'')) (\<lambda>repository.
     bnd (getitem data ''change_class'') (\<lambda>change_class.
     bnd (field data ''agent_digest'' (\<lambda>v. hex_field v ''agent_digest'' HEX64)) (\<lambda>v_agent_digest.
     bnd (field data ''validator_digest'' (\<lambda>v. hex_field v ''validator_digest'' HEX64)) (\<lambda>v_validator_digest.
     bnd (field data ''model_digest'' (\<lambda>v. hex_field v ''model_digest'' HEX64)) (\<lambda>v_model_digest.
     bnd (field data ''prompt_digest'' (\<lambda>v. hex_field v ''prompt_digest'' HEX64)) (\<lambda>v_prompt_digest.
     bnd (field data ''policy_digest'' (\<lambda>v. hex_field v ''policy_digest'' HEX64)) (\<lambda>v_policy_digest.
     bnd (field data ''runner_digest'' (\<lambda>v. hex_field v ''runner_digest'' HEX64)) (\<lambda>v_runner_digest.
     bnd (field data ''holdout_digest'' (\<lambda>v. hex_field v ''holdout_digest'' HEX64)) (\<lambda>v_holdout_digest.
     bnd (field data ''authority_digest'' (\<lambda>v. hex_field v ''authority_digest'' HEX64)) (\<lambda>v_authority_digest.
     construct (cohort_key_post_init nfc)
        \<lparr>ck_schema_version = version, ck_repository_id = repository, ck_change_class = change_class,
          ck_agent_digest = v_agent_digest, ck_validator_digest = v_validator_digest,
          ck_model_digest = v_model_digest, ck_prompt_digest = v_prompt_digest,
          ck_policy_digest = v_policy_digest, ck_runner_digest = v_runner_digest,
          ck_holdout_digest = v_holdout_digest, ck_authority_digest = v_authority_digest\<rparr>)))))))))))))"

interpretation cohort_key: checked_codec "cohort_key_from_dict nfc" cohort_key_to_dict "cohort_key_post_init nfc"
proof
  fix d x assume "cohort_key_from_dict nfc d = Inr x"
  then show "cohort_key_post_init nfc x = Inr ()"
    unfolding cohort_key_from_dict_def by (elim bnd_InrE construct_checked)
next
  fix x assume ok: "cohort_key_post_init nfc x = Inr ()"
  have eta: "\<lparr>ck_schema_version = ck_schema_version x, ck_repository_id = ck_repository_id x,
       ck_change_class = ck_change_class x, ck_agent_digest = ck_agent_digest x,
       ck_validator_digest = ck_validator_digest x, ck_model_digest = ck_model_digest x,
       ck_prompt_digest = ck_prompt_digest x, ck_policy_digest = ck_policy_digest x,
       ck_runner_digest = ck_runner_digest x, ck_holdout_digest = ck_holdout_digest x,
       ck_authority_digest = ck_authority_digest x\<rparr> = x"
    by (cases x) simp
  show "cohort_key_from_dict nfc (cohort_key_to_dict x) = Inr x"
    using ok [unfolded cohort_key_post_init_def]
    apply (simp only: res_simps hexpat_len.simps, elim conjE)
    apply (simp (no_asm) add: cohort_key_from_dict_def cohort_key_to_dict_def cohort_key_fields_def eta ok
        res_simps py_simps cong: literal_congs)
    apply ((intro conjI)?; (assumption | simp))
    done
qed

definition cohort_key_digest :: "cohort_key \<Rightarrow> string" where
  "cohort_key_digest x = domain_digest ''adaptive-factory.m7-shadow-cohort-key/v1'' (cohort_key_to_dict x)"

section \<open>Outcomes\<close>

record shadow_outcome =
  so_schema_version :: int
  so_outcome_id :: string
  so_bundle_digest :: string
  so_cohort_key_digest :: string
  so_human_evidence_digest :: string
  so_human_decision :: pyval
  so_first_pass_accepted :: bool
  so_rework_required :: bool
  so_validator_false_negative :: bool
  so_validator_false_positive_or_disagreement :: bool
  so_repair_cycles :: int
  so_cost_within_budget :: bool
  so_latency_within_slo :: bool
  so_deadline_met :: bool
  so_token_budget_met :: bool
  so_human_review_seconds :: int
  so_critical_high_miss_count :: int
  so_security_miss_count :: int
  so_unauthorized_effect_count :: int
  so_rollback_count :: int
  so_escaped_defect_count :: int
  so_duplicate_dispatch_count :: int
  so_unaccounted_call_count :: int
  so_injection_attempt_count :: int
  so_injection_contained_count :: int

definition shadow_outcome_fields :: "string list" where
  "shadow_outcome_fields =
     [''schema_version'', ''outcome_id'', ''bundle_digest'', ''cohort_key_digest'',
      ''human_evidence_digest'', ''human_decision'', ''first_pass_accepted'', ''rework_required'',
      ''validator_false_negative'', ''validator_false_positive_or_disagreement'', ''repair_cycles'',
      ''cost_within_budget'', ''latency_within_slo'', ''deadline_met'', ''token_budget_met'',
      ''human_review_seconds'', ''critical_high_miss_count'', ''security_miss_count'',
      ''unauthorized_effect_count'', ''rollback_count'', ''escaped_defect_count'',
      ''duplicate_dispatch_count'', ''unaccounted_call_count'', ''injection_attempt_count'',
      ''injection_contained_count'']"

definition shadow_outcome_post_init :: "(string \<Rightarrow> string) \<Rightarrow> shadow_outcome \<Rightarrow> unit res" where
  "shadow_outcome_post_init nfc x = checks
     [
      void (sh_version (PInt (so_schema_version x)) ''shadow_outcome''),
      void (sh_identifier nfc (PStr (so_outcome_id x)) ''outcome_id''),
      void (hex_field (PStr (so_bundle_digest x)) ''bundle_digest'' HEX64),
      void (hex_field (PStr (so_cohort_key_digest x)) ''cohort_key_digest'' HEX64),
      void (hex_field (PStr (so_human_evidence_digest x)) ''human_evidence_digest'' HEX64),
      sh_member (so_human_decision x) [''merged_accepted'', ''not_merged''] (ContractError ''invalid_contract'' ''human_decision''),
      void (sh_boolean (PBool (so_first_pass_accepted x)) ''first_pass_accepted''),
      void (sh_boolean (PBool (so_rework_required x)) ''rework_required''),
      void (sh_boolean (PBool (so_validator_false_negative x)) ''validator_false_negative''),
      void (sh_boolean (PBool (so_validator_false_positive_or_disagreement x)) ''validator_false_positive_or_disagreement''),
      void (sh_boolean (PBool (so_cost_within_budget x)) ''cost_within_budget''),
      void (sh_boolean (PBool (so_latency_within_slo x)) ''latency_within_slo''),
      void (sh_boolean (PBool (so_deadline_met x)) ''deadline_met''),
      void (sh_boolean (PBool (so_token_budget_met x)) ''token_budget_met''),
      void (sh_integer (PInt (so_repair_cycles x)) ''repair_cycles'' 0 3),
      void (sh_integer (PInt (so_human_review_seconds x)) ''human_review_seconds'' 1 MAX_REVIEW_SECONDS),
      void (sh_integer (PInt (so_critical_high_miss_count x)) ''critical_high_miss_count'' 0 MAX_EVIDENCE_COUNT),
      void (sh_integer (PInt (so_security_miss_count x)) ''security_miss_count'' 0 MAX_EVIDENCE_COUNT),
      void (sh_integer (PInt (so_unauthorized_effect_count x)) ''unauthorized_effect_count'' 0 MAX_EVIDENCE_COUNT),
      void (sh_integer (PInt (so_rollback_count x)) ''rollback_count'' 0 MAX_EVIDENCE_COUNT),
      void (sh_integer (PInt (so_escaped_defect_count x)) ''escaped_defect_count'' 0 MAX_EVIDENCE_COUNT),
      void (sh_integer (PInt (so_duplicate_dispatch_count x)) ''duplicate_dispatch_count'' 0 MAX_EVIDENCE_COUNT),
      void (sh_integer (PInt (so_unaccounted_call_count x)) ''unaccounted_call_count'' 0 MAX_EVIDENCE_COUNT),
      void (sh_integer (PInt (so_injection_attempt_count x)) ''injection_attempt_count'' 0 MAX_EVIDENCE_COUNT),
      void (sh_integer (PInt (so_injection_contained_count x)) ''injection_contained_count'' 0 MAX_EVIDENCE_COUNT),
      ensure (\<not> (so_first_pass_accepted x \<and> so_rework_required x)) (ContractError ''invalid_contract'' ''first_pass_rework''),
      ensure (\<not> (so_first_pass_accepted x \<and> \<not> py_eq_str (so_human_decision x) ''merged_accepted''))
        (ContractError ''invalid_contract'' ''first_pass_human_decision''),
      ensure (\<not> so_injection_attempt_count x < so_injection_contained_count x) (ContractError ''invalid_contract'' ''injection_contained_count'')]"

definition shadow_outcome_to_dict :: "shadow_outcome \<Rightarrow> pyval" where
  "shadow_outcome_to_dict x = py_dict
     [(''schema_version'', PInt (so_schema_version x)), (''outcome_id'', PStr (so_outcome_id x)),
      (''bundle_digest'', PStr (so_bundle_digest x)),
      (''cohort_key_digest'', PStr (so_cohort_key_digest x)),
      (''human_evidence_digest'', PStr (so_human_evidence_digest x)),
      (''human_decision'', so_human_decision x),
      (''first_pass_accepted'', PBool (so_first_pass_accepted x)),
      (''rework_required'', PBool (so_rework_required x)),
      (''validator_false_negative'', PBool (so_validator_false_negative x)),
      (''validator_false_positive_or_disagreement'', PBool (so_validator_false_positive_or_disagreement x)),
      (''repair_cycles'', PInt (so_repair_cycles x)),
      (''cost_within_budget'', PBool (so_cost_within_budget x)),
      (''latency_within_slo'', PBool (so_latency_within_slo x)),
      (''deadline_met'', PBool (so_deadline_met x)), (''token_budget_met'', PBool (so_token_budget_met x)),
      (''human_review_seconds'', PInt (so_human_review_seconds x)),
      (''critical_high_miss_count'', PInt (so_critical_high_miss_count x)),
      (''security_miss_count'', PInt (so_security_miss_count x)),
      (''unauthorized_effect_count'', PInt (so_unauthorized_effect_count x)),
      (''rollback_count'', PInt (so_rollback_count x)),
      (''escaped_defect_count'', PInt (so_escaped_defect_count x)),
      (''duplicate_dispatch_count'', PInt (so_duplicate_dispatch_count x)),
      (''unaccounted_call_count'', PInt (so_unaccounted_call_count x)),
      (''injection_attempt_count'', PInt (so_injection_attempt_count x)),
      (''injection_contained_count'', PInt (so_injection_contained_count x))]"

definition shadow_outcome_from_dict :: "(string \<Rightarrow> string) \<Rightarrow> pyval \<Rightarrow> shadow_outcome res" where
  "shadow_outcome_from_dict nfc data =
     bnd (sh_object data ''shadow_outcome'') (\<lambda>_.
     bnd (closed data shadow_outcome_fields) (\<lambda>_.
     bnd (field data ''schema_version'' (\<lambda>v. sh_version v ''shadow_outcome'')) (\<lambda>version.
     bnd (field data ''outcome_id'' (\<lambda>v. sh_identifier nfc v ''outcome_id'')) (\<lambda>v_outcome_id.
     bnd (field data ''bundle_digest'' (\<lambda>v. hex_field v ''bundle_digest'' HEX64)) (\<lambda>v_bundle_digest.
     bnd (field data ''cohort_key_digest'' (\<lambda>v. hex_field v ''cohort_key_digest'' HEX64)) (\<lambda>v_cohort_key_digest.
     bnd (field data ''human_evidence_digest'' (\<lambda>v. hex_field v ''human_evidence_digest'' HEX64)) (\<lambda>v_human_evidence_digest.
     bnd (getitem data ''human_decision'') (\<lambda>v_human_decision.
     bnd (field data ''first_pass_accepted'' (\<lambda>v. sh_boolean v ''first_pass_accepted'')) (\<lambda>v_first_pass_accepted.
     bnd (field data ''rework_required'' (\<lambda>v. sh_boolean v ''rework_required'')) (\<lambda>v_rework_required.
     bnd (field data ''validator_false_negative'' (\<lambda>v. sh_boolean v ''validator_false_negative'')) (\<lambda>v_validator_false_negative.
     bnd (field data ''validator_false_positive_or_disagreement'' (\<lambda>v. sh_boolean v ''validator_false_positive_or_disagreement'')) (\<lambda>v_validator_false_positive_or_disagreement.
     bnd (field data ''repair_cycles'' (\<lambda>v. sh_integer v ''repair_cycles'' 0 3)) (\<lambda>v_repair_cycles.
     bnd (field data ''cost_within_budget'' (\<lambda>v. sh_boolean v ''cost_within_budget'')) (\<lambda>v_cost_within_budget.
     bnd (field data ''latency_within_slo'' (\<lambda>v. sh_boolean v ''latency_within_slo'')) (\<lambda>v_latency_within_slo.
     bnd (field data ''deadline_met'' (\<lambda>v. sh_boolean v ''deadline_met'')) (\<lambda>v_deadline_met.
     bnd (field data ''token_budget_met'' (\<lambda>v. sh_boolean v ''token_budget_met'')) (\<lambda>v_token_budget_met.
     bnd (field data ''human_review_seconds'' (\<lambda>v. sh_integer v ''human_review_seconds'' 1 MAX_REVIEW_SECONDS)) (\<lambda>v_human_review_seconds.
     bnd (field data ''critical_high_miss_count'' (\<lambda>v. sh_integer v ''critical_high_miss_count'' 0 MAX_EVIDENCE_COUNT)) (\<lambda>v_critical_high_miss_count.
     bnd (field data ''security_miss_count'' (\<lambda>v. sh_integer v ''security_miss_count'' 0 MAX_EVIDENCE_COUNT)) (\<lambda>v_security_miss_count.
     bnd (field data ''unauthorized_effect_count'' (\<lambda>v. sh_integer v ''unauthorized_effect_count'' 0 MAX_EVIDENCE_COUNT)) (\<lambda>v_unauthorized_effect_count.
     bnd (field data ''rollback_count'' (\<lambda>v. sh_integer v ''rollback_count'' 0 MAX_EVIDENCE_COUNT)) (\<lambda>v_rollback_count.
     bnd (field data ''escaped_defect_count'' (\<lambda>v. sh_integer v ''escaped_defect_count'' 0 MAX_EVIDENCE_COUNT)) (\<lambda>v_escaped_defect_count.
     bnd (field data ''duplicate_dispatch_count'' (\<lambda>v. sh_integer v ''duplicate_dispatch_count'' 0 MAX_EVIDENCE_COUNT)) (\<lambda>v_duplicate_dispatch_count.
     bnd (field data ''unaccounted_call_count'' (\<lambda>v. sh_integer v ''unaccounted_call_count'' 0 MAX_EVIDENCE_COUNT)) (\<lambda>v_unaccounted_call_count.
     bnd (field data ''injection_attempt_count'' (\<lambda>v. sh_integer v ''injection_attempt_count'' 0 MAX_EVIDENCE_COUNT)) (\<lambda>v_injection_attempt_count.
     bnd (field data ''injection_contained_count'' (\<lambda>v. sh_integer v ''injection_contained_count'' 0 MAX_EVIDENCE_COUNT)) (\<lambda>v_injection_contained_count.
     construct (shadow_outcome_post_init nfc)
        \<lparr>so_schema_version = version, so_outcome_id = v_outcome_id, so_bundle_digest = v_bundle_digest,
          so_cohort_key_digest = v_cohort_key_digest, so_human_evidence_digest = v_human_evidence_digest,
          so_human_decision = v_human_decision, so_first_pass_accepted = v_first_pass_accepted,
          so_rework_required = v_rework_required, so_validator_false_negative = v_validator_false_negative,
          so_validator_false_positive_or_disagreement = v_validator_false_positive_or_disagreement,
          so_repair_cycles = v_repair_cycles, so_cost_within_budget = v_cost_within_budget,
          so_latency_within_slo = v_latency_within_slo, so_deadline_met = v_deadline_met,
          so_token_budget_met = v_token_budget_met, so_human_review_seconds = v_human_review_seconds,
          so_critical_high_miss_count = v_critical_high_miss_count,
          so_security_miss_count = v_security_miss_count,
          so_unauthorized_effect_count = v_unauthorized_effect_count, so_rollback_count = v_rollback_count,
          so_escaped_defect_count = v_escaped_defect_count,
          so_duplicate_dispatch_count = v_duplicate_dispatch_count,
          so_unaccounted_call_count = v_unaccounted_call_count,
          so_injection_attempt_count = v_injection_attempt_count,
          so_injection_contained_count = v_injection_contained_count\<rparr>)))))))))))))))))))))))))))"

interpretation shadow_outcome: checked_codec "shadow_outcome_from_dict nfc" shadow_outcome_to_dict "shadow_outcome_post_init nfc"
proof
  fix d x assume "shadow_outcome_from_dict nfc d = Inr x"
  then show "shadow_outcome_post_init nfc x = Inr ()"
    unfolding shadow_outcome_from_dict_def by (elim bnd_InrE construct_checked)
next
  fix x assume ok: "shadow_outcome_post_init nfc x = Inr ()"
  have eta: "\<lparr>so_schema_version = so_schema_version x, so_outcome_id = so_outcome_id x,
       so_bundle_digest = so_bundle_digest x, so_cohort_key_digest = so_cohort_key_digest x,
       so_human_evidence_digest = so_human_evidence_digest x,
       so_human_decision = so_human_decision x, so_first_pass_accepted = so_first_pass_accepted x,
       so_rework_required = so_rework_required x,
       so_validator_false_negative = so_validator_false_negative x,
       so_validator_false_positive_or_disagreement = so_validator_false_positive_or_disagreement x,
       so_repair_cycles = so_repair_cycles x, so_cost_within_budget = so_cost_within_budget x,
       so_latency_within_slo = so_latency_within_slo x, so_deadline_met = so_deadline_met x,
       so_token_budget_met = so_token_budget_met x,
       so_human_review_seconds = so_human_review_seconds x,
       so_critical_high_miss_count = so_critical_high_miss_count x,
       so_security_miss_count = so_security_miss_count x,
       so_unauthorized_effect_count = so_unauthorized_effect_count x,
       so_rollback_count = so_rollback_count x,
       so_escaped_defect_count = so_escaped_defect_count x,
       so_duplicate_dispatch_count = so_duplicate_dispatch_count x,
       so_unaccounted_call_count = so_unaccounted_call_count x,
       so_injection_attempt_count = so_injection_attempt_count x,
       so_injection_contained_count = so_injection_contained_count x\<rparr> = x"
    by (cases x) simp
  show "shadow_outcome_from_dict nfc (shadow_outcome_to_dict x) = Inr x"
    using ok [unfolded shadow_outcome_post_init_def]
    apply (simp only: res_simps hexpat_len.simps, elim conjE)
    apply (simp (no_asm) add: shadow_outcome_from_dict_def shadow_outcome_to_dict_def shadow_outcome_fields_def eta ok
        res_simps py_simps cong: literal_congs)
    apply ((intro conjI)?; (assumption | simp))
    done
qed

definition outcome_digest :: "shadow_outcome \<Rightarrow> string" where
  "outcome_digest x = domain_digest ''adaptive-factory.m7-shadow-outcome/v1'' (shadow_outcome_to_dict x)"

section \<open>Cohorts\<close>

record shadow_cohort =
  sh_schema_version :: int
  sh_cohort_id :: string
  sh_key :: cohort_key
  sh_observation_days :: int
  sh_release_cycle_complete :: bool
  sh_baseline_review_seconds :: "int list"
  sh_outcomes :: "shadow_outcome list"

definition shadow_cohort_fields :: "string list" where
  "shadow_cohort_fields =
     [''schema_version'', ''cohort_id'', ''key'', ''observation_days'', ''release_cycle_complete'',
      ''baseline_review_seconds'', ''outcomes'']"

definition shadow_cohort_post_init :: "(string \<Rightarrow> string) \<Rightarrow> shadow_cohort \<Rightarrow> unit res" where
  "shadow_cohort_post_init nfc x = checks
     [
      void (sh_version (PInt (sh_schema_version x)) ''shadow_cohort''),
      void (sh_identifier nfc (PStr (sh_cohort_id x)) ''cohort_id''),
      ensure (instance_of (cohort_key_post_init nfc) (sh_key x)) (ContractError ''invalid_contract'' ''key''),
      void (sh_integer (PInt (sh_observation_days x)) ''observation_days'' 0 3650),
      void (sh_boolean (PBool (sh_release_cycle_complete x)) ''release_cycle_complete''),
      ensure (length (sh_baseline_review_seconds x) \<le> MAX_COHORT_ITEMS) (ContractError ''invalid_contract'' ''baseline_review_seconds''),
      checks (map (\<lambda>v. void (sh_integer (PInt v) ''baseline_review_seconds'' 1 MAX_REVIEW_SECONDS)) (sh_baseline_review_seconds x)),
      ensure (sh_baseline_review_seconds x = sort (sh_baseline_review_seconds x)) (ContractError ''invalid_contract'' ''baseline_order''),
      ensure (sh_outcomes x \<noteq> []) (ContractError ''insufficient_sample'' []),
      ensure (length (sh_outcomes x) \<le> MAX_COHORT_ITEMS) (ContractError ''invalid_contract'' ''cohort_size''),
      ensure (list_all (instance_of (shadow_outcome_post_init nfc)) (sh_outcomes x)) (ContractError ''invalid_contract'' ''outcomes''),
      ensure (map so_outcome_id (sh_outcomes x) = sort (map so_outcome_id (sh_outcomes x))) (ContractError ''invalid_contract'' ''outcome_order''),
      ensure (distinct (map so_outcome_id (sh_outcomes x)) \<and> distinct (map so_bundle_digest (sh_outcomes x))) (ContractError ''replay'' []),
      ensure (list_all (\<lambda>o'. so_cohort_key_digest o' = cohort_key_digest (sh_key x)) (sh_outcomes x)) (ContractError ''cohort_mismatch'' [])]"

definition shadow_cohort_to_dict :: "shadow_cohort \<Rightarrow> pyval" where
  "shadow_cohort_to_dict x = py_dict
     [(''schema_version'', PInt (sh_schema_version x)), (''cohort_id'', PStr (sh_cohort_id x)),
      (''key'', cohort_key_to_dict (sh_key x)), (''observation_days'', PInt (sh_observation_days x)),
      (''release_cycle_complete'', PBool (sh_release_cycle_complete x)),
      (''baseline_review_seconds'', PList (map PInt (sh_baseline_review_seconds x))),
      (''outcomes'', PList (map shadow_outcome_to_dict (sh_outcomes x)))]"

definition shadow_cohort_from_dict :: "(string \<Rightarrow> string) \<Rightarrow> pyval \<Rightarrow> shadow_cohort res" where
  "shadow_cohort_from_dict nfc data =
     bnd (sh_object data ''shadow_cohort'') (\<lambda>_.
     bnd (closed data shadow_cohort_fields) (\<lambda>_.
     bnd (getitem data ''baseline_review_seconds'') (\<lambda>baseline_value.
     bnd (getitem data ''outcomes'') (\<lambda>outcome_value.
     bnd (list_items baseline_value (ContractError ''invalid_contract'' ''baseline_review_seconds'')) (\<lambda>baseline.
     bnd (ensure (length baseline \<le> MAX_COHORT_ITEMS) (ContractError ''invalid_contract'' ''baseline_review_seconds'')) (\<lambda>_.
     bnd (list_items outcome_value (ContractError ''invalid_contract'' ''outcomes'')) (\<lambda>outcomes.
     bnd (ensure (outcomes \<noteq> []) (ContractError ''insufficient_sample'' [])) (\<lambda>_.
     bnd (ensure (length outcomes \<le> MAX_COHORT_ITEMS) (ContractError ''invalid_contract'' ''cohort_size'')) (\<lambda>_.
     bnd (field data ''schema_version'' (\<lambda>v. sh_version v ''shadow_cohort'')) (\<lambda>version.
     bnd (field data ''cohort_id'' (\<lambda>v. sh_identifier nfc v ''cohort_id'')) (\<lambda>v_cohort_id.
     bnd (field data ''key'' (cohort_key_from_dict nfc)) (\<lambda>v_key.
     bnd (field data ''observation_days'' (\<lambda>v. sh_integer v ''observation_days'' 0 3650)) (\<lambda>v_observation_days.
     bnd (field data ''release_cycle_complete'' (\<lambda>v. sh_boolean v ''release_cycle_complete'')) (\<lambda>v_release.
     bnd (map_res (\<lambda>v. sh_integer v ''baseline_review_seconds'' 1 MAX_REVIEW_SECONDS) baseline) (\<lambda>v_baseline.
     bnd (map_res (shadow_outcome_from_dict nfc) outcomes) (\<lambda>v_outcomes.
     construct (shadow_cohort_post_init nfc)
        \<lparr>sh_schema_version = version, sh_cohort_id = v_cohort_id, sh_key = v_key,
          sh_observation_days = v_observation_days, sh_release_cycle_complete = v_release,
          sh_baseline_review_seconds = v_baseline, sh_outcomes = v_outcomes\<rparr>))))))))))))))))"

interpretation shadow_cohort: checked_codec "shadow_cohort_from_dict nfc" shadow_cohort_to_dict "shadow_cohort_post_init nfc"
proof
  fix d x assume "shadow_cohort_from_dict nfc d = Inr x"
  then show "shadow_cohort_post_init nfc x = Inr ()"
    unfolding shadow_cohort_from_dict_def by (elim bnd_InrE construct_checked)
next
  fix x assume ok: "shadow_cohort_post_init nfc x = Inr ()"
  have eta: "\<lparr>sh_schema_version = sh_schema_version x, sh_cohort_id = sh_cohort_id x, sh_key = sh_key x,
       sh_observation_days = sh_observation_days x,
       sh_release_cycle_complete = sh_release_cycle_complete x,
       sh_baseline_review_seconds = sh_baseline_review_seconds x, sh_outcomes = sh_outcomes x\<rparr> = x"
    by (cases x) simp
  have "instance_of (cohort_key_post_init nfc) (sh_key x)"
    using ok unfolding shadow_cohort_post_init_def by (simp only: res_simps)
  then have nested0: "cohort_key_from_dict nfc (cohort_key_to_dict (sh_key x)) = Inr (sh_key x)"
    unfolding instance_of_def by (rule cohort_key.parse_render)
  have "list_all (instance_of (shadow_outcome_post_init nfc)) (sh_outcomes x)"
    using ok unfolding shadow_cohort_post_init_def by (simp only: res_simps)
  then have nested1: "map_res (shadow_outcome_from_dict nfc) (map shadow_outcome_to_dict (sh_outcomes x)) = Inr (sh_outcomes x)"
    by (intro shadow_outcome.map_parse_render) (simp add: list_all_iff instance_of_def)
  show "shadow_cohort_from_dict nfc (shadow_cohort_to_dict x) = Inr x"
    using ok [unfolded shadow_cohort_post_init_def]
    apply (simp only: res_simps hexpat_len.simps, elim conjE)
    apply (simp (no_asm) add: shadow_cohort_from_dict_def shadow_cohort_to_dict_def shadow_cohort_fields_def eta ok
        res_simps py_simps nested0 nested1 cong: literal_congs)
    apply ((intro conjI)?; (assumption | simp))
    done
qed

definition cohort_digest :: "shadow_cohort \<Rightarrow> string" where
  "cohort_digest x = domain_digest ''adaptive-factory.m7-shadow-cohort/v1'' (shadow_cohort_to_dict x)"

end
