(* ===== verification/AutonomyBridge.thy ===== *)
theory AutonomyBridge
  imports ShadowEvaluation
begin

text \<open>
  \<open>m7_autonomy_bridge.py\<close>: the provider mapping and the envelope that hands a cohort and its bundles
  from M7 to M8.  The constructor parses what it was given again and compares.  Field prefixes:
  \<open>pm_\<close> provider mapping, \<open>ab_\<close> autonomy bridge.
\<close>

definition BRIDGE_MAX_ITEMS :: nat where "BRIDGE_MAX_ITEMS = 10000"

section \<open>The provider mapping\<close>

record provider_mapping =
  pm_schema_version :: int
  pm_cohort_key_digest :: string
  pm_validator_digest :: string
  pm_provider_digest :: string

definition provider_mapping_fields :: "string list" where
  "provider_mapping_fields =
     [''schema_version'', ''cohort_key_digest'', ''validator_digest'', ''provider_digest'']"

definition provider_mapping_post_init :: "provider_mapping \<Rightarrow> unit res" where
  "provider_mapping_post_init x = checks
     [
      void (sh_version (PInt (pm_schema_version x)) ''provider_mapping''),
      void (hex_field (PStr (pm_cohort_key_digest x)) ''cohort_key_digest'' HEX64),
      void (hex_field (PStr (pm_validator_digest x)) ''validator_digest'' HEX64),
      void (hex_field (PStr (pm_provider_digest x)) ''provider_digest'' HEX64),
      ensure (pm_provider_digest x \<noteq> pm_validator_digest x)
        (ContractError ''provider_mapping_mismatch'' ''provider_validator_separation'')]"

definition provider_mapping_to_dict :: "provider_mapping \<Rightarrow> pyval" where
  "provider_mapping_to_dict x = py_dict
     [(''schema_version'', PInt (pm_schema_version x)),
      (''cohort_key_digest'', PStr (pm_cohort_key_digest x)),
      (''validator_digest'', PStr (pm_validator_digest x)),
      (''provider_digest'', PStr (pm_provider_digest x))]"

definition provider_mapping_from_dict :: "pyval \<Rightarrow> provider_mapping res" where
  "provider_mapping_from_dict data =
     bnd (sh_object data ''provider_mapping'') (\<lambda>_.
     bnd (closed data provider_mapping_fields) (\<lambda>_.
     bnd (field data ''schema_version'' (\<lambda>v. sh_version v ''provider_mapping'')) (\<lambda>version.
     bnd (field data ''cohort_key_digest'' (\<lambda>v. hex_field v ''cohort_key_digest'' HEX64)) (\<lambda>v_cohort_key_digest.
     bnd (field data ''validator_digest'' (\<lambda>v. hex_field v ''validator_digest'' HEX64)) (\<lambda>v_validator_digest.
     bnd (field data ''provider_digest'' (\<lambda>v. hex_field v ''provider_digest'' HEX64)) (\<lambda>v_provider_digest.
     construct provider_mapping_post_init
        \<lparr>pm_schema_version = version, pm_cohort_key_digest = v_cohort_key_digest,
          pm_validator_digest = v_validator_digest, pm_provider_digest = v_provider_digest\<rparr>))))))"

interpretation provider_mapping: checked_codec provider_mapping_from_dict provider_mapping_to_dict provider_mapping_post_init
proof
  fix d x assume "provider_mapping_from_dict d = Inr x"
  then show "provider_mapping_post_init x = Inr ()"
    unfolding provider_mapping_from_dict_def by (elim bnd_InrE construct_checked)
next
  fix x assume ok: "provider_mapping_post_init x = Inr ()"
  have eta: "\<lparr>pm_schema_version = pm_schema_version x, pm_cohort_key_digest = pm_cohort_key_digest x,
       pm_validator_digest = pm_validator_digest x, pm_provider_digest = pm_provider_digest x\<rparr> = x"
    by (cases x) simp
  show "provider_mapping_from_dict (provider_mapping_to_dict x) = Inr x"
    using ok [unfolded provider_mapping_post_init_def]
    apply (simp only: res_simps hexpat_len.simps, elim conjE)
    apply (simp (no_asm) add: provider_mapping_from_dict_def provider_mapping_to_dict_def provider_mapping_fields_def eta ok
        res_simps py_simps cong: literal_congs)
    apply ((intro conjI)?; (assumption | simp))
    done
qed

definition provider_mapping_digest :: "provider_mapping \<Rightarrow> string" where
  "provider_mapping_digest x = domain_digest ''adaptive-factory.m8-m7-provider-mapping/v1'' (provider_mapping_to_dict x)"

section \<open>The bridge\<close>

record autonomy_bridge =
  ab_schema_version :: int
  ab_provider_mapping :: provider_mapping
  ab_bundles :: "pr_bundle list"
  ab_cohort :: shadow_cohort

definition autonomy_bridge_fields :: "string list" where
  "autonomy_bridge_fields = [''schema_version'', ''provider_mapping'', ''bundles'', ''cohort'']"

text \<open>The producer bodies, rendered and parsed again, against the objects themselves.\<close>

definition reparse :: "(string \<Rightarrow> string) \<Rightarrow> autonomy_bridge \<Rightarrow> unit res" where
  "reparse nfc x =
     bnd (map_res (pr_bundle_from_dict nfc) (map pr_bundle_to_dict (ab_bundles x))) (\<lambda>reparsed_bundles.
     bnd (shadow_cohort_from_dict nfc (shadow_cohort_to_dict (ab_cohort x))) (\<lambda>reparsed_cohort.
     bnd (provider_mapping_from_dict (provider_mapping_to_dict (ab_provider_mapping x))) (\<lambda>reparsed_mapping.
     bnd (ensure (reparsed_bundles = ab_bundles x \<and> reparsed_cohort = ab_cohort x)
       (ContractError ''invalid_contract'' ''producer_snapshot'')) (\<lambda>_.
     ensure (reparsed_mapping = ab_provider_mapping x) (ContractError ''invalid_contract'' ''provider_mapping'')))))"

definition autonomy_bridge_post_init :: "(string \<Rightarrow> string) \<Rightarrow> autonomy_bridge \<Rightarrow> unit res" where
  "autonomy_bridge_post_init nfc x =
     (let bundle_digests = map bu_bundle_digest (ab_bundles x); key = sh_key (ab_cohort x) in checks
     [void (sh_version (PInt (ab_schema_version x)) ''m7_autonomy_bridge''),
      ensure (instance_of provider_mapping_post_init (ab_provider_mapping x)) (ContractError ''invalid_contract'' ''provider_mapping''),
      ensure (ab_bundles x \<noteq> [] \<and> length (ab_bundles x) \<le> BRIDGE_MAX_ITEMS) (ContractError ''invalid_contract'' ''bundles''),
      ensure (list_all (instance_of (pr_bundle_post_init nfc)) (ab_bundles x)) (ContractError ''invalid_contract'' ''bundles''),
      ensure (instance_of (shadow_cohort_post_init nfc) (ab_cohort x)) (ContractError ''invalid_contract'' ''cohort''),
      reparse nfc x,
      ensure (bundle_digests = sort bundle_digests) (ContractError ''invalid_order'' ''bundles''),
      ensure (distinct bundle_digests) (ContractError ''replay'' ''bundle_digest''),
      ensure (bundle_digests = sort (map so_bundle_digest (sh_outcomes (ab_cohort x))))
        (ContractError ''m7_outcome_mismatch'' ''bundle_digest''),
      ensure (\<not> (pm_cohort_key_digest (ab_provider_mapping x) \<noteq> cohort_key_digest key \<or>
                pm_validator_digest (ab_provider_mapping x) \<noteq> ck_validator_digest key \<or>
                pm_provider_digest (ab_provider_mapping x) = ck_validator_digest key))
        (ContractError ''provider_mapping_mismatch'' [])])"

definition autonomy_bridge_to_dict :: "autonomy_bridge \<Rightarrow> pyval" where
  "autonomy_bridge_to_dict x = py_dict
     [(''schema_version'', PInt (ab_schema_version x)),
      (''provider_mapping'', provider_mapping_to_dict (ab_provider_mapping x)),
      (''bundles'', PList (map pr_bundle_to_dict (ab_bundles x))),
      (''cohort'', shadow_cohort_to_dict (ab_cohort x))]"

definition autonomy_bridge_from_dict :: "(string \<Rightarrow> string) \<Rightarrow> pyval \<Rightarrow> autonomy_bridge res" where
  "autonomy_bridge_from_dict nfc data =
     bnd (sh_object data ''m7_autonomy_bridge'') (\<lambda>_.
     bnd (closed data autonomy_bridge_fields) (\<lambda>_.
     bnd (field data ''bundles'' (\<lambda>v. list_items v (ContractError ''invalid_contract'' ''bundles''))) (\<lambda>bundles.
     bnd (ensure (bundles \<noteq> [] \<and> length bundles \<le> BRIDGE_MAX_ITEMS) (ContractError ''invalid_contract'' ''bundles'')) (\<lambda>_.
     bnd (field data ''schema_version'' (\<lambda>v. sh_version v ''m7_autonomy_bridge'')) (\<lambda>version.
     bnd (field data ''provider_mapping'' provider_mapping_from_dict) (\<lambda>mapping.
     bnd (map_res (pr_bundle_from_dict nfc) bundles) (\<lambda>parsed.
     bnd (field data ''cohort'' (shadow_cohort_from_dict nfc)) (\<lambda>cohort.
     construct (autonomy_bridge_post_init nfc)
        \<lparr>ab_schema_version = version, ab_provider_mapping = mapping, ab_bundles = parsed, ab_cohort = cohort\<rparr>))))))))"

text \<open>\<open>aggregate\<close>, \<open>evaluation\<close> and the two acceptance flags, which are constant.\<close>

definition bridge_aggregate :: "(string \<Rightarrow> string) \<Rightarrow> autonomy_bridge \<Rightarrow> cohort_aggregate res" where
  "bridge_aggregate nfc x = aggregate_shadow_cohort nfc (ab_cohort x)"

definition bridge_evaluation :: "(string \<Rightarrow> string) \<Rightarrow> autonomy_bridge \<Rightarrow> shadow_evaluation res" where
  "bridge_evaluation nfc x = evaluate_shadow_cohort nfc (ab_cohort x)"

definition external_acceptance_available :: "autonomy_bridge \<Rightarrow> bool" where
  "external_acceptance_available x = False"

definition currentness_available :: "autonomy_bridge \<Rightarrow> bool" where
  "currentness_available x = False"

section \<open>Parsing again never rejects\<close>

lemma reparse_accepts:
  assumes "instance_of provider_mapping_post_init (ab_provider_mapping x)"
    "list_all (instance_of (pr_bundle_post_init nfc)) (ab_bundles x)"
    "instance_of (shadow_cohort_post_init nfc) (ab_cohort x)"
  shows "reparse nfc x = Inr ()"
proof -
  have "map_res (pr_bundle_from_dict nfc) (map pr_bundle_to_dict (ab_bundles x)) = Inr (ab_bundles x)"
    using assms(2) by (intro pr_bundle.map_parse_render) (simp add: list_all_iff instance_of_def)
  then show ?thesis
    using assms(1,3) unfolding reparse_def instance_of_def
    by (simp add: shadow_cohort.parse_render provider_mapping.parse_render)
qed


interpretation autonomy_bridge: checked_codec "autonomy_bridge_from_dict nfc" autonomy_bridge_to_dict "autonomy_bridge_post_init nfc"
proof
  fix d x assume "autonomy_bridge_from_dict nfc d = Inr x"
  then show "autonomy_bridge_post_init nfc x = Inr ()"
    unfolding autonomy_bridge_from_dict_def by (elim bnd_InrE construct_checked)
next
  fix x assume ok: "autonomy_bridge_post_init nfc x = Inr ()"
  have eta: "\<lparr>ab_schema_version = ab_schema_version x, ab_provider_mapping = ab_provider_mapping x,
       ab_bundles = ab_bundles x, ab_cohort = ab_cohort x\<rparr> = x"
    by (cases x) simp
  have "instance_of (shadow_cohort_post_init nfc) (ab_cohort x)"
    using ok unfolding autonomy_bridge_post_init_def Let_def by (simp only: res_simps)
  then have nested0: "shadow_cohort_from_dict nfc (shadow_cohort_to_dict (ab_cohort x)) = Inr (ab_cohort x)"
    unfolding instance_of_def by (rule shadow_cohort.parse_render)
  have "instance_of (provider_mapping_post_init) (ab_provider_mapping x)"
    using ok unfolding autonomy_bridge_post_init_def Let_def by (simp only: res_simps)
  then have nested1: "provider_mapping_from_dict (provider_mapping_to_dict (ab_provider_mapping x)) = Inr (ab_provider_mapping x)"
    unfolding instance_of_def by (rule provider_mapping.parse_render)
  have "list_all (instance_of (pr_bundle_post_init nfc)) (ab_bundles x)"
    using ok unfolding autonomy_bridge_post_init_def Let_def by (simp only: res_simps)
  then have nested2: "map_res (pr_bundle_from_dict nfc) (map pr_bundle_to_dict (ab_bundles x)) = Inr (ab_bundles x)"
    by (intro pr_bundle.map_parse_render) (simp add: list_all_iff instance_of_def)
  show "autonomy_bridge_from_dict nfc (autonomy_bridge_to_dict x) = Inr x"
    using ok [unfolded autonomy_bridge_post_init_def Let_def]
    apply (simp only: res_simps hexpat_len.simps, elim conjE)
    apply (simp (no_asm) add: autonomy_bridge_from_dict_def autonomy_bridge_to_dict_def autonomy_bridge_fields_def eta ok
        res_simps py_simps nested0 nested1 nested2 cong: literal_congs)
    apply ((intro conjI)?; (assumption | simp))
    done
qed

definition autonomy_bridge_digest :: "autonomy_bridge \<Rightarrow> string" where
  "autonomy_bridge_digest x = domain_digest ''adaptive-factory.m8-m7-autonomy-bridge/v1'' (autonomy_bridge_to_dict x)"

end
