(* ===== verification/AutonomyContracts.thy ===== *)
theory AutonomyContracts
  imports AutonomyBridge
begin

text \<open>
  \<open>autonomy.py\<close>, the contract classes: the autonomy tuple (one agent, policy and authority on one
  class of tasks), the evidence of its cohort of tasks, the profile, the promotion recommendation and
  the demotion decision.  A \<open>datetime\<close> of the model is aware and in UTC; that it is a \<open>datetime\<close> object
  at all is \<open>valid_dt\<close>.  Field prefixes: \<open>at_\<close> tuple, \<open>ct_\<close> task, \<open>cv_\<close> cohort evidence, \<open>ap_\<close> profile,
  \<open>rn_\<close> recommendation, \<open>dd_\<close> demotion decision.
\<close>

section \<open>Validators\<close>

definition MAX_COHORT_TASKS :: nat where "MAX_COHORT_TASKS = 10000"

definition MAX_COUNT :: int where "MAX_COUNT = 1000000"

definition MAX_COST_USD_MICROS :: int where "MAX_COST_USD_MICROS = 1000000000000"

definition MAX_LATENCY_MS :: int where "MAX_LATENCY_MS = 604800000"

definition LEVELS :: "string list" where "LEVELS = [''L0'', ''L1'', ''L2'']"

definition RECOMMENDATION_REASONS :: "string list" where
  "RECOMMENDATION_REASONS =
     [''qualified'', ''already_at_ceiling'', ''cohort_replay'', ''m7_bundle_blocked'', ''m7_acceptance_missing'',
      ''m7_currentness_missing'', ''tuple_expired'', ''insufficient_acceptances'', ''human_acceptance_missing'',
      ''audit_rate_insufficient'', ''audit_day_gap'', ''audit_rejected'', ''quality_below_threshold'',
      ''security_failure'', ''authorization_failure'', ''duplicate_dispatch'', ''cost_above_threshold'',
      ''latency_above_threshold'', ''demotion_fact_present'', ''halted_profile'']"

definition DEMOTION_TRIGGERS :: "string list" where
  "DEMOTION_TRIGGERS =
     [''security_failure'', ''authorization_failure'', ''incorrect_merge'', ''rollback'', ''escaped_defect'',
      ''invalid_attestation'', ''policy_bypass'', ''unexplained_regression'']"

definition au_identifier :: "(string \<Rightarrow> string) \<Rightarrow> pyval \<Rightarrow> string \<Rightarrow> string res" where
  "au_identifier nfc value name =
     catch (id_field nfc value name)
       (\<lambda>e. case e of
          ContractError _ _ \<Rightarrow> Inl (ContractError ''invalid_identifier'' name)
        | UnicodeEncodeError \<Rightarrow> Inl (ContractError ''invalid_identifier'' name)
        | _ \<Rightarrow> Inl e)"

definition au_integer :: "pyval \<Rightarrow> string \<Rightarrow> int \<Rightarrow> int \<Rightarrow> int res" where
  "au_integer value name minimum maximum =
     (case value of
        PInt n \<Rightarrow> (if minimum \<le> n \<and> n \<le> maximum then Inr n else Inl (ContractError ''invalid_integer'' name))
      | _ \<Rightarrow> Inl (ContractError ''invalid_integer'' name))"

definition au_boolean :: "pyval \<Rightarrow> string \<Rightarrow> bool res" where
  "au_boolean value name = (case value of PBool b \<Rightarrow> Inr b | _ \<Rightarrow> Inl (ContractError ''invalid_boolean'' name))"

definition au_level :: "pyval \<Rightarrow> string \<Rightarrow> string res" where
  "au_level value name =
     (if in_str_tuple value LEVELS then Inr (str_of value) else Inl (ContractError ''unsupported_level'' name))"

text \<open>\<open>LEVELS.index(level)\<close>, for a level the validator accepted.\<close>

definition level_index :: "string \<Rightarrow> nat" where
  "level_index level = length (takeWhile (\<lambda>x. x \<noteq> level) LEVELS)"

lemma au_identifier_Inr [res_simps]: "au_identifier nfc v name = Inr s \<longleftrightarrow> v = PStr s \<and> id_ok nfc s"
proof (cases "id_field nfc v name")
  case (Inl e)
  then have "\<not> (v = PStr s \<and> id_ok nfc s)" using id_field_Inr [of nfc v name s] by auto
  with Inl show ?thesis by (cases e) (auto simp: au_identifier_def)
next
  case (Inr r)
  then show ?thesis using id_field_Inr [of nfc v name s] by (auto simp: au_identifier_def)
qed

lemma au_integer_Inr [res_simps]: "au_integer v name lo hi = Inr n \<longleftrightarrow> v = PInt n \<and> lo \<le> n \<and> n \<le> hi"
  by (auto simp: au_integer_def split: pyval.splits)

lemma au_boolean_Inr [res_simps]: "au_boolean v name = Inr b \<longleftrightarrow> v = PBool b"
  by (auto simp: au_boolean_def split: pyval.splits)

lemma au_level_Inr [res_simps]: "au_level v name = Inr s \<longleftrightarrow> v = PStr s \<and> s \<in> set LEVELS"
  by (auto simp: au_level_def in_str_tuple_def)

lemma void_au_validators [res_simps]:
  "void (au_identifier nfc (PStr s) name) = Inr u \<longleftrightarrow> id_ok nfc s"
  "void (au_integer (PInt n) name lo hi) = Inr u \<longleftrightarrow> lo \<le> n \<and> n \<le> hi"
  "void (au_boolean (PBool b) name) = Inr u"
  "void (au_level (PStr s) name) = Inr u \<longleftrightarrow> s \<in> set LEVELS"
  by (simp_all add: void_Inr_iff au_identifier_Inr au_integer_Inr au_boolean_Inr au_level_Inr)

section \<open>The autonomy tuple\<close>

record autonomy_tuple =
  at_schema_version :: int
  at_repository_id :: string
  at_task_class :: pyval
  at_m7_change_class :: string
  at_m7_cohort_key_digest :: string
  at_provider_mapping_digest :: string
  at_agent_digest :: string
  at_validator_digest :: string
  at_provider_digest :: string
  at_model_digest :: string
  at_prompt_digest :: string
  at_policy_digest :: string
  at_runner_digest :: string
  at_holdout_digest :: string
  at_authority_digest :: string
  at_authority_ceiling :: pyval
  at_expires_at :: datetime

definition autonomy_tuple_fields :: "string list" where
  "autonomy_tuple_fields =
     [''schema_version'', ''repository_id'', ''task_class'', ''m7_change_class'', ''m7_cohort_key_digest'',
      ''provider_mapping_digest'', ''agent_digest'', ''validator_digest'', ''provider_digest'',
      ''model_digest'', ''prompt_digest'', ''policy_digest'', ''runner_digest'', ''holdout_digest'',
      ''authority_digest'', ''authority_ceiling'', ''expires_at'']"

definition autonomy_tuple_post_init :: "(string \<Rightarrow> string) \<Rightarrow> autonomy_tuple \<Rightarrow> unit res" where
  "autonomy_tuple_post_init nfc x = checks
     [
      void (sh_version (PInt (at_schema_version x)) ''autonomy_tuple''),
      void (au_identifier nfc (PStr (at_repository_id x)) ''repository_id''),
      ensure (py_eq_str (at_task_class x) ''low_risk_text_only'') (ContractError ''unsupported_task_class'' []),
      void (au_identifier nfc (PStr (at_m7_change_class x)) ''m7_change_class''),
      void (hex_field (PStr (at_m7_cohort_key_digest x)) ''m7_cohort_key_digest'' HEX64),
      void (hex_field (PStr (at_provider_mapping_digest x)) ''provider_mapping_digest'' HEX64),
      void (hex_field (PStr (at_agent_digest x)) ''agent_digest'' HEX64),
      void (hex_field (PStr (at_validator_digest x)) ''validator_digest'' HEX64),
      void (hex_field (PStr (at_provider_digest x)) ''provider_digest'' HEX64),
      void (hex_field (PStr (at_model_digest x)) ''model_digest'' HEX64),
      void (hex_field (PStr (at_prompt_digest x)) ''prompt_digest'' HEX64),
      void (hex_field (PStr (at_policy_digest x)) ''policy_digest'' HEX64),
      void (hex_field (PStr (at_runner_digest x)) ''runner_digest'' HEX64),
      void (hex_field (PStr (at_holdout_digest x)) ''holdout_digest'' HEX64),
      void (hex_field (PStr (at_authority_digest x)) ''authority_digest'' HEX64),
      ensure (py_eq_str (at_authority_ceiling x) ''L2'') (ContractError ''unsupported_level'' ''authority_ceiling''),
      ensure (valid_dt (at_expires_at x)) (ContractError ''invalid_time'' ''expires_at'')]"

definition autonomy_tuple_to_dict :: "autonomy_tuple \<Rightarrow> pyval" where
  "autonomy_tuple_to_dict x = py_dict
     [(''schema_version'', PInt (at_schema_version x)), (''repository_id'', PStr (at_repository_id x)),
      (''task_class'', at_task_class x), (''m7_change_class'', PStr (at_m7_change_class x)),
      (''m7_cohort_key_digest'', PStr (at_m7_cohort_key_digest x)),
      (''provider_mapping_digest'', PStr (at_provider_mapping_digest x)),
      (''agent_digest'', PStr (at_agent_digest x)), (''validator_digest'', PStr (at_validator_digest x)),
      (''provider_digest'', PStr (at_provider_digest x)), (''model_digest'', PStr (at_model_digest x)),
      (''prompt_digest'', PStr (at_prompt_digest x)), (''policy_digest'', PStr (at_policy_digest x)),
      (''runner_digest'', PStr (at_runner_digest x)), (''holdout_digest'', PStr (at_holdout_digest x)),
      (''authority_digest'', PStr (at_authority_digest x)),
      (''authority_ceiling'', at_authority_ceiling x),
      (''expires_at'', PStr (timestamp_text (at_expires_at x)))]"

definition autonomy_tuple_from_dict :: "(string \<Rightarrow> string) \<Rightarrow> pyval \<Rightarrow> autonomy_tuple res" where
  "autonomy_tuple_from_dict nfc data =
     bnd (sh_object data ''autonomy_tuple'') (\<lambda>_.
     bnd (closed data autonomy_tuple_fields) (\<lambda>_.
     bnd (getitem data ''task_class'') (\<lambda>task_class.
     bnd (ensure (py_eq_str task_class ''low_risk_text_only'') (ContractError ''unsupported_task_class'' [])) (\<lambda>_.
     bnd (getitem data ''authority_ceiling'') (\<lambda>ceiling.
     bnd (ensure (py_eq_str ceiling ''L2'') (ContractError ''unsupported_level'' ''authority_ceiling'')) (\<lambda>_.
     bnd (field data ''schema_version'' (\<lambda>v. sh_version v ''autonomy_tuple'')) (\<lambda>version.
     bnd (field data ''repository_id'' (\<lambda>v. au_identifier nfc v ''repository_id'')) (\<lambda>repository.
     bnd (field data ''m7_change_class'' (\<lambda>v. au_identifier nfc v ''m7_change_class'')) (\<lambda>change_class.
     bnd (field data ''m7_cohort_key_digest'' (\<lambda>v. hex_field v ''m7_cohort_key_digest'' HEX64)) (\<lambda>v_m7_cohort_key_digest.
     bnd (field data ''provider_mapping_digest'' (\<lambda>v. hex_field v ''provider_mapping_digest'' HEX64)) (\<lambda>v_provider_mapping_digest.
     bnd (field data ''agent_digest'' (\<lambda>v. hex_field v ''agent_digest'' HEX64)) (\<lambda>v_agent_digest.
     bnd (field data ''validator_digest'' (\<lambda>v. hex_field v ''validator_digest'' HEX64)) (\<lambda>v_validator_digest.
     bnd (field data ''provider_digest'' (\<lambda>v. hex_field v ''provider_digest'' HEX64)) (\<lambda>v_provider_digest.
     bnd (field data ''model_digest'' (\<lambda>v. hex_field v ''model_digest'' HEX64)) (\<lambda>v_model_digest.
     bnd (field data ''prompt_digest'' (\<lambda>v. hex_field v ''prompt_digest'' HEX64)) (\<lambda>v_prompt_digest.
     bnd (field data ''policy_digest'' (\<lambda>v. hex_field v ''policy_digest'' HEX64)) (\<lambda>v_policy_digest.
     bnd (field data ''runner_digest'' (\<lambda>v. hex_field v ''runner_digest'' HEX64)) (\<lambda>v_runner_digest.
     bnd (field data ''holdout_digest'' (\<lambda>v. hex_field v ''holdout_digest'' HEX64)) (\<lambda>v_holdout_digest.
     bnd (field data ''authority_digest'' (\<lambda>v. hex_field v ''authority_digest'' HEX64)) (\<lambda>v_authority_digest.
     bnd (field data ''expires_at'' (\<lambda>v. time_field v ''expires_at'')) (\<lambda>v_expires_at.
     construct (autonomy_tuple_post_init nfc)
        \<lparr>at_schema_version = version, at_repository_id = repository, at_task_class = task_class,
          at_m7_change_class = change_class, at_m7_cohort_key_digest = v_m7_cohort_key_digest,
          at_provider_mapping_digest = v_provider_mapping_digest, at_agent_digest = v_agent_digest,
          at_validator_digest = v_validator_digest, at_provider_digest = v_provider_digest,
          at_model_digest = v_model_digest, at_prompt_digest = v_prompt_digest,
          at_policy_digest = v_policy_digest, at_runner_digest = v_runner_digest,
          at_holdout_digest = v_holdout_digest, at_authority_digest = v_authority_digest,
          at_authority_ceiling = ceiling, at_expires_at = v_expires_at\<rparr>)))))))))))))))))))))"

interpretation autonomy_tuple: checked_codec "autonomy_tuple_from_dict nfc" autonomy_tuple_to_dict "autonomy_tuple_post_init nfc"
proof
  fix d x assume "autonomy_tuple_from_dict nfc d = Inr x"
  then show "autonomy_tuple_post_init nfc x = Inr ()"
    unfolding autonomy_tuple_from_dict_def by (elim bnd_InrE construct_checked)
next
  fix x assume ok: "autonomy_tuple_post_init nfc x = Inr ()"
  have eta: "\<lparr>at_schema_version = at_schema_version x, at_repository_id = at_repository_id x,
       at_task_class = at_task_class x, at_m7_change_class = at_m7_change_class x,
       at_m7_cohort_key_digest = at_m7_cohort_key_digest x,
       at_provider_mapping_digest = at_provider_mapping_digest x,
       at_agent_digest = at_agent_digest x, at_validator_digest = at_validator_digest x,
       at_provider_digest = at_provider_digest x, at_model_digest = at_model_digest x,
       at_prompt_digest = at_prompt_digest x, at_policy_digest = at_policy_digest x,
       at_runner_digest = at_runner_digest x, at_holdout_digest = at_holdout_digest x,
       at_authority_digest = at_authority_digest x, at_authority_ceiling = at_authority_ceiling x,
       at_expires_at = at_expires_at x\<rparr> = x"
    by (cases x) simp
  have "valid_dt (at_expires_at x)"
    using ok unfolding autonomy_tuple_post_init_def by (simp only: res_simps)
  then have time0: "\<And>n. time_field (PStr (timestamp_text (at_expires_at x))) n = Inr (at_expires_at x)"
    by simp
  show "autonomy_tuple_from_dict nfc (autonomy_tuple_to_dict x) = Inr x"
    using ok [unfolded autonomy_tuple_post_init_def]
    apply (simp only: res_simps hexpat_len.simps, elim conjE)
    apply (simp (no_asm) add: autonomy_tuple_from_dict_def autonomy_tuple_to_dict_def autonomy_tuple_fields_def eta ok
        res_simps py_simps time0 cong: literal_congs)
    apply ((intro conjI)?; (assumption | simp))
    done
qed

definition tuple_digest :: "autonomy_tuple \<Rightarrow> string" where
  "tuple_digest x = domain_digest ''adaptive-factory.m8-autonomy-tuple/v1'' (autonomy_tuple_to_dict x)"

section \<open>The evidence of one task\<close>

record cohort_task =
  ct_schema_version :: int
  ct_tuple_digest :: string
  ct_task_id :: string
  ct_run_id :: string
  ct_exact_head_sha :: string
  ct_observed_at :: datetime
  ct_m7_bundle_digest :: string
  ct_m7_outcome_digest :: string
  ct_audit_sampled :: bool
  ct_audit_accepted :: bool
  ct_human_acceptance_receipt_digest :: string
  ct_attestation_receipt_digest :: string
  ct_quality_score_millionths :: int
  ct_security_failure_count :: int
  ct_authorization_failure_count :: int
  ct_duplicate_dispatch_count :: int
  ct_cost_usd_micros :: int
  ct_latency_ms :: int
  ct_demotion_trigger_count :: int

definition cohort_task_fields :: "string list" where
  "cohort_task_fields =
     [''schema_version'', ''tuple_digest'', ''task_id'', ''run_id'', ''exact_head_sha'', ''observed_at'',
      ''m7_bundle_digest'', ''m7_outcome_digest'', ''audit_sampled'', ''audit_accepted'',
      ''human_acceptance_receipt_digest'', ''attestation_receipt_digest'', ''quality_score_millionths'',
      ''security_failure_count'', ''authorization_failure_count'', ''duplicate_dispatch_count'',
      ''cost_usd_micros'', ''latency_ms'', ''demotion_trigger_count'']"

definition cohort_task_post_init :: "(string \<Rightarrow> string) \<Rightarrow> cohort_task \<Rightarrow> unit res" where
  "cohort_task_post_init nfc x = checks
     [
      void (sh_version (PInt (ct_schema_version x)) ''cohort_task_evidence''),
      void (hex_field (PStr (ct_tuple_digest x)) ''tuple_digest'' HEX64),
      void (au_identifier nfc (PStr (ct_task_id x)) ''task_id''),
      void (au_identifier nfc (PStr (ct_run_id x)) ''run_id''),
      void (hex_field (PStr (ct_exact_head_sha x)) ''exact_head_sha'' HEX40),
      ensure (valid_dt (ct_observed_at x)) (ContractError ''invalid_time'' ''observed_at''),
      void (hex_field (PStr (ct_m7_bundle_digest x)) ''m7_bundle_digest'' HEX64),
      void (hex_field (PStr (ct_m7_outcome_digest x)) ''m7_outcome_digest'' HEX64),
      void (au_boolean (PBool (ct_audit_sampled x)) ''audit_sampled''),
      void (au_boolean (PBool (ct_audit_accepted x)) ''audit_accepted''),
      ensure (\<not> (ct_audit_accepted x \<and> \<not> ct_audit_sampled x)) (ContractError ''invalid_audit_state'' []),
      void (hex_field (PStr (ct_human_acceptance_receipt_digest x)) ''human_acceptance_receipt_digest'' HEX64),
      void (hex_field (PStr (ct_attestation_receipt_digest x)) ''attestation_receipt_digest'' HEX64),
      void (au_integer (PInt (ct_quality_score_millionths x)) ''quality_score_millionths'' 0 1000000),
      void (au_integer (PInt (ct_security_failure_count x)) ''security_failure_count'' 0 MAX_COUNT),
      void (au_integer (PInt (ct_authorization_failure_count x)) ''authorization_failure_count'' 0 MAX_COUNT),
      void (au_integer (PInt (ct_duplicate_dispatch_count x)) ''duplicate_dispatch_count'' 0 MAX_COUNT),
      void (au_integer (PInt (ct_demotion_trigger_count x)) ''demotion_trigger_count'' 0 MAX_COUNT),
      void (au_integer (PInt (ct_cost_usd_micros x)) ''cost_usd_micros'' 0 MAX_COST_USD_MICROS),
      void (au_integer (PInt (ct_latency_ms x)) ''latency_ms'' 0 MAX_LATENCY_MS)]"

definition cohort_task_to_dict :: "cohort_task \<Rightarrow> pyval" where
  "cohort_task_to_dict x = py_dict
     [(''schema_version'', PInt (ct_schema_version x)), (''tuple_digest'', PStr (ct_tuple_digest x)),
      (''task_id'', PStr (ct_task_id x)), (''run_id'', PStr (ct_run_id x)),
      (''exact_head_sha'', PStr (ct_exact_head_sha x)),
      (''observed_at'', PStr (timestamp_text (ct_observed_at x))),
      (''m7_bundle_digest'', PStr (ct_m7_bundle_digest x)),
      (''m7_outcome_digest'', PStr (ct_m7_outcome_digest x)),
      (''audit_sampled'', PBool (ct_audit_sampled x)), (''audit_accepted'', PBool (ct_audit_accepted x)),
      (''human_acceptance_receipt_digest'', PStr (ct_human_acceptance_receipt_digest x)),
      (''attestation_receipt_digest'', PStr (ct_attestation_receipt_digest x)),
      (''quality_score_millionths'', PInt (ct_quality_score_millionths x)),
      (''security_failure_count'', PInt (ct_security_failure_count x)),
      (''authorization_failure_count'', PInt (ct_authorization_failure_count x)),
      (''duplicate_dispatch_count'', PInt (ct_duplicate_dispatch_count x)),
      (''cost_usd_micros'', PInt (ct_cost_usd_micros x)), (''latency_ms'', PInt (ct_latency_ms x)),
      (''demotion_trigger_count'', PInt (ct_demotion_trigger_count x))]"

definition cohort_task_from_dict :: "(string \<Rightarrow> string) \<Rightarrow> pyval \<Rightarrow> cohort_task res" where
  "cohort_task_from_dict nfc data =
     bnd (sh_object data ''cohort_task_evidence'') (\<lambda>_.
     bnd (closed data cohort_task_fields) (\<lambda>_.
     bnd (field data ''schema_version'' (\<lambda>v. sh_version v ''cohort_task_evidence'')) (\<lambda>version.
     bnd (field data ''tuple_digest'' (\<lambda>v. hex_field v ''tuple_digest'' HEX64)) (\<lambda>v_tuple_digest.
     bnd (field data ''task_id'' (\<lambda>v. au_identifier nfc v ''task_id'')) (\<lambda>v_task_id.
     bnd (field data ''run_id'' (\<lambda>v. au_identifier nfc v ''run_id'')) (\<lambda>v_run_id.
     bnd (field data ''exact_head_sha'' (\<lambda>v. hex_field v ''exact_head_sha'' HEX40)) (\<lambda>v_exact_head_sha.
     bnd (field data ''observed_at'' (\<lambda>v. time_field v ''observed_at'')) (\<lambda>v_observed_at.
     bnd (field data ''m7_bundle_digest'' (\<lambda>v. hex_field v ''m7_bundle_digest'' HEX64)) (\<lambda>v_m7_bundle_digest.
     bnd (field data ''m7_outcome_digest'' (\<lambda>v. hex_field v ''m7_outcome_digest'' HEX64)) (\<lambda>v_m7_outcome_digest.
     bnd (field data ''audit_sampled'' (\<lambda>v. au_boolean v ''audit_sampled'')) (\<lambda>v_audit_sampled.
     bnd (field data ''audit_accepted'' (\<lambda>v. au_boolean v ''audit_accepted'')) (\<lambda>v_audit_accepted.
     bnd (field data ''human_acceptance_receipt_digest'' (\<lambda>v. hex_field v ''human_acceptance_receipt_digest'' HEX64)) (\<lambda>v_human_acceptance_receipt_digest.
     bnd (field data ''attestation_receipt_digest'' (\<lambda>v. hex_field v ''attestation_receipt_digest'' HEX64)) (\<lambda>v_attestation_receipt_digest.
     bnd (field data ''quality_score_millionths'' (\<lambda>v. au_integer v ''quality_score_millionths'' 0 1000000)) (\<lambda>v_quality_score_millionths.
     bnd (field data ''security_failure_count'' (\<lambda>v. au_integer v ''security_failure_count'' 0 MAX_COUNT)) (\<lambda>v_security_failure_count.
     bnd (field data ''authorization_failure_count'' (\<lambda>v. au_integer v ''authorization_failure_count'' 0 MAX_COUNT)) (\<lambda>v_authorization_failure_count.
     bnd (field data ''duplicate_dispatch_count'' (\<lambda>v. au_integer v ''duplicate_dispatch_count'' 0 MAX_COUNT)) (\<lambda>v_duplicate_dispatch_count.
     bnd (field data ''cost_usd_micros'' (\<lambda>v. au_integer v ''cost_usd_micros'' 0 MAX_COST_USD_MICROS)) (\<lambda>v_cost_usd_micros.
     bnd (field data ''latency_ms'' (\<lambda>v. au_integer v ''latency_ms'' 0 MAX_LATENCY_MS)) (\<lambda>v_latency_ms.
     bnd (field data ''demotion_trigger_count'' (\<lambda>v. au_integer v ''demotion_trigger_count'' 0 MAX_COUNT)) (\<lambda>v_demotion_trigger_count.
     construct (cohort_task_post_init nfc)
        \<lparr>ct_schema_version = version, ct_tuple_digest = v_tuple_digest, ct_task_id = v_task_id,
          ct_run_id = v_run_id, ct_exact_head_sha = v_exact_head_sha, ct_observed_at = v_observed_at,
          ct_m7_bundle_digest = v_m7_bundle_digest, ct_m7_outcome_digest = v_m7_outcome_digest,
          ct_audit_sampled = v_audit_sampled, ct_audit_accepted = v_audit_accepted,
          ct_human_acceptance_receipt_digest = v_human_acceptance_receipt_digest,
          ct_attestation_receipt_digest = v_attestation_receipt_digest,
          ct_quality_score_millionths = v_quality_score_millionths,
          ct_security_failure_count = v_security_failure_count,
          ct_authorization_failure_count = v_authorization_failure_count,
          ct_duplicate_dispatch_count = v_duplicate_dispatch_count, ct_cost_usd_micros = v_cost_usd_micros,
          ct_latency_ms = v_latency_ms, ct_demotion_trigger_count = v_demotion_trigger_count\<rparr>)))))))))))))))))))))"

interpretation cohort_task: checked_codec "cohort_task_from_dict nfc" cohort_task_to_dict "cohort_task_post_init nfc"
proof
  fix d x assume "cohort_task_from_dict nfc d = Inr x"
  then show "cohort_task_post_init nfc x = Inr ()"
    unfolding cohort_task_from_dict_def by (elim bnd_InrE construct_checked)
next
  fix x assume ok: "cohort_task_post_init nfc x = Inr ()"
  have eta: "\<lparr>ct_schema_version = ct_schema_version x, ct_tuple_digest = ct_tuple_digest x,
       ct_task_id = ct_task_id x, ct_run_id = ct_run_id x, ct_exact_head_sha = ct_exact_head_sha x,
       ct_observed_at = ct_observed_at x, ct_m7_bundle_digest = ct_m7_bundle_digest x,
       ct_m7_outcome_digest = ct_m7_outcome_digest x, ct_audit_sampled = ct_audit_sampled x,
       ct_audit_accepted = ct_audit_accepted x,
       ct_human_acceptance_receipt_digest = ct_human_acceptance_receipt_digest x,
       ct_attestation_receipt_digest = ct_attestation_receipt_digest x,
       ct_quality_score_millionths = ct_quality_score_millionths x,
       ct_security_failure_count = ct_security_failure_count x,
       ct_authorization_failure_count = ct_authorization_failure_count x,
       ct_duplicate_dispatch_count = ct_duplicate_dispatch_count x,
       ct_cost_usd_micros = ct_cost_usd_micros x, ct_latency_ms = ct_latency_ms x,
       ct_demotion_trigger_count = ct_demotion_trigger_count x\<rparr> = x"
    by (cases x) simp
  have "valid_dt (ct_observed_at x)"
    using ok unfolding cohort_task_post_init_def by (simp only: res_simps)
  then have time0: "\<And>n. time_field (PStr (timestamp_text (ct_observed_at x))) n = Inr (ct_observed_at x)"
    by simp
  show "cohort_task_from_dict nfc (cohort_task_to_dict x) = Inr x"
    using ok [unfolded cohort_task_post_init_def]
    apply (simp only: res_simps hexpat_len.simps, elim conjE)
    apply (simp (no_asm) add: cohort_task_from_dict_def cohort_task_to_dict_def cohort_task_fields_def eta ok
        res_simps py_simps time0 cong: literal_congs)
    apply ((intro conjI)?; (assumption | simp))
    done
qed

section \<open>The evidence of a cohort\<close>

text \<open>The loop over \<open>tuple_bindings\<close>: the tuple against the cohort key and the provider mapping.\<close>

definition tuple_bindings :: "autonomy_tuple \<Rightarrow> autonomy_bridge \<Rightarrow> unit res" where
  "tuple_bindings t handoff =
     (let key = sh_key (ab_cohort handoff); mapping = ab_provider_mapping handoff in
      checks (map (\<lambda>(name, actual, expected). ensure (actual = expected) (ContractError ''tuple_mismatch'' name))
        [(''repository_id'', PStr (at_repository_id t), PStr (ck_repository_id key)),
         (''m7_change_class'', PStr (at_m7_change_class t), ck_change_class key),
         (''m7_cohort_key_digest'', PStr (at_m7_cohort_key_digest t), PStr (cohort_key_digest key)),
         (''provider_mapping_digest'', PStr (at_provider_mapping_digest t), PStr (provider_mapping_digest mapping)),
         (''agent_digest'', PStr (at_agent_digest t), PStr (ck_agent_digest key)),
         (''validator_digest'', PStr (at_validator_digest t), PStr (ck_validator_digest key)),
         (''provider_digest'', PStr (at_provider_digest t), PStr (pm_provider_digest mapping)),
         (''model_digest'', PStr (at_model_digest t), PStr (ck_model_digest key)),
         (''prompt_digest'', PStr (at_prompt_digest t), PStr (ck_prompt_digest key)),
         (''policy_digest'', PStr (at_policy_digest t), PStr (ck_policy_digest key)),
         (''runner_digest'', PStr (at_runner_digest t), PStr (ck_runner_digest key)),
         (''holdout_digest'', PStr (at_holdout_digest t), PStr (ck_holdout_digest key)),
         (''authority_digest'', PStr (at_authority_digest t), PStr (ck_authority_digest key))]))"

text \<open>A dict comprehension over a list: the last item of a key wins.\<close>

definition by_digest :: "('a \<Rightarrow> string) \<Rightarrow> 'a list \<Rightarrow> string \<Rightarrow> 'a option" where
  "by_digest digest items = map_of (rev (map (\<lambda>item. (digest item, item)) items))"

text \<open>The body of the loop that links each task to its bundle and its outcome.\<close>

definition task_link :: "autonomy_bridge \<Rightarrow> cohort_task \<Rightarrow> unit res" where
  "task_link handoff task =
     (case (by_digest bu_bundle_digest (ab_bundles handoff) (ct_m7_bundle_digest task),
            by_digest outcome_digest (sh_outcomes (ab_cohort handoff)) (ct_m7_outcome_digest task)) of
        (Some bundle, Some outcome) \<Rightarrow> checks
          [ensure (so_bundle_digest outcome = bu_bundle_digest bundle) (ContractError ''m7_outcome_mismatch'' ''bundle_digest''),
           ensure ((ct_task_id task, ct_run_id task, ct_exact_head_sha task) =
               (m4_task_id (se_m4 (bu_evidence bundle)), m4_run_id (se_m4 (bu_evidence bundle)),
                m5_result_exact_head_sha (se_m5 (bu_evidence bundle))))
             (ContractError ''m7_outcome_mismatch'' ''task_identity''),
           ensure (ct_human_acceptance_receipt_digest task = so_human_evidence_digest outcome)
             (ContractError ''m7_outcome_mismatch'' ''human_receipt'')]
      | _ \<Rightarrow> Inl (ContractError ''m7_outcome_mismatch'' ''task_link''))"

record cohort_evidence =
  cv_schema_version :: int
  cv_autonomy_tuple :: autonomy_tuple
  cv_tasks :: "cohort_task list"
  cv_m7_handoff :: autonomy_bridge
  cv_window_started_at :: datetime
  cv_window_ended_at :: datetime
  cv_minimum_human_acceptances :: int
  cv_minimum_audit_rate_millionths :: int
  cv_minimum_quality_score_millionths :: int
  cv_maximum_security_failures :: int
  cv_maximum_authorization_failures :: int
  cv_maximum_duplicate_dispatches :: int
  cv_maximum_cost_usd_micros :: int
  cv_maximum_latency_ms :: int
  cv_maximum_demotion_triggers :: int

definition cohort_evidence_fields :: "string list" where
  "cohort_evidence_fields =
     [''schema_version'', ''autonomy_tuple'', ''tasks'', ''m7_handoff'', ''window_started_at'',
      ''window_ended_at'', ''minimum_human_acceptances'', ''minimum_audit_rate_millionths'',
      ''minimum_quality_score_millionths'', ''maximum_security_failures'',
      ''maximum_authorization_failures'', ''maximum_duplicate_dispatches'', ''maximum_cost_usd_micros'',
      ''maximum_latency_ms'', ''maximum_demotion_triggers'']"

definition cohort_evidence_post_init :: "(string \<Rightarrow> string) \<Rightarrow> cohort_evidence \<Rightarrow> unit res" where
  "cohort_evidence_post_init nfc x = checks
     [
      void (sh_version (PInt (cv_schema_version x)) ''cohort_evidence''),
      ensure (instance_of (autonomy_tuple_post_init nfc) (cv_autonomy_tuple x)) (ContractError ''invalid_contract'' ''autonomy_tuple''),
      ensure (cv_tasks x \<noteq> [] \<and> length (cv_tasks x) \<le> MAX_COHORT_TASKS) (ContractError ''invalid_contract'' ''tasks''),
      ensure (list_all (instance_of (cohort_task_post_init nfc)) (cv_tasks x)) (ContractError ''invalid_contract'' ''tasks''),
      ensure (map ct_task_id (cv_tasks x) = sort (map ct_task_id (cv_tasks x))) (ContractError ''invalid_order'' ''tasks''),
      ensure (distinct (map ct_task_id (cv_tasks x))) (ContractError ''duplicate_identity'' ''task_id''),
      ensure (distinct (map ct_run_id (cv_tasks x))) (ContractError ''duplicate_identity'' ''run_id''),
      ensure (distinct (map ct_exact_head_sha (cv_tasks x))) (ContractError ''duplicate_identity'' ''exact_head_sha''),
      ensure (list_all (\<lambda>t. ct_tuple_digest t = tuple_digest (cv_autonomy_tuple x)) (cv_tasks x)) (ContractError ''tuple_mismatch'' []),
      ensure (instance_of (autonomy_bridge_post_init nfc) (cv_m7_handoff x)) (ContractError ''invalid_contract'' ''m7_handoff''),
      tuple_bindings (cv_autonomy_tuple x) (cv_m7_handoff x),
      ensure (length (cv_tasks x) = length (sh_outcomes (ab_cohort (cv_m7_handoff x)))) (ContractError ''m7_outcome_mismatch'' ''task_count''),
      ensure (distinct (map ct_m7_bundle_digest (cv_tasks x))) (ContractError ''duplicate_identity'' ''m7_bundle_digest''),
      ensure (distinct (map ct_m7_outcome_digest (cv_tasks x))) (ContractError ''duplicate_identity'' ''m7_outcome_digest''),
      checks (map (task_link (cv_m7_handoff x)) (cv_tasks x)),
      ensure (valid_dt (cv_window_started_at x) \<and> valid_dt (cv_window_ended_at x) \<and>
         \<not> cv_window_ended_at x \<le> cv_window_started_at x) (ContractError ''invalid_time'' ''cohort_window''),
      ensure (\<not> at_expires_at (cv_autonomy_tuple x) < cv_window_ended_at x) (ContractError ''invalid_time'' ''cohort_after_tuple_expiry''),
      ensure (\<not> list_ex (\<lambda>t. at_expires_at (cv_autonomy_tuple x) \<le> ct_observed_at t) (cv_tasks x))
        (ContractError ''invalid_time'' ''task_at_or_after_tuple_expiry''),
      ensure (\<not> list_ex (\<lambda>t. \<not> (cv_window_started_at x \<le> ct_observed_at t \<and> ct_observed_at t \<le> cv_window_ended_at x)) (cv_tasks x))
        (ContractError ''invalid_time'' ''task_outside_window''),
      void (au_integer (PInt (cv_minimum_human_acceptances x)) ''minimum_human_acceptances'' 30 (int MAX_COHORT_TASKS)),
      void (au_integer (PInt (cv_minimum_audit_rate_millionths x)) ''minimum_audit_rate_millionths'' 200000 1000000),
      void (au_integer (PInt (cv_minimum_quality_score_millionths x)) ''minimum_quality_score_millionths'' 0 1000000),
      ensure (cv_maximum_security_failures x = 0) (ContractError ''zero_tolerance_required'' ''maximum_security_failures''),
      ensure (cv_maximum_authorization_failures x = 0) (ContractError ''zero_tolerance_required'' ''maximum_authorization_failures''),
      ensure (cv_maximum_duplicate_dispatches x = 0) (ContractError ''zero_tolerance_required'' ''maximum_duplicate_dispatches''),
      ensure (cv_maximum_demotion_triggers x = 0) (ContractError ''zero_tolerance_required'' ''maximum_demotion_triggers''),
      void (au_integer (PInt (cv_maximum_cost_usd_micros x)) ''maximum_cost_usd_micros'' 0 MAX_COST_USD_MICROS),
      void (au_integer (PInt (cv_maximum_latency_ms x)) ''maximum_latency_ms'' 0 MAX_LATENCY_MS)]"

definition cohort_evidence_to_dict :: "cohort_evidence \<Rightarrow> pyval" where
  "cohort_evidence_to_dict x = py_dict
     [(''schema_version'', PInt (cv_schema_version x)),
      (''autonomy_tuple'', autonomy_tuple_to_dict (cv_autonomy_tuple x)),
      (''tasks'', PList (map cohort_task_to_dict (cv_tasks x))),
      (''m7_handoff'', autonomy_bridge_to_dict (cv_m7_handoff x)),
      (''window_started_at'', PStr (timestamp_text (cv_window_started_at x))),
      (''window_ended_at'', PStr (timestamp_text (cv_window_ended_at x))),
      (''minimum_human_acceptances'', PInt (cv_minimum_human_acceptances x)),
      (''minimum_audit_rate_millionths'', PInt (cv_minimum_audit_rate_millionths x)),
      (''minimum_quality_score_millionths'', PInt (cv_minimum_quality_score_millionths x)),
      (''maximum_security_failures'', PInt (cv_maximum_security_failures x)),
      (''maximum_authorization_failures'', PInt (cv_maximum_authorization_failures x)),
      (''maximum_duplicate_dispatches'', PInt (cv_maximum_duplicate_dispatches x)),
      (''maximum_cost_usd_micros'', PInt (cv_maximum_cost_usd_micros x)),
      (''maximum_latency_ms'', PInt (cv_maximum_latency_ms x)),
      (''maximum_demotion_triggers'', PInt (cv_maximum_demotion_triggers x))]"

definition cohort_evidence_from_dict :: "(string \<Rightarrow> string) \<Rightarrow> pyval \<Rightarrow> cohort_evidence res" where
  "cohort_evidence_from_dict nfc data =
     bnd (sh_object data ''cohort_evidence'') (\<lambda>_.
     bnd (closed data cohort_evidence_fields) (\<lambda>_.
     bnd (field data ''tasks'' (\<lambda>v. list_items v (ContractError ''invalid_contract'' ''tasks''))) (\<lambda>tasks.
     bnd (ensure (tasks \<noteq> [] \<and> length tasks \<le> MAX_COHORT_TASKS) (ContractError ''invalid_contract'' ''tasks'')) (\<lambda>_.
     bnd (field data ''schema_version'' (\<lambda>v. sh_version v ''cohort_evidence'')) (\<lambda>version.
     bnd (field data ''autonomy_tuple'' (autonomy_tuple_from_dict nfc)) (\<lambda>v_autonomy_tuple.
     bnd (map_res (cohort_task_from_dict nfc) tasks) (\<lambda>v_tasks.
     bnd (field data ''m7_handoff'' (autonomy_bridge_from_dict nfc)) (\<lambda>v_m7_handoff.
     bnd (field data ''window_started_at'' (\<lambda>v. time_field v ''window_started_at'')) (\<lambda>v_window_started_at.
     bnd (field data ''window_ended_at'' (\<lambda>v. time_field v ''window_ended_at'')) (\<lambda>v_window_ended_at.
     bnd (field data ''minimum_human_acceptances'' (\<lambda>v. au_integer v ''minimum_human_acceptances'' 30 (int MAX_COHORT_TASKS))) (\<lambda>v_minimum_human_acceptances.
     bnd (field data ''minimum_audit_rate_millionths'' (\<lambda>v. au_integer v ''minimum_audit_rate_millionths'' 200000 1000000)) (\<lambda>v_minimum_audit_rate_millionths.
     bnd (field data ''minimum_quality_score_millionths'' (\<lambda>v. au_integer v ''minimum_quality_score_millionths'' 0 1000000)) (\<lambda>v_minimum_quality_score_millionths.
     bnd (field data ''maximum_security_failures'' (\<lambda>v. au_integer v ''maximum_security_failures'' 0 0)) (\<lambda>v_maximum_security_failures.
     bnd (field data ''maximum_authorization_failures'' (\<lambda>v. au_integer v ''maximum_authorization_failures'' 0 0)) (\<lambda>v_maximum_authorization_failures.
     bnd (field data ''maximum_duplicate_dispatches'' (\<lambda>v. au_integer v ''maximum_duplicate_dispatches'' 0 0)) (\<lambda>v_maximum_duplicate_dispatches.
     bnd (field data ''maximum_cost_usd_micros'' (\<lambda>v. au_integer v ''maximum_cost_usd_micros'' 0 MAX_COST_USD_MICROS)) (\<lambda>v_maximum_cost_usd_micros.
     bnd (field data ''maximum_latency_ms'' (\<lambda>v. au_integer v ''maximum_latency_ms'' 0 MAX_LATENCY_MS)) (\<lambda>v_maximum_latency_ms.
     bnd (field data ''maximum_demotion_triggers'' (\<lambda>v. au_integer v ''maximum_demotion_triggers'' 0 0)) (\<lambda>v_maximum_demotion_triggers.
     construct (cohort_evidence_post_init nfc)
        \<lparr>cv_schema_version = version, cv_autonomy_tuple = v_autonomy_tuple, cv_tasks = v_tasks,
          cv_m7_handoff = v_m7_handoff, cv_window_started_at = v_window_started_at,
          cv_window_ended_at = v_window_ended_at,
          cv_minimum_human_acceptances = v_minimum_human_acceptances,
          cv_minimum_audit_rate_millionths = v_minimum_audit_rate_millionths,
          cv_minimum_quality_score_millionths = v_minimum_quality_score_millionths,
          cv_maximum_security_failures = v_maximum_security_failures,
          cv_maximum_authorization_failures = v_maximum_authorization_failures,
          cv_maximum_duplicate_dispatches = v_maximum_duplicate_dispatches,
          cv_maximum_cost_usd_micros = v_maximum_cost_usd_micros,
          cv_maximum_latency_ms = v_maximum_latency_ms,
          cv_maximum_demotion_triggers = v_maximum_demotion_triggers\<rparr>)))))))))))))))))))"

interpretation cohort_evidence: checked_codec "cohort_evidence_from_dict nfc" cohort_evidence_to_dict "cohort_evidence_post_init nfc"
proof
  fix d x assume "cohort_evidence_from_dict nfc d = Inr x"
  then show "cohort_evidence_post_init nfc x = Inr ()"
    unfolding cohort_evidence_from_dict_def by (elim bnd_InrE construct_checked)
next
  fix x assume ok: "cohort_evidence_post_init nfc x = Inr ()"
  have eta: "\<lparr>cv_schema_version = cv_schema_version x, cv_autonomy_tuple = cv_autonomy_tuple x,
       cv_tasks = cv_tasks x, cv_m7_handoff = cv_m7_handoff x,
       cv_window_started_at = cv_window_started_at x, cv_window_ended_at = cv_window_ended_at x,
       cv_minimum_human_acceptances = cv_minimum_human_acceptances x,
       cv_minimum_audit_rate_millionths = cv_minimum_audit_rate_millionths x,
       cv_minimum_quality_score_millionths = cv_minimum_quality_score_millionths x,
       cv_maximum_security_failures = cv_maximum_security_failures x,
       cv_maximum_authorization_failures = cv_maximum_authorization_failures x,
       cv_maximum_duplicate_dispatches = cv_maximum_duplicate_dispatches x,
       cv_maximum_cost_usd_micros = cv_maximum_cost_usd_micros x,
       cv_maximum_latency_ms = cv_maximum_latency_ms x,
       cv_maximum_demotion_triggers = cv_maximum_demotion_triggers x\<rparr> = x"
    by (cases x) simp
  have "instance_of (autonomy_tuple_post_init nfc) (cv_autonomy_tuple x)"
    using ok unfolding cohort_evidence_post_init_def by (simp only: res_simps)
  then have nested0: "autonomy_tuple_from_dict nfc (autonomy_tuple_to_dict (cv_autonomy_tuple x)) = Inr (cv_autonomy_tuple x)"
    unfolding instance_of_def by (rule autonomy_tuple.parse_render)
  have "instance_of (autonomy_bridge_post_init nfc) (cv_m7_handoff x)"
    using ok unfolding cohort_evidence_post_init_def by (simp only: res_simps)
  then have nested1: "autonomy_bridge_from_dict nfc (autonomy_bridge_to_dict (cv_m7_handoff x)) = Inr (cv_m7_handoff x)"
    unfolding instance_of_def by (rule autonomy_bridge.parse_render)
  have "valid_dt (cv_window_started_at x)"
    using ok unfolding cohort_evidence_post_init_def by (simp only: res_simps)
  then have time0: "\<And>n. time_field (PStr (timestamp_text (cv_window_started_at x))) n = Inr (cv_window_started_at x)"
    by simp
  have "valid_dt (cv_window_ended_at x)"
    using ok unfolding cohort_evidence_post_init_def by (simp only: res_simps)
  then have time1: "\<And>n. time_field (PStr (timestamp_text (cv_window_ended_at x))) n = Inr (cv_window_ended_at x)"
    by simp
  have "list_all (instance_of (cohort_task_post_init nfc)) (cv_tasks x)"
    using ok unfolding cohort_evidence_post_init_def by (simp only: res_simps)
  then have nested2: "map_res (cohort_task_from_dict nfc) (map cohort_task_to_dict (cv_tasks x)) = Inr (cv_tasks x)"
    by (intro cohort_task.map_parse_render) (simp add: list_all_iff instance_of_def)
  show "cohort_evidence_from_dict nfc (cohort_evidence_to_dict x) = Inr x"
    using ok [unfolded cohort_evidence_post_init_def]
    apply (simp only: res_simps hexpat_len.simps, elim conjE)
    apply (simp (no_asm) add: cohort_evidence_from_dict_def cohort_evidence_to_dict_def cohort_evidence_fields_def eta ok
        res_simps py_simps time0 time1 nested0 nested1 nested2 cong: literal_congs)
    apply ((intro conjI)?; (assumption | simp))
    done
qed

definition evidence_cohort_digest :: "cohort_evidence \<Rightarrow> string" where
  "evidence_cohort_digest x = domain_digest ''adaptive-factory.m8-cohort-evidence/v1'' (cohort_evidence_to_dict x)"

section \<open>The profile\<close>

record autonomy_profile =
  ap_schema_version :: int
  ap_tuple_digest :: string
  ap_cohort_digest :: string
  ap_current_level :: string
  ap_accepted_task_count :: int
  ap_audit_sample_count :: int
  ap_audit_accepted_count :: int
  ap_minimum_quality_score_millionths :: int
  ap_total_security_failures :: int
  ap_total_authorization_failures :: int
  ap_total_duplicate_dispatches :: int
  ap_maximum_cost_usd_micros :: int
  ap_p95_latency_ms :: int
  ap_total_demotion_triggers :: int
  ap_expires_at :: datetime
  ap_halted :: bool

definition autonomy_profile_fields :: "string list" where
  "autonomy_profile_fields =
     [''schema_version'', ''tuple_digest'', ''cohort_digest'', ''current_level'', ''accepted_task_count'',
      ''audit_sample_count'', ''audit_accepted_count'', ''minimum_quality_score_millionths'',
      ''total_security_failures'', ''total_authorization_failures'', ''total_duplicate_dispatches'',
      ''maximum_cost_usd_micros'', ''p95_latency_ms'', ''total_demotion_triggers'', ''expires_at'',
      ''halted'']"

definition autonomy_profile_post_init :: "autonomy_profile \<Rightarrow> unit res" where
  "autonomy_profile_post_init x = checks
     [
      void (sh_version (PInt (ap_schema_version x)) ''autonomy_profile''),
      void (hex_field (PStr (ap_tuple_digest x)) ''tuple_digest'' HEX64),
      void (hex_field (PStr (ap_cohort_digest x)) ''cohort_digest'' HEX64),
      void (au_level (PStr (ap_current_level x)) ''current_level''),
      void (au_integer (PInt (ap_accepted_task_count x)) ''accepted_task_count'' 0 MAX_COUNT),
      void (au_integer (PInt (ap_audit_sample_count x)) ''audit_sample_count'' 0 MAX_COUNT),
      void (au_integer (PInt (ap_audit_accepted_count x)) ''audit_accepted_count'' 0 MAX_COUNT),
      void (au_integer (PInt (ap_total_security_failures x)) ''total_security_failures'' 0 MAX_COUNT),
      void (au_integer (PInt (ap_total_authorization_failures x)) ''total_authorization_failures'' 0 MAX_COUNT),
      void (au_integer (PInt (ap_total_duplicate_dispatches x)) ''total_duplicate_dispatches'' 0 MAX_COUNT),
      void (au_integer (PInt (ap_total_demotion_triggers x)) ''total_demotion_triggers'' 0 MAX_COUNT),
      ensure (\<not> ap_audit_sample_count x < ap_audit_accepted_count x) (ContractError ''invalid_audit_state'' []),
      void (au_integer (PInt (ap_minimum_quality_score_millionths x)) ''minimum_quality_score_millionths'' 0 1000000),
      void (au_integer (PInt (ap_maximum_cost_usd_micros x)) ''maximum_cost_usd_micros'' 0 MAX_COST_USD_MICROS),
      void (au_integer (PInt (ap_p95_latency_ms x)) ''p95_latency_ms'' 0 MAX_LATENCY_MS),
      ensure (valid_dt (ap_expires_at x)) (ContractError ''invalid_time'' ''expires_at''),
      void (au_boolean (PBool (ap_halted x)) ''halted''),
      ensure (\<not> (ap_halted x \<and> ap_current_level x \<noteq> ''L0'')) (ContractError ''invalid_halted_profile'' [])]"

definition autonomy_profile_to_dict :: "autonomy_profile \<Rightarrow> pyval" where
  "autonomy_profile_to_dict x = py_dict
     [(''schema_version'', PInt (ap_schema_version x)), (''tuple_digest'', PStr (ap_tuple_digest x)),
      (''cohort_digest'', PStr (ap_cohort_digest x)), (''current_level'', PStr (ap_current_level x)),
      (''accepted_task_count'', PInt (ap_accepted_task_count x)),
      (''audit_sample_count'', PInt (ap_audit_sample_count x)),
      (''audit_accepted_count'', PInt (ap_audit_accepted_count x)),
      (''minimum_quality_score_millionths'', PInt (ap_minimum_quality_score_millionths x)),
      (''total_security_failures'', PInt (ap_total_security_failures x)),
      (''total_authorization_failures'', PInt (ap_total_authorization_failures x)),
      (''total_duplicate_dispatches'', PInt (ap_total_duplicate_dispatches x)),
      (''maximum_cost_usd_micros'', PInt (ap_maximum_cost_usd_micros x)),
      (''p95_latency_ms'', PInt (ap_p95_latency_ms x)),
      (''total_demotion_triggers'', PInt (ap_total_demotion_triggers x)),
      (''expires_at'', PStr (timestamp_text (ap_expires_at x))), (''halted'', PBool (ap_halted x))]"

definition autonomy_profile_from_dict :: "pyval \<Rightarrow> autonomy_profile res" where
  "autonomy_profile_from_dict data =
     bnd (sh_object data ''autonomy_profile'') (\<lambda>_.
     bnd (closed data autonomy_profile_fields) (\<lambda>_.
     bnd (field data ''schema_version'' (\<lambda>v. sh_version v ''autonomy_profile'')) (\<lambda>version.
     bnd (field data ''tuple_digest'' (\<lambda>v. hex_field v ''tuple_digest'' HEX64)) (\<lambda>v_tuple_digest.
     bnd (field data ''cohort_digest'' (\<lambda>v. hex_field v ''cohort_digest'' HEX64)) (\<lambda>v_cohort_digest.
     bnd (field data ''current_level'' (\<lambda>v. au_level v ''current_level'')) (\<lambda>v_current_level.
     bnd (field data ''accepted_task_count'' (\<lambda>v. au_integer v ''accepted_task_count'' 0 MAX_COUNT)) (\<lambda>v_accepted_task_count.
     bnd (field data ''audit_sample_count'' (\<lambda>v. au_integer v ''audit_sample_count'' 0 MAX_COUNT)) (\<lambda>v_audit_sample_count.
     bnd (field data ''audit_accepted_count'' (\<lambda>v. au_integer v ''audit_accepted_count'' 0 MAX_COUNT)) (\<lambda>v_audit_accepted_count.
     bnd (field data ''minimum_quality_score_millionths'' (\<lambda>v. au_integer v ''minimum_quality_score_millionths'' 0 1000000)) (\<lambda>v_minimum_quality_score_millionths.
     bnd (field data ''total_security_failures'' (\<lambda>v. au_integer v ''total_security_failures'' 0 MAX_COUNT)) (\<lambda>v_total_security_failures.
     bnd (field data ''total_authorization_failures'' (\<lambda>v. au_integer v ''total_authorization_failures'' 0 MAX_COUNT)) (\<lambda>v_total_authorization_failures.
     bnd (field data ''total_duplicate_dispatches'' (\<lambda>v. au_integer v ''total_duplicate_dispatches'' 0 MAX_COUNT)) (\<lambda>v_total_duplicate_dispatches.
     bnd (field data ''maximum_cost_usd_micros'' (\<lambda>v. au_integer v ''maximum_cost_usd_micros'' 0 MAX_COST_USD_MICROS)) (\<lambda>v_maximum_cost_usd_micros.
     bnd (field data ''p95_latency_ms'' (\<lambda>v. au_integer v ''p95_latency_ms'' 0 MAX_LATENCY_MS)) (\<lambda>v_p95_latency_ms.
     bnd (field data ''total_demotion_triggers'' (\<lambda>v. au_integer v ''total_demotion_triggers'' 0 MAX_COUNT)) (\<lambda>v_total_demotion_triggers.
     bnd (field data ''expires_at'' (\<lambda>v. time_field v ''expires_at'')) (\<lambda>v_expires_at.
     bnd (field data ''halted'' (\<lambda>v. au_boolean v ''halted'')) (\<lambda>v_halted.
     construct autonomy_profile_post_init
        \<lparr>ap_schema_version = version, ap_tuple_digest = v_tuple_digest,
          ap_cohort_digest = v_cohort_digest, ap_current_level = v_current_level,
          ap_accepted_task_count = v_accepted_task_count, ap_audit_sample_count = v_audit_sample_count,
          ap_audit_accepted_count = v_audit_accepted_count,
          ap_minimum_quality_score_millionths = v_minimum_quality_score_millionths,
          ap_total_security_failures = v_total_security_failures,
          ap_total_authorization_failures = v_total_authorization_failures,
          ap_total_duplicate_dispatches = v_total_duplicate_dispatches,
          ap_maximum_cost_usd_micros = v_maximum_cost_usd_micros, ap_p95_latency_ms = v_p95_latency_ms,
          ap_total_demotion_triggers = v_total_demotion_triggers, ap_expires_at = v_expires_at,
          ap_halted = v_halted\<rparr>))))))))))))))))))"

interpretation autonomy_profile: checked_codec autonomy_profile_from_dict autonomy_profile_to_dict autonomy_profile_post_init
proof
  fix d x assume "autonomy_profile_from_dict d = Inr x"
  then show "autonomy_profile_post_init x = Inr ()"
    unfolding autonomy_profile_from_dict_def by (elim bnd_InrE construct_checked)
next
  fix x assume ok: "autonomy_profile_post_init x = Inr ()"
  have eta: "\<lparr>ap_schema_version = ap_schema_version x, ap_tuple_digest = ap_tuple_digest x,
       ap_cohort_digest = ap_cohort_digest x, ap_current_level = ap_current_level x,
       ap_accepted_task_count = ap_accepted_task_count x,
       ap_audit_sample_count = ap_audit_sample_count x,
       ap_audit_accepted_count = ap_audit_accepted_count x,
       ap_minimum_quality_score_millionths = ap_minimum_quality_score_millionths x,
       ap_total_security_failures = ap_total_security_failures x,
       ap_total_authorization_failures = ap_total_authorization_failures x,
       ap_total_duplicate_dispatches = ap_total_duplicate_dispatches x,
       ap_maximum_cost_usd_micros = ap_maximum_cost_usd_micros x,
       ap_p95_latency_ms = ap_p95_latency_ms x,
       ap_total_demotion_triggers = ap_total_demotion_triggers x, ap_expires_at = ap_expires_at x,
       ap_halted = ap_halted x\<rparr> = x"
    by (cases x) simp
  have "valid_dt (ap_expires_at x)"
    using ok unfolding autonomy_profile_post_init_def by (simp only: res_simps)
  then have time0: "\<And>n. time_field (PStr (timestamp_text (ap_expires_at x))) n = Inr (ap_expires_at x)"
    by simp
  show "autonomy_profile_from_dict (autonomy_profile_to_dict x) = Inr x"
    using ok [unfolded autonomy_profile_post_init_def]
    apply (simp only: res_simps hexpat_len.simps, elim conjE)
    apply (simp (no_asm) add: autonomy_profile_from_dict_def autonomy_profile_to_dict_def autonomy_profile_fields_def eta ok
        res_simps py_simps time0 cong: literal_congs)
    apply ((intro conjI)?; (assumption | simp))
    done
qed

definition profile_digest :: "autonomy_profile \<Rightarrow> string" where
  "profile_digest x = domain_digest ''adaptive-factory.m8-autonomy-profile/v1'' (autonomy_profile_to_dict x)"

section \<open>The recommendation\<close>

record recommendation =
  rn_schema_version :: int
  rn_tuple_digest :: string
  rn_cohort_digest :: string
  rn_current_level :: string
  rn_recommended_level :: string
  rn_reason_code :: pyval
  rn_evaluated_at :: datetime
  rn_expires_at :: datetime
  rn_separate_activation_required :: bool
  rn_external_action_authorized :: bool

definition recommendation_fields :: "string list" where
  "recommendation_fields =
     [''schema_version'', ''tuple_digest'', ''cohort_digest'', ''current_level'', ''recommended_level'',
      ''reason_code'', ''evaluated_at'', ''expires_at'', ''separate_activation_required'',
      ''external_action_authorized'']"

definition recommendation_post_init :: "recommendation \<Rightarrow> unit res" where
  "recommendation_post_init x = checks
     [
      void (sh_version (PInt (rn_schema_version x)) ''promotion_recommendation''),
      void (hex_field (PStr (rn_tuple_digest x)) ''tuple_digest'' HEX64),
      void (hex_field (PStr (rn_cohort_digest x)) ''cohort_digest'' HEX64),
      void (au_level (PStr (rn_current_level x)) ''current_level''),
      void (au_level (PStr (rn_recommended_level x)) ''recommended_level''),
      ensure (level_index (rn_recommended_level x) = level_index (rn_current_level x) \<or>
         level_index (rn_recommended_level x) = level_index (rn_current_level x) + 1) (ContractError ''invalid_transition'' []),
      sh_member (rn_reason_code x) RECOMMENDATION_REASONS (ContractError ''invalid_reason'' []),
      ensure ((level_index (rn_recommended_level x) = level_index (rn_current_level x) + 1) =
         py_eq_str (rn_reason_code x) ''qualified'') (ContractError ''invalid_transition'' []),
      ensure (valid_dt (rn_evaluated_at x)) (ContractError ''invalid_time'' ''evaluated_at''),
      ensure (valid_dt (rn_expires_at x)) (ContractError ''invalid_time'' ''expires_at''),
      ensure (\<not> (py_eq_str (rn_reason_code x) ''tuple_expired'' \<and> (rn_evaluated_at x < rn_expires_at x \<or>
         rn_current_level x \<noteq> ''L0'' \<or> rn_recommended_level x \<noteq> ''L0''))) (ContractError ''invalid_expired_recommendation'' []),
      ensure (\<not> (\<not> py_eq_str (rn_reason_code x) ''tuple_expired'' \<and> rn_expires_at x \<le> rn_evaluated_at x))
        (ContractError ''invalid_time'' ''recommendation_expiry''),
      ensure (rn_separate_activation_required x) (ContractError ''separate_activation_required'' []),
      ensure (\<not> rn_external_action_authorized x) (ContractError ''external_action_forbidden'' [])]"

definition recommendation_to_dict :: "recommendation \<Rightarrow> pyval" where
  "recommendation_to_dict x = py_dict
     [(''schema_version'', PInt (rn_schema_version x)), (''tuple_digest'', PStr (rn_tuple_digest x)),
      (''cohort_digest'', PStr (rn_cohort_digest x)), (''current_level'', PStr (rn_current_level x)),
      (''recommended_level'', PStr (rn_recommended_level x)), (''reason_code'', rn_reason_code x),
      (''evaluated_at'', PStr (timestamp_text (rn_evaluated_at x))),
      (''expires_at'', PStr (timestamp_text (rn_expires_at x))),
      (''separate_activation_required'', PBool (rn_separate_activation_required x)),
      (''external_action_authorized'', PBool (rn_external_action_authorized x))]"

definition recommendation_from_dict :: "pyval \<Rightarrow> recommendation res" where
  "recommendation_from_dict data =
     bnd (sh_object data ''promotion_recommendation'') (\<lambda>_.
     bnd (closed data recommendation_fields) (\<lambda>_.
     bnd (field data ''schema_version'' (\<lambda>v. sh_version v ''promotion_recommendation'')) (\<lambda>version.
     bnd (field data ''tuple_digest'' (\<lambda>v. hex_field v ''tuple_digest'' HEX64)) (\<lambda>v_tuple_digest.
     bnd (field data ''cohort_digest'' (\<lambda>v. hex_field v ''cohort_digest'' HEX64)) (\<lambda>v_cohort_digest.
     bnd (field data ''current_level'' (\<lambda>v. au_level v ''current_level'')) (\<lambda>v_current_level.
     bnd (field data ''recommended_level'' (\<lambda>v. au_level v ''recommended_level'')) (\<lambda>v_recommended_level.
     bnd (getitem data ''reason_code'') (\<lambda>v_reason_code.
     bnd (field data ''evaluated_at'' (\<lambda>v. time_field v ''evaluated_at'')) (\<lambda>v_evaluated_at.
     bnd (field data ''expires_at'' (\<lambda>v. time_field v ''expires_at'')) (\<lambda>v_expires_at.
     bnd (field data ''separate_activation_required'' (\<lambda>v. au_boolean v ''separate_activation_required'')) (\<lambda>v_separate_activation_required.
     bnd (field data ''external_action_authorized'' (\<lambda>v. au_boolean v ''external_action_authorized'')) (\<lambda>v_external_action_authorized.
     construct recommendation_post_init
        \<lparr>rn_schema_version = version, rn_tuple_digest = v_tuple_digest,
          rn_cohort_digest = v_cohort_digest, rn_current_level = v_current_level,
          rn_recommended_level = v_recommended_level, rn_reason_code = v_reason_code,
          rn_evaluated_at = v_evaluated_at, rn_expires_at = v_expires_at,
          rn_separate_activation_required = v_separate_activation_required,
          rn_external_action_authorized = v_external_action_authorized\<rparr>))))))))))))"

interpretation recommendation: checked_codec recommendation_from_dict recommendation_to_dict recommendation_post_init
proof
  fix d x assume "recommendation_from_dict d = Inr x"
  then show "recommendation_post_init x = Inr ()"
    unfolding recommendation_from_dict_def by (elim bnd_InrE construct_checked)
next
  fix x assume ok: "recommendation_post_init x = Inr ()"
  have eta: "\<lparr>rn_schema_version = rn_schema_version x, rn_tuple_digest = rn_tuple_digest x,
       rn_cohort_digest = rn_cohort_digest x, rn_current_level = rn_current_level x,
       rn_recommended_level = rn_recommended_level x, rn_reason_code = rn_reason_code x,
       rn_evaluated_at = rn_evaluated_at x, rn_expires_at = rn_expires_at x,
       rn_separate_activation_required = rn_separate_activation_required x,
       rn_external_action_authorized = rn_external_action_authorized x\<rparr> = x"
    by (cases x) simp
  have "valid_dt (rn_evaluated_at x)"
    using ok unfolding recommendation_post_init_def by (simp only: res_simps)
  then have time0: "\<And>n. time_field (PStr (timestamp_text (rn_evaluated_at x))) n = Inr (rn_evaluated_at x)"
    by simp
  have "valid_dt (rn_expires_at x)"
    using ok unfolding recommendation_post_init_def by (simp only: res_simps)
  then have time1: "\<And>n. time_field (PStr (timestamp_text (rn_expires_at x))) n = Inr (rn_expires_at x)"
    by simp
  show "recommendation_from_dict (recommendation_to_dict x) = Inr x"
    using ok [unfolded recommendation_post_init_def]
    apply (simp only: res_simps hexpat_len.simps, elim conjE)
    apply (simp (no_asm) add: recommendation_from_dict_def recommendation_to_dict_def recommendation_fields_def eta ok
        res_simps py_simps time0 time1 cong: literal_congs)
    apply ((intro conjI)?; (assumption | simp))
    done
qed

section \<open>The demotion decision\<close>

record demotion_decision =
  dd_schema_version :: int
  dd_profile_digest :: string
  dd_tuple_digest :: string
  dd_trigger :: pyval
  dd_prior_level :: string
  dd_resulting_level :: pyval
  dd_effective_at :: datetime
  dd_halt :: bool
  dd_external_action_authorized :: bool

definition demotion_decision_fields :: "string list" where
  "demotion_decision_fields =
     [''schema_version'', ''profile_digest'', ''tuple_digest'', ''trigger'', ''prior_level'',
      ''resulting_level'', ''effective_at'', ''halt'', ''external_action_authorized'']"

definition demotion_decision_post_init :: "demotion_decision \<Rightarrow> unit res" where
  "demotion_decision_post_init x = checks
     [
      void (sh_version (PInt (dd_schema_version x)) ''demotion_decision''),
      void (hex_field (PStr (dd_profile_digest x)) ''profile_digest'' HEX64),
      void (hex_field (PStr (dd_tuple_digest x)) ''tuple_digest'' HEX64),
      ensure (in_str_tuple (dd_trigger x) DEMOTION_TRIGGERS) (ContractError ''invalid_demotion_trigger'' []),
      void (au_level (PStr (dd_prior_level x)) ''prior_level''),
      ensure (py_eq_str (dd_resulting_level x) ''L0'') (ContractError ''invalid_demotion'' []),
      ensure (valid_dt (dd_effective_at x)) (ContractError ''invalid_time'' ''effective_at''),
      ensure (dd_halt x) (ContractError ''invalid_demotion'' []),
      ensure (\<not> dd_external_action_authorized x) (ContractError ''external_action_forbidden'' [])]"

definition demotion_decision_to_dict :: "demotion_decision \<Rightarrow> pyval" where
  "demotion_decision_to_dict x = py_dict
     [(''schema_version'', PInt (dd_schema_version x)), (''profile_digest'', PStr (dd_profile_digest x)),
      (''tuple_digest'', PStr (dd_tuple_digest x)), (''trigger'', dd_trigger x),
      (''prior_level'', PStr (dd_prior_level x)), (''resulting_level'', dd_resulting_level x),
      (''effective_at'', PStr (timestamp_text (dd_effective_at x))), (''halt'', PBool (dd_halt x)),
      (''external_action_authorized'', PBool (dd_external_action_authorized x))]"

definition demotion_decision_from_dict :: "pyval \<Rightarrow> demotion_decision res" where
  "demotion_decision_from_dict data =
     bnd (sh_object data ''demotion_decision'') (\<lambda>_.
     bnd (closed data demotion_decision_fields) (\<lambda>_.
     bnd (field data ''schema_version'' (\<lambda>v. sh_version v ''demotion_decision'')) (\<lambda>version.
     bnd (field data ''profile_digest'' (\<lambda>v. hex_field v ''profile_digest'' HEX64)) (\<lambda>v_profile_digest.
     bnd (field data ''tuple_digest'' (\<lambda>v. hex_field v ''tuple_digest'' HEX64)) (\<lambda>v_tuple_digest.
     bnd (getitem data ''trigger'') (\<lambda>v_trigger.
     bnd (field data ''prior_level'' (\<lambda>v. au_level v ''prior_level'')) (\<lambda>v_prior_level.
     bnd (getitem data ''resulting_level'') (\<lambda>v_resulting_level.
     bnd (field data ''effective_at'' (\<lambda>v. time_field v ''effective_at'')) (\<lambda>v_effective_at.
     bnd (field data ''halt'' (\<lambda>v. au_boolean v ''halt'')) (\<lambda>v_halt.
     bnd (field data ''external_action_authorized'' (\<lambda>v. au_boolean v ''external_action_authorized'')) (\<lambda>v_external_action_authorized.
     construct demotion_decision_post_init
        \<lparr>dd_schema_version = version, dd_profile_digest = v_profile_digest,
          dd_tuple_digest = v_tuple_digest, dd_trigger = v_trigger, dd_prior_level = v_prior_level,
          dd_resulting_level = v_resulting_level, dd_effective_at = v_effective_at, dd_halt = v_halt,
          dd_external_action_authorized = v_external_action_authorized\<rparr>)))))))))))"

interpretation demotion_decision: checked_codec demotion_decision_from_dict demotion_decision_to_dict demotion_decision_post_init
proof
  fix d x assume "demotion_decision_from_dict d = Inr x"
  then show "demotion_decision_post_init x = Inr ()"
    unfolding demotion_decision_from_dict_def by (elim bnd_InrE construct_checked)
next
  fix x assume ok: "demotion_decision_post_init x = Inr ()"
  have eta: "\<lparr>dd_schema_version = dd_schema_version x, dd_profile_digest = dd_profile_digest x,
       dd_tuple_digest = dd_tuple_digest x, dd_trigger = dd_trigger x,
       dd_prior_level = dd_prior_level x, dd_resulting_level = dd_resulting_level x,
       dd_effective_at = dd_effective_at x, dd_halt = dd_halt x,
       dd_external_action_authorized = dd_external_action_authorized x\<rparr> = x"
    by (cases x) simp
  have "valid_dt (dd_effective_at x)"
    using ok unfolding demotion_decision_post_init_def by (simp only: res_simps)
  then have time0: "\<And>n. time_field (PStr (timestamp_text (dd_effective_at x))) n = Inr (dd_effective_at x)"
    by simp
  show "demotion_decision_from_dict (demotion_decision_to_dict x) = Inr x"
    using ok [unfolded demotion_decision_post_init_def]
    apply (simp only: res_simps hexpat_len.simps, elim conjE)
    apply (simp (no_asm) add: demotion_decision_from_dict_def demotion_decision_to_dict_def demotion_decision_fields_def eta ok
        res_simps py_simps time0 cong: literal_congs)
    apply ((intro conjI)?; (assumption | simp))
    done
qed

end
