(* ===== verification/Autonomy.thy ===== *)
theory Autonomy
  imports AutonomyContracts
begin

text \<open>
  \<open>autonomy.py\<close>, the policy: \<open>evaluate_autonomy\<close> computes a profile of a cohort and recommends a level,
  \<open>demote_profile\<close> sends a profile to \<open>L0\<close> and halts it.

  The lemmas show that no class invariant can fail inside the two functions, so that they return
  exactly on the inputs their own checks admit, and which gate decides the recommendation.
\<close>

section \<open>The profile of a cohort\<close>

definition bounded_sum :: "int list \<Rightarrow> int" where
  "bounded_sum values = min (sum_list values) MAX_COUNT"

definition nearest_rank_p95 :: "int list \<Rightarrow> int res" where
  "nearest_rank_p95 values =
     (let ordered = sort values; rank = (95 * int (length ordered) + 99) div 100
      in if values = [] then Inl IndexError else Inr (ordered ! nat (rank - 1)))"

text \<open>\<open>outcomes_by_digest[task.m7_outcome_digest]\<close>.\<close>

definition outcome_of :: "cohort_evidence \<Rightarrow> cohort_task \<Rightarrow> shadow_outcome res" where
  "outcome_of cohort task =
     (case by_digest outcome_digest (sh_outcomes (ab_cohort (cv_m7_handoff cohort))) (ct_m7_outcome_digest task) of
        Some outcome \<Rightarrow> Inr outcome
      | None \<Rightarrow> Inl KeyError)"

definition cohort_profile :: "cohort_evidence \<Rightarrow> string \<Rightarrow> bool \<Rightarrow> autonomy_profile res" where
  "cohort_profile cohort current_level halted =
     (let tasks = cv_tasks cohort in
     bnd (map_res (outcome_of cohort) tasks) (\<lambda>outcomes.
     bnd (nearest_rank_p95 (map ct_latency_ms tasks)) (\<lambda>p95.
     construct autonomy_profile_post_init
       \<lparr>ap_schema_version = 1, ap_tuple_digest = tuple_digest (cv_autonomy_tuple cohort),
        ap_cohort_digest = evidence_cohort_digest cohort, ap_current_level = current_level,
        ap_accepted_task_count = count_where merged_accepted outcomes,
        ap_audit_sample_count = count_where ct_audit_sampled tasks,
        ap_audit_accepted_count = count_where ct_audit_accepted tasks,
        ap_minimum_quality_score_millionths = Min (set (map ct_quality_score_millionths tasks)),
        ap_total_security_failures = bounded_sum (map ct_security_failure_count tasks),
        ap_total_authorization_failures = bounded_sum (map ct_authorization_failure_count tasks),
        ap_total_duplicate_dispatches = bounded_sum (map ct_duplicate_dispatch_count tasks),
        ap_maximum_cost_usd_micros = Max (set (map ct_cost_usd_micros tasks)), ap_p95_latency_ms = p95,
        ap_total_demotion_triggers = bounded_sum (map ct_demotion_trigger_count tasks),
        ap_expires_at = at_expires_at (cv_autonomy_tuple cohort), ap_halted = halted\<rparr>)))"

section \<open>The gates\<close>

text \<open>\<open>any(...)\<close> over a test that can raise: it stops at the first hit.\<close>

fun any_res :: "('a \<Rightarrow> bool res) \<Rightarrow> 'a list \<Rightarrow> bool res" where
  "any_res p [] = Inr False"
| "any_res p (x # xs) = bnd (p x) (\<lambda>hit. if hit then Inr True else any_res p xs)"

definition task_days :: "cohort_task list \<Rightarrow> (int \<times> int \<times> int) list" where
  "task_days tasks = map (\<lambda>t. dt_date (ct_observed_at t)) tasks"

definition cohort_gate_reason :: "cohort_evidence \<Rightarrow> autonomy_profile \<Rightarrow> string option res" where
  "cohort_gate_reason cohort profile =
     (let tasks = cv_tasks cohort in
      bnd (any_res (\<lambda>task. bnd (outcome_of cohort task) (\<lambda>outcome. Inr (\<not> merged_accepted outcome))) tasks) (\<lambda>unaccepted.
      Inr (if unaccepted then Some ''human_acceptance_missing''
      else if ap_accepted_task_count profile < cv_minimum_human_acceptances cohort then Some ''insufficient_acceptances''
      else if ap_audit_sample_count profile * 1000000 < int (length tasks) * cv_minimum_audit_rate_millionths cohort
           then Some ''audit_rate_insufficient''
      else if \<not> set (task_days tasks) \<subseteq> set (task_days (filter ct_audit_sampled tasks)) then Some ''audit_day_gap''
      else if ap_audit_accepted_count profile \<noteq> ap_audit_sample_count profile then Some ''audit_rejected''
      else if ap_minimum_quality_score_millionths profile < cv_minimum_quality_score_millionths cohort
           then Some ''quality_below_threshold''
      else if cv_maximum_security_failures cohort < ap_total_security_failures profile then Some ''security_failure''
      else if cv_maximum_authorization_failures cohort < ap_total_authorization_failures profile
           then Some ''authorization_failure''
      else if cv_maximum_duplicate_dispatches cohort < ap_total_duplicate_dispatches profile
           then Some ''duplicate_dispatch''
      else if cv_maximum_cost_usd_micros cohort < ap_maximum_cost_usd_micros profile then Some ''cost_above_threshold''
      else if cv_maximum_latency_ms cohort < ap_p95_latency_ms profile then Some ''latency_above_threshold''
      else if cv_maximum_demotion_triggers cohort < ap_total_demotion_triggers profile
           then Some ''demotion_fact_present''
      else if list_ex (\<lambda>b. py_eq_str (bu_status b) ''blocked_pending_durable_lookup'') (ab_bundles (cv_m7_handoff cohort))
           then Some ''m7_bundle_blocked''
      else if \<not> external_acceptance_available (cv_m7_handoff cohort) then Some ''m7_acceptance_missing''
      else if \<not> currentness_available (cv_m7_handoff cohort) then Some ''m7_currentness_missing''
      else None)))"

section \<open>\<open>evaluate_autonomy\<close>\<close>

text \<open>\<open>LEVELS[LEVELS.index(level) + 1]\<close>.\<close>

definition level_above :: "string \<Rightarrow> string res" where
  "level_above level =
     (if level_index level + 1 < length LEVELS then Inr (LEVELS ! (level_index level + 1)) else Inl IndexError)"

definition check_existing :: "cohort_evidence \<Rightarrow> autonomy_profile option \<Rightarrow> unit res" where
  "check_existing cohort existing =
     (case existing of
        None \<Rightarrow> Inr ()
      | Some profile \<Rightarrow> checks
          [ensure (instance_of autonomy_profile_post_init profile) (ContractError ''invalid_contract'' ''existing_profile''),
           ensure (ap_tuple_digest profile = tuple_digest (cv_autonomy_tuple cohort))
             (ContractError ''tuple_mismatch'' ''existing_profile''),
           ensure (ap_expires_at profile = at_expires_at (cv_autonomy_tuple cohort))
             (ContractError ''profile_expiry_mismatch'' [])])"

definition autonomy_expired :: "cohort_evidence \<Rightarrow> datetime \<Rightarrow> bool" where
  "autonomy_expired cohort evaluated_at = (at_expires_at (cv_autonomy_tuple cohort) \<le> evaluated_at)"

definition start_level :: "cohort_evidence \<Rightarrow> autonomy_profile option \<Rightarrow> datetime \<Rightarrow> string" where
  "start_level cohort existing evaluated_at =
     (case existing of
        Some profile \<Rightarrow> (if autonomy_expired cohort evaluated_at then ''L0'' else ap_current_level profile)
      | None \<Rightarrow> ''L0'')"

definition start_halted :: "cohort_evidence \<Rightarrow> autonomy_profile option \<Rightarrow> datetime \<Rightarrow> bool" where
  "start_halted cohort existing evaluated_at =
     (case existing of
        Some profile \<Rightarrow> ap_halted profile \<and> \<not> autonomy_expired cohort evaluated_at
      | None \<Rightarrow> False)"

definition is_replay :: "cohort_evidence \<Rightarrow> autonomy_profile option \<Rightarrow> bool" where
  "is_replay cohort existing =
     (case existing of Some profile \<Rightarrow> ap_cohort_digest profile = evidence_cohort_digest cohort | None \<Rightarrow> False)"

definition evaluate_autonomy ::
  "(string \<Rightarrow> string) \<Rightarrow> cohort_evidence \<Rightarrow> autonomy_profile option \<Rightarrow> datetime \<Rightarrow>
     (autonomy_profile \<times> recommendation) res" where
  "evaluate_autonomy nfc cohort existing evaluated_at =
     bnd (ensure (instance_of (cohort_evidence_post_init nfc) cohort) (ContractError ''invalid_contract'' ''cohort'')) (\<lambda>_.
     bnd (ensure (valid_dt evaluated_at) (ContractError ''invalid_time'' ''evaluated_at'')) (\<lambda>_.
     bnd (ensure (\<not> evaluated_at < cv_window_ended_at cohort) (ContractError ''invalid_time'' ''cohort_window_open'')) (\<lambda>_.
     bnd (check_existing cohort existing) (\<lambda>_.
     let expired = autonomy_expired cohort evaluated_at;
         level = start_level cohort existing evaluated_at;
         halted = start_halted cohort existing evaluated_at in
     bnd (cohort_profile cohort level halted) (\<lambda>profile.
     bnd (if expired then Inr (Some ''tuple_expired'')
          else if halted then Inr (Some ''halted_profile'')
          else if is_replay cohort existing then Inr (Some ''cohort_replay'')
          else cohort_gate_reason cohort profile) (\<lambda>gate.
     let reason = (if gate = None \<and> at_authority_ceiling (cv_autonomy_tuple cohort) = PStr level
                   then Some ''already_at_ceiling'' else gate) in
     bnd (case reason of
            None \<Rightarrow> bnd (level_above level) (\<lambda>above. Inr (''qualified'', above))
          | Some code \<Rightarrow> Inr (code, level)) (\<lambda>(code, recommended).
     bnd (construct recommendation_post_init
       \<lparr>rn_schema_version = 1, rn_tuple_digest = tuple_digest (cv_autonomy_tuple cohort),
        rn_cohort_digest = evidence_cohort_digest cohort, rn_current_level = level,
        rn_recommended_level = recommended, rn_reason_code = PStr code, rn_evaluated_at = evaluated_at,
        rn_expires_at = at_expires_at (cv_autonomy_tuple cohort), rn_separate_activation_required = True,
        rn_external_action_authorized = False\<rparr>) (\<lambda>recommendation.
     Inr (profile, recommendation)))))))))"

section \<open>\<open>demote_profile\<close>\<close>

definition demote_profile ::
  "autonomy_profile \<Rightarrow> string set \<Rightarrow> datetime \<Rightarrow> (autonomy_profile \<times> demotion_decision) res" where
  "demote_profile profile trigger_facts observed_at =
     bnd (ensure (instance_of autonomy_profile_post_init profile) (ContractError ''invalid_contract'' ''profile'')) (\<lambda>_.
     bnd (ensure (trigger_facts \<noteq> {} \<and> trigger_facts \<subseteq> set DEMOTION_TRIGGERS) (ContractError ''invalid_demotion_trigger'' [])) (\<lambda>_.
     bnd (ensure (valid_dt observed_at) (ContractError ''invalid_time'' ''observed_at'')) (\<lambda>_.
     bnd (case find (\<lambda>t. t \<in> trigger_facts) DEMOTION_TRIGGERS of Some t \<Rightarrow> Inr t | None \<Rightarrow> Inl StopIteration) (\<lambda>selected.
     bnd (construct autonomy_profile_post_init (profile
       \<lparr>ap_current_level := ''L0'',
        ap_total_demotion_triggers := min MAX_COUNT (ap_total_demotion_triggers profile + int (card trigger_facts)),
        ap_halted := True\<rparr>)) (\<lambda>updated.
     bnd (construct demotion_decision_post_init
       \<lparr>dd_schema_version = 1, dd_profile_digest = profile_digest profile, dd_tuple_digest = ap_tuple_digest profile,
        dd_trigger = PStr selected, dd_prior_level = ap_current_level profile, dd_resulting_level = PStr ''L0'',
        dd_effective_at = observed_at, dd_halt = True, dd_external_action_authorized = False\<rparr>) (\<lambda>decision.
     Inr (updated, decision)))))))"


section \<open>What an accepted cohort holds\<close>

lemma nearest_rank_p95_eq: "values \<noteq> [] \<Longrightarrow> nearest_rank_p95 values = nearest_rank values 95"
  by (simp add: nearest_rank_p95_def nearest_rank_def Let_def)

lemma evidence_facts:
  assumes "instance_of (cohort_evidence_post_init nfc) c"
  shows "cv_tasks c \<noteq> []" "length (cv_tasks c) \<le> 10000"
    "\<And>t. t \<in> set (cv_tasks c) \<Longrightarrow> instance_of (cohort_task_post_init nfc) t"
    "\<And>t. t \<in> set (cv_tasks c) \<Longrightarrow> task_link (cv_m7_handoff c) t = Inr ()"
    "instance_of (autonomy_tuple_post_init nfc) (cv_autonomy_tuple c)"
    "instance_of (autonomy_bridge_post_init nfc) (cv_m7_handoff c)"
    "cv_maximum_security_failures c = 0" "cv_maximum_authorization_failures c = 0"
    "cv_maximum_duplicate_dispatches c = 0" "cv_maximum_demotion_triggers c = 0"
    "valid_dt (cv_window_ended_at c)"
  using assms unfolding instance_of_def [of "cohort_evidence_post_init nfc"] cohort_evidence_post_init_def
  apply (simp_all only: res_simps MAX_COHORT_TASKS_def list_all_iff simp_thms)
  apply (elim conjE, simp)+
  done

lemma tuple_facts:
  assumes "instance_of (autonomy_tuple_post_init nfc) t"
  shows "at_authority_ceiling t = PStr ''L2''" "valid_dt (at_expires_at t)"
  using assms unfolding instance_of_def autonomy_tuple_post_init_def by (simp_all only: res_simps py_eq_str_def)

lemma task_facts:
  assumes "instance_of (cohort_task_post_init nfc) t"
  shows "ct_audit_accepted t \<Longrightarrow> ct_audit_sampled t"
    "0 \<le> ct_quality_score_millionths t" "ct_quality_score_millionths t \<le> 1000000"
    "0 \<le> ct_security_failure_count t" "0 \<le> ct_authorization_failure_count t"
    "0 \<le> ct_duplicate_dispatch_count t" "0 \<le> ct_demotion_trigger_count t"
    "0 \<le> ct_cost_usd_micros t" "ct_cost_usd_micros t \<le> MAX_COST_USD_MICROS"
    "0 \<le> ct_latency_ms t" "ct_latency_ms t \<le> MAX_LATENCY_MS"
  using assms unfolding instance_of_def cohort_task_post_init_def by (auto simp: res_simps)

lemma bridge_facts:
  assumes "instance_of (autonomy_bridge_post_init nfc) x"
  shows "ab_bundles x \<noteq> []" "\<And>b. b \<in> set (ab_bundles x) \<Longrightarrow> instance_of (pr_bundle_post_init nfc) b"
    "instance_of (shadow_cohort_post_init nfc) (ab_cohort x)"
  using assms unfolding instance_of_def [of "autonomy_bridge_post_init nfc"] autonomy_bridge_post_init_def Let_def
  by (simp_all only: res_simps list_all_iff simp_thms)

lemma bundle_status:
  "instance_of (pr_bundle_post_init nfc) b \<Longrightarrow> bu_status b = PStr ''blocked_pending_durable_lookup''"
  unfolding instance_of_def pr_bundle_post_init_def by (simp only: res_simps py_eq_str_def BUNDLE_STATUS_def)

lemma profile_facts:
  assumes "instance_of autonomy_profile_post_init p"
  shows "ap_current_level p \<in> set LEVELS" "ap_halted p \<Longrightarrow> ap_current_level p = ''L0''"
    "0 \<le> ap_total_demotion_triggers p" "hex_string 64 (ap_tuple_digest p)"
  using assms unfolding instance_of_def autonomy_profile_post_init_def by (auto simp: res_simps)

lemma outcome_of_linked:
  "instance_of (cohort_evidence_post_init nfc) c \<Longrightarrow> t \<in> set (cv_tasks c) \<Longrightarrow> \<exists>x. outcome_of c t = Inr x"
  using evidence_facts(4) [of nfc c t]
  by (auto simp: task_link_def outcome_of_def split: option.splits)

lemma outcomes_linked:
  assumes "instance_of (cohort_evidence_post_init nfc) c"
  obtains xs where "map_res (outcome_of c) (cv_tasks c) = Inr xs" "list_all2 (\<lambda>t x. outcome_of c t = Inr x) (cv_tasks c) xs"
proof -
  have "\<exists>xs. list_all2 (\<lambda>t x. outcome_of c t = Inr x) ts xs" if "set ts \<subseteq> set (cv_tasks c)" for ts
    using that
  proof (induction ts)
    case (Cons t ts)
    then obtain x xs where "outcome_of c t = Inr x" "list_all2 (\<lambda>t x. outcome_of c t = Inr x) ts xs"
      using outcome_of_linked [OF assms, of t] by auto
    then show ?case by (intro exI [of _ "x # xs"]) simp
  qed (auto intro: exI [of _ "[]"])
  then show thesis using that unfolding map_res_Inr_iff by blast
qed

section \<open>The profile of an accepted cohort\<close>

lemma bounded_sum_bounds:
  "(\<And>x. x \<in> set xs \<Longrightarrow> 0 \<le> x) \<Longrightarrow> 0 \<le> bounded_sum xs \<and> bounded_sum xs \<le> MAX_COUNT"
  by (auto simp: bounded_sum_def MAX_COUNT_def intro!: sum_list_nonneg)

lemma bounded_sum_zero_iff:
  assumes "\<And>x. x \<in> set xs \<Longrightarrow> 0 \<le> f x"
  shows "\<not> 0 < bounded_sum (map f xs) \<longleftrightarrow> (\<forall>x\<in>set xs. f x = 0)"
proof -
  have "0 \<le> sum_list (map f xs)" by (intro sum_list_nonneg) (use assms in auto)
  then have "\<not> 0 < bounded_sum (map f xs) \<longleftrightarrow> sum_list (map f xs) = 0"
    by (auto simp: bounded_sum_def MAX_COUNT_def)
  then show ?thesis using sum_list_zero_iff [of xs f] assms by simp
qed

lemma Min_Max_in_range:
  assumes "xs \<noteq> []" "\<And>x. x \<in> set xs \<Longrightarrow> lo \<le> f x \<and> f x \<le> (hi :: int)"
  shows "lo \<le> Min (set (map f xs)) \<and> Min (set (map f xs)) \<le> hi"
    and "lo \<le> Max (set (map f xs)) \<and> Max (set (map f xs)) \<le> hi"
proof -
  have "Min (set (map f xs)) \<in> set (map f xs)" "Max (set (map f xs)) \<in> set (map f xs)"
    using assms(1) by (simp_all del: set_map)
  then show "lo \<le> Min (set (map f xs)) \<and> Min (set (map f xs)) \<le> hi"
    "lo \<le> Max (set (map f xs)) \<and> Max (set (map f xs)) \<le> hi"
    using assms(2) by (metis (no_types, lifting) imageE set_map)+
qed

lemma count_where_small:
  "length xs \<le> 10000 \<Longrightarrow> 0 \<le> count_where P xs \<and> count_where P xs \<le> MAX_COUNT"
  using count_where_bounds [of P xs] by (simp add: MAX_COUNT_def)

lemma cohort_profile_total:
  assumes c: "instance_of (cohort_evidence_post_init nfc) c"
    and level: "level \<in> set LEVELS" "halted \<Longrightarrow> level = ''L0''"
  obtains p where "cohort_profile c level halted = Inr p" "instance_of autonomy_profile_post_init p"
proof -
  note f = evidence_facts [OF c] and t = task_facts [OF evidence_facts(3) [OF c]]
  obtain xs where xs: "map_res (outcome_of c) (cv_tasks c) = Inr xs"
    "list_all2 (\<lambda>t x. outcome_of c t = Inr x) (cv_tasks c) xs" by (rule outcomes_linked [OF c])
  have len: "length xs \<le> 10000" using list_all2_lengthD [OF xs(2)] f(2) by simp
  obtain q where q: "nearest_rank (map ct_latency_ms (cv_tasks c)) 95 = Inr q" "q \<in> set (map ct_latency_ms (cv_tasks c))"
    using nearest_rank_total [of "map ct_latency_ms (cv_tasks c)" 95] f(1) by auto
  then have p95: "nearest_rank_p95 (map ct_latency_ms (cv_tasks c)) = Inr q" "0 \<le> q \<and> q \<le> MAX_LATENCY_MS"
    using t(10,11) f(1) by (auto simp: nearest_rank_p95_eq)
  have audit: "\<not> count_where ct_audit_sampled (cv_tasks c) < count_where ct_audit_accepted (cv_tasks c)"
    using count_where_mono [of "cv_tasks c" ct_audit_accepted ct_audit_sampled] t(1) by (simp add: not_less)
  have sums: "0 \<le> bounded_sum (map g (cv_tasks c)) \<and> bounded_sum (map g (cv_tasks c)) \<le> MAX_COUNT"
    if "g \<in> {ct_security_failure_count, ct_authorization_failure_count, ct_duplicate_dispatch_count,
             ct_demotion_trigger_count}" for g
    using that t(4-7) by (intro bounded_sum_bounds) auto
  have quality: "0 \<le> Min (set (map ct_quality_score_millionths (cv_tasks c))) \<and>
      Min (set (map ct_quality_score_millionths (cv_tasks c))) \<le> 1000000"
    using t(2,3) by (intro Min_Max_in_range f(1)) blast
  have cost: "0 \<le> Max (set (map ct_cost_usd_micros (cv_tasks c))) \<and>
      Max (set (map ct_cost_usd_micros (cv_tasks c))) \<le> MAX_COST_USD_MICROS"
    using t(8,9) by (intro Min_Max_in_range f(1)) blast
  have "\<exists>p. cohort_profile c level halted = Inr p"
    unfolding cohort_profile_def Let_def xs(1) p95(1) bnd.simps construct_Inr autonomy_profile_post_init_def
    using level f(2) len audit p95(2) sums count_where_small [of xs] count_where_small [of "cv_tasks c"]
      quality cost tuple_facts(2) [OF f(5)]
    by (simp add: res_simps tuple_digest_def evidence_cohort_digest_def)
  then obtain p where p: "cohort_profile c level halted = Inr p" by blast
  then have "instance_of autonomy_profile_post_init p"
    unfolding cohort_profile_def Let_def instance_of_def by (elim bnd_InrE construct_checked)
  with p show thesis by (rule that)
qed


section \<open>Which gate decides\<close>

definition outcome_accepted :: "cohort_evidence \<Rightarrow> cohort_task \<Rightarrow> bool" where
  "outcome_accepted c t = (case outcome_of c t of Inr x \<Rightarrow> merged_accepted x | Inl e \<Rightarrow> False)"

text \<open>The M8 gates, over the tasks themselves.\<close>

definition gates_met :: "cohort_evidence \<Rightarrow> bool" where
  "gates_met c =
     (let ts = cv_tasks c; n = int (length ts) in
      list_all (outcome_accepted c) ts \<and> cv_minimum_human_acceptances c \<le> n \<and>
      n * cv_minimum_audit_rate_millionths c \<le> 1000000 * count_where ct_audit_sampled ts \<and>
      list_all (\<lambda>t. list_ex (\<lambda>s. ct_audit_sampled s \<and> dt_date (ct_observed_at s) = dt_date (ct_observed_at t)) ts) ts \<and>
      list_all (\<lambda>t. ct_audit_sampled t \<longrightarrow> ct_audit_accepted t) ts \<and>
      list_all (\<lambda>t. cv_minimum_quality_score_millionths c \<le> ct_quality_score_millionths t) ts \<and>
      list_all (\<lambda>t. ct_security_failure_count t = 0 \<and> ct_authorization_failure_count t = 0 \<and>
                    ct_duplicate_dispatch_count t = 0 \<and> ct_demotion_trigger_count t = 0) ts \<and>
      list_all (\<lambda>t. ct_cost_usd_micros t \<le> cv_maximum_cost_usd_micros c) ts \<and>
      95 * n \<le> 100 * count_where (\<lambda>t. ct_latency_ms t \<le> cv_maximum_latency_ms c) ts)"

lemma any_res_Inr: "(\<And>x. x \<in> set xs \<Longrightarrow> p x = Inr (q x)) \<Longrightarrow> any_res p xs = Inr (list_ex q xs)"
  by (induction xs) auto

lemma unaccepted:
  assumes "instance_of (cohort_evidence_post_init nfc) c"
  shows "any_res (\<lambda>t. bnd (outcome_of c t) (\<lambda>x. Inr (\<not> merged_accepted x))) (cv_tasks c) =
    Inr (list_ex (\<lambda>t. \<not> outcome_accepted c t) (cv_tasks c))"
  using outcome_of_linked [OF assms] by (intro any_res_Inr) (fastforce simp: outcome_accepted_def)

text \<open>The codes of the gates up to the blocked bundle, which every bundle is.\<close>

definition GATE_CODES :: "string list" where
  "GATE_CODES =
     [''human_acceptance_missing'', ''insufficient_acceptances'', ''audit_rate_insufficient'', ''audit_day_gap'',
      ''audit_rejected'', ''quality_below_threshold'', ''security_failure'', ''authorization_failure'',
      ''duplicate_dispatch'', ''cost_above_threshold'', ''latency_above_threshold'', ''demotion_fact_present'',
      ''m7_bundle_blocked'']"

lemma gate_codes_sound:
  "list_all (\<lambda>code. code \<in> set RECOMMENDATION_REASONS \<and> code \<notin> {''qualified'', ''tuple_expired'', ''halted_profile'', ''cohort_replay''})
     GATE_CODES"
  by code_simp

lemma if_code: "x \<in> S \<Longrightarrow> \<exists>code\<in>S. e = Some code \<Longrightarrow> \<exists>code\<in>S. (if b then Some x else e) = Some code"
  by auto

lemma gate_reason_blocked:
  assumes c: "instance_of (cohort_evidence_post_init nfc) c"
  shows "\<exists>code \<in> set GATE_CODES. cohort_gate_reason c p = Inr (Some code)"
proof -
  note b = bridge_facts [OF evidence_facts(6) [OF c]]
  have blocked: "list_ex (\<lambda>b. py_eq_str (bu_status b) ''blocked_pending_durable_lookup'') (ab_bundles (cv_m7_handoff c))"
    using b(1) bundle_status [OF b(2)] by (cases "ab_bundles (cv_m7_handoff c)") (auto simp: py_eq_str_def)
  show ?thesis
    unfolding cohort_gate_reason_def Let_def unaccepted [OF c] bnd.simps sum.inject if_P [OF blocked]
    by (intro if_code) (simp_all add: GATE_CODES_def)
qed

lemma profile_fields:
  assumes c: "instance_of (cohort_evidence_post_init nfc) c" and p: "cohort_profile c level halted = Inr p"
  shows "ap_current_level p = level" "ap_halted p = halted" "ap_expires_at p = at_expires_at (cv_autonomy_tuple c)"
    "ap_tuple_digest p = tuple_digest (cv_autonomy_tuple c)" "ap_cohort_digest p = evidence_cohort_digest c"
    "ap_audit_sample_count p = count_where ct_audit_sampled (cv_tasks c)"
    "ap_audit_accepted_count p = count_where ct_audit_accepted (cv_tasks c)"
    "ap_minimum_quality_score_millionths p = Min (set (map ct_quality_score_millionths (cv_tasks c)))"
    "ap_total_security_failures p = bounded_sum (map ct_security_failure_count (cv_tasks c))"
    "ap_total_authorization_failures p = bounded_sum (map ct_authorization_failure_count (cv_tasks c))"
    "ap_total_duplicate_dispatches p = bounded_sum (map ct_duplicate_dispatch_count (cv_tasks c))"
    "ap_total_demotion_triggers p = bounded_sum (map ct_demotion_trigger_count (cv_tasks c))"
    "ap_maximum_cost_usd_micros p = Max (set (map ct_cost_usd_micros (cv_tasks c)))"
    "nearest_rank (map ct_latency_ms (cv_tasks c)) 95 = Inr (ap_p95_latency_ms p)"
    "ap_accepted_task_count p = count_where (outcome_accepted c) (cv_tasks c)"
proof -
  obtain xs where xs: "map_res (outcome_of c) (cv_tasks c) = Inr xs"
    "list_all2 (\<lambda>t x. outcome_of c t = Inr x) (cv_tasks c) xs" by (rule outcomes_linked [OF c])
  have n: "map ct_latency_ms (cv_tasks c) \<noteq> []" using evidence_facts(1) [OF c] by simp
  obtain q where q: "nearest_rank (map ct_latency_ms (cv_tasks c)) 95 = Inr q"
    using nearest_rank_total [OF n, of 95] by auto
  have "count_where merged_accepted xs = count_where (outcome_accepted c) (cv_tasks c)"
    using xs(2) by (induction rule: list_all2_induct) (auto simp: count_where_def outcome_accepted_def)
  note facts = p [unfolded cohort_profile_def Let_def xs(1) nearest_rank_p95_eq [OF n] q bnd.simps construct_Inr this]
  show "ap_current_level p = level" "ap_halted p = halted" "ap_expires_at p = at_expires_at (cv_autonomy_tuple c)"
    "ap_tuple_digest p = tuple_digest (cv_autonomy_tuple c)" "ap_cohort_digest p = evidence_cohort_digest c"
    "ap_audit_sample_count p = count_where ct_audit_sampled (cv_tasks c)"
    "ap_audit_accepted_count p = count_where ct_audit_accepted (cv_tasks c)"
    "ap_minimum_quality_score_millionths p = Min (set (map ct_quality_score_millionths (cv_tasks c)))"
    "ap_total_security_failures p = bounded_sum (map ct_security_failure_count (cv_tasks c))"
    "ap_total_authorization_failures p = bounded_sum (map ct_authorization_failure_count (cv_tasks c))"
    "ap_total_duplicate_dispatches p = bounded_sum (map ct_duplicate_dispatch_count (cv_tasks c))"
    "ap_total_demotion_triggers p = bounded_sum (map ct_demotion_trigger_count (cv_tasks c))"
    "ap_maximum_cost_usd_micros p = Max (set (map ct_cost_usd_micros (cv_tasks c)))"
    "nearest_rank (map ct_latency_ms (cv_tasks c)) 95 = Inr (ap_p95_latency_ms p)"
    "ap_accepted_task_count p = count_where (outcome_accepted c) (cv_tasks c)"
    using conjunct2 [OF facts] q by simp_all
qed


lemma count_where_eq_iff:
  assumes "\<And>x. x \<in> set xs \<Longrightarrow> P x \<Longrightarrow> Q x"
  shows "count_where P xs = count_where Q xs \<longleftrightarrow> (\<forall>x\<in>set xs. Q x \<longrightarrow> P x)"
  using assms
proof (induction xs)
  case (Cons x xs)
  moreover have "count_where P xs \<le> count_where Q xs" using Cons.prems by (intro count_where_mono) auto
  ultimately show ?case by (auto simp: count_where_def)
qed (simp add: count_where_def)

lemma count_where_all: "list_all P xs \<Longrightarrow> count_where P xs = int (length xs)"
  by (induction xs) (auto simp: count_where_def)

lemma gates_met_iff:
  assumes c: "instance_of (cohort_evidence_post_init nfc) c" and p: "cohort_profile c level halted = Inr p"
  shows "cohort_gate_reason c p = Inr (Some ''m7_bundle_blocked'') \<longleftrightarrow> gates_met c"
proof -
  let ?ts = "cv_tasks c"
  note f = evidence_facts [OF c] and t = task_facts [OF evidence_facts(3) [OF c]]
    and g = profile_fields [OF c p] and b = bridge_facts [OF evidence_facts(6) [OF c]]
  have blocked: "list_ex (\<lambda>b. py_eq_str (bu_status b) ''blocked_pending_durable_lookup'') (ab_bundles (cv_m7_handoff c))"
    using b(1) bundle_status [OF b(2)] by (cases "ab_bundles (cv_m7_handoff c)") (auto simp: py_eq_str_def)
  have accepted: "list_ex (\<lambda>t. \<not> outcome_accepted c t) ?ts \<longleftrightarrow> \<not> list_all (outcome_accepted c) ?ts"
    by (auto simp: list_all_iff list_ex_iff)
  have days: "set (task_days ?ts) \<subseteq> set (task_days (filter ct_audit_sampled ?ts)) \<longleftrightarrow>
      list_all (\<lambda>t. list_ex (\<lambda>s. ct_audit_sampled s \<and> dt_date (ct_observed_at s) = dt_date (ct_observed_at t)) ?ts) ?ts"
    by (auto simp: task_days_def list_all_iff list_ex_iff image_iff) (metis (no_types, lifting) | force)+
  have audited: "ap_audit_accepted_count p = ap_audit_sample_count p \<longleftrightarrow>
      list_all (\<lambda>t. ct_audit_sampled t \<longrightarrow> ct_audit_accepted t) ?ts"
    unfolding g(6,7) list_all_iff using t(1) by (rule count_where_eq_iff)
  have quality: "\<not> ap_minimum_quality_score_millionths p < cv_minimum_quality_score_millionths c \<longleftrightarrow>
      list_all (\<lambda>t. cv_minimum_quality_score_millionths c \<le> ct_quality_score_millionths t) ?ts"
    unfolding g(8) list_all_iff not_less using f(1) by simp
  have cost: "\<not> cv_maximum_cost_usd_micros c < ap_maximum_cost_usd_micros p \<longleftrightarrow>
      list_all (\<lambda>t. ct_cost_usd_micros t \<le> cv_maximum_cost_usd_micros c) ?ts"
    unfolding g(13) list_all_iff not_less using f(1) by simp
  have latency: "\<not> cv_maximum_latency_ms c < ap_p95_latency_ms p \<longleftrightarrow>
      95 * int (length ?ts) \<le> 100 * count_where (\<lambda>t. ct_latency_ms t \<le> cv_maximum_latency_ms c) ?ts"
    using nearest_rank_le_iff [OF g(14), of "cv_maximum_latency_ms c"]
    by (simp add: not_less count_where_def filter_map comp_def)
  have sums: "\<not> 0 < bounded_sum (map h ?ts) \<longleftrightarrow> list_all (\<lambda>t. h t = 0) ?ts"
    if "h \<in> {ct_security_failure_count, ct_authorization_failure_count, ct_duplicate_dispatch_count,
             ct_demotion_trigger_count}" for h
    unfolding list_all_iff using that t(4-7) by (intro bounded_sum_zero_iff) auto
  have split: "list_all (\<lambda>t. ct_security_failure_count t = 0 \<and> ct_authorization_failure_count t = 0 \<and>
        ct_duplicate_dispatch_count t = 0 \<and> ct_demotion_trigger_count t = 0) ?ts \<longleftrightarrow>
      list_all (\<lambda>t. ct_security_failure_count t = 0) ?ts \<and> list_all (\<lambda>t. ct_authorization_failure_count t = 0) ?ts \<and>
      list_all (\<lambda>t. ct_duplicate_dispatch_count t = 0) ?ts \<and> list_all (\<lambda>t. ct_demotion_trigger_count t = 0) ?ts"
    by (auto simp: list_all_iff)
  have counts: "\<not> 0 < ap_total_security_failures p \<longleftrightarrow> list_all (\<lambda>t. ct_security_failure_count t = 0) ?ts"
    "\<not> 0 < ap_total_authorization_failures p \<longleftrightarrow> list_all (\<lambda>t. ct_authorization_failure_count t = 0) ?ts"
    "\<not> 0 < ap_total_duplicate_dispatches p \<longleftrightarrow> list_all (\<lambda>t. ct_duplicate_dispatch_count t = 0) ?ts"
    "\<not> 0 < ap_total_demotion_triggers p \<longleftrightarrow> list_all (\<lambda>t. ct_demotion_trigger_count t = 0) ?ts"
    unfolding g(9-12) by (rule sums; simp)+
  have enough: "list_all (outcome_accepted c) ?ts \<Longrightarrow> ap_accepted_task_count p = int (length ?ts)"
    unfolding g(15) by (rule count_where_all)
  show ?thesis
    unfolding cohort_gate_reason_def gates_met_def Let_def unaccepted [OF c] bnd.simps accepted f(7-10)
      split counts [symmetric] days [symmetric] audited [symmetric] quality [symmetric] cost [symmetric]
      latency [symmetric] g(6)
    using blocked enough by (auto simp: mult.commute not_less)
qed


section \<open>The evaluation returns\<close>

text \<open>The inputs the checks of \<open>evaluate_autonomy\<close> admit.\<close>

definition admissible :: "(string \<Rightarrow> string) \<Rightarrow> cohort_evidence \<Rightarrow> autonomy_profile option \<Rightarrow> datetime \<Rightarrow> bool" where
  "admissible nfc c existing evaluated_at =
     (cohort_evidence_post_init nfc c = Inr () \<and> valid_dt evaluated_at \<and> cv_window_ended_at c \<le> evaluated_at \<and>
      pred_option (\<lambda>p. autonomy_profile_post_init p = Inr () \<and> ap_tuple_digest p = tuple_digest (cv_autonomy_tuple c) \<and>
        ap_expires_at p = at_expires_at (cv_autonomy_tuple c)) existing)"

lemma check_existing_iff:
  "check_existing c existing = Inr () \<longleftrightarrow>
     pred_option (\<lambda>p. autonomy_profile_post_init p = Inr () \<and> ap_tuple_digest p = tuple_digest (cv_autonomy_tuple c) \<and>
        ap_expires_at p = at_expires_at (cv_autonomy_tuple c)) existing"
  by (cases existing) (simp_all add: check_existing_def res_simps instance_of_def)

lemma evaluate_admits: "evaluate_autonomy nfc c existing t = Inr x \<Longrightarrow> admissible nfc c existing t"
  unfolding evaluate_autonomy_def Let_def
  by (elim bnd_InrE) (simp add: admissible_def res_simps check_existing_iff instance_of_def not_less)

lemma start_level_cases:
  assumes "admissible nfc c existing t"
  shows "start_level c existing t \<in> set LEVELS" "start_halted c existing t \<Longrightarrow> start_level c existing t = ''L0''"
    "autonomy_expired c t \<Longrightarrow> start_level c existing t = ''L0'' \<and> \<not> start_halted c existing t"
  using assms profile_facts(1,2) unfolding admissible_def start_level_def start_halted_def
  by (cases existing; auto simp: instance_of_def LEVELS_def)+

lemma start_reasons:
  "''tuple_expired'' \<in> set RECOMMENDATION_REASONS" "''halted_profile'' \<in> set RECOMMENDATION_REASONS"
  "''cohort_replay'' \<in> set RECOMMENDATION_REASONS"
  by (simp_all add: RECOMMENDATION_REASONS_def)

definition recommended :: "cohort_evidence \<Rightarrow> datetime \<Rightarrow> string \<Rightarrow> string \<Rightarrow> recommendation" where
  "recommended c t level code =
     \<lparr>rn_schema_version = 1, rn_tuple_digest = tuple_digest (cv_autonomy_tuple c),
      rn_cohort_digest = evidence_cohort_digest c, rn_current_level = level, rn_recommended_level = level,
      rn_reason_code = PStr code, rn_evaluated_at = t, rn_expires_at = at_expires_at (cv_autonomy_tuple c),
      rn_separate_activation_required = True, rn_external_action_authorized = False\<rparr>"

lemma recommended_accepted:
  assumes a: "admissible nfc c existing t" and code: "code \<in> set RECOMMENDATION_REASONS - {''qualified''}"
    "code = ''tuple_expired'' \<longleftrightarrow> autonomy_expired c t"
  shows "recommendation_post_init (recommended c t (start_level c existing t) code) = Inr ()"
proof -
  have "valid_dt (at_expires_at (cv_autonomy_tuple c))" "valid_dt t"
    using a evidence_facts(5) tuple_facts(2) unfolding admissible_def instance_of_def by blast+
  then show ?thesis
    using start_level_cases [OF a] code unfolding recommendation_post_init_def recommended_def
    by (auto simp: res_simps tuple_digest_def evidence_cohort_digest_def in_str_tuple_def py_eq_str_def
        autonomy_expired_def)
qed

lemma evaluate_returns:
  assumes a: "admissible nfc c existing t"
  obtains p code where
    "evaluate_autonomy nfc c existing t = Inr (p, recommended c t (start_level c existing t) code)"
    "cohort_profile c (start_level c existing t) (start_halted c existing t) = Inr p"
    "autonomy_profile_post_init p = Inr ()" "code \<in> set RECOMMENDATION_REASONS - {''qualified''}"
    "code = ''tuple_expired'' \<longleftrightarrow> autonomy_expired c t"
    "code = ''halted_profile'' \<longleftrightarrow> start_halted c existing t"
    "code = ''cohort_replay'' \<longleftrightarrow> \<not> autonomy_expired c t \<and> \<not> start_halted c existing t \<and> is_replay c existing"
    "\<not> autonomy_expired c t \<and> \<not> start_halted c existing t \<and> \<not> is_replay c existing \<longrightarrow>
       cohort_gate_reason c p = Inr (Some code)"
proof -
  let ?l = "start_level c existing t" and ?h = "start_halted c existing t"
  have c: "instance_of (cohort_evidence_post_init nfc) c" using a by (simp add: admissible_def instance_of_def)
  note l = start_level_cases [OF a]
  obtain p where p: "cohort_profile c ?l ?h = Inr p" "instance_of autonomy_profile_post_init p"
    using l(1,2) by (rule cohort_profile_total [OF c])
  obtain gate where gate: "cohort_gate_reason c p = Inr (Some gate)" "gate \<in> set RECOMMENDATION_REASONS"
    "gate \<notin> {''qualified'', ''tuple_expired'', ''halted_profile'', ''cohort_replay''}"
    using gate_reason_blocked [OF c, of p] gate_codes_sound unfolding list_all_iff by blast
  define code where "code = (if autonomy_expired c t then ''tuple_expired'' else if ?h then ''halted_profile''
    else if is_replay c existing then ''cohort_replay'' else gate)"
  have code: "code \<in> set RECOMMENDATION_REASONS - {''qualified''}" "code = ''tuple_expired'' \<longleftrightarrow> autonomy_expired c t"
    "code = ''halted_profile'' \<longleftrightarrow> ?h"
    "code = ''cohort_replay'' \<longleftrightarrow> \<not> autonomy_expired c t \<and> \<not> ?h \<and> is_replay c existing"
    using gate(2,3) l(3) start_reasons unfolding code_def by simp_all
  have reason: "(if autonomy_expired c t then Inr (Some ''tuple_expired'') else if ?h then Inr (Some ''halted_profile'')
      else if is_replay c existing then Inr (Some ''cohort_replay'') else cohort_gate_reason c p) = Inr (Some code)"
    using gate(1) by (simp add: code_def)
  have built: "construct recommendation_post_init (recommended c t ?l code) = Inr (recommended c t ?l code)"
    using recommended_accepted [OF a code(1,2)] by (simp add: construct_def)
  have checks: "instance_of (cohort_evidence_post_init nfc) c" "valid_dt t" "\<not> t < cv_window_ended_at c"
    "check_existing c existing = Inr ()"
    using a by (simp_all add: admissible_def check_existing_iff instance_of_def not_less)
  have "evaluate_autonomy nfc c existing t = Inr (p, recommended c t ?l code)"
    unfolding evaluate_autonomy_def Let_def reason p(1)
    using built by (simp add: checks reason p(1) recommended_def)
  then show thesis
    using that p code gate(1) unfolding code_def instance_of_def by simp
qed

end
