(* ===== verification/AutonomyMachine.thy ===== *)
theory AutonomyMachine
  imports Autonomy
begin

text \<open>
  The life of an autonomy profile: evaluations with the profile of the previous one, and demotions.
  No run raises the level, and a halt lasts until the tuple expires.
\<close>

section \<open>Demotion\<close>

lemma find_trigger:
  assumes "facts \<noteq> {}" "facts \<subseteq> set DEMOTION_TRIGGERS"
  obtains s where "find (\<lambda>t. t \<in> facts) DEMOTION_TRIGGERS = Some s" "s \<in> facts" "s \<in> set DEMOTION_TRIGGERS"
proof -
  obtain s where s: "find (\<lambda>t. t \<in> facts) DEMOTION_TRIGGERS = Some s"
    using assms by (cases "find (\<lambda>t. t \<in> facts) DEMOTION_TRIGGERS") (auto simp: find_None_iff)
  then obtain i where "i < length DEMOTION_TRIGGERS" "DEMOTION_TRIGGERS ! i \<in> facts" "s = DEMOTION_TRIGGERS ! i"
    unfolding find_Some_iff by blast
  then show thesis using that s by simp
qed

definition demoted :: "autonomy_profile \<Rightarrow> string set \<Rightarrow> autonomy_profile" where
  "demoted p facts = p
     \<lparr>ap_current_level := ''L0'',
      ap_total_demotion_triggers := min MAX_COUNT (ap_total_demotion_triggers p + int (card facts)),
      ap_halted := True\<rparr>"

lemma demoted_accepted: "autonomy_profile_post_init p = Inr () \<Longrightarrow> autonomy_profile_post_init (demoted p facts) = Inr ()"
  unfolding autonomy_profile_post_init_def demoted_def
  by (simp add: res_simps MAX_COUNT_def LEVELS_def) blast

definition demotion :: "autonomy_profile \<Rightarrow> string \<Rightarrow> datetime \<Rightarrow> demotion_decision" where
  "demotion p trigger t =
     \<lparr>dd_schema_version = 1, dd_profile_digest = profile_digest p, dd_tuple_digest = ap_tuple_digest p,
      dd_trigger = PStr trigger, dd_prior_level = ap_current_level p, dd_resulting_level = PStr ''L0'',
      dd_effective_at = t, dd_halt = True, dd_external_action_authorized = False\<rparr>"

lemma demotion_accepted:
  assumes "autonomy_profile_post_init p = Inr ()" "trigger \<in> set DEMOTION_TRIGGERS" "valid_dt t"
  shows "demotion_decision_post_init (demotion p trigger t) = Inr ()"
  using assms profile_facts(1,4) [of p] unfolding demotion_decision_post_init_def demotion_def
  by (simp add: res_simps profile_digest_def in_str_tuple_def py_eq_str_def instance_of_def)

lemma demote_returns:
  assumes p: "autonomy_profile_post_init p = Inr ()" and facts: "facts \<noteq> {}" "facts \<subseteq> set DEMOTION_TRIGGERS"
    and t: "valid_dt t"
  obtains s where "demote_profile p facts t = Inr (demoted p facts, demotion p s t)"
    "find (\<lambda>t. t \<in> facts) DEMOTION_TRIGGERS = Some s"
proof -
  obtain s where s: "find (\<lambda>t. t \<in> facts) DEMOTION_TRIGGERS = Some s" "s \<in> set DEMOTION_TRIGGERS"
    using find_trigger [OF facts] by metis
  have c: "construct autonomy_profile_post_init (demoted p facts) = Inr (demoted p facts)"
    "construct demotion_decision_post_init (demotion p s t) = Inr (demotion p s t)"
    using demoted_accepted [OF p] demotion_accepted [OF p s(2) t] by (simp_all add: construct_def)
  have "demote_profile p facts t = Inr (demoted p facts, demotion p s t)"
    using c facts t p unfolding demote_profile_def demoted_def [symmetric] demotion_def [symmetric]
    by (simp add: s(1) instance_of_def)
  then show thesis using s(1) by (rule that)
qed

lemma demote_admits:
  assumes "demote_profile p facts t = Inr x"
  shows "autonomy_profile_post_init p = Inr ()" "facts \<noteq> {}" "facts \<subseteq> set DEMOTION_TRIGGERS" "valid_dt t"
  using assms unfolding demote_profile_def instance_of_def by (elim bnd_InrE; simp add: res_simps)+

section \<open>Runs of operations\<close>

datatype profile_command =
    Evaluate cohort_evidence datetime
  | Demote "string set" datetime

fun command_time :: "profile_command \<Rightarrow> datetime" where
  "command_time (Evaluate c t) = t"
| "command_time (Demote facts t) = t"

inductive profile_step ::
  "(string \<Rightarrow> string) \<Rightarrow> autonomy_profile \<Rightarrow> profile_command \<Rightarrow> autonomy_profile \<Rightarrow> bool"
  for nfc where
  Evaluated: "evaluate_autonomy nfc c (Some p) t = Inr (q, r) \<Longrightarrow> profile_step nfc p (Evaluate c t) q"
| Demoted: "demote_profile p facts t = Inr (q, d) \<Longrightarrow> profile_step nfc p (Demote facts t) q"

inductive_cases profile_stepE: "profile_step nfc p cmd q"

text \<open>A step before the profile expires.\<close>

definition live_step ::
  "(string \<Rightarrow> string) \<Rightarrow> autonomy_profile \<Rightarrow> profile_command \<Rightarrow> autonomy_profile \<Rightarrow> bool" where
  "live_step nfc p cmd q = (profile_step nfc p cmd q \<and> command_time cmd < ap_expires_at p)"

lemma level_index_L0 [simp]: "level_index ''L0'' = 0"
  by (simp add: level_index_def LEVELS_def)

lemma evaluated_profile:
  assumes "evaluate_autonomy nfc c (Some p) t = Inr (q, r)"
  shows "ap_current_level q = start_level c (Some p) t" "ap_halted q = start_halted c (Some p) t"
    "ap_expires_at q = ap_expires_at p" "autonomy_profile_post_init q = Inr ()"
proof -
  have a: "admissible nfc c (Some p) t" by (rule evaluate_admits [OF assms])
  obtain p' code where e: "evaluate_autonomy nfc c (Some p) t =
      Inr (p', recommended c t (start_level c (Some p) t) code)"
    "cohort_profile c (start_level c (Some p) t) (start_halted c (Some p) t) = Inr p'"
    "autonomy_profile_post_init p' = Inr ()" by (rule evaluate_returns [OF a])
  then have "p' = q" using assms by simp
  moreover have "instance_of (cohort_evidence_post_init nfc) c" "ap_expires_at p = at_expires_at (cv_autonomy_tuple c)"
    using a by (simp_all add: admissible_def instance_of_def)
  ultimately show "ap_current_level q = start_level c (Some p) t" "ap_halted q = start_halted c (Some p) t"
    "ap_expires_at q = ap_expires_at p" "autonomy_profile_post_init q = Inr ()"
    using profile_fields(1-3) e(2,3) by auto
qed

lemma demoted_profile:
  assumes "demote_profile p facts t = Inr (q, d)"
  shows "q = demoted p facts" "autonomy_profile_post_init q = Inr ()"
  using demote_admits [OF assms] assms demoted_accepted by (metis demote_returns Inr_inject fst_conv)+

lemma step_level:
  "profile_step nfc p cmd q \<Longrightarrow> level_index (ap_current_level q) \<le> level_index (ap_current_level p)"
  by (erule profile_stepE) (auto dest!: evaluated_profile(1) demoted_profile(1) simp: start_level_def demoted_def)

interpretation level_bound: invariant_machine "profile_step nfc" "\<lambda>q. level_index (ap_current_level q) \<le> n"
  for nfc n
  by unfold_locales (use step_level le_trans in blast)

interpretation accepted_profile: invariant_machine "profile_step nfc" "\<lambda>q. autonomy_profile_post_init q = Inr ()"
  for nfc
  by unfold_locales (auto elim!: profile_stepE dest: evaluated_profile(4) demoted_profile(2))

interpretation halted_profile: invariant_machine "live_step nfc"
  "\<lambda>q. ap_halted q \<and> ap_current_level q = ''L0'' \<and> ap_expires_at q = e" for nfc e
proof
  fix p cmd q
  assume p: "ap_halted p \<and> ap_current_level p = ''L0'' \<and> ap_expires_at p = e" and "live_step nfc p cmd q"
  then have step: "profile_step nfc p cmd q" and live: "command_time cmd < e" by (auto simp: live_step_def)
  from step show "ap_halted q \<and> ap_current_level q = ''L0'' \<and> ap_expires_at q = e"
  proof cases
    case (Evaluated c t r)
    have "ap_expires_at p = at_expires_at (cv_autonomy_tuple c)"
      using evaluate_admits [OF Evaluated(2)] by (simp add: admissible_def)
    then have "\<not> autonomy_expired c t" using p live Evaluated(1) by (simp add: autonomy_expired_def not_le)
    then show ?thesis
      using p evaluated_profile [OF Evaluated(2)] by (simp add: start_level_def start_halted_def)
  next
    case (Demoted facts t d)
    then show ?thesis using p demoted_profile(1) [OF Demoted(2)] by (simp add: demoted_def)
  qed
qed

end
