(* ===== verification/BundleBinding.thy ===== *)
theory BundleBinding
  imports ShadowContracts
begin

text \<open>
  What a \<open>ReadyForPrBundleV1\<close> promises, and an example bundle: one task, run and fence throughout,
  one chain of digests from the lease to the semantic verdict, and a digest over all of it.
\<close>

lemma bundle_built_checked:
  "bundle_from_components nfc e h = Inr b \<Longrightarrow> (pr_bundle_post_init nfc b = Inr () \<Longrightarrow> P) \<Longrightarrow> P"
  unfolding bundle_from_components_def by (elim bnd_InrE construct_checked)

section \<open>An example bundle\<close>

definition ex_m4 :: m4_bridge where
  "ex_m4 = \<lparr>m4_schema_version = 1, m4_task_id = ''task'', m4_run_id = ''run'', m4_owner = ''owner'',
     m4_role = PStr ''writer'', m4_fence = 1, m4_intent_digest = replicate 64 (CHR ''1''),
     m4_lease_packet_digest = replicate 64 (CHR ''1'')\<rparr>"

definition ex_m5 :: m5_bridge where
  "ex_m5 = \<lparr>m5_schema_version = 1, m5_task_id = ''task'', m5_run_id = ''run'', m5_owner = ''owner'',
     m5_role = PStr ''writer'', m5_fence = 1, m5_repository_id = ''repo'',
     m5_legacy_intent_digest = replicate 64 (CHR ''1''), m5_task_packet_digest = replicate 64 (CHR ''2''),
     m5_run_manifest_digest = replicate 64 (CHR ''3''), m5_workspace_snapshot_digest = replicate 64 (CHR ''4''),
     m5_workspace_result_digest = replicate 64 (CHR ''5''), m5_authority_exact_head_sha = replicate 40 (CHR ''6''),
     m5_snapshot_input_head_sha = replicate 40 (CHR ''6''), m5_snapshot_result_head_sha = replicate 40 (CHR ''7''),
     m5_result_exact_head_sha = replicate 40 (CHR ''7'')\<rparr>"

definition ex_pass_verdict :: pass_verdict where
  "ex_pass_verdict = \<lparr>pv_schema_version = 1, pv_subject_digest = replicate 64 (CHR ''8''), pv_decision = PStr ''pass'',
     pv_decision_source = PStr ''deterministic_adjudicator'', pv_finding_identity_digests = [],
     pv_duplicate_identity_digests = [], pv_correlated_requirement_keys = [], pv_contradicted_requirement_keys = [],
     pv_unsupported_pass_requirement_keys = [], pv_residual_risk = PStr ''none''\<rparr>"

definition ex_m6 :: m6_bridge where
  "ex_m6 = \<lparr>m6_schema_version = 1, m6_task_id = ''task'', m6_run_id = ''run'', m6_owner = ''owner'',
     m6_role = PStr ''writer'', m6_fence = 1, m6_repository_id = ''repo'',
     m6_legacy_intent_digest = replicate 64 (CHR ''1''), m6_task_packet_digest = replicate 64 (CHR ''2''),
     m6_run_manifest_digest = replicate 64 (CHR ''3''), m6_workspace_snapshot_digest = replicate 64 (CHR ''4''),
     m6_workspace_result_digest = replicate 64 (CHR ''5''), m6_binding_input_head_sha = replicate 40 (CHR ''6''),
     m6_binding_exact_head_sha = replicate 40 (CHR ''7''), m6_subject_exact_head_sha = replicate 40 (CHR ''7''),
     m6_envelope_digest = envelope_digest_of (replicate 64 (CHR ''9'')) (replicate 64 (CHR ''a'')) (replicate 64 (CHR ''8'')),
     m6_binding_digest = replicate 64 (CHR ''9''), m6_validation_inputs_digest = replicate 64 (CHR ''a''),
     m6_subject_digest = replicate 64 (CHR ''8''), m6_evidence_set_digest = replicate 64 (CHR ''b''),
     m6_verdict_digest = pass_verdict_digest ex_pass_verdict, m6_verdict = ex_pass_verdict\<rparr>"

definition ex_evidence :: shadow_evidence where
  "ex_evidence = \<lparr>se_schema_version = 1, se_m4 = ex_m4, se_m5 = ex_m5, se_m6 = ex_m6\<rparr>"

definition ex_handoff :: operator_handoff where
  "ex_handoff = \<lparr>oh_schema_version = 1, oh_subject_digest = evidence_digest ex_evidence,
     oh_external_capability = PStr ''absent'', oh_recommended_action = PStr ''human_review'',
     oh_instructions = map PStr MANUAL_HANDOFF_INSTRUCTIONS\<rparr>"

definition ex_bundle :: pr_bundle where
  "ex_bundle = \<lparr>bu_schema_version = 1, bu_status = PStr BUNDLE_STATUS, bu_evidence = ex_evidence,
     bu_operator_handoff = ex_handoff, bu_bundle_digest = bundle_digest_of 1 (PStr BUNDLE_STATUS) ex_evidence ex_handoff\<rparr>"

lemma ex_ids_ok: "id_ok (\<lambda>s. s) ''task''" "id_ok (\<lambda>s. s) ''run''" "id_ok (\<lambda>s. s) ''owner''" "id_ok (\<lambda>s. s) ''repo''"
  by (simp_all add: id_ok_iff ID_match_def ident_match_def is_alnum_def digits_chars_def lower_chars_def upper_chars_def)

lemma ex_hex_chars: "is_hex (CHR ''1'')" "is_hex (CHR ''2'')" "is_hex (CHR ''3'')" "is_hex (CHR ''4'')" "is_hex (CHR ''5'')"
    "is_hex (CHR ''6'')" "is_hex (CHR ''7'')" "is_hex (CHR ''8'')" "is_hex (CHR ''9'')" "is_hex (CHR ''a'')"
    "is_hex (CHR ''b'')" "is_hex (CHR ''c'')"
  by (simp_all add: is_hex_def digits_chars_def)

lemmas ex_simps = instance_of_def res_simps py_eq_str_def ex_ids_ok ex_hex_chars MAX_FENCE_def

lemma ex_m4_accepted: "instance_of (m4_bridge_post_init (\<lambda>s. s)) ex_m4"
  by (simp add: m4_bridge_post_init_def ex_m4_def ex_simps)

lemma ex_m5_accepted: "instance_of (m5_bridge_post_init (\<lambda>s. s)) ex_m5"
  by (simp add: m5_bridge_post_init_def ex_m5_def ex_simps)

lemma ex_pass_verdict_accepted: "instance_of pass_verdict_post_init ex_pass_verdict"
  by (simp add: pass_verdict_post_init_def ex_pass_verdict_def ex_simps)

lemma ex_m6_accepted: "instance_of (m6_bridge_post_init (\<lambda>s. s)) ex_m6"
proof -
  have "pass_verdict_post_init ex_pass_verdict = Inr ()" using ex_pass_verdict_accepted by (simp add: instance_of_def)
  moreover have "pv_subject_digest ex_pass_verdict = replicate 64 (CHR ''8'')" by (simp add: ex_pass_verdict_def)
  ultimately show ?thesis
    by (simp add: m6_bridge_post_init_def ex_m6_def ex_simps envelope_digest_of_def pass_verdict_digest_def)
qed

lemma ex_evidence_accepted: "instance_of (shadow_evidence_post_init (\<lambda>s. s)) ex_evidence"
  using ex_m4_accepted ex_m5_accepted ex_m6_accepted
  unfolding instance_of_def [of "shadow_evidence_post_init (\<lambda>s. s)"] shadow_evidence_post_init_def
  by (simp add: res_simps ex_evidence_def) (simp add: ex_m4_def ex_m5_def ex_m6_def)

lemma ex_handoff_accepted: "instance_of operator_handoff_post_init ex_handoff"
  by (simp add: operator_handoff_post_init_def ex_handoff_def ex_simps evidence_digest_def)

lemma ex_bundle_built: "bundle_from_components (\<lambda>s. s) ex_evidence ex_handoff = Inr ex_bundle"
  using ex_evidence_accepted ex_handoff_accepted
  by (simp add: bundle_from_components_def res_simps ex_bundle_def pr_bundle_post_init_def bundle_digest_of_def
      py_eq_str_def ex_handoff_def)

lemma ex_bundle_accepted: "pr_bundle_post_init (\<lambda>s. s) ex_bundle = Inr ()"
  using ex_bundle_built by (elim bundle_built_checked)

section \<open>What a bundle holds\<close>

lemma task_evidence_facts:
  assumes "instance_of (shadow_evidence_post_init nfc) x"
  shows "instance_of (m4_bridge_post_init nfc) (se_m4 x)" "instance_of (m5_bridge_post_init nfc) (se_m5 x)"
    "instance_of (m6_bridge_post_init nfc) (se_m6 x)"
    "m4_task_id (se_m4 x) = m5_task_id (se_m5 x) \<and> m5_task_id (se_m5 x) = m6_task_id (se_m6 x)"
    "m4_run_id (se_m4 x) = m5_run_id (se_m5 x) \<and> m5_run_id (se_m5 x) = m6_run_id (se_m6 x)"
    "m4_fence (se_m4 x) = m5_fence (se_m5 x) \<and> m5_fence (se_m5 x) = m6_fence (se_m6 x)"
    "m4_intent_digest (se_m4 x) = m5_legacy_intent_digest (se_m5 x) \<and>
     m5_legacy_intent_digest (se_m5 x) = m6_legacy_intent_digest (se_m6 x)"
    "m5_result_exact_head_sha (se_m5 x) = m6_subject_exact_head_sha (se_m6 x)"
    "m6_binding_input_head_sha (se_m6 x) = m5_authority_exact_head_sha (se_m5 x)"
  using assms unfolding instance_of_def [of "shadow_evidence_post_init nfc"] shadow_evidence_post_init_def
  by (simp_all only: res_simps simp_thms)

lemma m6_facts:
  assumes "instance_of (m6_bridge_post_init nfc) x"
  shows "instance_of pass_verdict_post_init (m6_verdict x)" "pv_subject_digest (m6_verdict x) = m6_subject_digest x"
    "m6_verdict_digest x = pass_verdict_digest (m6_verdict x)"
    "m6_envelope_digest x = envelope_digest_of (m6_binding_digest x) (m6_validation_inputs_digest x) (m6_subject_digest x)"
  using assms unfolding instance_of_def [of "m6_bridge_post_init nfc"] m6_bridge_post_init_def
  by (simp_all only: res_simps)

lemma pass_facts:
  assumes "instance_of pass_verdict_post_init x"
  shows "pv_decision x = PStr ''pass''" "pv_finding_identity_digests x = []" "pv_residual_risk x = PStr ''none''"
  using assms unfolding instance_of_def pass_verdict_post_init_def by (simp_all only: res_simps py_eq_str_def)

lemma bundle_facts:
  assumes "pr_bundle_post_init nfc x = Inr ()"
  shows "bu_schema_version x = 1" "bu_status x = PStr BUNDLE_STATUS"
    "instance_of (shadow_evidence_post_init nfc) (bu_evidence x)"
    "instance_of operator_handoff_post_init (bu_operator_handoff x)"
    "oh_subject_digest (bu_operator_handoff x) = evidence_digest (bu_evidence x)"
    "bu_bundle_digest x = bundle_digest_of (bu_schema_version x) (bu_status x) (bu_evidence x) (bu_operator_handoff x)"
  using assms unfolding pr_bundle_post_init_def by (simp_all add: res_simps py_eq_str_def)

section \<open>Properties\<close>

text \<open>A bundle can be built from evidence and a handoff exactly when both are valid and the handoff
  was proposed for that evidence; the bundle built is then always valid.\<close>

theorem bundle_from_components_iff:
  "bundle_from_components nfc evidence handoff = Inr b \<longleftrightarrow>
     shadow_evidence_post_init nfc evidence = Inr () \<and> operator_handoff_post_init handoff = Inr () \<and>
     oh_subject_digest handoff = evidence_digest evidence \<and>
     b = \<lparr>bu_schema_version = 1, bu_status = PStr BUNDLE_STATUS, bu_evidence = evidence, bu_operator_handoff = handoff,
          bu_bundle_digest = bundle_digest_of 1 (PStr BUNDLE_STATUS) evidence handoff\<rparr> \<and>
     pr_bundle_post_init nfc b = Inr ()"
  by (auto simp: bundle_from_components_def res_simps instance_of_def pr_bundle_post_init_def bundle_digest_of_def
      py_eq_str_def)



text \<open>Parsing and rendering a bundle are inverse: what is valid survives the round trip unchanged, and only
  valid bundles come out of the parser.\<close>

theorem bundle_roundtrip:
  "pr_bundle_from_dict nfc (pr_bundle_to_dict b) = Inr b \<longleftrightarrow> pr_bundle_post_init nfc b = Inr ()"
  using pr_bundle.parse_render pr_bundle.parse_checked by blast

end
