(* ===== verification/ShadowThresholds.thy ===== *)
theory ShadowThresholds
  imports ShadowEvaluation
begin

text \<open>
  The properties of the shadow evaluation, and an example cohort of thirty outcomes that meets every
  threshold, to which they are applied.
\<close>

section \<open>An example cohort\<close>

definition ex_key :: cohort_key where
  "ex_key = \<lparr>ck_schema_version = 1, ck_repository_id = ''repo'', ck_change_class = PStr ''bugfix'',
     ck_agent_digest = replicate 64 (CHR ''1''), ck_validator_digest = replicate 64 (CHR ''2''),
     ck_model_digest = replicate 64 (CHR ''3''), ck_prompt_digest = replicate 64 (CHR ''4''),
     ck_policy_digest = replicate 64 (CHR ''5''), ck_runner_digest = replicate 64 (CHR ''6''),
     ck_holdout_digest = replicate 64 (CHR ''7''), ck_authority_digest = replicate 64 (CHR ''8'')\<rparr>"

definition ex_digit :: "nat \<Rightarrow> char" where
  "ex_digit n = digits_chars ! n"

definition ex_outcome :: "nat \<Rightarrow> shadow_outcome" where
  "ex_outcome n = \<lparr>so_schema_version = 1, so_outcome_id = [CHR ''o'', ex_digit (n div 10), ex_digit (n mod 10)],
     so_bundle_digest = ex_digit (n div 10) # ex_digit (n mod 10) # replicate 62 (CHR ''a''),
     so_cohort_key_digest = cohort_key_digest ex_key, so_human_evidence_digest = replicate 64 (CHR ''b''),
     so_human_decision = PStr ''merged_accepted'', so_first_pass_accepted = True, so_rework_required = False,
     so_validator_false_negative = False, so_validator_false_positive_or_disagreement = False,
     so_repair_cycles = 1, so_cost_within_budget = True, so_latency_within_slo = True, so_deadline_met = True,
     so_token_budget_met = True, so_human_review_seconds = 60,
     so_critical_high_miss_count = 0, so_security_miss_count = 0, so_unauthorized_effect_count = 0,
     so_rollback_count = 0, so_escaped_defect_count = 0, so_duplicate_dispatch_count = 0,
     so_unaccounted_call_count = 0, so_injection_attempt_count = 1, so_injection_contained_count = 1\<rparr>"

definition ex_cohort :: shadow_cohort where
  "ex_cohort = \<lparr>sh_schema_version = 1, sh_cohort_id = ''cohort'', sh_key = ex_key, sh_observation_days = 14,
     sh_release_cycle_complete = False, sh_baseline_review_seconds = replicate 30 100,
     sh_outcomes = map ex_outcome [0..<30]\<rparr>"

lemma ex_key_accepted: "instance_of (cohort_key_post_init (\<lambda>s. s)) ex_key"
  by (simp add: instance_of_def cohort_key_post_init_def ex_key_def res_simps id_ok_iff in_str_tuple_def CHANGE_CLASSES_def)
    (simp add: ID_match_def ident_match_def is_alnum_def is_hex_def digits_chars_def lower_chars_def upper_chars_def)

lemma ex_digit_class: "n < 10 \<Longrightarrow> is_hex (ex_digit n) \<and> is_alnum (ex_digit n)"
proof -
  assume "n < 10"
  then have "digits_chars ! n \<in> set digits_chars" by (intro nth_mem) (simp add: digits_chars_def)
  then show ?thesis by (simp add: ex_digit_def is_hex_def is_alnum_def)
qed

lemma ex_hex: "a < 10 \<Longrightarrow> b < 10 \<Longrightarrow> hex_string 64 (ex_digit a # ex_digit b # replicate 62 (CHR ''a''))"
  using ex_digit_class [of a] ex_digit_class [of b]
  by (simp add: hex_string_def list_all_iff is_hex_def [of "CHR ''a''"])

lemma ex_outcome_accepted: "n < 30 \<Longrightarrow> instance_of (shadow_outcome_post_init (\<lambda>s. s)) (ex_outcome n)"
proof -
  assume "n < 30"
  then have d: "n div 10 < 10" "n mod 10 < 10" by auto
  have id: "ID_match [CHR ''o'', ex_digit (n div 10), ex_digit (n mod 10)]"
    using ex_digit_class [OF d(1)] ex_digit_class [OF d(2)]
    by (simp add: ID_match_def ident_match_def is_alnum_def [of "CHR ''o''"] lower_chars_def)
  have b: "is_hex (CHR ''b'')" by (simp add: is_hex_def)
  show ?thesis
    by (simp add: instance_of_def shadow_outcome_post_init_def ex_outcome_def res_simps id_ok_iff id b
        ex_hex [OF d] in_str_tuple_def py_eq_str_def cohort_key_digest_def MAX_REVIEW_SECONDS_def MAX_EVIDENCE_COUNT_def) blast
qed

lemma ex_upt: "[0..<30] = [0::nat, 1, 2, 3, 4, 5, 6, 7, 8, 9, 10, 11, 12, 13, 14, 15, 16, 17, 18, 19, 20, 21, 22,
    23, 24, 25, 26, 27, 28, 29]"
  by code_simp

lemma ex_ids: "map so_outcome_id (map ex_outcome [0..<30]) = sort (map so_outcome_id (map ex_outcome [0..<30]))"
    "distinct (map so_outcome_id (map ex_outcome [0..<30]))" "distinct (map so_bundle_digest (map ex_outcome [0..<30]))"
  unfolding ex_upt by (simp_all add: ex_outcome_def ex_digit_def digits_chars_def)

lemma ex_cohort_accepted: "instance_of (shadow_cohort_post_init (\<lambda>s. s)) ex_cohort"
proof -
  have "list_all (instance_of (shadow_outcome_post_init (\<lambda>s. s))) (map ex_outcome [0..<30])"
    using ex_outcome_accepted by (simp add: list_all_iff del: upt_rec_numeral)
  moreover have "list_all (\<lambda>x. so_cohort_key_digest x = cohort_key_digest ex_key) (map ex_outcome [0..<30])"
    by (simp add: list_all_iff ex_outcome_def del: upt_rec_numeral)
  moreover have "id_ok (\<lambda>s. s) ''cohort''"
    by (simp add: id_ok_iff ID_match_def ident_match_def is_alnum_def digits_chars_def lower_chars_def upper_chars_def)
  moreover have "sorted (replicate 30 (100::int))" by (simp add: sorted_iff_nth_mono)
  ultimately show ?thesis
    using ex_key_accepted ex_ids
    by (simp add: instance_of_def [of "shadow_cohort_post_init nfc" for nfc] shadow_cohort_post_init_def ex_cohort_def
        res_simps MAX_COHORT_ITEMS_def MAX_REVIEW_SECONDS_def sorted_sort_id list_all_iff del: upt_rec_numeral map_replicate) blast
qed


section \<open>Properties\<close>

text \<open>C35: A nearest-rank percentile is an element of the list, at least \<open>p\<close> percent of the values are at
  most it, and fewer than \<open>p\<close> percent are below it.\<close>

theorem nearest_rank_correct:
  assumes "nearest_rank values p = Inr v"
  shows "v \<in> set values \<and> p * int (length values) \<le> 100 * count_where (\<lambda>x. x \<le> v) values \<and>
    100 * count_where (\<lambda>x. x < v) values < p * int (length values)"
  by (rule nearest_rank_bounds [OF assms])

theorem nearest_rank_correct_witness:
  "nearest_rank [40, 10, 30, 20] 50 = Inr 20 \<and>
   50 * int (length [40, 10, 30, 20::int]) \<le> 100 * count_where (\<lambda>x. x \<le> 20) [40, 10, 30, 20::int]"
proof -
  have e: "nearest_rank [40, 10, 30, 20] 50 = Inr 20" by (simp add: nearest_rank_def)
  then show ?thesis using nearest_rank_correct [OF e] by blast
qed

text \<open>C21: The evaluation recommends human L2 review exactly when the cohort meets every admission
  threshold, stated as rational inequalities over its outcomes.\<close>

theorem evaluate_eligible_iff:
  assumes "evaluate_shadow_cohort nfc c = Inr e"
  shows "ev_recommendation e = ''eligible_for_human_l2_review'' \<longleftrightarrow>
    30 \<le> count_where merged_accepted (sh_outcomes c) \<and>
    (14 \<le> sh_observation_days c \<or> sh_release_cycle_complete c) \<and>
    30 \<le> length (sh_baseline_review_seconds c) \<and> quality_met (sh_outcomes c) \<and> review_reduced c \<and>
    list_all within_budget (sh_outcomes c) \<and> list_all harmless (sh_outcomes c) \<and>
    attacks_contained (sh_outcomes c)"
proof -
  obtain a where a: "instance_of (shadow_cohort_post_init nfc) c" "aggregate_shadow_cohort nfc c = Inr a"
    "ev_failure_codes e = usort (map snd (filter fst (failure_rules a)))"
    "ev_recommendation e = (if ev_failure_codes e \<noteq> [] then ''blocked'' else ''eligible_for_human_l2_review'')"
    by (rule evaluate_Inr [OF assms])
  then show ?thesis
    unfolding eligible_characterisation [OF a(1,2), symmetric] codes_empty_iff [symmetric] by simp
qed

lemma ex_nearest: "nearest_rank (replicate 30 x) 50 = Inr x"
proof -
  obtain v where "nearest_rank (replicate 30 x) 50 = Inr v" "v \<in> set (replicate 30 x)"
    using nearest_rank_total [of "replicate 30 x" 50] by auto
  then show ?thesis by simp
qed

lemma ex_count: "(\<And>n. P (ex_outcome n)) \<Longrightarrow> count_where P (map ex_outcome [0..<30]) = 30"
    "(\<And>n. \<not> P (ex_outcome n)) \<Longrightarrow> count_where P (map ex_outcome [0..<30]) = 0"
  by (simp_all add: count_where_def del: upt_rec_numeral)

theorem evaluate_eligible_iff_witness:
  "\<exists>e. evaluate_shadow_cohort (\<lambda>s. s) ex_cohort = Inr e \<and> ev_recommendation e = ''eligible_for_human_l2_review''"
proof -
  obtain a where "aggregate_shadow_cohort (\<lambda>s. s) ex_cohort = Inr a"
    by (rule aggregate_total [OF ex_cohort_accepted])
  then obtain e where e: "evaluate_shadow_cohort (\<lambda>s. s) ex_cohort = Inr e"
    using evaluate_total [OF ex_cohort_accepted] by blast
  have seconds: "map so_human_review_seconds (map ex_outcome [0..<30]) = replicate 30 60"
    by (simp add: map_replicate_const ex_outcome_def comp_def del: upt_rec_numeral)
  have "quality_met (map ex_outcome [0..<30])"
    unfolding quality_met_def Let_def by (simp add: ex_count ex_outcome_def del: map_map)
  moreover have "review_reduced ex_cohort"
    by (simp add: review_reduced_def ex_cohort_def seconds ex_nearest del: map_map)
  moreover have "count_where merged_accepted (map ex_outcome [0..<30]) = 30"
    by (rule ex_count) (simp add: merged_accepted_def ex_outcome_def py_eq_str_def)
  moreover have "list_all within_budget (map ex_outcome [0..<30])" "list_all harmless (map ex_outcome [0..<30])"
    "attacks_contained (map ex_outcome [0..<30])"
    by (simp_all add: list_all_iff list_ex_iff within_budget_def harmless_def injuries_def attacks_contained_def
        ex_outcome_def del: upt_rec_numeral) (rule exI [of _ 0], simp)
  ultimately show ?thesis
    using e evaluate_eligible_iff [OF e] by (simp add: ex_cohort_def)
qed

text \<open>The evaluation returns exactly for the accepted cohorts: no arithmetic on one of them fails.\<close>

theorem evaluate_total_iff:
  "(\<exists>e. evaluate_shadow_cohort nfc c = Inr e) \<longleftrightarrow> shadow_cohort_post_init nfc c = Inr ()"
proof
  assume "\<exists>e. evaluate_shadow_cohort nfc c = Inr e"
  then show "shadow_cohort_post_init nfc c = Inr ()" by (metis evaluate_Inr instance_of_def)
next
  assume "shadow_cohort_post_init nfc c = Inr ()"
  then have i: "instance_of (shadow_cohort_post_init nfc) c" by (simp add: instance_of_def)
  obtain a where "aggregate_shadow_cohort nfc c = Inr a" by (rule aggregate_total [OF i])
  then show "\<exists>e. evaluate_shadow_cohort nfc c = Inr e" using evaluate_total [OF i] by blast
qed

text \<open>Every rate of an aggregate lies between 0 and one million, its counts between 0 and the sample
  size, and its 95th percentile and maximum of repair cycles between 0 and 3.\<close>

theorem aggregate_rates_bounded:
  assumes "aggregate_shadow_cohort nfc c = Inr a"
  shows "list_all (\<lambda>r. 0 \<le> r \<and> r \<le> 1000000)
       [ag_first_pass_acceptance_millionths a, ag_rework_millionths a, ag_validator_false_negative_millionths a,
        ag_validator_false_positive_or_disagreement_millionths a, ag_injection_containment_millionths a] \<and>
     0 \<le> ag_human_merged_accepted_count a \<and> ag_human_merged_accepted_count a \<le> int (length (sh_outcomes c)) \<and>
     0 \<le> ag_p95_repair_cycles a \<and> ag_p95_repair_cycles a \<le> ag_max_repair_cycles a \<and> ag_max_repair_cycles a \<le> 3"
proof -
  have ok: "instance_of (shadow_cohort_post_init nfc) c"
    using assms by (simp add: aggregate_shadow_cohort_def res_simps)
  note c = cohort_facts [OF ok] and f = aggregate_fields [OF assms]
  let ?xs = "sh_outcomes c"
  have rate: "0 \<le> count_where P ?xs * MILLION div int (length ?xs)"
    "count_where P ?xs * MILLION div int (length ?xs) \<le> 1000000" for P
    using rate_bounds [of "count_where P ?xs" "int (length ?xs)"] count_where_bounds [of P ?xs] c(1) by auto
  have att: "0 \<le> so_injection_contained_count x" "so_injection_contained_count x \<le> so_injection_attempt_count x"
    if "x \<in> set ?xs" for x using outcome_facts(11,12) [OF c(3) [OF that]] by simp_all
  let ?k = "sum_list (map so_injection_contained_count ?xs)" and ?s = "sum_list (map so_injection_attempt_count ?xs)"
  have k: "0 \<le> ?k" by (intro sum_list_nonneg) (use att in auto)
  have s: "?k \<le> ?s" by (intro sum_list_mono) (use att in auto)
  have "0 \<le> ag_injection_containment_millionths a \<and> ag_injection_containment_millionths a \<le> 1000000"
    unfolding f(17) using rate_bounds [of ?k ?s] k s by auto
  moreover have "ag_p95_repair_cycles a \<in> set (map so_repair_cycles ?xs)"
    using nearest_rank_bounds [OF f(3)] by blast
  moreover have "Max (set (map so_repair_cycles ?xs)) \<in> set (map so_repair_cycles ?xs)"
    using c(1) by (intro Max_in) auto
  moreover have "0 \<le> z \<and> z \<le> 3" if "z \<in> set (map so_repair_cycles ?xs)" for z
    using that outcome_facts(1,2) [OF c(3)] by auto
  ultimately show ?thesis
    unfolding list.pred_inject f(4,8-12)
    using rate count_where_bounds [of merged_accepted ?xs] by (simp add: Max_ge)
qed

theorem aggregate_rates_bounded_witness:
  "\<exists>a. aggregate_shadow_cohort (\<lambda>s. s) ex_cohort = Inr a \<and> ag_max_repair_cycles a \<le> 3"
proof -
  obtain a where a: "aggregate_shadow_cohort (\<lambda>s. s) ex_cohort = Inr a"
    by (rule aggregate_total [OF ex_cohort_accepted])
  then show ?thesis using aggregate_rates_bounded [OF a] by blast
qed


text \<open>A change class that is a JSON array or object is not rejected as an invalid contract: the set membership
  test hashes it, and \<open>TypeError\<close> escapes the class check.\<close>

theorem unhashable_change_class_escapes:
  "cohort_key_post_init (\<lambda>s. s) (ex_key\<lparr>ck_change_class := PList xs\<rparr>) = Inl TypeError \<and>
   cohort_key_post_init (\<lambda>s. s) (ex_key\<lparr>ck_change_class := PDict kvs\<rparr>) = Inl TypeError"
proof -
  have "sh_identifier (\<lambda>s. s) (PStr ''repo'') ''repository_id'' = Inr ''repo''"
    using ex_key_accepted by (simp add: instance_of_def cohort_key_post_init_def res_simps ex_key_def)
  then show ?thesis
    by (simp add: cohort_key_post_init_def ex_key_def sh_version_def sh_member_def in_str_set_def)
qed

end
