(* ===== verification/AutonomyPolicy.thy ===== *)
theory AutonomyPolicy
  imports AutonomyMachine BundleBinding ShadowThresholds
begin

text \<open>
  The properties of the M8 policy and of the bridge it reads, and an example cohort of one task, bound
  to its bundle and its outcome, to which they are applied.
\<close>

section \<open>An example cohort\<close>

definition ex_linked_outcome :: shadow_outcome where
  "ex_linked_outcome = (ex_outcome 0)\<lparr>so_bundle_digest := bu_bundle_digest ex_bundle\<rparr>"

definition ex_linked_cohort :: shadow_cohort where
  "ex_linked_cohort = ex_cohort\<lparr>sh_outcomes := [ex_linked_outcome]\<rparr>"

definition ex_mapping :: provider_mapping where
  "ex_mapping = \<lparr>pm_schema_version = 1, pm_cohort_key_digest = cohort_key_digest ex_key,
     pm_validator_digest = replicate 64 (CHR ''2''), pm_provider_digest = replicate 64 (CHR ''9'')\<rparr>"

definition ex_bridge :: autonomy_bridge where
  "ex_bridge = \<lparr>ab_schema_version = 1, ab_provider_mapping = ex_mapping, ab_bundles = [ex_bundle],
     ab_cohort = ex_linked_cohort\<rparr>"

definition ex_tuple :: autonomy_tuple where
  "ex_tuple = \<lparr>at_schema_version = 1, at_repository_id = ''repo'', at_task_class = PStr ''low_risk_text_only'',
     at_m7_change_class = ''bugfix'', at_m7_cohort_key_digest = cohort_key_digest ex_key,
     at_provider_mapping_digest = provider_mapping_digest ex_mapping, at_agent_digest = replicate 64 (CHR ''1''),
     at_validator_digest = replicate 64 (CHR ''2''), at_provider_digest = replicate 64 (CHR ''9''),
     at_model_digest = replicate 64 (CHR ''3''), at_prompt_digest = replicate 64 (CHR ''4''),
     at_policy_digest = replicate 64 (CHR ''5''), at_runner_digest = replicate 64 (CHR ''6''),
     at_holdout_digest = replicate 64 (CHR ''7''), at_authority_digest = replicate 64 (CHR ''8''),
     at_authority_ceiling = PStr ''L2'', at_expires_at = DateTime 2026 2 1 0 0 0 0\<rparr>"

definition ex_task :: cohort_task where
  "ex_task = \<lparr>ct_schema_version = 1, ct_tuple_digest = tuple_digest ex_tuple, ct_task_id = ''task'', ct_run_id = ''run'',
     ct_exact_head_sha = replicate 40 (CHR ''7''), ct_observed_at = DateTime 2026 1 5 0 0 0 0,
     ct_m7_bundle_digest = bu_bundle_digest ex_bundle, ct_m7_outcome_digest = outcome_digest ex_linked_outcome,
     ct_audit_sampled = True, ct_audit_accepted = True, ct_human_acceptance_receipt_digest = replicate 64 (CHR ''b''),
     ct_attestation_receipt_digest = replicate 64 (CHR ''c''), ct_quality_score_millionths = 1000000,
     ct_security_failure_count = 0, ct_authorization_failure_count = 0, ct_duplicate_dispatch_count = 0,
     ct_cost_usd_micros = 0, ct_latency_ms = 0, ct_demotion_trigger_count = 0\<rparr>"

definition ex_cohort_evidence :: cohort_evidence where
  "ex_cohort_evidence = \<lparr>cv_schema_version = 1, cv_autonomy_tuple = ex_tuple, cv_tasks = [ex_task], cv_m7_handoff = ex_bridge,
     cv_window_started_at = DateTime 2026 1 1 0 0 0 0, cv_window_ended_at = DateTime 2026 1 10 0 0 0 0,
     cv_minimum_human_acceptances = 30, cv_minimum_audit_rate_millionths = 200000,
     cv_minimum_quality_score_millionths = 0, cv_maximum_security_failures = 0, cv_maximum_authorization_failures = 0,
     cv_maximum_duplicate_dispatches = 0, cv_maximum_cost_usd_micros = 0, cv_maximum_latency_ms = 0,
     cv_maximum_demotion_triggers = 0\<rparr>"

definition ex_time :: datetime where
  "ex_time = DateTime 2026 1 11 0 0 0 0"

definition ex_profile :: autonomy_profile where
  "ex_profile = \<lparr>ap_schema_version = 1, ap_tuple_digest = tuple_digest ex_tuple, ap_cohort_digest = replicate 64 (CHR ''a''),
     ap_current_level = ''L1'', ap_accepted_task_count = 1, ap_audit_sample_count = 1, ap_audit_accepted_count = 1,
     ap_minimum_quality_score_millionths = 0, ap_total_security_failures = 0, ap_total_authorization_failures = 0,
     ap_total_duplicate_dispatches = 0, ap_maximum_cost_usd_micros = 0, ap_p95_latency_ms = 0,
     ap_total_demotion_triggers = 0, ap_expires_at = DateTime 2026 2 1 0 0 0 0, ap_halted = False\<rparr>"

lemma ex_bundle_digest_hex: "hex_string 64 (bu_bundle_digest ex_bundle)"
  by (simp add: ex_bundle_def bundle_digest_of_def)

lemma ex_linked_outcome_accepted: "instance_of (shadow_outcome_post_init (\<lambda>s. s)) ex_linked_outcome"
  using ex_outcome_accepted [of 0] ex_bundle_digest_hex
  unfolding instance_of_def shadow_outcome_post_init_def ex_linked_outcome_def
  by (simp only: res_simps hexpat_len.simps) (simp add: ex_outcome_def)

lemma ex_linked_cohort_accepted: "instance_of (shadow_cohort_post_init (\<lambda>s. s)) ex_linked_cohort"
  using ex_cohort_accepted ex_linked_outcome_accepted
  unfolding instance_of_def [of "shadow_cohort_post_init nfc" for nfc] shadow_cohort_post_init_def ex_linked_cohort_def
  by (simp only: res_simps MAX_COHORT_ITEMS_def) (simp add: ex_cohort_def ex_linked_outcome_def ex_outcome_def)

lemma ex_mapping_accepted: "instance_of provider_mapping_post_init ex_mapping"
  by (simp add: provider_mapping_post_init_def ex_mapping_def ex_simps cohort_key_digest_def)

lemma ex_bridge_accepted: "instance_of (autonomy_bridge_post_init (\<lambda>s. s)) ex_bridge"
proof -
  have r: "reparse (\<lambda>s. s) ex_bridge = Inr ()"
    using ex_mapping_accepted ex_linked_cohort_accepted ex_bundle_accepted
    by (intro reparse_accepts) (simp_all add: ex_bridge_def instance_of_def)
  show ?thesis
    using r ex_mapping_accepted ex_linked_cohort_accepted ex_bundle_accepted
    unfolding instance_of_def [of "autonomy_bridge_post_init nfc" for nfc] autonomy_bridge_post_init_def Let_def
    by (simp add: res_simps ex_bridge_def BRIDGE_MAX_ITEMS_def instance_of_def)
      (simp add: ex_linked_cohort_def ex_linked_outcome_def ex_mapping_def ex_cohort_def ex_key_def)
qed

lemma ex_bugfix_ok: "id_ok (\<lambda>s. s) ''bugfix''"
  by (simp add: id_ok_iff ID_match_def ident_match_def is_alnum_def digits_chars_def lower_chars_def upper_chars_def)

lemma ex_times: "valid_dt (DateTime 2026 1 1 0 0 0 0)" "valid_dt (DateTime 2026 1 5 0 0 0 0)"
    "valid_dt (DateTime 2026 1 10 0 0 0 0)" "valid_dt (DateTime 2026 1 11 0 0 0 0)" "valid_dt (DateTime 2026 2 1 0 0 0 0)"
  by code_simp+

lemma ex_tuple_accepted: "instance_of (autonomy_tuple_post_init (\<lambda>s. s)) ex_tuple"
  by (simp add: autonomy_tuple_post_init_def ex_tuple_def ex_simps res_simps ex_bugfix_ok ex_times cohort_key_digest_def
      provider_mapping_digest_def)

lemma ex_task_accepted: "instance_of (cohort_task_post_init (\<lambda>s. s)) ex_task"
  using ex_bundle_digest_hex
  by (simp add: cohort_task_post_init_def ex_task_def ex_simps res_simps ex_times tuple_digest_def outcome_digest_def
      MAX_COUNT_def MAX_COST_USD_MICROS_def MAX_LATENCY_MS_def) blast

lemma ex_task_link: "task_link ex_bridge ex_task = Inr ()"
  by (simp add: task_link_def by_digest_def ex_bridge_def ex_task_def ex_linked_cohort_def ex_linked_outcome_def
      ex_outcome_def ex_bundle_def ex_evidence_def ex_m4_def ex_m5_def)

lemma ex_bindings: "tuple_bindings ex_tuple ex_bridge = Inr ()"
  by (simp add: tuple_bindings_def Let_def ex_tuple_def ex_bridge_def ex_linked_cohort_def ex_cohort_def ex_key_def
      ex_mapping_def)

lemma ex_cohort_evidence_accepted: "instance_of (cohort_evidence_post_init (\<lambda>s. s)) ex_cohort_evidence"
  unfolding instance_of_def [of "cohort_evidence_post_init nfc" for nfc] cohort_evidence_post_init_def
  by (simp add: res_simps ex_cohort_evidence_def MAX_COHORT_TASKS_def MAX_COST_USD_MICROS_def MAX_LATENCY_MS_def
      ex_times ex_tuple_accepted ex_task_accepted ex_task_link ex_bindings ex_bridge_accepted)
    (simp add: ex_task_def ex_tuple_def ex_bridge_def ex_linked_cohort_def less_eq_datetime_def less_datetime_def dt_fields_def)

lemma ex_profile_accepted: "autonomy_profile_post_init ex_profile = Inr ()"
  by (simp add: autonomy_profile_post_init_def ex_profile_def ex_simps res_simps ex_times tuple_digest_def LEVELS_def
      MAX_COUNT_def MAX_COST_USD_MICROS_def MAX_LATENCY_MS_def) blast

lemma ex_admissible: "admissible (\<lambda>s. s) ex_cohort_evidence (Some ex_profile) ex_time"
  by (simp add: admissible_def ex_cohort_evidence_accepted [unfolded instance_of_def] ex_profile_accepted ex_time_def
      ex_times)
    (simp add: ex_cohort_evidence_def ex_profile_def ex_tuple_def less_eq_datetime_def dt_fields_def)


section \<open>The bridge\<close>

text \<open>C28: Parsing the producer bodies again never rejects anything the class checks accepted: the bridge
  accepts exactly a valid mapping, valid bundles in digest order without replay and a valid cohort whose outcomes
  name exactly those bundles, under a mapping of the cohort's own key and validator.\<close>

theorem autonomy_bridge_accepts_iff:
  "autonomy_bridge_post_init nfc x = Inr () \<longleftrightarrow>
     ab_schema_version x = 1 \<and> provider_mapping_post_init (ab_provider_mapping x) = Inr () \<and>
     ab_bundles x \<noteq> [] \<and> length (ab_bundles x) \<le> 10000 \<and>
     list_all (\<lambda>b. pr_bundle_post_init nfc b = Inr ()) (ab_bundles x) \<and>
     shadow_cohort_post_init nfc (ab_cohort x) = Inr () \<and>
     sorted (map bu_bundle_digest (ab_bundles x)) \<and> distinct (map bu_bundle_digest (ab_bundles x)) \<and>
     mset (map bu_bundle_digest (ab_bundles x)) = mset (map so_bundle_digest (sh_outcomes (ab_cohort x))) \<and>
     pm_cohort_key_digest (ab_provider_mapping x) = cohort_key_digest (sh_key (ab_cohort x)) \<and>
     pm_validator_digest (ab_provider_mapping x) = ck_validator_digest (sh_key (ab_cohort x)) \<and>
     pm_provider_digest (ab_provider_mapping x) \<noteq> ck_validator_digest (sh_key (ab_cohort x))"
proof -
  have sorted_eq: "xs = sort xs \<longleftrightarrow> sorted xs" for xs :: "string list" by (metis sorted_sort sorted_sort_id)
  have mset_eq: "sorted xs \<Longrightarrow> xs = sort ys \<longleftrightarrow> mset xs = mset ys" for xs ys :: "string list"
    by (metis mset_sort properties_for_sort)
  show ?thesis
    using reparse_accepts [of x nfc] mset_eq
    unfolding autonomy_bridge_post_init_def Let_def instance_of_def
    by (simp only: res_simps void_validators sorted_eq BRIDGE_MAX_ITEMS_def) blast
qed

section \<open>The evaluation\<close>

text \<open>C33: \<open>evaluate_autonomy\<close> returns exactly when its own checks hold: no profile or recommendation it builds
  from an accepted cohort can fail its class invariant, and no lookup or level arithmetic can raise.\<close>

theorem evaluate_autonomy_total_iff:
  "(\<exists>profile recommendation. evaluate_autonomy nfc c existing t = Inr (profile, recommendation)) \<longleftrightarrow>
     cohort_evidence_post_init nfc c = Inr () \<and> valid_dt t \<and> cv_window_ended_at c \<le> t \<and>
     (\<forall>p. existing = Some p \<longrightarrow> autonomy_profile_post_init p = Inr () \<and>
        ap_tuple_digest p = tuple_digest (cv_autonomy_tuple c) \<and> ap_expires_at p = at_expires_at (cv_autonomy_tuple c))"
    (is "?l \<longleftrightarrow> ?r")
proof -
  have "?r \<longleftrightarrow> admissible nfc c existing t" by (cases existing) (auto simp: admissible_def)
  moreover have "?l \<longleftrightarrow> admissible nfc c existing t" by (metis evaluate_admits evaluate_returns surj_pair)
  ultimately show ?thesis by simp
qed

theorem evaluate_autonomy_total_iff_witness:
  "\<exists>profile recommendation.
     evaluate_autonomy (\<lambda>s. s) ex_cohort_evidence (Some ex_profile) ex_time = Inr (profile, recommendation)"
  using evaluate_autonomy_total_iff [of "\<lambda>s. s" ex_cohort_evidence "Some ex_profile" ex_time] ex_admissible
  by (simp add: admissible_def)

text \<open>C22: A recommendation never advances: the level recommended is the level the evaluation starts from, the
  reason is never \<open>qualified\<close>, activation stays separate and no external action is authorised.  The profile carries
  the same level.\<close>

theorem evaluate_never_promotes:
  assumes "evaluate_autonomy nfc c existing t = Inr (profile, r)"
  shows "rn_recommended_level r = rn_current_level r \<and> rn_reason_code r \<noteq> PStr ''qualified'' \<and>
    rn_separate_activation_required r \<and> \<not> rn_external_action_authorized r \<and>
    ap_current_level profile = rn_current_level r \<and>
    (existing = None \<longrightarrow> rn_current_level r = ''L0'') \<and>
    (\<forall>p. existing = Some p \<longrightarrow> level_index (rn_current_level r) \<le> level_index (ap_current_level p))"
proof -
  have a: "admissible nfc c existing t" by (rule evaluate_admits [OF assms])
  then have c: "instance_of (cohort_evidence_post_init nfc) c" by (simp add: admissible_def instance_of_def)
  obtain p code where e: "evaluate_autonomy nfc c existing t = Inr (p, recommended c t (start_level c existing t) code)"
    "cohort_profile c (start_level c existing t) (start_halted c existing t) = Inr p"
    "autonomy_profile_post_init p = Inr ()" "code \<in> set RECOMMENDATION_REASONS - {''qualified''}"
    by (rule evaluate_returns [OF a])
  have "rn_current_level r = start_level c existing t" "rn_recommended_level r = start_level c existing t"
    "rn_reason_code r = PStr code" "rn_separate_activation_required r" "\<not> rn_external_action_authorized r"
    "profile = p"
    using e(1) assms by (auto simp: recommended_def)
  then show ?thesis
    using profile_fields(1) [OF c e(2)] e(4) by (auto simp: start_level_def)
qed

theorem evaluate_never_promotes_witness:
  "\<exists>profile r. evaluate_autonomy (\<lambda>s. s) ex_cohort_evidence (Some ex_profile) ex_time = Inr (profile, r) \<and>
     level_index (rn_recommended_level r) \<le> level_index (ap_current_level ex_profile)"
proof -
  obtain p code where e: "evaluate_autonomy (\<lambda>s. s) ex_cohort_evidence (Some ex_profile) ex_time =
      Inr (p, recommended ex_cohort_evidence ex_time (start_level ex_cohort_evidence (Some ex_profile) ex_time) code)"
    by (rule evaluate_returns [OF ex_admissible])
  then show ?thesis using evaluate_never_promotes [OF e] by auto
qed

text \<open>C27: The best reason M8 can give: a cohort reaches the blocked-bundle gate exactly when the tuple has not
  expired, the profile is neither halted nor a replay, and every gate is met, stated over the tasks.\<close>

theorem evaluate_blocked_iff_gates:
  assumes "evaluate_autonomy nfc c existing t = Inr (profile, r)"
  shows "rn_reason_code r = PStr ''m7_bundle_blocked'' \<longleftrightarrow>
    t < at_expires_at (cv_autonomy_tuple c) \<and> gates_met c \<and>
    (\<forall>p. existing = Some p \<longrightarrow> \<not> ap_halted p \<and> ap_cohort_digest p \<noteq> evidence_cohort_digest c)"
proof -
  have a: "admissible nfc c existing t" by (rule evaluate_admits [OF assms])
  then have c: "instance_of (cohort_evidence_post_init nfc) c" by (simp add: admissible_def instance_of_def)
  obtain p code where e: "evaluate_autonomy nfc c existing t = Inr (p, recommended c t (start_level c existing t) code)"
    "cohort_profile c (start_level c existing t) (start_halted c existing t) = Inr p"
    "autonomy_profile_post_init p = Inr ()" "code \<in> set RECOMMENDATION_REASONS - {''qualified''}"
    "code = ''tuple_expired'' \<longleftrightarrow> autonomy_expired c t" "code = ''halted_profile'' \<longleftrightarrow> start_halted c existing t"
    "code = ''cohort_replay'' \<longleftrightarrow> \<not> autonomy_expired c t \<and> \<not> start_halted c existing t \<and> is_replay c existing"
    "\<not> autonomy_expired c t \<and> \<not> start_halted c existing t \<and> \<not> is_replay c existing \<longrightarrow>
       cohort_gate_reason c p = Inr (Some code)"
    by (rule evaluate_returns [OF a])
  have r: "rn_reason_code r = PStr code" using e(1) assms by (auto simp: recommended_def)
  let ?free = "\<not> autonomy_expired c t \<and> \<not> start_halted c existing t \<and> \<not> is_replay c existing"
  have free: "t < at_expires_at (cv_autonomy_tuple c) \<and>
      (\<forall>p. existing = Some p \<longrightarrow> \<not> ap_halted p \<and> ap_cohort_digest p \<noteq> evidence_cohort_digest c) \<longleftrightarrow> ?free"
    by (cases existing) (auto simp: start_halted_def is_replay_def autonomy_expired_def not_le)
  have "code = ''m7_bundle_blocked'' \<longleftrightarrow> ?free \<and> gates_met c"
  proof (cases ?free)
    case True
    then have "cohort_gate_reason c p = Inr (Some code)" using e(8) by blast
    then show ?thesis using gates_met_iff [OF c e(2)] True by simp
  next
    case False
    then have "code = ''tuple_expired'' \<or> code = ''halted_profile'' \<or> code = ''cohort_replay''"
      unfolding e(5-7) by blast
    then have "code \<noteq> ''m7_bundle_blocked''" by (elim disjE) simp_all
    with False show ?thesis by (simp only: simp_thms)
  qed
  then show ?thesis unfolding r pyval.inject free [symmetric] by blast
qed

theorem evaluate_blocked_iff_gates_witness:
  "\<exists>profile r. evaluate_autonomy (\<lambda>s. s) ex_cohort_evidence (Some ex_profile) ex_time = Inr (profile, r) \<and>
     rn_reason_code r \<noteq> PStr ''m7_bundle_blocked''"
proof -
  obtain p code where e: "evaluate_autonomy (\<lambda>s. s) ex_cohort_evidence (Some ex_profile) ex_time =
      Inr (p, recommended ex_cohort_evidence ex_time (start_level ex_cohort_evidence (Some ex_profile) ex_time) code)"
    by (rule evaluate_returns [OF ex_admissible])
  have "\<not> gates_met ex_cohort_evidence" by (simp add: gates_met_def ex_cohort_evidence_def)
  then show ?thesis using e evaluate_blocked_iff_gates [OF e] by blast
qed

section \<open>Runs of a profile\<close>

text \<open>C34: Demotion returns exactly for a valid profile, a non-empty set of known triggers and a time; the profile
  it returns is valid, at \<open>L0\<close> and halted, and the decision names the first trigger in the order of priority.\<close>

theorem demote_profile_iff:
  "demote_profile p facts t = Inr (q, d) \<longleftrightarrow>
     autonomy_profile_post_init p = Inr () \<and> facts \<noteq> {} \<and> facts \<subseteq> set DEMOTION_TRIGGERS \<and> valid_dt t \<and>
     q = p\<lparr>ap_current_level := ''L0'',
           ap_total_demotion_triggers := min 1000000 (ap_total_demotion_triggers p + int (card facts)),
           ap_halted := True\<rparr> \<and>
     autonomy_profile_post_init q = Inr () \<and>
     (\<exists>s. find (\<lambda>x. x \<in> facts) DEMOTION_TRIGGERS = Some s \<and> d = demotion p s t)"
proof
  assume d: "demote_profile p facts t = Inr (q, d)"
  note a = demote_admits [OF d]
  obtain s where "demote_profile p facts t = Inr (demoted p facts, demotion p s t)"
    "find (\<lambda>t. t \<in> facts) DEMOTION_TRIGGERS = Some s" by (rule demote_returns [OF a])
  then show "autonomy_profile_post_init p = Inr () \<and> facts \<noteq> {} \<and> facts \<subseteq> set DEMOTION_TRIGGERS \<and> valid_dt t \<and>
     q = p\<lparr>ap_current_level := ''L0'',
           ap_total_demotion_triggers := min 1000000 (ap_total_demotion_triggers p + int (card facts)),
           ap_halted := True\<rparr> \<and>
     autonomy_profile_post_init q = Inr () \<and>
     (\<exists>s. find (\<lambda>x. x \<in> facts) DEMOTION_TRIGGERS = Some s \<and> d = demotion p s t)"
    using a d demoted_profile(2) [OF d] by (auto simp: demoted_def MAX_COUNT_def)
next
  assume "autonomy_profile_post_init p = Inr () \<and> facts \<noteq> {} \<and> facts \<subseteq> set DEMOTION_TRIGGERS \<and> valid_dt t \<and>
     q = p\<lparr>ap_current_level := ''L0'',
           ap_total_demotion_triggers := min 1000000 (ap_total_demotion_triggers p + int (card facts)),
           ap_halted := True\<rparr> \<and>
     autonomy_profile_post_init q = Inr () \<and>
     (\<exists>s. find (\<lambda>x. x \<in> facts) DEMOTION_TRIGGERS = Some s \<and> d = demotion p s t)"
  then show "demote_profile p facts t = Inr (q, d)"
    using demote_returns [of p facts t] by (metis MAX_COUNT_def demoted_def option.inject)
qed

lemma ex_demoted_step:
  "live_step (\<lambda>s. s) (demoted ex_profile {''rollback''}) (Demote {''rollback''} ex_time)
     (demoted (demoted ex_profile {''rollback''}) {''rollback''})"
proof -
  have "{''rollback''} \<noteq> {}" "{''rollback''} \<subseteq> set DEMOTION_TRIGGERS" "valid_dt ex_time"
    by (simp_all add: DEMOTION_TRIGGERS_def ex_time_def ex_times)
  then obtain s where "demote_profile (demoted ex_profile {''rollback''}) {''rollback''} ex_time =
      Inr (demoted (demoted ex_profile {''rollback''}) {''rollback''}, demotion (demoted ex_profile {''rollback''}) s ex_time)"
    by (metis demote_returns demoted_accepted ex_profile_accepted)
  moreover have "ex_time < ap_expires_at (demoted ex_profile {''rollback''})"
    by (simp add: ex_time_def demoted_def ex_profile_def less_datetime_def dt_fields_def)
  ultimately show ?thesis by (auto simp: live_step_def intro: profile_step.Demoted)
qed

text \<open>C26: No sequence of evaluations and demotions, in any order, raises the level of a profile.\<close>

theorem level_never_rises:
  assumes "runs (profile_step nfc) p cmds q"
  shows "level_index (ap_current_level q) \<le> level_index (ap_current_level p)"
  by (rule level_bound.inv_runs [OF _ assms]) simp

theorem level_never_rises_witness:
  "level_index (ap_current_level (demoted (demoted ex_profile {''rollback''}) {''rollback''})) = 0"
proof -
  have "runs (profile_step (\<lambda>s. s)) (demoted ex_profile {''rollback''}) [Demote {''rollback''} ex_time]
      (demoted (demoted ex_profile {''rollback''}) {''rollback''})"
    using ex_demoted_step by (simp add: live_step_def)
  from level_never_rises [OF this] show ?thesis by (simp add: demoted_def)
qed

text \<open>C24: A halt is sticky: whatever evaluations and demotions follow before the profile expires, it stays halted
  at \<open>L0\<close> with the same expiry.\<close>

theorem halt_is_sticky:
  assumes "runs (live_step nfc) p cmds q" "ap_halted p" "autonomy_profile_post_init p = Inr ()"
  shows "ap_halted q \<and> ap_current_level q = ''L0'' \<and> ap_expires_at q = ap_expires_at p"
proof -
  have "ap_current_level p = ''L0''" using assms(2,3) profile_facts(2) by (simp add: instance_of_def)
  with assms(2) show ?thesis by (intro halted_profile.inv_runs [OF _ assms(1)]) simp
qed

theorem halt_is_sticky_witness:
  "ap_halted (demoted (demoted ex_profile {''rollback''}) {''rollback''})"
proof -
  have "runs (live_step (\<lambda>s. s)) (demoted ex_profile {''rollback''}) [Demote {''rollback''} ex_time]
      (demoted (demoted ex_profile {''rollback''}) {''rollback''})"
    using ex_demoted_step by simp
  moreover have "ap_halted (demoted ex_profile {''rollback''})" by (simp add: demoted_def)
  ultimately show ?thesis using halt_is_sticky demoted_accepted ex_profile_accepted by blast
qed

text \<open>Expiry ends everything: an evaluation at or after the expiry of the tuple recommends nothing but \<open>L0\<close>,
  with the reason \<open>tuple_expired\<close>, and its profile is not halted.\<close>

theorem expired_resets:
  assumes "evaluate_autonomy nfc c existing t = Inr (profile, r)" "at_expires_at (cv_autonomy_tuple c) \<le> t"
  shows "rn_reason_code r = PStr ''tuple_expired'' \<and> rn_recommended_level r = ''L0'' \<and>
    ap_current_level profile = ''L0'' \<and> \<not> ap_halted profile"
proof -
  have a: "admissible nfc c existing t" by (rule evaluate_admits [OF assms(1)])
  then have c: "instance_of (cohort_evidence_post_init nfc) c" by (simp add: admissible_def instance_of_def)
  have expired: "autonomy_expired c t" using assms(2) by (simp add: autonomy_expired_def)
  obtain p code where e: "evaluate_autonomy nfc c existing t = Inr (p, recommended c t (start_level c existing t) code)"
    "cohort_profile c (start_level c existing t) (start_halted c existing t) = Inr p"
    "autonomy_profile_post_init p = Inr ()" "code \<in> set RECOMMENDATION_REASONS - {''qualified''}"
    "code = ''tuple_expired'' \<longleftrightarrow> autonomy_expired c t" by (rule evaluate_returns [OF a])
  have "p = profile" "r = recommended c t (start_level c existing t) code" using e(1) assms(1) by simp_all
  then show ?thesis
    using start_level_cases(3) [OF a expired] profile_fields(1,2) [OF c e(2)] e(5) expired
    by (simp add: recommended_def)
qed

theorem expired_resets_witness:
  "\<exists>profile r. evaluate_autonomy (\<lambda>s. s) ex_cohort_evidence (Some ex_profile) (DateTime 2026 2 1 0 0 0 0) = Inr (profile, r) \<and>
     rn_recommended_level r = ''L0''"
proof -
  let ?t = "DateTime 2026 2 1 0 0 0 0"
  have "cv_window_ended_at ex_cohort_evidence \<le> ?t"
    by (simp add: ex_cohort_evidence_def less_eq_datetime_def dt_fields_def)
  then have a: "admissible (\<lambda>s. s) ex_cohort_evidence (Some ex_profile) ?t"
    using ex_admissible ex_times(5) by (simp add: admissible_def)
  obtain p code where e: "evaluate_autonomy (\<lambda>s. s) ex_cohort_evidence (Some ex_profile) ?t =
      Inr (p, recommended ex_cohort_evidence ?t (start_level ex_cohort_evidence (Some ex_profile) ?t) code)"
    by (rule evaluate_returns [OF a])
  have "at_expires_at (cv_autonomy_tuple ex_cohort_evidence) \<le> ?t"
    by (simp add: ex_cohort_evidence_def ex_tuple_def)
  then show ?thesis using e expired_resets [OF e] by blast
qed

end
