(* ===== verification/Intake.thy ===== *)
theory Intake
  imports Contracts
begin

text \<open>
  The M4 intake contracts of \<open>contracts.py\<close>: architecture and governance handoffs, M0 authority,
  task limits and the task intake that binds them, with the digest of the intent and the
  idempotency key of the work.
\<close>

section \<open>Handoffs\<close>

record architecture_handoff =
  ah_architecture_contract_version :: int
  ah_architecture_digest :: string
  ah_architecture_evidence_digest :: string
  ah_exact_base_sha :: string
  ah_exact_head_sha :: string

definition architecture_fields :: "string list" where
  "architecture_fields =
     [''architecture_contract_version'', ''architecture_digest'', ''architecture_evidence_digest'',
      ''exact_base_sha'', ''exact_head_sha'']"

definition architecture_from_dict :: "pyval \<Rightarrow> architecture_handoff res" where
  "architecture_from_dict data =
     bnd (closed data architecture_fields) (\<lambda>_.
     bnd (getitem data ''architecture_contract_version'') (\<lambda>version.
     bnd (ensure (py_eq_one version) (ContractError ''unsupported_version'' ''architecture'')) (\<lambda>_.
     bnd (field data ''architecture_digest'' (\<lambda>v. hex_field v ''architecture_digest'' HEX64)) (\<lambda>digest.
     bnd (field data ''architecture_evidence_digest'' (\<lambda>v. hex_field v ''architecture_evidence_digest'' HEX64)) (\<lambda>evidence.
     bnd (field data ''exact_base_sha'' (\<lambda>v. hex_field v ''architecture.exact_base_sha'' HEX40)) (\<lambda>base.
     bnd (field data ''exact_head_sha'' (\<lambda>v. hex_field v ''architecture.exact_head_sha'' HEX40)) (\<lambda>head.
     Inr \<lparr>ah_architecture_contract_version = 1, ah_architecture_digest = digest,
          ah_architecture_evidence_digest = evidence, ah_exact_base_sha = base, ah_exact_head_sha = head\<rparr>)))))))"

definition architecture_asdict :: "architecture_handoff \<Rightarrow> pyval" where
  "architecture_asdict a = py_dict
     [(''architecture_contract_version'', PInt (ah_architecture_contract_version a)),
      (''architecture_digest'', PStr (ah_architecture_digest a)),
      (''architecture_evidence_digest'', PStr (ah_architecture_evidence_digest a)),
      (''exact_base_sha'', PStr (ah_exact_base_sha a)), (''exact_head_sha'', PStr (ah_exact_head_sha a))]"

record governance_handoff =
  gh_governance_contract_version :: int
  gh_governance_digest :: string
  gh_governance_evidence_digest :: string
  gh_architecture_digest :: string
  gh_exact_base_sha :: string
  gh_exact_head_sha :: string

definition governance_fields :: "string list" where
  "governance_fields =
     [''governance_contract_version'', ''governance_digest'', ''governance_evidence_digest'',
      ''architecture_digest'', ''exact_base_sha'', ''exact_head_sha'']"

definition governance_from_dict :: "pyval \<Rightarrow> governance_handoff res" where
  "governance_from_dict data =
     bnd (closed data governance_fields) (\<lambda>_.
     bnd (getitem data ''governance_contract_version'') (\<lambda>version.
     bnd (ensure (py_eq_one version) (ContractError ''unsupported_version'' ''governance'')) (\<lambda>_.
     bnd (field data ''governance_digest'' (\<lambda>v. hex_field v ''governance_digest'' HEX64)) (\<lambda>digest.
     bnd (field data ''governance_evidence_digest'' (\<lambda>v. hex_field v ''governance_evidence_digest'' HEX64)) (\<lambda>evidence.
     bnd (field data ''architecture_digest'' (\<lambda>v. hex_field v ''governance.architecture_digest'' HEX64)) (\<lambda>architecture.
     bnd (field data ''exact_base_sha'' (\<lambda>v. hex_field v ''governance.exact_base_sha'' HEX40)) (\<lambda>base.
     bnd (field data ''exact_head_sha'' (\<lambda>v. hex_field v ''governance.exact_head_sha'' HEX40)) (\<lambda>head.
     Inr \<lparr>gh_governance_contract_version = 1, gh_governance_digest = digest,
          gh_governance_evidence_digest = evidence, gh_architecture_digest = architecture,
          gh_exact_base_sha = base, gh_exact_head_sha = head\<rparr>))))))))"

definition governance_asdict :: "governance_handoff \<Rightarrow> pyval" where
  "governance_asdict g = py_dict
     [(''governance_contract_version'', PInt (gh_governance_contract_version g)),
      (''governance_digest'', PStr (gh_governance_digest g)),
      (''governance_evidence_digest'', PStr (gh_governance_evidence_digest g)),
      (''architecture_digest'', PStr (gh_architecture_digest g)),
      (''exact_base_sha'', PStr (gh_exact_base_sha g)), (''exact_head_sha'', PStr (gh_exact_head_sha g))]"

interpretation architecture: stable_codec architecture_from_dict architecture_asdict
proof
  fix d x assume "architecture_from_dict d = Inr x"
  then show "architecture_from_dict (architecture_asdict x) = Inr x"
    by (auto simp: architecture_from_dict_def architecture_asdict_def architecture_fields_def
        res_simps py_simps closed_py_dict)
qed

interpretation governance: stable_codec governance_from_dict governance_asdict
proof
  fix d x assume "governance_from_dict d = Inr x"
  then show "governance_from_dict (governance_asdict x) = Inr x"
    by (auto simp: governance_from_dict_def governance_asdict_def governance_fields_def
        res_simps py_simps closed_py_dict)
qed

section \<open>M0 authority\<close>

record m0_authority =
  m0_observed_at :: "datetime option"
  m0_check_name :: "string option"
  m0_exact_head_sha :: "string option"
  m0_bootstrap_exception :: "string option"
  m0_issuer :: "string option"
  m0_scope :: "string option"
  m0_expires_at :: "datetime option"

definition m0_observed_fields :: "string list" where
  "m0_observed_fields = [''observed_at'', ''check_name'', ''exact_head_sha'']"

definition m0_exception_fields :: "string list" where
  "m0_exception_fields = [''bootstrap_exception'', ''issuer'', ''scope'', ''expires_at'']"

definition CHECK_NAME_match :: "string \<Rightarrow> bool" where
  "CHECK_NAME_match s = ident_match ''._/@:-'' 255 s"

text \<open>The age of an observation in microseconds.\<close>

definition m0_age :: "datetime \<Rightarrow> datetime \<Rightarrow> int" where
  "m0_age now at = instant now - instant at"

definition m0_from_dict :: "(string \<Rightarrow> string) \<Rightarrow> pyval \<Rightarrow> datetime \<Rightarrow> m0_authority res" where
  "m0_from_dict nfc data now =
     bnd (set_items data) (\<lambda>keys.
     if set keys = PStr ` set m0_observed_fields then
       bnd (field data ''observed_at'' (\<lambda>v. time_field v ''observed_at'')) (\<lambda>at.
       bnd (ensure (0 \<le> m0_age now at \<and> m0_age now at \<le> 300000000) (ContractError ''stale_m0'' [])) (\<lambda>_.
       bnd (field data ''check_name'' (\<lambda>v. text_field nfc v ''check_name'' 256)) (\<lambda>check_name.
       bnd (ensure (CHECK_NAME_match check_name) (ContractError ''invalid_identifier'' ''check_name'')) (\<lambda>_.
       bnd (field data ''exact_head_sha'' (\<lambda>v. hex_field v ''m0.exact_head_sha'' HEX40)) (\<lambda>head.
       Inr \<lparr>m0_observed_at = Some at, m0_check_name = Some check_name, m0_exact_head_sha = Some head,
            m0_bootstrap_exception = None, m0_issuer = None, m0_scope = None, m0_expires_at = None\<rparr>)))))
     else if set keys = PStr ` set m0_exception_fields then
       bnd (field data ''expires_at'' (\<lambda>v. time_field v ''expires_at'')) (\<lambda>expires.
       bnd (ensure (\<not> expires \<le> now) (ContractError ''stale_m0'' ''bootstrap exception expired'')) (\<lambda>_.
       bnd (field data ''bootstrap_exception'' (\<lambda>v. id_field nfc v ''bootstrap_exception'')) (\<lambda>be.
       bnd (field data ''issuer'' (\<lambda>v. id_field nfc v ''issuer'')) (\<lambda>issuer.
       bnd (field data ''scope'' (\<lambda>v. id_field nfc v ''scope'')) (\<lambda>scope.
       Inr \<lparr>m0_observed_at = None, m0_check_name = None, m0_exact_head_sha = None,
            m0_bootstrap_exception = Some be, m0_issuer = Some issuer, m0_scope = Some scope,
            m0_expires_at = Some expires\<rparr>)))))
     else Inl (ContractError ''m0_authority'' ''must be one closed authority form''))"

definition m0_asdict :: "m0_authority \<Rightarrow> pyval" where
  "m0_asdict a = py_dict
     [(''observed_at'', opt_time (m0_observed_at a)), (''check_name'', opt_str (m0_check_name a)),
      (''exact_head_sha'', opt_str (m0_exact_head_sha a)),
      (''bootstrap_exception'', opt_str (m0_bootstrap_exception a)), (''issuer'', opt_str (m0_issuer a)),
      (''scope'', opt_str (m0_scope a)), (''expires_at'', opt_time (m0_expires_at a))]"

section \<open>Task limits\<close>

record task_limits =
  tl_wall_seconds :: int
  tl_max_cost_usd_micros :: int
  tl_max_token_units :: int
  tl_max_output_bytes :: int
  tl_max_events :: int
  tl_infrastructure_retries :: int
  tl_semantic_repairs :: int

text \<open>The defaults of the class, which are also its ceilings.\<close>

definition task_limits_default :: task_limits where
  "task_limits_default =
     \<lparr>tl_wall_seconds = 14400, tl_max_cost_usd_micros = 25000000, tl_max_token_units = 2000000,
      tl_max_output_bytes = 10000000, tl_max_events = 100000, tl_infrastructure_retries = 2,
      tl_semantic_repairs = 3\<rparr>"

definition task_limits_fields :: "string list" where
  "task_limits_fields =
     [''wall_seconds'', ''max_cost_usd_micros'', ''max_token_units'', ''max_output_bytes'', ''max_events'',
      ''infrastructure_retries'', ''semantic_repairs'']"

definition limit_field :: "pyval \<Rightarrow> string \<Rightarrow> int \<Rightarrow> int res" where
  "limit_field v name ceiling =
     (case v of PInt n \<Rightarrow> (if n < 0 \<or> ceiling < n then Inl (ContractError ''limit_exceeded'' name) else Inr n)
      | _ \<Rightarrow> Inl (ContractError ''limit_exceeded'' name))"

text \<open>
  The fields are visited in declaration order; Python visits a \<open>set\<close> of them, so which of several
  offending fields the message names is up to the interpreter.  \<open>cls(**data)\<close> needs a mapping.
\<close>

definition task_limits_from_dict :: "pyval \<Rightarrow> task_limits res" where
  "task_limits_from_dict data =
     bnd (closed data task_limits_fields) (\<lambda>_.
     bnd (ensure (is_mapping data) TypeError) (\<lambda>_.
     bnd (field data ''wall_seconds'' (\<lambda>v. limit_field v ''wall_seconds'' (tl_wall_seconds task_limits_default))) (\<lambda>wall.
     bnd (field data ''max_cost_usd_micros'' (\<lambda>v. limit_field v ''max_cost_usd_micros'' (tl_max_cost_usd_micros task_limits_default))) (\<lambda>cost.
     bnd (field data ''max_token_units'' (\<lambda>v. limit_field v ''max_token_units'' (tl_max_token_units task_limits_default))) (\<lambda>tokens.
     bnd (field data ''max_output_bytes'' (\<lambda>v. limit_field v ''max_output_bytes'' (tl_max_output_bytes task_limits_default))) (\<lambda>output.
     bnd (field data ''max_events'' (\<lambda>v. limit_field v ''max_events'' (tl_max_events task_limits_default))) (\<lambda>events.
     bnd (field data ''infrastructure_retries'' (\<lambda>v. limit_field v ''infrastructure_retries'' (tl_infrastructure_retries task_limits_default))) (\<lambda>retries.
     bnd (field data ''semantic_repairs'' (\<lambda>v. limit_field v ''semantic_repairs'' (tl_semantic_repairs task_limits_default))) (\<lambda>repairs.
     bnd (ensure (1 \<le> repairs \<and> repairs \<le> 3) (ContractError ''limit_exceeded'' ''semantic_repairs'')) (\<lambda>_.
     Inr \<lparr>tl_wall_seconds = wall, tl_max_cost_usd_micros = cost, tl_max_token_units = tokens,
          tl_max_output_bytes = output, tl_max_events = events, tl_infrastructure_retries = retries,
          tl_semantic_repairs = repairs\<rparr>))))))))))"

definition task_limits_asdict :: "task_limits \<Rightarrow> pyval" where
  "task_limits_asdict l = py_dict
     [(''wall_seconds'', PInt (tl_wall_seconds l)), (''max_cost_usd_micros'', PInt (tl_max_cost_usd_micros l)),
      (''max_token_units'', PInt (tl_max_token_units l)), (''max_output_bytes'', PInt (tl_max_output_bytes l)),
      (''max_events'', PInt (tl_max_events l)),
      (''infrastructure_retries'', PInt (tl_infrastructure_retries l)),
      (''semantic_repairs'', PInt (tl_semantic_repairs l))]"

lemma limit_field_Inr [res_simps]:
  "limit_field v name c = Inr n \<longleftrightarrow> v = PInt n \<and> 0 \<le> n \<and> n \<le> c"
  by (auto simp: limit_field_def split: pyval.splits)

interpretation task_limits: stable_codec task_limits_from_dict task_limits_asdict
proof
  fix d x assume "task_limits_from_dict d = Inr x"
  then show "task_limits_from_dict (task_limits_asdict x) = Inr x"
    by (auto simp: task_limits_from_dict_def task_limits_asdict_def task_limits_fields_def
        res_simps py_simps closed_py_dict)
qed

section \<open>Task intake\<close>

record task_intake =
  ti_contract_version :: int
  ti_request_id :: string
  ti_repository_id :: string
  ti_source_type :: string
  ti_source_id :: string
  ti_source_digest :: string
  ti_route_id :: string
  ti_change_id :: string
  ti_exact_base_sha :: string
  ti_spec_digest :: string
  ti_architecture :: architecture_handoff
  ti_governance :: governance_handoff
  ti_policy_digest :: string
  ti_m0_authority :: m0_authority
  ti_acceptance_ids :: "string list"
  ti_limits :: task_limits
  ti_intent_digest :: string
  ti_idempotency_key :: string

definition task_intake_fields :: "string list" where
  "task_intake_fields =
     [''contract_version'', ''request_id'', ''repository_id'', ''source_type'', ''source_id'',
      ''source_digest'', ''route_id'', ''change_id'', ''exact_base_sha'', ''spec_digest'',
      ''architecture'', ''governance'', ''policy_digest'', ''m0_authority'', ''acceptance_ids'', ''limits'']"

text \<open>The items of \<open>work_identity\<close>: what is normalized, less the request id and the authority.\<close>

definition work_identity_items :: "task_intake \<Rightarrow> (string \<times> pyval) list" where
  "work_identity_items t =
     [(''contract_version'', PInt (ti_contract_version t)), (''repository_id'', PStr (ti_repository_id t)),
      (''source_type'', PStr (ti_source_type t)), (''source_id'', PStr (ti_source_id t)),
      (''source_digest'', PStr (ti_source_digest t)), (''route_id'', PStr (ti_route_id t)),
      (''change_id'', PStr (ti_change_id t)), (''exact_base_sha'', PStr (ti_exact_base_sha t)),
      (''spec_digest'', PStr (ti_spec_digest t)), (''architecture'', architecture_asdict (ti_architecture t)),
      (''governance'', governance_asdict (ti_governance t)), (''policy_digest'', PStr (ti_policy_digest t)),
      (''acceptance_ids'', PList (map PStr (ti_acceptance_ids t))),
      (''limits'', task_limits_asdict (ti_limits t))]"

definition normalized_items :: "task_intake \<Rightarrow> (string \<times> pyval) list" where
  "normalized_items t =
     work_identity_items t @
     [(''request_id'', PStr (ti_request_id t)), (''m0_authority'', m0_asdict (ti_m0_authority t))]"

definition intent_digest_of :: "task_intake \<Rightarrow> string" where
  "intent_digest_of t = canonical_digest (py_dict (normalized_items t))"

definition work_identity :: "task_intake \<Rightarrow> pyval" where
  "work_identity t = py_dict
     [(''contract'', PStr ''adaptive-factory.work-identity/v1''), (''work'', py_dict (work_identity_items t))]"

definition idempotency_key_of :: "task_intake \<Rightarrow> string" where
  "idempotency_key_of t = canonical_digest (work_identity t)"

text \<open>
  \<open>sorted(set(xs))\<close> of an untyped list compares its elements: \<open>None\<close> with anything, or a string
  with a number, is a \<open>TypeError\<close>.
\<close>

fun order_kind :: "pyval \<Rightarrow> nat" where
  "order_kind (PStr s) = 0"
| "order_kind PNone = 1"
| "order_kind (PTime t) = 2"
| "order_kind v = 3"

definition sortable_set :: "pyval list \<Rightarrow> bool" where
  "sortable_set xs = (list_all hashable xs \<and> length (remdups (map order_kind xs)) \<le> 1)"

definition acceptance_field :: "pyval \<Rightarrow> string list res" where
  "acceptance_field v =
     (case v of
        PList xs \<Rightarrow>
          (if xs = [] then Inl (ContractError ''acceptance_ids'' [])
           else if \<not> sortable_set xs then Inl TypeError
           else (let ss = map str_of xs in
             if list_all is_str xs \<and> ss = usort ss \<and> list_all ACCEPTANCE_ID_match ss
             then Inr ss else Inl (ContractError ''acceptance_ids'' [])))
      | _ \<Rightarrow> Inl (ContractError ''acceptance_ids'' []))"

definition ends_with :: "string \<Rightarrow> string \<Rightarrow> bool" where
  "ends_with s suffix = (length suffix \<le> length s \<and> drop (length s - length suffix) s = suffix)"

text \<open>The agreement of the handoffs and the authority, in the order the code tests it.\<close>

definition handoffs_agree :: "architecture_handoff \<Rightarrow> governance_handoff \<Rightarrow> bool" where
  "handoffs_agree a g =
     (ah_architecture_digest a = gh_architecture_digest g \<and> ah_exact_base_sha a = gh_exact_base_sha g \<and>
      ah_exact_head_sha a = gh_exact_head_sha g)"

definition authority_head_agrees :: "m0_authority \<Rightarrow> governance_handoff \<Rightarrow> bool" where
  "authority_head_agrees m g =
     (case m0_exact_head_sha m of None \<Rightarrow> True | Some h \<Rightarrow> h = [] \<or> h = gh_exact_head_sha g)"

definition authority_policy_agrees :: "m0_authority \<Rightarrow> string \<Rightarrow> bool" where
  "authority_policy_agrees m policy =
     (case m0_check_name m of None \<Rightarrow> True | Some c \<Rightarrow> c = [] \<or> ends_with c (''@'' @ take 12 policy))"

definition task_intake_from_dict ::
  "(string \<Rightarrow> string) \<Rightarrow> pyval \<Rightarrow> datetime \<Rightarrow> task_intake res" where
  "task_intake_from_dict nfc data now =
     bnd (closed data task_intake_fields) (\<lambda>_.
     bnd (getitem data ''contract_version'') (\<lambda>version.
     bnd (ensure (py_eq_one version) (ContractError ''unsupported_version'' ''intake'')) (\<lambda>_.
     bnd (field data ''architecture'' architecture_from_dict) (\<lambda>architecture.
     bnd (field data ''governance'' governance_from_dict) (\<lambda>governance.
     bnd (ensure (handoffs_agree architecture governance) (ContractError ''handoff_mismatch'' [])) (\<lambda>_.
     bnd (field data ''m0_authority'' (\<lambda>v. m0_from_dict nfc v now)) (\<lambda>authority.
     bnd (ensure (authority_head_agrees authority governance) (ContractError ''handoff_mismatch'' ''m0 exact head'')) (\<lambda>_.
     bnd (field data ''policy_digest'' (\<lambda>v. hex_field v ''policy_digest'' HEX64)) (\<lambda>policy.
     bnd (ensure (authority_policy_agrees authority policy) (ContractError ''m0_policy_mismatch'' [])) (\<lambda>_.
     bnd (field data ''acceptance_ids'' acceptance_field) (\<lambda>acceptance.
     bnd (getitem data ''source_type'') (\<lambda>source_type.
     bnd (in_str_set source_type [''manual'', ''api'', ''github_issue_projection'']) (\<lambda>known.
     bnd (ensure known (ContractError ''source_type'' [])) (\<lambda>_.
     bnd (field data ''request_id'' (\<lambda>v. id_field nfc v ''request_id'')) (\<lambda>request_id.
     bnd (field data ''repository_id'' (\<lambda>v. id_field nfc v ''repository_id'')) (\<lambda>repository_id.
     bnd (field data ''source_id'' (\<lambda>v. id_field nfc v ''source_id'')) (\<lambda>source_id.
     bnd (field data ''source_digest'' (\<lambda>v. hex_field v ''source_digest'' HEX64)) (\<lambda>source_digest.
     bnd (field data ''route_id'' (\<lambda>v. id_field nfc v ''route_id'')) (\<lambda>route_id.
     bnd (field data ''change_id'' (\<lambda>v. id_field nfc v ''change_id'')) (\<lambda>change_id.
     bnd (field data ''exact_base_sha'' (\<lambda>v. hex_field v ''exact_base_sha'' HEX40)) (\<lambda>base.
     bnd (field data ''spec_digest'' (\<lambda>v. hex_field v ''spec_digest'' HEX64)) (\<lambda>spec_digest.
     bnd (field data ''limits'' task_limits_from_dict) (\<lambda>limits.
     (let normalized =
        \<lparr>ti_contract_version = 1, ti_request_id = request_id, ti_repository_id = repository_id,
         ti_source_type = str_of source_type, ti_source_id = source_id, ti_source_digest = source_digest,
         ti_route_id = route_id, ti_change_id = change_id, ti_exact_base_sha = base,
         ti_spec_digest = spec_digest, ti_architecture = architecture, ti_governance = governance,
         ti_policy_digest = policy, ti_m0_authority = authority, ti_acceptance_ids = acceptance,
         ti_limits = limits, ti_intent_digest = [], ti_idempotency_key = []\<rparr>
      in Inr (normalized\<lparr>ti_intent_digest := intent_digest_of normalized,
                         ti_idempotency_key := idempotency_key_of normalized\<rparr>)))))))))))))))))))))))))"

text \<open>\<open>to_dict\<close>: the canonical form of all the fields.\<close>

definition task_intake_to_dict :: "task_intake \<Rightarrow> pyval" where
  "task_intake_to_dict t =
     canonical (py_dict (normalized_items t @
       [(''intent_digest'', PStr (ti_intent_digest t)), (''idempotency_key'', PStr (ti_idempotency_key t))]))"

end
