(* ===== verification/PyPath.thy ===== *)
theory PyPath
  imports PyString "HOL-Library.Sublist"
begin

text \<open>
  \<open>pathlib.PurePosixPath\<close>, as far as the code uses it: \<open>is_absolute()\<close>, \<open>parts\<close>, \<open>str(path)\<close> and
  \<open>root in path.parents\<close>.  A path is its root (\<open>''\<close>, \<open>/\<close>, or \<open>//\<close> when the text starts with exactly two
  slashes) and its names, without empty ones and without \<open>.\<close>.
\<close>

fun split_slash :: "string \<Rightarrow> string list" where
  "split_slash [] = [[]]"
| "split_slash (c # cs) =
     (if c = CHR ''/'' then [] # split_slash cs
      else (case split_slash cs of [] \<Rightarrow> [[c]] | w # ws \<Rightarrow> (c # w) # ws))"

definition path_root :: "string \<Rightarrow> string" where
  "path_root s =
     (if take 1 s \<noteq> ''/'' then []
      else if take 2 s = ''//'' \<and> take 3 s \<noteq> ''///'' then ''//'' else ''/'')"

definition path_names :: "string \<Rightarrow> string list" where
  "path_names s = filter (\<lambda>w. w \<noteq> [] \<and> w \<noteq> ''.'') (split_slash s)"

definition path_parts :: "string \<Rightarrow> string list" where
  "path_parts s = (if path_root s = [] then path_names s else path_root s # path_names s)"

definition path_is_absolute :: "string \<Rightarrow> bool" where
  "path_is_absolute s = (path_root s \<noteq> [])"

text \<open>\<open>str(PurePosixPath(s))\<close>.\<close>

definition path_text :: "string \<Rightarrow> string" where
  "path_text s =
     (if path_root s = [] \<and> path_names s = [] then ''.'' else path_root s @ join ''/'' (path_names s))"

text \<open>
  \<open>path == root or root in path.parents\<close>, on the texts of the two paths.
\<close>

definition path_within :: "string \<Rightarrow> string \<Rightarrow> bool" where
  "path_within s root = (path_root s = path_root root \<and> prefix (path_names root) (path_names s))"

text \<open>
  The condition every component puts on a relative path: not absolute, no \<open>..\<close>, no \<open>.git\<close>, in normal form.
\<close>

definition relative_path :: "string \<Rightarrow> bool" where
  "relative_path s =
     (\<not> path_is_absolute s \<and> ''..'' \<notin> set (path_parts s) \<and> ''.git'' \<notin> set (path_parts s) \<and> path_text s = s)"

text \<open>A relative path in normal form is its names: nothing above its root and nothing inside \<open>.git\<close>.\<close>

lemma relative_path_names:
  assumes "relative_path s" "s \<noteq> ''.''"
  shows "s = join ''/'' (path_names s) \<and> ''..'' \<notin> set (path_names s) \<and> ''.git'' \<notin> set (path_names s)"
  using assms by (auto simp: relative_path_def path_is_absolute_def path_parts_def path_text_def split: if_splits)

end
