(* ===== verification/ExecutionContracts.thy ===== *)
theory ExecutionContracts
  imports SemanticContracts Intake TaskState PyPath
begin

text \<open>
  \<open>execution_contracts.py\<close>, the M5 execution plane: the authority a run is bound to, the provider and its
  capabilities, the staged plan, the task packet that seals them under one digest, the manifest of a run
  and the result of its workspace.  Field prefixes: \<open>au_\<close> authority, \<open>pp_\<close> provider, \<open>cp_\<close> capability
  policy, \<open>st_\<close> stage, \<open>pl_\<close> plan, \<open>el_\<close> selection, \<open>tp_\<close> packet, \<open>rm_\<close> manifest, \<open>wr_\<close> result.

  The module repeats the helpers of \<open>contracts.py\<close> with its own exception class; \<open>as_execution_error\<close>
  is that change of class.  \<open>asdict\<close> of a class is written out, and \<open>to_dict\<close> is its \<open>_canonical\<close> form;
  no value of these classes is a \<open>datetime\<close>, so both \<open>_canonical\<close> functions agree on them.
\<close>

section \<open>Validators\<close>

definition PROTOCOL_VERSION :: string where
  "PROTOCOL_VERSION = ''adaptive-factory.execution/v1''"

definition STAGES :: "string list" where
  "STAGES = [''prepare'', ''invoke'', ''collect'', ''finalize'']"

definition OWNERS :: "string list" where
  "OWNERS = [''broker'', ''adapter'', ''control_plane'']"

text \<open>\<open>[0-9]+\<close> at the front of a text: what follows it.\<close>

definition skip_number :: "string \<Rightarrow> string option" where
  "skip_number s = (if takeWhile is_digit s = [] then None else Some (dropWhile is_digit s))"

definition skip_dot_number :: "string \<Rightarrow> string option" where
  "skip_dot_number s = (case s of [] \<Rightarrow> None | c # cs \<Rightarrow> if c = CHR ''.'' then skip_number cs else None)"

definition version_suffix :: "string \<Rightarrow> bool" where
  "version_suffix s =
     (case s of [] \<Rightarrow> True
      | c # cs \<Rightarrow> (c = CHR ''-'' \<or> c = CHR ''+'') \<and> cs \<noteq> [] \<and>
                  list_all (\<lambda>d. is_alnum d \<or> d = CHR ''.'' \<or> d = CHR ''-'') cs)"

definition VERSION_match :: "string \<Rightarrow> bool" where
  "VERSION_match s =
     (case Option.bind (skip_number s) skip_dot_number of
        None \<Rightarrow> False
      | Some r \<Rightarrow> version_suffix r \<or>
          (case skip_dot_number r of None \<Rightarrow> False | Some r' \<Rightarrow> version_suffix r'))"

definition WORKSPACE_match :: "string \<Rightarrow> bool" where
  "WORKSPACE_match s = (take 10 s = ''workspace:'' \<and> hex_string 64 (drop 10 s))"

definition as_execution_error :: "'a res \<Rightarrow> 'a res" where
  "as_execution_error m =
     catch m (\<lambda>e. case e of ContractError code detail \<Rightarrow> Inl (ExecutionContractError code detail) | _ \<Rightarrow> Inl e)"

definition exec_closed :: "pyval \<Rightarrow> string list \<Rightarrow> unit res" where
  "exec_closed data expected =
     bnd (ensure (is_mapping data) (ExecutionContractError ''invalid_object'' [])) (\<lambda>_.
     as_execution_error (closed data expected))"

definition exec_text :: "(string \<Rightarrow> string) \<Rightarrow> pyval \<Rightarrow> string \<Rightarrow> nat \<Rightarrow> string res" where
  "exec_text nfc value name maximum =
     (case value of
        PStr s \<Rightarrow>
          (if s = [] \<or> nfc s \<noteq> s \<or> has_surrogate s \<or> maximum < length s \<or> has_control s
           then Inl (ExecutionContractError ''invalid_text'' name) else Inr s)
      | _ \<Rightarrow> Inl (ExecutionContractError ''invalid_text'' name))"

definition exec_identifier :: "(string \<Rightarrow> string) \<Rightarrow> pyval \<Rightarrow> string \<Rightarrow> string res" where
  "exec_identifier nfc value name =
     bnd (exec_text nfc value name 128) (\<lambda>s.
       if ID_match s then Inr s else Inl (ExecutionContractError ''invalid_identifier'' name))"

definition exec_hex :: "pyval \<Rightarrow> string \<Rightarrow> hexpat \<Rightarrow> string res" where
  "exec_hex value name pattern = as_execution_error (hex_field value name pattern)"

definition exec_sorted_unique :: "(string \<Rightarrow> string) \<Rightarrow> pyval \<Rightarrow> string \<Rightarrow> string list res" where
  "exec_sorted_unique nfc values name =
     (case values of
        PList items \<Rightarrow>
          (if 64 < length items then Inl (ExecutionContractError ''invalid_list'' name)
           else bnd (map_res (\<lambda>v. exec_identifier nfc v name) items) (\<lambda>result.
             if result \<noteq> usort result then Inl (ExecutionContractError ''invalid_list'' name) else Inr result))
      | _ \<Rightarrow> Inl (ExecutionContractError ''invalid_list'' name))"

definition path_list :: "(string \<Rightarrow> string) \<Rightarrow> pyval \<Rightarrow> string list res" where
  "path_list nfc values =
     bnd (exec_sorted_unique nfc values ''allowed_paths'') (\<lambda>result.
     bnd (checks (map (\<lambda>s. ensure (relative_path s) (ExecutionContractError ''invalid_path'' s)) result)) (\<lambda>_.
     Inr result))"

text \<open>\<open>_domain_digest\<close>, with \<open>_canonical_bytes\<close> inside; its texts have passed a validator, so encoding them succeeds.\<close>

definition execution_digest :: "string \<Rightarrow> pyval \<Rightarrow> string" where
  "execution_digest domain v = sha256 (domain @ [char_of (0::nat)] @ canonical_json v)"

definition workspace_evidence_digest :: "string \<Rightarrow> string list \<Rightarrow> string res" where
  "workspace_evidence_digest kind digests =
     bnd (ensure (kind \<in> {''artifacts'', ''notes'', ''usage'', ''diagnostics''})
            (ExecutionContractError ''invalid_evidence_kind'' [])) (\<lambda>_.
     bnd (ensure (length digests \<le> 100000) (ExecutionContractError ''invalid_list'' kind)) (\<lambda>_.
     bnd (map_res (\<lambda>v. exec_hex (PStr v) kind HEX64) digests) (\<lambda>parsed.
     bnd (ensure (parsed = usort parsed) (ExecutionContractError ''invalid_list'' kind)) (\<lambda>_.
     Inr (execution_digest (''adaptive-factory.workspace-'' @ kind @ ''/v1'') (PList (map PStr parsed)))))))"

text \<open>\<open>data["workspace_handle"]\<close>.\<close>

definition workspace_field :: "pyval \<Rightarrow> string res" where
  "workspace_field value =
     (case value of
        PStr s \<Rightarrow> (if WORKSPACE_match s then Inr s else Inl (ExecutionContractError ''invalid_workspace'' []))
      | _ \<Rightarrow> Inl (ExecutionContractError ''invalid_workspace'' []))"

text \<open>\<open>type(v) is not int or not minimum <= v <= maximum\<close>; \<open>fence\<close> has no maximum.\<close>

definition exec_integer :: "pyval \<Rightarrow> int \<Rightarrow> int option \<Rightarrow> pyexn \<Rightarrow> int res" where
  "exec_integer value minimum maximum err =
     (case value of
        PInt n \<Rightarrow> (if minimum \<le> n \<and> pred_option (\<lambda>m. n \<le> m) maximum then Inr n else Inl err)
      | _ \<Rightarrow> Inl err)"

lemma as_execution_error_Inr [res_simps]: "as_execution_error m = Inr x \<longleftrightarrow> m = Inr x"
  by (cases m) (auto simp: as_execution_error_def split: pyexn.splits)

lemma as_execution_error_simp [simp]: "as_execution_error (Inr x) = Inr x"
  by (simp add: as_execution_error_def)

lemma exec_closed_Inr [res_simps]: "exec_closed d fs = Inr u \<longleftrightarrow> is_mapping d \<and> closed d fs = Inr ()"
  by (auto simp: exec_closed_def res_simps)

lemma exec_closed_py_dict [py_simps]:
  assumes "set (map fst kvs) = set expected"
  shows "exec_closed (py_dict kvs) expected = Inr ()" "exec_closed (canonical (py_dict kvs)) expected = Inr ()"
  using closed_py_dict [OF assms] closed_canonical [OF assms] by (simp_all add: exec_closed_def py_simps)

lemma exec_text_Inr [res_simps]:
  "exec_text nfc v name m = Inr s \<longleftrightarrow>
     v = PStr s \<and> s \<noteq> [] \<and> nfc s = s \<and> \<not> has_surrogate s \<and> length s \<le> m \<and> \<not> has_control s"
  by (auto simp: exec_text_def split: pyval.splits)

lemma exec_identifier_Inr [res_simps]: "exec_identifier nfc v name = Inr s \<longleftrightarrow> v = PStr s \<and> id_ok nfc s"
proof -
  have "ID_match s \<Longrightarrow> s \<noteq> []" by (auto simp: ID_match_def)
  then show ?thesis
    unfolding exec_identifier_def id_ok_def bnd_Inr_iff exec_text_Inr by (auto split: if_split_asm)
qed

lemma exec_hex_Inr [res_simps]:
  "exec_hex v name p = Inr s \<longleftrightarrow> v = PStr s \<and> hex_string (hexpat_len p) s"
  by (simp add: exec_hex_def res_simps)

lemma map_res_exec [res_simps]:
  "map_res (\<lambda>v. exec_identifier nfc v n) vs = Inr ss \<longleftrightarrow> vs = map PStr ss \<and> list_all (id_ok nfc) ss"
  "map_res (\<lambda>v. exec_hex v n p) vs = Inr ss \<longleftrightarrow> vs = map PStr ss \<and> list_all (hex_string (hexpat_len p)) ss"
  by (rule map_res_strings, rule res_simps)+

definition names_ok :: "(string \<Rightarrow> string) \<Rightarrow> string list \<Rightarrow> bool" where
  "names_ok nfc ss = (length ss \<le> 64 \<and> list_all (id_ok nfc) ss \<and> sorted ss \<and> distinct ss)"

lemma exec_sorted_unique_Inr [res_simps]:
  "exec_sorted_unique nfc v name = Inr ss \<longleftrightarrow> v = PList (map PStr ss) \<and> names_ok nfc ss"
proof -
  have u: "(xs = usort xs) = (sorted xs \<and> distinct xs)" for xs :: "string list" using usort_fixed_iff by metis
  show ?thesis
    by (cases v) (auto simp: exec_sorted_unique_def names_ok_def res_simps u split: if_splits)
qed

lemma path_list_Inr [res_simps]:
  "path_list nfc v = Inr ss \<longleftrightarrow> v = PList (map PStr ss) \<and> names_ok nfc ss \<and> list_all relative_path ss"
  by (auto simp: path_list_def res_simps checks_Inr_iff list_all_iff ensure_Inr_iff)

lemma workspace_field_Inr [res_simps]: "workspace_field v = Inr s \<longleftrightarrow> v = PStr s \<and> WORKSPACE_match s"
  by (auto simp: workspace_field_def split: pyval.splits)

lemma exec_integer_Inr [res_simps]:
  "exec_integer v lo hi err = Inr n \<longleftrightarrow> v = PInt n \<and> lo \<le> n \<and> pred_option (\<lambda>m. n \<le> m) hi"
  by (auto simp: exec_integer_def split: pyval.splits)

lemma workspace_evidence_digest_Inr [res_simps]:
  "workspace_evidence_digest kind ds = Inr d \<longleftrightarrow>
     kind \<in> {''artifacts'', ''notes'', ''usage'', ''diagnostics''} \<and> length ds \<le> 100000 \<and>
     list_all (hex_string 64) ds \<and> sorted ds \<and> distinct ds \<and>
     d = execution_digest (''adaptive-factory.workspace-'' @ kind @ ''/v1'') (PList (map PStr ds))"
proof -
  have u: "(ds = usort ds) = (sorted ds \<and> distinct ds)" using usort_fixed_iff by metis
  have m: "map_res (\<lambda>v. exec_hex (PStr v) kind HEX64) ds = Inr ps \<longleftrightarrow> ps = ds \<and> list_all (hex_string 64) ds" for ps
  proof (induction ds arbitrary: ps)
    case Nil
    show ?case by auto
  next
    case (Cons a ds)
    show ?case by (cases ps) (auto simp: bnd_Inr_iff exec_hex_Inr Cons.IH)
  qed
  show ?thesis
    unfolding workspace_evidence_digest_def bnd_Inr_iff m ensure_Inr_iff by (auto simp: u)
qed

lemma hex_string_execution_digest [simp]: "hex_string 64 (execution_digest domain v)"
  by (simp add: execution_digest_def sha256_hex)

section \<open>Authority\<close>

record authority_binding =
  au_exact_base_sha :: string
  au_exact_head_sha :: string
  au_route_id :: string
  au_change_id :: string
  au_spec_digest :: string
  au_architecture_digest :: string
  au_governance_digest :: string
  au_policy_digest :: string
  au_prompt_template_digest :: string
  au_role_definition_digest :: string
  au_tool_policy_digest :: string
  au_output_schema_digest :: string

definition authority_binding_fields :: "string list" where
  "authority_binding_fields =
     [''exact_base_sha'', ''exact_head_sha'', ''route_id'', ''change_id'', ''spec_digest'',
      ''architecture_digest'', ''governance_digest'', ''policy_digest'', ''prompt_template_digest'',
      ''role_definition_digest'', ''tool_policy_digest'', ''output_schema_digest'']"

definition authority_binding_from_dict :: "(string \<Rightarrow> string) \<Rightarrow> pyval \<Rightarrow> authority_binding res" where
  "authority_binding_from_dict nfc data =
     bnd (exec_closed data authority_binding_fields) (\<lambda>_.
     bnd (field data ''exact_base_sha'' (\<lambda>v. exec_hex v ''exact_base_sha'' HEX40)) (\<lambda>base.
     bnd (field data ''exact_head_sha'' (\<lambda>v. exec_hex v ''exact_head_sha'' HEX40)) (\<lambda>head.
     bnd (field data ''route_id'' (\<lambda>v. exec_identifier nfc v ''route_id'')) (\<lambda>route_id.
     bnd (field data ''change_id'' (\<lambda>v. exec_identifier nfc v ''change_id'')) (\<lambda>change_id.
     bnd (field data ''spec_digest'' (\<lambda>v. exec_hex v ''spec_digest'' HEX64)) (\<lambda>spec.
     bnd (field data ''architecture_digest'' (\<lambda>v. exec_hex v ''architecture_digest'' HEX64)) (\<lambda>architecture.
     bnd (field data ''governance_digest'' (\<lambda>v. exec_hex v ''governance_digest'' HEX64)) (\<lambda>governance.
     bnd (field data ''policy_digest'' (\<lambda>v. exec_hex v ''policy_digest'' HEX64)) (\<lambda>policy.
     bnd (field data ''prompt_template_digest'' (\<lambda>v. exec_hex v ''prompt_template_digest'' HEX64)) (\<lambda>prompt_template.
     bnd (field data ''role_definition_digest'' (\<lambda>v. exec_hex v ''role_definition_digest'' HEX64)) (\<lambda>role_definition.
     bnd (field data ''tool_policy_digest'' (\<lambda>v. exec_hex v ''tool_policy_digest'' HEX64)) (\<lambda>tool_policy.
     bnd (field data ''output_schema_digest'' (\<lambda>v. exec_hex v ''output_schema_digest'' HEX64)) (\<lambda>output_schema.
     Inr \<lparr>au_exact_base_sha = base, au_exact_head_sha = head, au_route_id = route_id,
          au_change_id = change_id, au_spec_digest = spec, au_architecture_digest = architecture,
          au_governance_digest = governance, au_policy_digest = policy,
          au_prompt_template_digest = prompt_template, au_role_definition_digest = role_definition,
          au_tool_policy_digest = tool_policy, au_output_schema_digest = output_schema\<rparr>)))))))))))))"

definition authority_binding_asdict :: "authority_binding \<Rightarrow> pyval" where
  "authority_binding_asdict x = py_dict
     [(''exact_base_sha'', PStr (au_exact_base_sha x)), (''exact_head_sha'', PStr (au_exact_head_sha x)),
      (''route_id'', PStr (au_route_id x)), (''change_id'', PStr (au_change_id x)),
      (''spec_digest'', PStr (au_spec_digest x)),
      (''architecture_digest'', PStr (au_architecture_digest x)),
      (''governance_digest'', PStr (au_governance_digest x)),
      (''policy_digest'', PStr (au_policy_digest x)),
      (''prompt_template_digest'', PStr (au_prompt_template_digest x)),
      (''role_definition_digest'', PStr (au_role_definition_digest x)),
      (''tool_policy_digest'', PStr (au_tool_policy_digest x)),
      (''output_schema_digest'', PStr (au_output_schema_digest x))]"

definition authority_binding_to_dict :: "authority_binding \<Rightarrow> pyval" where
  "authority_binding_to_dict x = canonical (authority_binding_asdict x)"

interpretation authority_binding: stable_codec "authority_binding_from_dict nfc" authority_binding_to_dict
proof
  fix d x assume "authority_binding_from_dict nfc d = Inr x"
  then show "authority_binding_from_dict nfc (authority_binding_to_dict x) = Inr x"
    unfolding authority_binding_from_dict_def [of nfc d]
    by (elim bnd_InrE, simp only: res_simps, clarify,
      simp add: authority_binding_from_dict_def authority_binding_to_dict_def authority_binding_asdict_def
        authority_binding_fields_def res_simps py_simps cong: literal_congs)
qed

definition version_field :: "(string \<Rightarrow> string) \<Rightarrow> pyval \<Rightarrow> string \<Rightarrow> string res" where
  "version_field nfc value name =
     bnd (exec_text nfc value name 128) (\<lambda>s.
       if VERSION_match s then Inr s else Inl (ExecutionContractError ''invalid_version'' name))"

definition version_ok :: "(string \<Rightarrow> string) \<Rightarrow> string \<Rightarrow> bool" where
  "version_ok nfc s =
     (VERSION_match s \<and> s \<noteq> [] \<and> nfc s = s \<and> \<not> has_surrogate s \<and> length s \<le> 128 \<and> \<not> has_control s)"

lemma version_field_Inr [res_simps]: "version_field nfc v name = Inr s \<longleftrightarrow> v = PStr s \<and> version_ok nfc s"
  unfolding version_field_def version_ok_def bnd_Inr_iff exec_text_Inr by (auto split: if_split_asm)

section \<open>Provider profiles\<close>

record provider_profile =
  pp_provider_id :: string
  pp_adapter_id :: string
  pp_adapter_version :: string
  pp_adapter_digest :: string
  pp_native_version :: string
  pp_native_digest :: string
  pp_model_id :: string
  pp_capabilities :: "string list"
  pp_eligible :: bool

definition provider_profile_fields :: "string list" where
  "provider_profile_fields =
     [''provider_id'', ''adapter_id'', ''adapter_version'', ''adapter_digest'', ''native_version'',
      ''native_digest'', ''model_id'', ''capabilities'', ''eligible'']"

definition provider_profile_from_dict :: "(string \<Rightarrow> string) \<Rightarrow> pyval \<Rightarrow> provider_profile res" where
  "provider_profile_from_dict nfc data =
     bnd (exec_closed data provider_profile_fields) (\<lambda>_.
     bnd (getitem data ''eligible'') (\<lambda>eligible.
     bnd (ensure (eligible = PBool True) (ExecutionContractError ''provider_ineligible'' [])) (\<lambda>_.
     bnd (field data ''adapter_version'' (\<lambda>v. version_field nfc v ''adapter_version'')) (\<lambda>adapter_version.
     bnd (field data ''native_version'' (\<lambda>v. version_field nfc v ''native_version'')) (\<lambda>native_version.
     bnd (field data ''provider_id'' (\<lambda>v. exec_identifier nfc v ''provider_id'')) (\<lambda>provider_id.
     bnd (field data ''adapter_id'' (\<lambda>v. exec_identifier nfc v ''adapter_id'')) (\<lambda>adapter_id.
     bnd (field data ''adapter_digest'' (\<lambda>v. exec_hex v ''adapter_digest'' HEX64)) (\<lambda>adapter_digest.
     bnd (field data ''native_digest'' (\<lambda>v. exec_hex v ''native_digest'' HEX64)) (\<lambda>native_digest.
     bnd (field data ''model_id'' (\<lambda>v. exec_identifier nfc v ''model_id'')) (\<lambda>model_id.
     bnd (field data ''capabilities'' (\<lambda>v. exec_sorted_unique nfc v ''capabilities'')) (\<lambda>capabilities.
     Inr \<lparr>pp_provider_id = provider_id, pp_adapter_id = adapter_id, pp_adapter_version = adapter_version,
          pp_adapter_digest = adapter_digest, pp_native_version = native_version,
          pp_native_digest = native_digest, pp_model_id = model_id, pp_capabilities = capabilities,
          pp_eligible = True\<rparr>)))))))))))"

definition provider_profile_asdict :: "provider_profile \<Rightarrow> pyval" where
  "provider_profile_asdict x = py_dict
     [(''provider_id'', PStr (pp_provider_id x)), (''adapter_id'', PStr (pp_adapter_id x)),
      (''adapter_version'', PStr (pp_adapter_version x)), (''adapter_digest'', PStr (pp_adapter_digest x)),
      (''native_version'', PStr (pp_native_version x)), (''native_digest'', PStr (pp_native_digest x)),
      (''model_id'', PStr (pp_model_id x)), (''capabilities'', PList (map PStr (pp_capabilities x))),
      (''eligible'', PBool (pp_eligible x))]"

definition provider_profile_to_dict :: "provider_profile \<Rightarrow> pyval" where
  "provider_profile_to_dict x = canonical (provider_profile_asdict x)"

interpretation provider_profile: stable_codec "provider_profile_from_dict nfc" provider_profile_to_dict
proof
  fix d x assume "provider_profile_from_dict nfc d = Inr x"
  then show "provider_profile_from_dict nfc (provider_profile_to_dict x) = Inr x"
    unfolding provider_profile_from_dict_def [of nfc d]
    by (elim bnd_InrE, simp only: res_simps, clarify,
      simp add: provider_profile_from_dict_def provider_profile_to_dict_def provider_profile_asdict_def
        provider_profile_fields_def res_simps py_simps cong: literal_congs)
qed

definition profile_digest_of :: "provider_profile \<Rightarrow> string" where
  "profile_digest_of x = execution_digest ''adaptive-factory.provider-profile/v1'' (provider_profile_asdict x)"

section \<open>Capability policies\<close>

record capability_policy =
  cp_allowed_paths :: "string list"
  cp_allowed_tools :: "string list"
  cp_network_destinations :: "string list"
  cp_artifact_classes :: "string list"
  cp_environment_names :: "string list"

definition capability_policy_fields :: "string list" where
  "capability_policy_fields =
     [''allowed_paths'', ''allowed_tools'', ''network_destinations'', ''artifact_classes'',
      ''environment_names'']"

definition capability_policy_from_dict :: "(string \<Rightarrow> string) \<Rightarrow> pyval \<Rightarrow> capability_policy res" where
  "capability_policy_from_dict nfc data =
     bnd (exec_closed data capability_policy_fields) (\<lambda>_.
     bnd (getitem data ''network_destinations'') (\<lambda>network.
     bnd (ensure (network = PList []) (ExecutionContractError ''network_forbidden'' [])) (\<lambda>_.
     bnd (field data ''allowed_paths'' (path_list nfc)) (\<lambda>paths.
     bnd (field data ''allowed_tools'' (\<lambda>v. exec_sorted_unique nfc v ''allowed_tools'')) (\<lambda>tools.
     bnd (field data ''artifact_classes'' (\<lambda>v. exec_sorted_unique nfc v ''artifact_classes'')) (\<lambda>classes.
     bnd (field data ''environment_names'' (\<lambda>v. exec_sorted_unique nfc v ''environment_names'')) (\<lambda>names.
     Inr \<lparr>cp_allowed_paths = paths, cp_allowed_tools = tools, cp_network_destinations = [],
          cp_artifact_classes = classes, cp_environment_names = names\<rparr>)))))))"

definition capability_policy_asdict :: "capability_policy \<Rightarrow> pyval" where
  "capability_policy_asdict x = py_dict
     [(''allowed_paths'', PList (map PStr (cp_allowed_paths x))),
      (''allowed_tools'', PList (map PStr (cp_allowed_tools x))),
      (''network_destinations'', PList (map PStr (cp_network_destinations x))),
      (''artifact_classes'', PList (map PStr (cp_artifact_classes x))),
      (''environment_names'', PList (map PStr (cp_environment_names x)))]"

definition capability_policy_to_dict :: "capability_policy \<Rightarrow> pyval" where
  "capability_policy_to_dict x = canonical (capability_policy_asdict x)"

interpretation capability_policy: stable_codec "capability_policy_from_dict nfc" capability_policy_to_dict
proof
  fix d x assume "capability_policy_from_dict nfc d = Inr x"
  then show "capability_policy_from_dict nfc (capability_policy_to_dict x) = Inr x"
    unfolding capability_policy_from_dict_def [of nfc d]
    by (elim bnd_InrE, simp only: res_simps, clarify,
      simp add: capability_policy_from_dict_def capability_policy_to_dict_def capability_policy_asdict_def
        capability_policy_fields_def res_simps py_simps cong: literal_congs)
qed

section \<open>The plan\<close>

record execution_stage =
  st_name :: string
  st_owner :: string
  st_wall_seconds :: int

definition execution_stage_fields :: "string list" where
  "execution_stage_fields =
     [''name'', ''owner'', ''wall_seconds'']"

definition execution_stage_from_dict :: "(string \<Rightarrow> string) \<Rightarrow> pyval \<Rightarrow> execution_stage res" where
  "execution_stage_from_dict nfc data =
     bnd (exec_closed data execution_stage_fields) (\<lambda>_.
     bnd (field data ''name'' (\<lambda>v. exec_identifier nfc v ''stage.name'')) (\<lambda>name.
     bnd (field data ''owner'' (\<lambda>v. exec_identifier nfc v ''stage.owner'')) (\<lambda>owner.
     bnd (ensure (name \<in> set STAGES \<and> owner \<in> set OWNERS) (ExecutionContractError ''invalid_stage'' [])) (\<lambda>_.
     bnd (field data ''wall_seconds'' (\<lambda>v. exec_integer v 1 (Some 14400)
       (ExecutionContractError ''limit_exceeded'' ''stage.wall_seconds''))) (\<lambda>wall.
     Inr \<lparr>st_name = name, st_owner = owner, st_wall_seconds = wall\<rparr>)))))"

definition execution_stage_asdict :: "execution_stage \<Rightarrow> pyval" where
  "execution_stage_asdict x = py_dict
     [(''name'', PStr (st_name x)), (''owner'', PStr (st_owner x)),
      (''wall_seconds'', PInt (st_wall_seconds x))]"

definition execution_stage_to_dict :: "execution_stage \<Rightarrow> pyval" where
  "execution_stage_to_dict x = canonical (execution_stage_asdict x)"

interpretation execution_stage: stable_codec "execution_stage_from_dict nfc" execution_stage_to_dict
proof
  fix d x assume "execution_stage_from_dict nfc d = Inr x"
  then show "execution_stage_from_dict nfc (execution_stage_to_dict x) = Inr x"
    unfolding execution_stage_from_dict_def [of nfc d]
    by (elim bnd_InrE, simp only: res_simps, clarify,
      simp add: execution_stage_from_dict_def execution_stage_to_dict_def execution_stage_asdict_def
        execution_stage_fields_def res_simps py_simps cong: literal_congs)
qed

record execution_plan =
  pl_stages :: "execution_stage list"

definition execution_plan_fields :: "string list" where
  "execution_plan_fields = [''stages'']"

definition stage_items :: "pyval \<Rightarrow> pyval list res" where
  "stage_items v = (case v of PList items \<Rightarrow> Inr items | _ \<Rightarrow> Inl (ExecutionContractError ''invalid_list'' ''stages''))"

definition execution_plan_from_dict :: "(string \<Rightarrow> string) \<Rightarrow> pyval \<Rightarrow> execution_plan res" where
  "execution_plan_from_dict nfc data =
     bnd (exec_closed data execution_plan_fields) (\<lambda>_.
     bnd (field data ''stages'' stage_items) (\<lambda>items.
     bnd (map_res (execution_stage_from_dict nfc) items) (\<lambda>stages.
     bnd (ensure (map st_name stages = STAGES) (ExecutionContractError ''stage_order'' [])) (\<lambda>_.
     Inr \<lparr>pl_stages = stages\<rparr>))))"

definition execution_plan_asdict :: "execution_plan \<Rightarrow> pyval" where
  "execution_plan_asdict x = py_dict [(''stages'', PList (map execution_stage_asdict (pl_stages x)))]"

definition execution_plan_to_dict :: "execution_plan \<Rightarrow> pyval" where
  "execution_plan_to_dict x = canonical (execution_plan_asdict x)"

lemma stage_items_Inr [res_simps]: "stage_items v = Inr items \<longleftrightarrow> v = PList items"
  by (auto simp: stage_items_def split: pyval.splits)

lemma canonical_stages [py_simps]: "canonical \<circ> execution_stage_asdict = execution_stage_to_dict"
  by (auto simp: execution_stage_to_dict_def)

interpretation execution_plan: stable_codec "execution_plan_from_dict nfc" execution_plan_to_dict
proof
  fix d x assume "execution_plan_from_dict nfc d = Inr x"
  then show "execution_plan_from_dict nfc (execution_plan_to_dict x) = Inr x"
    unfolding execution_plan_from_dict_def [of nfc d]
    by (elim bnd_InrE, simp only: res_simps, clarify,
      simp add: execution_plan_from_dict_def execution_plan_to_dict_def execution_plan_asdict_def
        execution_plan_fields_def res_simps py_simps execution_stage.map_stable cong: literal_congs)
qed

definition plan_seconds :: "execution_plan \<Rightarrow> int" where
  "plan_seconds plan = sum_list (map st_wall_seconds (pl_stages plan))"

lemma canonical_parts [py_simps]:
  "canonical (authority_binding_asdict a) = authority_binding_to_dict a"
  "canonical (provider_profile_asdict p) = provider_profile_to_dict p"
  "canonical (capability_policy_asdict c) = capability_policy_to_dict c"
  "canonical (execution_plan_asdict l) = execution_plan_to_dict l"
  by (simp_all add: authority_binding_to_dict_def provider_profile_to_dict_def capability_policy_to_dict_def
      execution_plan_to_dict_def)

section \<open>Selections\<close>

record execution_selection =
  el_provider :: provider_profile
  el_capability_policy :: capability_policy
  el_plan :: execution_plan
  el_workspace_handle :: string
  el_prompt_template_digest :: string
  el_role_definition_digest :: string
  el_tool_policy_digest :: string
  el_output_schema_digest :: string

definition execution_selection_fields :: "string list" where
  "execution_selection_fields =
     [''provider'', ''capability_policy'', ''plan'', ''workspace_handle'', ''prompt_template_digest'',
      ''role_definition_digest'', ''tool_policy_digest'', ''output_schema_digest'']"

definition execution_selection_from_dict :: "(string \<Rightarrow> string) \<Rightarrow> pyval \<Rightarrow> execution_selection res" where
  "execution_selection_from_dict nfc data =
     bnd (exec_closed data execution_selection_fields) (\<lambda>_.
     bnd (field data ''workspace_handle'' workspace_field) (\<lambda>workspace.
     bnd (field data ''provider'' (provider_profile_from_dict nfc)) (\<lambda>provider.
     bnd (field data ''capability_policy'' (capability_policy_from_dict nfc)) (\<lambda>policy.
     bnd (field data ''plan'' (execution_plan_from_dict nfc)) (\<lambda>plan.
     bnd (field data ''prompt_template_digest'' (\<lambda>v. exec_hex v ''prompt_template_digest'' HEX64)) (\<lambda>prompt_template.
     bnd (field data ''role_definition_digest'' (\<lambda>v. exec_hex v ''role_definition_digest'' HEX64)) (\<lambda>role_definition.
     bnd (field data ''tool_policy_digest'' (\<lambda>v. exec_hex v ''tool_policy_digest'' HEX64)) (\<lambda>tool_policy.
     bnd (field data ''output_schema_digest'' (\<lambda>v. exec_hex v ''output_schema_digest'' HEX64)) (\<lambda>output_schema.
     Inr \<lparr>el_provider = provider, el_capability_policy = policy, el_plan = plan,
          el_workspace_handle = workspace, el_prompt_template_digest = prompt_template,
          el_role_definition_digest = role_definition, el_tool_policy_digest = tool_policy,
          el_output_schema_digest = output_schema\<rparr>)))))))))"

definition execution_selection_asdict :: "execution_selection \<Rightarrow> pyval" where
  "execution_selection_asdict x = py_dict
     [(''provider'', provider_profile_asdict (el_provider x)),
      (''capability_policy'', capability_policy_asdict (el_capability_policy x)),
      (''plan'', execution_plan_asdict (el_plan x)), (''workspace_handle'', PStr (el_workspace_handle x)),
      (''prompt_template_digest'', PStr (el_prompt_template_digest x)),
      (''role_definition_digest'', PStr (el_role_definition_digest x)),
      (''tool_policy_digest'', PStr (el_tool_policy_digest x)),
      (''output_schema_digest'', PStr (el_output_schema_digest x))]"

definition execution_selection_to_dict :: "execution_selection \<Rightarrow> pyval" where
  "execution_selection_to_dict x = canonical (execution_selection_asdict x)"

interpretation execution_selection: stable_codec "execution_selection_from_dict nfc" execution_selection_to_dict
proof
  fix d x assume "execution_selection_from_dict nfc d = Inr x"
  then show "execution_selection_from_dict nfc (execution_selection_to_dict x) = Inr x"
    unfolding execution_selection_from_dict_def [of nfc d]
    apply (elim bnd_InrE, simp only: res_simps, clarify,
      simp add: execution_selection_from_dict_def execution_selection_to_dict_def execution_selection_asdict_def
        execution_selection_fields_def res_simps py_simps cong: literal_congs)
    apply (assumption | rule conjI provider_profile.stable capability_policy.stable execution_plan.stable)+
    done
qed

section \<open>Task packets\<close>

record task_packet =
  tp_contract_version :: int
  tp_protocol_version :: string
  tp_task_id :: string
  tp_run_id :: string
  tp_owner :: string
  tp_fence :: int
  tp_role :: string
  tp_repository_id :: string
  tp_legacy_intent_digest :: string
  tp_authority :: authority_binding
  tp_provider :: provider_profile
  tp_capability_policy :: capability_policy
  tp_plan :: execution_plan
  tp_workspace_handle :: string
  tp_acceptance_ids :: "string list"
  tp_limits :: task_limits
  tp_packet_digest :: string

text \<open>The fields of the class without \<open>packet_digest\<close>.\<close>

definition task_packet_fields :: "string list" where
  "task_packet_fields =
     [''contract_version'', ''protocol_version'', ''task_id'', ''run_id'', ''owner'', ''fence'', ''role'',
      ''repository_id'', ''legacy_intent_digest'', ''authority'', ''provider'', ''capability_policy'',
      ''plan'', ''workspace_handle'', ''acceptance_ids'', ''limits'']"

text \<open>\<open>values\<close>, and \<open>to_dict(include_digest=False)\<close>, its canonical form.\<close>

definition task_packet_values :: "task_packet \<Rightarrow> pyval" where
  "task_packet_values x = py_dict
     [(''contract_version'', PInt (tp_contract_version x)),
      (''protocol_version'', PStr (tp_protocol_version x)), (''task_id'', PStr (tp_task_id x)),
      (''run_id'', PStr (tp_run_id x)), (''owner'', PStr (tp_owner x)), (''fence'', PInt (tp_fence x)),
      (''role'', PStr (tp_role x)), (''repository_id'', PStr (tp_repository_id x)),
      (''legacy_intent_digest'', PStr (tp_legacy_intent_digest x)),
      (''authority'', authority_binding_asdict (tp_authority x)),
      (''provider'', provider_profile_asdict (tp_provider x)),
      (''capability_policy'', capability_policy_asdict (tp_capability_policy x)),
      (''plan'', execution_plan_asdict (tp_plan x)), (''workspace_handle'', PStr (tp_workspace_handle x)),
      (''acceptance_ids'', PList (map PStr (tp_acceptance_ids x))),
      (''limits'', task_limits_asdict (tp_limits x))]"

definition task_packet_body :: "task_packet \<Rightarrow> pyval" where
  "task_packet_body x = canonical (task_packet_values x)"

definition task_packet_bytes :: "task_packet \<Rightarrow> string" where
  "task_packet_bytes x = canonical_json (task_packet_body x)"

definition packet_digest_of :: "task_packet \<Rightarrow> string" where
  "packet_digest_of x = execution_digest ''adaptive-factory.task-packet/v1'' (task_packet_values x)"

text \<open>\<open>cls(**values, packet_digest=digest)\<close>.\<close>

definition seal_packet :: "task_packet \<Rightarrow> task_packet" where
  "seal_packet x = x\<lparr>tp_packet_digest := packet_digest_of x\<rparr>"

text \<open>
  \<open>TaskLimitsV1.from_dict\<close> with its \<open>ValueError\<close> turned into an \<open>ExecutionContractError\<close>, whose detail is the
  message of the cause.  A \<open>ContractError\<close> is the only \<open>ValueError\<close> it raises.
\<close>

definition packet_limits :: "pyval \<Rightarrow> task_limits res" where
  "packet_limits v =
     catch (task_limits_from_dict v) (\<lambda>e. case e of
         ContractError code detail \<Rightarrow>
           Inl (ExecutionContractError code (if detail = [] then code else code @ '': '' @ detail))
       | _ \<Rightarrow> Inl e)"

definition task_packet_from_dict :: "(string \<Rightarrow> string) \<Rightarrow> pyval \<Rightarrow> task_packet res" where
  "task_packet_from_dict nfc data =
     bnd (exec_closed data task_packet_fields) (\<lambda>_.
     bnd (getitem data ''contract_version'') (\<lambda>version.
     bnd (getitem data ''protocol_version'') (\<lambda>protocol.
     bnd (ensure (py_eq_one version \<and> py_eq_str protocol PROTOCOL_VERSION) (ExecutionContractError ''unsupported_version'' [])) (\<lambda>_.
     bnd (field data ''fence'' (\<lambda>v. exec_integer v 1 None (ExecutionContractError ''invalid_fence'' []))) (\<lambda>fence.
     bnd (field data ''role'' (\<lambda>v. enum_field v [''reader'', ''writer''] (ExecutionContractError ''invalid_role'' []))) (\<lambda>role.
     bnd (field data ''workspace_handle'' workspace_field) (\<lambda>workspace.
     bnd (field data ''limits'' packet_limits) (\<lambda>limits.
     bnd (field data ''task_id'' (\<lambda>v. exec_identifier nfc v ''task_id'')) (\<lambda>task_id.
     bnd (field data ''run_id'' (\<lambda>v. exec_identifier nfc v ''run_id'')) (\<lambda>run_id.
     bnd (field data ''owner'' (\<lambda>v. exec_identifier nfc v ''owner'')) (\<lambda>owner.
     bnd (field data ''repository_id'' (\<lambda>v. exec_identifier nfc v ''repository_id'')) (\<lambda>repository_id.
     bnd (field data ''legacy_intent_digest'' (\<lambda>v. exec_hex v ''legacy_intent_digest'' HEX64)) (\<lambda>intent.
     bnd (field data ''authority'' (authority_binding_from_dict nfc)) (\<lambda>authority.
     bnd (field data ''provider'' (provider_profile_from_dict nfc)) (\<lambda>provider.
     bnd (field data ''capability_policy'' (capability_policy_from_dict nfc)) (\<lambda>policy.
     bnd (field data ''plan'' (execution_plan_from_dict nfc)) (\<lambda>plan.
     bnd (field data ''acceptance_ids'' (\<lambda>v. exec_sorted_unique nfc v ''acceptance_ids'')) (\<lambda>acceptance.
     bnd (ensure (plan_seconds plan \<le> tl_wall_seconds limits) (ExecutionContractError ''limit_exceeded'' ''plan.wall_seconds'')) (\<lambda>_.
     Inr (seal_packet \<lparr>tp_contract_version = 1, tp_protocol_version = PROTOCOL_VERSION, tp_task_id = task_id,
          tp_run_id = run_id, tp_owner = owner, tp_fence = fence, tp_role = role,
          tp_repository_id = repository_id, tp_legacy_intent_digest = intent, tp_authority = authority,
          tp_provider = provider, tp_capability_policy = policy, tp_plan = plan,
          tp_workspace_handle = workspace, tp_acceptance_ids = acceptance, tp_limits = limits,
          tp_packet_digest = []\<rparr>))))))))))))))))))))"

lemma packet_limits_Inr [res_simps]: "packet_limits v = Inr l \<longleftrightarrow> task_limits_from_dict v = Inr l"
  by (cases "task_limits_from_dict v") (auto simp: packet_limits_def split: pyexn.splits)

lemma packet_digest_unsealed [simp]: "packet_digest_of (x\<lparr>tp_packet_digest := d\<rparr>) = packet_digest_of x"
  by (simp add: packet_digest_of_def task_packet_values_def)

lemma packet_digest_sealed [simp]: "tp_packet_digest (seal_packet x) = packet_digest_of (seal_packet x)"
  by (simp add: seal_packet_def)

lemma task_limits_reparse:
  assumes "task_limits_from_dict d = Inr x"
  shows "task_limits_from_dict (canonical (task_limits_asdict x)) = Inr x"
  using assms unfolding task_limits_from_dict_def [of d]
  by (elim bnd_InrE, simp only: res_simps, clarify,
    simp add: task_limits_from_dict_def task_limits_asdict_def task_limits_fields_def res_simps py_simps
      cong: literal_congs)

text \<open>
  What a packet is, once parsed: every field in its type, the plan within the wall clock, and the digest that of the
  fields.
\<close>

definition task_packet_ok :: "(string \<Rightarrow> string) \<Rightarrow> task_packet \<Rightarrow> bool" where
  "task_packet_ok nfc x =
     (tp_contract_version x = 1 \<and> tp_protocol_version x = PROTOCOL_VERSION \<and> 1 \<le> tp_fence x \<and>
      tp_role x \<in> {''reader'', ''writer''} \<and> WORKSPACE_match (tp_workspace_handle x) \<and>
      id_ok nfc (tp_task_id x) \<and> id_ok nfc (tp_run_id x) \<and> id_ok nfc (tp_owner x) \<and>
      id_ok nfc (tp_repository_id x) \<and> hex_string 64 (tp_legacy_intent_digest x) \<and>
      (\<exists>d. authority_binding_from_dict nfc d = Inr (tp_authority x)) \<and>
      (\<exists>d. provider_profile_from_dict nfc d = Inr (tp_provider x)) \<and>
      (\<exists>d. capability_policy_from_dict nfc d = Inr (tp_capability_policy x)) \<and>
      (\<exists>d. execution_plan_from_dict nfc d = Inr (tp_plan x)) \<and>
      (\<exists>d. task_limits_from_dict d = Inr (tp_limits x)) \<and>
      names_ok nfc (tp_acceptance_ids x) \<and> plan_seconds (tp_plan x) \<le> tl_wall_seconds (tp_limits x) \<and>
      tp_packet_digest x = packet_digest_of x)"

lemma task_packet_parsed:
  assumes "task_packet_from_dict nfc d = Inr x"
  shows "task_packet_ok nfc x"
proof -
  have *: "\<exists>d. authority_binding_from_dict nfc d = Inr (tp_authority x)"
    "\<exists>d. provider_profile_from_dict nfc d = Inr (tp_provider x)"
    "\<exists>d. capability_policy_from_dict nfc d = Inr (tp_capability_policy x)"
    "\<exists>d. execution_plan_from_dict nfc d = Inr (tp_plan x)" "\<exists>d. task_limits_from_dict d = Inr (tp_limits x)"
    using assms unfolding task_packet_from_dict_def
    by (elim bnd_InrE, simp only: field_Inr packet_limits_Inr, elim exE conjE, force simp: seal_packet_def)+
  show ?thesis
    using assms * unfolding task_packet_from_dict_def task_packet_ok_def
    apply (elim bnd_InrE)
    apply (simp only: res_simps sum.inject hexpat_len.simps, elim exE conjE)
    apply (hypsubst, simp add: seal_packet_def packet_digest_of_def task_packet_values_def)
    done
qed

lemma task_packet_reparsed:
  assumes "task_packet_ok nfc x"
  shows "task_packet_from_dict nfc (task_packet_body x) = Inr x"
proof -
  note ok = assms [unfolded task_packet_ok_def]
  have sealed: "seal_packet
      \<lparr>tp_contract_version = 1, tp_protocol_version = PROTOCOL_VERSION, tp_task_id = tp_task_id x,
       tp_run_id = tp_run_id x, tp_owner = tp_owner x, tp_fence = tp_fence x, tp_role = tp_role x,
       tp_repository_id = tp_repository_id x, tp_legacy_intent_digest = tp_legacy_intent_digest x,
       tp_authority = tp_authority x, tp_provider = tp_provider x,
       tp_capability_policy = tp_capability_policy x, tp_plan = tp_plan x,
       tp_workspace_handle = tp_workspace_handle x, tp_acceptance_ids = tp_acceptance_ids x,
       tp_limits = tp_limits x, tp_packet_digest = []\<rparr> = x"
    using ok by (cases x) (simp add: seal_packet_def packet_digest_of_def task_packet_values_def)
  have parts: "authority_binding_from_dict nfc (authority_binding_to_dict (tp_authority x)) = Inr (tp_authority x)"
    "provider_profile_from_dict nfc (provider_profile_to_dict (tp_provider x)) = Inr (tp_provider x)"
    "capability_policy_from_dict nfc (capability_policy_to_dict (tp_capability_policy x)) = Inr (tp_capability_policy x)"
    "execution_plan_from_dict nfc (execution_plan_to_dict (tp_plan x)) = Inr (tp_plan x)"
    "task_limits_from_dict (canonical (task_limits_asdict (tp_limits x))) = Inr (tp_limits x)"
    using ok authority_binding.stable provider_profile.stable capability_policy.stable execution_plan.stable
      task_limits_reparse by blast+
  show ?thesis
    unfolding task_packet_from_dict_def task_packet_body_def task_packet_values_def
    using ok by (simp add: task_packet_fields_def res_simps py_simps py_eq_str_def parts sealed cong: literal_congs)
qed

interpretation task_packet: stable_codec "task_packet_from_dict nfc" task_packet_body
  by unfold_locales (rule task_packet_reparsed [OF task_packet_parsed])

section \<open>Run manifests\<close>

record run_manifest =
  rm_contract_version :: int
  rm_task_id :: string
  rm_run_id :: string
  rm_packet_digest :: string
  rm_provider_id :: string
  rm_adapter_id :: string
  rm_native_version :: string
  rm_model_id :: string
  rm_workspace_handle :: string
  rm_deadline :: string
  rm_stage :: string
  rm_manifest_digest :: string

definition run_manifest_values :: "run_manifest \<Rightarrow> pyval" where
  "run_manifest_values x = py_dict
     [(''contract_version'', PInt (rm_contract_version x)), (''task_id'', PStr (rm_task_id x)),
      (''run_id'', PStr (rm_run_id x)), (''packet_digest'', PStr (rm_packet_digest x)),
      (''provider_id'', PStr (rm_provider_id x)), (''adapter_id'', PStr (rm_adapter_id x)),
      (''native_version'', PStr (rm_native_version x)), (''model_id'', PStr (rm_model_id x)),
      (''workspace_handle'', PStr (rm_workspace_handle x)), (''deadline'', PStr (rm_deadline x)),
      (''stage'', PStr (rm_stage x))]"

definition manifest_digest_of :: "run_manifest \<Rightarrow> string" where
  "manifest_digest_of x = execution_digest ''adaptive-factory.run-manifest/v1'' (run_manifest_values x)"

definition run_manifest_from_packet :: "task_packet \<Rightarrow> string \<Rightarrow> run_manifest res" where
  "run_manifest_from_packet packet deadline =
     bnd (as_execution_error (time_field (PStr deadline) ''deadline'')) (\<lambda>parsed.
     let manifest = \<lparr>rm_contract_version = 1, rm_task_id = tp_task_id packet, rm_run_id = tp_run_id packet,
           rm_packet_digest = tp_packet_digest packet, rm_provider_id = pp_provider_id (tp_provider packet),
           rm_adapter_id = pp_adapter_id (tp_provider packet),
           rm_native_version = pp_native_version (tp_provider packet),
           rm_model_id = pp_model_id (tp_provider packet), rm_workspace_handle = tp_workspace_handle packet,
           rm_deadline = timestamp_text parsed, rm_stage = ''prepared'', rm_manifest_digest = []\<rparr>
     in Inr (manifest\<lparr>rm_manifest_digest := manifest_digest_of manifest\<rparr>))"

definition run_manifest_to_dict :: "run_manifest \<Rightarrow> pyval" where
  "run_manifest_to_dict x = canonical
     (py_dict [(''contract_version'', PInt (rm_contract_version x)), (''task_id'', PStr (rm_task_id x)),
      (''run_id'', PStr (rm_run_id x)), (''packet_digest'', PStr (rm_packet_digest x)),
      (''provider_id'', PStr (rm_provider_id x)), (''adapter_id'', PStr (rm_adapter_id x)),
      (''native_version'', PStr (rm_native_version x)), (''model_id'', PStr (rm_model_id x)),
      (''workspace_handle'', PStr (rm_workspace_handle x)), (''deadline'', PStr (rm_deadline x)),
      (''stage'', PStr (rm_stage x)), (''manifest_digest'', PStr (rm_manifest_digest x))])"

text \<open>The manifest of a packet is determined by the packet and the deadline it shows.\<close>

lemma run_manifest_again:
  assumes "run_manifest_from_packet packet deadline = Inr m"
  shows "run_manifest_from_packet packet (rm_deadline m) = Inr m"
proof -
  obtain t where t: "time_field (PStr deadline) ''deadline'' = Inr t"
    using assms by (auto simp: run_manifest_from_packet_def res_simps)
  then have "rm_deadline m = timestamp_text t"
    using assms by (auto simp: run_manifest_from_packet_def Let_def)
  moreover have "time_field (PStr (timestamp_text t)) ''deadline'' = Inr t"
    by (rule time_field_reparse [OF t])
  ultimately show ?thesis using assms t by (simp add: run_manifest_from_packet_def)
qed

lemma run_manifest_fields:
  assumes "run_manifest_from_packet packet deadline = Inr m"
  shows "rm_task_id m = tp_task_id packet" "rm_run_id m = tp_run_id packet"
    "rm_packet_digest m = tp_packet_digest packet" "rm_workspace_handle m = tp_workspace_handle packet"
    "rm_manifest_digest m = manifest_digest_of m" "hex_string 64 (rm_manifest_digest m)"
  using assms
  by (auto simp: run_manifest_from_packet_def res_simps Let_def manifest_digest_of_def run_manifest_values_def)

section \<open>Workspace results\<close>

text \<open>\<open>[c.value for c in FailureClass]\<close>.\<close>

fun failure_value :: "FailureClass \<Rightarrow> string" where
  "failure_value DATABASE_UNAVAILABLE = ''database_unavailable''"
| "failure_value WORKER_LOST = ''worker_lost''"
| "failure_value PROVIDER_TRANSPORT_UNAVAILABLE = ''provider_transport_unavailable''"
| "failure_value TEMPORARY_RESOURCE_EXHAUSTION = ''temporary_resource_exhaustion''"
| "failure_value VALIDATION = ''validation''"
| "failure_value POLICY = ''policy''"
| "failure_value AUTHENTICATION = ''authentication''"
| "failure_value UNSUPPORTED_CAPABILITY = ''unsupported_capability''"
| "failure_value BUDGET = ''budget''"
| "failure_value SECURITY = ''security''"
| "failure_value STALE_INPUT = ''stale_input''"
| "failure_value PROTOCOL = ''protocol''"
| "failure_value PROVIDER_QUALITY = ''provider_quality''"

definition failure_values :: "string list" where
  "failure_values = map failure_value
     [DATABASE_UNAVAILABLE, WORKER_LOST, PROVIDER_TRANSPORT_UNAVAILABLE, TEMPORARY_RESOURCE_EXHAUSTION,
      VALIDATION, POLICY, AUTHENTICATION, UNSUPPORTED_CAPABILITY, BUDGET, SECURITY, STALE_INPUT, PROTOCOL,
      PROVIDER_QUALITY]"

text \<open>\<open>FailureClass(v).value\<close>; an unhashable value is no member either.\<close>

definition failure_class_field :: "pyval \<Rightarrow> string res" where
  "failure_class_field v =
     (if in_str_tuple v failure_values then Inr (str_of v)
      else Inl (ExecutionContractError ''invalid_failure_class'' []))"

record workspace_result =
  wr_contract_version :: int
  wr_task_id :: string
  wr_run_id :: string
  wr_task_packet_digest :: string
  wr_run_manifest_digest :: string
  wr_exact_head_sha :: string
  wr_workspace_snapshot_digest :: string
  wr_terminal_stage :: string
  wr_terminal_proposal_digest :: string
  wr_artifact_manifest_digest :: string
  wr_note_manifest_digest :: string
  wr_usage_evidence_digest :: string
  wr_diagnostics_digest :: string
  wr_m4_status :: string
  wr_failure_class :: "string option"
  wr_failure_reason :: "string option"
  wr_workspace_result_digest :: string

text \<open>The fields of the class without \<open>workspace_result_digest\<close>.\<close>

definition workspace_result_fields :: "string list" where
  "workspace_result_fields =
     [''contract_version'', ''task_id'', ''run_id'', ''task_packet_digest'', ''run_manifest_digest'',
      ''exact_head_sha'', ''workspace_snapshot_digest'', ''terminal_stage'', ''terminal_proposal_digest'',
      ''artifact_manifest_digest'', ''note_manifest_digest'', ''usage_evidence_digest'',
      ''diagnostics_digest'', ''m4_status'', ''failure_class'', ''failure_reason'']"

definition workspace_result_values :: "workspace_result \<Rightarrow> pyval" where
  "workspace_result_values x = py_dict
     [(''contract_version'', PInt (wr_contract_version x)), (''task_id'', PStr (wr_task_id x)),
      (''run_id'', PStr (wr_run_id x)), (''task_packet_digest'', PStr (wr_task_packet_digest x)),
      (''run_manifest_digest'', PStr (wr_run_manifest_digest x)),
      (''exact_head_sha'', PStr (wr_exact_head_sha x)),
      (''workspace_snapshot_digest'', PStr (wr_workspace_snapshot_digest x)),
      (''terminal_stage'', PStr (wr_terminal_stage x)),
      (''terminal_proposal_digest'', PStr (wr_terminal_proposal_digest x)),
      (''artifact_manifest_digest'', PStr (wr_artifact_manifest_digest x)),
      (''note_manifest_digest'', PStr (wr_note_manifest_digest x)),
      (''usage_evidence_digest'', PStr (wr_usage_evidence_digest x)),
      (''diagnostics_digest'', PStr (wr_diagnostics_digest x)), (''m4_status'', PStr (wr_m4_status x)),
      (''failure_class'', opt_str (wr_failure_class x)), (''failure_reason'', opt_str (wr_failure_reason x))]"

definition workspace_result_digest_of :: "workspace_result \<Rightarrow> string" where
  "workspace_result_digest_of x = execution_digest ''adaptive-factory.workspace-result/v1'' (workspace_result_values x)"

definition seal_result :: "workspace_result \<Rightarrow> workspace_result" where
  "seal_result x = x\<lparr>wr_workspace_result_digest := workspace_result_digest_of x\<rparr>"

definition string_field :: "pyval \<Rightarrow> pyexn \<Rightarrow> string res" where
  "string_field v err = (case v of PStr s \<Rightarrow> Inr s | _ \<Rightarrow> Inl err)"

text \<open>The disposition of a run: which failure a terminal stage may carry, and to which M4 status it leads.\<close>

definition disposition ::
  "(string \<Rightarrow> string) \<Rightarrow> string \<Rightarrow> string \<Rightarrow> pyval \<Rightarrow> pyval \<Rightarrow> (string option \<times> string option) res" where
  "disposition nfc terminal m4_status failure_class failure_reason =
     (let invalid = ExecutionContractError ''invalid_m4_disposition'' [] in
      if terminal = ''completed'' then
        bnd (ensure (m4_status = ''ready_for_human'' \<and> failure_class = PNone \<and> failure_reason = PNone) invalid) (\<lambda>_.
        Inr (None, None))
      else if terminal = ''failed'' then
        bnd (ensure (m4_status \<in> {''retry'', ''needs_human'', ''dead''}) invalid) (\<lambda>_.
        bnd (failure_class_field failure_class) (\<lambda>cls.
        bnd (exec_text nfc failure_reason ''failure_reason'' 4096) (\<lambda>reason. Inr (Some cls, Some reason))))
      else
        bnd (ensure (m4_status = ''needs_human'' \<and> failure_class = PNone) invalid) (\<lambda>_.
        bnd (exec_text nfc failure_reason ''failure_reason'' 4096) (\<lambda>reason. Inr (None, Some reason))))"

definition workspace_result_from_facts :: "(string \<Rightarrow> string) \<Rightarrow> pyval \<Rightarrow> workspace_result res" where
  "workspace_result_from_facts nfc data =
     bnd (exec_closed data workspace_result_fields) (\<lambda>_.
     bnd (getitem data ''contract_version'') (\<lambda>version.
     bnd (ensure (py_eq_one version) (ExecutionContractError ''unsupported_version'' [])) (\<lambda>_.
     bnd (field data ''terminal_stage''
       (\<lambda>v. enum_field v [''completed'', ''failed'', ''needs_human''] (ExecutionContractError ''invalid_terminal'' []))) (\<lambda>terminal.
     bnd (field data ''terminal_proposal_digest'' (\<lambda>v. exec_hex v ''terminal_proposal_digest'' HEX64)) (\<lambda>terminal_digest.
     bnd (field data ''m4_status'' (\<lambda>v. string_field v (ExecutionContractError ''invalid_m4_disposition'' []))) (\<lambda>m4_status.
     bnd (getitem data ''failure_class'') (\<lambda>failure_class.
     bnd (getitem data ''failure_reason'') (\<lambda>failure_reason.
     bnd (disposition nfc terminal m4_status failure_class failure_reason) (\<lambda>failure.
     bnd (field data ''task_id'' (\<lambda>v. exec_identifier nfc v ''task_id'')) (\<lambda>task_id.
     bnd (field data ''run_id'' (\<lambda>v. exec_identifier nfc v ''run_id'')) (\<lambda>run_id.
     bnd (field data ''task_packet_digest'' (\<lambda>v. exec_hex v ''task_packet_digest'' HEX64)) (\<lambda>packet.
     bnd (field data ''run_manifest_digest'' (\<lambda>v. exec_hex v ''run_manifest_digest'' HEX64)) (\<lambda>manifest.
     bnd (field data ''exact_head_sha'' (\<lambda>v. exec_hex v ''exact_head_sha'' HEX40)) (\<lambda>head.
     bnd (field data ''workspace_snapshot_digest'' (\<lambda>v. exec_hex v ''workspace_snapshot_digest'' HEX64)) (\<lambda>snapshot.
     bnd (field data ''artifact_manifest_digest'' (\<lambda>v. exec_hex v ''artifact_manifest_digest'' HEX64)) (\<lambda>artifacts.
     bnd (field data ''note_manifest_digest'' (\<lambda>v. exec_hex v ''note_manifest_digest'' HEX64)) (\<lambda>notes.
     bnd (field data ''usage_evidence_digest'' (\<lambda>v. exec_hex v ''usage_evidence_digest'' HEX64)) (\<lambda>usage.
     bnd (field data ''diagnostics_digest'' (\<lambda>v. exec_hex v ''diagnostics_digest'' HEX64)) (\<lambda>diagnostics.
     Inr (seal_result \<lparr>wr_contract_version = 1, wr_task_id = task_id, wr_run_id = run_id,
          wr_task_packet_digest = packet, wr_run_manifest_digest = manifest, wr_exact_head_sha = head,
          wr_workspace_snapshot_digest = snapshot, wr_terminal_stage = terminal,
          wr_terminal_proposal_digest = terminal_digest, wr_artifact_manifest_digest = artifacts,
          wr_note_manifest_digest = notes, wr_usage_evidence_digest = usage,
          wr_diagnostics_digest = diagnostics, wr_m4_status = m4_status, wr_failure_class = fst failure,
          wr_failure_reason = snd failure, wr_workspace_result_digest = []\<rparr>))))))))))))))))))))"

text \<open>\<open>{name: data[name] for name in names}\<close>.\<close>

definition dict_restrict :: "pyval \<Rightarrow> string list \<Rightarrow> pyval res" where
  "dict_restrict data names =
     bnd (map_res (\<lambda>k. bnd (getitem data k) (\<lambda>v. Inr (k, v))) names) (\<lambda>kvs. Inr (py_dict kvs))"

definition workspace_result_from_dict :: "(string \<Rightarrow> string) \<Rightarrow> pyval \<Rightarrow> workspace_result res" where
  "workspace_result_from_dict nfc data =
     bnd (exec_closed data (workspace_result_fields @ [''workspace_result_digest''])) (\<lambda>_.
     bnd (dict_restrict data workspace_result_fields) (\<lambda>facts.
     bnd (workspace_result_from_facts nfc facts) (\<lambda>result.
     bnd (field data ''workspace_result_digest'' (\<lambda>v. exec_hex v ''workspace_result_digest'' HEX64)) (\<lambda>supplied.
     bnd (ensure (supplied = wr_workspace_result_digest result)
       (ExecutionContractError ''digest_mismatch'' ''workspace_result_digest'')) (\<lambda>_.
     Inr result)))))"

definition workspace_result_asdict :: "workspace_result \<Rightarrow> pyval" where
  "workspace_result_asdict x = py_dict
     [(''contract_version'', PInt (wr_contract_version x)), (''task_id'', PStr (wr_task_id x)),
      (''run_id'', PStr (wr_run_id x)), (''task_packet_digest'', PStr (wr_task_packet_digest x)),
      (''run_manifest_digest'', PStr (wr_run_manifest_digest x)),
      (''exact_head_sha'', PStr (wr_exact_head_sha x)),
      (''workspace_snapshot_digest'', PStr (wr_workspace_snapshot_digest x)),
      (''terminal_stage'', PStr (wr_terminal_stage x)),
      (''terminal_proposal_digest'', PStr (wr_terminal_proposal_digest x)),
      (''artifact_manifest_digest'', PStr (wr_artifact_manifest_digest x)),
      (''note_manifest_digest'', PStr (wr_note_manifest_digest x)),
      (''usage_evidence_digest'', PStr (wr_usage_evidence_digest x)),
      (''diagnostics_digest'', PStr (wr_diagnostics_digest x)), (''m4_status'', PStr (wr_m4_status x)),
      (''failure_class'', opt_str (wr_failure_class x)),
      (''failure_reason'', opt_str (wr_failure_reason x)),
      (''workspace_result_digest'', PStr (wr_workspace_result_digest x))]"

definition workspace_result_to_dict :: "workspace_result \<Rightarrow> pyval" where
  "workspace_result_to_dict x = canonical (workspace_result_asdict x)"

lemma string_field_Inr [res_simps]: "string_field v err = Inr s \<longleftrightarrow> v = PStr s"
  by (auto simp: string_field_def split: pyval.splits)

lemma failure_class_field_Inr [res_simps]:
  "failure_class_field v = Inr s \<longleftrightarrow> v = PStr s \<and> s \<in> set failure_values"
  by (cases v) (auto simp: failure_class_field_def in_str_tuple_def)

text \<open>What a run may end as: the failure and the M4 status that fit its terminal stage.\<close>

definition disposition_ok :: "(string \<Rightarrow> string) \<Rightarrow> string \<Rightarrow> string \<Rightarrow> string option \<Rightarrow> string option \<Rightarrow> bool" where
  "disposition_ok nfc terminal m4_status cls reason =
     (if terminal = ''completed'' then m4_status = ''ready_for_human'' \<and> cls = None \<and> reason = None
      else (\<exists>r. reason = Some r \<and> exec_text nfc (PStr r) [] 4096 = Inr r) \<and>
        (if terminal = ''failed''
         then m4_status \<in> {''retry'', ''needs_human'', ''dead''} \<and> (\<exists>c\<in>set failure_values. cls = Some c)
         else m4_status = ''needs_human'' \<and> cls = None))"

lemma disposition_Inr [res_simps]:
  "disposition nfc terminal m4_status fc fr = Inr p \<longleftrightarrow>
     fc = opt_str (fst p) \<and> fr = opt_str (snd p) \<and> disposition_ok nfc terminal m4_status (fst p) (snd p)"
  unfolding disposition_def disposition_ok_def Let_def
  by (cases p; cases "fst p"; cases "snd p") (auto simp: bnd_Inr_iff ensure_Inr_iff failure_class_field_Inr exec_text_Inr)

lemma workspace_result_unsealed [simp]:
  "workspace_result_digest_of (x\<lparr>wr_workspace_result_digest := d\<rparr>) = workspace_result_digest_of x"
  by (simp add: workspace_result_digest_of_def workspace_result_values_def)

text \<open>What a result is, once parsed.\<close>

definition workspace_result_ok :: "(string \<Rightarrow> string) \<Rightarrow> workspace_result \<Rightarrow> bool" where
  "workspace_result_ok nfc x =
     (wr_contract_version x = 1 \<and> wr_terminal_stage x \<in> {''completed'', ''failed'', ''needs_human''} \<and>
      disposition_ok nfc (wr_terminal_stage x) (wr_m4_status x) (wr_failure_class x) (wr_failure_reason x) \<and>
      id_ok nfc (wr_task_id x) \<and> id_ok nfc (wr_run_id x) \<and> hex_string 40 (wr_exact_head_sha x) \<and>
      list_all (hex_string 64)
        [wr_task_packet_digest x, wr_run_manifest_digest x, wr_workspace_snapshot_digest x,
         wr_terminal_proposal_digest x, wr_artifact_manifest_digest x, wr_note_manifest_digest x,
         wr_usage_evidence_digest x, wr_diagnostics_digest x] \<and>
      wr_workspace_result_digest x = workspace_result_digest_of x)"

lemma workspace_result_facts_ok:
  assumes "workspace_result_from_facts nfc d = Inr x"
  shows "workspace_result_ok nfc x"
  using assms unfolding workspace_result_from_facts_def workspace_result_ok_def
  apply (elim bnd_InrE)
  apply (simp only: res_simps sum.inject hexpat_len.simps, elim exE conjE)
  apply (hypsubst, simp add: seal_result_def workspace_result_digest_of_def workspace_result_values_def)
  done

lemma workspace_result_parsed: "workspace_result_from_dict nfc d = Inr x \<Longrightarrow> workspace_result_ok nfc x"
  unfolding workspace_result_from_dict_def by (elim bnd_InrE) (auto dest: workspace_result_facts_ok)

lemma dict_restrict_canonical:
  assumes "set names \<subseteq> fst ` set kvs"
  shows "dict_restrict (canonical (py_dict kvs)) names =
    Inr (py_dict (map (\<lambda>k. (k, canonical (the (assoc kvs k)))) names))"
proof -
  have bound: "\<exists>v. assoc kvs k = Some v" if "k \<in> fst ` set kvs" for k
    using that by (induction kvs) (fastforce simp: assoc.simps)+
  have "map_res (\<lambda>k. bnd (getitem (canonical (py_dict kvs)) k) (\<lambda>v. Inr (k, v))) names =
      Inr (map (\<lambda>k. (k, canonical (the (assoc kvs k)))) names)"
    using assms
  proof (induction names)
    case (Cons k names)
    moreover obtain v where "assoc kvs k = Some v" using bound Cons.prems by auto
    ultimately show ?case by (simp add: getitem_canonical)
  qed simp
  then show ?thesis by (simp add: dict_restrict_def)
qed

lemma workspace_result_rebuilt:
  assumes "workspace_result_ok nfc x"
  shows "workspace_result_from_facts nfc (workspace_result_values x) = Inr x"
proof -
  note ok = assms [unfolded workspace_result_ok_def]
  have sealed: "seal_result
      \<lparr>wr_contract_version = 1, wr_task_id = wr_task_id x, wr_run_id = wr_run_id x,
       wr_task_packet_digest = wr_task_packet_digest x, wr_run_manifest_digest = wr_run_manifest_digest x,
       wr_exact_head_sha = wr_exact_head_sha x, wr_workspace_snapshot_digest = wr_workspace_snapshot_digest x,
       wr_terminal_stage = wr_terminal_stage x, wr_terminal_proposal_digest = wr_terminal_proposal_digest x,
       wr_artifact_manifest_digest = wr_artifact_manifest_digest x, wr_note_manifest_digest = wr_note_manifest_digest x,
       wr_usage_evidence_digest = wr_usage_evidence_digest x, wr_diagnostics_digest = wr_diagnostics_digest x,
       wr_m4_status = wr_m4_status x, wr_failure_class = wr_failure_class x,
       wr_failure_reason = wr_failure_reason x, wr_workspace_result_digest = []\<rparr> = x"
    using ok by (cases x) (simp add: seal_result_def workspace_result_digest_of_def workspace_result_values_def)
  have "disposition nfc (wr_terminal_stage x) (wr_m4_status x) (opt_str (wr_failure_class x))
      (opt_str (wr_failure_reason x)) = Inr (wr_failure_class x, wr_failure_reason x)"
    using ok by (simp add: disposition_Inr)
  then show ?thesis
    unfolding workspace_result_from_facts_def workspace_result_values_def
    using ok by (simp add: workspace_result_fields_def res_simps py_simps sealed cong: literal_congs)
qed

text \<open>\<open>from_dict\<close> looks its fields up one by one, in whatever order the dictionary has them.\<close>

lemma workspace_result_restricted:
  "dict_restrict (workspace_result_to_dict x) workspace_result_fields = Inr (workspace_result_values x)"
  unfolding workspace_result_to_dict_def workspace_result_asdict_def workspace_result_values_def
  by (subst dict_restrict_canonical)
    (simp_all add: workspace_result_fields_def assoc_Cons canonical_opt_str cong: literal_congs(2-4))

lemma workspace_result_reparsed:
  assumes "workspace_result_ok nfc x"
  shows "workspace_result_from_dict nfc (workspace_result_to_dict x) = Inr x"
proof -
  have "wr_workspace_result_digest x = workspace_result_digest_of x"
    using assms by (simp add: workspace_result_ok_def)
  moreover have "exec_closed (workspace_result_to_dict x) (workspace_result_fields @ [''workspace_result_digest'']) = Inr ()"
    unfolding workspace_result_to_dict_def workspace_result_asdict_def
    by (rule exec_closed_py_dict) (simp add: workspace_result_fields_def)
  moreover have "getitem (workspace_result_to_dict x) ''workspace_result_digest'' = Inr (PStr (wr_workspace_result_digest x))"
    unfolding workspace_result_to_dict_def workspace_result_asdict_def by (simp add: py_simps cong: literal_congs)
  ultimately show ?thesis
    by (simp add: workspace_result_from_dict_def workspace_result_restricted workspace_result_rebuilt [OF assms]
        field_def exec_hex_def hex_field_def workspace_result_digest_of_def)
qed

interpretation workspace_result: stable_codec "workspace_result_from_dict nfc" workspace_result_to_dict
  by unfold_locales (rule workspace_result_reparsed [OF workspace_result_parsed])

end
