(* ===== verification/PyRegex.thy ===== *)
theory PyRegex
  imports PyString
begin

text \<open>
  \<open>re.search\<close> and \<open>re.sub\<close>.  A pattern is a term; \<open>ends\<close> lists the positions at which a match that starts at a
  position can end, in the order in which the backtracking matcher tries them: the first alternative first, a
  greedy repetition with as many rounds as possible first, a lazy one with as few.  So \<open>search\<close> is true exactly
  when the search succeeds, and the head of the list is the end of the match that \<open>re\<close> finds.  A position is
  the characters before it, the last one first, and the characters after it.

  Which characters outside ASCII are letters is a table of the library: the parameter \<open>word\<close>, which only
  the pattern \<open>\b\<close> consults.
\<close>

section \<open>Patterns\<close>

datatype rx =
    Chars "string \<Rightarrow> bool"
  | Nothing
  | Then rx rx
  | Or rx rx
  | Star rx
  | Lazy rx
  | NotBehind "string \<Rightarrow> bool"
  | NotAhead "string \<Rightarrow> bool"
  | WordBoundary

type_synonym position = "string list \<times> string list"

text \<open>Up to \<open>n\<close> rounds of \<open>f\<close>: the most rounds first, and the fewest first.\<close>

fun rounds :: "nat \<Rightarrow> ('a \<Rightarrow> 'a list) \<Rightarrow> 'a \<Rightarrow> 'a list" where
  "rounds 0 f p = [p]"
| "rounds (Suc n) f p = concat (map (rounds n f) (f p)) @ [p]"

fun lazy_rounds :: "nat \<Rightarrow> ('a \<Rightarrow> 'a list) \<Rightarrow> 'a \<Rightarrow> 'a list" where
  "lazy_rounds 0 f p = [p]"
| "lazy_rounds (Suc n) f p = p # concat (map (lazy_rounds n f) (f p))"

text \<open>Every round of a repetition consumes a character, so the characters left bound their number.\<close>

primrec ends :: "(string \<Rightarrow> bool) \<Rightarrow> rx \<Rightarrow> position \<Rightarrow> position list" where
  "ends word (Chars p) pos =
     (case snd pos of [] \<Rightarrow> [] | c # cs \<Rightarrow> if p c then [(c # fst pos, cs)] else [])"
| "ends word Nothing pos = [pos]"
| "ends word (Then r s) pos = concat (map (ends word s) (ends word r pos))"
| "ends word (Or r s) pos = ends word r pos @ ends word s pos"
| "ends word (Star r) pos =
     rounds (length (snd pos)) (\<lambda>p. filter (\<lambda>q. length (snd q) < length (snd p)) (ends word r p)) pos"
| "ends word (Lazy r) pos =
     lazy_rounds (length (snd pos)) (\<lambda>p. filter (\<lambda>q. length (snd q) < length (snd p)) (ends word r p)) pos"
| "ends word (NotBehind p) pos = (if fst pos \<noteq> [] \<and> p (hd (fst pos)) then [] else [pos])"
| "ends word (NotAhead p) pos = (if snd pos \<noteq> [] \<and> p (hd (snd pos)) then [] else [pos])"
| "ends word WordBoundary pos =
     (if (fst pos \<noteq> [] \<and> word (hd (fst pos))) = (snd pos \<noteq> [] \<and> word (hd (snd pos))) then [] else [pos])"

fun search_from :: "(string \<Rightarrow> bool) \<Rightarrow> rx \<Rightarrow> string list \<Rightarrow> string list \<Rightarrow> bool" where
  "search_from word r pre [] = (ends word r (pre, []) \<noteq> [])"
| "search_from word r pre (c # cs) =
     (ends word r (pre, c # cs) \<noteq> [] \<or> search_from word r (c # pre) cs)"

definition search :: "(string \<Rightarrow> bool) \<Rightarrow> rx \<Rightarrow> string \<Rightarrow> bool" where
  "search word r s = search_from word r [] (code_points s)"

lemma filter_head: "filter P xs = y # ys \<Longrightarrow> P y \<and> y \<in> set xs"
  by (auto simp: filter_eq_Cons_iff)

text \<open>
  \<open>re.sub\<close> with a matcher that gives the ends in that order: the matches from the left, none overlapping, each
  replaced.  No pattern of the code matches the empty text.
\<close>

function sub_from :: "(position \<Rightarrow> position list) \<Rightarrow> string list \<Rightarrow> string list \<Rightarrow> string list \<Rightarrow> string list" where
  "sub_from m by_text pre [] = []"
| "sub_from m by_text pre (c # cs) =
     (case filter (\<lambda>q. length (snd q) < length (c # cs)) (m (pre, c # cs)) of
        [] \<Rightarrow> c # sub_from m by_text (c # pre) cs
      | q # _ \<Rightarrow> by_text @ sub_from m by_text (fst q) (snd q))"
  by pat_completeness auto

termination sub_from
  by (relation "measure (\<lambda>(m, by_text, pre, cs). length cs)") (auto dest: filter_head)

definition substitute :: "(position \<Rightarrow> position list) \<Rightarrow> string \<Rightarrow> string \<Rightarrow> string" where
  "substitute m by_text s = concat (sub_from m (code_points by_text) [] (code_points s))"

section \<open>Building patterns\<close>

definition Maybe :: "rx \<Rightarrow> rx" where "Maybe r = Or r Nothing"
definition Plus :: "rx \<Rightarrow> rx" where "Plus r = Then r (Star r)"

fun Times :: "nat \<Rightarrow> rx \<Rightarrow> rx" where
  "Times 0 r = Nothing"
| "Times (Suc n) r = Then r (Times n r)"

fun Any_of :: "rx list \<Rightarrow> rx" where
  "Any_of [] = Chars (\<lambda>c. False)"
| "Any_of [r] = r"
| "Any_of (r # rs) = Or r (Any_of rs)"

fun Seq :: "rx list \<Rightarrow> rx" where
  "Seq [] = Nothing"
| "Seq [r] = r"
| "Seq (r # rs) = Then r (Seq rs)"

section \<open>Ignoring case\<close>

text \<open>
  Under \<open>(?i)\<close> an ASCII letter matches its other case, and \<open>i\<close>, \<open>s\<close>, \<open>k\<close> match U+0130, U+0131, U+017F and U+212A
  as well.  \<open>fold_case\<close> maps every such character to the lower-case ASCII letter.
\<close>

definition lower_char :: "char \<Rightarrow> char" where
  "lower_char c = (if 65 \<le> byte c \<and> byte c \<le> 90 then char_of (byte c + 32) else c)"

definition fold_case :: "string \<Rightarrow> string" where
  "fold_case c =
     (if length c = 1 then map lower_char c
      else if map byte c = [196, 176] \<or> map byte c = [196, 177] then ''i''
      else if map byte c = [197, 191] then ''s''
      else if map byte c = [226, 132, 170] then ''k''
      else c)"

text \<open>A character class, given by its lower-case members, and a literal, given in lower case.\<close>

definition in_class :: "string \<Rightarrow> string \<Rightarrow> bool" where
  "in_class members c = (case fold_case c of [d] \<Rightarrow> d \<in> set members | _ \<Rightarrow> False)"

definition Class :: "string \<Rightarrow> rx" where
  "Class members = Chars (in_class members)"

definition Literal :: "string \<Rightarrow> rx" where
  "Literal s = Seq (map (\<lambda>c. Class [c]) s)"

text \<open>\<open>\w\<close>: the ASCII word characters, and outside ASCII what the table says.\<close>

definition word_char :: "(string \<Rightarrow> bool) \<Rightarrow> string \<Rightarrow> bool" where
  "word_char word c = (case c of [d] \<Rightarrow> is_alnum d \<or> d = CHR ''_'' | _ \<Rightarrow> word c)"

section \<open>Secrets\<close>

text \<open>\<open>_STRUCTURAL_SECRET\<close> of \<open>protocol.py\<close>, alternative by alternative.\<close>

definition alnum_lower :: string where
  "alnum_lower = digits_chars @ lower_chars"

definition identifier_class :: string where
  "identifier_class = ''_-'' @ alnum_lower"

definition blanks :: rx where
  "blanks = Star (Class [CHR '' '', CHR 0x09])"

definition secret_names :: rx where
  "secret_names = (let sep = Maybe (Class ''_-'') in Any_of
     [Seq [Literal ''api'', sep, Literal ''key''], Seq [Literal ''access'', sep, Literal ''token''],
      Seq [Literal ''session'', sep, Literal ''token''], Seq [Literal ''client'', sep, Literal ''secret''],
      Seq [Literal ''refresh'', sep, Literal ''token''], Literal ''password'', Literal ''credential'',
      Seq [Literal ''secret'', sep, Literal ''key''], Seq [Literal ''private'', sep, Literal ''key''],
      Literal ''token'', Literal ''secret''])"

definition STRUCTURAL_SECRET :: rx where
  "STRUCTURAL_SECRET = (let quote = Maybe (Class [CHR 0x22, CHR 0x27]); free = in_class identifier_class in Any_of
     [Literal ''-----begin'', Literal ''-----end'',
      Then (Any_of [Literal ''sk-'', Literal ''ghp_'', Literal ''github_pat_'']) (Plus (Class identifier_class)),
      Seq [WordBoundary, Any_of [Literal ''akia'', Literal ''asia''], Times 16 (Class alnum_lower), WordBoundary],
      Seq [WordBoundary, Literal ''bearer'', Plus (Class [CHR '' '', CHR 0x09]), Plus (Class (''._~+/=-'' @ alnum_lower))],
      Seq [NotBehind free, Star (Then (Plus (Class alnum_lower)) (Class ''_-'')), Literal ''authorization'', blanks,
           Class ''=:''],
      Seq [NotBehind free, quote, Star (Then (Plus (Class alnum_lower)) (Class ''_-'')), secret_names,
           Star (Then (Class ''_-'') (Plus (Class alnum_lower))), quote, NotAhead free, blanks, Class '':='']])"

definition contains_structural_secret :: "(string \<Rightarrow> bool) \<Rightarrow> string \<Rightarrow> bool" where
  "contains_structural_secret word value = search (word_char word) STRUCTURAL_SECRET value"

end
