(* ===== verification/Workspace.thy ===== *)
theory Workspace
  imports ExecutionContracts PyRegex
begin

text \<open>
  \<open>workspace.py\<close>: the attested facts about a workspace - the snapshot the trusted git broker takes and the
  attestation the trusted workspace broker gives of one artifact - and the fake brokers that stand for the
  real ones in a control plane without a sandbox.  Field prefixes: \<open>ws_\<close> snapshot, \<open>ar_\<close> attestation request,
  \<open>aa_\<close> attestation, \<open>wh_\<close> handle, \<open>wp_\<close> policy, \<open>fb_\<close> fake broker, \<open>hi_\<close> host isolation.

  \<open>word\<close> is the table of word characters outside ASCII (see \<open>PyRegex\<close>).
\<close>

section \<open>Validators\<close>

definition MAX_DURABLE_PATH_BYTES :: nat where "MAX_DURABLE_PATH_BYTES = 1024"

definition media_char :: "char \<Rightarrow> bool" where
  "media_char c = (c \<in> set digits_chars \<or> c \<in> set lower_chars \<or> c \<in> set ''.+-'')"

definition MEDIA_TYPE_match :: "string \<Rightarrow> bool" where
  "MEDIA_TYPE_match s =
     (let rest = dropWhile media_char s in
      takeWhile media_char s \<noteq> [] \<and> rest \<noteq> [] \<and> hd rest = CHR ''/'' \<and> tl rest \<noteq> [] \<and>
      list_all media_char (tl rest))"

text \<open>\<open>isinstance(data, Mapping) and set(data) == fields\<close>.\<close>

definition exact_keys :: "pyval \<Rightarrow> string list \<Rightarrow> bool" where
  "exact_keys data names = (case data of PDict kvs \<Rightarrow> set (map fst kvs) = PStr ` set names | _ \<Rightarrow> False)"

definition ws_string :: "(string \<Rightarrow> bool) \<Rightarrow> pyval \<Rightarrow> string \<Rightarrow> string res" where
  "ws_string ok v code =
     (case v of PStr s \<Rightarrow> (if ok s then Inr s else Inl (WorkspaceError code [])) | _ \<Rightarrow> Inl (WorkspaceError code []))"

definition ws_integer :: "int \<Rightarrow> int \<Rightarrow> pyval \<Rightarrow> string \<Rightarrow> int res" where
  "ws_integer lo hi v code =
     (case v of PInt n \<Rightarrow> (if lo \<le> n \<and> n \<le> hi then Inr n else Inl (WorkspaceError code []))
      | _ \<Rightarrow> Inl (WorkspaceError code []))"

text \<open>The path of an artifact: durable, free of secrets, relative and outside \<open>.git\<close>.\<close>

definition artifact_path :: "(string \<Rightarrow> bool) \<Rightarrow> string \<Rightarrow> bool" where
  "artifact_path word s =
     (s \<noteq> [] \<and> CHR 0x00 \<notin> set s \<and> \<not> has_surrogate s \<and> length s \<le> MAX_DURABLE_PATH_BYTES \<and>
      \<not> contains_structural_secret word s \<and> relative_path s)"

lemma exact_keys_py_dict [py_simps]: "exact_keys (py_dict kvs) names \<longleftrightarrow> fst ` set kvs = set names"
proof -
  have "map fst (map (\<lambda>(k, v). (PStr k, v)) kvs) = map PStr (map fst kvs)" by auto
  then have "set (map fst (map (\<lambda>(k, v). (PStr k, v)) kvs)) = PStr ` fst ` set kvs" by (metis set_map)
  moreover have "inj PStr" by (simp add: inj_def)
  ultimately show ?thesis by (simp only: exact_keys_def py_dict_def pyval.case inj_image_eq_iff)
qed

lemma ws_string_Inr [res_simps]: "ws_string ok v code = Inr s \<longleftrightarrow> v = PStr s \<and> ok s"
  by (auto simp: ws_string_def split: pyval.splits)

lemma ws_integer_Inr [res_simps]: "ws_integer lo hi v code = Inr n \<longleftrightarrow> v = PInt n \<and> lo \<le> n \<and> n \<le> hi"
  by (auto simp: ws_integer_def split: pyval.splits)

lemma dict_restrict_py_dict:
  assumes "set names \<subseteq> fst ` set kvs"
  shows "dict_restrict (py_dict kvs) names = Inr (py_dict (map (\<lambda>k. (k, the (assoc kvs k))) names))"
proof -
  have bound: "\<exists>v. assoc kvs k = Some v" if "k \<in> fst ` set kvs" for k
    using that by (induction kvs) (fastforce simp: assoc.simps)+
  have "map_res (\<lambda>k. bnd (getitem (py_dict kvs) k) (\<lambda>v. Inr (k, v))) names =
      Inr (map (\<lambda>k. (k, the (assoc kvs k))) names)"
    using assms
  proof (induction names)
    case (Cons k names)
    moreover obtain v where "assoc kvs k = Some v" using bound Cons.prems by auto
    ultimately show ?case by (simp add: getitem_py_dict)
  qed simp
  then show ?thesis by (simp add: dict_restrict_def)
qed

section \<open>Snapshots\<close>

record workspace_snapshot =
  ws_contract_version :: int
  ws_repository_id :: string
  ws_workspace_handle :: string
  ws_input_head_sha :: string
  ws_result_head_sha :: string
  ws_diff_digest :: string
  ws_diff_lines :: int
  ws_source :: string
  ws_workspace_snapshot_digest :: string

text \<open>The fields of the class without the digest.\<close>

definition workspace_snapshot_fields :: "string list" where
  "workspace_snapshot_fields =
     [''contract_version'', ''repository_id'', ''workspace_handle'', ''input_head_sha'',
      ''result_head_sha'', ''diff_digest'', ''diff_lines'', ''source'']"

definition workspace_snapshot_values :: "workspace_snapshot \<Rightarrow> pyval" where
  "workspace_snapshot_values x = py_dict
     [(''contract_version'', PInt (ws_contract_version x)), (''repository_id'', PStr (ws_repository_id x)),
      (''workspace_handle'', PStr (ws_workspace_handle x)),
      (''input_head_sha'', PStr (ws_input_head_sha x)), (''result_head_sha'', PStr (ws_result_head_sha x)),
      (''diff_digest'', PStr (ws_diff_digest x)), (''diff_lines'', PInt (ws_diff_lines x)),
      (''source'', PStr (ws_source x))]"

definition snapshot_digest_of :: "workspace_snapshot \<Rightarrow> string" where
  "snapshot_digest_of x = canonical_digest (py_dict
     [(''contract'', PStr ''adaptive-factory.workspace-snapshot/v1''),
      (''contract_version'', PInt (ws_contract_version x)), (''repository_id'', PStr (ws_repository_id x)),
      (''workspace_handle'', PStr (ws_workspace_handle x)), (''input_head_sha'', PStr (ws_input_head_sha x)),
      (''result_head_sha'', PStr (ws_result_head_sha x)), (''diff_digest'', PStr (ws_diff_digest x)),
      (''diff_lines'', PInt (ws_diff_lines x)), (''source'', PStr (ws_source x))])"

definition seal_snapshot :: "workspace_snapshot \<Rightarrow> workspace_snapshot" where
  "seal_snapshot x = x\<lparr>ws_workspace_snapshot_digest := snapshot_digest_of x\<rparr>"

definition workspace_snapshot_from_facts :: "pyval \<Rightarrow> workspace_snapshot res" where
  "workspace_snapshot_from_facts data =
     bnd (ensure (exact_keys data workspace_snapshot_fields) (WorkspaceError ''snapshot_fields'' [])) (\<lambda>_.
     bnd (getitem data ''contract_version'') (\<lambda>version.
     bnd (getitem data ''source'') (\<lambda>source.
     bnd (ensure (py_eq_one version \<and> py_eq_str source ''trusted_git_broker'') (WorkspaceError ''snapshot_source'' [])) (\<lambda>_.
     bnd (field data ''repository_id'' (\<lambda>v. ws_string ID_match v ''snapshot_repository'')) (\<lambda>repository.
     bnd (field data ''workspace_handle'' (\<lambda>v. ws_string WORKSPACE_match v ''snapshot_workspace'')) (\<lambda>workspace.
     bnd (field data ''input_head_sha'' (\<lambda>v. ws_string (hex_string 40) v ''snapshot_input_head'')) (\<lambda>input_head.
     bnd (field data ''result_head_sha'' (\<lambda>v. ws_string (hex_string 40) v ''snapshot_result_head'')) (\<lambda>result_head.
     bnd (field data ''diff_digest'' (\<lambda>v. ws_string (hex_string 64) v ''snapshot_diff'')) (\<lambda>diff.
     bnd (field data ''diff_lines'' (\<lambda>v. ws_integer 0 1000000 v ''snapshot_diff_lines'')) (\<lambda>diff_lines.
     Inr (seal_snapshot \<lparr>ws_contract_version = 1, ws_repository_id = repository, ws_workspace_handle = workspace,
          ws_input_head_sha = input_head, ws_result_head_sha = result_head, ws_diff_digest = diff,
          ws_diff_lines = diff_lines, ws_source = ''trusted_git_broker'', ws_workspace_snapshot_digest = []\<rparr>)))))))))))"

definition workspace_snapshot_from_dict :: "pyval \<Rightarrow> workspace_snapshot res" where
  "workspace_snapshot_from_dict data =
     bnd (ensure (exact_keys data (workspace_snapshot_fields @ [''workspace_snapshot_digest'']))
       (WorkspaceError ''snapshot_fields'' [])) (\<lambda>_.
     bnd (dict_restrict data workspace_snapshot_fields) (\<lambda>facts.
     bnd (workspace_snapshot_from_facts facts) (\<lambda>result.
     bnd (getitem data ''workspace_snapshot_digest'') (\<lambda>supplied.
     bnd (ensure (py_eq_str supplied (ws_workspace_snapshot_digest result))
       (WorkspaceError ''snapshot_digest_mismatch'' [])) (\<lambda>_.
     Inr result)))))"

definition workspace_snapshot_to_dict :: "workspace_snapshot \<Rightarrow> pyval" where
  "workspace_snapshot_to_dict x = py_dict
     [(''contract_version'', PInt (ws_contract_version x)), (''repository_id'', PStr (ws_repository_id x)),
      (''workspace_handle'', PStr (ws_workspace_handle x)),
      (''input_head_sha'', PStr (ws_input_head_sha x)), (''result_head_sha'', PStr (ws_result_head_sha x)),
      (''diff_digest'', PStr (ws_diff_digest x)), (''diff_lines'', PInt (ws_diff_lines x)),
      (''source'', PStr (ws_source x)),
      (''workspace_snapshot_digest'', PStr (ws_workspace_snapshot_digest x))]"

text \<open>What a snapshot is, once parsed.\<close>

definition workspace_snapshot_ok :: "workspace_snapshot \<Rightarrow> bool" where
  "workspace_snapshot_ok x =
     (ws_contract_version x = 1 \<and> ws_source x = ''trusted_git_broker'' \<and> ID_match (ws_repository_id x) \<and>
      WORKSPACE_match (ws_workspace_handle x) \<and> hex_string 40 (ws_input_head_sha x) \<and>
      hex_string 40 (ws_result_head_sha x) \<and> hex_string 64 (ws_diff_digest x) \<and>
      0 \<le> ws_diff_lines x \<and> ws_diff_lines x \<le> 1000000 \<and>
      ws_workspace_snapshot_digest x = snapshot_digest_of x)"

lemma workspace_snapshot_facts_ok:
  assumes "workspace_snapshot_from_facts d = Inr x"
  shows "workspace_snapshot_ok x"
  using assms unfolding workspace_snapshot_from_facts_def workspace_snapshot_ok_def
  by (elim bnd_InrE, simp only: res_simps sum.inject, elim exE conjE)
    (hypsubst, simp add: seal_snapshot_def snapshot_digest_of_def)

lemma workspace_snapshot_parsed: "workspace_snapshot_from_dict d = Inr x \<Longrightarrow> workspace_snapshot_ok x"
  unfolding workspace_snapshot_from_dict_def by (elim bnd_InrE) (auto dest: workspace_snapshot_facts_ok)

lemma workspace_snapshot_reparsed:
  assumes "workspace_snapshot_ok x"
  shows "workspace_snapshot_from_dict (workspace_snapshot_to_dict x) = Inr x"
proof -
  note ok = assms [unfolded workspace_snapshot_ok_def]
  have sealed: "seal_snapshot
      \<lparr>ws_contract_version = 1, ws_repository_id = ws_repository_id x, ws_workspace_handle = ws_workspace_handle x,
       ws_input_head_sha = ws_input_head_sha x, ws_result_head_sha = ws_result_head_sha x,
       ws_diff_digest = ws_diff_digest x, ws_diff_lines = ws_diff_lines x, ws_source = ''trusted_git_broker'',
       ws_workspace_snapshot_digest = []\<rparr> = x"
    using ok by (cases x) (simp add: seal_snapshot_def snapshot_digest_of_def)
  have "dict_restrict (workspace_snapshot_to_dict x) workspace_snapshot_fields = Inr (workspace_snapshot_values x)"
    unfolding workspace_snapshot_to_dict_def workspace_snapshot_values_def
    by (subst dict_restrict_py_dict) (simp_all add: workspace_snapshot_fields_def assoc_Cons cong: literal_congs(2-4))
  moreover have "workspace_snapshot_from_facts (workspace_snapshot_values x) = Inr x"
    unfolding workspace_snapshot_from_facts_def workspace_snapshot_values_def
    using ok by (simp add: workspace_snapshot_fields_def res_simps py_simps py_eq_str_def ws_string_def ws_integer_def
        sealed cong: literal_congs)
  moreover have "exact_keys (workspace_snapshot_to_dict x) (workspace_snapshot_fields @ [''workspace_snapshot_digest''])"
    unfolding workspace_snapshot_to_dict_def exact_keys_py_dict by (simp add: workspace_snapshot_fields_def)
  moreover have "getitem (workspace_snapshot_to_dict x) ''workspace_snapshot_digest'' =
      Inr (PStr (ws_workspace_snapshot_digest x))"
    unfolding workspace_snapshot_to_dict_def by (simp add: py_simps cong: literal_congs)
  ultimately show ?thesis by (simp add: workspace_snapshot_from_dict_def py_eq_str_def)
qed

interpretation workspace_snapshot: stable_codec workspace_snapshot_from_dict workspace_snapshot_to_dict
  by unfold_locales (rule workspace_snapshot_reparsed [OF workspace_snapshot_parsed])

section \<open>Attestations\<close>

record attestation_request =
  ar_task_id :: string
  ar_run_id :: string
  ar_repository_id :: string
  ar_packet_digest :: string
  ar_workspace_handle :: string
  ar_producer_sequence :: int
  ar_fence :: int
  ar_author_role :: string
  ar_artifact_class :: string
  ar_path :: string
  ar_sha256 :: string
  ar_size_bytes :: int
  ar_media_type :: string

definition attestation_request_fields :: "string list" where
  "attestation_request_fields =
     [''task_id'', ''run_id'', ''repository_id'', ''packet_digest'', ''workspace_handle'',
      ''producer_sequence'', ''fence'', ''author_role'', ''artifact_class'', ''path'', ''sha256'',
      ''size_bytes'', ''media_type'']"

definition attestation_request_from_facts :: "(string \<Rightarrow> bool) \<Rightarrow> pyval \<Rightarrow> attestation_request res" where
  "attestation_request_from_facts word data =
     bnd (ensure (exact_keys data attestation_request_fields) (WorkspaceError ''artifact_attestation_fields'' [])) (\<lambda>_.
     bnd (field data ''task_id'' (\<lambda>v. ws_string ID_match v ''artifact_attestation_identity'')) (\<lambda>task_id.
     bnd (field data ''run_id'' (\<lambda>v. ws_string ID_match v ''artifact_attestation_identity'')) (\<lambda>run_id.
     bnd (field data ''repository_id'' (\<lambda>v. ws_string ID_match v ''artifact_attestation_identity'')) (\<lambda>repository.
     bnd (field data ''packet_digest'' (\<lambda>v. ws_string (hex_string 64) v ''artifact_attestation_packet'')) (\<lambda>packet.
     bnd (field data ''workspace_handle'' (\<lambda>v. ws_string WORKSPACE_match v ''artifact_attestation_workspace'')) (\<lambda>workspace.
     bnd (field data ''producer_sequence'' (\<lambda>v. ws_integer 1 100000 v ''artifact_attestation_sequence'')) (\<lambda>producer.
     bnd (field data ''fence'' (\<lambda>v. ws_integer 1 (2 ^ 63 - 1) v ''artifact_attestation_fence'')) (\<lambda>fence.
     bnd (getitem data ''author_role'') (\<lambda>role.
     bnd (ensure (py_eq_str role ''writer'') (WorkspaceError ''artifact_attestation_role'' [])) (\<lambda>_.
     bnd (field data ''artifact_class'' (\<lambda>v. ws_string ID_match v ''artifact_attestation_class'')) (\<lambda>cls.
     bnd (field data ''path'' (\<lambda>v. ws_string (artifact_path word) v ''artifact_attestation_path'')) (\<lambda>path.
     bnd (field data ''sha256'' (\<lambda>v. ws_string (hex_string 64) v ''artifact_attestation_digest'')) (\<lambda>digest.
     bnd (field data ''size_bytes'' (\<lambda>v. ws_integer 0 1000000000 v ''artifact_attestation_size'')) (\<lambda>size.
     bnd (field data ''media_type'' (\<lambda>v. ws_string MEDIA_TYPE_match v ''artifact_attestation_media'')) (\<lambda>media.
     Inr \<lparr>ar_task_id = task_id, ar_run_id = run_id, ar_repository_id = repository,
          ar_packet_digest = packet, ar_workspace_handle = workspace, ar_producer_sequence = producer,
          ar_fence = fence, ar_author_role = ''writer'', ar_artifact_class = cls, ar_path = path,
          ar_sha256 = digest, ar_size_bytes = size, ar_media_type = media\<rparr>)))))))))))))))"

text \<open>\<open>to_dict\<close>, as the list of items that \<open>**\<close> splices into another dictionary.\<close>

definition attestation_request_items :: "attestation_request \<Rightarrow> (string \<times> pyval) list" where
  "attestation_request_items x =
     [(''task_id'', PStr (ar_task_id x)), (''run_id'', PStr (ar_run_id x)),
      (''repository_id'', PStr (ar_repository_id x)), (''packet_digest'', PStr (ar_packet_digest x)),
      (''workspace_handle'', PStr (ar_workspace_handle x)),
      (''producer_sequence'', PInt (ar_producer_sequence x)), (''fence'', PInt (ar_fence x)),
      (''author_role'', PStr (ar_author_role x)), (''artifact_class'', PStr (ar_artifact_class x)),
      (''path'', PStr (ar_path x)), (''sha256'', PStr (ar_sha256 x)),
      (''size_bytes'', PInt (ar_size_bytes x)), (''media_type'', PStr (ar_media_type x))]"

definition request_digest :: "attestation_request \<Rightarrow> string" where
  "request_digest x = canonical_digest (py_dict
     ((''contract'', PStr ''adaptive-factory.artifact-attestation-request/v1'') # attestation_request_items x))"

text \<open>
  \<open>ArtifactAttestationV1\<close> has the fields of its request, its version and source, and its digest; the model
  keeps the request as one field.
\<close>

record attestation =
  aa_contract_version :: int
  aa_request :: attestation_request
  aa_source :: string
  aa_artifact_attestation_digest :: string

definition attestation_fields :: "string list" where
  "attestation_fields = ''contract_version'' # attestation_request_fields @ [''source'']"

definition attestation_items :: "attestation \<Rightarrow> (string \<times> pyval) list" where
  "attestation_items x =
     (''contract_version'', PInt (aa_contract_version x)) # attestation_request_items (aa_request x) @
     [(''source'', PStr (aa_source x))]"

definition attestation_digest_of :: "attestation \<Rightarrow> string" where
  "attestation_digest_of x = canonical_digest (py_dict
     ((''contract'', PStr ''adaptive-factory.artifact-attestation/v1'') # attestation_items x))"

definition seal_attestation :: "attestation \<Rightarrow> attestation" where
  "seal_attestation x = x\<lparr>aa_artifact_attestation_digest := attestation_digest_of x\<rparr>"

definition attestation_from_facts :: "(string \<Rightarrow> bool) \<Rightarrow> pyval \<Rightarrow> attestation res" where
  "attestation_from_facts word data =
     bnd (ensure (exact_keys data attestation_fields) (WorkspaceError ''artifact_attestation_fields'' [])) (\<lambda>_.
     bnd (getitem data ''contract_version'') (\<lambda>version.
     bnd (getitem data ''source'') (\<lambda>source.
     bnd (ensure (version = PInt 1 \<and> py_eq_str source ''trusted_workspace_broker'')
       (WorkspaceError ''artifact_attestation_source'' [])) (\<lambda>_.
     bnd (dict_restrict data attestation_request_fields) (\<lambda>facts.
     bnd (attestation_request_from_facts word facts) (\<lambda>request.
     Inr (seal_attestation \<lparr>aa_contract_version = 1, aa_request = request, aa_source = ''trusted_workspace_broker'',
            aa_artifact_attestation_digest = []\<rparr>)))))))"

definition attestation_from_dict :: "(string \<Rightarrow> bool) \<Rightarrow> pyval \<Rightarrow> attestation res" where
  "attestation_from_dict word data =
     bnd (ensure (exact_keys data (attestation_fields @ [''artifact_attestation_digest'']))
       (WorkspaceError ''artifact_attestation_fields'' [])) (\<lambda>_.
     bnd (dict_restrict data attestation_fields) (\<lambda>facts.
     bnd (attestation_from_facts word facts) (\<lambda>result.
     bnd (getitem data ''artifact_attestation_digest'') (\<lambda>supplied.
     bnd (ensure (py_eq_str supplied (aa_artifact_attestation_digest result))
       (WorkspaceError ''artifact_attestation_digest_mismatch'' [])) (\<lambda>_.
     Inr result)))))"

definition attestation_to_dict :: "attestation \<Rightarrow> pyval" where
  "attestation_to_dict x = py_dict
     (attestation_items x @ [(''artifact_attestation_digest'', PStr (aa_artifact_attestation_digest x))])"

definition attestation_request_ok :: "(string \<Rightarrow> bool) \<Rightarrow> attestation_request \<Rightarrow> bool" where
  "attestation_request_ok word x =
     (ID_match (ar_task_id x) \<and> ID_match (ar_run_id x) \<and> ID_match (ar_repository_id x) \<and>
      hex_string 64 (ar_packet_digest x) \<and> WORKSPACE_match (ar_workspace_handle x) \<and>
      1 \<le> ar_producer_sequence x \<and> ar_producer_sequence x \<le> 100000 \<and>
      1 \<le> ar_fence x \<and> ar_fence x \<le> 2 ^ 63 - 1 \<and> ar_author_role x = ''writer'' \<and>
      ID_match (ar_artifact_class x) \<and> artifact_path word (ar_path x) \<and> hex_string 64 (ar_sha256 x) \<and>
      0 \<le> ar_size_bytes x \<and> ar_size_bytes x \<le> 1000000000 \<and> MEDIA_TYPE_match (ar_media_type x))"

definition attestation_ok :: "(string \<Rightarrow> bool) \<Rightarrow> attestation \<Rightarrow> bool" where
  "attestation_ok word x =
     (aa_contract_version x = 1 \<and> aa_source x = ''trusted_workspace_broker'' \<and>
      attestation_request_ok word (aa_request x) \<and> aa_artifact_attestation_digest x = attestation_digest_of x)"

lemma attestation_request_parsed:
  assumes "attestation_request_from_facts word d = Inr x"
  shows "attestation_request_ok word x"
  using assms unfolding attestation_request_from_facts_def attestation_request_ok_def
  by (elim bnd_InrE, simp only: res_simps sum.inject, elim exE conjE) (hypsubst, simp)

lemma attestation_facts_ok:
  assumes "attestation_from_facts word d = Inr x"
  shows "attestation_ok word x"
  using assms unfolding attestation_from_facts_def
  by (elim bnd_InrE) (auto simp: attestation_ok_def seal_attestation_def attestation_digest_of_def attestation_items_def
      dest: attestation_request_parsed)

lemma attestation_parsed: "attestation_from_dict word d = Inr x \<Longrightarrow> attestation_ok word x"
  unfolding attestation_from_dict_def by (elim bnd_InrE) (auto dest: attestation_facts_ok)

lemma attestation_request_rebuilt:
  assumes "attestation_request_ok word x"
  shows "attestation_request_from_facts word (py_dict (attestation_request_items x)) = Inr x"
proof -
  note ok = assms [unfolded attestation_request_ok_def]
  have eta: "\<lparr>ar_task_id = ar_task_id x, ar_run_id = ar_run_id x, ar_repository_id = ar_repository_id x,
       ar_packet_digest = ar_packet_digest x, ar_workspace_handle = ar_workspace_handle x,
       ar_producer_sequence = ar_producer_sequence x, ar_fence = ar_fence x, ar_author_role = ''writer'',
       ar_artifact_class = ar_artifact_class x, ar_path = ar_path x, ar_sha256 = ar_sha256 x,
       ar_size_bytes = ar_size_bytes x, ar_media_type = ar_media_type x\<rparr> = x"
    using ok by (cases x) simp
  show ?thesis
    unfolding attestation_request_from_facts_def attestation_request_items_def
    using ok by (simp add: attestation_request_fields_def res_simps py_simps py_eq_str_def ws_string_def ws_integer_def
        eta cong: literal_congs)
qed

lemma attestation_item_keys:
  "map fst (attestation_request_items x) = attestation_request_fields"
  "map fst (attestation_items a) = attestation_fields"
  by (simp_all add: attestation_items_def attestation_request_items_def attestation_fields_def
      attestation_request_fields_def)

lemma assoc_in: "distinct (map fst kvs) \<Longrightarrow> (k, v) \<in> set kvs \<Longrightarrow> assoc kvs k = Some v"
  by (induction kvs) (force simp: assoc.simps)+

text \<open>\<open>{name: data[name] for name in names}\<close> of a dictionary that starts with those items gives them back.\<close>

lemma dict_restrict_items:
  assumes "distinct (map fst kvs)" "set items \<subseteq> set kvs"
  shows "dict_restrict (py_dict kvs) (map fst items) = Inr (py_dict items)"
proof -
  have "map (\<lambda>k. (k, the (assoc kvs k))) (map fst items) = items"
    using assms by (auto simp: assoc_in subset_iff intro!: nth_equalityI) (metis assoc_in nth_mem option.sel prod.collapse)
  moreover have "set (map fst items) \<subseteq> fst ` set kvs" using assms(2) by auto
  ultimately show ?thesis by (simp add: dict_restrict_py_dict)
qed

lemma attestation_reparsed:
  assumes "attestation_ok word x"
  shows "attestation_from_dict word (attestation_to_dict x) = Inr x"
proof -
  note ok = assms [unfolded attestation_ok_def]
  have sealed: "seal_attestation \<lparr>aa_contract_version = 1, aa_request = aa_request x,
      aa_source = ''trusted_workspace_broker'', aa_artifact_attestation_digest = []\<rparr> = x"
    using ok by (cases x) (simp add: seal_attestation_def attestation_digest_of_def attestation_items_def)
  have distinct: "distinct (attestation_fields @ [''artifact_attestation_digest''])"
    by (simp add: attestation_fields_def attestation_request_fields_def)
  let ?all = "attestation_items x @ [(''artifact_attestation_digest'', PStr (aa_artifact_attestation_digest x))]"
  have keys: "map fst ?all = attestation_fields @ [''artifact_attestation_digest'']"
    by (simp add: attestation_item_keys)
  have sub: "set (attestation_items x) \<subseteq> set ?all"
    "set (attestation_request_items (aa_request x)) \<subseteq> set (attestation_items x)"
    by (auto simp: attestation_items_def)
  have dist: "distinct (map fst ?all)" "distinct (map fst (attestation_items x))"
    using distinct by (simp_all only: keys attestation_item_keys distinct_append)
  have outer: "dict_restrict (attestation_to_dict x) attestation_fields = Inr (py_dict (attestation_items x))"
    using dict_restrict_items [OF dist(1) sub(1)] by (simp only: attestation_to_dict_def attestation_item_keys)
  have inner: "dict_restrict (py_dict (attestation_items x)) attestation_request_fields =
      Inr (py_dict (attestation_request_items (aa_request x)))"
    using dict_restrict_items [OF dist(2) sub(2)] by (simp only: attestation_item_keys)
  have item: "getitem (attestation_to_dict x) ''artifact_attestation_digest'' =
      Inr (PStr (aa_artifact_attestation_digest x))"
    unfolding attestation_to_dict_def getitem_py_dict
    by (subst assoc_in [OF dist(1)]) simp_all
  have "exact_keys (py_dict (attestation_items x)) attestation_fields"
    "exact_keys (attestation_to_dict x) (attestation_fields @ [''artifact_attestation_digest''])"
    unfolding attestation_to_dict_def exact_keys_py_dict
    by (simp_all only: set_map [symmetric] keys attestation_item_keys)
  moreover have "getitem (py_dict (attestation_items x)) ''contract_version'' = Inr (PInt 1)"
    "getitem (py_dict (attestation_items x)) ''source'' = Inr (PStr ''trusted_workspace_broker'')"
    unfolding getitem_py_dict
    by (subst assoc_in [OF dist(2)]; use ok in \<open>simp add: attestation_items_def\<close>)+
  ultimately show ?thesis
    using ok sealed attestation_request_rebuilt [of word "aa_request x"]
    by (simp add: attestation_from_dict_def attestation_from_facts_def outer inner item py_eq_str_def)
qed

interpretation attestation: stable_codec "attestation_from_dict word" attestation_to_dict
  by unfold_locales (rule attestation_reparsed [OF attestation_parsed])

end
