(* ===== verification/Pricing.thy ===== *)
theory Pricing
  imports Contracts
begin

text \<open>
  \<open>pricing.py\<close>: normalized usage buckets, the closed price table and the cost in micro-USD, every
  integer bounded by a signed 64-bit database column.  A usage or table object exists only after
  its \<open>__post_init__\<close> accepted it, which \<open>usage_post_init\<close> and \<open>price_table_post_init\<close> are.
\<close>

definition MICRO :: int where "MICRO = 1000000"

definition MAX_SIGNED_BIGINT :: int where "MAX_SIGNED_BIGINT = 2 ^ 63 - 1"

definition price_table_fields :: "string list" where
  "price_table_fields =
     [''schema_version'', ''input_usd_micros_per_million'', ''output_usd_micros_per_million'',
      ''reasoning_usd_micros_per_million'', ''cached_input_usd_micros_per_million'',
      ''cache_write_usd_micros_per_million'']"

definition nonnegative_bigint :: "pyval \<Rightarrow> string \<Rightarrow> int res" where
  "nonnegative_bigint value name =
     (case value of
        PInt n \<Rightarrow>
          (if n < 0 then Inl (PricingContractError ''invalid_nonnegative_integer'' name)
           else if MAX_SIGNED_BIGINT < n then Inl (PricingContractError ''integer_overflow'' name)
           else Inr n)
      | _ \<Rightarrow> Inl (PricingContractError ''invalid_nonnegative_integer'' name))"

section \<open>Usage\<close>

record usage_tokens =
  ut_input_tokens :: int
  ut_output_tokens :: int
  ut_reasoning_tokens :: int
  ut_cached_input_tokens :: int
  ut_cache_write_tokens :: int

definition usage_values :: "usage_tokens \<Rightarrow> int list" where
  "usage_values u =
     [ut_input_tokens u, ut_output_tokens u, ut_reasoning_tokens u, ut_cached_input_tokens u,
      ut_cache_write_tokens u]"

definition total_tokens :: "usage_tokens \<Rightarrow> int" where
  "total_tokens u = sum_list (usage_values u)"

definition usage_post_init :: "usage_tokens \<Rightarrow> unit res" where
  "usage_post_init u =
     checks
       [void (nonnegative_bigint (PInt (ut_input_tokens u)) ''input_tokens''),
        void (nonnegative_bigint (PInt (ut_output_tokens u)) ''output_tokens''),
        void (nonnegative_bigint (PInt (ut_reasoning_tokens u)) ''reasoning_tokens''),
        void (nonnegative_bigint (PInt (ut_cached_input_tokens u)) ''cached_input_tokens''),
        void (nonnegative_bigint (PInt (ut_cache_write_tokens u)) ''cache_write_tokens''),
        ensure (total_tokens u \<le> MAX_SIGNED_BIGINT) (PricingContractError ''integer_overflow'' ''total_tokens'')]"

section \<open>The price table\<close>

record price_table =
  pt_schema_version :: int
  pt_input :: int
  pt_output :: int
  pt_reasoning :: int
  pt_cached_input :: int
  pt_cache_write :: int

definition price_rates :: "price_table \<Rightarrow> int list" where
  "price_rates t = [pt_input t, pt_output t, pt_reasoning t, pt_cached_input t, pt_cache_write t]"

definition price_table_to_dict :: "price_table \<Rightarrow> pyval" where
  "price_table_to_dict t = py_dict
     [(''schema_version'', PInt (pt_schema_version t)),
      (''input_usd_micros_per_million'', PInt (pt_input t)),
      (''output_usd_micros_per_million'', PInt (pt_output t)),
      (''reasoning_usd_micros_per_million'', PInt (pt_reasoning t)),
      (''cached_input_usd_micros_per_million'', PInt (pt_cached_input t)),
      (''cache_write_usd_micros_per_million'', PInt (pt_cache_write t))]"

definition price_table_post_init :: "price_table \<Rightarrow> unit res" where
  "price_table_post_init t =
     checks
       [ensure (pt_schema_version t = 1) (PricingContractError ''unsupported_price_table_schema'' []),
        void (nonnegative_bigint (PInt (pt_input t)) ''input_usd_micros_per_million''),
        void (nonnegative_bigint (PInt (pt_output t)) ''output_usd_micros_per_million''),
        void (nonnegative_bigint (PInt (pt_reasoning t)) ''reasoning_usd_micros_per_million''),
        void (nonnegative_bigint (PInt (pt_cached_input t)) ''cached_input_usd_micros_per_million''),
        void (nonnegative_bigint (PInt (pt_cache_write t)) ''cache_write_usd_micros_per_million'')]"

text \<open>The field checks on untyped values, as \<open>cls(**dict(value))\<close> meets them.\<close>

definition schema_field :: "pyval \<Rightarrow> int res" where
  "schema_field v = (if v = PInt 1 then Inr 1 else Inl (PricingContractError ''unsupported_price_table_schema'' []))"

definition price_table_from_dict :: "pyval \<Rightarrow> price_table res" where
  "price_table_from_dict value =
     bnd (ensure (is_mapping value) (PricingContractError ''invalid_price_table'' [])) (\<lambda>_.
     bnd (set_items value) (\<lambda>keys.
     let unknown = filter (\<lambda>k. k \<notin> PStr ` set price_table_fields) keys;
         missing = filter (\<lambda>f. PStr f \<notin> set keys) price_table_fields
     in if unknown \<noteq> []
        then (if list_all is_str unknown
              then Inl (PricingContractError ''unknown_price_table_fields'' (join '','' (usort (map str_of unknown))))
              else Inl TypeError)
        else if missing \<noteq> []
        then Inl (PricingContractError ''missing_price_table_fields'' (join '','' (usort missing)))
        else
          bnd (field value ''schema_version'' schema_field) (\<lambda>schema.
          bnd (field value ''input_usd_micros_per_million'' (\<lambda>v. nonnegative_bigint v ''input_usd_micros_per_million'')) (\<lambda>i.
          bnd (field value ''output_usd_micros_per_million'' (\<lambda>v. nonnegative_bigint v ''output_usd_micros_per_million'')) (\<lambda>out.
          bnd (field value ''reasoning_usd_micros_per_million'' (\<lambda>v. nonnegative_bigint v ''reasoning_usd_micros_per_million'')) (\<lambda>r.
          bnd (field value ''cached_input_usd_micros_per_million'' (\<lambda>v. nonnegative_bigint v ''cached_input_usd_micros_per_million'')) (\<lambda>c.
          bnd (field value ''cache_write_usd_micros_per_million'' (\<lambda>v. nonnegative_bigint v ''cache_write_usd_micros_per_million'')) (\<lambda>w.
          Inr \<lparr>pt_schema_version = schema, pt_input = i, pt_output = out, pt_reasoning = r,
               pt_cached_input = c, pt_cache_write = w\<rparr>))))))))"

definition price_table_digest :: "price_table \<Rightarrow> string" where
  "price_table_digest t = canonical_digest (price_table_to_dict t)"

section \<open>Cost\<close>

definition bucket_cost :: "int \<Rightarrow> int \<Rightarrow> int" where
  "bucket_cost tokens rate = tokens * rate div MICRO"

definition raw_cost :: "usage_tokens \<Rightarrow> price_table \<Rightarrow> int" where
  "raw_cost usage table = sum_list (map2 bucket_cost (usage_values usage) (price_rates table))"

definition calculate_cost_usd_micros :: "usage_tokens \<Rightarrow> price_table \<Rightarrow> pyval \<Rightarrow> int res" where
  "calculate_cost_usd_micros usage table supplied_price_table_digest =
     bnd (ensure (supplied_price_table_digest = PStr (price_table_digest table))
            (PricingContractError ''price_table_digest_mismatch'' [])) (\<lambda>_.
     (let cost = raw_cost usage table
      in if MAX_SIGNED_BIGINT < cost then Inl (PricingContractError ''integer_overflow'' ''cost_usd_micros'')
         else Inr cost))"

section \<open>Lemmas\<close>

lemma nonnegative_bigint_Inr [res_simps]:
  "nonnegative_bigint v name = Inr n \<longleftrightarrow> v = PInt n \<and> 0 \<le> n \<and> n \<le> MAX_SIGNED_BIGINT"
  by (auto simp: nonnegative_bigint_def split: pyval.splits)

interpretation price_table: checked_codec price_table_from_dict price_table_to_dict price_table_post_init
proof
  fix d x assume "price_table_from_dict d = Inr x"
  then show "price_table_post_init x = Inr ()"
    by (auto simp: price_table_from_dict_def price_table_post_init_def schema_field_def res_simps Let_def
        split: if_splits)
next
  fix x assume "price_table_post_init x = Inr ()"
  then show "price_table_from_dict (price_table_to_dict x) = Inr x"
    by (auto simp: price_table_from_dict_def price_table_post_init_def price_table_to_dict_def
        schema_field_def price_table_fields_def res_simps py_simps Let_def)
qed

text \<open>What exact pricing would charge, in millionths of a micro-USD.\<close>

definition exact_cost :: "usage_tokens \<Rightarrow> price_table \<Rightarrow> int" where
  "exact_cost usage table = sum_list (map2 (*) (usage_values usage) (price_rates table))"

lemma bucket_cost_bounds:
  "bucket_cost n r * MICRO \<le> n * r" "n * r < bucket_cost n r * MICRO + MICRO"
  by (simp_all add: bucket_cost_def MICRO_def)

lemma raw_cost_bounds:
  "raw_cost u t * MICRO \<le> exact_cost u t" "exact_cost u t < raw_cost u t * MICRO + 5 * MICRO"
proof -
  note b = bucket_cost_bounds [of "ut_input_tokens u" "pt_input t"]
    bucket_cost_bounds [of "ut_output_tokens u" "pt_output t"]
    bucket_cost_bounds [of "ut_reasoning_tokens u" "pt_reasoning t"]
    bucket_cost_bounds [of "ut_cached_input_tokens u" "pt_cached_input t"]
    bucket_cost_bounds [of "ut_cache_write_tokens u" "pt_cache_write t"]
  show "raw_cost u t * MICRO \<le> exact_cost u t" "exact_cost u t < raw_cost u t * MICRO + 5 * MICRO"
    using b unfolding raw_cost_def exact_cost_def usage_values_def price_rates_def
    by (simp_all add: distrib_right)
qed

lemma bucket_cost_mono: "0 \<le> r \<Longrightarrow> m \<le> n \<Longrightarrow> bucket_cost m r \<le> bucket_cost n r"
  by (simp add: bucket_cost_def MICRO_def mult_right_mono zdiv_mono1)

section \<open>Properties\<close>

text \<open>
  C40: the cost charged is never above the exact price of the usage and less than five micro-USD
  below it (each of the five buckets is floored on its own), and it fits a signed 64-bit integer.
\<close>

theorem cost_within_exact:
  assumes "calculate_cost_usd_micros usage table digest = Inr cost"
  shows "cost * MICRO \<le> exact_cost usage table \<and> exact_cost usage table < (cost + 5) * MICRO \<and>
         cost < 2 ^ 63"
  using assms raw_cost_bounds [of usage table]
  by (auto simp: calculate_cost_usd_micros_def res_simps Let_def MAX_SIGNED_BIGINT_def distrib_right
      split: if_splits)

definition demo_usage :: usage_tokens where
  "demo_usage =
     \<lparr>ut_input_tokens = 1500000, ut_output_tokens = 999999, ut_reasoning_tokens = 0,
      ut_cached_input_tokens = 7, ut_cache_write_tokens = 0\<rparr>"

definition demo_table :: price_table where
  "demo_table =
     \<lparr>pt_schema_version = 1, pt_input = 3, pt_output = 15, pt_reasoning = 15, pt_cached_input = 1,
      pt_cache_write = 4\<rparr>"

lemma demo_cost:
  "calculate_cost_usd_micros demo_usage demo_table (PStr (price_table_digest demo_table)) = Inr 18"
  by (simp add: calculate_cost_usd_micros_def raw_cost_def usage_values_def price_rates_def bucket_cost_def
      demo_usage_def demo_table_def MICRO_def MAX_SIGNED_BIGINT_def)

theorem cost_within_exact_witness:
  "18 * MICRO \<le> exact_cost demo_usage demo_table \<and> exact_cost demo_usage demo_table < (18 + 5) * MICRO \<and>
   (18::int) < 2 ^ 63"
  by (rule cost_within_exact [OF demo_cost])

text \<open>
  pricing needs the digest of the very table it is given, and then more tokens in any bucket
  never cost less: for a table that passed its check, usage that grows bucket by bucket has a
  cost that grows, or overflows.
\<close>

theorem cost_monotone:
  assumes "price_table_post_init table = Inr ()"
    and "list_all2 (\<le>) (usage_values u) (usage_values v)"
    and "calculate_cost_usd_micros v table digest = Inr cost"
  shows "\<exists>cost'. calculate_cost_usd_micros u table digest = Inr cost' \<and> cost' \<le> cost"
proof -
  have "raw_cost u table \<le> raw_cost v table"
    using assms(1,2) unfolding raw_cost_def usage_values_def price_rates_def price_table_post_init_def
    by (auto simp: res_simps intro!: add_mono bucket_cost_mono)
  then show ?thesis
    using assms(3) by (auto simp: calculate_cost_usd_micros_def res_simps Let_def split: if_splits)
qed

theorem cost_monotone_witness:
  "\<exists>cost'. calculate_cost_usd_micros (demo_usage\<lparr>ut_input_tokens := 0\<rparr>) demo_table
     (PStr (price_table_digest demo_table)) = Inr cost' \<and> cost' \<le> 18"
  by (rule cost_monotone [OF _ _ demo_cost])
    (simp_all add: price_table_post_init_def demo_table_def demo_usage_def usage_values_def res_simps
      MAX_SIGNED_BIGINT_def)

end
