(* ===== verification/Proposals.thy ===== *)
theory Proposals
  imports Workspace Pricing
begin

text \<open>
  \<open>brokers.py\<close>, the proposals: what the proposal broker hands to the control plane after it has checked an
  event, each named by an idempotency key over its contents.  The broker's own checks and its redaction of
  texts are in \<open>Broker\<close> and \<open>Redaction\<close>.  Field prefixes: \<open>np_\<close> note, \<open>ap_\<close> artifact, \<open>up_\<close> usage, \<open>uq_\<close> usage in version 2,
  \<open>tm_\<close> terminal.

  A proposal is an ordinary object, so a text in it may hold a lone surrogate, and then the key raises
  \<open>UnicodeEncodeError\<close>.
\<close>

section \<open>The proposals\<close>

record note_proposal =
  np_task_id :: string
  np_run_id :: string
  np_packet_digest :: string
  np_fence :: int
  np_sequence :: int
  np_author_role :: string
  np_note_type :: string
  np_body :: string
  np_evidence :: "string list"
  np_idempotency_key :: string

record artifact_proposal =
  ap_task_id :: string
  ap_run_id :: string
  ap_packet_digest :: string
  ap_fence :: int
  ap_sequence :: int
  ap_author_role :: string
  ap_artifact_class :: string
  ap_path :: string
  ap_sha256 :: string
  ap_size_bytes :: int
  ap_media_type :: string
  ap_artifact_attestation_digest :: string
  ap_idempotency_key :: string

record usage_proposal =
  up_task_id :: string
  up_run_id :: string
  up_packet_digest :: string
  up_fence :: int
  up_sequence :: int
  up_author_role :: string
  up_provider_call_id :: string
  up_price_table_digest :: string
  up_input_tokens :: int
  up_output_tokens :: int
  up_reasoning_tokens :: int
  up_cost_usd_micros :: int
  up_output_bytes :: int
  up_idempotency_key :: string

record usage_proposal_v2 =
  uq_task_id :: string
  uq_run_id :: string
  uq_packet_digest :: string
  uq_fence :: int
  uq_sequence :: int
  uq_author_role :: string
  uq_provider_call_id :: string
  uq_price_table :: price_table
  uq_price_table_digest :: string
  uq_input_tokens :: int
  uq_output_tokens :: int
  uq_reasoning_tokens :: int
  uq_cached_input_tokens :: int
  uq_cache_write_tokens :: int
  uq_cost_usd_micros :: int
  uq_output_bytes :: int
  uq_idempotency_key :: string

record terminal_proposal =
  tm_task_id :: string
  tm_run_id :: string
  tm_packet_digest :: string
  tm_fence :: int
  tm_sequence :: int
  tm_author_role :: string
  tm_terminal_type :: string
  tm_summary :: string
  tm_failure_class :: "string option"
  tm_reason :: "string option"
  tm_diagnostic :: "string option"
  tm_idempotency_key :: string

datatype proposal =
    Note note_proposal
  | Artifact artifact_proposal
  | Usage usage_proposal
  | Usage_v2 usage_proposal_v2
  | Terminal terminal_proposal

definition up_total_tokens :: "usage_proposal \<Rightarrow> int" where
  "up_total_tokens x = up_input_tokens x + up_output_tokens x + up_reasoning_tokens x"

definition uq_total_tokens :: "usage_proposal_v2 \<Rightarrow> int" where
  "uq_total_tokens x = uq_input_tokens x + uq_output_tokens x + uq_reasoning_tokens x +
     uq_cached_input_tokens x + uq_cache_write_tokens x"

section \<open>Their idempotency key\<close>

text \<open>\<open>canonical_digest\<close> of a value whose texts nobody has checked.\<close>

fun encodable :: "pyval \<Rightarrow> bool" where
  "encodable (PStr s) = (\<not> has_surrogate s)"
| "encodable (PList xs) = list_all encodable xs"
| "encodable (PDict kvs) = list_all (\<lambda>(k, v). encodable k \<and> encodable v) kvs"
| "encodable v = True"

definition unchecked_digest :: "pyval \<Rightarrow> string res" where
  "unchecked_digest v = (if encodable v then Inr (canonical_digest v) else Inl UnicodeEncodeError)"

definition proposal_key ::
  "string \<Rightarrow> string \<Rightarrow> string \<Rightarrow> int \<Rightarrow> string \<Rightarrow> int \<Rightarrow> string \<Rightarrow> (string \<times> pyval) list \<Rightarrow> string res" where
  "proposal_key task_id run_id packet_digest fence author_role sequence event_type body =
     unchecked_digest (py_dict
       [(''contract'', PStr ''adaptive-factory.execution-proposal/v1''), (''task_id'', PStr task_id),
        (''run_id'', PStr run_id), (''packet_digest'', PStr packet_digest), (''fence'', PInt fence),
        (''author_role'', PStr author_role), (''sequence'', PInt sequence), (''event_type'', PStr event_type),
        (''body'', py_dict body)])"

fun proposal_idempotency_key :: "proposal \<Rightarrow> string res" where
  "proposal_idempotency_key (Note x) =
     proposal_key (np_task_id x) (np_run_id x) (np_packet_digest x) (np_fence x) (np_author_role x) (np_sequence x) ''note.proposed''
       [(''note_type'', PStr (np_note_type x)), (''body'', PStr (np_body x)),
        (''evidence'', PList (map PStr (np_evidence x)))]"
| "proposal_idempotency_key (Artifact x) =
     proposal_key (ap_task_id x) (ap_run_id x) (ap_packet_digest x) (ap_fence x) (ap_author_role x) (ap_sequence x) ''artifact.proposed''
       [(''artifact_class'', PStr (ap_artifact_class x)), (''path'', PStr (ap_path x)),
        (''sha256'', PStr (ap_sha256 x)), (''size_bytes'', PInt (ap_size_bytes x)),
        (''media_type'', PStr (ap_media_type x)), (''author_role'', PStr (ap_author_role x)),
        (''artifact_attestation_digest'', PStr (ap_artifact_attestation_digest x))]"
| "proposal_idempotency_key (Usage_v2 x) =
     proposal_key (uq_task_id x) (uq_run_id x) (uq_packet_digest x) (uq_fence x) (uq_author_role x) (uq_sequence x) ''usage.reported''
       [(''provider_call_id'', PStr (uq_provider_call_id x)),
        (''price_table'', price_table_to_dict (uq_price_table x)),
        (''price_table_digest'', PStr (uq_price_table_digest x)),
        (''input_tokens'', PInt (uq_input_tokens x)), (''output_tokens'', PInt (uq_output_tokens x)),
        (''reasoning_tokens'', PInt (uq_reasoning_tokens x)),
        (''cached_input_tokens'', PInt (uq_cached_input_tokens x)),
        (''cache_write_tokens'', PInt (uq_cache_write_tokens x)),
        (''cost_usd_micros'', PInt (uq_cost_usd_micros x)), (''output_bytes'', PInt (uq_output_bytes x)),
        (''author_role'', PStr (uq_author_role x))]"
| "proposal_idempotency_key (Usage x) =
     proposal_key (up_task_id x) (up_run_id x) (up_packet_digest x) (up_fence x) (up_author_role x) (up_sequence x) ''usage.reported''
       [(''provider_call_id'', PStr (up_provider_call_id x)),
        (''price_table_digest'', PStr (up_price_table_digest x)),
        (''input_tokens'', PInt (up_input_tokens x)), (''output_tokens'', PInt (up_output_tokens x)),
        (''reasoning_tokens'', PInt (up_reasoning_tokens x)),
        (''cost_usd_micros'', PInt (up_cost_usd_micros x)), (''output_bytes'', PInt (up_output_bytes x)),
        (''author_role'', PStr (up_author_role x))]"
| "proposal_idempotency_key (Terminal x) =
     proposal_key (tm_task_id x) (tm_run_id x) (tm_packet_digest x) (tm_fence x) (tm_author_role x) (tm_sequence x) (tm_terminal_type x)
       [(''terminal_type'', PStr (tm_terminal_type x)), (''author_role'', PStr (tm_author_role x)),
        (''summary'', PStr (tm_summary x)), (''failure_class'', opt_str (tm_failure_class x)),
        (''reason'', opt_str (tm_reason x)), (''diagnostic'', opt_str (tm_diagnostic x))]"

text \<open>\<open>key(proposal) == proposal.idempotency_key\<close> is what makes a proposal trustworthy: \<open>keyed\<close>.\<close>

fun own_key :: "proposal \<Rightarrow> string" where
  "own_key (Note x) = np_idempotency_key x"
| "own_key (Artifact x) = ap_idempotency_key x"
| "own_key (Usage x) = up_idempotency_key x"
| "own_key (Usage_v2 x) = uq_idempotency_key x"
| "own_key (Terminal x) = tm_idempotency_key x"

definition keyed :: "proposal \<Rightarrow> bool" where
  "keyed p = (proposal_idempotency_key p = Inr (own_key p))"

lemma unchecked_digest_Inr [res_simps]: "unchecked_digest v = Inr d \<longleftrightarrow> encodable v \<and> d = canonical_digest v"
  by (auto simp: unchecked_digest_def)

lemma keyed_hex: "keyed p \<Longrightarrow> hex_string 64 (own_key p)"
  by (cases p) (auto simp: keyed_def proposal_key_def res_simps)

lemma encodable_py_dict [simp]:
  "encodable (py_dict kvs) = list_all (\<lambda>(k, v). \<not> has_surrogate k \<and> encodable v) kvs"
  by (auto simp: py_dict_def list_all_iff)

lemma encodable_opt [simp]: "encodable (opt_str v) = pred_option (\<lambda>s. \<not> has_surrogate s) v"
  by (cases v) simp_all

end
