(* ===== verification/ExecutionBridge.thy ===== *)
theory ExecutionBridge
  imports Proposals
begin

text \<open>
  \<open>semantic_bridge.py\<close>, where M5 meets M6: from the packet, manifest, snapshot, result, terminal proposal,
  artifact proposals and attestations of one finished run, and the inputs of its validation, to the
  \<open>SemanticSubjectV1\<close> the validators review.  Whatever comes in is parsed again or has its digest computed
  again, so a modified object does not pass.  Field prefixes: \<open>sx_\<close> execution binding, \<open>si_\<close> validation inputs,
  \<open>br_\<close> result.
\<close>

section \<open>Digests\<close>

text \<open>\<open>canonical_digest({"contract": contract, **value})\<close>.\<close>

definition contract_digest :: "string \<Rightarrow> (string \<times> pyval) list \<Rightarrow> string" where
  "contract_digest contract items = canonical_digest (py_dict ((''contract'', PStr contract) # items))"

definition bridge_digests :: "pyval \<Rightarrow> string \<Rightarrow> string list res" where
  "bridge_digests values name =
     (case values of
        PList items \<Rightarrow>
          (if MAX_ITEMS < length items then Inl (ContractError name [])
           else bnd (map_res (\<lambda>v. hex_field v name HEX64) items) (\<lambda>result.
             if result \<noteq> usort result then Inl (ContractError name []) else Inr result))
      | _ \<Rightarrow> Inl (ContractError name []))"

definition bridge_workspace :: "pyval \<Rightarrow> string res" where
  "bridge_workspace value =
     (case value of
        PStr s \<Rightarrow>
          (if take 10 s \<noteq> ''workspace:'' then Inl (ContractError ''semantic_workspace_handle'' [])
           else bnd (hex_field (PStr (drop 10 s)) ''workspace_handle'' HEX64) (\<lambda>_. Inr s))
      | _ \<Rightarrow> Inl (ContractError ''semantic_workspace_handle'' []))"

definition digests_ok :: "string list \<Rightarrow> bool" where
  "digests_ok ds = (length ds \<le> MAX_ITEMS \<and> list_all (hex_string 64) ds \<and> sorted ds \<and> distinct ds)"

lemma bridge_digests_Inr [res_simps]:
  "bridge_digests v name = Inr ds \<longleftrightarrow> v = PList (map PStr ds) \<and> digests_ok ds"
proof -
  have u: "(xs = usort xs) = (sorted xs \<and> distinct xs)" for xs :: "string list" using usort_fixed_iff by metis
  show ?thesis
    by (cases v) (auto simp: bridge_digests_def digests_ok_def res_simps u split: if_splits)
qed

lemma bridge_workspace_Inr [res_simps]: "bridge_workspace v = Inr s \<longleftrightarrow> v = PStr s \<and> WORKSPACE_match s"
  by (cases v) (auto simp: bridge_workspace_def WORKSPACE_match_def res_simps)

section \<open>The execution binding\<close>

record execution_binding =
  sx_schema_version :: int
  sx_task_id :: string
  sx_run_id :: string
  sx_owner :: string
  sx_fence :: int
  sx_role :: string
  sx_repository_id :: string
  sx_workspace_handle :: string
  sx_legacy_intent_digest :: string
  sx_task_packet_digest :: string
  sx_run_manifest_digest :: string
  sx_workspace_result_digest :: string
  sx_workspace_snapshot_digest :: string
  sx_terminal_proposal_digest :: string
  sx_artifact_manifest_digest :: string
  sx_note_manifest_digest :: string
  sx_usage_evidence_digest :: string
  sx_diagnostics_digest :: string
  sx_exact_base_sha :: string
  sx_input_head_sha :: string
  sx_exact_head_sha :: string
  sx_terminal_stage :: string
  sx_m4_status :: string
  sx_failure_class :: "string option"
  sx_failure_reason :: "string option"
  sx_artifact_proposal_digests :: "string list"
  sx_artifact_attestation_digests :: "string list"

definition execution_binding_fields :: "string list" where
  "execution_binding_fields =
     [''schema_version'', ''task_id'', ''run_id'', ''owner'', ''fence'', ''role'', ''repository_id'',
      ''workspace_handle'', ''legacy_intent_digest'', ''task_packet_digest'', ''run_manifest_digest'',
      ''workspace_result_digest'', ''workspace_snapshot_digest'', ''terminal_proposal_digest'',
      ''artifact_manifest_digest'', ''note_manifest_digest'', ''usage_evidence_digest'',
      ''diagnostics_digest'', ''exact_base_sha'', ''input_head_sha'', ''exact_head_sha'',
      ''terminal_stage'', ''m4_status'', ''failure_class'', ''failure_reason'',
      ''artifact_proposal_digests'', ''artifact_attestation_digests'']"

definition execution_binding_from_dict :: "(string \<Rightarrow> string) \<Rightarrow> pyval \<Rightarrow> execution_binding res" where
  "execution_binding_from_dict nfc data =
     bnd (sem_object data ''semantic_execution_binding'') (\<lambda>_.
     bnd (closed data execution_binding_fields) (\<lambda>_.
     bnd (field data ''schema_version'' (\<lambda>v. sem_version v ''semantic_execution_binding'')) (\<lambda>_.
     bnd (getitem data ''role'') (\<lambda>role.
     bnd (ensure (py_eq_str role ''writer'') (ContractError ''semantic_writer_required'' [])) (\<lambda>_.
     bnd (getitem data ''terminal_stage'') (\<lambda>stage.
     bnd (getitem data ''m4_status'') (\<lambda>status.
     bnd (ensure (py_eq_str stage ''completed'' \<and> py_eq_str status ''ready_for_human'')
       (ContractError ''semantic_result_not_ready'' [])) (\<lambda>_.
     bnd (getitem data ''failure_class'') (\<lambda>failure.
     bnd (getitem data ''failure_reason'') (\<lambda>reason.
     bnd (ensure (failure = PNone \<and> reason = PNone) (ContractError ''semantic_result_failure_mismatch'' [])) (\<lambda>_.
     bnd (field data ''artifact_proposal_digests'' (\<lambda>v. bridge_digests v ''artifact_proposal_digests'')) (\<lambda>proposals.
     bnd (field data ''artifact_attestation_digests'' (\<lambda>v. bridge_digests v ''artifact_attestation_digests'')) (\<lambda>attestations.
     bnd (ensure (length proposals = length attestations) (ContractError ''semantic_artifact_attestation_set_mismatch'' [])) (\<lambda>_.
     bnd (field data ''task_id'' (\<lambda>v. sem_id nfc v ''task_id'')) (\<lambda>task_id.
     bnd (field data ''run_id'' (\<lambda>v. sem_id nfc v ''run_id'')) (\<lambda>run_id.
     bnd (field data ''owner'' (\<lambda>v. sem_id nfc v ''owner'')) (\<lambda>owner.
     bnd (field data ''fence'' (\<lambda>v. sem_integer v ''fence'' 1 (2 ^ 63 - 1))) (\<lambda>fence.
     bnd (field data ''repository_id'' (\<lambda>v. sem_id nfc v ''repository_id'')) (\<lambda>repository_id.
     bnd (field data ''workspace_handle'' bridge_workspace) (\<lambda>workspace.
     bnd (field data ''legacy_intent_digest'' (\<lambda>v. hex_field v ''legacy_intent_digest'' HEX64)) (\<lambda>intent.
     bnd (field data ''task_packet_digest'' (\<lambda>v. hex_field v ''task_packet_digest'' HEX64)) (\<lambda>packet.
     bnd (field data ''run_manifest_digest'' (\<lambda>v. hex_field v ''run_manifest_digest'' HEX64)) (\<lambda>manifest.
     bnd (field data ''workspace_result_digest'' (\<lambda>v. hex_field v ''workspace_result_digest'' HEX64)) (\<lambda>result.
     bnd (field data ''workspace_snapshot_digest'' (\<lambda>v. hex_field v ''workspace_snapshot_digest'' HEX64)) (\<lambda>snapshot.
     bnd (field data ''terminal_proposal_digest'' (\<lambda>v. hex_field v ''terminal_proposal_digest'' HEX64)) (\<lambda>terminal.
     bnd (field data ''artifact_manifest_digest'' (\<lambda>v. hex_field v ''artifact_manifest_digest'' HEX64)) (\<lambda>artifacts.
     bnd (field data ''note_manifest_digest'' (\<lambda>v. hex_field v ''note_manifest_digest'' HEX64)) (\<lambda>notes.
     bnd (field data ''usage_evidence_digest'' (\<lambda>v. hex_field v ''usage_evidence_digest'' HEX64)) (\<lambda>usage.
     bnd (field data ''diagnostics_digest'' (\<lambda>v. hex_field v ''diagnostics_digest'' HEX64)) (\<lambda>diagnostics.
     bnd (field data ''exact_base_sha'' (\<lambda>v. hex_field v ''exact_base_sha'' HEX40)) (\<lambda>base.
     bnd (field data ''input_head_sha'' (\<lambda>v. hex_field v ''input_head_sha'' HEX40)) (\<lambda>input_head.
     bnd (field data ''exact_head_sha'' (\<lambda>v. hex_field v ''exact_head_sha'' HEX40)) (\<lambda>head.
     Inr \<lparr>sx_schema_version = 1, sx_task_id = task_id, sx_run_id = run_id, sx_owner = owner,
          sx_fence = fence, sx_role = ''writer'', sx_repository_id = repository_id,
          sx_workspace_handle = workspace, sx_legacy_intent_digest = intent,
          sx_task_packet_digest = packet, sx_run_manifest_digest = manifest,
          sx_workspace_result_digest = result, sx_workspace_snapshot_digest = snapshot,
          sx_terminal_proposal_digest = terminal, sx_artifact_manifest_digest = artifacts,
          sx_note_manifest_digest = notes, sx_usage_evidence_digest = usage,
          sx_diagnostics_digest = diagnostics, sx_exact_base_sha = base, sx_input_head_sha = input_head,
          sx_exact_head_sha = head, sx_terminal_stage = ''completed'', sx_m4_status = ''ready_for_human'',
          sx_failure_class = None, sx_failure_reason = None, sx_artifact_proposal_digests = proposals,
          sx_artifact_attestation_digests = attestations\<rparr>)))))))))))))))))))))))))))))))))"

text \<open>The items of \<open>asdict\<close>.\<close>

definition execution_binding_items :: "execution_binding \<Rightarrow> (string \<times> pyval) list" where
  "execution_binding_items x =
     [(''schema_version'', PInt (sx_schema_version x)), (''task_id'', PStr (sx_task_id x)),
      (''run_id'', PStr (sx_run_id x)), (''owner'', PStr (sx_owner x)), (''fence'', PInt (sx_fence x)),
      (''role'', PStr (sx_role x)), (''repository_id'', PStr (sx_repository_id x)),
      (''workspace_handle'', PStr (sx_workspace_handle x)),
      (''legacy_intent_digest'', PStr (sx_legacy_intent_digest x)),
      (''task_packet_digest'', PStr (sx_task_packet_digest x)),
      (''run_manifest_digest'', PStr (sx_run_manifest_digest x)),
      (''workspace_result_digest'', PStr (sx_workspace_result_digest x)),
      (''workspace_snapshot_digest'', PStr (sx_workspace_snapshot_digest x)),
      (''terminal_proposal_digest'', PStr (sx_terminal_proposal_digest x)),
      (''artifact_manifest_digest'', PStr (sx_artifact_manifest_digest x)),
      (''note_manifest_digest'', PStr (sx_note_manifest_digest x)),
      (''usage_evidence_digest'', PStr (sx_usage_evidence_digest x)),
      (''diagnostics_digest'', PStr (sx_diagnostics_digest x)),
      (''exact_base_sha'', PStr (sx_exact_base_sha x)), (''input_head_sha'', PStr (sx_input_head_sha x)),
      (''exact_head_sha'', PStr (sx_exact_head_sha x)), (''terminal_stage'', PStr (sx_terminal_stage x)),
      (''m4_status'', PStr (sx_m4_status x)), (''failure_class'', opt_str (sx_failure_class x)),
      (''failure_reason'', opt_str (sx_failure_reason x)),
      (''artifact_proposal_digests'', PList (map PStr (sx_artifact_proposal_digests x))),
      (''artifact_attestation_digests'', PList (map PStr (sx_artifact_attestation_digests x)))]"

definition execution_binding_asdict :: "execution_binding \<Rightarrow> pyval" where
  "execution_binding_asdict x = py_dict (execution_binding_items x)"

definition execution_binding_to_dict :: "execution_binding \<Rightarrow> pyval" where
  "execution_binding_to_dict x = canonical (execution_binding_asdict x)"

definition binding_digest :: "execution_binding \<Rightarrow> string" where
  "binding_digest x = contract_digest ''adaptive-factory.semantic-execution-binding/v1'' (execution_binding_items x)"

text \<open>What a binding is, once parsed.\<close>

definition execution_binding_ok :: "(string \<Rightarrow> string) \<Rightarrow> execution_binding \<Rightarrow> bool" where
  "execution_binding_ok nfc x =
     (sx_schema_version x = 1 \<and> sx_role x = ''writer'' \<and> sx_terminal_stage x = ''completed'' \<and>
      sx_m4_status x = ''ready_for_human'' \<and> sx_failure_class x = None \<and> sx_failure_reason x = None \<and>
      digests_ok (sx_artifact_proposal_digests x) \<and> digests_ok (sx_artifact_attestation_digests x) \<and>
      length (sx_artifact_proposal_digests x) = length (sx_artifact_attestation_digests x) \<and>
      list_all (id_ok nfc) [sx_task_id x, sx_run_id x, sx_owner x, sx_repository_id x] \<and>
      1 \<le> sx_fence x \<and> sx_fence x \<le> 2 ^ 63 - 1 \<and> WORKSPACE_match (sx_workspace_handle x) \<and>
      list_all (hex_string 64)
        [sx_legacy_intent_digest x, sx_task_packet_digest x, sx_run_manifest_digest x,
         sx_workspace_result_digest x, sx_workspace_snapshot_digest x, sx_terminal_proposal_digest x,
         sx_artifact_manifest_digest x, sx_note_manifest_digest x, sx_usage_evidence_digest x,
         sx_diagnostics_digest x] \<and>
      list_all (hex_string 40) [sx_exact_base_sha x, sx_input_head_sha x, sx_exact_head_sha x])"

lemma execution_binding_parsed:
  assumes "execution_binding_from_dict nfc d = Inr x"
  shows "execution_binding_ok nfc x"
  using assms unfolding execution_binding_from_dict_def execution_binding_ok_def
  apply (elim bnd_InrE)
  apply (simp only: res_simps sum.inject hexpat_len.simps, elim exE conjE)
  apply (hypsubst, simp)
  done

lemma execution_binding_reparsed:
  assumes "execution_binding_ok nfc x"
  shows "execution_binding_from_dict nfc (execution_binding_to_dict x) = Inr x"
proof -
  note ok = assms [unfolded execution_binding_ok_def]
  show ?thesis
    unfolding execution_binding_from_dict_def execution_binding_to_dict_def execution_binding_asdict_def
      execution_binding_items_def
    using ok by (simp add: execution_binding_fields_def res_simps py_simps py_eq_str_def cong: literal_congs)
qed

interpretation execution_binding: stable_codec "execution_binding_from_dict nfc" execution_binding_to_dict
  by unfold_locales (rule execution_binding_reparsed [OF execution_binding_parsed])

section \<open>Validation inputs\<close>

record semantic_inputs =
  si_schema_version :: int
  si_workspace_result_digest :: string
  si_requirements :: "requirement_ref list"
  si_holdout_evidence_digest :: string
  si_review_evidence_digest :: string
  si_original_writer_context_digest :: string
  si_risk_level :: string
  si_diff_limit :: int

definition semantic_inputs_fields :: "string list" where
  "semantic_inputs_fields =
     [''schema_version'', ''workspace_result_digest'', ''requirements'', ''holdout_evidence_digest'',
      ''review_evidence_digest'', ''original_writer_context_digest'', ''risk_level'', ''diff_limit'']"

definition semantic_inputs_from_dict :: "(string \<Rightarrow> string) \<Rightarrow> pyval \<Rightarrow> semantic_inputs res" where
  "semantic_inputs_from_dict nfc data =
     bnd (sem_object data ''semantic_validation_inputs'') (\<lambda>_.
     bnd (closed data semantic_inputs_fields) (\<lambda>_.
     bnd (field data ''schema_version'' (\<lambda>v. sem_version v ''semantic_validation_inputs'')) (\<lambda>_.
     bnd (field data ''requirements'' (\<lambda>v. sorted_unique requirement_key v ''requirements'' (requirement_ref_from_dict nfc) False)) (\<lambda>requirements.
     bnd (field data ''risk_level'' (\<lambda>v. enum_field v SUBJECT_RISKS (ContractError ''risk_level'' []))) (\<lambda>risk.
     bnd (field data ''workspace_result_digest'' (\<lambda>v. hex_field v ''workspace_result_digest'' HEX64)) (\<lambda>result.
     bnd (field data ''holdout_evidence_digest'' (\<lambda>v. hex_field v ''holdout_evidence_digest'' HEX64)) (\<lambda>holdout.
     bnd (field data ''review_evidence_digest'' (\<lambda>v. hex_field v ''review_evidence_digest'' HEX64)) (\<lambda>review.
     bnd (field data ''original_writer_context_digest'' (\<lambda>v. hex_field v ''original_writer_context_digest'' HEX64)) (\<lambda>context.
     bnd (field data ''diff_limit'' (\<lambda>v. sem_integer v ''diff_limit'' 1 1000000)) (\<lambda>diff_limit.
     Inr \<lparr>si_schema_version = 1, si_workspace_result_digest = result, si_requirements = requirements,
          si_holdout_evidence_digest = holdout, si_review_evidence_digest = review,
          si_original_writer_context_digest = context, si_risk_level = risk, si_diff_limit = diff_limit\<rparr>))))))))))"

text \<open>The items of \<open>asdict\<close>.\<close>

definition semantic_inputs_items :: "semantic_inputs \<Rightarrow> (string \<times> pyval) list" where
  "semantic_inputs_items x =
     [(''schema_version'', PInt (si_schema_version x)),
      (''workspace_result_digest'', PStr (si_workspace_result_digest x)),
      (''requirements'', PList (map requirement_ref_asdict (si_requirements x))),
      (''holdout_evidence_digest'', PStr (si_holdout_evidence_digest x)),
      (''review_evidence_digest'', PStr (si_review_evidence_digest x)),
      (''original_writer_context_digest'', PStr (si_original_writer_context_digest x)),
      (''risk_level'', PStr (si_risk_level x)), (''diff_limit'', PInt (si_diff_limit x))]"

definition semantic_inputs_asdict :: "semantic_inputs \<Rightarrow> pyval" where
  "semantic_inputs_asdict x = py_dict (semantic_inputs_items x)"

definition semantic_inputs_to_dict :: "semantic_inputs \<Rightarrow> pyval" where
  "semantic_inputs_to_dict x = canonical (semantic_inputs_asdict x)"

definition inputs_digest :: "semantic_inputs \<Rightarrow> string" where
  "inputs_digest x = contract_digest ''adaptive-factory.semantic-validation-inputs/v1'' (semantic_inputs_items x)"

interpretation semantic_inputs: stable_codec "semantic_inputs_from_dict nfc" semantic_inputs_to_dict
proof
  fix d x assume "semantic_inputs_from_dict nfc d = Inr x"
  then show "semantic_inputs_from_dict nfc (semantic_inputs_to_dict x) = Inr x"
    unfolding semantic_inputs_from_dict_def [of nfc d] semantic_inputs_to_dict_def semantic_inputs_asdict_def
      semantic_inputs_items_def
    apply (elim bnd_InrE, simp only: res_simps, clarify,
      simp add: semantic_inputs_from_dict_def semantic_inputs_fields_def res_simps py_simps cong: literal_congs)
    apply (assumption | rule conjI requirement_ref.map_stable)+
    done
qed

record bridge_result =
  br_binding :: execution_binding
  br_inputs :: semantic_inputs
  br_subject :: semantic_subject

definition envelope_digest :: "bridge_result \<Rightarrow> string" where
  "envelope_digest r = contract_digest ''adaptive-factory.semantic-subject-envelope/v1''
     [(''binding_digest'', PStr (binding_digest (br_binding r))),
      (''validation_inputs_digest'', PStr (inputs_digest (br_inputs r))),
      (''subject_digest'', PStr (subject_digest (br_subject r)))]"

section \<open>Checking the evidence of a run\<close>

text \<open>\<open>except ValueError: raise ContractError(code)\<close>.\<close>

definition or_contract_error :: "'a res \<Rightarrow> string \<Rightarrow> 'a res" where
  "or_contract_error m code = catch m (\<lambda>e. if value_error e then Inl (ContractError code []) else Inl e)"

definition validated_packet :: "(string \<Rightarrow> string) \<Rightarrow> task_packet \<Rightarrow> task_packet res" where
  "validated_packet nfc packet =
     bnd (or_contract_error (task_packet_from_dict nfc (task_packet_body packet)) ''semantic_packet_invalid'') (\<lambda>parsed.
     bnd (ensure (parsed = packet) (ContractError ''semantic_packet_digest_mismatch'' [])) (\<lambda>_.
     bnd (ensure (tp_role packet = ''writer'') (ContractError ''semantic_writer_required'' [])) (\<lambda>_.
     Inr packet)))"

definition validated_manifest :: "task_packet \<Rightarrow> run_manifest \<Rightarrow> run_manifest res" where
  "validated_manifest packet manifest =
     bnd (or_contract_error (run_manifest_from_packet packet (rm_deadline manifest)) ''semantic_manifest_invalid'') (\<lambda>expected.
     bnd (ensure (manifest = expected) (ContractError ''semantic_manifest_binding_mismatch'' [])) (\<lambda>_.
     Inr manifest))"

definition validated_snapshot :: "workspace_snapshot \<Rightarrow> workspace_snapshot res" where
  "validated_snapshot snapshot =
     bnd (or_contract_error (workspace_snapshot_from_dict (workspace_snapshot_to_dict snapshot))
       ''semantic_snapshot_invalid'') (\<lambda>parsed.
     bnd (ensure (parsed = snapshot) (ContractError ''semantic_snapshot_digest_mismatch'' [])) (\<lambda>_.
     Inr snapshot))"

definition validated_result :: "(string \<Rightarrow> string) \<Rightarrow> workspace_result \<Rightarrow> workspace_result res" where
  "validated_result nfc result =
     bnd (or_contract_error (workspace_result_from_dict nfc (workspace_result_to_dict result))
       ''semantic_result_invalid'') (\<lambda>parsed.
     bnd (ensure (parsed = result) (ContractError ''semantic_result_digest_mismatch'' [])) (\<lambda>_.
     bnd (ensure (wr_terminal_stage result = ''completed'' \<and> wr_m4_status result = ''ready_for_human'')
       (ContractError ''semantic_result_not_ready'' [])) (\<lambda>_.
     bnd (ensure (wr_failure_class result = None \<and> wr_failure_reason result = None)
       (ContractError ''semantic_result_failure_mismatch'' [])) (\<lambda>_.
     Inr result))))"

definition validated_terminal :: "task_packet \<Rightarrow> terminal_proposal \<Rightarrow> terminal_proposal res" where
  "validated_terminal packet terminal =
     bnd (proposal_idempotency_key (Terminal terminal)) (\<lambda>key.
     bnd (ensure (key = tm_idempotency_key terminal) (ContractError ''semantic_terminal_digest_mismatch'' [])) (\<lambda>_.
     bnd (ensure (tm_task_id terminal = tp_task_id packet \<and> tm_run_id terminal = tp_run_id packet \<and>
            tm_packet_digest terminal = tp_packet_digest packet \<and> tm_fence terminal = tp_fence packet \<and>
            tm_author_role terminal = ''writer'' \<and> tm_terminal_type terminal = ''run.completed'' \<and>
            tm_failure_class terminal = None \<and> tm_reason terminal = None \<and> tm_diagnostic terminal = None)
       (ContractError ''semantic_terminal_binding_mismatch'' [])) (\<lambda>_.
     Inr terminal)))"

text \<open>The checks of one artifact proposal and of one attestation.\<close>

definition proposal_checks :: "task_packet \<Rightarrow> artifact_proposal \<Rightarrow> unit res" where
  "proposal_checks packet p =
     bnd (proposal_idempotency_key (Artifact p)) (\<lambda>key.
     bnd (ensure (key = ap_idempotency_key p) (ContractError ''semantic_artifact_digest_mismatch'' [])) (\<lambda>_.
     ensure (ap_task_id p = tp_task_id packet \<and> ap_run_id p = tp_run_id packet \<and>
         ap_packet_digest p = tp_packet_digest packet \<and> ap_fence p = tp_fence packet \<and>
         ap_author_role p = ''writer'')
       (ContractError ''semantic_artifact_binding_mismatch'' [])))"

definition attestation_checks :: "(string \<Rightarrow> bool) \<Rightarrow> task_packet \<Rightarrow> attestation \<Rightarrow> unit res" where
  "attestation_checks word packet a =
     bnd (or_contract_error (attestation_from_dict word (attestation_to_dict a))
       ''semantic_attestation_digest_mismatch'') (\<lambda>parsed.
     bnd (ensure (parsed = a) (ContractError ''semantic_attestation_digest_mismatch'' [])) (\<lambda>_.
     ensure (ar_task_id (aa_request a) = tp_task_id packet \<and> ar_run_id (aa_request a) = tp_run_id packet \<and>
         ar_repository_id (aa_request a) = tp_repository_id packet \<and>
         ar_packet_digest (aa_request a) = tp_packet_digest packet \<and>
         ar_workspace_handle (aa_request a) = tp_workspace_handle packet \<and>
         ar_fence (aa_request a) = tp_fence packet \<and> ar_author_role (aa_request a) = ''writer'')
       (ContractError ''semantic_attestation_binding_mismatch'' [])))"

text \<open>A proposal and the attestation it names are about the same bytes at the same path.\<close>

definition attests :: "attestation \<Rightarrow> artifact_proposal \<Rightarrow> bool" where
  "attests a p =
     (ap_sequence p = ar_producer_sequence (aa_request a) \<and> ap_artifact_class p = ar_artifact_class (aa_request a) \<and>
      ap_path p = ar_path (aa_request a) \<and> ap_sha256 p = ar_sha256 (aa_request a) \<and>
      ap_size_bytes p = ar_size_bytes (aa_request a) \<and> ap_media_type p = ar_media_type (aa_request a))"

definition pair_checks :: "attestation list \<Rightarrow> artifact_proposal \<Rightarrow> unit res" where
  "pair_checks attestations p =
     (case find (\<lambda>a. aa_artifact_attestation_digest a = ap_artifact_attestation_digest p) attestations of
        None \<Rightarrow> Inl (ContractError ''semantic_artifact_attestation_set_mismatch'' [])
      | Some a \<Rightarrow> ensure (attests a p) (ContractError ''semantic_artifact_attestation_binding_mismatch'' []))"

definition validated_artifacts ::
  "(string \<Rightarrow> bool) \<Rightarrow> task_packet \<Rightarrow> artifact_proposal list \<Rightarrow> attestation list \<Rightarrow>
     (artifact_proposal list \<times> attestation list) res" where
  "validated_artifacts word packet proposals attestations =
     bnd (ensure (length proposals \<le> MAX_ITEMS) (ContractError ''semantic_artifact_proposals'' [])) (\<lambda>_.
     bnd (ensure (length attestations \<le> MAX_ITEMS) (ContractError ''semantic_artifact_attestations'' [])) (\<lambda>_.
     let ps = sort_key ap_idempotency_key proposals; as = sort_key aa_artifact_attestation_digest attestations in
     bnd (ensure (distinct (map ap_idempotency_key ps)) (ContractError ''semantic_artifact_proposals'' [])) (\<lambda>_.
     bnd (ensure (distinct (map aa_artifact_attestation_digest as)) (ContractError ''semantic_artifact_attestations'' [])) (\<lambda>_.
     bnd (checks (map (proposal_checks packet) ps)) (\<lambda>_.
     bnd (checks (map (attestation_checks word packet) as)) (\<lambda>_.
     bnd (ensure (length ps = length as) (ContractError ''semantic_artifact_attestation_set_mismatch'' [])) (\<lambda>_.
     bnd (checks (map (pair_checks as) ps)) (\<lambda>_.
     Inr (ps, as)))))))))"

section \<open>The subject of a run\<close>

text \<open>\<open>SemanticValidationInputsV1 | Mapping\<close>.\<close>

datatype inputs_arg = Parsed semantic_inputs | Raw pyval

definition inputs_of :: "(string \<Rightarrow> string) \<Rightarrow> inputs_arg \<Rightarrow> semantic_inputs res" where
  "inputs_of nfc arg = (case arg of Parsed x \<Rightarrow> Inr x | Raw d \<Rightarrow> semantic_inputs_from_dict nfc d)"

definition artifact_order :: "terminal_proposal \<Rightarrow> artifact_proposal list \<Rightarrow> unit res" where
  "artifact_order terminal ps =
     ensure (distinct (map ap_sequence ps) \<and> list_all (\<lambda>p. ap_sequence p < tm_sequence terminal) ps)
       (ContractError ''semantic_artifact_sequence_mismatch'' [])"

definition bundle_checks ::
  "task_packet \<Rightarrow> run_manifest \<Rightarrow> workspace_snapshot \<Rightarrow> workspace_result \<Rightarrow> terminal_proposal \<Rightarrow>
     artifact_proposal list \<Rightarrow> semantic_inputs \<Rightarrow> unit res" where
  "bundle_checks packet manifest snapshot result terminal ps inputs =
     bnd (ensure (wr_task_id result = tp_task_id packet \<and> wr_run_id result = tp_run_id packet \<and>
          wr_task_packet_digest result = tp_packet_digest packet \<and>
          wr_run_manifest_digest result = rm_manifest_digest manifest \<and>
          ws_repository_id snapshot = tp_repository_id packet \<and>
          ws_workspace_handle snapshot = tp_workspace_handle packet \<and>
          ws_input_head_sha snapshot = au_exact_head_sha (tp_authority packet) \<and>
          ws_result_head_sha snapshot = wr_exact_head_sha result \<and>
          ws_workspace_snapshot_digest snapshot = wr_workspace_snapshot_digest result)
       (ContractError ''semantic_execution_bundle_binding_mismatch'' [])) (\<lambda>_.
     bnd (ensure (wr_terminal_proposal_digest result = tm_idempotency_key terminal)
       (ContractError ''semantic_terminal_result_mismatch'' [])) (\<lambda>_.
     bnd (workspace_evidence_digest ''artifacts'' (map ap_idempotency_key ps)) (\<lambda>manifest_digest.
     bnd (ensure (wr_artifact_manifest_digest result = manifest_digest)
       (ContractError ''semantic_artifact_manifest_mismatch'' [])) (\<lambda>_.
     bnd (ensure (si_workspace_result_digest inputs = wr_workspace_result_digest result)
       (ContractError ''semantic_validation_result_mismatch'' [])) (\<lambda>_.
     ensure (set (map rr_requirement_id (filter (\<lambda>r. rr_kind r = ''acceptance_criterion'') (si_requirements inputs))) =
         set (tp_acceptance_ids packet))
       (ContractError ''semantic_acceptance_set_mismatch'' []))))))"

definition packet_authority_digest :: "task_packet \<Rightarrow> string" where
  "packet_authority_digest packet = contract_digest ''adaptive-factory.semantic-authority-binding/v1''
     [(''authority'', authority_binding_to_dict (tp_authority packet))]"

definition binding_data ::
  "task_packet \<Rightarrow> run_manifest \<Rightarrow> workspace_snapshot \<Rightarrow> workspace_result \<Rightarrow> terminal_proposal \<Rightarrow>
     artifact_proposal list \<Rightarrow> attestation list \<Rightarrow> pyval" where
  "binding_data packet manifest snapshot result terminal ps as = py_dict
     [(''schema_version'', PInt 1), (''task_id'', PStr (tp_task_id packet)), (''run_id'', PStr (tp_run_id packet)),
      (''owner'', PStr (tp_owner packet)), (''fence'', PInt (tp_fence packet)), (''role'', PStr (tp_role packet)),
      (''repository_id'', PStr (tp_repository_id packet)), (''workspace_handle'', PStr (tp_workspace_handle packet)),
      (''legacy_intent_digest'', PStr (tp_legacy_intent_digest packet)),
      (''task_packet_digest'', PStr (tp_packet_digest packet)),
      (''run_manifest_digest'', PStr (rm_manifest_digest manifest)),
      (''workspace_result_digest'', PStr (wr_workspace_result_digest result)),
      (''workspace_snapshot_digest'', PStr (ws_workspace_snapshot_digest snapshot)),
      (''terminal_proposal_digest'', PStr (tm_idempotency_key terminal)),
      (''artifact_manifest_digest'', PStr (wr_artifact_manifest_digest result)),
      (''note_manifest_digest'', PStr (wr_note_manifest_digest result)),
      (''usage_evidence_digest'', PStr (wr_usage_evidence_digest result)),
      (''diagnostics_digest'', PStr (wr_diagnostics_digest result)),
      (''exact_base_sha'', PStr (au_exact_base_sha (tp_authority packet))),
      (''input_head_sha'', PStr (ws_input_head_sha snapshot)), (''exact_head_sha'', PStr (wr_exact_head_sha result)),
      (''terminal_stage'', PStr (wr_terminal_stage result)), (''m4_status'', PStr (wr_m4_status result)),
      (''failure_class'', opt_str (wr_failure_class result)), (''failure_reason'', opt_str (wr_failure_reason result)),
      (''artifact_proposal_digests'', PList (map PStr (map ap_idempotency_key ps))),
      (''artifact_attestation_digests'', PList (map PStr (map aa_artifact_attestation_digest as)))]"

definition subject_data ::
  "task_packet \<Rightarrow> workspace_snapshot \<Rightarrow> workspace_result \<Rightarrow> semantic_inputs \<Rightarrow> execution_binding \<Rightarrow> pyval" where
  "subject_data packet snapshot result inputs binding = py_dict
     [(''schema_version'', PInt 1), (''subject_id'', PStr (''semantic:'' @ wr_workspace_result_digest result)),
      (''requirements'', PList (map requirement_ref_to_dict (si_requirements inputs))),
      (''exact_base_sha'', PStr (au_exact_base_sha (tp_authority packet))),
      (''exact_head_sha'', PStr (wr_exact_head_sha result)),
      (''spec_digest'', PStr (au_spec_digest (tp_authority packet))),
      (''architecture_digest'', PStr (au_architecture_digest (tp_authority packet))),
      (''authority_digest'', PStr (packet_authority_digest packet)), (''diff_digest'', PStr (ws_diff_digest snapshot)),
      (''deterministic_evidence_digest'', PStr (binding_digest binding)),
      (''holdout_evidence_digest'', PStr (si_holdout_evidence_digest inputs)),
      (''review_evidence_digest'', PStr (si_review_evidence_digest inputs)),
      (''original_writer_id'', PStr (tp_owner packet)),
      (''original_writer_context_digest'', PStr (si_original_writer_context_digest inputs)),
      (''risk_level'', PStr (si_risk_level inputs)), (''diff_lines'', PInt (ws_diff_lines snapshot)),
      (''diff_limit'', PInt (si_diff_limit inputs))]"

definition build_semantic_subject ::
  "(string \<Rightarrow> string) \<Rightarrow> (string \<Rightarrow> bool) \<Rightarrow> task_packet \<Rightarrow> run_manifest \<Rightarrow> workspace_snapshot \<Rightarrow> workspace_result \<Rightarrow>
     terminal_proposal \<Rightarrow> artifact_proposal list \<Rightarrow> attestation list \<Rightarrow> inputs_arg \<Rightarrow> bridge_result res" where
  "build_semantic_subject nfc word packet0 manifest0 snapshot0 result0 terminal0 proposals attestations arg =
     bnd (validated_packet nfc packet0) (\<lambda>packet.
     bnd (validated_manifest packet manifest0) (\<lambda>manifest.
     bnd (validated_snapshot snapshot0) (\<lambda>snapshot.
     bnd (validated_result nfc result0) (\<lambda>result.
     bnd (validated_terminal packet terminal0) (\<lambda>terminal.
     bnd (validated_artifacts word packet proposals attestations) (\<lambda>(ps, as).
     bnd (artifact_order terminal ps) (\<lambda>_.
     bnd (inputs_of nfc arg) (\<lambda>inputs.
     bnd (bundle_checks packet manifest snapshot result terminal ps inputs) (\<lambda>_.
     bnd (execution_binding_from_dict nfc (binding_data packet manifest snapshot result terminal ps as)) (\<lambda>binding.
     bnd (semantic_subject_from_dict nfc (subject_data packet snapshot result inputs binding)) (\<lambda>subject.
     Inr \<lparr>br_binding = binding, br_inputs = inputs, br_subject = subject\<rparr>)))))))))))"

end
