(* ===== verification/PyCollections.thy ===== *)
theory PyCollections
  imports Prelude
begin

text \<open>
  The standard library's counting and grouping dictionaries: \<open>Counter(xs)\<close> and
  \<open>defaultdict(set)\<close>, as lists of items in insertion order.  A value set is a list without
  repetitions.
\<close>

section \<open>\<open>defaultdict(set)\<close>\<close>

text \<open>\<open>d[k].add(v)\<close>.\<close>

fun add_to :: "'k \<Rightarrow> 'v \<Rightarrow> ('k \<times> 'v list) list \<Rightarrow> ('k \<times> 'v list) list" where
  "add_to k v [] = [(k, [v])]"
| "add_to k v ((k', vs) # d) =
     (if k = k' then (k', if v \<in> set vs then vs else vs @ [v]) # d else (k', vs) # add_to k v d)"

text \<open>The loop \<open>for k, v in pairs: d[k].add(v)\<close>.\<close>

fun add_all :: "('k \<times> 'v) list \<Rightarrow> ('k \<times> 'v list) list \<Rightarrow> ('k \<times> 'v list) list" where
  "add_all [] d = d"
| "add_all ((k, v) # ps) d = add_all ps (add_to k v d)"

definition group_sets :: "('k \<times> 'v) list \<Rightarrow> ('k \<times> 'v list) list" where
  "group_sets ps = add_all ps []"

text \<open>The pairs a grouping dictionary stands for, and its shape.\<close>

definition grouped :: "('k \<times> 'v list) list \<Rightarrow> ('k \<times> 'v) set" where
  "grouped d = {(k, v). \<exists>vs. (k, vs) \<in> set d \<and> v \<in> set vs}"

definition group_wf :: "('k \<times> 'v list) list \<Rightarrow> bool" where
  "group_wf d = (distinct (map fst d) \<and> list_all (\<lambda>(k, vs). vs \<noteq> [] \<and> distinct vs) d)"

lemma keys_add_to: "fst ` set (add_to k v d) = insert k (fst ` set d)"
  by (induction k v d rule: add_to.induct) auto

lemma group_wf_Cons:
  "group_wf ((k, vs) # d) \<longleftrightarrow> k \<notin> fst ` set d \<and> vs \<noteq> [] \<and> distinct vs \<and> group_wf d"
  by (auto simp: group_wf_def)

lemma group_wf_Nil: "group_wf []"
  by (simp add: group_wf_def)

lemma grouped_Nil: "grouped [] = {}"
  by (simp add: grouped_def)

lemma group_wf_add_to: "group_wf d \<Longrightarrow> group_wf (add_to k v d)"
  by (induction k v d rule: add_to.induct) (auto simp: group_wf_Cons keys_add_to group_wf_Nil)

lemma grouped_Cons: "grouped ((k, vs) # d) = Pair k ` set vs \<union> grouped d"
  by (auto simp: grouped_def)

lemma grouped_add_to: "grouped (add_to k v d) = insert (k, v) (grouped d)"
  by (induction k v d rule: add_to.induct) (auto simp: grouped_Cons grouped_Nil)

lemma grouped_add_all: "grouped (add_all ps d) = set ps \<union> grouped d"
  by (induction ps d rule: add_all.induct) (auto simp: grouped_add_to)

lemma group_wf_add_all: "group_wf d \<Longrightarrow> group_wf (add_all ps d)"
  by (induction ps d rule: add_all.induct) (auto simp: group_wf_add_to)

lemma group_sets_grouped: "grouped (group_sets ps) = set ps"
  by (simp add: group_sets_def grouped_add_all grouped_Nil)

lemma group_sets_wf: "group_wf (group_sets ps)"
  by (simp add: group_sets_def group_wf_add_all group_wf_Nil)

lemma group_wf_values:
  "group_wf d \<Longrightarrow> (k, vs) \<in> set d \<Longrightarrow> set vs = {v. (k, v) \<in> grouped d} \<and> distinct vs \<and> vs \<noteq> []"
  unfolding group_wf_def grouped_def
  by (auto simp: list_all_iff dest: eq_key_imp_eq_value)

text \<open>What the items of the dictionary are: every key with the set of its values.\<close>

lemma group_sets_values:
  assumes "(k, vs) \<in> set (group_sets ps)"
  shows "set vs = {v. (k, v) \<in> set ps}" and "distinct vs" and "vs \<noteq> []"
  using group_wf_values [OF group_sets_wf assms] by (simp_all add: group_sets_grouped)

lemma group_sets_key:
  assumes "(k, v) \<in> set ps"
  shows "\<exists>vs. (k, vs) \<in> set (group_sets ps)"
proof -
  have "(k, v) \<in> grouped (group_sets ps)" using assms by (simp add: group_sets_grouped)
  then show ?thesis by (auto simp: grouped_def)
qed

lemma group_sets_keys: "fst ` set (group_sets ps) = fst ` set ps"
proof
  show "fst ` set (group_sets ps) \<subseteq> fst ` set ps"
  proof
    fix k assume "k \<in> fst ` set (group_sets ps)"
    then obtain vs where kv: "(k, vs) \<in> set (group_sets ps)" by auto
    obtain v where "v \<in> set vs" using group_sets_values(3) [OF kv] by (cases vs) auto
    then have "(k, v) \<in> set ps" using group_sets_values(1) [OF kv] by auto
    then show "k \<in> fst ` set ps" by force
  qed
  show "fst ` set ps \<subseteq> fst ` set (group_sets ps)"
    using group_sets_key by force
qed

lemma group_sets_member: "(\<exists>vs. (k, vs) \<in> set (group_sets ps) \<and> v \<in> set vs) \<longleftrightarrow> (k, v) \<in> set ps"
proof -
  have "(k, v) \<in> grouped (group_sets ps) \<longleftrightarrow> (k, v) \<in> set ps" by (simp add: group_sets_grouped)
  then show ?thesis by (simp add: grouped_def)
qed

text \<open>The keys that got at least two different values.\<close>

lemma group_sets_several:
  "(\<exists>vs. (k, vs) \<in> set (group_sets ps) \<and> 1 < length vs) \<longleftrightarrow>
     (\<exists>v w. v \<noteq> w \<and> (k, v) \<in> set ps \<and> (k, w) \<in> set ps)"
proof
  assume "\<exists>vs. (k, vs) \<in> set (group_sets ps) \<and> 1 < length vs"
  then obtain vs where kv: "(k, vs) \<in> set (group_sets ps)" and n: "1 < length vs" by blast
  obtain v w ws where "vs = v # w # ws" using n by (cases vs; cases "tl vs") auto
  moreover have "v \<noteq> w" using group_sets_values(2) [OF kv] calculation by auto
  ultimately show "\<exists>v w. v \<noteq> w \<and> (k, v) \<in> set ps \<and> (k, w) \<in> set ps"
    using group_sets_values(1) [OF kv] by auto
next
  assume "\<exists>v w. v \<noteq> w \<and> (k, v) \<in> set ps \<and> (k, w) \<in> set ps"
  then obtain v w where vw: "v \<noteq> w" "(k, v) \<in> set ps" "(k, w) \<in> set ps" by blast
  then obtain vs where kv: "(k, vs) \<in> set (group_sets ps)" using group_sets_key by metis
  then have "v \<in> set vs" "w \<in> set vs" using vw group_sets_values(1) [OF kv] by simp_all
  then have "1 < length vs" using \<open>v \<noteq> w\<close> by (cases vs; cases "tl vs") auto
  then show "\<exists>vs. (k, vs) \<in> set (group_sets ps) \<and> 1 < length vs" using kv by blast
qed

section \<open>\<open>Counter\<close>\<close>

fun count_one :: "'k \<Rightarrow> ('k \<times> nat) list \<Rightarrow> ('k \<times> nat) list" where
  "count_one k [] = [(k, 1)]"
| "count_one k ((k', n) # d) = (if k = k' then (k', Suc n) # d else (k', n) # count_one k d)"

fun count_into :: "'k list \<Rightarrow> ('k \<times> nat) list \<Rightarrow> ('k \<times> nat) list" where
  "count_into [] d = d"
| "count_into (x # xs) d = count_into xs (count_one x d)"

definition counter :: "'k list \<Rightarrow> ('k \<times> nat) list" where
  "counter xs = count_into xs []"

fun counted :: "('k \<times> nat) list \<Rightarrow> 'k \<Rightarrow> nat" where
  "counted d k = (case map_of d k of None \<Rightarrow> 0 | Some n \<Rightarrow> n)"

lemma counted_count_one: "counted (count_one x d) k = counted d k + (if k = x then 1 else 0)"
  by (induction x d rule: count_one.induct) auto

lemma counted_count_into: "counted (count_into xs d) k = counted d k + count_list xs k"
  by (induction xs d rule: count_into.induct) (auto simp: counted_count_one simp del: counted.simps)

lemma keys_count_one: "fst ` set (count_one x d) = insert x (fst ` set d)"
  by (induction x d rule: count_one.induct) auto

lemma keys_count_into: "fst ` set (count_into xs d) = set xs \<union> fst ` set d"
  by (induction xs d rule: count_into.induct) (auto simp: keys_count_one)

lemma distinct_count_one: "distinct (map fst d) \<Longrightarrow> distinct (map fst (count_one x d))"
proof (induction x d rule: count_one.induct)
  case (2 k k' n d)
  then show ?case using keys_count_one [of k d] by auto
qed simp

lemma distinct_count_into: "distinct (map fst d) \<Longrightarrow> distinct (map fst (count_into xs d))"
  by (induction xs d rule: count_into.induct) (auto simp: distinct_count_one)

lemma counter_keys: "fst ` set (counter xs) = set xs"
  by (simp add: counter_def keys_count_into)

lemma counter_distinct: "distinct (map fst (counter xs))"
  by (simp add: counter_def distinct_count_into)

lemma counter_item: "(k, n) \<in> set (counter xs) \<Longrightarrow> n = count_list xs k"
proof -
  assume "(k, n) \<in> set (counter xs)"
  then have "counted (counter xs) k = n" using counter_distinct [of xs] by (simp add: map_of_eq_Some_iff [THEN iffD2])
  moreover have "counted (counter xs) k = count_list xs k"
    by (simp add: counter_def counted_count_into del: counted.simps) simp
  ultimately show ?thesis by simp
qed

lemma counter_iff: "(k, n) \<in> set (counter xs) \<longleftrightarrow> k \<in> set xs \<and> n = count_list xs k"
proof
  assume "k \<in> set xs \<and> n = count_list xs k"
  moreover then obtain m where "(k, m) \<in> set (counter xs)"
    using counter_keys [of xs] by (metis imageE prod.collapse)
  ultimately show "(k, n) \<in> set (counter xs)" using counter_item by metis
next
  assume "(k, n) \<in> set (counter xs)"
  then show "k \<in> set xs \<and> n = count_list xs k"
    using counter_item counter_keys by (metis fst_conv imageI)
qed

end
