(* ===== verification/SemanticAdjudication.thy ===== *)
theory SemanticAdjudication
  imports SemanticExamples PyCollections
begin

text \<open>
  \<open>semantic_adjudication.py\<close>: \<open>adjudicate\<close> turns the findings and coverage reports about one
  subject into a verdict.  The definition follows the code: the bounds and bindings first, then the
  counting and grouping dictionaries, then the decision, and the verdict goes through
  \<open>SemanticVerdictV1.from_dict\<close>.  The lemmas say what the dictionaries hold, that the parser never
  rejects the verdict of valid inputs, and what each decision means about the evidence.
\<close>

section \<open>The code\<close>

definition HUMAN_CATEGORIES :: "string list" where
  "HUMAN_CATEGORIES = [''security_boundary'', ''authority_violation'', ''contradiction'']"

definition bounded_items :: "'a list \<Rightarrow> string \<Rightarrow> 'a list res" where
  "bounded_items values name =
     (if MAX_ITEMS < length values then Inl (ContractError ''semantic_items_exceeded'' name) else Inr values)"

definition identity_pairs :: "semantic_finding list \<Rightarrow> (string \<times> string) list" where
  "identity_pairs findings = map (\<lambda>f. (requirement_key (sf_requirement f), finding_identity f)) findings"

definition report_entries :: "semantic_coverage list \<Rightarrow> coverage_entry list" where
  "report_entries coverages = concat (map sc_entries coverages)"

definition status_pairs :: "semantic_coverage list \<Rightarrow> (string \<times> string) list" where
  "status_pairs coverages = map (\<lambda>e. (entry_key e, ce_status e)) (report_entries coverages)"

text \<open>One iteration's test for \<open>unsupported.add(key)\<close>.\<close>

definition unsupported_entry :: "(string \<times> string list) list \<Rightarrow> coverage_entry \<Rightarrow> bool" where
  "unsupported_entry identities_by_requirement e =
     ((ce_status e = ''proven'' \<and>
         (ce_evidence_refs e = [] \<or> entry_key e \<in> fst ` set identities_by_requirement)) \<or>
      ce_status e = ''out_of_scope'')"

definition human_finding :: "semantic_finding \<Rightarrow> bool" where
  "human_finding f = (\<not> sf_repairable f \<or> sf_category f \<in> set HUMAN_CATEGORIES)"

definition finding_identities :: "semantic_finding list \<Rightarrow> string list" where
  "finding_identities findings = sort (map fst (counter (map finding_identity findings)))"

definition duplicate_identities :: "semantic_finding list \<Rightarrow> string list" where
  "duplicate_identities findings =
     sort (map fst (filter (\<lambda>(identity, n). 1 < n) (counter (map finding_identity findings))))"

definition correlated_keys :: "semantic_finding list \<Rightarrow> string list" where
  "correlated_keys findings =
     sort (map fst (filter (\<lambda>(k, ids). 1 < length ids) (group_sets (identity_pairs findings))))"

definition contradicted_keys :: "semantic_coverage list \<Rightarrow> string list" where
  "contradicted_keys coverages =
     sort (map fst (filter (\<lambda>(k, vs). 1 < length vs \<or> ''contradicted'' \<in> set vs)
       (group_sets (status_pairs coverages))))"

definition unsupported_keys :: "semantic_finding list \<Rightarrow> semantic_coverage list \<Rightarrow> string list" where
  "unsupported_keys findings coverages =
     usort (map entry_key
       (filter (unsupported_entry (group_sets (identity_pairs findings))) (report_entries coverages)))"

text \<open>The decision and the residual risk.\<close>

definition requires_human :: "semantic_finding list \<Rightarrow> semantic_coverage list \<Rightarrow> bool" where
  "requires_human findings coverages =
     (contradicted_keys coverages \<noteq> [] \<or> unsupported_keys findings coverages \<noteq> [] \<or>
      list_ex human_finding findings)"

definition requires_repair :: "semantic_finding list \<Rightarrow> semantic_coverage list \<Rightarrow> bool" where
  "requires_repair findings coverages =
     (finding_identities findings \<noteq> [] \<or>
      list_ex (\<lambda>(k, vs). list_ex (\<lambda>status. status \<noteq> ''proven'') vs) (group_sets (status_pairs coverages)))"

definition adjudicated ::
  "semantic_subject \<Rightarrow> semantic_finding list \<Rightarrow> semantic_coverage list \<Rightarrow> string \<times> string" where
  "adjudicated subject findings coverages =
     (if requires_human findings coverages
      then (''needs_human'', if ss_risk_level subject = ''critical'' then ''critical'' else ''high'')
      else if requires_repair findings coverages then (''repair'', ss_risk_level subject)
      else (''pass'', ''none''))"

definition adjudicate ::
  "(string \<Rightarrow> string) \<Rightarrow> semantic_subject \<Rightarrow> semantic_finding list \<Rightarrow> semantic_coverage list
     \<Rightarrow> semantic_verdict res" where
  "adjudicate nfc subject findings coverages =
     bnd (bounded_items findings ''findings'') (\<lambda>finding_values.
     bnd (bounded_items coverages ''coverages'') (\<lambda>coverage_values.
     bnd (ensure (coverage_values \<noteq> []) (ContractError ''semantic_coverage_missing'' [])) (\<lambda>_.
     bnd (checks (map (\<lambda>f. finding_validate_for f subject) finding_values)) (\<lambda>_.
     bnd (checks (map (\<lambda>c. coverage_validate_for c subject) coverage_values)) (\<lambda>_.
       let (decision, residual_risk) = adjudicated subject finding_values coverage_values in
       semantic_verdict_from_dict nfc (py_dict
         [(''schema_version'', PInt 1),
          (''subject_digest'', PStr (subject_digest subject)),
          (''decision'', PStr decision),
          (''decision_source'', PStr ''deterministic_adjudicator''),
          (''finding_identity_digests'', PList (map PStr (finding_identities finding_values))),
          (''duplicate_identity_digests'', PList (map PStr (duplicate_identities finding_values))),
          (''correlated_requirement_keys'', PList (map PStr (correlated_keys finding_values))),
          (''contradicted_requirement_keys'', PList (map PStr (contradicted_keys coverage_values))),
          (''unsupported_pass_requirement_keys'',
             PList (map PStr (unsupported_keys finding_values coverage_values))),
          (''residual_risk'', PStr residual_risk)]))))))"

section \<open>What the dictionaries hold\<close>

lemma set_finding_identities: "set (finding_identities fs) = finding_identity ` set fs"
  by (simp add: finding_identities_def counter_keys)

lemma set_duplicate_identities:
  "set (duplicate_identities fs) = {i. 1 < count_list (map finding_identity fs) i}"
proof -
  have "1 < count_list xs i \<Longrightarrow> i \<in> set xs" for xs :: "string list" and i
    by (metis count_list_0_iff less_numeral_extra(3) not_less_zero)
  then show ?thesis
    by (force simp: duplicate_identities_def counter_iff image_iff)
qed

lemma identity_pairs_iff:
  "(k, i) \<in> set (identity_pairs fs) \<longleftrightarrow>
     (\<exists>f\<in>set fs. requirement_key (sf_requirement f) = k \<and> finding_identity f = i)"
  by (auto simp: identity_pairs_def)

lemma set_correlated_keys:
  "k \<in> set (correlated_keys fs) \<longleftrightarrow>
     (\<exists>i j. i \<noteq> j \<and> (k, i) \<in> set (identity_pairs fs) \<and> (k, j) \<in> set (identity_pairs fs))"
proof -
  have "k \<in> set (correlated_keys fs) \<longleftrightarrow>
      (\<exists>vs. (k, vs) \<in> set (group_sets (identity_pairs fs)) \<and> 1 < length vs)"
    by (force simp: correlated_keys_def)
  then show ?thesis by (simp only: group_sets_several)
qed

lemma status_pairs_iff:
  "(k, s) \<in> set (status_pairs cs) \<longleftrightarrow>
     (\<exists>c\<in>set cs. \<exists>e\<in>set (sc_entries c). entry_key e = k \<and> ce_status e = s)"
  by (auto simp: status_pairs_def report_entries_def)

lemma set_contradicted_keys:
  "k \<in> set (contradicted_keys cs) \<longleftrightarrow>
     (\<exists>s t. s \<noteq> t \<and> (k, s) \<in> set (status_pairs cs) \<and> (k, t) \<in> set (status_pairs cs)) \<or>
     (k, ''contradicted'') \<in> set (status_pairs cs)"
proof -
  have "k \<in> set (contradicted_keys cs) \<longleftrightarrow>
      (\<exists>vs. (k, vs) \<in> set (group_sets (status_pairs cs)) \<and> 1 < length vs) \<or>
      (\<exists>vs. (k, vs) \<in> set (group_sets (status_pairs cs)) \<and> ''contradicted'' \<in> set vs)"
    by (force simp: contradicted_keys_def)
  then show ?thesis by (simp only: group_sets_several group_sets_member)
qed

lemma set_unsupported_keys:
  "k \<in> set (unsupported_keys fs cs) \<longleftrightarrow>
     (\<exists>c\<in>set cs. \<exists>e\<in>set (sc_entries c). entry_key e = k \<and>
        (ce_status e = ''out_of_scope'' \<or>
         ce_status e = ''proven'' \<and>
           (ce_evidence_refs e = [] \<or> (\<exists>f\<in>set fs. requirement_key (sf_requirement f) = k))))"
proof -
  have "entry_key e \<in> fst ` set (group_sets (identity_pairs fs)) \<longleftrightarrow>
      (\<exists>f\<in>set fs. requirement_key (sf_requirement f) = entry_key e)" for e
    unfolding group_sets_keys identity_pairs_def by (auto simp: image_iff intro: bexI sym)
  then have "unsupported_entry (group_sets (identity_pairs fs)) e \<longleftrightarrow>
      ce_status e = ''out_of_scope'' \<or> ce_status e = ''proven'' \<and>
        (ce_evidence_refs e = [] \<or> (\<exists>f\<in>set fs. requirement_key (sf_requirement f) = entry_key e))" for e
    unfolding unsupported_entry_def by blast
  then show ?thesis
    unfolding unsupported_keys_def report_entries_def by (auto 0 3)
qed

lemma requires_repair_iff:
  "requires_repair fs cs \<longleftrightarrow> fs \<noteq> [] \<or> (\<exists>c\<in>set cs. \<exists>e\<in>set (sc_entries c). ce_status e \<noteq> ''proven'')"
proof -
  have nil: "finding_identities fs = [] \<longleftrightarrow> fs = []"
    using set_finding_identities [of fs] by (metis image_is_empty set_empty)
  have "list_ex (\<lambda>(k, vs). list_ex (\<lambda>s. s \<noteq> ''proven'') vs) d \<longleftrightarrow>
      (\<exists>k s. s \<noteq> ''proven'' \<and> (\<exists>vs. (k, vs) \<in> set d \<and> s \<in> set vs))"
    for d :: "(string \<times> string list) list"
    by (auto simp: list_ex_iff Bex_def)
  then show ?thesis
    by (simp only: requires_repair_def nil group_sets_member status_pairs_iff) blast
qed

section \<open>The parser accepts the verdict\<close>

text \<open>NFC leaves ASCII text alone: the one fact about \<open>unicodedata\<close> the module relies on.\<close>

definition nfc_ascii :: "(string \<Rightarrow> string) \<Rightarrow> bool" where
  "nfc_ascii nfc = (\<forall>s. ascii s \<longrightarrow> nfc s = s)"

lemma subject_parts:
  assumes "semantic_subject_from_dict nfc d = Inr subject"
  shows "length (requirement_keys subject) \<le> MAX_ITEMS" and "distinct (requirement_keys subject)"
    and "requirement_keys subject \<noteq> []" and "ss_risk_level subject \<in> set SUBJECT_RISKS"
    and "\<exists>ds. map_res (requirement_ref_from_dict nfc) ds = Inr (ss_requirements subject)"
  using assms by (auto simp: semantic_subject_from_dict_def res_simps keys_ok_def requirement_keys_def)

lemma ident_match_append:
  assumes "ident_match extra n s" "ident_match extra m t" "c \<in> set extra" "n + m + 2 \<le> l"
  shows "ident_match extra l (s @ c # t)"
  using assms by (cases s; cases t) (auto simp: ident_match_def)

lemma ident_match_extra: "ident_match extra n s \<Longrightarrow> set extra \<subseteq> set extra' \<Longrightarrow> ident_match extra' n s"
  by (cases s) (auto simp: ident_match_def list_all_iff)

lemma requirement_key_ref_ok:
  assumes "nfc_ascii nfc" "requirement_ref_from_dict nfc d = Inr r"
  shows "ref_ok nfc (requirement_key r)"
proof -
  have k: "rr_kind r \<in> set REQUIREMENT_KINDS" and i: "ID_match (rr_requirement_id r)"
    using assms(2) by (auto simp: requirement_ref_from_dict_def res_simps id_ok_def)
  have "\<forall>k\<in>set REQUIREMENT_KINDS. ident_match ''._:/@+-'' 30 k"
    by (simp add: REQUIREMENT_KINDS_def ident_match_def is_alnum_def digits_chars_def lower_chars_def upper_chars_def)
  then have "ident_match ''._:/@+-'' 30 (rr_kind r)" using k by blast
  moreover have "ident_match ''._:/@+-'' 127 (rr_requirement_id r)"
    using i unfolding ID_match_def by (rule ident_match_extra) auto
  ultimately have m: "ident_match ''._:/@+-'' 255 (requirement_key r)"
    unfolding requirement_key_def append_Cons append_Nil by (rule ident_match_append) auto
  then have "ascii (requirement_key r)"
    using ident_match_ascii by (fastforce simp: byte_def)
  then show ?thesis
    using m assms(1) by (simp add: ref_ok_def SAFE_REF_match_def nfc_ascii_def)
qed

lemma requirement_keys_ref_ok:
  assumes "nfc_ascii nfc" "semantic_subject_from_dict nfc d = Inr subject" "k \<in> set (requirement_keys subject)"
  shows "ref_ok nfc k"
  using subject_parts(5) [OF assms(2)] assms(1,3) requirement_key_ref_ok map_res_set
  by (fastforce simp: requirement_keys_def)

text \<open>The verdict the code builds, as an object.\<close>

definition verdict_of ::
  "semantic_subject \<Rightarrow> semantic_finding list \<Rightarrow> semantic_coverage list \<Rightarrow> semantic_verdict" where
  "verdict_of subject fs cs =
     \<lparr>sv_schema_version = 1, sv_subject_digest = subject_digest subject,
      sv_decision = fst (adjudicated subject fs cs), sv_decision_source = ''deterministic_adjudicator'',
      sv_finding_identity_digests = finding_identities fs,
      sv_duplicate_identity_digests = duplicate_identities fs,
      sv_correlated_requirement_keys = correlated_keys fs,
      sv_contradicted_requirement_keys = contradicted_keys cs,
      sv_unsupported_pass_requirement_keys = unsupported_keys fs cs,
      sv_residual_risk = snd (adjudicated subject fs cs)\<rparr>"

definition adjudicable ::
  "semantic_subject \<Rightarrow> semantic_finding list \<Rightarrow> semantic_coverage list \<Rightarrow> bool" where
  "adjudicable subject fs cs =
     (length fs \<le> MAX_ITEMS \<and> length cs \<le> MAX_ITEMS \<and> cs \<noteq> [] \<and>
      list_all (\<lambda>f. finding_validate_for f subject = Inr ()) fs \<and>
      list_all (\<lambda>c. coverage_validate_for c subject = Inr ()) cs)"

lemma adjudicate_Inr_parts:
  assumes "adjudicate nfc subject fs cs = Inr v"
  shows "adjudicable subject fs cs" and "v = verdict_of subject fs cs"
proof -
  obtain p where p: "adjudicated subject fs cs = p" by blast
  show "adjudicable subject fs cs"
    using assms by (auto simp: adjudicate_def adjudicable_def bounded_items_def res_simps checks_Inr_iff
        list_all_iff split: if_splits)
  show "v = verdict_of subject fs cs"
    using assms p by (cases p) (auto simp: adjudicate_def bounded_items_def verdict_of_def
        semantic_verdict_from_dict_def res_simps py_simps split: if_splits)
qed

lemma coverage_keys:
  assumes "adjudicable subject fs cs" "c \<in> set cs"
  shows "map entry_key (sc_entries c) = requirement_keys subject"
  using assms by (auto simp: adjudicable_def list_all_iff coverage_validate_for_def res_simps)

lemma finding_key:
  assumes "adjudicable subject fs cs" "f \<in> set fs"
  shows "requirement_key (sf_requirement f) \<in> set (requirement_keys subject)"
  using assms by (auto simp: adjudicable_def list_all_iff finding_validate_for_def res_simps)

lemma entry_key_in:
  assumes "adjudicable subject fs cs" "c \<in> set cs" "e \<in> set (sc_entries c)"
  shows "entry_key e \<in> set (requirement_keys subject)"
  using coverage_keys [OF assms(1,2)] assms(3) by (metis image_eqI list.set_map)

text \<open>Every key list of the verdict is a sorted list of distinct keys of the subject.\<close>

lemma keys_subset:
  assumes "adjudicable subject fs cs"
  shows "set (correlated_keys fs) \<subseteq> set (requirement_keys subject)"
    and "set (contradicted_keys cs) \<subseteq> set (requirement_keys subject)"
    and "set (unsupported_keys fs cs) \<subseteq> set (requirement_keys subject)"
  using finding_key [OF assms] entry_key_in [OF assms]
  by (auto simp: set_correlated_keys identity_pairs_iff set_contradicted_keys status_pairs_iff
      set_unsupported_keys)

lemma distinct_filter_fst: "distinct (map fst xs) \<Longrightarrow> distinct (map fst (filter P xs))"
  by (rule distinct_map_filter)

lemma group_keys_distinct: "distinct (map fst (group_sets ps))"
  using group_sets_wf [of ps] by (simp add: group_wf_def)

lemma sorted_distinct_results:
  "sorted (finding_identities fs) \<and> distinct (finding_identities fs)"
  "sorted (duplicate_identities fs) \<and> distinct (duplicate_identities fs)"
  "sorted (correlated_keys fs) \<and> distinct (correlated_keys fs)"
  "sorted (contradicted_keys cs) \<and> distinct (contradicted_keys cs)"
  "sorted (unsupported_keys fs cs) \<and> distinct (unsupported_keys fs cs)"
  using distinct_filter_fst [OF counter_distinct] distinct_filter_fst [OF group_keys_distinct]
    counter_distinct
  by (simp_all add: finding_identities_def duplicate_identities_def correlated_keys_def
      contradicted_keys_def unsupported_keys_def)

lemma length_le_by_set:
  "set xs \<subseteq> set ys \<Longrightarrow> distinct xs \<Longrightarrow> length xs \<le> length ys"
  by (metis card_length card_mono distinct_card finite_set le_trans)

lemma duplicate_subset: "set (duplicate_identities fs) \<subseteq> finding_identity ` set fs"
proof
  fix i assume "i \<in> set (duplicate_identities fs)"
  then have "count_list (map finding_identity fs) i \<noteq> 0" by (simp add: set_duplicate_identities)
  then show "i \<in> finding_identity ` set fs" by (simp add: count_list_0_iff)
qed

lemma identity_hex: "i \<in> finding_identity ` set fs \<Longrightarrow> hex_string 64 i"
  by (auto simp: finding_identity_def)

lemma verdict_parses:
  assumes nfc: "nfc_ascii nfc" and sub: "semantic_subject_from_dict nfc d = Inr subject"
    and adj: "adjudicable subject fs cs"
  shows "adjudicate nfc subject fs cs = Inr (verdict_of subject fs cs)"
proof -
  note keys = subject_parts [OF sub]
  have len: "length xs \<le> MAX_ITEMS" if "set xs \<subseteq> set (requirement_keys subject)" "distinct xs" for xs
    using length_le_by_set [OF that] keys(1) by simp
  have flen: "length xs \<le> MAX_ITEMS" if "set xs \<subseteq> finding_identity ` set fs" "distinct xs" for xs
    using length_le_by_set [of xs "map finding_identity fs"] that adj by (simp add: adjudicable_def)
  have refs: "list_all (ref_ok nfc) xs" if "set xs \<subseteq> set (requirement_keys subject)" for xs
    using requirement_keys_ref_ok [OF nfc sub] that by (auto simp: list_all_iff)
  have hexs: "list_all (hex_string 64) xs" if "set xs \<subseteq> finding_identity ` set fs" for xs
    using identity_hex [where fs = fs] that by (metis list_all_iff subset_iff)
  obtain dec risk where p: "adjudicated subject fs cs = (dec, risk)" by (cases "adjudicated subject fs cs") blast
  have dec: "dec \<in> set [''pass'', ''repair'', ''needs_human'']" and risk: "risk \<in> set RISK_LEVELS"
    using p keys(4) by (auto simp: adjudicated_def RISK_LEVELS_def SUBJECT_RISKS_def split: if_splits)
  note facts = sorted_distinct_results(1-3) [of fs] sorted_distinct_results(4) [of cs]
    sorted_distinct_results(5) [of fs cs] keys_subset [OF adj] duplicate_subset [of fs]
  have "semantic_verdict_from_dict nfc (py_dict
         [(''schema_version'', PInt 1),
          (''subject_digest'', PStr (subject_digest subject)),
          (''decision'', PStr dec),
          (''decision_source'', PStr ''deterministic_adjudicator''),
          (''finding_identity_digests'', PList (map PStr (finding_identities fs))),
          (''duplicate_identity_digests'', PList (map PStr (duplicate_identities fs))),
          (''correlated_requirement_keys'', PList (map PStr (correlated_keys fs))),
          (''contradicted_requirement_keys'', PList (map PStr (contradicted_keys cs))),
          (''unsupported_pass_requirement_keys'', PList (map PStr (unsupported_keys fs cs))),
          (''residual_risk'', PStr risk)]) = Inr (verdict_of subject fs cs)"
    using facts dec risk
    by (simp add: semantic_verdict_from_dict_def semantic_verdict_fields_def res_simps py_simps keys_ok_def
        verdict_of_def p py_eq_str_def len flen refs hexs set_finding_identities subject_digest_def)
  then show ?thesis
    using adj p by (simp add: adjudicate_def bounded_items_def adjudicable_def list_all_iff checks_Inr_iff)
      (auto simp: res_simps checks_Inr_iff)
qed

section \<open>The example runs\<close>

lemma ex_adjudicable: "adjudicable ex_subject [] [ex_coverage s]" "adjudicable ex_subject [ex_finding r] [ex_coverage s]"
  by (simp_all add: adjudicable_def ex_bound MAX_ITEMS_def)

lemma nfc_ascii_id: "nfc_ascii (\<lambda>s. s)"
  by (simp add: nfc_ascii_def)

lemmas ex_adjudicate = verdict_parses [OF nfc_ascii_id ex_subject_parses]

section \<open>Properties\<close>

text \<open>
  \<open>adjudicate\<close> returns a verdict exactly when its inputs are within bounds and bound to the
  subject: at most 256 findings and 1 to 256 coverage reports, each of which passes its
  \<open>validate_for\<close>.  In particular \<open>SemanticVerdictV1.from_dict\<close> never rejects the verdict the
  adjudicator assembles for a parsed subject.
\<close>

theorem adjudicate_returns_iff:
  assumes "nfc_ascii nfc" and "semantic_subject_from_dict nfc d = Inr subject"
  shows "(\<exists>v. adjudicate nfc subject findings coverages = Inr v) \<longleftrightarrow> adjudicable subject findings coverages"
  using verdict_parses [OF assms] adjudicate_Inr_parts(1) by blast

theorem adjudicate_returns_iff_witness:
  "\<exists>v. adjudicate (\<lambda>s. s) ex_subject [ex_finding True] [ex_coverage ''proven''] = Inr v"
  using adjudicate_returns_iff [OF nfc_ascii_id ex_subject_parses] ex_adjudicable by blast

lemma human_evidence_iff:
  "requires_human fs cs \<longleftrightarrow>
     (\<exists>f\<in>set fs. human_finding f) \<or> (\<exists>k. k \<in> set (contradicted_keys cs)) \<or> (\<exists>k. k \<in> set (unsupported_keys fs cs))"
  unfolding requires_human_def by (metis list_ex_iff list.set_intros(1) neq_Nil_conv empty_iff set_empty)

lemma decision_simps:
  "sv_decision (verdict_of subject fs cs) = ''needs_human'' \<longleftrightarrow> requires_human fs cs"
  "sv_decision (verdict_of subject fs cs) = ''repair'' \<longleftrightarrow> \<not> requires_human fs cs \<and> requires_repair fs cs"
  "sv_decision (verdict_of subject fs cs) = ''pass'' \<longleftrightarrow> \<not> requires_human fs cs \<and> \<not> requires_repair fs cs"
  by (simp_all add: verdict_of_def adjudicated_def)

text \<open>
  C19: a verdict is \<open>pass\<close> exactly when nobody reported a finding and every coverage report, over
  all the subject's requirements, calls each one \<open>proven\<close> and cites evidence for it.
\<close>

theorem adjudicate_pass_iff:
  assumes "adjudicate nfc subject findings coverages = Inr v"
  shows "sv_decision v = ''pass'' \<longleftrightarrow>
    findings = [] \<and>
    (\<forall>c\<in>set coverages. map entry_key (sc_entries c) = requirement_keys subject \<and>
       (\<forall>e\<in>set (sc_entries c). ce_status e = ''proven'' \<and> ce_evidence_refs e \<noteq> []))"
proof -
  note v = adjudicate_Inr_parts [OF assms]
  have "requires_human findings coverages \<or> requires_repair findings coverages \<longleftrightarrow>
    \<not> (findings = [] \<and> (\<forall>c\<in>set coverages. \<forall>e\<in>set (sc_entries c).
        ce_status e = ''proven'' \<and> ce_evidence_refs e \<noteq> []))"
    (is "?l = (\<not> ?r)")
  proof
    assume ?l
    show "\<not> ?r"
    proof
      assume r: ?r
      then have "s = ''proven''" if "(k, s) \<in> set (status_pairs coverages)" for k s
        using that by (auto simp: status_pairs_iff)
      then have "\<not> requires_human findings coverages"
        using r by (auto simp: human_evidence_iff set_contradicted_keys set_unsupported_keys) blast+
      with \<open>?l\<close> r show False by (auto simp: requires_repair_iff)
    qed
  next
    assume "\<not> ?r"
    then show ?l
      by (auto simp: human_evidence_iff requires_repair_iff set_unsupported_keys)
  qed
  then show ?thesis using coverage_keys [OF v(1)] by (auto simp: v(2) decision_simps)
qed

theorem adjudicate_pass_iff_witness:
  "\<exists>v. adjudicate (\<lambda>s. s) ex_subject [] [ex_coverage ''proven''] = Inr v \<and> sv_decision v = ''pass''"
proof (intro exI conjI)
  show v: "adjudicate (\<lambda>s. s) ex_subject [] [ex_coverage ''proven''] =
      Inr (verdict_of ex_subject [] [ex_coverage ''proven''])"
    by (rule ex_adjudicate [OF ex_adjudicable(1)])
  show "sv_decision (verdict_of ex_subject [] [ex_coverage ''proven'']) = ''pass''"
    unfolding adjudicate_pass_iff [OF v] ex_keys by (simp add: ex_keys) (simp add: ex_coverage_def)
qed

text \<open>
  a verdict goes to a human exactly when some finding is not repairable or touches security,
  authority or a contradiction; or the reports disagree on a requirement or call it contradicted; or
  a report puts a requirement out of scope, or calls it proven without evidence or against a finding.
\<close>

theorem adjudicate_needs_human_iff:
  assumes "adjudicate nfc subject findings coverages = Inr v"
  shows "sv_decision v = ''needs_human'' \<longleftrightarrow>
    (\<exists>f\<in>set findings. \<not> sf_repairable f \<or>
       sf_category f \<in> {''security_boundary'', ''authority_violation'', ''contradiction''}) \<or>
    (\<exists>c\<in>set coverages. \<exists>d\<in>set coverages. \<exists>e\<in>set (sc_entries c). \<exists>e'\<in>set (sc_entries d).
       entry_key e = entry_key e' \<and> ce_status e \<noteq> ce_status e') \<or>
    (\<exists>c\<in>set coverages. \<exists>e\<in>set (sc_entries c).
       ce_status e \<in> {''contradicted'', ''out_of_scope''} \<or>
       ce_status e = ''proven'' \<and>
         (ce_evidence_refs e = [] \<or> (\<exists>f\<in>set findings. requirement_key (sf_requirement f) = entry_key e)))"
proof -
  note v = adjudicate_Inr_parts [OF assms]
  have c: "(\<exists>k. k \<in> set (contradicted_keys coverages)) \<longleftrightarrow>
      (\<exists>c\<in>set coverages. \<exists>d\<in>set coverages. \<exists>e\<in>set (sc_entries c). \<exists>e'\<in>set (sc_entries d).
         entry_key e = entry_key e' \<and> ce_status e \<noteq> ce_status e') \<or>
      (\<exists>c\<in>set coverages. \<exists>e\<in>set (sc_entries c). ce_status e = ''contradicted'')"
    (is "_ = (?differ \<or> ?contra)")
  proof -
    have "(\<exists>k s t. s \<noteq> t \<and> (k, s) \<in> set (status_pairs coverages) \<and> (k, t) \<in> set (status_pairs coverages)) = ?differ"
      unfolding status_pairs_iff by (intro iffI; elim exE bexE conjE) (metis, metis)
    moreover have "(\<exists>k. (k, ''contradicted'') \<in> set (status_pairs coverages)) = ?contra"
      unfolding status_pairs_iff by blast
    ultimately show ?thesis unfolding set_contradicted_keys by blast
  qed
  have u: "(\<exists>k. k \<in> set (unsupported_keys findings coverages)) \<longleftrightarrow>
      (\<exists>c\<in>set coverages. \<exists>e\<in>set (sc_entries c). ce_status e = ''out_of_scope'' \<or>
         ce_status e = ''proven'' \<and>
           (ce_evidence_refs e = [] \<or> (\<exists>f\<in>set findings. requirement_key (sf_requirement f) = entry_key e)))"
    unfolding set_unsupported_keys by blast
  have h: "(\<exists>f\<in>set findings. human_finding f) \<longleftrightarrow> (\<exists>f\<in>set findings. \<not> sf_repairable f \<or>
       sf_category f \<in> {''security_boundary'', ''authority_violation'', ''contradiction''})"
    by (simp add: human_finding_def HUMAN_CATEGORIES_def)
  show ?thesis unfolding v(2) decision_simps human_evidence_iff c u h by blast
qed

theorem adjudicate_needs_human_iff_witness:
  "\<exists>v. adjudicate (\<lambda>s. s) ex_subject [ex_finding False] [ex_coverage ''unproven''] = Inr v \<and>
     sv_decision v = ''needs_human''"
proof (intro exI conjI)
  show v: "adjudicate (\<lambda>s. s) ex_subject [ex_finding False] [ex_coverage ''unproven''] =
      Inr (verdict_of ex_subject [ex_finding False] [ex_coverage ''unproven''])"
    by (rule ex_adjudicate [OF ex_adjudicable(2)])
  show "sv_decision (verdict_of ex_subject [ex_finding False] [ex_coverage ''unproven'']) = ''needs_human''"
    unfolding adjudicate_needs_human_iff [OF v] by (simp add: ex_finding_def)
qed

text \<open>
  when the verdict asks for a repair, every finding is repairable, outside the human categories,
  and every report has an entry for its requirement that claims neither proof, nor contradiction,
  nor being out of scope; and there is something to repair.
\<close>

theorem adjudicate_repair_sound:
  assumes "adjudicate nfc subject findings coverages = Inr v" and "sv_decision v = ''repair''"
  shows "(findings \<noteq> [] \<or> (\<exists>c\<in>set coverages. \<exists>e\<in>set (sc_entries c). ce_status e \<noteq> ''proven'')) \<and>
    (\<forall>f\<in>set findings. sf_repairable f \<and> sf_category f \<notin> set HUMAN_CATEGORIES \<and>
       (\<forall>c\<in>set coverages. \<exists>e\<in>set (sc_entries c). entry_key e = requirement_key (sf_requirement f) \<and>
          ce_status e \<notin> {''proven'', ''contradicted'', ''out_of_scope''}))"
proof -
  note v = adjudicate_Inr_parts [OF assms(1)]
  have nh: "\<not> requires_human findings coverages" and rep: "requires_repair findings coverages"
    using assms(2) by (simp_all add: v(2) decision_simps)
  have "\<exists>e\<in>set (sc_entries c). entry_key e = requirement_key (sf_requirement f) \<and>
          ce_status e \<notin> {''proven'', ''contradicted'', ''out_of_scope''}"
    if f: "f \<in> set findings" and c: "c \<in> set coverages" for f c
  proof -
    have "requirement_key (sf_requirement f) \<in> set (map entry_key (sc_entries c))"
      using finding_key [OF v(1) f] coverage_keys [OF v(1) c] by simp
    then obtain e where e: "e \<in> set (sc_entries c)" "entry_key e = requirement_key (sf_requirement f)" by auto
    have "(entry_key e, ce_status e) \<in> set (status_pairs coverages)" using c e status_pairs_iff by metis
    then have "ce_status e \<noteq> ''contradicted''"
      using nh unfolding human_evidence_iff set_contradicted_keys by metis
    moreover have "ce_status e \<noteq> ''out_of_scope'' \<and> ce_status e \<noteq> ''proven''"
      using nh c e f unfolding human_evidence_iff set_unsupported_keys by metis
    ultimately show ?thesis using e by blast
  qed
  then show ?thesis
    using nh rep unfolding human_evidence_iff requires_repair_iff human_finding_def by blast
qed

theorem adjudicate_repair_sound_witness:
  "\<exists>v. adjudicate (\<lambda>s. s) ex_subject [ex_finding True] [ex_coverage ''unproven''] = Inr v \<and>
     sf_repairable (ex_finding True) \<and> ex_finding True \<in> set [ex_finding True]"
proof -
  have v: "adjudicate (\<lambda>s. s) ex_subject [ex_finding True] [ex_coverage ''unproven''] =
      Inr (verdict_of ex_subject [ex_finding True] [ex_coverage ''unproven''])"
    by (rule ex_adjudicate [OF ex_adjudicable(2)])
  have "\<not> requires_human [ex_finding True] [ex_coverage ''unproven'']"
    by (auto simp: human_evidence_iff set_contradicted_keys status_pairs_iff set_unsupported_keys)
      (simp_all add: human_finding_def HUMAN_CATEGORIES_def ex_finding_def ex_coverage_def)
  then have "sv_decision (verdict_of ex_subject [ex_finding True] [ex_coverage ''unproven'']) = ''repair''"
    by (simp add: decision_simps requires_repair_iff)
  from adjudicate_repair_sound [OF v this] v show ?thesis by simp
qed

text \<open>
  C30: the verdict does not depend on the order in which findings and reports arrive: any
  rearrangement of accepted inputs gives the same verdict, so the same digest.
\<close>

theorem adjudicate_order_independent:
  assumes "nfc_ascii nfc" and "semantic_subject_from_dict nfc d = Inr subject"
    and "adjudicate nfc subject findings coverages = Inr v"
    and "mset findings' = mset findings" and "mset coverages' = mset coverages"
  shows "adjudicate nfc subject findings' coverages' = Inr v"
proof -
  note v = adjudicate_Inr_parts [OF assms(3)]
  have s: "set findings' = set findings" "set coverages' = set coverages"
    and l: "length findings' = length findings" "length coverages' = length coverages"
    using assms(4,5) mset_eq_setD mset_eq_length by metis+
  have adj: "adjudicable subject findings' coverages'"
    using v(1) s l by (auto simp: adjudicable_def list_all_iff)
  have sts: "set (status_pairs coverages') = set (status_pairs coverages)"
    and ids: "set (identity_pairs findings') = set (identity_pairs findings)"
    using s by (simp_all add: status_pairs_def report_entries_def identity_pairs_def)
  have cnt: "count_list (map finding_identity findings') = count_list (map finding_identity findings)"
    using assms(4) by (metis count_mset mset_map ext)
  have eq: "xs = ys" if "sorted xs \<and> distinct xs" "sorted ys \<and> distinct ys" "set xs = set ys" for xs ys :: "string list"
    using that sorted_distinct_set_unique by blast
  have "contradicted_keys coverages' = contradicted_keys coverages"
    by (rule eq) (auto simp: sorted_distinct_results set_contradicted_keys sts)
  moreover have "unsupported_keys findings' coverages' = unsupported_keys findings coverages"
    by (rule eq) (auto simp: sorted_distinct_results set_unsupported_keys s)
  moreover have "correlated_keys findings' = correlated_keys findings"
    by (rule eq) (auto simp: sorted_distinct_results set_correlated_keys ids)
  moreover have "finding_identities findings' = finding_identities findings"
    by (rule eq) (auto simp: sorted_distinct_results set_finding_identities s)
  moreover have "duplicate_identities findings' = duplicate_identities findings"
    by (rule eq) (auto simp: sorted_distinct_results set_duplicate_identities cnt)
  moreover have "requires_human findings' coverages' = requires_human findings coverages"
    using calculation by (simp add: requires_human_def list_ex_iff s)
  moreover have "requires_repair findings' coverages' = requires_repair findings coverages"
    using assms(4) by (auto simp: requires_repair_iff s)
  ultimately have "verdict_of subject findings' coverages' = verdict_of subject findings coverages"
    by (simp add: verdict_of_def adjudicated_def)
  then show ?thesis using verdict_parses [OF assms(1,2) adj] v(2) by simp
qed

theorem adjudicate_order_independent_witness:
  "adjudicate (\<lambda>s. s) ex_subject [ex_finding False, ex_finding True] [ex_coverage ''proven'', ex_coverage ''unproven''] =
   adjudicate (\<lambda>s. s) ex_subject [ex_finding True, ex_finding False] [ex_coverage ''unproven'', ex_coverage ''proven'']"
proof -
  have "adjudicable ex_subject [ex_finding True, ex_finding False] [ex_coverage ''unproven'', ex_coverage ''proven'']"
    by (simp add: adjudicable_def ex_bound MAX_ITEMS_def)
  note r = ex_adjudicate [OF this]
  show ?thesis
    using adjudicate_order_independent [OF nfc_ascii_id ex_subject_parses r,
        of "[ex_finding False, ex_finding True]" "[ex_coverage ''proven'', ex_coverage ''unproven'']"] r
    by (simp add: add_mset_commute)
qed

text \<open>
  the verdict's digest lists are exact: the identities are those of the findings, each once; the
  duplicates are the identities reported more than once; the correlated keys are the requirements
  with two different findings.  All are sorted without repetition.
\<close>

theorem adjudicate_identities_exact:
  assumes "adjudicate nfc subject findings coverages = Inr v"
  shows "set (sv_finding_identity_digests v) = finding_identity ` set findings \<and>
    set (sv_duplicate_identity_digests v) = {i. 1 < count_list (map finding_identity findings) i} \<and>
    set (sv_correlated_requirement_keys v) =
      {k. \<exists>f\<in>set findings. \<exists>g\<in>set findings. requirement_key (sf_requirement f) = k \<and>
            requirement_key (sf_requirement g) = k \<and> finding_identity f \<noteq> finding_identity g} \<and>
    list_all (\<lambda>xs. sorted xs \<and> distinct xs)
      [sv_finding_identity_digests v, sv_duplicate_identity_digests v, sv_correlated_requirement_keys v]"
proof -
  have v: "v = verdict_of subject findings coverages" by (rule adjudicate_Inr_parts(2) [OF assms])
  have "set (correlated_keys findings) =
      {k. \<exists>f\<in>set findings. \<exists>g\<in>set findings. requirement_key (sf_requirement f) = k \<and>
            requirement_key (sf_requirement g) = k \<and> finding_identity f \<noteq> finding_identity g}"
    unfolding set_eq_iff set_correlated_keys identity_pairs_iff mem_Collect_eq by blast
  then show ?thesis
    by (simp add: v verdict_of_def set_finding_identities set_duplicate_identities sorted_distinct_results)
qed

theorem adjudicate_identities_exact_witness:
  "\<exists>v. adjudicate (\<lambda>s. s) ex_subject [ex_finding True] [ex_coverage ''unproven''] = Inr v \<and>
     set (sv_finding_identity_digests v) = {finding_identity (ex_finding True)}"
proof (intro exI conjI)
  show v: "adjudicate (\<lambda>s. s) ex_subject [ex_finding True] [ex_coverage ''unproven''] =
      Inr (verdict_of ex_subject [ex_finding True] [ex_coverage ''unproven''])"
    by (rule ex_adjudicate [OF ex_adjudicable(2)])
  show "set (sv_finding_identity_digests (verdict_of ex_subject [ex_finding True] [ex_coverage ''unproven''])) =
      {finding_identity (ex_finding True)}"
    using adjudicate_identities_exact [OF v] by simp
qed

end
