(* ===== verification/SemanticBridge.thy ===== *)
theory SemanticBridge
  imports SemanticAdjudication ShadowContracts
begin

text \<open>
  Where M6 meets M7: the verdict the adjudicator returns (\<open>SemanticVerdictV1.to_dict\<close>) is what the
  \<open>M6PassVerdictV1\<close> parser of the shadow contracts reads.
\<close>

section \<open>The canonical form\<close>

lemma sort_key_map: "(\<And>x. f (h x) = f x) \<Longrightarrow> sort_key f (map h xs) = map h (sort_key f xs)"
proof -
  assume h: "\<And>x. f (h x) = f x"
  have "insort_key f (h x) (map h ys) = map h (insort_key f x ys)" for x ys
    by (induction ys) (simp_all add: h)
  then show ?thesis by (induction xs) simp_all
qed

lemma canonical_idem: "canonical (canonical v) = canonical v"
proof (induction v rule: canonical.induct)
  case (2 kvs)
  let ?h = "\<lambda>(k, v). (k, canonical v)" and ?f = "\<lambda>kv :: pyval \<times> pyval. str_of (fst kv)"
  have s: "sort_key ?f (map ?h xs) = map ?h (sort_key ?f xs)" for xs
    by (rule sort_key_map) auto
  have e: "?h (?h x) = ?h x" if "x \<in> set kvs" for x
    using 2 [of x "fst x" "snd x"] that by (simp add: case_prod_beta)
  have "map ?h (map ?h (sort_key ?f kvs)) = map ?h (sort_key ?f kvs)"
    unfolding map_map by (rule map_cong [OF refl]) (use e in simp)
  moreover have "sort_key ?f (sort_key ?f kvs) = sort_key ?f kvs"
    by (rule sort_key_id_if_sorted) simp
  ultimately show ?case unfolding canonical.simps s by simp
qed simp_all

lemma canonical_digest_canonical: "canonical_digest (canonical v) = canonical_digest v"
  by (simp add: canonical_digest_def canonical_json_def canonical_idem)

section \<open>Crossing the bridge\<close>

definition crossed :: "semantic_verdict \<Rightarrow> pass_verdict" where
  "crossed v =
     \<lparr>pv_schema_version = sv_schema_version v, pv_subject_digest = sv_subject_digest v,
      pv_decision = PStr (sv_decision v), pv_decision_source = PStr (sv_decision_source v),
      pv_finding_identity_digests = map PStr (sv_finding_identity_digests v),
      pv_duplicate_identity_digests = map PStr (sv_duplicate_identity_digests v),
      pv_correlated_requirement_keys = map PStr (sv_correlated_requirement_keys v),
      pv_contradicted_requirement_keys = map PStr (sv_contradicted_requirement_keys v),
      pv_unsupported_pass_requirement_keys = map PStr (sv_unsupported_pass_requirement_keys v),
      pv_residual_risk = PStr (sv_residual_risk v)\<rparr>"

lemma crossed_to_dict: "pass_verdict_to_dict (crossed v) = semantic_verdict_asdict v"
  by (simp add: pass_verdict_to_dict_def semantic_verdict_asdict_def crossed_def)

lemma pass_verdict_reads:
  "pass_verdict_from_dict (semantic_verdict_to_dict v) = Inr p \<longleftrightarrow>
     p = crossed v \<and> pass_verdict_post_init (crossed v) = Inr ()"
  unfolding pass_verdict_from_dict_def semantic_verdict_to_dict_def semantic_verdict_asdict_def crossed_def
  by (simp add: pass_verdict_fields_def pass_verdict_post_init_def res_simps py_simps py_eq_str_def
      cong: literal_congs) auto


lemma pass_accepted_iff:
  "pass_verdict_post_init (crossed v) = Inr () \<longleftrightarrow>
     sv_schema_version v = 1 \<and> hex_string 64 (sv_subject_digest v) \<and> sv_decision v = ''pass'' \<and>
     sv_decision_source v = ''deterministic_adjudicator'' \<and> sv_finding_identity_digests v = [] \<and>
     sv_duplicate_identity_digests v = [] \<and> sv_correlated_requirement_keys v = [] \<and>
     sv_contradicted_requirement_keys v = [] \<and> sv_unsupported_pass_requirement_keys v = [] \<and>
     sv_residual_risk v = ''none''"
  by (simp add: pass_verdict_post_init_def crossed_def res_simps py_eq_str_def)

lemma passing_verdict_accepted:
  assumes "adjudicate nfc subject findings coverages = Inr v" and p: "sv_decision v = ''pass''"
  shows "pass_verdict_post_init (crossed v) = Inr ()"
proof -
  note v = adjudicate_Inr_parts [OF assms(1)]
  have n: "\<not> requires_human findings coverages" "\<not> requires_repair findings coverages"
    using p by (simp_all add: v(2) decision_simps)
  then have "findings = []" "contradicted_keys coverages = []" "unsupported_keys findings coverages = []"
    by (auto simp: requires_repair_iff requires_human_def)
  with n show ?thesis
    unfolding pass_accepted_iff v(2) verdict_of_def
    by (simp add: adjudicated_def finding_identities_def duplicate_identities_def correlated_keys_def
        subject_digest_def group_sets_def counter_def identity_pairs_def)
qed

lemma crossed_digests:
  assumes "adjudicate nfc subject findings coverages = Inr v"
  shows "pass_verdict_digest (crossed v) = verdict_digest v" "pv_subject_digest (crossed v) = subject_digest subject"
proof -
  show "pass_verdict_digest (crossed v) = verdict_digest v"
    by (simp add: pass_verdict_digest_def crossed_to_dict verdict_digest_def semantic_verdict_to_dict_def
        canonical_digest_canonical)
  show "pv_subject_digest (crossed v) = subject_digest subject"
    by (simp add: adjudicate_Inr_parts(2) [OF assms] verdict_of_def crossed_def)
qed

text \<open>C25: M7 accepts exactly the passing verdicts of the adjudicator: the verdict it returns parses as an
  \<open>M6PassVerdictV1\<close> if and only if its decision is \<open>pass\<close>, and then both sides compute the same digest of it.\<close>

theorem adjudicated_verdict_crosses:
  assumes "adjudicate nfc subject findings coverages = Inr v"
  shows "((\<exists>p. pass_verdict_from_dict (semantic_verdict_to_dict v) = Inr p) \<longleftrightarrow> sv_decision v = ''pass'') \<and>
    (\<forall>p. pass_verdict_from_dict (semantic_verdict_to_dict v) = Inr p \<longrightarrow>
       pass_verdict_digest p = verdict_digest v \<and> pv_subject_digest p = subject_digest subject)"
  unfolding pass_verdict_reads using passing_verdict_accepted [OF assms] crossed_digests [OF assms]
  by (auto simp: pass_accepted_iff)

lemma ex_pass:
  "\<exists>v. adjudicate (\<lambda>s. s) ex_subject [] [ex_coverage ''proven''] = Inr v \<and> sv_decision v = ''pass''"
proof -
  let ?v = "verdict_of ex_subject [] [ex_coverage ''proven'']"
  have "\<not> requires_human [] [ex_coverage ''proven'']" "\<not> requires_repair [] [ex_coverage ''proven'']"
    by (auto simp: requires_repair_iff human_evidence_iff set_contradicted_keys status_pairs_iff set_unsupported_keys
        ex_coverage_def)
  then have "sv_decision ?v = ''pass''" by (simp add: decision_simps)
  then show ?thesis using ex_adjudicate [OF ex_adjudicable(1)] by blast
qed

theorem adjudicated_verdict_crosses_witness:
  "\<exists>v p. adjudicate (\<lambda>s. s) ex_subject [] [ex_coverage ''proven''] = Inr v \<and>
     pass_verdict_from_dict (semantic_verdict_to_dict v) = Inr p"
  using ex_pass adjudicated_verdict_crosses by metis

end
