(* ===== verification/CanonicalJson.thy ===== *)
theory CanonicalJson
  imports SemanticContracts
begin

text \<open>
  The canonical JSON text names its value: two values without floats and datetimes that have the same text
  are equal.  So equal digests mean equal values, or else the two texts are a collision of SHA-256, which
  the lemmas at the end name.

  The texts are prefix codes: a text followed by a delimiter determines both the value and the rest.
\<close>

section \<open>Values with an unambiguous text\<close>

fun plain :: "pyval \<Rightarrow> bool" where
  "plain (PFloat r) = False"
| "plain (PTime t) = False"
| "plain (PList xs) = list_all plain xs"
| "plain (PDict kvs) = list_all (\<lambda>(k, v). is_str k \<and> plain v) kvs"
| "plain v = True"

definition delimited :: "string \<Rightarrow> bool" where
  "delimited r = (r = [] \<or> hd r \<in> {CHR '','', CHR '']'', CHR ''}''})"

text \<open>\<open>f x\<close> followed by a delimiter determines \<open>x\<close> among the values in \<open>A\<close>.\<close>

definition decodes :: "('a \<Rightarrow> string) \<Rightarrow> ('a \<Rightarrow> bool) \<Rightarrow> 'a \<Rightarrow> bool" where
  "decodes f A x =
     (\<forall>y r s. A y \<longrightarrow> f x @ r = f y @ s \<longrightarrow> delimited r \<longrightarrow> delimited s \<longrightarrow> x = y \<and> r = s)"

lemma decodesI:
  "(\<And>y r s. A y \<Longrightarrow> f x @ r = f y @ s \<Longrightarrow> delimited r \<Longrightarrow> delimited s \<Longrightarrow> x = y \<and> r = s) \<Longrightarrow> decodes f A x"
  by (simp add: decodes_def)

lemma decodesD:
  "decodes f A x \<Longrightarrow> A y \<Longrightarrow> f x @ r = f y @ s \<Longrightarrow> delimited r \<Longrightarrow> delimited s \<Longrightarrow> x = y \<and> r = s"
  by (simp add: decodes_def)

section \<open>Strings\<close>

definition hex_value :: "char \<Rightarrow> nat" where
  "hex_value c = (if is_digit c then byte c - 48 else byte c - 87)"

lemma hex_value_digit: "hex_value (hex_digit n) = n mod 16"
proof -
  have "m < 16 \<Longrightarrow> hex_value (''0123456789abcdef'' ! m) = m" for m
    by (auto simp: hex_value_def is_digit_def digits_chars_def byte_def numeral_eq_Suc less_Suc_eq)
  then show ?thesis by (simp add: hex_digit_def)
qed

text \<open>The character an escape sequence stands for, and what follows it.\<close>

fun unescape :: "string \<Rightarrow> char \<times> string" where
  "unescape (a # b # c # d # e # f # r) =
     (if a \<noteq> CHR 0x5C then (a, b # c # d # e # f # r)
      else if b = CHR ''u'' then (char_of (16 * hex_value e + hex_value f), r)
      else (if b = CHR ''n'' then CHR 0x0A else if b = CHR ''r'' then CHR 0x0D else if b = CHR ''t'' then CHR 0x09
            else if b = CHR ''f'' then CHR 0x0C else if b = CHR ''b'' then CHR 0x08 else b, c # d # e # f # r))"
| "unescape (a # b # r) =
     (if a \<noteq> CHR 0x5C then (a, b # r)
      else (if b = CHR ''n'' then CHR 0x0A else if b = CHR ''r'' then CHR 0x0D else if b = CHR ''t'' then CHR 0x09
            else if b = CHR ''f'' then CHR 0x0C else if b = CHR ''b'' then CHR 0x08 else b, r))"
| "unescape [a] = (a, [])"
| "unescape [] = (CHR 0x00, [])"

lemma unescape_plain: "a \<noteq> CHR 0x5C \<Longrightarrow> unescape (a # r) = (a, r)"
  by (cases "a # r" rule: unescape.cases) auto

lemma unescape_short:
  "b \<noteq> CHR ''u'' \<Longrightarrow> unescape (CHR 0x5C # b # r) =
     (if b = CHR ''n'' then CHR 0x0A else if b = CHR ''r'' then CHR 0x0D else if b = CHR ''t'' then CHR 0x09
      else if b = CHR ''f'' then CHR 0x0C else if b = CHR ''b'' then CHR 0x08 else b, r)"
  by (cases "CHR 0x5C # b # r" rule: unescape.cases) auto

lemma unescape_control: "unescape (CHR 0x5C # CHR ''u'' # c # d # e # f # r) = (char_of (16 * hex_value e + hex_value f), r)"
  by simp

lemma unescape_escape: "unescape (json_escape c @ r) = (c, r)"
proof (cases "byte c < 32 \<and> c \<notin> {CHR 0x0A, CHR 0x0D, CHR 0x09, CHR 0x0C, CHR 0x08}")
  case True
  have small: "byte c < 32" using True by simp
  then have "byte c div 16 mod 16 = byte c div 16" by (intro mod_less) linarith
  then have n: "16 * (byte c div 16 mod 16) + byte c mod 16 = byte c" by (simp only: mult_div_mod_eq)
  have "byte (CHR 0x22) = 34" "byte (CHR 0x5C) = 92" by (simp_all add: byte_def)
  then have "c \<noteq> CHR 0x22" "c \<noteq> CHR 0x5C" using small by auto
  then have "json_escape c @ r =
      CHR 0x5C # CHR ''u'' # CHR ''0'' # CHR ''0'' # hex_digit (byte c div 16) # hex_digit (byte c) # r"
    using True by (simp add: json_escape_def)
  then show ?thesis by (simp only: unescape_control hex_value_digit n) (simp add: byte_def)
next
  case False
  then show ?thesis
    by (auto simp: json_escape_def unescape_plain unescape_short)
qed

lemma escape_prefix: "json_escape c @ r = json_escape d @ s \<Longrightarrow> c = d \<and> r = s"
  by (metis unescape_escape prod.inject)

lemma escape_head: "json_escape c \<noteq> []" "hd (json_escape c) \<noteq> CHR 0x22"
  by (auto simp: json_escape_def)

lemma json_string_prefix:
  assumes "json_string a @ r = json_string b @ s"
  shows "a = b \<and> r = s"
proof -
  let ?t = "\<lambda>a r. concat (map json_escape a) @ CHR 0x22 # r"
  have head: "json_escape c @ x \<noteq> CHR 0x22 # y" for c x y
    using escape_head [of c] by (cases "json_escape c") auto
  have "?t a r = ?t b s \<Longrightarrow> a = b \<and> r = s"
  proof (induction a arbitrary: b)
    case Nil
    then show ?case using head by (cases b) (auto dest: sym)
  next
    case (Cons c a)
    then obtain d b' where b: "b = d # b'" using head by (cases b) auto
    with Cons.prems have "json_escape c @ ?t a r = json_escape d @ ?t b' s" by simp
    then have "c = d" "?t a r = ?t b' s" using escape_prefix by blast+
    with Cons.IH b show ?case by simp
  qed
  then show ?thesis using assms by (simp add: json_string_def)
qed

section \<open>Integers\<close>

lemma nat_text_not_Nil: "nat_text n \<noteq> []"
  by (subst nat_text.simps) simp

lemma nat_text_digits: "list_all is_digit (nat_text n)"
proof (induction n rule: nat_text.induct)
  case (1 n)
  then show ?case by (subst nat_text.simps) (auto simp: is_digit_digit_char)
qed

lemma digits_val_nat_text: "digits_val 0 (nat_text n) = int n"
proof (induction n rule: nat_text.induct)
  case (1 n)
  show ?case
  proof (cases "n < 10")
    case True
    then show ?thesis by (subst nat_text.simps) (simp add: byte_digit_char)
  next
    case False
    have "digits_val 0 (nat_text n) = int (n div 10) * 10 + int (n mod 10)"
      using 1 False by (subst nat_text.simps) (simp add: digits_val_append byte_digit_char)
    also have "\<dots> = int (n div 10 * 10 + n mod 10)" by (simp only: of_nat_add of_nat_mult of_nat_numeral)
    also have "\<dots> = int n" by (simp only: div_mult_mod_eq)
    finally show ?thesis .
  qed
qed

lemma delimited_not_digit: "delimited r \<Longrightarrow> takeWhile is_digit r = []"
  by (cases r) (auto simp: delimited_def is_digit_def digits_chars_def)

lemma nat_text_prefix:
  assumes "nat_text m @ r = nat_text n @ s" "delimited r" "delimited s"
  shows "m = n \<and> r = s"
proof -
  have d: "\<forall>x\<in>set (nat_text k). is_digit x" for k
    using nat_text_digits by (simp add: list_all_iff)
  have "takeWhile is_digit (nat_text k @ t) = nat_text k" if "delimited t" for k t
    using d [of k] delimited_not_digit [OF that] by (simp add: takeWhile_append2)
  then have e: "nat_text m = nat_text n" using assms by metis
  then have "int m = int n" by (metis digits_val_nat_text)
  with e assms(1) show ?thesis by simp
qed

lemma nat_text_head: "is_digit (hd (nat_text n))"
  using nat_text_digits [of n] nat_text_not_Nil [of n] by (cases "nat_text n") auto

lemma int_text_prefix:
  assumes "int_text i @ r = int_text j @ s" "delimited r" "delimited s"
  shows "i = j \<and> r = s"
proof -
  have minus: "nat_text n @ x \<noteq> CHR ''-'' # y" for n x y
    using nat_text_head [of n] nat_text_not_Nil [of n]
    by (cases "nat_text n") (auto simp: is_digit_def digits_chars_def)
  show ?thesis
  proof (cases "i < 0"; cases "j < 0")
    assume "i < 0" "j < 0"
    with assms have "nat_text (nat (- i)) @ r = nat_text (nat (- j)) @ s" by (simp add: int_text_def)
    with assms(2,3) have "nat (- i) = nat (- j)" "r = s" using nat_text_prefix by blast+
    with \<open>i < 0\<close> \<open>j < 0\<close> show ?thesis by linarith
  next
    assume "\<not> i < 0" "\<not> j < 0"
    with assms have "nat_text (nat i) @ r = nat_text (nat j) @ s" by (simp add: int_text_def)
    with assms(2,3) have "nat i = nat j" "r = s" using nat_text_prefix by blast+
    with \<open>\<not> i < 0\<close> \<open>\<not> j < 0\<close> show ?thesis by linarith
  qed (use assms minus in \<open>auto simp: int_text_def dest: sym\<close>)
qed

lemma int_text_head: "int_text i \<noteq> []" "hd (int_text i) = CHR ''-'' \<or> is_digit (hd (int_text i))"
  using nat_text_not_Nil nat_text_head by (auto simp: int_text_def)

section \<open>Lists\<close>

lemma join_Cons: "join sep (x # xs) = x @ (if xs = [] then [] else sep @ join sep xs)"
  by (cases xs) simp_all

lemma join_prefix:
  assumes c: "c \<in> {CHR '']'', CHR ''}''}" and head: "\<And>x r s. A x \<Longrightarrow> f x @ r \<noteq> c # s"
  shows "list_all (decodes f A) xs \<Longrightarrow> list_all A xs \<Longrightarrow> list_all A ys \<Longrightarrow>
    join '','' (map f xs) @ c # r = join '','' (map f ys) @ c # s \<Longrightarrow> xs = ys \<and> r = s"
proof (induction xs arbitrary: ys)
  case Nil
  have "ys = []"
  proof (rule ccontr)
    assume "ys \<noteq> []"
    then obtain y ys' where "ys = y # ys'" by (cases ys) auto
    with Nil show False using head [of y] by (auto simp: join_Cons dest: sym)
  qed
  with Nil show ?case by simp
next
  case (Cons x xs)
  have "ys \<noteq> []" using Cons.prems head [of x] by (auto simp: join_Cons)
  then obtain y ys' where ys: "ys = y # ys'" by (cases ys) auto
  let ?tail = "\<lambda>xs r. if xs = [] then c # r else '','' @ join '','' (map f xs) @ c # r"
  have e: "f x @ ?tail xs r = f y @ ?tail ys' s"
    using Cons.prems(4) by (simp add: ys join_Cons split: if_splits)
  have d: "delimited (?tail xs r)" "delimited (?tail ys' s)" using c by (auto simp: delimited_def)
  have "decodes f A x" "A y" using Cons.prems(1,3) ys by simp_all
  note * = decodesD [OF this e d]
  have x: "x = y" by (rule conjunct1 [OF *])
  have tail: "?tail xs r = ?tail ys' s" by (rule conjunct2 [OF *])
  show ?case
  proof (cases "xs = []")
    case True
    with tail c have "ys' = [] \<and> r = s" by (cases "ys' = []") auto
    with True x ys show ?thesis by simp
  next
    case False
    with tail c have "ys' \<noteq> []" by (cases "ys' = []") auto
    with False tail have "join '','' (map f xs) @ c # r = join '','' (map f ys') @ c # s" by simp
    moreover have "list_all (decodes f A) xs" "list_all A xs" "list_all A ys'"
      using Cons.prems(1-3) ys by simp_all
    ultimately show ?thesis using Cons.IH x ys by blast
  qed
qed

section \<open>All values\<close>

definition item_text :: "pyval \<times> pyval \<Rightarrow> string" where
  "item_text kv = json_string (str_of (fst kv)) @ '':'' @ json_text (snd kv)"

definition plain_item :: "pyval \<times> pyval \<Rightarrow> bool" where
  "plain_item kv = (is_str (fst kv) \<and> plain (snd kv))"

lemma json_text_dict: "json_text (PDict kvs) = CHR ''{'' # join '','' (map item_text kvs) @ ''}''"
proof -
  have "(\<lambda>(k, v). json_string (str_of k) @ '':'' @ json_text v) = item_text"
    by (auto simp: item_text_def)
  then show ?thesis by simp
qed

lemma plain_dict: "plain (PDict kvs) = list_all plain_item kvs"
proof -
  have "(\<lambda>(k, v). is_str k \<and> plain v) = plain_item" by (auto simp: plain_item_def)
  then show ?thesis by simp
qed

text \<open>The first character of a text tells the kind of value.\<close>

fun json_head :: "pyval \<Rightarrow> char \<Rightarrow> bool" where
  "json_head PNone c = (c = CHR ''n'')"
| "json_head (PBool b) c = (c = (if b then CHR ''t'' else CHR ''f''))"
| "json_head (PInt i) c = (c = CHR ''-'' \<or> is_digit c)"
| "json_head (PStr s) c = (c = CHR 0x22)"
| "json_head (PList xs) c = (c = CHR ''['')"
| "json_head (PDict kvs) c = (c = CHR ''{'')"
| "json_head v c = False"

lemma json_text_head: "plain v \<Longrightarrow> \<exists>c cs. json_text v = c # cs \<and> json_head v c"
proof (cases v)
  case (PInt i)
  then show ?thesis using int_text_head [of i] by (cases "int_text i") auto
qed (auto simp: json_string_def)

lemma json_text_not_close: "plain v \<Longrightarrow> c \<in> {CHR '']'', CHR ''}''} \<Longrightarrow> json_text v @ r \<noteq> c # s"
  using json_text_head [of v] by (cases v) (auto simp: is_digit_def digits_chars_def)

lemma item_not_close: "plain_item kv \<Longrightarrow> item_text kv @ r \<noteq> CHR ''}'' # s"
  by (simp add: item_text_def json_string_def)

text \<open>Texts of values of different kinds differ.\<close>

lemma json_same_kind:
  assumes "plain v" "plain w" "json_text v @ r = json_text w @ s"
  shows "case v of PNone \<Rightarrow> w = PNone | PBool b \<Rightarrow> w = PBool b | PInt i \<Rightarrow> (\<exists>j. w = PInt j)
    | PStr t \<Rightarrow> (\<exists>u. w = PStr u) | PList xs \<Rightarrow> (\<exists>ys. w = PList ys) | PDict kvs \<Rightarrow> (\<exists>kws. w = PDict kws)
    | _ \<Rightarrow> False"
proof -
  obtain c cs d ds where "json_text v = c # cs" "json_head v c" "json_text w = d # ds" "json_head w d"
    using json_text_head assms(1,2) by meson
  with assms(3) have "json_head v c \<and> json_head w c" by simp
  then show ?thesis
    by (cases v; cases w) (auto simp: is_digit_def digits_chars_def split: if_splits)
qed

lemma decodes_json: "plain v \<Longrightarrow> decodes json_text plain v"
proof (induction v)
  case (PList xs)
  show ?case
  proof (rule decodesI)
    fix w r s assume w: "plain w" "json_text (PList xs) @ r = json_text w @ s"
    then obtain ys where ys: "w = PList ys"
      using json_same_kind [OF PList.prems w] by auto
    have "join '','' (map json_text xs) @ CHR '']'' # r = join '','' (map json_text ys) @ CHR '']'' # s"
      using w by (simp add: ys)
    moreover have "list_all (decodes json_text plain) xs" using PList by (simp add: list_all_iff)
    moreover have "list_all plain xs" "list_all plain ys" using PList.prems w(1) ys by simp_all
    ultimately have "xs = ys \<and> r = s"
      by (intro join_prefix [where f = json_text and A = plain]) (simp_all add: json_text_not_close)
    then show "PList xs = w \<and> r = s" by (simp add: ys)
  qed
next
  case (PDict kvs)
  have item: "decodes item_text plain_item kv" if kv: "kv \<in> set kvs" for kv
  proof (rule decodesI)
    fix kw r s
    assume kw: "plain_item kw" "item_text kv @ r = item_text kw @ s" "delimited r" "delimited s"
    have "plain_item kv" using PDict.prems [unfolded plain_dict] kv by (simp only: list_all_iff)
    then obtain k v where v: "kv = (PStr k, v)" "plain v"
      by (cases kv) (auto simp: plain_item_def is_str_iff)
    obtain l w where w: "kw = (PStr l, w)" "plain w"
      using kw(1) by (cases kw) (auto simp: plain_item_def is_str_iff)
    have "json_string k @ '':'' @ json_text v @ r = json_string l @ '':'' @ json_text w @ s"
      using kw(2) by (simp add: item_text_def v w)
    then have "k = l" "'':'' @ json_text v @ r = '':'' @ json_text w @ s"
      using json_string_prefix by blast+
    moreover have "decodes json_text plain v"
      using PDict.IH [of kv v] kv v by simp
    ultimately have "k = l" "v = w \<and> r = s"
      using decodesD [of json_text plain v w r s] w(2) kw(3,4) by simp_all
    then show "kv = kw \<and> r = s" by (simp add: v w)
  qed
  show ?case
  proof (rule decodesI)
    fix w r s assume w: "plain w" "json_text (PDict kvs) @ r = json_text w @ s"
    then obtain kws where kws: "w = PDict kws"
      using json_same_kind [OF PDict.prems w] by auto
    have "join '','' (map item_text kvs) @ CHR ''}'' # r = join '','' (map item_text kws) @ CHR ''}'' # s"
      using w(2) unfolding kws json_text_dict by simp
    moreover have "list_all (decodes item_text plain_item) kvs" using item by (simp add: list_all_iff)
    moreover have "list_all plain_item kvs" "list_all plain_item kws"
      using PDict.prems w(1) unfolding kws plain_dict by simp_all
    ultimately have "kvs = kws \<and> r = s"
      by (intro join_prefix [where f = item_text and A = plain_item and c = "CHR ''}''"])
        (simp_all add: item_not_close)
    then show "PDict kvs = w \<and> r = s" by (simp add: kws)
  qed
next
  case (PInt i)
  show ?case
  proof (rule decodesI)
    fix w r s assume w: "plain w" "json_text (PInt i) @ r = json_text w @ s" "delimited r" "delimited s"
    then obtain j where "w = PInt j"
      using json_same_kind [OF PInt w(1,2)] by auto
    moreover from this w(2) have "int_text i @ r = int_text j @ s" by simp
    ultimately show "PInt i = w \<and> r = s" using int_text_prefix w(3,4) by blast
  qed
next
  case (PStr t)
  show ?case
  proof (rule decodesI)
    fix w r s assume w: "plain w" "json_text (PStr t) @ r = json_text w @ s"
    then obtain u where "w = PStr u"
      using json_same_kind [OF PStr w] by auto
    moreover from this w(2) have "json_string t @ r = json_string u @ s" by simp
    ultimately show "PStr t = w \<and> r = s" using json_string_prefix by blast
  qed
next
  case PNone
  show ?case
  proof (rule decodesI)
    fix w r s assume w: "plain w" "json_text PNone @ r = json_text w @ s"
    then have "w = PNone"
      using json_same_kind [OF PNone w] by auto
    with w show "PNone = w \<and> r = s" by simp
  qed
next
  case (PBool b)
  show ?case
  proof (rule decodesI)
    fix w r s assume w: "plain w" "json_text (PBool b) @ r = json_text w @ s"
    then have "w = PBool b"
      using json_same_kind [OF PBool w] by auto
    with w show "PBool b = w \<and> r = s" by simp
  qed
qed simp_all

theorem json_text_inj: "plain v \<Longrightarrow> plain w \<Longrightarrow> json_text v = json_text w \<Longrightarrow> v = w"
  using decodesD [OF decodes_json, of v w "[]" "[]"] by (simp add: delimited_def)

section \<open>Digests\<close>

text \<open>The values contracts are made of: no floats, and string keys throughout.\<close>

fun storable :: "pyval \<Rightarrow> bool" where
  "storable (PFloat r) = False"
| "storable (PList xs) = list_all storable xs"
| "storable (PDict kvs) = list_all (\<lambda>(k, v). is_str k \<and> storable v) kvs"
| "storable v = True"

lemma plain_canonical: "storable v \<Longrightarrow> plain (canonical v)"
proof (induction v)
  case (PDict kvs)
  have "is_str k \<and> plain (canonical v)" if "(k, v) \<in> set kvs" for k v
    using PDict that by (fastforce simp: list_all_iff)
  then show ?case by (auto simp: list_all_iff)
qed (auto simp: list_all_iff)

lemma storable_py_dict [simp]: "storable (py_dict kvs) = list_all (\<lambda>(k, v). storable v) kvs"
  by (auto simp: py_dict_def list_all_iff)

lemma storable_strings [simp]: "storable (PList (map PStr ss))"
  by (simp add: list_all_iff)

lemma storable_opt [simp]: "storable (opt_str v)"
  by (cases v) simp_all

text \<open>A digest names its value, or the two texts are a collision.\<close>

lemma canonical_json_inj:
  assumes "storable v" "storable w" "canonical_json v = canonical_json w"
  shows "canonical v = canonical w"
  using json_text_inj assms plain_canonical by (simp add: canonical_json_def)

lemma canonical_digest_binds:
  assumes "storable v" "storable w" "canonical_digest v = canonical_digest w"
  shows "canonical v = canonical w \<or> sha256_collision (canonical_json v) (canonical_json w)"
  using assms canonical_json_inj [OF assms(1,2)] unfolding sha256_collision_def canonical_digest_def by blast

text \<open>A dictionary's canonical form determines the canonical form of each of its values.\<close>

lemma canonical_dict_value:
  assumes "canonical (py_dict kvs) = canonical (py_dict kvs')" "assoc kvs k = Some v" "assoc kvs' k = Some v'"
  shows "canonical v = canonical v'"
  using getitem_canonical [of kvs k] getitem_canonical [of kvs' k] assms by simp

end
