(* ===== verification/EvidenceBinding.thy ===== *)
theory EvidenceBinding
  imports ExecutionBridge SemanticBridge CanonicalJson
begin

text \<open>
  What \<open>build_semantic_subject\<close> promises: it accepts exactly the coherent evidence of one finished run, it pairs the
  attested artifacts one to one with the proposed ones, and the subject it builds is the one M6 reviews and M7
  packages.
\<close>

section \<open>The single checks\<close>

lemma or_contract_error_Inr [res_simps]: "or_contract_error m code = Inr x \<longleftrightarrow> m = Inr x"
  by (auto simp: or_contract_error_def catch_Inr_iff split: if_split_asm)

lemma validated_packet_Inr [res_simps]:
  "validated_packet nfc p = Inr q \<longleftrightarrow> q = p \<and> task_packet_ok nfc p \<and> tp_role p = ''writer''"
  by (auto simp: validated_packet_def res_simps dest: task_packet_parsed task_packet_reparsed)

lemma validated_manifest_Inr [res_simps]:
  "validated_manifest p m = Inr q \<longleftrightarrow> q = m \<and> run_manifest_from_packet p (rm_deadline m) = Inr m"
  by (auto simp: validated_manifest_def res_simps)

lemma validated_snapshot_Inr [res_simps]: "validated_snapshot s = Inr q \<longleftrightarrow> q = s \<and> workspace_snapshot_ok s"
  by (auto simp: validated_snapshot_def res_simps dest: workspace_snapshot_parsed workspace_snapshot_reparsed)

lemma result_completed:
  assumes "workspace_result_ok nfc r"
  shows "wr_terminal_stage r = ''completed'' \<longleftrightarrow> wr_terminal_stage r = ''completed'' \<and>
    wr_m4_status r = ''ready_for_human'' \<and> wr_failure_class r = None \<and> wr_failure_reason r = None"
  using assms by (auto simp: workspace_result_ok_def disposition_ok_def)

lemma validated_result_Inr [res_simps]:
  "validated_result nfc r = Inr q \<longleftrightarrow> q = r \<and> workspace_result_ok nfc r \<and> wr_terminal_stage r = ''completed''"
proof -
  have "workspace_result_from_dict nfc (workspace_result_to_dict r) = Inr r \<longleftrightarrow> workspace_result_ok nfc r"
    using workspace_result_parsed workspace_result_reparsed by blast
  then show ?thesis
    using result_completed [of nfc r] by (auto simp: validated_result_def res_simps)
qed

text \<open>A proposal made for the run of the packet by its writer, under the key of its own content.\<close>

definition terminal_of_run :: "task_packet \<Rightarrow> terminal_proposal \<Rightarrow> bool" where
  "terminal_of_run packet t =
     (keyed (Terminal t) \<and> tm_task_id t = tp_task_id packet \<and> tm_run_id t = tp_run_id packet \<and>
      tm_packet_digest t = tp_packet_digest packet \<and> tm_fence t = tp_fence packet \<and> tm_author_role t = ''writer'' \<and>
      tm_terminal_type t = ''run.completed'' \<and> tm_failure_class t = None \<and> tm_reason t = None \<and> tm_diagnostic t = None)"

definition artifact_of_run :: "task_packet \<Rightarrow> artifact_proposal \<Rightarrow> bool" where
  "artifact_of_run packet p =
     (keyed (Artifact p) \<and> ap_task_id p = tp_task_id packet \<and> ap_run_id p = tp_run_id packet \<and>
      ap_packet_digest p = tp_packet_digest packet \<and> ap_fence p = tp_fence packet \<and> ap_author_role p = ''writer'')"

definition attestation_of_run :: "(string \<Rightarrow> bool) \<Rightarrow> task_packet \<Rightarrow> attestation \<Rightarrow> bool" where
  "attestation_of_run word packet a =
     (attestation_ok word a \<and> ar_task_id (aa_request a) = tp_task_id packet \<and>
      ar_run_id (aa_request a) = tp_run_id packet \<and> ar_repository_id (aa_request a) = tp_repository_id packet \<and>
      ar_packet_digest (aa_request a) = tp_packet_digest packet \<and>
      ar_workspace_handle (aa_request a) = tp_workspace_handle packet \<and> ar_fence (aa_request a) = tp_fence packet \<and>
      ar_author_role (aa_request a) = ''writer'')"

lemma validated_terminal_Inr [res_simps]:
  "validated_terminal packet t = Inr q \<longleftrightarrow> q = t \<and> terminal_of_run packet t"
  by (auto simp: validated_terminal_def terminal_of_run_def keyed_def res_simps)

lemma proposal_checks_Inr [res_simps]: "proposal_checks packet p = Inr u \<longleftrightarrow> artifact_of_run packet p"
  by (auto simp: proposal_checks_def artifact_of_run_def keyed_def res_simps)

lemma attestation_checks_Inr [res_simps]:
  "attestation_checks word packet a = Inr u \<longleftrightarrow> attestation_of_run word packet a"
  by (auto simp: attestation_checks_def attestation_of_run_def res_simps dest: attestation_parsed attestation_reparsed)

section \<open>Artifacts and attestations\<close>

lemma find_distinct:
  assumes "distinct (map f xs)"
  shows "find (\<lambda>x. f x = k) xs = Some y \<longleftrightarrow> y \<in> set xs \<and> f y = k"
  using assms by (induction xs) auto

definition paired :: "attestation list \<Rightarrow> artifact_proposal \<Rightarrow> bool" where
  "paired as p = (\<exists>a\<in>set as. aa_artifact_attestation_digest a = ap_artifact_attestation_digest p \<and> attests a p)"

lemma pair_checks_Inr:
  assumes "distinct (map aa_artifact_attestation_digest as)"
  shows "pair_checks as p = Inr u \<longleftrightarrow> paired as p"
proof (cases "find (\<lambda>a. aa_artifact_attestation_digest a = ap_artifact_attestation_digest p) as")
  case (Some a)
  then have a: "a \<in> set as" "aa_artifact_attestation_digest a = ap_artifact_attestation_digest p"
    by (simp_all add: find_distinct [OF assms])
  have "paired as p \<longleftrightarrow> attests a p"
    using a assms inj_onD [of aa_artifact_attestation_digest "set as"] by (metis paired_def distinct_map)
  then show ?thesis by (simp add: pair_checks_def Some res_simps)
next
  case None
  then have "\<not> paired as p" by (auto simp: find_None_iff paired_def)
  then show ?thesis by (simp add: pair_checks_def None)
qed

text \<open>The artifacts of a run: proposed under distinct keys, attested under distinct digests, each with the other.\<close>

definition artifacts_match ::
  "(string \<Rightarrow> bool) \<Rightarrow> task_packet \<Rightarrow> artifact_proposal list \<Rightarrow> attestation list \<Rightarrow> bool" where
  "artifacts_match word packet ps as =
     (length ps = length as \<and> length ps \<le> MAX_ITEMS \<and> distinct (map ap_idempotency_key ps) \<and>
      distinct (map aa_artifact_attestation_digest as) \<and> list_all (artifact_of_run packet) ps \<and>
      list_all (attestation_of_run word packet) as \<and> list_all (paired as) ps)"

lemma distinct_map_sort_key [simp]: "distinct (map f (sort_key g xs)) = distinct (map f xs)"
  by (simp add: distinct_map)

lemma paired_sort_key [simp]: "paired (sort_key f as) = paired as"
  by (simp add: paired_def fun_eq_iff)

lemma validated_artifacts_Inr [res_simps]:
  "validated_artifacts word packet ps as = Inr q \<longleftrightarrow>
     q = (sort_key ap_idempotency_key ps, sort_key aa_artifact_attestation_digest as) \<and> artifacts_match word packet ps as"
  by (auto simp: validated_artifacts_def artifacts_match_def Let_def res_simps checks_Inr_iff list_all_iff pair_checks_Inr)

section \<open>The binding and the subject\<close>

text \<open>The binding \<open>build_semantic_subject\<close> writes down for a run.\<close>

definition binding_of ::
  "task_packet \<Rightarrow> run_manifest \<Rightarrow> workspace_snapshot \<Rightarrow> workspace_result \<Rightarrow> terminal_proposal \<Rightarrow>
     artifact_proposal list \<Rightarrow> attestation list \<Rightarrow> execution_binding" where
  "binding_of packet manifest snapshot result terminal ps as =
     \<lparr>sx_schema_version = 1, sx_task_id = tp_task_id packet, sx_run_id = tp_run_id packet, sx_owner = tp_owner packet,
      sx_fence = tp_fence packet, sx_role = tp_role packet, sx_repository_id = tp_repository_id packet,
      sx_workspace_handle = tp_workspace_handle packet, sx_legacy_intent_digest = tp_legacy_intent_digest packet,
      sx_task_packet_digest = tp_packet_digest packet, sx_run_manifest_digest = rm_manifest_digest manifest,
      sx_workspace_result_digest = wr_workspace_result_digest result,
      sx_workspace_snapshot_digest = ws_workspace_snapshot_digest snapshot,
      sx_terminal_proposal_digest = tm_idempotency_key terminal,
      sx_artifact_manifest_digest = wr_artifact_manifest_digest result,
      sx_note_manifest_digest = wr_note_manifest_digest result,
      sx_usage_evidence_digest = wr_usage_evidence_digest result, sx_diagnostics_digest = wr_diagnostics_digest result,
      sx_exact_base_sha = au_exact_base_sha (tp_authority packet), sx_input_head_sha = ws_input_head_sha snapshot,
      sx_exact_head_sha = wr_exact_head_sha result, sx_terminal_stage = wr_terminal_stage result,
      sx_m4_status = wr_m4_status result, sx_failure_class = wr_failure_class result,
      sx_failure_reason = wr_failure_reason result, sx_artifact_proposal_digests = map ap_idempotency_key ps,
      sx_artifact_attestation_digests = map aa_artifact_attestation_digest as\<rparr>"

lemma binding_data_asdict:
  "binding_data packet manifest snapshot result terminal ps as =
     execution_binding_asdict (binding_of packet manifest snapshot result terminal ps as)"
  by (simp add: binding_data_def execution_binding_asdict_def execution_binding_items_def binding_of_def)

lemma opt_str_None [simp]: "opt_str v = PNone \<longleftrightarrow> v = None"
  by (cases v) simp_all

lemma execution_binding_from_asdict:
  "execution_binding_from_dict nfc (execution_binding_asdict x) = Inr y \<longleftrightarrow> y = x \<and> execution_binding_ok nfc x"
proof
  assume p: "execution_binding_from_dict nfc (execution_binding_asdict x) = Inr y"
  then have "y = x"
    unfolding execution_binding_from_dict_def execution_binding_asdict_def execution_binding_items_def
    by (elim bnd_InrE) (cases x, simp add: res_simps py_simps py_eq_str_def cong: literal_congs)
  with execution_binding_parsed [OF p] show "y = x \<and> execution_binding_ok nfc x" by simp
next
  assume *: "y = x \<and> execution_binding_ok nfc x"
  show "execution_binding_from_dict nfc (execution_binding_asdict x) = Inr y"
    unfolding execution_binding_from_dict_def execution_binding_asdict_def execution_binding_items_def
    using * [unfolded execution_binding_ok_def]
    by (simp add: execution_binding_fields_def res_simps py_simps py_eq_str_def cong: literal_congs)
qed

text \<open>The subject of the run.\<close>

definition subject_of ::
  "task_packet \<Rightarrow> workspace_snapshot \<Rightarrow> workspace_result \<Rightarrow> semantic_inputs \<Rightarrow> execution_binding \<Rightarrow> semantic_subject" where
  "subject_of packet snapshot result inputs binding =
     \<lparr>ss_schema_version = 1, ss_subject_id = ''semantic:'' @ wr_workspace_result_digest result,
      ss_requirements = si_requirements inputs, ss_exact_base_sha = au_exact_base_sha (tp_authority packet),
      ss_exact_head_sha = wr_exact_head_sha result, ss_spec_digest = au_spec_digest (tp_authority packet),
      ss_architecture_digest = au_architecture_digest (tp_authority packet),
      ss_authority_digest = packet_authority_digest packet, ss_diff_digest = ws_diff_digest snapshot,
      ss_deterministic_evidence_digest = binding_digest binding,
      ss_holdout_evidence_digest = si_holdout_evidence_digest inputs,
      ss_review_evidence_digest = si_review_evidence_digest inputs, ss_original_writer_id = tp_owner packet,
      ss_original_writer_context_digest = si_original_writer_context_digest inputs,
      ss_risk_level = si_risk_level inputs, ss_diff_lines = ws_diff_lines snapshot,
      ss_diff_limit = si_diff_limit inputs\<rparr>"

definition requirements_stable :: "(string \<Rightarrow> string) \<Rightarrow> requirement_ref list \<Rightarrow> bool" where
  "requirements_stable nfc rs = (map_res (requirement_ref_from_dict nfc) (map requirement_ref_to_dict rs) = Inr rs)"

definition subject_ok :: "(string \<Rightarrow> string) \<Rightarrow> semantic_subject \<Rightarrow> bool" where
  "subject_ok nfc x =
     (ss_schema_version x = 1 \<and> id_ok nfc (ss_subject_id x) \<and> id_ok nfc (ss_original_writer_id x) \<and>
      keys_ok requirement_key False (ss_requirements x) \<and>
      requirements_stable nfc (ss_requirements x) \<and>
      list_all (hex_string 40) [ss_exact_base_sha x, ss_exact_head_sha x] \<and>
      list_all (hex_string 64)
        [ss_spec_digest x, ss_architecture_digest x, ss_authority_digest x, ss_diff_digest x,
         ss_deterministic_evidence_digest x, ss_holdout_evidence_digest x, ss_review_evidence_digest x,
         ss_original_writer_context_digest x] \<and>
      ss_risk_level x \<in> set SUBJECT_RISKS \<and> 0 \<le> ss_diff_lines x \<and> ss_diff_lines x \<le> 1000000 \<and>
      1 \<le> ss_diff_limit x \<and> ss_diff_limit x \<le> 1000000)"

lemma requirement_ref_reparse_same:
  "requirement_ref_from_dict nfc (requirement_ref_to_dict r) = Inr q \<Longrightarrow> q = r"
  unfolding requirement_ref_from_dict_def requirement_ref_to_dict_def requirement_ref_asdict_def
  by (elim bnd_InrE) (cases r, simp add: res_simps py_simps cong: literal_congs)

lemma requirement_refs_reparse [res_simps]:
  "map_res (requirement_ref_from_dict nfc) (map requirement_ref_to_dict rs) = Inr qs \<longleftrightarrow>
     qs = rs \<and> requirements_stable nfc rs"
proof -
  have "map_res (requirement_ref_from_dict nfc) (map requirement_ref_to_dict rs) = Inr qs \<Longrightarrow> qs = rs"
    by (induction rs arbitrary: qs) (auto simp: res_simps dest: requirement_ref_reparse_same)
  then show ?thesis unfolding requirements_stable_def by blast
qed

lemma subject_data_parses:
  "semantic_subject_from_dict nfc (subject_data packet snapshot result inputs binding) = Inr s \<longleftrightarrow>
     s = subject_of packet snapshot result inputs binding \<and> subject_ok nfc s"
proof
  assume "semantic_subject_from_dict nfc (subject_data packet snapshot result inputs binding) = Inr s"
  then show "s = subject_of packet snapshot result inputs binding \<and> subject_ok nfc s"
    unfolding semantic_subject_from_dict_def subject_data_def subject_of_def subject_ok_def
    by (elim bnd_InrE) (auto simp: res_simps py_simps cong: literal_congs)
next
  assume *: "s = subject_of packet snapshot result inputs binding \<and> subject_ok nfc s"
  then have ok: "subject_ok nfc (subject_of packet snapshot result inputs binding)" by blast
  have "semantic_subject_from_dict nfc (subject_data packet snapshot result inputs binding) =
      Inr (subject_of packet snapshot result inputs binding)"
    using ok unfolding semantic_subject_from_dict_def subject_data_def subject_of_def subject_ok_def
    by (simp add: semantic_subject_fields_def res_simps py_simps cong: literal_congs)
  with * show "semantic_subject_from_dict nfc (subject_data packet snapshot result inputs binding) = Inr s" by simp
qed

section \<open>The evidence of a run\<close>

text \<open>Packet, manifest, snapshot, result and terminal proposal, each valid by itself and all of the same run.\<close>

definition run_evidence ::
  "(string \<Rightarrow> string) \<Rightarrow> task_packet \<Rightarrow> run_manifest \<Rightarrow> workspace_snapshot \<Rightarrow> workspace_result \<Rightarrow> terminal_proposal \<Rightarrow> bool" where
  "run_evidence nfc packet manifest snapshot result terminal =
     (task_packet_ok nfc packet \<and> tp_role packet = ''writer'' \<and> tp_fence packet \<le> 2 ^ 63 - 1 \<and>
      run_manifest_from_packet packet (rm_deadline manifest) = Inr manifest \<and> workspace_snapshot_ok snapshot \<and>
      workspace_result_ok nfc result \<and> wr_terminal_stage result = ''completed'' \<and>
      id_ok nfc (''semantic:'' @ wr_workspace_result_digest result) \<and> terminal_of_run packet terminal \<and>
      wr_task_id result = tp_task_id packet \<and> wr_run_id result = tp_run_id packet \<and>
      wr_task_packet_digest result = tp_packet_digest packet \<and>
      wr_run_manifest_digest result = rm_manifest_digest manifest \<and>
      wr_terminal_proposal_digest result = tm_idempotency_key terminal \<and>
      ws_repository_id snapshot = tp_repository_id packet \<and> ws_workspace_handle snapshot = tp_workspace_handle packet \<and>
      ws_input_head_sha snapshot = au_exact_head_sha (tp_authority packet) \<and>
      ws_result_head_sha snapshot = wr_exact_head_sha result \<and>
      ws_workspace_snapshot_digest snapshot = wr_workspace_snapshot_digest result)"

text \<open>Its artifacts: matched, in the order of their keys the manifest of the result, all before the terminal.\<close>

definition artifact_evidence ::
  "(string \<Rightarrow> bool) \<Rightarrow> task_packet \<Rightarrow> workspace_result \<Rightarrow> terminal_proposal \<Rightarrow>
     artifact_proposal list \<Rightarrow> attestation list \<Rightarrow> bool" where
  "artifact_evidence word packet result terminal ps as =
     (artifacts_match word packet ps as \<and> distinct (map ap_sequence ps) \<and>
      list_all (\<lambda>p. ap_sequence p < tm_sequence terminal) ps \<and>
      workspace_evidence_digest ''artifacts'' (sort (map ap_idempotency_key ps)) = Inr (wr_artifact_manifest_digest result))"

text \<open>The inputs of the review: for this result, with the acceptance criteria of the packet.\<close>

definition review_inputs ::
  "(string \<Rightarrow> string) \<Rightarrow> task_packet \<Rightarrow> workspace_result \<Rightarrow> semantic_inputs \<Rightarrow> bool" where
  "review_inputs nfc packet result inputs =
     (si_workspace_result_digest inputs = wr_workspace_result_digest result \<and>
      {rr_requirement_id r |r. r \<in> set (si_requirements inputs) \<and> rr_kind r = ''acceptance_criterion''} =
        set (tp_acceptance_ids packet) \<and>
      keys_ok requirement_key False (si_requirements inputs) \<and> requirements_stable nfc (si_requirements inputs) \<and>
      list_all (hex_string 64)
        [si_holdout_evidence_digest inputs, si_review_evidence_digest inputs, si_original_writer_context_digest inputs] \<and>
      si_risk_level inputs \<in> set SUBJECT_RISKS \<and> 1 \<le> si_diff_limit inputs \<and> si_diff_limit inputs \<le> 1000000)"

definition bridge_result_of ::
  "task_packet \<Rightarrow> run_manifest \<Rightarrow> workspace_snapshot \<Rightarrow> workspace_result \<Rightarrow> terminal_proposal \<Rightarrow>
     artifact_proposal list \<Rightarrow> attestation list \<Rightarrow> semantic_inputs \<Rightarrow> bridge_result" where
  "bridge_result_of packet manifest snapshot result terminal ps as inputs =
     (let binding = binding_of packet manifest snapshot result terminal
          (sort_key ap_idempotency_key ps) (sort_key aa_artifact_attestation_digest as)
      in \<lparr>br_binding = binding, br_inputs = inputs, br_subject = subject_of packet snapshot result inputs binding\<rparr>)"

lemma authority_hex:
  assumes "authority_binding_from_dict nfc d = Inr a"
  shows "hex_string 40 (au_exact_base_sha a)" "hex_string 40 (au_exact_head_sha a)"
    "hex_string 64 (au_spec_digest a)" "hex_string 64 (au_architecture_digest a)"
  using assms unfolding authority_binding_from_dict_def
  by (elim bnd_InrE; simp only: res_simps sum.inject hexpat_len.simps; elim exE conjE; hypsubst; simp)+

lemma map_sort_key: "map f (sort_key f xs) = sort (map f xs)"
  by (rule properties_for_sort [symmetric]) simp_all

lemma artifact_digests_ok:
  assumes "artifacts_match word packet ps as"
  shows "digests_ok (sort (map ap_idempotency_key ps))" "digests_ok (sort (map aa_artifact_attestation_digest as))"
proof -
  have "hex_string 64 (ap_idempotency_key p)" if "p \<in> set ps" for p
    using assms that keyed_hex [of "Artifact p"] by (auto simp: artifacts_match_def list_all_iff artifact_of_run_def)
  moreover have "hex_string 64 (aa_artifact_attestation_digest a)" if "a \<in> set as" for a
    using assms that by (auto simp: artifacts_match_def list_all_iff attestation_of_run_def attestation_ok_def
        attestation_digest_of_def)
  ultimately show "digests_ok (sort (map ap_idempotency_key ps))"
    "digests_ok (sort (map aa_artifact_attestation_digest as))"
    using assms by (auto simp: digests_ok_def artifacts_match_def list_all_iff)
qed

lemma binding_of_ok:
  assumes "run_evidence nfc packet manifest snapshot result terminal" "artifacts_match word packet ps as"
  shows "execution_binding_ok nfc (binding_of packet manifest snapshot result terminal
    (sort_key ap_idempotency_key ps) (sort_key aa_artifact_attestation_digest as))"
proof -
  note ev = assms(1) [unfolded run_evidence_def]
  have packet: "task_packet_ok nfc packet" and result: "workspace_result_ok nfc result"
    and snapshot: "workspace_snapshot_ok snapshot" and terminal: "terminal_of_run packet terminal"
    and stage: "wr_terminal_stage result = ''completed''"
    and manifest: "run_manifest_from_packet packet (rm_deadline manifest) = Inr manifest"
    using ev by simp_all
  obtain d where "authority_binding_from_dict nfc d = Inr (tp_authority packet)"
    using packet by (auto simp: task_packet_ok_def)
  note authority = authority_hex [OF this]
  have ids: "id_ok nfc (tp_task_id packet)" "id_ok nfc (tp_run_id packet)" "id_ok nfc (tp_owner packet)"
    "id_ok nfc (tp_repository_id packet)" "1 \<le> tp_fence packet" "WORKSPACE_match (tp_workspace_handle packet)"
    "hex_string 64 (tp_legacy_intent_digest packet)" "hex_string 64 (tp_packet_digest packet)"
    using packet by (simp_all add: task_packet_ok_def packet_digest_of_def)
  have digests: "hex_string 64 (wr_workspace_result_digest result)" "hex_string 64 (wr_artifact_manifest_digest result)"
    "hex_string 64 (wr_note_manifest_digest result)" "hex_string 64 (wr_usage_evidence_digest result)"
    "hex_string 64 (wr_diagnostics_digest result)" "hex_string 40 (wr_exact_head_sha result)"
    using result by (simp_all add: workspace_result_ok_def workspace_result_digest_of_def)
  have snap: "hex_string 64 (ws_workspace_snapshot_digest snapshot)" "hex_string 40 (ws_input_head_sha snapshot)"
    using snapshot by (simp_all add: workspace_snapshot_ok_def snapshot_digest_of_def)
  have "hex_string 64 (tm_idempotency_key terminal)"
    using keyed_hex [of "Terminal terminal"] terminal by (simp add: terminal_of_run_def)
  moreover have "hex_string 64 (rm_manifest_digest manifest)" by (rule run_manifest_fields(6) [OF manifest])
  moreover have "wr_m4_status result = ''ready_for_human'' \<and> wr_failure_class result = None \<and> wr_failure_reason result = None"
    using result_completed [OF result] stage by simp
  ultimately show ?thesis
    using ev ids digests snap authority stage artifact_digests_ok [OF assms(2)] assms(2)
    by (simp add: execution_binding_ok_def binding_of_def map_sort_key artifacts_match_def)
qed

lemma subject_of_ok:
  assumes "run_evidence nfc packet manifest snapshot result terminal"
  shows "subject_ok nfc (subject_of packet snapshot result inputs binding) \<longleftrightarrow>
    keys_ok requirement_key False (si_requirements inputs) \<and> requirements_stable nfc (si_requirements inputs) \<and>
    list_all (hex_string 64)
      [si_holdout_evidence_digest inputs, si_review_evidence_digest inputs, si_original_writer_context_digest inputs] \<and>
    si_risk_level inputs \<in> set SUBJECT_RISKS \<and> 1 \<le> si_diff_limit inputs \<and> si_diff_limit inputs \<le> 1000000"
proof -
  note ev = assms [unfolded run_evidence_def]
  obtain d where "authority_binding_from_dict nfc d = Inr (tp_authority packet)"
    using ev by (auto simp: task_packet_ok_def)
  note authority = authority_hex [OF this]
  have "id_ok nfc (''semantic:'' @ wr_workspace_result_digest result)" "id_ok nfc (tp_owner packet)"
    "hex_string 40 (wr_exact_head_sha result)" "hex_string 64 (ws_diff_digest snapshot)"
    "0 \<le> ws_diff_lines snapshot" "ws_diff_lines snapshot \<le> 1000000"
    using ev by (auto simp: task_packet_ok_def workspace_result_ok_def workspace_snapshot_ok_def)
  then show ?thesis
    using authority by (auto simp: subject_ok_def subject_of_def packet_authority_digest_def binding_digest_def
        contract_digest_def)
qed

lemma bundle_checks_Inr [res_simps]:
  "bundle_checks packet manifest snapshot result terminal ps inputs = Inr u \<longleftrightarrow>
     wr_task_id result = tp_task_id packet \<and> wr_run_id result = tp_run_id packet \<and>
     wr_task_packet_digest result = tp_packet_digest packet \<and>
     wr_run_manifest_digest result = rm_manifest_digest manifest \<and>
     ws_repository_id snapshot = tp_repository_id packet \<and> ws_workspace_handle snapshot = tp_workspace_handle packet \<and>
     ws_input_head_sha snapshot = au_exact_head_sha (tp_authority packet) \<and>
     ws_result_head_sha snapshot = wr_exact_head_sha result \<and>
     ws_workspace_snapshot_digest snapshot = wr_workspace_snapshot_digest result \<and>
     wr_terminal_proposal_digest result = tm_idempotency_key terminal \<and>
     workspace_evidence_digest ''artifacts'' (map ap_idempotency_key ps) = Inr (wr_artifact_manifest_digest result) \<and>
     si_workspace_result_digest inputs = wr_workspace_result_digest result \<and>
     {rr_requirement_id r |r. r \<in> set (si_requirements inputs) \<and> rr_kind r = ''acceptance_criterion''} =
       set (tp_acceptance_ids packet)"
proof -
  have "set (map rr_requirement_id (filter (\<lambda>r. rr_kind r = ''acceptance_criterion'') (si_requirements inputs))) =
      {rr_requirement_id r |r. r \<in> set (si_requirements inputs) \<and> rr_kind r = ''acceptance_criterion''}"
    by auto
  then show ?thesis unfolding bundle_checks_def bnd_Inr_iff ensure_Inr_iff by auto
qed

end
