(* ===== verification/RunExample.thy ===== *)
theory RunExample
  imports EvidenceBinding
begin

text \<open>
  The evidence of one finished run: a packet, its manifest, the snapshot and the result, one artifact with its
  attestation, the terminal proposal and the inputs of the review.  The properties of the bridge are applied to
  it, with the identity for the normalisation of texts and no word characters outside ASCII.
\<close>

definition run_digest :: "char \<Rightarrow> string" where "run_digest c = replicate 64 c"

definition run_sha :: "char \<Rightarrow> string" where "run_sha c = replicate 40 c"

definition run_workspace :: string where "run_workspace = ''workspace:'' @ run_digest (CHR ''9'')"

section \<open>The packet and its manifest\<close>

definition run_authority :: authority_binding where
  "run_authority =
     \<lparr>au_exact_base_sha = run_sha (CHR ''1''), au_exact_head_sha = run_sha (CHR ''2''), au_route_id = ''route'',
      au_change_id = ''change'', au_spec_digest = run_digest (CHR ''3''), au_architecture_digest = run_digest (CHR ''4''),
      au_governance_digest = run_digest (CHR ''5''), au_policy_digest = run_digest (CHR ''6''),
      au_prompt_template_digest = run_digest (CHR ''7''), au_role_definition_digest = run_digest (CHR ''8''),
      au_tool_policy_digest = run_digest (CHR ''9''), au_output_schema_digest = run_digest (CHR ''a'')\<rparr>"

definition run_provider :: provider_profile where
  "run_provider =
     \<lparr>pp_provider_id = ''provider'', pp_adapter_id = ''adapter'', pp_adapter_version = ''1.0'',
      pp_adapter_digest = run_digest (CHR ''1''), pp_native_version = ''2.0'', pp_native_digest = run_digest (CHR ''2''),
      pp_model_id = ''model'', pp_capabilities = [''artifacts'', ''notes''], pp_eligible = True\<rparr>"

definition run_policy :: capability_policy where
  "run_policy =
     \<lparr>cp_allowed_paths = [''src''], cp_allowed_tools = [], cp_network_destinations = [],
      cp_artifact_classes = [''patch''], cp_environment_names = []\<rparr>"

definition run_stage :: "string \<Rightarrow> execution_stage" where
  "run_stage name = \<lparr>st_name = name, st_owner = ''broker'', st_wall_seconds = 60\<rparr>"

definition run_plan :: execution_plan where
  "run_plan = \<lparr>pl_stages = map run_stage STAGES\<rparr>"

definition run_limits :: task_limits where
  "run_limits =
     \<lparr>tl_wall_seconds = 600, tl_max_cost_usd_micros = 1, tl_max_token_units = 1, tl_max_output_bytes = 1,
      tl_max_events = 1, tl_infrastructure_retries = 0, tl_semantic_repairs = 1\<rparr>"

definition run_packet :: task_packet where
  "run_packet = seal_packet
     \<lparr>tp_contract_version = 1, tp_protocol_version = PROTOCOL_VERSION, tp_task_id = ''task'', tp_run_id = ''run'',
      tp_owner = ''owner'', tp_fence = 7, tp_role = ''writer'', tp_repository_id = ''repo'',
      tp_legacy_intent_digest = run_digest (CHR ''b''), tp_authority = run_authority, tp_provider = run_provider,
      tp_capability_policy = run_policy, tp_plan = run_plan, tp_workspace_handle = run_workspace,
      tp_acceptance_ids = [''AC-001''], tp_limits = run_limits, tp_packet_digest = []\<rparr>"

lemma run_chars [simp]:
  "is_hex (CHR ''1'')" "is_hex (CHR ''2'')" "is_hex (CHR ''3'')" "is_hex (CHR ''4'')" "is_hex (CHR ''5'')"
  "is_hex (CHR ''6'')" "is_hex (CHR ''7'')" "is_hex (CHR ''8'')" "is_hex (CHR ''9'')" "is_hex (CHR ''a'')"
  "is_hex (CHR ''b'')" "is_hex (CHR ''c'')" "is_hex (CHR ''d'')"
  by (simp_all add: is_hex_def digits_chars_def)

lemma run_hex [simp]: "is_hex c \<Longrightarrow> hex_string 64 (run_digest c)" "is_hex c \<Longrightarrow> hex_string 40 (run_sha c)"
  by (simp_all add: run_digest_def run_sha_def)

lemma run_workspace_ok [simp]: "WORKSPACE_match run_workspace"
  by (simp add: WORKSPACE_match_def run_workspace_def)

lemma run_ids [simp]:
  "id_ok (\<lambda>s. s) ''task''" "id_ok (\<lambda>s. s) ''run''" "id_ok (\<lambda>s. s) ''owner''" "id_ok (\<lambda>s. s) ''repo''"
  "id_ok (\<lambda>s. s) ''route''" "id_ok (\<lambda>s. s) ''change''" "id_ok (\<lambda>s. s) ''provider''" "id_ok (\<lambda>s. s) ''adapter''"
  "id_ok (\<lambda>s. s) ''model''" "id_ok (\<lambda>s. s) ''artifacts''" "id_ok (\<lambda>s. s) ''notes''" "id_ok (\<lambda>s. s) ''patch''"
  "id_ok (\<lambda>s. s) ''prepare''" "id_ok (\<lambda>s. s) ''invoke''" "id_ok (\<lambda>s. s) ''collect''" "id_ok (\<lambda>s. s) ''finalize''"
  "id_ok (\<lambda>s. s) ''broker''" "id_ok (\<lambda>s. s) ''AC-001''"
  by (simp_all add: id_ok_iff ID_match_def ident_match_def is_alnum_def digits_chars_def lower_chars_def
      upper_chars_def)

lemma run_authority_ok:
  "authority_binding_from_dict (\<lambda>s. s) (authority_binding_asdict run_authority) = Inr run_authority"
  by (simp add: authority_binding_from_dict_def authority_binding_asdict_def authority_binding_fields_def
      run_authority_def res_simps py_simps cong: literal_congs)

lemma run_versions: "version_ok (\<lambda>s. s) ''1.0'' \<and> version_ok (\<lambda>s. s) ''2.0''"
  by code_simp

lemma run_provider_ok:
  "provider_profile_from_dict (\<lambda>s. s) (provider_profile_asdict run_provider) = Inr run_provider"
proof -
  have "names_ok (\<lambda>s. s) [''artifacts'', ''notes'']" by (simp add: names_ok_def)
  then show ?thesis
    using run_versions by (simp add: provider_profile_from_dict_def provider_profile_asdict_def
        provider_profile_fields_def run_provider_def res_simps py_simps cong: literal_congs)
qed

lemma run_policy_ok:
  "capability_policy_from_dict (\<lambda>s. s) (capability_policy_asdict run_policy) = Inr run_policy"
proof -
  have "names_ok (\<lambda>s. s) [''patch'']" "names_ok (\<lambda>s. s) []" by (simp_all add: names_ok_def)
  moreover have "path_list (\<lambda>s. s) (PList [PStr ''src'']) = Inr [''src'']" by code_simp
  ultimately show ?thesis
    by (simp add: capability_policy_from_dict_def capability_policy_asdict_def capability_policy_fields_def
        run_policy_def exec_sorted_unique_Inr res_simps(1-5) py_simps exec_closed_Inr cong: literal_congs)
qed

lemma run_stage_ok:
  "name \<in> set STAGES \<Longrightarrow>
     execution_stage_from_dict (\<lambda>s. s) (execution_stage_asdict (run_stage name)) = Inr (run_stage name)"
  by (auto simp: execution_stage_from_dict_def execution_stage_asdict_def execution_stage_fields_def run_stage_def
      STAGES_def OWNERS_def res_simps py_simps cong: literal_congs)

lemma run_plan_ok:
  "execution_plan_from_dict (\<lambda>s. s) (execution_plan_asdict run_plan) = Inr run_plan"
proof -
  have "map_res (execution_stage_from_dict (\<lambda>s. s)) (map execution_stage_asdict (map run_stage ns)) = Inr (map run_stage ns)"
    if "set ns \<subseteq> set STAGES" for ns
    using that by (induction ns) (auto simp: run_stage_ok)
  moreover have "map st_name (map run_stage STAGES) = STAGES" by (simp add: run_stage_def comp_def)
  ultimately show ?thesis
    by (simp add: execution_plan_from_dict_def execution_plan_asdict_def execution_plan_fields_def run_plan_def
        res_simps py_simps cong: literal_congs)
qed

lemma run_limits_ok: "task_limits_from_dict (task_limits_asdict run_limits) = Inr run_limits"
  by (simp add: task_limits_from_dict_def task_limits_asdict_def task_limits_fields_def run_limits_def
      task_limits_default_def res_simps py_simps cong: literal_congs)

lemma run_packet_ok: "task_packet_ok (\<lambda>s. s) run_packet"
proof -
  have "plan_seconds run_plan \<le> tl_wall_seconds run_limits"
    by (simp add: plan_seconds_def run_plan_def STAGES_def run_stage_def run_limits_def)
  moreover have "names_ok (\<lambda>s. s) [''AC-001'']" by (simp add: names_ok_def)
  ultimately show ?thesis
    using run_authority_ok run_provider_ok run_policy_ok run_plan_ok run_limits_ok
    by (auto simp: task_packet_ok_def run_packet_def seal_packet_def packet_digest_of_def task_packet_values_def)
qed

definition run_manifest :: run_manifest where
  "run_manifest =
     (let m = \<lparr>rm_contract_version = 1, rm_task_id = ''task'', rm_run_id = ''run'',
           rm_packet_digest = tp_packet_digest run_packet, rm_provider_id = ''provider'', rm_adapter_id = ''adapter'',
           rm_native_version = ''2.0'', rm_model_id = ''model'', rm_workspace_handle = run_workspace,
           rm_deadline = ''2026-01-02T03:04:05Z'', rm_stage = ''prepared'', rm_manifest_digest = []\<rparr>
      in m\<lparr>rm_manifest_digest := manifest_digest_of m\<rparr>)"

lemma run_manifest_built: "run_manifest_from_packet run_packet ''2026-01-02T03:04:05Z'' = Inr run_manifest"
proof -
  have "time_field (PStr ''2026-01-02T03:04:05Z'') ''deadline'' = Inr (DateTime 2026 1 2 3 4 5 0)" by code_simp
  moreover have "timestamp_text (DateTime 2026 1 2 3 4 5 0) = ''2026-01-02T03:04:05Z''" by code_simp
  moreover have "tp_task_id run_packet = ''task''" "tp_run_id run_packet = ''run''"
    "tp_provider run_packet = run_provider" "tp_workspace_handle run_packet = run_workspace"
    by (simp_all add: run_packet_def seal_packet_def)
  ultimately show ?thesis
    by (simp add: run_manifest_from_packet_def as_execution_error_def run_manifest_def Let_def run_provider_def)
qed

section \<open>What the run left\<close>

definition run_snapshot :: workspace_snapshot where
  "run_snapshot = seal_snapshot
     \<lparr>ws_contract_version = 1, ws_repository_id = ''repo'', ws_workspace_handle = run_workspace,
      ws_input_head_sha = run_sha (CHR ''2''), ws_result_head_sha = run_sha (CHR ''3''),
      ws_diff_digest = run_digest (CHR ''1''), ws_diff_lines = 12, ws_source = ''trusted_git_broker'',
      ws_workspace_snapshot_digest = []\<rparr>"

definition run_attestation :: attestation where
  "run_attestation = seal_attestation
     \<lparr>aa_contract_version = 1,
      aa_request = \<lparr>ar_task_id = ''task'', ar_run_id = ''run'', ar_repository_id = ''repo'',
        ar_packet_digest = tp_packet_digest run_packet, ar_workspace_handle = run_workspace, ar_producer_sequence = 3,
        ar_fence = 7, ar_author_role = ''writer'', ar_artifact_class = ''patch'', ar_path = ''src/game.py'',
        ar_sha256 = run_digest (CHR ''c''), ar_size_bytes = 42, ar_media_type = ''text/x-python''\<rparr>,
      aa_source = ''trusted_workspace_broker'', aa_artifact_attestation_digest = []\<rparr>"

definition key_of :: "proposal \<Rightarrow> string" where
  "key_of p = (case proposal_idempotency_key p of Inr k \<Rightarrow> k | Inl e \<Rightarrow> [])"

definition run_artifact :: artifact_proposal where
  "run_artifact =
     (let p = \<lparr>ap_task_id = ''task'', ap_run_id = ''run'', ap_packet_digest = tp_packet_digest run_packet, ap_fence = 7,
           ap_sequence = 3, ap_author_role = ''writer'', ap_artifact_class = ''patch'', ap_path = ''src/game.py'',
           ap_sha256 = run_digest (CHR ''c''), ap_size_bytes = 42, ap_media_type = ''text/x-python'',
           ap_artifact_attestation_digest = aa_artifact_attestation_digest run_attestation, ap_idempotency_key = []\<rparr>
      in p\<lparr>ap_idempotency_key := key_of (Artifact p)\<rparr>)"

definition run_terminal :: terminal_proposal where
  "run_terminal =
     (let t = \<lparr>tm_task_id = ''task'', tm_run_id = ''run'', tm_packet_digest = tp_packet_digest run_packet, tm_fence = 7,
           tm_sequence = 4, tm_author_role = ''writer'', tm_terminal_type = ''run.completed'', tm_summary = ''done'',
           tm_failure_class = None, tm_reason = None, tm_diagnostic = None, tm_idempotency_key = []\<rparr>
      in t\<lparr>tm_idempotency_key := key_of (Terminal t)\<rparr>)"

definition run_result :: workspace_result where
  "run_result = seal_result
     \<lparr>wr_contract_version = 1, wr_task_id = ''task'', wr_run_id = ''run'',
      wr_task_packet_digest = tp_packet_digest run_packet, wr_run_manifest_digest = rm_manifest_digest run_manifest,
      wr_exact_head_sha = run_sha (CHR ''3''),
      wr_workspace_snapshot_digest = ws_workspace_snapshot_digest run_snapshot, wr_terminal_stage = ''completed'',
      wr_terminal_proposal_digest = tm_idempotency_key run_terminal,
      wr_artifact_manifest_digest = execution_digest ''adaptive-factory.workspace-artifacts/v1''
        (PList [PStr (ap_idempotency_key run_artifact)]),
      wr_note_manifest_digest = run_digest (CHR ''1''), wr_usage_evidence_digest = run_digest (CHR ''2''),
      wr_diagnostics_digest = run_digest (CHR ''3''), wr_m4_status = ''ready_for_human'', wr_failure_class = None,
      wr_failure_reason = None, wr_workspace_result_digest = []\<rparr>"

definition run_inputs :: semantic_inputs where
  "run_inputs =
     \<lparr>si_schema_version = 1, si_workspace_result_digest = wr_workspace_result_digest run_result,
      si_requirements = [\<lparr>rr_kind = ''acceptance_criterion'', rr_requirement_id = ''AC-001''\<rparr>],
      si_holdout_evidence_digest = run_digest (CHR ''4''), si_review_evidence_digest = run_digest (CHR ''5''),
      si_original_writer_context_digest = run_digest (CHR ''6''), si_risk_level = ''low'', si_diff_limit = 100\<rparr>"

section \<open>It is coherent\<close>

lemma run_packet_fields [simp]:
  "tp_task_id run_packet = ''task''" "tp_run_id run_packet = ''run''" "tp_owner run_packet = ''owner''"
  "tp_fence run_packet = 7" "tp_role run_packet = ''writer''" "tp_repository_id run_packet = ''repo''"
  "tp_workspace_handle run_packet = run_workspace" "tp_authority run_packet = run_authority"
  "tp_acceptance_ids run_packet = [''AC-001'']" "hex_string 64 (tp_packet_digest run_packet)"
  by (simp_all add: run_packet_def seal_packet_def packet_digest_of_def)

lemma hex_string_semantic: "hex_string 64 s \<Longrightarrow> id_ok (\<lambda>s. s) (''semantic:'' @ s)"
proof -
  have "is_hex c \<Longrightarrow> is_alnum c" for c by (auto simp: is_hex_def is_alnum_def lower_chars_def)
  then show "hex_string 64 s \<Longrightarrow> id_ok (\<lambda>s. s) (''semantic:'' @ s)"
    by (auto simp: id_ok_iff ID_match_def ident_match_def hex_string_def list_all_iff)
      (simp_all add: is_alnum_def lower_chars_def)
qed

lemma run_evidence_holds: "run_evidence (\<lambda>s. s) run_packet run_manifest run_snapshot run_result run_terminal"
proof -
  have manifest: "run_manifest_from_packet run_packet (rm_deadline run_manifest) = Inr run_manifest"
    by (rule run_manifest_again [OF run_manifest_built])
  have "\<not> has_surrogate (tp_packet_digest run_packet)" by (rule hex_no_surrogate) (rule run_packet_fields)
  then have terminal: "terminal_of_run run_packet run_terminal"
    unfolding terminal_of_run_def run_terminal_def Let_def
    by (simp add: keyed_def key_of_def proposal_key_def unchecked_digest_def literal_no_surrogate
        del: has_surrogate.simps)
  have result: "workspace_result_ok (\<lambda>s. s) run_result"
    using run_manifest_fields(6) [OF run_manifest_built] keyed_hex [of "Terminal run_terminal"] terminal
    by (simp add: workspace_result_ok_def run_result_def seal_result_def workspace_result_digest_of_def
        workspace_result_values_def disposition_ok_def terminal_of_run_def run_snapshot_def seal_snapshot_def
        snapshot_digest_of_def)
  have "id_ok (\<lambda>s. s) (''semantic:'' @ wr_workspace_result_digest run_result)"
    using hex_string_semantic by (simp add: run_result_def seal_result_def workspace_result_digest_of_def)
  moreover have "workspace_snapshot_ok run_snapshot"
    by (simp add: workspace_snapshot_ok_def run_snapshot_def seal_snapshot_def snapshot_digest_of_def
        run_ids(4) [unfolded id_ok_iff, THEN conjunct1])
  ultimately show ?thesis
    using run_packet_ok manifest terminal result
    by (simp add: run_evidence_def run_result_def seal_result_def run_snapshot_def seal_snapshot_def run_authority_def)
qed


lemma run_artifacts_hold: "artifact_evidence (\<lambda>_. False) run_packet run_result run_terminal [run_artifact] [run_attestation]"
proof -
  have "artifact_path (\<lambda>_. False) ''src/game.py''" by code_simp
  moreover have "MEDIA_TYPE_match ''text/x-python''" by code_simp
  moreover have ids: "ID_match ''task''" "ID_match ''run''" "ID_match ''repo''" "ID_match ''patch''"
    by (simp_all add: ID_match_def ident_match_def is_alnum_def digits_chars_def lower_chars_def upper_chars_def)
  ultimately have attestation: "attestation_of_run (\<lambda>_. False) run_packet run_attestation"
    by (simp add: attestation_of_run_def attestation_ok_def attestation_request_ok_def run_attestation_def
        seal_attestation_def attestation_digest_of_def attestation_items_def ids)
  have "hex_string 64 (aa_artifact_attestation_digest run_attestation)"
    by (simp add: run_attestation_def seal_attestation_def attestation_digest_of_def)
  then have "\<not> has_surrogate (tp_packet_digest run_packet)" "\<not> has_surrogate (run_digest (CHR ''c''))"
    "\<not> has_surrogate (aa_artifact_attestation_digest run_attestation)"
    by (auto intro!: hex_no_surrogate [of 64])
  then have artifact: "artifact_of_run run_packet run_artifact"
    unfolding artifact_of_run_def run_artifact_def Let_def
    by (simp add: keyed_def key_of_def proposal_key_def unchecked_digest_def literal_no_surrogate
        del: has_surrogate.simps)
  then have hex: "hex_string 64 (ap_idempotency_key run_artifact)"
    using keyed_hex [of "Artifact run_artifact"] by (simp add: artifact_of_run_def)
  have "paired [run_attestation] run_artifact"
    by (simp add: paired_def attests_def run_artifact_def run_attestation_def seal_attestation_def Let_def)
  moreover have "ap_sequence run_artifact < tm_sequence run_terminal"
    by (simp add: run_artifact_def run_terminal_def Let_def)
  moreover have "workspace_evidence_digest ''artifacts'' [ap_idempotency_key run_artifact] =
      Inr (wr_artifact_manifest_digest run_result)"
    unfolding workspace_evidence_digest_Inr using hex by (simp add: run_result_def seal_result_def)
  ultimately show ?thesis
    using artifact attestation by (simp add: artifact_evidence_def artifacts_match_def MAX_ITEMS_def)
qed

lemma run_inputs_hold: "review_inputs (\<lambda>s. s) run_packet run_result run_inputs"
proof -
  have "requirements_stable (\<lambda>s. s) (si_requirements run_inputs)"
    by (simp add: requirements_stable_def run_inputs_def requirement_ref_from_dict_def requirement_ref_to_dict_def
        requirement_ref_asdict_def requirement_ref_fields_def res_simps py_simps REQUIREMENT_KINDS_def cong: literal_congs)
  then show ?thesis
    by (auto simp: review_inputs_def run_inputs_def keys_ok_def MAX_ITEMS_def SUBJECT_RISKS_def)
qed

end
