(* ===== verification/ExecutionProperties.thy ===== *)
theory ExecutionProperties
  imports RunExample
begin

text \<open>
  What a parsed task packet and a parsed workspace result are: the types of their fields, the plan within its
  limits, the closed dispositions of a run, and the round trip through their dictionaries.
\<close>

section \<open>Parts of a packet\<close>

lemma plan_facts:
  assumes "execution_plan_from_dict nfc d = Inr x"
  shows "map st_name (pl_stages x) = STAGES"
    "\<forall>s\<in>set (pl_stages x). st_owner s \<in> set OWNERS \<and> 1 \<le> st_wall_seconds s \<and> st_wall_seconds s \<le> 14400"
proof -
  have stage: "st_owner s \<in> set OWNERS \<and> 1 \<le> st_wall_seconds s \<and> st_wall_seconds s \<le> 14400"
    if "execution_stage_from_dict nfc e = Inr s" for e s
    using that unfolding execution_stage_from_dict_def
    by (elim bnd_InrE, simp only: res_simps sum.inject, elim exE conjE, hypsubst, simp)
  obtain items where m: "map_res (execution_stage_from_dict nfc) items = Inr (pl_stages x)"
    and n: "map st_name (pl_stages x) = STAGES"
    using assms unfolding execution_plan_from_dict_def by (elim bnd_InrE) (auto simp: ensure_Inr_iff)
  show "map st_name (pl_stages x) = STAGES" by (rule n)
  show "\<forall>s\<in>set (pl_stages x). st_owner s \<in> set OWNERS \<and> 1 \<le> st_wall_seconds s \<and> st_wall_seconds s \<le> 14400"
    using stage map_res_set [OF m] by blast
qed

lemma policy_facts:
  assumes "capability_policy_from_dict nfc d = Inr c"
  shows "cp_network_destinations c = []" "list_all relative_path (cp_allowed_paths c)"
  using assms unfolding capability_policy_from_dict_def
  by (elim bnd_InrE; auto simp: field_Inr path_list_Inr)+

lemma provider_facts: "provider_profile_from_dict nfc d = Inr p \<Longrightarrow> pp_eligible p"
  unfolding provider_profile_from_dict_def by (elim bnd_InrE) auto

lemma limits_wall: "task_limits_from_dict d = Inr l \<Longrightarrow> tl_wall_seconds l \<le> 14400"
  unfolding task_limits_from_dict_def by (elim bnd_InrE) (auto simp: field_Inr limit_field_Inr task_limits_default_def)

section \<open>Properties\<close>

text \<open>C16: What a parsed task packet is: the packet of the four stages in their order, each with a known owner and at least
  a second, together within the wall clock of at most four hours; an eligible provider, no network destination, only
  relative allowed paths; and the digest of its own fields.\<close>

theorem task_packet_typed:
  assumes "task_packet_from_dict nfc d = Inr p"
  shows "tp_role p \<in> {''reader'', ''writer''} \<and> 1 \<le> tp_fence p \<and>
    map st_name (pl_stages (tp_plan p)) = [''prepare'', ''invoke'', ''collect'', ''finalize''] \<and>
    (\<forall>s\<in>set (pl_stages (tp_plan p)). st_owner s \<in> {''broker'', ''adapter'', ''control_plane''} \<and> 1 \<le> st_wall_seconds s) \<and>
    plan_seconds (tp_plan p) \<le> tl_wall_seconds (tp_limits p) \<and> tl_wall_seconds (tp_limits p) \<le> 14400 \<and>
    pp_eligible (tp_provider p) \<and> cp_network_destinations (tp_capability_policy p) = [] \<and>
    list_all relative_path (cp_allowed_paths (tp_capability_policy p)) \<and>
    tp_packet_digest p = packet_digest_of p"
proof -
  have ok: "task_packet_ok nfc p" using assms by (rule task_packet_parsed)
  then obtain a b c e where parts: "execution_plan_from_dict nfc a = Inr (tp_plan p)"
    "capability_policy_from_dict nfc b = Inr (tp_capability_policy p)"
    "provider_profile_from_dict nfc c = Inr (tp_provider p)" "task_limits_from_dict e = Inr (tp_limits p)"
    unfolding task_packet_ok_def by blast
  show ?thesis
    using ok plan_facts [OF parts(1)] policy_facts [OF parts(2)] provider_facts [OF parts(3)] limits_wall [OF parts(4)]
    by (auto simp: task_packet_ok_def STAGES_def OWNERS_def)
qed

theorem task_packet_typed_witness:
  "plan_seconds (tp_plan run_packet) \<le> 14400 \<and> tp_packet_digest run_packet = packet_digest_of run_packet"
  using task_packet_typed [OF task_packet_reparsed [OF run_packet_ok]] by linarith

text \<open>C18: Packets and results survive their dictionaries: a packet is what its dictionary parses to, and a result too,
  exactly when they could have come out of the parser.\<close>

theorem execution_roundtrip:
  "(task_packet_from_dict nfc (task_packet_body p) = Inr p \<longleftrightarrow> (\<exists>d. task_packet_from_dict nfc d = Inr p)) \<and>
   (workspace_result_from_dict nfc (workspace_result_to_dict r) = Inr r \<longleftrightarrow>
     (\<exists>d. workspace_result_from_dict nfc d = Inr r))"
  using task_packet_reparsed task_packet_parsed workspace_result_reparsed workspace_result_parsed by blast

text \<open>C17: The disposition of a run is closed: a parsed result is completed and ready for a human without a failure, or
  failed with a failure class and a reason and to be retried, shown to a human or dead, or stopped for a human with a
  reason and no failure class.\<close>

theorem result_disposition:
  assumes "workspace_result_from_dict nfc d = Inr r"
  shows "(wr_terminal_stage r = ''completed'' \<and> wr_m4_status r = ''ready_for_human'' \<and> wr_failure_class r = None \<and>
      wr_failure_reason r = None) \<or>
    (wr_terminal_stage r = ''failed'' \<and> wr_m4_status r \<in> {''retry'', ''needs_human'', ''dead''} \<and>
      (\<exists>c. wr_failure_class r = Some (failure_value c)) \<and> wr_failure_reason r \<noteq> None) \<or>
    (wr_terminal_stage r = ''needs_human'' \<and> wr_m4_status r = ''needs_human'' \<and> wr_failure_class r = None \<and>
      wr_failure_reason r \<noteq> None)"
proof -
  have "workspace_result_ok nfc r" using assms by (rule workspace_result_parsed)
  then have "wr_terminal_stage r \<in> {''completed'', ''failed'', ''needs_human''}"
    "disposition_ok nfc (wr_terminal_stage r) (wr_m4_status r) (wr_failure_class r) (wr_failure_reason r)"
    by (simp_all add: workspace_result_ok_def)
  moreover have "\<exists>k. c = failure_value k" if "c \<in> set failure_values" for c
    using that unfolding failure_values_def set_map by blast
  ultimately show ?thesis unfolding disposition_ok_def by (elim insertE) auto
qed

theorem result_disposition_witness:
  "wr_m4_status run_result = ''ready_for_human''"
proof -
  have "workspace_result_ok (\<lambda>s. s) run_result" using run_evidence_holds by (simp add: run_evidence_def)
  moreover have "wr_terminal_stage run_result = ''completed''" by (simp add: run_result_def seal_result_def)
  ultimately show ?thesis using result_disposition [OF workspace_result_reparsed, of "\<lambda>s. s" run_result] by auto
qed

end
