(* ===== verification/BridgeProperties.thy ===== *)
theory BridgeProperties
  imports RunExample BundleBinding
begin

text \<open>
  The properties of the semantic bridge: what evidence it accepts, how it pairs artifacts with attestations, and
  that a run whose subject passes the review has the evidence the M7 bundle asks for.
\<close>

section \<open>Acceptance\<close>

lemma inputs_checked:
  assumes "run_evidence nfc packet manifest snapshot result terminal"
  shows "review_inputs nfc packet result inputs \<longleftrightarrow>
    si_workspace_result_digest inputs = wr_workspace_result_digest result \<and>
    {rr_requirement_id r |r. r \<in> set (si_requirements inputs) \<and> rr_kind r = ''acceptance_criterion''} =
      set (tp_acceptance_ids packet) \<and>
    subject_ok nfc (subject_of packet snapshot result inputs binding)"
  unfolding review_inputs_def subject_of_ok [OF assms] by blast

lemma artifact_order_Inr [res_simps]:
  "artifact_order terminal ps = Inr u \<longleftrightarrow>
     distinct (map ap_sequence ps) \<and> list_all (\<lambda>p. ap_sequence p < tm_sequence terminal) ps"
  by (auto simp: artifact_order_def res_simps)

lemma artifact_evidence_sorted:
  "artifact_evidence word packet result terminal ps as \<longleftrightarrow>
     artifacts_match word packet ps as \<and>
     artifact_order terminal (sort_key ap_idempotency_key ps) = Inr () \<and>
     workspace_evidence_digest ''artifacts'' (map ap_idempotency_key (sort_key ap_idempotency_key ps)) =
       Inr (wr_artifact_manifest_digest result)"
  by (simp add: artifact_evidence_def artifact_order_Inr map_sort_key list_all_iff)

lemma binding_fence: "execution_binding_ok nfc (binding_of p m s r t ps as) \<Longrightarrow> tp_fence p \<le> 2 ^ 63 - 1"
  by (simp add: execution_binding_ok_def binding_of_def)

lemma subject_id_ok: "subject_ok nfc (subject_of p s r i b) \<Longrightarrow> id_ok nfc (''semantic:'' @ wr_workspace_result_digest r)"
  by (simp add: subject_ok_def subject_of_def)

lemma built_iff:
  "build_semantic_subject nfc word packet manifest snapshot result terminal ps as arg = Inr r \<longleftrightarrow>
     (\<exists>inputs. task_packet_ok nfc packet \<and> tp_role packet = ''writer'' \<and>
        run_manifest_from_packet packet (rm_deadline manifest) = Inr manifest \<and> workspace_snapshot_ok snapshot \<and>
        workspace_result_ok nfc result \<and> wr_terminal_stage result = ''completed'' \<and> terminal_of_run packet terminal \<and>
        artifacts_match word packet ps as \<and> artifact_order terminal (sort_key ap_idempotency_key ps) = Inr () \<and>
        inputs_of nfc arg = Inr inputs \<and>
        bundle_checks packet manifest snapshot result terminal (sort_key ap_idempotency_key ps) inputs = Inr () \<and>
        execution_binding_ok nfc (br_binding (bridge_result_of packet manifest snapshot result terminal ps as inputs)) \<and>
        subject_ok nfc (br_subject (bridge_result_of packet manifest snapshot result terminal ps as inputs)) \<and>
        r = bridge_result_of packet manifest snapshot result terminal ps as inputs)"
  unfolding build_semantic_subject_def bnd_Inr_iff validated_packet_Inr validated_manifest_Inr validated_snapshot_Inr
    validated_result_Inr validated_terminal_Inr validated_artifacts_Inr binding_data_asdict
    execution_binding_from_asdict subject_data_parses bridge_result_of_def Let_def
  by (auto simp: bnd_Inr_iff execution_binding_from_asdict subject_data_parses)

lemma accepted_parts:
  assumes "build_semantic_subject nfc word packet manifest snapshot result terminal ps as arg = Inr r"
  obtains inputs where "run_evidence nfc packet manifest snapshot result terminal"
    "artifact_evidence word packet result terminal ps as" "inputs_of nfc arg = Inr inputs"
    "review_inputs nfc packet result inputs"
    "r = bridge_result_of packet manifest snapshot result terminal ps as inputs"
proof -
  obtain inputs where i:
    "task_packet_ok nfc packet" "tp_role packet = ''writer''"
    "run_manifest_from_packet packet (rm_deadline manifest) = Inr manifest" "workspace_snapshot_ok snapshot"
    "workspace_result_ok nfc result" "wr_terminal_stage result = ''completed''" "terminal_of_run packet terminal"
    "artifacts_match word packet ps as" "artifact_order terminal (sort_key ap_idempotency_key ps) = Inr ()"
    "inputs_of nfc arg = Inr inputs"
    "bundle_checks packet manifest snapshot result terminal (sort_key ap_idempotency_key ps) inputs = Inr ()"
    and binding: "execution_binding_ok nfc (br_binding r)" and subject: "subject_ok nfc (br_subject r)"
    and r: "r = bridge_result_of packet manifest snapshot result terminal ps as inputs"
    using assms unfolding built_iff by blast
  have s: "br_subject r = subject_of packet snapshot result inputs (br_binding r)"
    and b: "br_binding r = binding_of packet manifest snapshot result terminal
      (sort_key ap_idempotency_key ps) (sort_key aa_artifact_attestation_digest as)"
    by (simp_all add: r bridge_result_of_def Let_def)
  have ev: "run_evidence nfc packet manifest snapshot result terminal"
    using i(1-7) i(11) binding_fence [OF binding [unfolded b]] subject_id_ok [OF subject [unfolded s]]
    unfolding run_evidence_def bundle_checks_Inr by simp
  moreover have "artifact_evidence word packet result terminal ps as"
    using i(8,9,11) unfolding artifact_evidence_sorted bundle_checks_Inr by simp
  moreover have "review_inputs nfc packet result inputs"
    using subject i(11) unfolding inputs_checked [OF ev, of inputs "br_binding r"] s bundle_checks_Inr by blast
  ultimately show thesis using that i(10) r by blast
qed

lemma accepted_if:
  assumes ev: "run_evidence nfc packet manifest snapshot result terminal"
    and a: "artifact_evidence word packet result terminal ps as"
    and i: "inputs_of nfc arg = Inr inputs" "review_inputs nfc packet result inputs"
  shows "build_semantic_subject nfc word packet manifest snapshot result terminal ps as arg =
    Inr (bridge_result_of packet manifest snapshot result terminal ps as inputs)"
proof -
  let ?r = "bridge_result_of packet manifest snapshot result terminal ps as inputs"
  have m: "artifacts_match word packet ps as" using a by (simp add: artifact_evidence_def)
  have "bundle_checks packet manifest snapshot result terminal (sort_key ap_idempotency_key ps) inputs = Inr ()"
    using ev a i(2) unfolding run_evidence_def artifact_evidence_sorted review_inputs_def bundle_checks_Inr by simp
  moreover have "execution_binding_ok nfc (br_binding ?r)"
    using binding_of_ok [OF ev m] by (simp add: bridge_result_of_def Let_def)
  moreover have "subject_ok nfc (br_subject ?r)"
    using i(2) inputs_checked [OF ev, of inputs "br_binding ?r"] by (simp add: bridge_result_of_def Let_def)
  ultimately show ?thesis
    using ev a m i(1) unfolding built_iff by (auto simp: run_evidence_def artifact_evidence_sorted)
qed

lemma run_accepted:
  "build_semantic_subject (\<lambda>s. s) (\<lambda>_. False) run_packet run_manifest run_snapshot run_result run_terminal
     [run_artifact] [run_attestation] (Parsed run_inputs) =
   Inr (bridge_result_of run_packet run_manifest run_snapshot run_result run_terminal
     [run_artifact] [run_attestation] run_inputs)"
  by (rule accepted_if [OF run_evidence_holds run_artifacts_hold _ run_inputs_hold]) (simp add: inputs_of_def)

text \<open>C1: The bridge accepts exactly the coherent evidence of one completed run with inputs of its review, and what
  it returns is the binding and the subject of that evidence.\<close>

theorem build_semantic_subject_iff:
  "build_semantic_subject nfc word packet manifest snapshot result terminal ps as arg = Inr r \<longleftrightarrow>
     run_evidence nfc packet manifest snapshot result terminal \<and>
     artifact_evidence word packet result terminal ps as \<and>
     (\<exists>inputs. inputs_of nfc arg = Inr inputs \<and> review_inputs nfc packet result inputs \<and>
        r = bridge_result_of packet manifest snapshot result terminal ps as inputs)"
  using accepted_if by (blast elim: accepted_parts)

section \<open>Artifacts\<close>

text \<open>C2: In accepted evidence the attested artifacts are the proposed ones, one to one: each proposal names one
  attestation of the same bytes at the same path, and no attestation is left over.\<close>

theorem attested_one_to_one:
  assumes "build_semantic_subject nfc word packet manifest snapshot result terminal ps as arg = Inr r"
  shows "\<exists>f. bij_betw f (set ps) (set as) \<and>
    (\<forall>p\<in>set ps. aa_artifact_attestation_digest (f p) = ap_artifact_attestation_digest p \<and>
       ar_path (aa_request (f p)) = ap_path p \<and> ar_sha256 (aa_request (f p)) = ap_sha256 p \<and>
       ar_size_bytes (aa_request (f p)) = ap_size_bytes p)"
proof -
  have "artifact_evidence word packet result terminal ps as"
    using assms by (rule accepted_parts)
  then have m: "length ps = length as" "distinct (map ap_sequence ps)" "list_all (paired as) ps"
    "distinct (map aa_artifact_attestation_digest as)"
    by (simp_all add: artifact_evidence_def artifacts_match_def)
  then obtain f where f: "\<And>p. p \<in> set ps \<Longrightarrow> f p \<in> set as \<and> attests (f p) p \<and>
      aa_artifact_attestation_digest (f p) = ap_artifact_attestation_digest p"
    unfolding list_all_iff paired_def by metis
  have "inj_on f (set ps)"
  proof (rule inj_onI)
    fix p q assume "p \<in> set ps" "q \<in> set ps" "f p = f q"
    then have "ap_sequence p = ap_sequence q" using f by (metis attests_def)
    then show "p = q" using m(2) \<open>p \<in> set ps\<close> \<open>q \<in> set ps\<close> by (auto simp: distinct_map dest: inj_onD)
  qed
  moreover have "card (set ps) = card (set as)"
    using m(1,2,4) by (simp add: distinct_card distinct_map)
  moreover have "f ` set ps \<subseteq> set as" using f by blast
  ultimately have "bij_betw f (set ps) (set as)"
    by (simp add: bij_betw_def card_image card_subset_eq)
  then show ?thesis using f unfolding attests_def by metis
qed

theorem attested_one_to_one_witness:
  "\<exists>f. bij_betw f {run_artifact} {run_attestation}"
  using attested_one_to_one [OF run_accepted] by auto

section \<open>From the run to the bundle\<close>

text \<open>The evidence of a run and of its verdict in the form M7 packages it: the lease, the execution, the review.\<close>

definition lease_of :: "task_packet \<Rightarrow> m4_bridge" where
  "lease_of p =
     \<lparr>m4_schema_version = 1, m4_task_id = tp_task_id p, m4_run_id = tp_run_id p, m4_owner = tp_owner p,
      m4_role = PStr (tp_role p), m4_fence = tp_fence p, m4_intent_digest = tp_legacy_intent_digest p,
      m4_lease_packet_digest = tp_legacy_intent_digest p\<rparr>"

definition execution_of ::
  "task_packet \<Rightarrow> run_manifest \<Rightarrow> workspace_snapshot \<Rightarrow> workspace_result \<Rightarrow> m5_bridge" where
  "execution_of p m s r =
     \<lparr>m5_schema_version = 1, m5_task_id = tp_task_id p, m5_run_id = tp_run_id p, m5_owner = tp_owner p,
      m5_role = PStr (tp_role p), m5_fence = tp_fence p, m5_repository_id = tp_repository_id p,
      m5_legacy_intent_digest = tp_legacy_intent_digest p, m5_task_packet_digest = tp_packet_digest p,
      m5_run_manifest_digest = rm_manifest_digest m, m5_workspace_snapshot_digest = ws_workspace_snapshot_digest s,
      m5_workspace_result_digest = wr_workspace_result_digest r,
      m5_authority_exact_head_sha = au_exact_head_sha (tp_authority p), m5_snapshot_input_head_sha = ws_input_head_sha s,
      m5_snapshot_result_head_sha = ws_result_head_sha s, m5_result_exact_head_sha = wr_exact_head_sha r\<rparr>"

definition review_of :: "bridge_result \<Rightarrow> semantic_verdict \<Rightarrow> string \<Rightarrow> m6_bridge" where
  "review_of r v evidence_set = (let b = br_binding r in
     \<lparr>m6_schema_version = 1, m6_task_id = sx_task_id b, m6_run_id = sx_run_id b, m6_owner = sx_owner b,
      m6_role = PStr (sx_role b), m6_fence = sx_fence b, m6_repository_id = sx_repository_id b,
      m6_legacy_intent_digest = sx_legacy_intent_digest b, m6_task_packet_digest = sx_task_packet_digest b,
      m6_run_manifest_digest = sx_run_manifest_digest b, m6_workspace_snapshot_digest = sx_workspace_snapshot_digest b,
      m6_workspace_result_digest = sx_workspace_result_digest b, m6_binding_input_head_sha = sx_input_head_sha b,
      m6_binding_exact_head_sha = sx_exact_head_sha b, m6_subject_exact_head_sha = ss_exact_head_sha (br_subject r),
      m6_envelope_digest = envelope_digest r, m6_binding_digest = binding_digest b,
      m6_validation_inputs_digest = inputs_digest (br_inputs r), m6_subject_digest = subject_digest (br_subject r),
      m6_evidence_set_digest = evidence_set, m6_verdict_digest = verdict_digest v, m6_verdict = crossed v\<rparr>)"

lemma envelope_digest_parts:
  "envelope_digest r = envelope_digest_of (binding_digest (br_binding r)) (inputs_digest (br_inputs r))
     (subject_digest (br_subject r))"
  by (simp add: envelope_digest_def envelope_digest_of_def contract_digest_def)

lemma lease_accepted:
  assumes "task_packet_ok nfc p" "tp_role p = ''writer''" "tp_fence p \<le> 2 ^ 63 - 1"
  shows "m4_bridge_post_init nfc (lease_of p) = Inr ()"
  using assms by (simp add: m4_bridge_post_init_def lease_of_def task_packet_ok_def res_simps py_eq_str_def MAX_FENCE_def)

lemma execution_accepted:
  assumes ev: "run_evidence nfc p m s r t"
  shows "m5_bridge_post_init nfc (execution_of p m s r) = Inr ()"
proof -
  have manifest: "run_manifest_from_packet p (rm_deadline m) = Inr m" using ev by (simp add: run_evidence_def)
  have packet: "id_ok nfc (tp_task_id p)" "id_ok nfc (tp_run_id p)" "id_ok nfc (tp_owner p)"
    "id_ok nfc (tp_repository_id p)" "1 \<le> tp_fence p" "tp_fence p \<le> 2 ^ 63 - 1" "tp_role p = ''writer''"
    "hex_string 64 (tp_legacy_intent_digest p)" "hex_string 64 (tp_packet_digest p)"
    using ev by (simp_all add: run_evidence_def task_packet_ok_def packet_digest_of_def)
  have "workspace_snapshot_ok s" "workspace_result_ok nfc r" using ev by (simp_all add: run_evidence_def)
  then have snapshot: "hex_string 64 (ws_workspace_snapshot_digest s)" "hex_string 40 (ws_input_head_sha s)"
    "hex_string 40 (ws_result_head_sha s)" and "hex_string 64 (wr_workspace_result_digest r)"
    by (simp_all add: workspace_snapshot_ok_def snapshot_digest_of_def workspace_result_ok_def
        workspace_result_digest_of_def)
  moreover have heads: "au_exact_head_sha (tp_authority p) = ws_input_head_sha s"
    "wr_exact_head_sha r = ws_result_head_sha s"
    using ev by (simp_all add: run_evidence_def)
  ultimately show ?thesis
    using packet snapshot run_manifest_fields(6) [OF manifest]
    by (simp add: m5_bridge_post_init_def execution_of_def heads res_simps py_eq_str_def MAX_FENCE_def)
qed

lemma review_accepted:
  assumes "execution_binding_ok nfc (br_binding r)" "subject_ok nfc (br_subject r)"
    and "adjudicate nfc (br_subject r) findings coverages = Inr v" "sv_decision v = ''pass''" "hex_string 64 e"
  shows "m6_bridge_post_init nfc (review_of r v e) = Inr ()"
proof -
  have "hex_string 64 (binding_digest (br_binding r))" "hex_string 64 (inputs_digest (br_inputs r))"
    "hex_string 64 (envelope_digest r)" "hex_string 64 (subject_digest (br_subject r))" "hex_string 64 (verdict_digest v)"
    by (simp_all add: binding_digest_def inputs_digest_def envelope_digest_def contract_digest_def subject_digest_def
        verdict_digest_def)
  then show ?thesis
    using assms(1,2,5) passing_verdict_accepted [OF assms(3,4)] crossed_digests [OF assms(3)]
    by (simp add: m6_bridge_post_init_def review_of_def Let_def execution_binding_ok_def subject_ok_def instance_of_def
        res_simps py_eq_str_def MAX_FENCE_def envelope_digest_parts)
qed

text \<open>C3: A run the bridge accepts and the adjudicator passes has the evidence M7 packages: lease, execution and
  review, taken from the packet, the snapshot, the result and the binding, satisfy every check of the bundle.\<close>

theorem passed_run_packages:
  assumes "build_semantic_subject nfc word packet manifest snapshot result terminal ps as arg = Inr r"
    and "adjudicate nfc (br_subject r) findings coverages = Inr v" and "sv_decision v = ''pass''"
    and "hex_string 64 evidence_set"
  shows "shadow_evidence_post_init nfc
    \<lparr>se_schema_version = 1, se_m4 = lease_of packet, se_m5 = execution_of packet manifest snapshot result,
     se_m6 = review_of r v evidence_set\<rparr> = Inr ()"
proof (rule accepted_parts [OF assms(1)])
  fix inputs
  assume ev: "run_evidence nfc packet manifest snapshot result terminal"
    and a: "artifact_evidence word packet result terminal ps as" and i: "review_inputs nfc packet result inputs"
    and r: "r = bridge_result_of packet manifest snapshot result terminal ps as inputs"
  have "execution_binding_ok nfc (br_binding r)"
    using binding_of_ok [OF ev, of word ps as] a by (simp add: r bridge_result_of_def Let_def artifact_evidence_def)
  moreover have "subject_ok nfc (br_subject r)"
    using i inputs_checked [OF ev, of inputs "br_binding r"] by (simp add: r bridge_result_of_def Let_def)
  ultimately have "m6_bridge_post_init nfc (review_of r v evidence_set) = Inr ()"
    by (rule review_accepted [OF _ _ assms(2-4)])
  moreover have "m4_bridge_post_init nfc (lease_of packet) = Inr ()"
    using ev by (intro lease_accepted) (simp_all add: run_evidence_def)
  ultimately show ?thesis
    using execution_accepted [OF ev] ev
    by (simp add: shadow_evidence_post_init_def res_simps instance_of_def)
      (simp add: lease_of_def execution_of_def review_of_def Let_def r bridge_result_of_def binding_of_def subject_of_def
        run_evidence_def)
qed

text \<open>The example run, passed by an independent validator.\<close>

definition run_bridge :: bridge_result where
  "run_bridge = bridge_result_of run_packet run_manifest run_snapshot run_result run_terminal
     [run_artifact] [run_attestation] run_inputs"

definition run_coverage :: semantic_coverage where
  "run_coverage =
     \<lparr>sc_schema_version = 1, sc_subject_digest = subject_digest (br_subject run_bridge), sc_validator = ex_validator,
      sc_entries = [\<lparr>ce_requirement = \<lparr>rr_kind = ''acceptance_criterion'', rr_requirement_id = ''AC-001''\<rparr>,
        ce_status = ''proven'', ce_evidence_refs = [''log-1'']\<rparr>], sc_coverage_millionths = 1000000\<rparr>"

lemma run_passes:
  "\<exists>v. adjudicate (\<lambda>s. s) (br_subject run_bridge) [] [run_coverage] = Inr v \<and> sv_decision v = ''pass''"
proof -
  let ?s = "br_subject run_bridge" and ?v = "verdict_of (br_subject run_bridge) [] [run_coverage]"
  have subject: "?s = subject_of run_packet run_snapshot run_result run_inputs (br_binding run_bridge)"
    by (simp add: run_bridge_def bridge_result_of_def Let_def)
  have "subject_ok (\<lambda>s. s) ?s"
    using run_inputs_hold inputs_checked [OF run_evidence_holds, of run_inputs "br_binding run_bridge"]
    by (simp add: subject)
  then have parses: "semantic_subject_from_dict (\<lambda>s. s)
      (subject_data run_packet run_snapshot run_result run_inputs (br_binding run_bridge)) = Inr ?s"
    unfolding subject_data_parses by (simp add: subject)
  have "validator_validate_for ex_validator ?s = Inr ()"
    by (simp add: validator_validate_for_def subject subject_of_def run_inputs_def ex_validator_def
        VALIDATOR_CAPABILITIES_def FORBIDDEN_VALIDATOR_CAPABILITIES_def run_digest_def ex_digest_def)
  then have "adjudicable ?s [] [run_coverage]"
    by (simp add: adjudicable_def MAX_ITEMS_def coverage_validate_for_def run_coverage_def requirement_keys_def
        entry_key_def) (simp add: subject subject_of_def run_inputs_def)
  note v = verdict_parses [OF nfc_ascii_id parses this]
  have "\<not> requires_human [] [run_coverage]" "\<not> requires_repair [] [run_coverage]"
    by (auto simp: requires_repair_iff human_evidence_iff set_contradicted_keys status_pairs_iff set_unsupported_keys
        run_coverage_def)
  then have "sv_decision ?v = ''pass''" by (simp add: decision_simps)
  then show ?thesis using v by blast
qed

theorem passed_run_packages_witness:
  "\<exists>v. shadow_evidence_post_init (\<lambda>s. s)
    \<lparr>se_schema_version = 1, se_m4 = lease_of run_packet,
     se_m5 = execution_of run_packet run_manifest run_snapshot run_result,
     se_m6 = review_of run_bridge v (run_digest (CHR ''b''))\<rparr> = Inr ()"
proof -
  obtain v where v: "adjudicate (\<lambda>s. s) (br_subject run_bridge) [] [run_coverage] = Inr v" "sv_decision v = ''pass''"
    using run_passes by blast
  have "hex_string 64 (run_digest (CHR ''b''))" by simp
  from passed_run_packages [OF run_accepted [folded run_bridge_def] v this] show ?thesis by blast
qed

end
