(* ===== verification/IntakeBinding.thy ===== *)
theory IntakeBinding
  imports Intake
begin

text \<open>
  What an accepted task intake guarantees the control plane - handoffs, authority, limits and
  acceptance ids bound to each other - and what its idempotency key depends on.
\<close>

section \<open>What the parsers guarantee\<close>

lemma limits_facts:
  assumes "task_limits_from_dict d = Inr l"
  shows "0 \<le> tl_wall_seconds l \<and> tl_wall_seconds l \<le> 14400 \<and>
    0 \<le> tl_max_cost_usd_micros l \<and> tl_max_cost_usd_micros l \<le> 25000000 \<and>
    0 \<le> tl_max_token_units l \<and> tl_max_token_units l \<le> 2000000 \<and>
    0 \<le> tl_infrastructure_retries l \<and> tl_infrastructure_retries l \<le> 2 \<and>
    1 \<le> tl_semantic_repairs l \<and> tl_semantic_repairs l \<le> 3"
  using assms unfolding task_limits_from_dict_def
  by (elim bnd_InrE) (auto simp: res_simps task_limits_default_def)

lemma acceptance_facts:
  "acceptance_field v = Inr ss \<Longrightarrow> ss \<noteq> [] \<and> sorted ss \<and> distinct ss \<and> list_all ACCEPTANCE_ID_match ss"
  by (auto simp: acceptance_field_def Let_def usort_fixed_iff dest: sym split: pyval.splits if_split_asm)

text \<open>Which of its two forms an authority has, and that it is fresh.\<close>

definition authority_current :: "m0_authority \<Rightarrow> datetime \<Rightarrow> bool" where
  "authority_current m now =
     (case m0_observed_at m of
        Some at \<Rightarrow> instant at \<le> instant now \<and> instant now \<le> instant at + 300000000 \<and> m0_expires_at m = None
      | None \<Rightarrow> (case m0_expires_at m of Some expires \<Rightarrow> now < expires | None \<Rightarrow> False))"

lemma m0_facts:
  assumes "m0_from_dict nfc d now = Inr m"
  shows "authority_current m now" "m0_exact_head_sha m = Some h \<Longrightarrow> h \<noteq> []" "m0_check_name m = Some c \<Longrightarrow> c \<noteq> []"
  using assms unfolding m0_from_dict_def
  by (auto simp: bnd_Inr_iff ensure_Inr_iff field_Inr text_field_Inr hex_field_Inr hex_string_def authority_current_def
      m0_age_def split: if_split_asm)

text \<open>Every field of the intake, from the item of the data it is parsed from.\<close>

lemma intake_parsed:
  assumes "task_intake_from_dict nfc data now = Inr t"
  shows "field data ''architecture'' architecture_from_dict = Inr (ti_architecture t) \<and>
    field data ''governance'' governance_from_dict = Inr (ti_governance t) \<and>
    field data ''m0_authority'' (\<lambda>v. m0_from_dict nfc v now) = Inr (ti_m0_authority t) \<and>
    field data ''policy_digest'' (\<lambda>v. hex_field v ''policy_digest'' HEX64) = Inr (ti_policy_digest t) \<and>
    field data ''acceptance_ids'' acceptance_field = Inr (ti_acceptance_ids t) \<and>
    field data ''repository_id'' (\<lambda>v. id_field nfc v ''repository_id'') = Inr (ti_repository_id t) \<and>
    field data ''source_id'' (\<lambda>v. id_field nfc v ''source_id'') = Inr (ti_source_id t) \<and>
    field data ''source_digest'' (\<lambda>v. hex_field v ''source_digest'' HEX64) = Inr (ti_source_digest t) \<and>
    field data ''route_id'' (\<lambda>v. id_field nfc v ''route_id'') = Inr (ti_route_id t) \<and>
    field data ''change_id'' (\<lambda>v. id_field nfc v ''change_id'') = Inr (ti_change_id t) \<and>
    field data ''exact_base_sha'' (\<lambda>v. hex_field v ''exact_base_sha'' HEX40) = Inr (ti_exact_base_sha t) \<and>
    field data ''spec_digest'' (\<lambda>v. hex_field v ''spec_digest'' HEX64) = Inr (ti_spec_digest t) \<and>
    field data ''limits'' task_limits_from_dict = Inr (ti_limits t) \<and>
    (\<exists>v. getitem data ''source_type'' = Inr v \<and> ti_source_type t = str_of v) \<and>
    ti_contract_version t = 1 \<and>
    handoffs_agree (ti_architecture t) (ti_governance t) \<and>
    authority_head_agrees (ti_m0_authority t) (ti_governance t) \<and>
    authority_policy_agrees (ti_m0_authority t) (ti_policy_digest t) \<and>
    ti_intent_digest t = intent_digest_of t \<and>
    ti_idempotency_key t = idempotency_key_of t"
  using assms unfolding task_intake_from_dict_def Let_def
  apply (elim bnd_InrE, simp only: ensure_Inr_iff sum.inject, hypsubst)
  apply (simp only: task_intake.simps intent_digest_of_def normalized_items_def idempotency_key_of_def work_identity_def
      work_identity_items_def simp_thms)
  done

lemma intake_facts:
  assumes "task_intake_from_dict nfc data now = Inr t"
  shows "field data ''architecture'' architecture_from_dict = Inr (ti_architecture t)"
    "field data ''governance'' governance_from_dict = Inr (ti_governance t)"
    "field data ''m0_authority'' (\<lambda>v. m0_from_dict nfc v now) = Inr (ti_m0_authority t)"
    "field data ''policy_digest'' (\<lambda>v. hex_field v ''policy_digest'' HEX64) = Inr (ti_policy_digest t)"
    "field data ''acceptance_ids'' acceptance_field = Inr (ti_acceptance_ids t)"
    "field data ''repository_id'' (\<lambda>v. id_field nfc v ''repository_id'') = Inr (ti_repository_id t)"
    "field data ''source_id'' (\<lambda>v. id_field nfc v ''source_id'') = Inr (ti_source_id t)"
    "field data ''source_digest'' (\<lambda>v. hex_field v ''source_digest'' HEX64) = Inr (ti_source_digest t)"
    "field data ''route_id'' (\<lambda>v. id_field nfc v ''route_id'') = Inr (ti_route_id t)"
    "field data ''change_id'' (\<lambda>v. id_field nfc v ''change_id'') = Inr (ti_change_id t)"
    "field data ''exact_base_sha'' (\<lambda>v. hex_field v ''exact_base_sha'' HEX40) = Inr (ti_exact_base_sha t)"
    "field data ''spec_digest'' (\<lambda>v. hex_field v ''spec_digest'' HEX64) = Inr (ti_spec_digest t)"
    "field data ''limits'' task_limits_from_dict = Inr (ti_limits t)"
    "(\<exists>v. getitem data ''source_type'' = Inr v \<and> ti_source_type t = str_of v)"
    "ti_contract_version t = 1"
    "handoffs_agree (ti_architecture t) (ti_governance t)"
    "authority_head_agrees (ti_m0_authority t) (ti_governance t)"
    "authority_policy_agrees (ti_m0_authority t) (ti_policy_digest t)"
    "ti_intent_digest t = intent_digest_of t"
    "ti_idempotency_key t = idempotency_key_of t"
  using intake_parsed [OF assms] by - (elim conjE, assumption)+

section \<open>An example intake\<close>

definition ex_now :: datetime where
  "ex_now = DateTime 2026 1 2 3 5 0 0"

definition ex_architecture :: architecture_handoff where
  "ex_architecture = \<lparr>ah_architecture_contract_version = 1, ah_architecture_digest = replicate 64 (CHR ''1''),
     ah_architecture_evidence_digest = replicate 64 (CHR ''2''), ah_exact_base_sha = replicate 40 (CHR ''3''),
     ah_exact_head_sha = replicate 40 (CHR ''4'')\<rparr>"

definition ex_governance :: governance_handoff where
  "ex_governance = \<lparr>gh_governance_contract_version = 1, gh_governance_digest = replicate 64 (CHR ''5''),
     gh_governance_evidence_digest = replicate 64 (CHR ''6''), gh_architecture_digest = replicate 64 (CHR ''1''),
     gh_exact_base_sha = replicate 40 (CHR ''3''), gh_exact_head_sha = replicate 40 (CHR ''4'')\<rparr>"

text \<open>Two ways to authorise the same request: an observed check, and a bootstrap exception.\<close>

definition ex_observed :: pyval where
  "ex_observed = py_dict
     [(''observed_at'', PStr (timestamp_text (DateTime 2026 1 2 3 4 5 0))), (''check_name'', PStr ''ci@777777777777''),
      (''exact_head_sha'', PStr (replicate 40 (CHR ''4'')))]"

definition ex_exception :: pyval where
  "ex_exception = py_dict
     [(''bootstrap_exception'', PStr ''be1''), (''issuer'', PStr ''admin''), (''scope'', PStr ''repo''),
      (''expires_at'', PStr (timestamp_text (DateTime 2026 1 3 0 0 0 0)))]"

definition ex_intake :: "string \<Rightarrow> pyval \<Rightarrow> pyval" where
  "ex_intake request authority = py_dict
     [(''contract_version'', PInt 1), (''request_id'', PStr request), (''repository_id'', PStr ''repo''),
      (''source_type'', PStr ''api''), (''source_id'', PStr ''src1''), (''source_digest'', PStr (replicate 64 (CHR ''8''))),
      (''route_id'', PStr ''route''), (''change_id'', PStr ''change''), (''exact_base_sha'', PStr (replicate 40 (CHR ''3''))),
      (''spec_digest'', PStr (replicate 64 (CHR ''9''))), (''architecture'', architecture_asdict ex_architecture),
      (''governance'', governance_asdict ex_governance), (''policy_digest'', PStr (replicate 64 (CHR ''7''))),
      (''m0_authority'', authority), (''acceptance_ids'', PList [PStr ''AC-001'']),
      (''limits'', task_limits_asdict task_limits_default)]"


lemma ex_intake_ids: "list_all (id_ok (\<lambda>s. s)) [''req1'', ''req2'', ''repo'', ''src1'', ''route'', ''change'', ''be1'', ''admin'']"
  by (simp add: id_ok_iff ID_match_def ident_match_def is_alnum_def digits_chars_def lower_chars_def upper_chars_def)

lemma ex_intake_hex: "list_all is_hex ''123456789''"
  by (simp add: is_hex_def digits_chars_def)

lemma ex_intake_times: "valid_dt (DateTime 2026 1 2 3 4 5 0)" "valid_dt (DateTime 2026 1 3 0 0 0 0)"
    "m0_age ex_now (DateTime 2026 1 2 3 4 5 0) = 55000000" "\<not> DateTime 2026 1 3 0 0 0 0 \<le> ex_now"
  by code_simp+

lemma ex_architecture_parses: "architecture_from_dict (architecture_asdict ex_architecture) = Inr ex_architecture"
  by (simp add: architecture_from_dict_def architecture_asdict_def architecture_fields_def ex_architecture_def
      res_simps py_simps cong: literal_congs) (use ex_intake_hex in simp)

lemma ex_governance_parses: "governance_from_dict (governance_asdict ex_governance) = Inr ex_governance"
  by (simp add: governance_from_dict_def governance_asdict_def governance_fields_def ex_governance_def
      res_simps py_simps cong: literal_congs) (use ex_intake_hex in simp)

lemma ex_limits_parses: "task_limits_from_dict (task_limits_asdict task_limits_default) = Inr task_limits_default"
  by (simp add: task_limits_from_dict_def task_limits_asdict_def task_limits_fields_def task_limits_default_def
      res_simps py_simps cong: literal_congs)

lemma ex_observed_parses:
  "m0_from_dict (\<lambda>s. s) ex_observed ex_now =
     Inr \<lparr>m0_observed_at = Some (DateTime 2026 1 2 3 4 5 0), m0_check_name = Some ''ci@777777777777'',
          m0_exact_head_sha = Some (replicate 40 (CHR ''4'')), m0_bootstrap_exception = None, m0_issuer = None,
          m0_scope = None, m0_expires_at = None\<rparr>"
proof -
  have "CHECK_NAME_match ''ci@777777777777''"
    by (simp add: CHECK_NAME_match_def ident_match_def is_alnum_def digits_chars_def lower_chars_def)
  moreover have "\<not> has_surrogate ''ci@777777777777''" "\<not> has_control ''ci@777777777777''" by code_simp+
  ultimately show ?thesis
    using ex_intake_hex
    by (simp add: m0_from_dict_def ex_observed_def m0_observed_fields_def res_simps py_simps ex_intake_times image_comp
        cong: literal_congs)
qed


lemma ex_exception_parses:
  "m0_from_dict (\<lambda>s. s) ex_exception ex_now =
     Inr \<lparr>m0_observed_at = None, m0_check_name = None, m0_exact_head_sha = None, m0_bootstrap_exception = Some ''be1'',
          m0_issuer = Some ''admin'', m0_scope = Some ''repo'', m0_expires_at = Some (DateTime 2026 1 3 0 0 0 0)\<rparr>"
proof -
  have "{PStr ''bootstrap_exception'', PStr ''issuer'', PStr ''scope'', PStr ''expires_at''} \<noteq>
      {PStr ''observed_at'', PStr ''check_name'', PStr ''exact_head_sha''}"
    by (rule notI, drule equalityD1, simp)
  then show ?thesis
    using ex_intake_ids
    by (simp add: m0_from_dict_def ex_exception_def m0_observed_fields_def m0_exception_fields_def res_simps py_simps
        ex_intake_times image_comp cong: literal_congs)
qed

text \<open>Any request with an authority that agrees with the governance head and the policy parses.\<close>

lemma ex_intake_parses:
  assumes "id_ok (\<lambda>s. s) request" "m0_from_dict (\<lambda>s. s) authority ex_now = Inr m"
    "authority_head_agrees m ex_governance" "authority_policy_agrees m (replicate 64 (CHR ''7''))"
  shows "\<exists>t. task_intake_from_dict (\<lambda>s. s) (ex_intake request authority) ex_now = Inr t"
proof -
  have agree: "handoffs_agree ex_architecture ex_governance"
    by (simp add: handoffs_agree_def ex_architecture_def ex_governance_def)
  have acceptance: "acceptance_field (PList [PStr ''AC-001'']) = Inr [''AC-001'']"
    by (simp add: acceptance_field_def sortable_set_def usort_def ACCEPTANCE_ID_match_def is_digit_def digits_chars_def)
  show ?thesis
    using assms agree acceptance ex_intake_ids ex_intake_hex
    by (simp add: task_intake_from_dict_def ex_intake_def task_intake_fields_def Let_def res_simps py_simps
        ex_architecture_parses ex_governance_parses ex_limits_parses cong: literal_congs)
qed

section \<open>Properties\<close>


lemma ex_observed_intake: "\<exists>t. task_intake_from_dict (\<lambda>s. s) (ex_intake ''req1'' ex_observed) ex_now = Inr t"
  by (rule ex_intake_parses [OF _ ex_observed_parses])
    (use ex_intake_ids in \<open>simp_all add: authority_head_agrees_def ex_governance_def authority_policy_agrees_def
      ends_with_def numeral_eq_Suc\<close>)

lemma ex_excepted_intake: "\<exists>t. task_intake_from_dict (\<lambda>s. s) (ex_intake ''req2'' ex_exception) ex_now = Inr t"
  by (rule ex_intake_parses [OF _ ex_exception_parses])
    (use ex_intake_ids in \<open>simp_all add: authority_head_agrees_def authority_policy_agrees_def\<close>)


text \<open>The idempotency key is a function of the work alone: two requests that agree on every item but the request
  id and the authority have the same key, whatever those two are and whenever they arrive.\<close>

theorem idempotency_ignores_request:
  assumes "task_intake_from_dict nfc d1 now1 = Inr t1" "task_intake_from_dict nfc d2 now2 = Inr t2"
    and "\<And>k. k \<in> set task_intake_fields - {''request_id'', ''m0_authority''} \<Longrightarrow> getitem d1 k = getitem d2 k"
  shows "ti_idempotency_key t1 = ti_idempotency_key t2"
proof -
  note f1 = intake_facts [OF assms(1)] and f2 = intake_facts [OF assms(2)]
  let ?keys = "[''architecture'', ''governance'', ''policy_digest'', ''acceptance_ids'', ''repository_id'', ''source_id'',
     ''source_digest'', ''route_id'', ''change_id'', ''exact_base_sha'', ''spec_digest'', ''limits'', ''source_type'']"
  have "set ?keys \<subseteq> set task_intake_fields - {''request_id'', ''m0_authority''}" by (simp add: task_intake_fields_def)
  then have item: "getitem d1 k = getitem d2 k" if "k \<in> set ?keys" for k using assms(3) that by blast
  have same: "a = b" if "field d1 k g = Inr a" "field d2 k g = Inr b" "k \<in> set ?keys" for k g and a b :: 'z
    using that(1,2) item [OF that(3)] by (simp add: field_def)
  obtain v1 v2 where "getitem d1 ''source_type'' = Inr v1" "ti_source_type t1 = str_of v1"
    "getitem d2 ''source_type'' = Inr v2" "ti_source_type t2 = str_of v2" using f1(14) f2(14) by blast
  then have "ti_source_type t1 = ti_source_type t2" using item [of "''source_type''"] by simp
  moreover have "ti_architecture t1 = ti_architecture t2" by (rule same [OF f1(1) f2(1)]) simp
  moreover have "ti_governance t1 = ti_governance t2" by (rule same [OF f1(2) f2(2)]) simp
  moreover have "ti_policy_digest t1 = ti_policy_digest t2" by (rule same [OF f1(4) f2(4)]) simp
  moreover have "ti_acceptance_ids t1 = ti_acceptance_ids t2" by (rule same [OF f1(5) f2(5)]) simp
  moreover have "ti_repository_id t1 = ti_repository_id t2" by (rule same [OF f1(6) f2(6)]) simp
  moreover have "ti_source_id t1 = ti_source_id t2" by (rule same [OF f1(7) f2(7)]) simp
  moreover have "ti_source_digest t1 = ti_source_digest t2" by (rule same [OF f1(8) f2(8)]) simp
  moreover have "ti_route_id t1 = ti_route_id t2" by (rule same [OF f1(9) f2(9)]) simp
  moreover have "ti_change_id t1 = ti_change_id t2" by (rule same [OF f1(10) f2(10)]) simp
  moreover have "ti_exact_base_sha t1 = ti_exact_base_sha t2" by (rule same [OF f1(11) f2(11)]) simp
  moreover have "ti_spec_digest t1 = ti_spec_digest t2" by (rule same [OF f1(12) f2(12)]) simp
  moreover have "ti_limits t1 = ti_limits t2" by (rule same [OF f1(13) f2(13)]) simp
  ultimately show ?thesis
    using f1(15,20) f2(15,20) by (simp add: idempotency_key_of_def work_identity_def work_identity_items_def)
qed


theorem idempotency_ignores_request_witness:
  "\<exists>t1 t2. task_intake_from_dict (\<lambda>s. s) (ex_intake ''req1'' ex_observed) ex_now = Inr t1 \<and>
     task_intake_from_dict (\<lambda>s. s) (ex_intake ''req2'' ex_exception) ex_now = Inr t2 \<and>
     ti_idempotency_key t1 = ti_idempotency_key t2"
proof -
  obtain t1 t2 where t: "task_intake_from_dict (\<lambda>s. s) (ex_intake ''req1'' ex_observed) ex_now = Inr t1"
    "task_intake_from_dict (\<lambda>s. s) (ex_intake ''req2'' ex_exception) ex_now = Inr t2"
    using ex_observed_intake ex_excepted_intake by blast
  have "getitem (ex_intake ''req1'' ex_observed) k = getitem (ex_intake ''req2'' ex_exception) k"
    if "k \<in> set task_intake_fields - {''request_id'', ''m0_authority''}" for k
    using that by (auto simp: ex_intake_def getitem_py_dict assoc.simps)
  from idempotency_ignores_request [OF t this] t show ?thesis by blast
qed

text \<open>A time whose offset takes it before the year 1 is not rejected as an invalid time: the conversion to UTC
  raises \<open>OverflowError\<close>, which the parser does not catch.\<close>

theorem time_overflow_escapes:
  "time_field (PStr ''0001-01-01T00:00:00+01:00'') name = Inl OverflowError"
  by (simp add: time_field_def) code_simp


text \<open>Every valid UTC datetime survives the round trip through its canonical text: \<open>_time\<close> reads what
  \<open>_canonical\<close> writes, to the microsecond.\<close>

theorem timestamp_roundtrip:
  assumes "valid_dt t"
  shows "time_field (PStr (timestamp_text t)) name = Inr t"
  using assms by simp

theorem timestamp_roundtrip_witness:
  "time_field (PStr (timestamp_text (DateTime 2026 1 3 0 0 0 0))) ''at'' = Inr (DateTime 2026 1 3 0 0 0 0)"
  by (rule timestamp_roundtrip) (rule ex_intake_times)

end
