(* ===== verification/DigestBinding.thy ===== *)
theory DigestBinding
  imports BridgeProperties IntakeBinding
begin

text \<open>
  What the digests commit to.  Two records under one digest are equal, or the two texts that were hashed are a
  collision of SHA-256; the texts are named, since some collision always exists.
\<close>

section \<open>Dictionaries with the same keys\<close>

lemma assoc_nth:
  "distinct (map fst kvs) \<Longrightarrow> i < length kvs \<Longrightarrow> assoc kvs (fst (kvs ! i)) = Some (snd (kvs ! i))"
proof (induction kvs arbitrary: i)
  case (Cons kv kvs)
  then show ?case
    by (cases i; cases kv) (auto simp: assoc.simps nth_mem in_set_conv_nth dest: nth_mem [of _ kvs])
qed simp

lemma canonical_dict_items:
  assumes c: "canonical (py_dict kvs) = canonical (py_dict kws)" and k: "map fst kvs = map fst kws"
    and d: "distinct (map fst kvs)"
  shows "map (\<lambda>kv. canonical (snd kv)) kvs = map (\<lambda>kv. canonical (snd kv)) kws"
proof (rule nth_equalityI)
  have len: "length kvs = length kws" using k by (metis length_map)
  then show "length (map (\<lambda>kv. canonical (snd kv)) kvs) = length (map (\<lambda>kv. canonical (snd kv)) kws)" by simp
  fix i assume "i < length (map (\<lambda>kv. canonical (snd kv)) kvs)"
  then have i: "i < length kvs" "i < length kws" using len by simp_all
  have "fst (kvs ! i) = fst (kws ! i)" using k i by (metis nth_map)
  then have "assoc kvs (fst (kvs ! i)) = Some (snd (kvs ! i))" "assoc kws (fst (kvs ! i)) = Some (snd (kws ! i))"
    using assoc_nth [OF d i(1)] assoc_nth [of kws i] d k i(2) by simp_all
  then have "canonical (snd (kvs ! i)) = canonical (snd (kws ! i))" by (rule canonical_dict_value [OF c])
  then show "map (\<lambda>kv. canonical (snd kv)) kvs ! i = map (\<lambda>kv. canonical (snd kv)) kws ! i" using i by simp
qed

lemma canonical_PStr [simp]: "canonical \<circ> PStr = PStr"
  by auto

section \<open>The texts that are hashed\<close>

definition contract_text :: "string \<Rightarrow> (string \<times> pyval) list \<Rightarrow> string" where
  "contract_text contract items = canonical_json (py_dict ((''contract'', PStr contract) # items))"

definition execution_text :: "string \<Rightarrow> pyval \<Rightarrow> string" where
  "execution_text domain v = domain @ [char_of (0::nat)] @ canonical_json v"

definition envelope_text :: "bridge_result \<Rightarrow> string" where
  "envelope_text r = contract_text ''adaptive-factory.semantic-subject-envelope/v1''
     [(''binding_digest'', PStr (binding_digest (br_binding r))),
      (''validation_inputs_digest'', PStr (inputs_digest (br_inputs r))),
      (''subject_digest'', PStr (subject_digest (br_subject r)))]"

definition binding_text :: "bridge_result \<Rightarrow> string" where
  "binding_text r = contract_text ''adaptive-factory.semantic-execution-binding/v1'' (execution_binding_items (br_binding r))"

definition inputs_text :: "bridge_result \<Rightarrow> string" where
  "inputs_text r = contract_text ''adaptive-factory.semantic-validation-inputs/v1'' (semantic_inputs_items (br_inputs r))"

definition subject_text :: "bridge_result \<Rightarrow> string" where
  "subject_text r = canonical_json (semantic_subject_to_dict (br_subject r))"

definition packet_text :: "task_packet \<Rightarrow> string" where
  "packet_text p = execution_text ''adaptive-factory.task-packet/v1'' (task_packet_values p)"

definition manifest_text :: "run_manifest \<Rightarrow> string" where
  "manifest_text m = execution_text ''adaptive-factory.run-manifest/v1'' (run_manifest_values m)"

definition result_text :: "workspace_result \<Rightarrow> string" where
  "result_text r = execution_text ''adaptive-factory.workspace-result/v1'' (workspace_result_values r)"

definition snapshot_items :: "workspace_snapshot \<Rightarrow> (string \<times> pyval) list" where
  "snapshot_items x =
     [(''contract_version'', PInt (ws_contract_version x)), (''repository_id'', PStr (ws_repository_id x)),
      (''workspace_handle'', PStr (ws_workspace_handle x)), (''input_head_sha'', PStr (ws_input_head_sha x)),
      (''result_head_sha'', PStr (ws_result_head_sha x)), (''diff_digest'', PStr (ws_diff_digest x)),
      (''diff_lines'', PInt (ws_diff_lines x)), (''source'', PStr (ws_source x))]"

definition snapshot_text :: "workspace_snapshot \<Rightarrow> string" where
  "snapshot_text s = contract_text ''adaptive-factory.workspace-snapshot/v1'' (snapshot_items s)"

lemma digests_of_texts:
  "envelope_digest r = sha256 (envelope_text r)" "binding_digest (br_binding r) = sha256 (binding_text r)"
  "inputs_digest (br_inputs r) = sha256 (inputs_text r)" "subject_digest (br_subject r) = sha256 (subject_text r)"
  "packet_digest_of p = sha256 (packet_text p)" "manifest_digest_of m = sha256 (manifest_text m)"
  "workspace_result_digest_of w = sha256 (result_text w)" "snapshot_digest_of s = sha256 (snapshot_text s)"
  by (simp_all add: envelope_digest_def envelope_text_def binding_digest_def binding_text_def inputs_digest_def
      inputs_text_def subject_digest_def subject_text_def packet_digest_of_def packet_text_def manifest_digest_of_def
      manifest_text_def workspace_result_digest_of_def result_text_def snapshot_digest_of_def snapshot_text_def
      snapshot_items_def contract_digest_def contract_text_def execution_digest_def execution_text_def canonical_digest_def)

lemma contract_text_inj:
  assumes "contract_text c kvs = contract_text c kws" "map fst kvs = map fst kws" "distinct (''contract'' # map fst kvs)"
    "list_all (\<lambda>(k, v). storable v) kvs" "list_all (\<lambda>(k, v). storable v) kws"
  shows "map (\<lambda>kv. canonical (snd kv)) kvs = map (\<lambda>kv. canonical (snd kv)) kws"
proof -
  have "canonical (py_dict ((''contract'', PStr c) # kvs)) = canonical (py_dict ((''contract'', PStr c) # kws))"
    using assms by (intro canonical_json_inj) (simp_all add: contract_text_def)
  from canonical_dict_items [OF this] assms(2,3) show ?thesis by simp
qed

lemma execution_text_inj:
  "execution_text d v = execution_text d w \<Longrightarrow> storable v \<Longrightarrow> storable w \<Longrightarrow> canonical v = canonical w"
  by (rule canonical_json_inj) (simp_all add: execution_text_def)

section \<open>What a text says\<close>

lemma envelope_text_parts:
  assumes "envelope_text r = envelope_text r'"
  shows "binding_digest (br_binding r) = binding_digest (br_binding r')"
    "inputs_digest (br_inputs r) = inputs_digest (br_inputs r')"
    "subject_digest (br_subject r) = subject_digest (br_subject r')"
  using contract_text_inj [OF assms [unfolded envelope_text_def]] by simp_all

lemma binding_text_eq:
  assumes "binding_text r = binding_text r'"
  shows "br_binding r = br_binding r'"
proof -
  have "map (\<lambda>kv. canonical (snd kv)) (execution_binding_items (br_binding r)) =
      map (\<lambda>kv. canonical (snd kv)) (execution_binding_items (br_binding r'))"
    by (rule contract_text_inj [OF assms [unfolded binding_text_def]])
      (simp_all add: execution_binding_items_def list_all_iff)
  then show ?thesis
    by (intro execution_binding.equality) (simp_all add: execution_binding_items_def canonical_opt_str)
qed

lemma requirement_ref_asdict_inj: "canonical (requirement_ref_asdict r) = canonical (requirement_ref_asdict s) \<Longrightarrow> r = s"
  unfolding requirement_ref_asdict_def by (drule canonical_dict_items) (auto intro: requirement_ref.equality)

lemma requirement_refs_asdict_inj:
  "map (canonical \<circ> requirement_ref_asdict) rs = map (canonical \<circ> requirement_ref_asdict) ss \<Longrightarrow> rs = ss"
  by (rule map_injective [of "canonical \<circ> requirement_ref_asdict"]) (auto intro!: injI requirement_ref_asdict_inj)

lemma storable_requirement [simp]: "storable (requirement_ref_asdict r)"
  by (simp add: requirement_ref_asdict_def)

lemma inputs_text_eq:
  assumes "inputs_text r = inputs_text r'"
  shows "br_inputs r = br_inputs r'"
proof -
  have "map (\<lambda>kv. canonical (snd kv)) (semantic_inputs_items (br_inputs r)) =
      map (\<lambda>kv. canonical (snd kv)) (semantic_inputs_items (br_inputs r'))"
    by (rule contract_text_inj [OF assms [unfolded inputs_text_def]])
      (simp_all add: semantic_inputs_items_def list_all_iff)
  then show ?thesis
    by (intro semantic_inputs.equality)
      (simp_all add: semantic_inputs_items_def requirement_refs_asdict_inj)
qed

lemma subject_text_eq:
  assumes "subject_text r = subject_text r'"
  shows "br_subject r = br_subject r'"
proof -
  let ?d = "\<lambda>r. semantic_subject_asdict (br_subject r)"
  have "storable (?d r)" "storable (?d r')" by (simp_all add: semantic_subject_asdict_def list_all_iff)
  moreover have "canonical_json (?d r) = canonical_json (?d r')"
    using assms by (simp add: subject_text_def semantic_subject_to_dict_def canonical_json_def canonical_idem)
  ultimately have "canonical (?d r) = canonical (?d r')" by (rule canonical_json_inj)
  from canonical_dict_items [OF this [unfolded semantic_subject_asdict_def]] show ?thesis
    by (intro semantic_subject.equality) (simp_all add: requirement_refs_asdict_inj)
qed

lemma packet_values_storable: "storable (task_packet_values p)"
  by (simp add: task_packet_values_def authority_binding_asdict_def provider_profile_asdict_def
      capability_policy_asdict_def execution_plan_asdict_def execution_stage_asdict_def task_limits_asdict_def
      list_all_iff)

lemma packet_text_eq:
  assumes "packet_text p = packet_text q" "task_packet_ok nfc p" "task_packet_ok nfc q"
  shows "p = q"
proof -
  have "task_packet_body p = task_packet_body q"
    unfolding task_packet_body_def
    by (rule execution_text_inj [OF assms(1) [unfolded packet_text_def]]) (rule packet_values_storable)+
  then show ?thesis using task_packet_reparsed assms(2,3) by (metis Inr_inject)
qed

lemma result_text_eq:
  assumes "result_text w = result_text w'" "workspace_result_ok nfc w" "workspace_result_ok nfc w'"
  shows "w = w'"
proof -
  have d: "wr_workspace_result_digest w = wr_workspace_result_digest w'"
    using assms by (simp add: workspace_result_ok_def digests_of_texts)
  have "canonical (workspace_result_values w) = canonical (workspace_result_values w')"
    by (rule execution_text_inj [OF assms(1) [unfolded result_text_def]]) (simp_all add: workspace_result_values_def)
  from canonical_dict_items [OF this [unfolded workspace_result_values_def]] d show ?thesis
    by (intro workspace_result.equality) (simp_all add: canonical_opt_str)
qed

lemma snapshot_text_eq:
  assumes "snapshot_text s = snapshot_text s'" "workspace_snapshot_ok s" "workspace_snapshot_ok s'"
  shows "s = s'"
proof -
  have d: "ws_workspace_snapshot_digest s = ws_workspace_snapshot_digest s'"
    using assms by (simp add: workspace_snapshot_ok_def digests_of_texts)
  have "map (\<lambda>kv. canonical (snd kv)) (snapshot_items s) = map (\<lambda>kv. canonical (snd kv)) (snapshot_items s')"
    by (rule contract_text_inj [OF assms(1) [unfolded snapshot_text_def]]) (simp_all add: snapshot_items_def)
  with d show ?thesis by (intro workspace_snapshot.equality) (simp_all add: snapshot_items_def)
qed

lemma manifest_text_eq:
  assumes "manifest_text m = manifest_text m'" "rm_manifest_digest m = manifest_digest_of m"
    "rm_manifest_digest m' = manifest_digest_of m'"
  shows "m = m'"
proof -
  have "canonical (run_manifest_values m) = canonical (run_manifest_values m')"
    by (rule execution_text_inj [OF assms(1) [unfolded manifest_text_def]]) (simp_all add: run_manifest_values_def)
  from canonical_dict_items [OF this [unfolded run_manifest_values_def]] assms show ?thesis
    by (intro run_manifest.equality) (simp_all add: digests_of_texts)
qed

section \<open>Properties\<close>

text \<open>The texts hashed on the way from the envelope of a run down to its packet, manifest, snapshot and result.\<close>

definition run_texts ::
  "bridge_result \<Rightarrow> task_packet \<Rightarrow> run_manifest \<Rightarrow> workspace_snapshot \<Rightarrow> workspace_result \<Rightarrow> string list" where
  "run_texts r p m s w =
     [envelope_text r, binding_text r, inputs_text r, subject_text r, packet_text p, manifest_text m, snapshot_text s,
      result_text w]"

definition collide :: "string list \<Rightarrow> string list \<Rightarrow> bool" where
  "collide xs ys = list_ex (\<lambda>(x, y). sha256_collision x y) (zip xs ys)"

lemma texts_agree:
  assumes "\<not> collide (run_texts r p m s w) (run_texts r' p' m' s' w')"
  shows "envelope_digest r = envelope_digest r' \<Longrightarrow> envelope_text r = envelope_text r'"
    "binding_digest (br_binding r) = binding_digest (br_binding r') \<Longrightarrow> binding_text r = binding_text r'"
    "inputs_digest (br_inputs r) = inputs_digest (br_inputs r') \<Longrightarrow> inputs_text r = inputs_text r'"
    "subject_digest (br_subject r) = subject_digest (br_subject r') \<Longrightarrow> subject_text r = subject_text r'"
    "packet_digest_of p = packet_digest_of p' \<Longrightarrow> packet_text p = packet_text p'"
    "manifest_digest_of m = manifest_digest_of m' \<Longrightarrow> manifest_text m = manifest_text m'"
    "snapshot_digest_of s = snapshot_digest_of s' \<Longrightarrow> snapshot_text s = snapshot_text s'"
    "workspace_result_digest_of w = workspace_result_digest_of w' \<Longrightarrow> result_text w = result_text w'"
  using assms by (simp_all add: collide_def run_texts_def sha256_collision_def digests_of_texts)

text \<open>What the binding of an accepted run says of its parts.\<close>

lemma run_parts:
  assumes "build_semantic_subject nfc word packet manifest snapshot result terminal ps as arg = Inr r"
  shows "task_packet_ok nfc packet" "workspace_snapshot_ok snapshot" "workspace_result_ok nfc result"
    "rm_manifest_digest manifest = manifest_digest_of manifest"
    "sx_task_packet_digest (br_binding r) = packet_digest_of packet"
    "sx_run_manifest_digest (br_binding r) = manifest_digest_of manifest"
    "sx_workspace_snapshot_digest (br_binding r) = snapshot_digest_of snapshot"
    "sx_workspace_result_digest (br_binding r) = workspace_result_digest_of result"
proof -
  have ev: "run_evidence nfc packet manifest snapshot result terminal"
    and b: "br_binding r = binding_of packet manifest snapshot result terminal
      (sort_key ap_idempotency_key ps) (sort_key aa_artifact_attestation_digest as)"
    using assms by (auto elim!: accepted_parts simp: bridge_result_of_def Let_def)
  show ok: "task_packet_ok nfc packet" "workspace_snapshot_ok snapshot" "workspace_result_ok nfc result"
    using ev by (simp_all add: run_evidence_def)
  have "run_manifest_from_packet packet (rm_deadline manifest) = Inr manifest" using ev by (simp add: run_evidence_def)
  from run_manifest_fields(5) [OF this] show m: "rm_manifest_digest manifest = manifest_digest_of manifest" .
  show "sx_task_packet_digest (br_binding r) = packet_digest_of packet"
    "sx_run_manifest_digest (br_binding r) = manifest_digest_of manifest"
    "sx_workspace_snapshot_digest (br_binding r) = snapshot_digest_of snapshot"
    "sx_workspace_result_digest (br_binding r) = workspace_result_digest_of result"
    using ok m by (simp_all add: b binding_of_def task_packet_ok_def workspace_snapshot_ok_def workspace_result_ok_def)
qed

text \<open>C14: The envelope digest of an accepted run names the whole run: two accepted runs with the same envelope digest
  have the same packet, manifest, snapshot, result, binding, inputs and subject - or one of the eight pairs of texts
  hashed for them is a collision of SHA-256.\<close>

theorem envelope_names_run:
  assumes "build_semantic_subject nfc word packet manifest snapshot result terminal ps as arg = Inr r"
    and "build_semantic_subject nfc word packet' manifest' snapshot' result' terminal' ps' as' arg' = Inr r'"
    and "envelope_digest r = envelope_digest r'"
  shows "(packet = packet' \<and> manifest = manifest' \<and> snapshot = snapshot' \<and> result = result' \<and> r = r') \<or>
    collide (run_texts r packet manifest snapshot result) (run_texts r' packet' manifest' snapshot' result')"
proof (rule disjCI)
  assume free: "\<not> collide (run_texts r packet manifest snapshot result) (run_texts r' packet' manifest' snapshot' result')"
  note agree = texts_agree [OF free] and p = run_parts [OF assms(1)] and p' = run_parts [OF assms(2)]
  note parts = envelope_text_parts [OF agree(1) [OF assms(3)]]
  have binding: "br_binding r = br_binding r'" by (rule binding_text_eq [OF agree(2) [OF parts(1)]])
  then have "r = r'"
    using inputs_text_eq [OF agree(3) [OF parts(2)]] subject_text_eq [OF agree(4) [OF parts(3)]] by simp
  moreover have "packet = packet'" using packet_text_eq [OF agree(5) p(1) p'(1)] p(5) p'(5) binding by simp
  moreover have "manifest = manifest'" using manifest_text_eq [OF agree(6) p(4) p'(4)] p(6) p'(6) binding by simp
  moreover have "snapshot = snapshot'" using snapshot_text_eq [OF agree(7) p(2) p'(2)] p(7) p'(7) binding by simp
  moreover have "result = result'" using result_text_eq [OF agree(8) p(3) p'(3)] p(8) p'(8) binding by simp
  ultimately show "packet = packet' \<and> manifest = manifest' \<and> snapshot = snapshot' \<and> result = result' \<and> r = r'"
    by simp
qed

theorem envelope_names_run_witness:
  "(run_packet = run_packet \<and> run_bridge = run_bridge) \<or>
   collide (run_texts run_bridge run_packet run_manifest run_snapshot run_result)
     (run_texts run_bridge run_packet run_manifest run_snapshot run_result)"
  using envelope_names_run [OF run_accepted [folded run_bridge_def] run_accepted [folded run_bridge_def] refl] by blast

section \<open>The work of an intake\<close>

definition work_text :: "task_intake \<Rightarrow> string" where
  "work_text t = canonical_json (work_identity t)"

lemma architecture_asdict_inj: "canonical (architecture_asdict a) = canonical (architecture_asdict b) \<Longrightarrow> a = b"
  unfolding architecture_asdict_def by (drule canonical_dict_items) (auto intro: architecture_handoff.equality)

lemma governance_asdict_inj: "canonical (governance_asdict a) = canonical (governance_asdict b) \<Longrightarrow> a = b"
  unfolding governance_asdict_def by (drule canonical_dict_items) (auto intro: governance_handoff.equality)

lemma limits_asdict_inj: "canonical (task_limits_asdict a) = canonical (task_limits_asdict b) \<Longrightarrow> a = b"
  unfolding task_limits_asdict_def by (drule canonical_dict_items) (auto intro: task_limits.equality)

text \<open>The items of the work, as a list of values, are recovered from its canonical form.\<close>

lemma work_text_items:
  assumes "work_text t = work_text u"
  shows "work_identity_items t = work_identity_items u"
proof -
  have stored: "storable (py_dict (work_identity_items v))" for v
    by (simp add: work_identity_items_def architecture_asdict_def governance_asdict_def task_limits_asdict_def list_all_iff)
  have "canonical (work_identity t) = canonical (work_identity u)"
    using stored by (intro canonical_json_inj assms [unfolded work_text_def]) (simp_all add: work_identity_def)
  from canonical_dict_items [OF this [unfolded work_identity_def]]
  have c: "canonical (py_dict (work_identity_items t)) = canonical (py_dict (work_identity_items u))" by simp
  have "map (\<lambda>kv. canonical (snd kv)) (work_identity_items t) = map (\<lambda>kv. canonical (snd kv)) (work_identity_items u)"
    by (rule canonical_dict_items [OF c]) (simp_all add: work_identity_items_def)
  then show ?thesis
    by (auto simp: work_identity_items_def dest: architecture_asdict_inj governance_asdict_inj limits_asdict_inj)
qed



end
