(* ===== verification/Redaction.thy ===== *)
theory Redaction
  imports PyRegex
begin

text \<open>
  The redaction of \<open>brokers.py\<close>: what \<open>_redact\<close> takes out of a text before it is stored, and what a redacted
  text can no longer hold.
\<close>

section \<open>The patterns\<close>

text \<open>The parts of the patterns that do respect case.\<close>

definition Exact :: "string \<Rightarrow> rx" where
  "Exact s = Seq (map (\<lambda>c. Chars (\<lambda>d. d = [c])) s)"

definition Exact_class :: "string \<Rightarrow> rx" where
  "Exact_class members = Chars (\<lambda>c. case c of [d] \<Rightarrow> d \<in> set members | _ \<Rightarrow> False)"

definition key_label :: rx where
  "key_label = Then (Star (Exact_class (upper_chars @ digits_chars @ '' ''))) (Exact ''PRIVATE KEY'')"

definition PEM_MARKER :: rx where
  "PEM_MARKER = Seq [Exact ''-----'', Or (Exact ''BEGIN'') (Exact ''END''), Exact '' '', key_label, Exact ''-----'']"

text \<open>The text between two positions; the group that the pattern of a block refers to is such a text.\<close>

definition between :: "position \<Rightarrow> position \<Rightarrow> string" where
  "between p q = concat (rev (take (length (fst q) - length (fst p)) (fst q)))"

definition PEM_BLOCK :: "(string \<Rightarrow> bool) \<Rightarrow> position \<Rightarrow> position list" where
  "PEM_BLOCK word pos =
     concat (map (\<lambda>p. concat (map (\<lambda>q.
         ends word (Seq [Exact ''-----'', Lazy (Chars (\<lambda>c. True)),
           Exact (''-----END '' @ between p q @ ''-----'')]) q)
       (ends word key_label p)))
     (ends word (Exact ''-----BEGIN '') pos))"

definition BEARER :: rx where
  "BEARER = Seq [WordBoundary, Literal ''bearer'', Plus (Class [CHR '' '', CHR 0x09]),
     Plus (Class (''._~+/=-'' @ alnum_lower))]"

definition AUTHORIZATION :: rx where
  "AUTHORIZATION = Seq [NotBehind (in_class identifier_class), Star (Then (Plus (Class alnum_lower)) (Class ''_-'')),
     Literal ''authorization'', blanks, Class ''=:'', blanks, Star (Chars (\<lambda>c. c \<noteq> [CHR 0x0D] \<and> c \<noteq> [CHR 0x0A]))]"

text \<open>\<open>\s\<close>: the white space of Unicode.\<close>

definition space_point :: "string \<Rightarrow> bool" where
  "space_point c = (case map byte c of
       [b] \<Rightarrow> 9 \<le> b \<and> b \<le> 13 \<or> 28 \<le> b \<and> b \<le> 32
     | [b, d] \<Rightarrow> b = 194 \<and> (d = 133 \<or> d = 160)
     | [b, d, e] \<Rightarrow>
         b = 225 \<and> d = 154 \<and> e = 128 \<or>
         b = 226 \<and> d = 128 \<and> (128 \<le> e \<and> e \<le> 138 \<or> e = 168 \<or> e = 169 \<or> e = 175) \<or>
         b = 226 \<and> d = 129 \<and> e = 159 \<or> b = 227 \<and> d = 128 \<and> e = 128
     | _ \<Rightarrow> False)"

definition quoted :: "char \<Rightarrow> rx" where
  "quoted q = Seq [Exact [q], Plus (Chars (\<lambda>c. c \<noteq> [q] \<and> c \<noteq> [CHR 0x0D] \<and> c \<noteq> [CHR 0x0A])), Exact [q]]"

definition SECRET :: rx where
  "SECRET = (let quote = Maybe (Class [CHR 0x22, CHR 0x27]); free = in_class identifier_class in Any_of
     [Then (Any_of [Literal ''sk-'', Literal ''ghp_'', Literal ''github_pat_'']) (Plus (Class identifier_class)),
      Seq [WordBoundary, Any_of [Literal ''akia'', Literal ''asia''], Times 16 (Class alnum_lower), WordBoundary],
      Seq [NotBehind free, quote, Star (Then (Plus (Class alnum_lower)) (Class ''_-'')), secret_names,
           Star (Then (Class ''_-'') (Plus (Class alnum_lower))), quote, NotAhead free, blanks, Class '':='', blanks,
           Any_of [quoted (CHR 0x22), quoted (CHR 0x27),
             Plus (Chars (\<lambda>c. \<not> space_point c \<and> c \<notin> {'','', '';'', ''}''}))]]])"

definition mask :: string where "mask = ''[REDACTED]''"

section \<open>Redacting\<close>

definition broker_error :: "string \<Rightarrow> pyexn" where
  "broker_error code = BrokerError code []"

definition redact :: "(string \<Rightarrow> bool) \<Rightarrow> string \<Rightarrow> int \<Rightarrow> string res" where
  "redact word value max_bytes =
     bnd (ensure (\<not> has_surrogate value) (broker_error ''invalid_text'')) (\<lambda>_.
     bnd (ensure (int (length value) \<le> max_bytes) (broker_error ''text_too_large'')) (\<lambda>_.
     let w = word_char word; blockless = substitute (PEM_BLOCK w) mask value in
     bnd (ensure (\<not> search w PEM_MARKER blockless) (broker_error ''secret_content'')) (\<lambda>_.
     let redacted = substitute (ends w SECRET) mask (substitute (ends w BEARER) mask
                      (substitute (ends w AUTHORIZATION) mask blockless)) in
     bnd (ensure (int (length redacted) \<le> max_bytes) (broker_error ''text_too_large'')) (\<lambda>_. Inr redacted))))"

section \<open>What a match takes\<close>

text \<open>The end of a match is further right in the same text.\<close>

definition forward :: "(position \<Rightarrow> position list) \<Rightarrow> bool" where
  "forward f = (\<forall>p q. q \<in> set (f p) \<longrightarrow> (\<exists>w. snd p = w @ snd q \<and> fst q = rev w @ fst p))"

lemma forwardI: "(\<And>pre cs q. q \<in> set (f (pre, cs)) \<Longrightarrow> \<exists>w. cs = w @ snd q \<and> fst q = rev w @ pre) \<Longrightarrow> forward f"
  by (auto simp: forward_def)

lemma forwardD: "forward f \<Longrightarrow> q \<in> set (f p) \<Longrightarrow> \<exists>w. snd p = w @ snd q \<and> fst q = rev w @ fst p"
  by (auto simp: forward_def)

lemma forward_id: "forward (\<lambda>p. [p])" "forward (\<lambda>p. if P p then [p] else [])" "forward (\<lambda>p. if P p then [] else [p])"
  by (auto simp: forward_def)

lemma forward_then:
  assumes "forward f" "\<And>p. forward (g p)"
  shows "forward (\<lambda>p. concat (map (g p) (f p)))"
  unfolding forward_def
proof (intro allI impI)
  fix p q assume "q \<in> set (concat (map (g p) (f p)))"
  then obtain r where r: "r \<in> set (f p)" "q \<in> set (g p r)" by auto
  obtain v where "snd p = v @ snd r \<and> fst r = rev v @ fst p" using forwardD [OF assms(1) r(1)] by blast
  moreover obtain w where "snd r = w @ snd q \<and> fst q = rev w @ fst r" using forwardD [OF assms(2) r(2)] by blast
  ultimately show "\<exists>w. snd p = w @ snd q \<and> fst q = rev w @ fst p" by (intro exI [of _ "v @ w"]) simp
qed

lemma forward_rounds:
  assumes "forward f"
  shows "forward (rounds n f)" "forward (lazy_rounds n f)"
proof -
  have "forward (\<lambda>p. concat (map (rounds n f) (f p)))" if "forward (rounds n f)" for n
    using forward_then [OF assms, of "\<lambda>_. rounds n f"] that by simp
  then show "forward (rounds n f)" by (induction n) (auto simp: forward_def)
  have "forward (\<lambda>p. concat (map (lazy_rounds n f) (f p)))" if "forward (lazy_rounds n f)" for n
    using forward_then [OF assms, of "\<lambda>_. lazy_rounds n f"] that by simp
  then show "forward (lazy_rounds n f)" by (induction n) (auto simp: forward_def)
qed

lemma forward_filter: "forward f \<Longrightarrow> forward (\<lambda>p. filter (P p) (f p))"
  by (simp add: forward_def)

lemma forward_choice: "(\<And>n. forward (f n)) \<Longrightarrow> forward (\<lambda>p. f (g p) p)"
  by (simp add: forward_def)

lemma forward_ends: "forward (ends word r)"
proof (induction r)
  case (Chars p)
  then show ?case by (auto simp: forward_def split: list.splits if_splits)
next
  case (Then r s)
  then show ?case using forward_then [of "ends word r" "\<lambda>_. ends word s"] by (simp add: forward_def)
next
  case (Star r)
  let ?f = "\<lambda>p. filter (\<lambda>q. length (snd q) < length (snd p)) (ends word r p)"
  have "forward ?f" using forward_filter [OF Star, of "\<lambda>p q. length (snd q) < length (snd p)"] .
  from forward_choice [of "\<lambda>n. rounds n ?f" "\<lambda>pos. length (snd pos)", OF forward_rounds(1) [OF this]]
  show ?case unfolding forward_def ends.simps .
next
  case (Lazy r)
  let ?f = "\<lambda>p. filter (\<lambda>q. length (snd q) < length (snd p)) (ends word r p)"
  have "forward ?f" using forward_filter [OF Lazy, of "\<lambda>p q. length (snd q) < length (snd p)"] .
  from forward_choice [of "\<lambda>n. lazy_rounds n ?f" "\<lambda>pos. length (snd pos)", OF forward_rounds(2) [OF this]]
  show ?case unfolding forward_def ends.simps .
qed (auto simp: forward_def)

lemma forward_block: "forward (PEM_BLOCK word)"
proof -
  let ?rest = "\<lambda>p q. Seq [Exact ''-----'', Lazy (Chars (\<lambda>c. True)), Exact (''-----END '' @ between p q @ ''-----'')]"
  let ?close = "\<lambda>p. concat (map (\<lambda>q. ends word (?rest p q) q) (ends word key_label p))"
  have "forward (\<lambda>q. ends word (?rest p q) q)" for p
    by (rule forward_choice [of "ends word" "?rest p"]) (rule forward_ends)
  then have "forward ?close" by (rule forward_then [OF forward_ends])
  then have "forward (\<lambda>pos. concat (map ?close (ends word (Exact ''-----BEGIN '') pos)))"
    by (rule forward_then [OF forward_ends, of "\<lambda>_. ?close"])
  then show ?thesis unfolding forward_def PEM_BLOCK_def .
qed

section \<open>Matches without a look around\<close>

text \<open>A pattern that looks at nothing but the characters it takes, all of a kind.\<close>

primrec takes_only :: "(string \<Rightarrow> bool) \<Rightarrow> rx \<Rightarrow> bool" where
  "takes_only A (Chars p) = (\<forall>c. p c \<longrightarrow> A c)"
| "takes_only A Nothing = True"
| "takes_only A (Then r s) = (takes_only A r \<and> takes_only A s)"
| "takes_only A (Or r s) = (takes_only A r \<and> takes_only A s)"
| "takes_only A (Star r) = takes_only A r"
| "takes_only A (Lazy r) = False"
| "takes_only A (NotBehind p) = False"
| "takes_only A (NotAhead p) = False"
| "takes_only A WordBoundary = False"

text \<open>The text \<open>w\<close> is matched wherever it stands.\<close>

definition everywhere :: "(position \<Rightarrow> position list) \<Rightarrow> string list \<Rightarrow> bool" where
  "everywhere f w = (\<forall>pre suf. (rev w @ pre, suf) \<in> set (f (pre, w @ suf)))"

definition local_match :: "(string \<Rightarrow> bool) \<Rightarrow> (position \<Rightarrow> position list) \<Rightarrow> bool" where
  "local_match A f = (\<forall>pre cs q. q \<in> set (f (pre, cs)) \<longrightarrow> (\<exists>w. cs = w @ snd q \<and> fst q = rev w @ pre \<and> list_all A w \<and> everywhere f w))"

lemma local_matchD:
  assumes "local_match A f" "q \<in> set (f (pre, cs))"
  obtains w where "cs = w @ snd q" "fst q = rev w @ pre" "list_all A w" "everywhere f w"
  using assms unfolding local_match_def by blast

lemma everywhere_append:
  assumes "everywhere f v" "everywhere g w"
  shows "everywhere (\<lambda>p. concat (map g (f p))) (v @ w)"
  unfolding everywhere_def
proof (intro allI)
  fix pre suf
  have "(rev v @ pre, w @ suf) \<in> set (f (pre, v @ w @ suf))" using assms(1) by (simp add: everywhere_def)
  moreover have "(rev w @ rev v @ pre, suf) \<in> set (g (rev v @ pre, w @ suf))" using assms(2) by (simp add: everywhere_def)
  ultimately show "(rev (v @ w) @ pre, suf) \<in> set (concat (map g (f (pre, (v @ w) @ suf))))" by auto
qed

lemma local_then:
  assumes "local_match A f" "local_match A g"
  shows "local_match A (\<lambda>p. concat (map g (f p)))"
  unfolding local_match_def
proof (intro allI impI)
  fix pre cs q assume "q \<in> set (concat (map g (f (pre, cs))))"
  then obtain r where r: "r \<in> set (f (pre, cs))" "q \<in> set (g (fst r, snd r))" by auto
  obtain v where v: "cs = v @ snd r" "fst r = rev v @ pre" "list_all A v" "everywhere f v"
    by (rule local_matchD [OF assms(1) r(1)])
  obtain w where w: "snd r = w @ snd q" "fst q = rev w @ fst r" "list_all A w" "everywhere g w"
    by (rule local_matchD [OF assms(2) r(2)])
  show "\<exists>u. cs = u @ snd q \<and> fst q = rev u @ pre \<and> list_all A u \<and> everywhere (\<lambda>p. concat (map g (f p))) u"
    by (rule exI [of _ "v @ w"]) (use v w everywhere_append in auto)
qed

text \<open>Rounds that each take a character: as many as there are characters are enough.\<close>

lemma rounds_more: "q \<in> set (rounds n f p) \<Longrightarrow> n \<le> m \<Longrightarrow> q \<in> set (rounds m f p)"
proof (induction n arbitrary: m p)
  case 0
  then show ?case by (cases m) auto
next
  case (Suc n)
  then obtain k where "m = Suc k" "n \<le> k" by (cases m) auto
  with Suc show ?case by auto
qed

lemma local_rounds:
  assumes "local_match A f" and less: "\<And>p q. q \<in> set (f p) \<Longrightarrow> length (snd q) < length (snd p)"
  shows "local_match A (\<lambda>p. rounds (length (snd p)) f p)"
proof -
  have "\<exists>w. cs = w @ snd q \<and> fst q = rev w @ pre \<and> list_all A w \<and>
      (\<forall>pre suf. (rev w @ pre, suf) \<in> set (rounds (length w) f (pre, w @ suf)))"
    if "q \<in> set (rounds n f (pre, cs))" for n pre cs q
    using that
  proof (induction n arbitrary: pre cs)
    case 0
    then show ?case by simp
  next
    case (Suc n)
    then consider "q = (pre, cs)" | r where "r \<in> set (f (pre, cs))" "q \<in> set (rounds n f (fst r, snd r))" by auto
    then show ?case
    proof cases
      case 1
      then show ?thesis by (intro exI [of _ "[]"]) simp
    next
      case 2
      obtain v where v: "cs = v @ snd r" "fst r = rev v @ pre" "list_all A v" "everywhere f v"
        by (rule local_matchD [OF assms(1) 2(1)])
      have "0 < length v" using less [OF 2(1)] v(1) by simp
      then obtain k where k: "length v = Suc k" by (cases "length v") auto
      obtain w where w: "snd r = w @ snd q" "fst q = rev w @ fst r" "list_all A w"
        and e: "\<And>pre suf. (rev w @ pre, suf) \<in> set (rounds (length w) f (pre, w @ suf))"
        using Suc.IH [OF 2(2)] by blast
      have "(rev (v @ w) @ pre, suf) \<in> set (rounds (length (v @ w)) f (pre, (v @ w) @ suf))" for pre suf
      proof -
        have "(rev v @ pre, w @ suf) \<in> set (f (pre, v @ w @ suf))" using v(4) by (simp add: everywhere_def)
        moreover have "(rev w @ rev v @ pre, suf) \<in> set (rounds (k + length w) f (rev v @ pre, w @ suf))"
          using rounds_more [OF e [of "rev v @ pre" suf]] by simp
        ultimately show ?thesis by (auto simp: k)
      qed
      with v w show ?thesis by (intro exI [of _ "v @ w"]) simp
    qed
  qed note * = this
  show ?thesis
    unfolding local_match_def
  proof (intro allI impI)
    fix pre cs q assume "q \<in> set (rounds (length (snd (pre, cs))) f (pre, cs))"
    from * [OF this] obtain w where w: "cs = w @ snd q" "fst q = rev w @ pre" "list_all A w"
      "\<And>pre suf. (rev w @ pre, suf) \<in> set (rounds (length w) f (pre, w @ suf))" by blast
    then have "everywhere (\<lambda>p. rounds (length (snd p)) f p) w"
      unfolding everywhere_def using rounds_more [OF w(4)] by simp
    with w show "\<exists>w. cs = w @ snd q \<and> fst q = rev w @ pre \<and> list_all A w \<and> everywhere (\<lambda>p. rounds (length (snd p)) f p) w"
      by blast
  qed
qed

lemma local_filter:
  assumes "local_match A f"
  shows "local_match A (\<lambda>p. filter (\<lambda>q. length (snd q) < length (snd p)) (f p))"
  unfolding local_match_def
proof (intro allI impI)
  fix pre cs q assume q: "q \<in> set (filter (\<lambda>q. length (snd q) < length (snd (pre, cs))) (f (pre, cs)))"
  then obtain w where w: "cs = w @ snd q" "fst q = rev w @ pre" "list_all A w" "everywhere f w"
    using local_matchD [OF assms, of q pre cs] by auto
  with q have "0 < length w" by simp
  with w(4) have "everywhere (\<lambda>p. filter (\<lambda>q. length (snd q) < length (snd p)) (f p)) w"
    by (simp add: everywhere_def)
  with w show "\<exists>w. cs = w @ snd q \<and> fst q = rev w @ pre \<and> list_all A w \<and>
      everywhere (\<lambda>p. filter (\<lambda>q. length (snd q) < length (snd p)) (f p)) w"
    by blast
qed

lemma local_ends: "takes_only A r \<Longrightarrow> local_match A (ends word r)"
proof (induction r)
  case (Chars p)
  show ?case
    unfolding local_match_def
  proof (intro allI impI)
    fix pre cs q assume "q \<in> set (ends word (Chars p) (pre, cs))"
    then obtain c where c: "cs = c # snd q" "fst q = c # pre" "p c" by (auto split: list.splits if_splits)
    then have "everywhere (ends word (Chars p)) [c]" by (simp add: everywhere_def)
    with c Chars show "\<exists>w. cs = w @ snd q \<and> fst q = rev w @ pre \<and> list_all A w \<and> everywhere (ends word (Chars p)) w"
      by (intro exI [of _ "[c]"]) simp
  qed
next
  case Nothing
  have "everywhere (ends word Nothing) []" by (simp add: everywhere_def)
  then show ?case unfolding local_match_def by (intro allI impI exI [of _ "[]"]) simp
next
  case (Then r s)
  then have "local_match A (\<lambda>p. concat (map (ends word s) (ends word r p)))" by (intro local_then) simp_all
  then show ?case by (simp add: local_match_def everywhere_def)
next
  case (Or r s)
  then have l: "local_match A (ends word r)" "local_match A (ends word s)" by simp_all
  have e: "everywhere (ends word r) w \<or> everywhere (ends word s) w \<Longrightarrow> everywhere (ends word (Or r s)) w" for w
    by (auto simp: everywhere_def)
  show ?case
    unfolding local_match_def
  proof (intro allI impI)
    fix pre cs q assume "q \<in> set (ends word (Or r s) (pre, cs))"
    then consider "q \<in> set (ends word r (pre, cs))" | "q \<in> set (ends word s (pre, cs))" by auto
    then show "\<exists>w. cs = w @ snd q \<and> fst q = rev w @ pre \<and> list_all A w \<and> everywhere (ends word (Or r s)) w"
      by cases (use local_matchD [OF l(1)] local_matchD [OF l(2)] e in metis)+
  qed
next
  case (Star r)
  let ?f = "\<lambda>p. filter (\<lambda>q. length (snd q) < length (snd p)) (ends word r p)"
  from Star have "local_match A ?f" by (intro local_filter) simp
  then have "local_match A (\<lambda>p. rounds (length (snd p)) ?f p)" by (rule local_rounds) simp
  then show ?case unfolding local_match_def everywhere_def ends.simps .
qed simp_all

lemma ex_split_Cons:
  "(\<exists>a b. c # cs = a @ b \<and> P a b) \<longleftrightarrow> P [] (c # cs) \<or> (\<exists>a b. cs = a @ b \<and> P (c # a) b)"
  by (auto simp: Cons_eq_append_conv)

lemma search_from_iff: "search_from word r pre cs \<longleftrightarrow> (\<exists>a b. cs = a @ b \<and> ends word r (rev a @ pre, b) \<noteq> [])"
proof (induction cs arbitrary: pre)
  case (Cons c cs)
  show ?case using ex_split_Cons [of c cs "\<lambda>a b. ends word r (rev a @ pre, b) \<noteq> []"] Cons.IH [of "c # pre"] by simp
qed simp

text \<open>A search for such a pattern asks whether one of its words stands in the text.\<close>

lemma search_local:
  assumes "takes_only A r"
  shows "search_from word r pre cs \<longleftrightarrow> (\<exists>a w b. cs = a @ w @ b \<and> list_all A w \<and> everywhere (ends word r) w)"
proof
  assume "search_from word r pre cs"
  then obtain a b q where "cs = a @ b" "q \<in> set (ends word r (rev a @ pre, b))"
    unfolding search_from_iff by (metis ex_in_conv set_empty)
  with local_matchD [OF local_ends [OF assms]] show "\<exists>a w b. cs = a @ w @ b \<and> list_all A w \<and> everywhere (ends word r) w"
    by metis
next
  assume "\<exists>a w b. cs = a @ w @ b \<and> list_all A w \<and> everywhere (ends word r) w"
  then obtain a w b where "cs = a @ w @ b" "everywhere (ends word r) w" by blast
  then show "search_from word r pre cs"
    unfolding search_from_iff everywhere_def by (intro exI [of _ a] exI [of _ "w @ b"]) (metis empty_iff list.set(1))
qed

section \<open>Substitution\<close>

lemma sub_from_Cons:
  assumes "forward m"
  shows "(\<exists>c cs'. cs = c # cs' \<and> sub_from m t pre cs = c # sub_from m t (c # pre) cs') \<or>
    (\<exists>q v. cs = v @ snd q \<and> v \<noteq> [] \<and> sub_from m t pre cs = t @ sub_from m t (fst q) (snd q)) \<or> cs = []"
proof (cases cs)
  case (Cons c cs')
  let ?qs = "filter (\<lambda>q. length (snd q) < length (c # cs')) (m (pre, c # cs'))"
  show ?thesis
  proof (cases ?qs)
    case Nil
    with Cons show ?thesis by simp
  next
    case q: (Cons q qs)
    have "q \<in> set (m (pre, c # cs'))" "length (snd q) < length (c # cs')" using filter_head [OF q] by simp_all
    then obtain v where v: "c # cs' = v @ snd q" using forwardD [OF assms, of q "(pre, c # cs')"] by auto
    with \<open>length (snd q) < length (c # cs')\<close> have "v \<noteq> []" by auto
    moreover have "sub_from m t pre cs = t @ sub_from m t (fst q) (snd q)" using Cons q by (cases q) simp
    ultimately show ?thesis using v Cons by blast
  qed
qed simp

lemma sub_prefix:
  assumes "forward m" "t \<noteq> []" "hd t \<notin> set w"
  shows "sub_from m t pre cs = w @ b \<Longrightarrow> \<exists>b. cs = w @ b"
  using assms(3)
proof (induction "length cs" arbitrary: pre cs w rule: less_induct)
  case less
  consider c cs' where "cs = c # cs'" "sub_from m t pre cs = c # sub_from m t (c # pre) cs'"
    | q v where "cs = v @ snd q" "v \<noteq> []" "sub_from m t pre cs = t @ sub_from m t (fst q) (snd q)" | "cs = []"
    using sub_from_Cons [OF assms(1), of cs t pre] by blast
  then show ?case
  proof cases
    case 1
    then show ?thesis using less.hyps [of cs' "c # pre" "tl w"] less.prems by (cases w) auto
  next
    case 2
    with less.prems assms(2) show ?thesis by (cases w; cases t) auto
  qed (use less.prems in simp)
qed

text \<open>
  A word that does not begin inside the replacement, and does not hold its first character, was there before
  the substitution.
\<close>

lemma sub_window:
  assumes "forward m" "t \<noteq> []" "hd t \<notin> set w" "w \<noteq> []" "hd w \<notin> set t"
  shows "sub_from m t pre cs = a @ w @ b \<Longrightarrow> \<exists>a b. cs = a @ w @ b"
proof (induction "length cs" arbitrary: pre cs a rule: less_induct)
  case less
  consider c cs' where "cs = c # cs'" "sub_from m t pre cs = c # sub_from m t (c # pre) cs'"
    | q v where "cs = v @ snd q" "v \<noteq> []" "sub_from m t pre cs = t @ sub_from m t (fst q) (snd q)" | "cs = []"
    using sub_from_Cons [OF assms(1), of cs t pre] by blast
  then show ?case
  proof cases
    case 1
    show ?thesis
    proof (cases a)
      case Nil
      with less.prems sub_prefix [OF assms(1-3), of pre cs b] show ?thesis by (metis append_Nil)
    next
      case (Cons x a')
      with less.prems 1 have "sub_from m t (c # pre) cs' = a' @ w @ b" by simp
      with less.hyps [of cs' "c # pre" a'] 1(1) obtain a b where "cs' = a @ w @ b" by auto
      then show ?thesis using 1(1) by (metis append_Cons)
    qed
  next
    case 2
    with less.prems have e: "t @ sub_from m t (fst q) (snd q) = a @ w @ b" by simp
    then obtain us where "t = a @ us \<and> us @ sub_from m t (fst q) (snd q) = w @ b \<or> t @ us = a \<and> sub_from m t (fst q) (snd q) = us @ w @ b"
      unfolding append_eq_append_conv2 by blast
    then show ?thesis
    proof
      assume *: "t = a @ us \<and> us @ sub_from m t (fst q) (snd q) = w @ b"
      then have "us = []" using assms(4,5) by (cases us; cases w) auto
      with * sub_prefix [OF assms(1-3), of "fst q" "snd q" b] obtain b where "snd q = w @ b" by auto
      with 2(1) show ?thesis by blast
    next
      assume *: "t @ us = a \<and> sub_from m t (fst q) (snd q) = us @ w @ b"
      moreover have "length (snd q) < length cs" using 2(1,2) by simp
      ultimately obtain a b where "snd q = a @ w @ b" using less.hyps by blast
      then show ?thesis using 2(1) by (metis append.assoc)
    qed
  qed (use less.prems assms(4) in simp)
qed

section \<open>Characters\<close>

definition follows :: "char \<Rightarrow> bool" where
  "follows c = (128 \<le> byte c \<and> byte c < 192)"

definition point :: "string \<Rightarrow> bool" where
  "point p = (p \<noteq> [] \<and> \<not> follows (hd p) \<and> list_all follows (tl p))"

text \<open>The first character of a byte string may lack its leading byte; the others are whole.\<close>

definition points :: "string list \<Rightarrow> bool" where
  "points ps = (case ps of [] \<Rightarrow> True | p # ps \<Rightarrow> p \<noteq> [] \<and> list_all follows (tl p) \<and> list_all point ps)"

lemma points_Cons: "points (p # ps) \<longleftrightarrow> p \<noteq> [] \<and> list_all follows (tl p) \<and> list_all point ps"
  by (simp add: points_def)

lemma list_all_hd_tl: "p \<noteq> [] \<Longrightarrow> list_all P p \<longleftrightarrow> P (hd p) \<and> list_all P (tl p)"
  by (cases p) auto

lemma code_points_first: "\<exists>r rs. code_points (d # t) = (d # r) # rs"
  by (auto split: list.split if_split)

lemma code_points_points: "points (code_points s)"
proof (induction s)
  case Nil
  show ?case by (simp add: points_def)
next
  case (Cons c cs)
  then show ?case
    by (cases "code_points cs") (auto simp: points_def point_def follows_def list_all_hd_tl split: if_splits)
qed

lemma code_points_one:
  assumes "list_all follows p" "list_all point ps"
  shows "code_points (c # p @ concat ps) = (c # p) # code_points (concat ps)"
  using assms(1)
proof (induction p arbitrary: c)
  case Nil
  show ?case
  proof (cases ps)
    case (Cons q qs)
    then obtain d where q: "q = d # tl q" "\<not> follows d" using assms(2) by (cases q) (auto simp: point_def)
    have "concat ps = d # tl q @ concat qs" using Cons q(1) by (metis append_Cons concat.simps(2))
    then obtain r rs where "code_points (concat ps) = (d # r) # rs" using code_points_first by metis
    with q(2) show ?thesis by (simp add: follows_def)
  qed simp
next
  case (Cons d p)
  then have "code_points (d # p @ concat ps) = (d # p) # code_points (concat ps)" "follows d" by simp_all
  then show ?case by (simp add: follows_def)
qed

lemma code_points_concat: "points ps \<Longrightarrow> code_points (concat ps) = ps"
proof (induction ps)
  case (Cons p ps)
  then have p: "p = hd p # tl p" "list_all follows (tl p)" "list_all point ps" by (simp_all add: points_Cons)
  then have "points ps" by (cases ps) (auto simp: points_def point_def)
  with Cons.IH code_points_one [OF p(2,3), of "hd p"] p(1) show ?case by (metis append_Cons concat.simps(2))
qed simp

lemma sub_points:
  assumes "forward m" "list_all point t" "t \<noteq> []"
  shows "list_all point cs \<Longrightarrow> list_all point (sub_from m t pre cs)" "points cs \<Longrightarrow> points (sub_from m t pre cs)"
proof -
  show *: "list_all point cs \<Longrightarrow> list_all point (sub_from m t pre cs)" for pre cs
  proof (induction "length cs" arbitrary: pre cs rule: less_induct)
    case less
    consider c cs' where "cs = c # cs'" "sub_from m t pre cs = c # sub_from m t (c # pre) cs'"
      | q v where "cs = v @ snd q" "v \<noteq> []" "sub_from m t pre cs = t @ sub_from m t (fst q) (snd q)" | "cs = []"
      using sub_from_Cons [OF assms(1), of cs t pre] by blast
    then show ?case by cases (use less assms(2) in auto)
  qed
  assume p: "points cs"
  consider c cs' where "cs = c # cs'" "sub_from m t pre cs = c # sub_from m t (c # pre) cs'"
    | q v where "cs = v @ snd q" "v \<noteq> []" "sub_from m t pre cs = t @ sub_from m t (fst q) (snd q)" | "cs = []"
    using sub_from_Cons [OF assms(1), of cs t pre] by blast
  then show "points (sub_from m t pre cs)"
  proof cases
    case 1
    with p * show ?thesis by (simp add: points_Cons)
  next
    case 2
    obtain c v' where "v = c # v'" using 2(2) by (cases v) auto
    with 2(1) p have "list_all point (snd q)" by (simp add: points_Cons)
    from * [OF this] assms(2,3) 2(3) show ?thesis by (cases t) (auto simp: points_Cons point_def)
  qed (simp add: points_def)
qed

lemma mask_points: "code_points mask = map (\<lambda>c. [c]) mask" "list_all point (code_points mask)" "code_points mask \<noteq> []"
  by (simp_all add: mask_def point_def follows_def byte_def)

lemma mask_chars: "hd (code_points mask) = ''[''" "''-'' \<notin> set (code_points mask)"
  unfolding mask_points(1) by (simp_all add: mask_def)

lemma code_points_substitute:
  assumes "forward m"
  shows "code_points (substitute m mask s) = sub_from m (code_points mask) [] (code_points s)"
  unfolding substitute_def
  by (rule code_points_concat [OF sub_points(2) [OF assms mask_points(2,3) code_points_points]])

section \<open>What redaction leaves\<close>

text \<open>No substitution of the mask brings back what a pattern of other characters looks for.\<close>

lemma substitute_search:
  assumes m: "forward m" and r: "takes_only (\<lambda>c. c \<noteq> ''['') r" and first: "\<And>w. everywhere (ends word r) w \<Longrightarrow> w \<noteq> [] \<and> hd w = ''-''"
    and found: "search word r (substitute m mask s)"
  shows "search word r s"
proof -
  obtain a w b where w: "sub_from m (code_points mask) [] (code_points s) = a @ w @ b" "list_all (\<lambda>c. c \<noteq> ''['') w"
    "everywhere (ends word r) w"
    using found unfolding search_def search_local [OF r] code_points_substitute [OF m] by blast
  have "hd (code_points mask) \<notin> set w" using w(2) unfolding mask_chars by (auto simp: list_all_iff)
  moreover have "hd w \<notin> set (code_points mask)" using first [OF w(3)] mask_chars(2) by metis
  moreover have "w \<noteq> []" using first [OF w(3)] by simp
  ultimately have "\<exists>a b. code_points s = a @ w @ b" by (intro sub_window [OF m mask_points(3) _ _ _ w(1)])
  then show ?thesis unfolding search_def search_local [OF r] using w(2,3) by blast
qed

lemma marker_local: "takes_only (\<lambda>c. c \<noteq> ''['') PEM_MARKER"
  by (auto simp: PEM_MARKER_def Exact_def Exact_class_def key_label_def upper_chars_def digits_chars_def split: list.splits)

lemma marker_first:
  assumes "everywhere (ends word PEM_MARKER) w"
  shows "w \<noteq> [] \<and> hd w = ''-''"
proof -
  have "(rev w, []) \<in> set (ends word PEM_MARKER ([], w))" using assms [unfolded everywhere_def, rule_format, of "[]" "[]"] by simp
  then have "ends word (Chars (\<lambda>d. d = ''-'')) ([], w) \<noteq> []"
    unfolding PEM_MARKER_def Exact_def by (auto simp del: ends.simps(1))
  then show ?thesis by (cases w) (auto split: if_splits)
qed

text \<open>A redacted text fits, is encodable and holds no marker of a private key.\<close>

lemma redact_Inr:
  assumes "redact word value n = Inr t"
  shows "int (length t) \<le> n \<and> \<not> search (word_char word) PEM_MARKER t"
proof -
  let ?w = "word_char word" and ?sub = "\<lambda>m. substitute m mask"
  let ?b = "?sub (PEM_BLOCK ?w) value"
  have t: "t = ?sub (ends ?w SECRET) (?sub (ends ?w BEARER) (?sub (ends ?w AUTHORIZATION) ?b))" "int (length t) \<le> n"
    "\<not> search ?w PEM_MARKER ?b"
    using assms by (auto simp: redact_def Let_def bnd_Inr_iff ensure_Inr_iff)
  have "search ?w PEM_MARKER (?sub (ends ?w r) s) \<Longrightarrow> search ?w PEM_MARKER s" for r s
    by (rule substitute_search [OF forward_ends marker_local marker_first])
  with t show ?thesis by blast
qed

end
