(* ===== verification/JsonReader.thy ===== *)
theory JsonReader
  imports CanonicalJson
begin

text \<open>
  \<open>bytes.decode("utf-8")\<close> and \<open>json.loads\<close> of the library, as the code uses them: with an
  \<open>object_pairs_hook\<close> that refuses a repeated key and a \<open>parse_constant\<close> that refuses \<open>NaN\<close> and the
  infinities.  The two exceptions those hooks raise are the parameters \<open>duplicate\<close> and \<open>nonfinite\<close>.

  A reader takes the text that is left and returns a value and what follows it.  Every reader consumes at
  least one character, which is what ends the loops over elements and members.  Containers may nest as deep
  as the interpreter's recursion limit leaves room for: the parameter \<open>stack\<close>.

  No operation looks inside a finite float, so the reader leaves its literal in the place of its \<open>repr\<close>.
\<close>

section \<open>UTF-8\<close>

text \<open>
  The ranges of the bytes that must follow a leading byte.  With \<open>surrogates\<close>, the three bytes of a lone
  surrogate are accepted as well: those are the byte strings that stand for a \<open>str\<close>.
\<close>

definition utf8_lead :: "bool \<Rightarrow> nat \<Rightarrow> (nat \<times> nat) list option" where
  "utf8_lead surrogates b =
     (if b < 128 then Some []
      else if b < 194 then None
      else if b < 224 then Some [(128, 191)]
      else if b = 224 then Some [(160, 191), (128, 191)]
      else if b = 237 then Some [(128, if surrogates then 191 else 159), (128, 191)]
      else if b < 240 then Some [(128, 191), (128, 191)]
      else if b = 240 then Some [(144, 191), (128, 191), (128, 191)]
      else if b < 244 then Some [(128, 191), (128, 191), (128, 191)]
      else if b = 244 then Some [(128, 143), (128, 191), (128, 191)]
      else None)"

fun utf8_after :: "bool \<Rightarrow> (nat \<times> nat) list \<Rightarrow> string \<Rightarrow> bool" where
  "utf8_after sg [] [] = True"
| "utf8_after sg (p # ps) [] = False"
| "utf8_after sg [] (c # cs) = (case utf8_lead sg (byte c) of None \<Rightarrow> False | Some ps \<Rightarrow> utf8_after sg ps cs)"
| "utf8_after sg ((lo, hi) # ps) (c # cs) = (lo \<le> byte c \<and> byte c \<le> hi \<and> utf8_after sg ps cs)"

definition utf8 :: "string \<Rightarrow> bool" where
  "utf8 s = utf8_after False [] s"

definition str_ok :: "string \<Rightarrow> bool" where
  "str_ok s = utf8_after True [] s"

definition decode_utf8 :: "string \<Rightarrow> string res" where
  "decode_utf8 raw = (if utf8 raw then Inr raw else Inl UnicodeDecodeError)"

definition encode_point :: "nat \<Rightarrow> string" where
  "encode_point u =
     (if u < 128 then [char_of u]
      else if u < 2048 then [char_of (192 + u div 64), char_of (128 + u mod 64)]
      else if u < 65536 then [char_of (224 + u div 4096), char_of (128 + u div 64 mod 64), char_of (128 + u mod 64)]
      else [char_of (240 + u div 262144), char_of (128 + u div 4096 mod 64), char_of (128 + u div 64 mod 64),
            char_of (128 + u mod 64)])"

section \<open>Strings\<close>

definition json_space :: "char \<Rightarrow> bool" where
  "json_space c = (c = CHR '' '' \<or> c = CHR 0x09 \<or> c = CHR 0x0A \<or> c = CHR 0x0D)"

definition skip_space :: "string \<Rightarrow> string" where
  "skip_space s = dropWhile json_space s"

definition hex_digit_value :: "char \<Rightarrow> nat option" where
  "hex_digit_value c =
     (if is_digit c then Some (byte c - 48)
      else if 97 \<le> byte c \<and> byte c \<le> 102 then Some (byte c - 87)
      else if 65 \<le> byte c \<and> byte c \<le> 70 then Some (byte c - 55)
      else None)"

fun read_hex4 :: "string \<Rightarrow> (nat \<times> string) res" where
  "read_hex4 (a # b # c # d # r) =
     (case (hex_digit_value a, hex_digit_value b, hex_digit_value c, hex_digit_value d) of
        (Some w, Some x, Some y, Some z) \<Rightarrow> Inr (((w * 16 + x) * 16 + y) * 16 + z, r)
      | _ \<Rightarrow> Inl JSONDecodeError)"
| "read_hex4 s = Inl JSONDecodeError"

definition high_surrogate :: "nat \<Rightarrow> bool" where
  "high_surrogate u = (0xD800 \<le> u \<and> u \<le> 0xDBFF)"

definition low_surrogate :: "nat \<Rightarrow> bool" where
  "low_surrogate u = (0xDC00 \<le> u \<and> u \<le> 0xDFFF)"

text \<open>After \<open>\u\<close>: a high surrogate and the low one escaped next to it are one character.\<close>

definition read_unicode :: "string \<Rightarrow> (string \<times> string) res" where
  "read_unicode s = bnd (read_hex4 s) (\<lambda>(u, r).
     if high_surrogate u \<and> take 2 r = [CHR 0x5C, CHR ''u'']
     then bnd (read_hex4 (drop 2 r)) (\<lambda>(l, r').
            if low_surrogate l then Inr (encode_point (0x10000 + (u - 0xD800) * 1024 + (l - 0xDC00)), r')
            else Inr (encode_point u, r))
     else Inr (encode_point u, r))"

text \<open>After a backslash.\<close>

definition read_escape :: "string \<Rightarrow> (string \<times> string) res" where
  "read_escape s =
     (case s of [] \<Rightarrow> Inl JSONDecodeError
      | c # r \<Rightarrow>
          (if c = CHR 0x22 \<or> c = CHR 0x5C \<or> c = CHR ''/'' then Inr ([c], r)
           else if c = CHR ''b'' then Inr ([CHR 0x08], r)
           else if c = CHR ''f'' then Inr ([CHR 0x0C], r)
           else if c = CHR ''n'' then Inr ([CHR 0x0A], r)
           else if c = CHR ''r'' then Inr ([CHR 0x0D], r)
           else if c = CHR ''t'' then Inr ([CHR 0x09], r)
           else if c = CHR ''u'' then read_unicode r
           else Inl JSONDecodeError))"

lemma read_hex4_shorter: "read_hex4 s = Inr (u, r) \<Longrightarrow> length r < length s"
  by (cases s rule: read_hex4.cases) (auto split: option.splits)

lemma read_unicode_shorter: "read_unicode s = Inr (t, r) \<Longrightarrow> length r < length s"
  by (fastforce simp: read_unicode_def res_simps split: prod.splits if_splits dest: read_hex4_shorter)

lemma read_escape_shorter: "read_escape s = Inr (t, r) \<Longrightarrow> length r < length s"
  by (fastforce simp: read_escape_def split: list.splits if_splits dest: read_unicode_shorter)

text \<open>After the opening quote.\<close>

function read_string :: "string \<Rightarrow> (string \<times> string) res" where
  "read_string [] = Inl JSONDecodeError"
| "read_string (c # cs) =
     (if c = CHR 0x22 then Inr ([], cs)
      else if c = CHR 0x5C then
        bnd (read_escape cs) (\<lambda>x. bnd (read_string (snd x)) (\<lambda>y. Inr (fst x @ fst y, snd y)))
      else if byte c < 32 then Inl JSONDecodeError
      else bnd (read_string cs) (\<lambda>y. Inr (c # fst y, snd y)))"
  by pat_completeness auto
termination
  by (relation "measure length") (auto dest!: read_escape_shorter)

lemma read_string_shorter: "read_string s = Inr (t, r) \<Longrightarrow> length r < length s"
proof (induction s arbitrary: t r rule: read_string.induct)
  case (2 c cs)
  show ?case
  proof (cases "c = CHR 0x22")
    case False
    show ?thesis
    proof (cases "c = CHR 0x5C")
      case True
      with "2.prems" obtain a p b where "read_escape cs = Inr (a, p)" "read_string p = Inr (b, r)"
        by (auto simp: res_simps)
      with "2.IH"(1) [of "(a, p)" b r] \<open>c \<noteq> CHR 0x22\<close> True show ?thesis
        by (auto dest: read_escape_shorter)
    next
      case no: False
      with False "2.prems" obtain b where "read_string cs = Inr (b, r)" "\<not> byte c < 32"
        by (auto simp: res_simps split: if_splits)
      with "2.IH"(2) [of b r] False no show ?thesis by simp
    qed
  qed (use "2.prems" in auto)
qed simp

section \<open>Numbers\<close>

definition MAX_STR_DIGITS :: nat where "MAX_STR_DIGITS = 4300"

text \<open>\<open>float(literal)\<close> is infinite from half a unit above the largest float on.\<close>

definition rounds_to_infinity :: "int \<Rightarrow> int \<Rightarrow> bool" where
  "rounds_to_infinity m e =
     (let b = 2 ^ 1024 - 2 ^ 970
      in if 0 \<le> e then b \<le> m * 10 ^ nat e else b * 10 ^ nat (- e) \<le> m)"

text \<open>The digits of a fraction and the value of an exponent, if there is one, and what follows.\<close>

definition read_fraction :: "string \<Rightarrow> string \<times> string" where
  "read_fraction s =
     (if s \<noteq> [] \<and> hd s = CHR ''.'' \<and> takeWhile is_digit (tl s) \<noteq> []
      then (takeWhile is_digit (tl s), dropWhile is_digit (tl s)) else ([], s))"

definition read_exponent :: "string \<Rightarrow> int option \<times> string" where
  "read_exponent s =
     (let t = tl s; signed = t \<noteq> [] \<and> (hd t = CHR ''-'' \<or> hd t = CHR ''+''); u = (if signed then tl t else t)
      in if s \<noteq> [] \<and> (hd s = CHR ''e'' \<or> hd s = CHR ''E'') \<and> takeWhile is_digit u \<noteq> []
         then (Some ((if signed \<and> hd t = CHR ''-'' then -1 else 1) * digits_val 0 (takeWhile is_digit u)),
               dropWhile is_digit u)
         else (None, s))"

definition read_number :: "string \<Rightarrow> (pyval \<times> string) res" where
  "read_number s =
     (let neg = s \<noteq> [] \<and> hd s = CHR ''-''; t = (if neg then tl s else s);
          whole = (if t \<noteq> [] \<and> hd t = CHR ''0'' then [CHR ''0''] else takeWhile is_digit t);
          (frac, r1) = read_fraction (drop (length whole) t); (ex, r2) = read_exponent r1
      in if whole = [] then Inl JSONDecodeError
         else if frac = [] \<and> ex = None then
           (if MAX_STR_DIGITS < length whole then Inl ValueError
            else Inr (PInt ((if neg then -1 else 1) * digits_val 0 whole), r2))
         else Inr (PFloat
           (if rounds_to_infinity (digits_val 0 (whole @ frac)) ((case ex of None \<Rightarrow> 0 | Some e \<Rightarrow> e) - int (length frac))
            then (if neg then ''-inf'' else ''inf'') else take (length s - length r2) s), r2))"

section \<open>Values\<close>

definition starts :: "string \<Rightarrow> string \<Rightarrow> bool" where
  "starts p s = (take (length p) s = p)"

definition read_token ::
  "(string \<Rightarrow> pyexn) \<Rightarrow> (string \<Rightarrow> (pyval \<times> string) res) \<Rightarrow> string \<Rightarrow> (pyval \<times> string) res" where
  "read_token nonfinite container s =
     (if s = [] then Inl JSONDecodeError
      else if hd s = CHR 0x22 then bnd (read_string (tl s)) (\<lambda>x. Inr (PStr (fst x), snd x))
      else if hd s = CHR ''{'' \<or> hd s = CHR ''['' then container s
      else if starts ''null'' s then Inr (PNone, drop 4 s)
      else if starts ''true'' s then Inr (PBool True, drop 4 s)
      else if starts ''false'' s then Inr (PBool False, drop 5 s)
      else if starts ''NaN'' s then Inl (nonfinite ''NaN'')
      else if starts ''Infinity'' s then Inl (nonfinite ''Infinity'')
      else if starts ''-Infinity'' s then Inl (nonfinite ''-Infinity'')
      else read_number s)"

text \<open>The elements of an array after its bracket, when it is not empty; the members of an object likewise.\<close>

function read_elements :: "(string \<Rightarrow> (pyval \<times> string) res) \<Rightarrow> string \<Rightarrow> (pyval list \<times> string) res" where
  "read_elements value s = bnd (value s) (\<lambda>x.
     case skip_space (snd x) of [] \<Rightarrow> Inl JSONDecodeError
     | c # r \<Rightarrow>
         (if c = CHR '']'' then Inr ([fst x], r)
          else if c = CHR '','' \<and> length r < length s
          then bnd (read_elements value (skip_space r)) (\<lambda>y. Inr (fst x # fst y, snd y))
          else Inl JSONDecodeError))"
  by pat_completeness auto

lemma length_skip_space: "length (skip_space s) \<le> length s"
  by (simp add: skip_space_def length_dropWhile_le)

termination read_elements
  by (relation "measure (\<lambda>(value, s). length s)") (auto intro: le_less_trans [OF length_skip_space])

function read_members :: "(string \<Rightarrow> (pyval \<times> string) res) \<Rightarrow> string \<Rightarrow> ((string \<times> pyval) list \<times> string) res" where
  "read_members value s =
     (if s = [] \<or> hd s \<noteq> CHR 0x22 then Inl JSONDecodeError
      else bnd (read_string (tl s)) (\<lambda>k.
        case skip_space (snd k) of [] \<Rightarrow> Inl JSONDecodeError
        | d # t \<Rightarrow>
            (if d \<noteq> CHR '':'' then Inl JSONDecodeError
             else bnd (value (skip_space t)) (\<lambda>x.
               case skip_space (snd x) of [] \<Rightarrow> Inl JSONDecodeError
               | c # r \<Rightarrow>
                   (if c = CHR ''}'' then Inr ([(fst k, fst x)], r)
                    else if c = CHR '','' \<and> length r < length s
                    then bnd (read_members value (skip_space r)) (\<lambda>y. Inr ((fst k, fst x) # fst y, snd y))
                    else Inl JSONDecodeError)))))"
  by pat_completeness auto

termination read_members
  by (relation "measure (\<lambda>(value, s). length s)") (auto intro: le_less_trans [OF length_skip_space])

declare read_elements.simps [simp del] read_members.simps [simp del]

fun first_repeated :: "string list \<Rightarrow> string list \<Rightarrow> string option" where
  "first_repeated seen [] = None"
| "first_repeated seen (k # ks) = (if k \<in> set seen then Some k else first_repeated (k # seen) ks)"

definition object_pairs :: "(string \<Rightarrow> pyexn) \<Rightarrow> (string \<times> pyval) list \<Rightarrow> pyval res" where
  "object_pairs duplicate kvs =
     (case first_repeated [] (map fst kvs) of Some k \<Rightarrow> Inl (duplicate k) | None \<Rightarrow> Inr (py_dict kvs))"

definition read_container ::
  "(string \<Rightarrow> pyexn) \<Rightarrow> (string \<Rightarrow> (pyval \<times> string) res) \<Rightarrow> string \<Rightarrow> (pyval \<times> string) res" where
  "read_container duplicate value s =
     (let t = skip_space (tl s) in
      if hd s = CHR ''['' then
        (if t \<noteq> [] \<and> hd t = CHR '']'' then Inr (PList [], tl t)
         else bnd (read_elements value t) (\<lambda>y. Inr (PList (fst y), snd y)))
      else if t \<noteq> [] \<and> hd t = CHR ''}'' then Inr (py_dict [], tl t)
      else bnd (read_members value t) (\<lambda>y. bnd (object_pairs duplicate (fst y)) (\<lambda>d. Inr (d, snd y))))"

primrec read_value :: "(string \<Rightarrow> pyexn) \<Rightarrow> (string \<Rightarrow> pyexn) \<Rightarrow> nat \<Rightarrow> string \<Rightarrow> (pyval \<times> string) res" where
  "read_value nonfinite duplicate 0 s = read_token nonfinite (\<lambda>_. Inl RecursionError) s"
| "read_value nonfinite duplicate (Suc n) s =
     read_token nonfinite (read_container duplicate (read_value nonfinite duplicate n)) s"

definition json_loads :: "(string \<Rightarrow> pyexn) \<Rightarrow> (string \<Rightarrow> pyexn) \<Rightarrow> nat \<Rightarrow> string \<Rightarrow> pyval res" where
  "json_loads nonfinite duplicate stack text =
     bnd (read_value nonfinite duplicate stack (skip_space text)) (\<lambda>x.
       if skip_space (snd x) = [] then Inr (fst x) else Inl JSONDecodeError)"

end
