(* ===== verification/JsonRoundTrip.thy ===== *)
theory JsonRoundTrip
  imports JsonReader
begin

text \<open>
  The reader reads back what the canonical text prints, and every reader consumes a character, so that the
  guards of the loops over elements and members never fail.
\<close>

section \<open>Every reader consumes\<close>

definition consuming :: "(string \<Rightarrow> ('a \<times> string) res) \<Rightarrow> bool" where
  "consuming f = (\<forall>s v r. f s = Inr (v, r) \<longrightarrow> length r < length s)"

lemma consumingI: "(\<And>s v r. f s = Inr (v, r) \<Longrightarrow> length r < length s) \<Longrightarrow> consuming f"
  by (simp add: consuming_def)

lemma consumingD: "consuming f \<Longrightarrow> f s = Inr (v, r) \<Longrightarrow> length r < length s"
  by (simp add: consuming_def)

lemma read_fraction_shorter: "read_fraction s = (f, r) \<Longrightarrow> length r \<le> length s"
  using length_dropWhile_le [of is_digit "tl s"] by (auto simp: read_fraction_def split: if_splits)

lemma read_exponent_shorter: "read_exponent s = (e, r) \<Longrightarrow> length r \<le> length s"
  using length_dropWhile_le [of is_digit "tl s"] length_dropWhile_le [of is_digit "tl (tl s)"]
  by (auto simp: read_exponent_def Let_def split: if_splits)

lemma read_number_shorter:
  assumes "read_number s = Inr (v, r)"
  shows "length r < length s"
proof -
  define t where "t = (if s \<noteq> [] \<and> hd s = CHR ''-'' then tl s else s)"
  define w where "w = (if t \<noteq> [] \<and> hd t = CHR ''0'' then [CHR ''0''] else takeWhile is_digit t)"
  obtain f r1 where f: "read_fraction (drop (length w) t) = (f, r1)" by fastforce
  obtain e r2 where e: "read_exponent r1 = (e, r2)" by fastforce
  from assms have w: "w \<noteq> []" and r: "r = r2"
    unfolding read_number_def t_def [symmetric] w_def [symmetric] Let_def f e prod.case by (auto split: if_splits)
  have "length w \<le> length t"
    unfolding w_def using length_takeWhile_le [of is_digit t] by (cases t) auto
  then have "length r2 < length t"
    using read_fraction_shorter [OF f] read_exponent_shorter [OF e] w by (cases w) auto
  moreover have "length t \<le> length s" by (simp add: t_def)
  ultimately show ?thesis by (simp add: r)
qed

lemma read_token_consuming:
  assumes "consuming container"
  shows "consuming (read_token nonfinite container)"
proof (rule consumingI)
  fix s v r assume "read_token nonfinite container s = Inr (v, r)"
  then show "length r < length s"
    using consumingD [OF assms, of s v r] read_number_shorter [of s v r]
    by (cases s) (auto simp: read_token_def res_simps split: if_splits dest: read_string_shorter)
qed

lemma skip_space_Cons: "skip_space s = c # r \<Longrightarrow> length r < length s"
  using length_skip_space [of s] by simp

text \<open>When the values consume, the guards of the two loops always hold.\<close>

lemma read_elements_unfold:
  assumes "consuming value"
  shows "read_elements value s = bnd (value s) (\<lambda>x.
     case skip_space (snd x) of [] \<Rightarrow> Inl JSONDecodeError
     | c # r \<Rightarrow>
         (if c = CHR '']'' then Inr ([fst x], r)
          else if c = CHR '',''
          then bnd (read_elements value (skip_space r)) (\<lambda>y. Inr (fst x # fst y, snd y))
          else Inl JSONDecodeError))"
proof -
  have "length r < length s" if "value s = Inr x" "skip_space (snd x) = c # r" for x c r
    using consumingD [OF assms, of s "fst x" "snd x"] that skip_space_Cons [OF that(2)] by simp
  then show ?thesis
    by (subst read_elements.simps) (auto split: list.splits intro!: bnd_cong)
qed

lemma read_members_unfold:
  assumes "consuming value"
  shows "read_members value s =
     (if s = [] \<or> hd s \<noteq> CHR 0x22 then Inl JSONDecodeError
      else bnd (read_string (tl s)) (\<lambda>k.
        case skip_space (snd k) of [] \<Rightarrow> Inl JSONDecodeError
        | d # t \<Rightarrow>
            (if d \<noteq> CHR '':'' then Inl JSONDecodeError
             else bnd (value (skip_space t)) (\<lambda>x.
               case skip_space (snd x) of [] \<Rightarrow> Inl JSONDecodeError
               | c # r \<Rightarrow>
                   (if c = CHR ''}'' then Inr ([(fst k, fst x)], r)
                    else if c = CHR '',''
                    then bnd (read_members value (skip_space r)) (\<lambda>y. Inr ((fst k, fst x) # fst y, snd y))
                    else Inl JSONDecodeError)))))"
proof -
  have "length r < length s"
    if "read_string (tl s) = Inr k" "skip_space (snd k) = d # t" "value (skip_space t) = Inr x"
      "skip_space (snd x) = c # r" for k d t x c r
    using read_string_shorter [of "tl s" "fst k" "snd k"] skip_space_Cons [OF that(2)] length_skip_space [of t]
      consumingD [OF assms, of "skip_space t" "fst x" "snd x"] skip_space_Cons [OF that(4)] that by simp
  then show ?thesis
    by (subst read_members.simps) (intro if_cong [OF refl refl] bnd_cong refl, auto split: list.splits intro!: bnd_cong)
qed

lemma read_elements_consuming:
  assumes "consuming value"
  shows "read_elements value s = Inr (vs, r) \<Longrightarrow> length r < length s"
proof (induction "length s" arbitrary: s vs r rule: less_induct)
  case less
  from less.prems obtain x where x: "value s = Inr x"
    by (auto simp: read_elements_unfold [OF assms] res_simps)
  have u: "length (snd x) < length s" using consumingD [OF assms, of s "fst x" "snd x"] x by simp
  show ?case
  proof (cases "skip_space (snd x)")
    case Nil
    with less.prems x show ?thesis by (simp add: read_elements_unfold [OF assms])
  next
    case (Cons c t)
    have t: "length t < length s" using skip_space_Cons [OF Cons] u by simp
    then have "read_elements value (skip_space t) = Inr (ws, r) \<Longrightarrow> length r < length s" for ws
      using less.hyps [of "skip_space t" ws r] length_skip_space [of t] by simp
    with less.prems x Cons t show ?thesis
      by (auto simp: read_elements_unfold [OF assms, of s] res_simps split: if_splits)
  qed
qed

lemma read_members_consuming:
  assumes "consuming value"
  shows "read_members value s = Inr (vs, r) \<Longrightarrow> length r < length s"
proof (induction "length s" arbitrary: s vs r rule: less_induct)
  case less
  note unfold = read_members_unfold [OF assms, of s]
  from less.prems have s: "\<not> (s = [] \<or> hd s \<noteq> CHR 0x22)" by (auto simp: unfold split: if_splits)
  from less.prems s obtain k where k: "read_string (tl s) = Inr k" by (auto simp: unfold res_simps)
  from less.prems s k obtain d t where t: "skip_space (snd k) = d # t" "d = CHR '':''"
    by (cases "skip_space (snd k)") (auto simp: unfold split: if_splits)
  from less.prems s k t obtain x where x: "value (skip_space t) = Inr x" by (auto simp: unfold res_simps)
  have w: "length (snd x) < length s"
    using read_string_shorter [of "tl s" "fst k" "snd k"] k skip_space_Cons [OF t(1)] length_skip_space [of t]
      consumingD [OF assms, of "skip_space t" "fst x" "snd x"] x by simp
  from less.prems s k t x obtain c y where y: "skip_space (snd x) = c # y"
    by (cases "skip_space (snd x)") (auto simp: unfold)
  have l: "length y < length s" using skip_space_Cons [OF y] w by simp
  then have "read_members value (skip_space y) = Inr (ws, r) \<Longrightarrow> length r < length s" for ws
    using less.hyps [of "skip_space y" ws r] length_skip_space [of y] by simp
  with less.prems s k t x y l show ?case
    by (auto simp: unfold res_simps split: if_splits)
qed

lemma read_container_consuming:
  assumes "consuming value"
  shows "consuming (\<lambda>s. if s = [] then Inl e else read_container duplicate value s)"
proof (rule consumingI)
  fix s v r assume a: "(if s = [] then Inl e else read_container duplicate value s) = Inr (v, r)"
  then have s: "s \<noteq> []" by auto
  let ?t = "skip_space (tl s)"
  have t: "length ?t < length s" using s length_skip_space [of "tl s"] by (cases s) auto
  have "length r < length ?t \<or> r = tl ?t"
    using a s read_elements_consuming [OF assms, of ?t] read_members_consuming [OF assms, of ?t]
    by (auto simp: read_container_def Let_def res_simps split: if_splits)
  with t show "length r < length s" by auto
qed

lemma read_token_container:
  "(\<And>s. s \<noteq> [] \<Longrightarrow> f s = g s) \<Longrightarrow> read_token nonfinite f s = read_token nonfinite g s"
  by (simp add: read_token_def)

lemma read_value_consuming: "consuming (read_value nonfinite duplicate n)"
proof (induction n)
  case 0
  have "consuming (\<lambda>_. Inl RecursionError)" by (simp add: consuming_def)
  from read_token_consuming [OF this] show ?case by simp
next
  case (Suc n)
  let ?f = "\<lambda>s. if s = [] then Inl TypeError else read_container duplicate (read_value nonfinite duplicate n) s"
  have "read_value nonfinite duplicate (Suc n) = read_token nonfinite ?f"
    by (intro ext) (simp, rule read_token_container, simp)
  with read_token_consuming [OF read_container_consuming [OF Suc]] show ?case by simp
qed

section \<open>Reading a printed text\<close>

text \<open>
  The values whose canonical text the reader reads back: no floats and datetimes, keys that are distinct
  strings, integers of at most 4300 digits, and at most \<open>n\<close> containers inside each other.
\<close>

fun readable :: "nat \<Rightarrow> pyval \<Rightarrow> bool" where
  "readable n PNone = True"
| "readable n (PBool b) = True"
| "readable n (PInt i) = (length (nat_text (nat \<bar>i\<bar>)) \<le> MAX_STR_DIGITS)"
| "readable n (PStr s) = True"
| "readable 0 (PList xs) = False"
| "readable (Suc n) (PList xs) = list_all (readable n) xs"
| "readable 0 (PDict kvs) = False"
| "readable (Suc n) (PDict kvs) = (distinct (map fst kvs) \<and> list_all (\<lambda>(k, v). is_str k \<and> readable n v) kvs)"
| "readable n v = False"

lemma readable_plain: "readable n v \<Longrightarrow> plain v"
proof (induction v arbitrary: n)
  case (PList xs)
  then show ?case by (cases n) (auto simp: list_all_iff)
next
  case (PDict kvs)
  obtain m where n: "n = Suc m" using PDict.prems by (cases n) simp_all
  have "is_str k \<and> plain v" if "(k, v) \<in> set kvs" for k v
    using PDict.IH [of "(k, v)" v m] PDict.prems that by (auto simp: n list_all_iff)
  then show ?case by (auto simp: list_all_iff)
qed simp_all

lemma hex_digit_value_digit: "hex_digit_value (hex_digit n) = Some (n mod 16)"
proof -
  have "list_all (\<lambda>m. hex_digit_value (''0123456789abcdef'' ! m) = Some m) [0..<16]" by code_simp
  then show ?thesis by (simp add: hex_digit_def list_all_iff)
qed

lemma hex_digit_value_zero: "hex_digit_value (CHR ''0'') = Some 0"
  by (simp add: hex_digit_value_def is_digit_def digits_chars_def byte_def)

lemma read_string_escape:
  "read_string (json_escape c @ s) = bnd (read_string s) (\<lambda>y. Inr (c # fst y, snd y))"
proof (cases "byte c < 32 \<and> c \<notin> {CHR 0x0A, CHR 0x0D, CHR 0x09, CHR 0x0C, CHR 0x08}")
  case True
  have small: "byte c < 32" using True by simp
  then have "byte c div 16 mod 16 = byte c div 16" by (intro mod_less) linarith
  then have n: "byte c div 16 mod 16 * 16 + byte c mod 16 = byte c" by (simp only: div_mult_mod_eq)
  have "byte (CHR 0x22) = 34" "byte (CHR 0x5C) = 92" by (simp_all add: byte_def)
  then have "c \<noteq> CHR 0x22" "c \<noteq> CHR 0x5C" using small by auto
  then have e: "json_escape c @ s =
      CHR 0x5C # CHR ''u'' # CHR ''0'' # CHR ''0'' # hex_digit (byte c div 16) # hex_digit (byte c) # s"
    using True by (simp add: json_escape_def)
  have "encode_point (byte c) = [c]" using small by (simp add: encode_point_def byte_def)
  then have "read_unicode (CHR ''0'' # CHR ''0'' # hex_digit (byte c div 16) # hex_digit (byte c) # s) = Inr ([c], s)"
    using small by (simp add: read_unicode_def hex_digit_value_digit hex_digit_value_zero n high_surrogate_def)
  then show ?thesis by (simp add: e read_escape_def)
next
  case False
  have "byte (CHR 0x22) = 34" "byte (CHR 0x5C) = 92" by (simp_all add: byte_def)
  with False show ?thesis
    by (auto simp: json_escape_def read_escape_def)
qed

lemma read_json_string: "read_string (tl (json_string s) @ r) = Inr (s, r)"
proof -
  have "read_string (concat (map json_escape s) @ CHR 0x22 # r) = Inr (s, r)"
    by (induction s) (simp_all add: read_string_escape)
  then show ?thesis by (simp add: json_string_def)
qed

lemma nat_text_less: "n < 10 ^ k \<Longrightarrow> 0 < k \<Longrightarrow> length (nat_text n) \<le> k"
proof (induction k arbitrary: n)
  case (Suc k)
  show ?case
  proof (cases "n < 10")
    case True
    then show ?thesis by (subst nat_text.simps) simp
  next
    case False
    with Suc.prems have "n div 10 < 10 ^ k" "0 < k" by (cases k; simp add: less_mult_imp_div_less mult.commute)+
    with Suc.IH [of "n div 10"] False show ?thesis by (subst nat_text.simps) simp
  qed
qed simp

lemma nat_text_leading_zero: "hd (nat_text n) = CHR ''0'' \<Longrightarrow> n = 0"
proof (induction n rule: nat_text.induct)
  case (1 n)
  have digit: "m < 10 \<Longrightarrow> digit_char (int m) = CHR ''0'' \<Longrightarrow> m = 0" for m
    using byte_digit_char [of "int m"] by (auto simp: byte_def)
  show ?case
  proof (cases "n < 10")
    case True
    with 1 digit show ?thesis by (subst (asm) nat_text.simps) simp
  next
    case False
    with 1 nat_text_not_Nil [of "n div 10"] have "n div 10 = 0"
      by (subst (asm) (2) nat_text.simps) simp
    with False show ?thesis by simp
  qed
qed

lemma delimited_number: "delimited r \<Longrightarrow> read_fraction r = ([], r) \<and> read_exponent r = (None, r)"
  by (cases r) (auto simp: delimited_def read_fraction_def read_exponent_def Let_def)

lemma take_nat_text: "delimited r \<Longrightarrow> takeWhile is_digit (nat_text n @ r) = nat_text n"
  using nat_text_digits [of n] delimited_not_digit [of r] by (simp add: takeWhile_append2 list_all_iff)

lemma read_number_int:
  assumes t: "t = (if s \<noteq> [] \<and> hd s = CHR ''-'' then tl s else s)"
    and w: "w = (if t \<noteq> [] \<and> hd t = CHR ''0'' then [CHR ''0''] else takeWhile is_digit t)"
    and r: "delimited r" "drop (length w) t = r" and l: "w \<noteq> []" "length w \<le> MAX_STR_DIGITS"
  shows "read_number s = Inr (PInt ((if s \<noteq> [] \<and> hd s = CHR ''-'' then -1 else 1) * digits_val 0 w), r)"
proof -
  have f: "read_fraction r = ([], r)" "read_exponent r = (None, r)" using delimited_number [OF r(1)] by simp_all
  show ?thesis
    unfolding read_number_def Let_def t [symmetric] w [symmetric] r(2) f prod.case using l by simp
qed

lemma read_nat_text:
  assumes "delimited r" "length (nat_text n) \<le> MAX_STR_DIGITS"
  shows "read_number (nat_text n @ r) = Inr (PInt (int n), r)"
    and "read_number (CHR ''-'' # nat_text n @ r) = Inr (PInt (- int n), r)"
proof -
  let ?s = "nat_text n @ r"
  have h: "?s \<noteq> []" "hd ?s = hd (nat_text n)" using nat_text_not_Nil by simp_all
  have minus: "hd ?s \<noteq> CHR ''-''" using nat_text_head [of n] h by (auto simp: is_digit_def digits_chars_def)
  have w: "nat_text n = (if ?s \<noteq> [] \<and> hd ?s = CHR ''0'' then [CHR ''0''] else takeWhile is_digit ?s)"
    using nat_text_leading_zero [of n] h take_nat_text [OF assms(1)]
    by (auto simp: nat_text.simps [of 0] digit_char_def)
  show "read_number ?s = Inr (PInt (int n), r)"
    using read_number_int [OF _ w assms(1) _ nat_text_not_Nil assms(2), of ?s] minus
    by (simp add: digits_val_nat_text)
  show "read_number (CHR ''-'' # ?s) = Inr (PInt (- int n), r)"
    using read_number_int [OF _ w assms(1) _ nat_text_not_Nil assms(2), of "CHR ''-'' # ?s"]
    by (simp add: digits_val_nat_text)
qed

lemma read_int_text:
  assumes "delimited r" "length (nat_text (nat \<bar>i\<bar>)) \<le> MAX_STR_DIGITS"
  shows "read_number (int_text i @ r) = Inr (PInt i, r)"
  using read_nat_text [OF assms] by (cases "i < 0") (simp_all add: int_text_def)

section \<open>Values\<close>

definition reads_back :: "(string \<Rightarrow> (pyval \<times> string) res) \<Rightarrow> pyval \<Rightarrow> bool" where
  "reads_back value v = (plain v \<and> (\<forall>r. delimited r \<longrightarrow> value (json_text v @ r) = Inr (v, r)))"

lemma reads_backD: "reads_back value v \<Longrightarrow> delimited r \<Longrightarrow> value (json_text v @ r) = Inr (v, r)"
  by (simp add: reads_back_def)

lemma skip_space_text: "plain v \<Longrightarrow> skip_space (json_text v @ r) = json_text v @ r"
  using json_text_head [of v]
  by (cases v) (auto simp: skip_space_def json_space_def is_digit_def digits_chars_def split: if_splits)

lemma skip_space_simps [simp]:
  "skip_space (CHR '','' # s) = CHR '','' # s" "skip_space (CHR '']'' # s) = CHR '']'' # s"
  "skip_space (CHR ''}'' # s) = CHR ''}'' # s" "skip_space (CHR '':'' # s) = CHR '':'' # s"
  "skip_space (CHR 0x22 # s) = CHR 0x22 # s" "skip_space (CHR ''{'' # s) = CHR ''{'' # s"
  "skip_space [] = []"
  by (simp_all add: skip_space_def json_space_def)

lemma skip_space_string [simp]: "skip_space (json_string k @ r) = json_string k @ r"
  by (simp add: json_string_def)

lemma delimited_simps [simp]: "delimited (CHR '','' # s)" "delimited (CHR '']'' # s)" "delimited (CHR ''}'' # s)" "delimited []"
  by (simp_all add: delimited_def)

lemma read_elements_text:
  assumes "consuming value"
  shows "xs \<noteq> [] \<Longrightarrow> list_all (reads_back value) xs \<Longrightarrow>
    read_elements value (join '','' (map json_text xs) @ CHR '']'' # r) = Inr (xs, r)"
proof (induction xs)
  case (Cons x xs)
  note x = reads_backD [of "value" x]
  show ?case
  proof (cases xs)
    case Nil
    with Cons.prems x show ?thesis by (simp add: read_elements_unfold [OF assms])
  next
    case (Cons y ys)
    let ?t = "join '','' (map json_text xs) @ CHR '']'' # r"
    have "skip_space ?t = ?t"
      using skip_space_text Cons.prems Cons by (simp add: join_Cons reads_back_def)
    moreover have "read_elements value ?t = Inr (xs, r)" using Cons.IH Cons.prems Cons by simp
    moreover have "join '','' (map json_text (x # xs)) @ CHR '']'' # r = json_text x @ CHR '','' # ?t"
      using Cons by (simp add: join_Cons)
    moreover have "value (json_text x @ CHR '','' # ?t) = Inr (x, CHR '','' # ?t)" using Cons.prems x by simp
    ultimately show ?thesis by (subst read_elements_unfold [OF assms]) simp
  qed
qed simp

lemma item_text_string: "item_text kv @ r = json_string (str_of (fst kv)) @ CHR '':'' # json_text (snd kv) @ r"
  by (simp add: item_text_def)

lemma read_item:
  assumes "reads_back value (snd kv)" "delimited r"
  shows "read_string (tl (item_text kv @ r)) = Inr (str_of (fst kv), CHR '':'' # json_text (snd kv) @ r)"
    and "value (skip_space (json_text (snd kv) @ r)) = Inr (snd kv, r)"
    and "item_text kv @ r \<noteq> []" "hd (item_text kv @ r) = CHR 0x22"
  using assms read_json_string [of "str_of (fst kv)"] reads_backD [OF assms] skip_space_text [of "snd kv"]
  by (simp_all add: item_text_string json_string_def reads_back_def)

lemma read_members_text:
  assumes "consuming value"
  shows "kvs \<noteq> [] \<Longrightarrow> list_all (\<lambda>kv. reads_back value (snd kv)) kvs \<Longrightarrow>
    read_members value (join '','' (map item_text kvs) @ CHR ''}'' # r)
      = Inr (map (\<lambda>kv. (str_of (fst kv), snd kv)) kvs, r)"
proof (induction kvs)
  case (Cons x kvs)
  have x: "reads_back value (snd x)" using Cons.prems by simp
  show ?case
  proof (cases kvs)
    case Nil
    then show ?thesis
      using read_item [OF x, of "CHR ''}'' # r"] by (subst read_members_unfold [OF assms]) (simp add: Nil)
  next
    case (Cons y ys)
    let ?t = "join '','' (map item_text kvs) @ CHR ''}'' # r"
    have "skip_space ?t = ?t" by (simp add: Cons join_Cons item_text_def)
    moreover have "read_members value ?t = Inr (map (\<lambda>kv. (str_of (fst kv), snd kv)) kvs, r)"
      using Cons.IH Cons.prems Cons by simp
    ultimately have "read_members value (item_text x @ CHR '','' # ?t)
        = Inr ((str_of (fst x), snd x) # map (\<lambda>kv. (str_of (fst kv), snd kv)) kvs, r)"
      using read_item [OF x, of "CHR '','' # ?t"] by (subst read_members_unfold [OF assms]) simp
    moreover have "join '','' (map item_text (x # kvs)) @ CHR ''}'' # r = item_text x @ CHR '','' # ?t"
      using Cons by (simp add: join_Cons)
    ultimately show ?thesis by (simp only: list.map)
  qed
qed simp

lemma first_repeated_None: "first_repeated seen ks = None \<longleftrightarrow> distinct ks \<and> set ks \<inter> set seen = {}"
  by (induction ks arbitrary: seen) auto

lemma object_pairs_Inr: "object_pairs duplicate kvs = Inr d \<longleftrightarrow> distinct (map fst kvs) \<and> d = py_dict kvs"
  using first_repeated_None [of "[]" "map fst kvs"] by (auto simp: object_pairs_def split: option.splits)

lemma read_container_list:
  assumes "consuming value" "list_all (reads_back value) xs"
  shows "read_container duplicate value (json_text (PList xs) @ r) = Inr (PList xs, r)"
proof (cases xs)
  case (Cons x ys)
  let ?t = "join '','' (map json_text xs) @ CHR '']'' # r"
  have x: "plain x" using assms Cons by (simp add: reads_back_def)
  have "skip_space ?t = ?t" using skip_space_text [OF x] by (simp add: Cons join_Cons)
  moreover have "?t \<noteq> CHR '']'' # s" for s
    using json_text_not_close [OF x, of "CHR '']''"] by (simp add: Cons join_Cons)
  then have "?t \<noteq> [] \<and> hd ?t \<noteq> CHR '']''" by (cases ?t) (auto simp: Cons join_Cons)
  ultimately show ?thesis
    using read_elements_text [OF assms(1) _ assms(2)] by (simp add: read_container_def Let_def Cons)
qed (simp add: read_container_def)

lemma read_container_dict:
  assumes "consuming value" "list_all (\<lambda>(k, v). is_str k \<and> reads_back value v) kvs" "distinct (map fst kvs)"
  shows "read_container duplicate value (json_text (PDict kvs) @ r) = Inr (PDict kvs, r)"
proof -
  let ?kvs = "map (\<lambda>kv. (str_of (fst kv), snd kv)) kvs" and ?t = "join '','' (map item_text kvs) @ CHR ''}'' # r"
  have str: "k = PStr (str_of k)" if "(k, v) \<in> set kvs" for k v
    using assms(2) that by (cases k) (auto simp: list_all_iff)
  then have d: "py_dict ?kvs = PDict kvs" by (fastforce simp: py_dict_def intro!: map_idI)
  have "map fst kvs = map PStr (map fst ?kvs)" using str by force
  with assms(3) have "distinct (map fst ?kvs)" by (metis distinct_map)
  then have o: "object_pairs duplicate ?kvs = Inr (PDict kvs)" by (simp add: object_pairs_Inr d)
  show ?thesis
  proof (cases kvs)
    case Nil
    then show ?thesis by (simp add: read_container_def py_dict_def)
  next
    case (Cons x ys)
    have "list_all (\<lambda>kv. reads_back value (snd kv)) kvs" using assms(2) by (auto simp: list_all_iff)
    then have m: "read_members value ?t = Inr (?kvs, r)" using read_members_text [OF assms(1), of kvs r] Cons by simp
    have s: "skip_space ?t = ?t" "?t \<noteq> []" "hd ?t = CHR 0x22"
      by (simp_all add: Cons join_Cons item_text_def json_string_def)
    have "json_text (PDict kvs) @ r = CHR ''{'' # ?t" unfolding json_text_dict by simp
    then show ?thesis using m o s by (simp only: read_container_def Let_def list.sel) simp
  qed
qed

lemma read_token_cases:
  "read_token nonfinite container (CHR 0x22 # s) = bnd (read_string s) (\<lambda>x. Inr (PStr (fst x), snd x))"
  "read_token nonfinite container (CHR ''['' # s) = container (CHR ''['' # s)"
  "read_token nonfinite container (CHR ''{'' # s) = container (CHR ''{'' # s)"
  "read_token nonfinite container (''null'' @ s) = Inr (PNone, s)"
  "read_token nonfinite container (''true'' @ s) = Inr (PBool True, s)"
  "read_token nonfinite container (''false'' @ s) = Inr (PBool False, s)"
  by (simp_all add: read_token_def starts_def)

lemma digit_not_letter:
  assumes "is_digit c"
  shows "c \<noteq> CHR 0x22" "c \<noteq> CHR ''{''" "c \<noteq> CHR ''[''" "c \<noteq> CHR ''n''" "c \<noteq> CHR ''t''"
    "c \<noteq> CHR ''f''" "c \<noteq> CHR ''N''" "c \<noteq> CHR ''I''" "c \<noteq> CHR ''-''"
  using assms by (auto simp: is_digit_def digits_chars_def)

lemma read_token_digit: "is_digit c \<Longrightarrow> read_token nonfinite container (c # s) = read_number (c # s)"
  by (simp add: read_token_def starts_def digit_not_letter)

lemma read_token_minus:
  "is_digit c \<Longrightarrow> read_token nonfinite container (CHR ''-'' # c # s) = read_number (CHR ''-'' # c # s)"
  by (simp add: read_token_def starts_def digit_not_letter)

lemma read_token_int:
  assumes "delimited r" "length (nat_text (nat \<bar>i\<bar>)) \<le> MAX_STR_DIGITS"
  shows "read_token nonfinite container (int_text i @ r) = Inr (PInt i, r)"
proof -
  obtain c cs where c: "nat_text (nat \<bar>i\<bar>) = c # cs" "is_digit c"
    using nat_text_head [of "nat \<bar>i\<bar>"] nat_text_not_Nil [of "nat \<bar>i\<bar>"] by (cases "nat_text (nat \<bar>i\<bar>)") auto
  then have "read_token nonfinite container (int_text i @ r) = read_number (int_text i @ r)"
    by (cases "i < 0") (simp_all add: int_text_def read_token_digit read_token_minus)
  with read_int_text [OF assms] show ?thesis by simp
qed

lemma read_token_scalar:
  assumes "readable n v" "delimited r" "\<not> (\<exists>xs. v = PList xs)" "\<not> (\<exists>kvs. v = PDict kvs)"
  shows "read_token nonfinite container (json_text v @ r) = Inr (v, r)"
proof (cases v)
  case (PStr s)
  have "json_text v @ r = CHR 0x22 # tl (json_string s) @ r" by (simp add: PStr json_string_def)
  then show ?thesis using read_json_string [of s r] by (simp only: read_token_cases PStr) simp
next
  case PNone
  then show ?thesis using read_token_cases(4) by simp
next
  case (PBool b)
  then show ?thesis using read_token_cases(5,6) [of nonfinite container r] by (cases b) simp_all
qed (use assms read_token_int in simp_all)

lemma read_token_container_text:
  "read_token nonfinite container (json_text (PList xs) @ r) = container (json_text (PList xs) @ r)"
  "read_token nonfinite container (json_text (PDict kvs) @ r) = container (json_text (PDict kvs) @ r)"
  by (simp_all add: read_token_cases)

theorem read_value_text:
  "readable n v \<Longrightarrow> delimited r \<Longrightarrow> read_value nonfinite duplicate n (json_text v @ r) = Inr (v, r)"
proof (induction n arbitrary: v r)
  case 0
  then show ?case using read_token_scalar [OF 0] by (cases v) simp_all
next
  case (Suc n)
  let ?f = "read_value nonfinite duplicate n"
  have b: "readable n w \<Longrightarrow> reads_back ?f w" for w
    using Suc.IH readable_plain by (auto simp: reads_back_def)
  show ?case
  proof (cases v)
    case (PList xs)
    then have "list_all (reads_back ?f) xs" using Suc.prems(1) b by (auto simp: list_all_iff)
    note read_container_list [OF read_value_consuming this]
    then show ?thesis by (simp only: PList read_value.simps read_token_container_text)
  next
    case (PDict kvs)
    then have "list_all (\<lambda>(k, v). is_str k \<and> reads_back ?f v) kvs" "distinct (map fst kvs)"
      using Suc.prems(1) b by (auto simp: list_all_iff)
    note read_container_dict [OF read_value_consuming this]
    then show ?thesis by (simp only: PDict read_value.simps read_token_container_text)
  qed (use Suc.prems read_token_scalar [OF Suc.prems] in simp_all)
qed

text \<open>\<open>json.loads\<close> inverts \<open>json.dumps\<close>.\<close>

corollary json_loads_text: "readable n v \<Longrightarrow> json_loads nonfinite duplicate n (json_text v) = Inr v"
  using read_value_text [of n v "[]"] skip_space_text [of v "[]"] readable_plain [of n v]
  by (simp add: json_loads_def)

end
