(* ===== verification/JsonWellFormed.thy ===== *)
theory JsonWellFormed
  imports JsonRoundTrip Proposals
begin

text \<open>
  What the reader can return from bytes that are UTF-8: values whose texts are strings of the library, whose
  integers stay within the digits that may be converted, whose keys are distinct.  Printed again, such a
  value is UTF-8, unless it holds a lone surrogate.
\<close>

section \<open>UTF-8\<close>

lemma byte_char_of: "byte (char_of n) = n mod 256"
  by (simp add: byte_def)

lemma utf8_append: "utf8_after sg ps a \<Longrightarrow> utf8_after sg ps (a @ b) = utf8_after sg [] b"
  by (induction sg ps a rule: utf8_after.induct) (auto split: option.splits)

lemma utf8_append_iff: "utf8 a \<Longrightarrow> utf8 (a @ b) = utf8 b"
  by (simp add: utf8_def utf8_append)

lemma str_ok_append_iff: "str_ok a \<Longrightarrow> str_ok (a @ b) = str_ok b"
  by (simp add: str_ok_def utf8_append)

lemma utf8_Nil [simp]: "utf8 []" "str_ok []"
  by (simp_all add: utf8_def str_ok_def)

lemma utf8_ascii_Cons: "byte c < 128 \<Longrightarrow> utf8 (c # s) = utf8 s"
  by (simp add: utf8_def utf8_lead_def)

lemma str_ok_ascii_Cons: "byte c < 128 \<Longrightarrow> str_ok (c # s) = str_ok s"
  by (simp add: str_ok_def utf8_lead_def)

lemma utf8_ascii: "ascii a \<Longrightarrow> utf8 (a @ s) = utf8 s"
  by (induction a) (simp_all add: ascii_def utf8_ascii_Cons)

lemma utf8_dropWhile:
  assumes "\<And>c. P c \<Longrightarrow> byte c < 128" "utf8 s"
  shows "utf8 (dropWhile P s)"
proof -
  have "ascii (takeWhile P s)" using assms(1) by (auto simp: ascii_def list_all_iff dest: set_takeWhileD)
  then have "utf8 (takeWhile P s @ dropWhile P s) = utf8 (dropWhile P s)" by (rule utf8_ascii)
  with assms(2) show ?thesis by simp
qed

lemma digit_byte: "is_digit c \<Longrightarrow> byte c < 128"
  by (auto simp: is_digit_def digits_chars_def byte_def)

lemma hex_byte: "hex_digit_value c = Some n \<Longrightarrow> byte c < 128 \<and> n < 16"
proof -
  assume a: "hex_digit_value c = Some n"
  have "is_digit c \<Longrightarrow> 48 \<le> byte c \<and> byte c \<le> 57" by (auto simp: is_digit_def digits_chars_def byte_def)
  with a show ?thesis by (auto simp: hex_digit_value_def split: if_splits)
qed

lemma space_byte: "json_space c \<Longrightarrow> byte c < 128"
  by (auto simp: json_space_def byte_def)

lemma utf8_skip_space: "utf8 s \<Longrightarrow> utf8 (skip_space s)"
  unfolding skip_space_def by (rule utf8_dropWhile [OF space_byte])

text \<open>A surrogate apart, the string of the library is the UTF-8 text.\<close>

lemma str_ok_utf8: "utf8_after True ps s \<Longrightarrow> \<not> has_surrogate s \<Longrightarrow> utf8_after False ps s"
proof (induction True ps s rule: utf8_after.induct)
  case (3 c cs)
  then obtain ps where ps: "utf8_lead True (byte c) = Some ps" "utf8_after True ps cs" by (auto split: option.splits)
  have "\<not> has_surrogate cs" using "3.prems"(2) by (cases cs) auto
  with 3 ps have *: "utf8_after False ps cs" by simp
  show ?case
  proof (cases "byte c = 237")
    case True
    then have "ps = [(128, 191), (128, 191)]" using ps(1) by (simp add: utf8_lead_def)
    with * True "3.prems"(2) show ?thesis by (cases cs) (auto simp: utf8_lead_def)
  next
    case False
    then have "utf8_lead False (byte c) = utf8_lead True (byte c)" by (simp add: utf8_lead_def)
    with ps * show ?thesis by simp
  qed
next
  case (4 lo hi ps c cs)
  have "\<not> has_surrogate cs" using "4.prems"(2) by (cases cs) auto
  with 4 show ?case by simp
qed simp_all

lemma encode_point_ok:
  assumes "u < 0x110000"
  shows "str_ok (encode_point u)"
proof -
  consider "u < 128" | "128 \<le> u" "u < 2048" | "2048 \<le> u" "u < 65536" | "65536 \<le> u" by linarith
  then show ?thesis
  proof cases
    case 1
    then show ?thesis by (simp add: str_ok_def encode_point_def utf8_lead_def byte_char_of)
  next
    case 2
    then have "2 \<le> u div 64" "u div 64 < 32" by (auto simp: less_mult_imp_div_less)
    with 2 show ?thesis by (simp add: str_ok_def encode_point_def utf8_lead_def byte_char_of)
  next
    case 3
    then have d: "u div 4096 < 16" "u div 4096 = 0 \<Longrightarrow> 32 \<le> u div 64 mod 64"
      by (simp_all add: less_mult_imp_div_less)
    have "u div 64 mod 64 < 64" "u mod 64 < 64" by simp_all
    with 3 d show ?thesis
      by (auto simp: str_ok_def encode_point_def utf8_lead_def byte_char_of)
  next
    case 4
    have "u div 262144 < 5" using assms by (simp add: less_mult_imp_div_less)
    then have d: "u div 262144 \<le> 4" by simp
    have "u div 262144 = 0 \<Longrightarrow> 16 \<le> u div 4096" "u div 262144 = 0 \<Longrightarrow> u div 4096 < 64"
      using 4 by (simp_all add: div_eq_0_iff less_mult_imp_div_less)
    then have e: "u div 262144 = 0 \<Longrightarrow> 16 \<le> u div 4096 mod 64" by simp
    have f: "u div 262144 = 4 \<Longrightarrow> u div 4096 mod 64 < 16"
    proof -
      have "u div 4096 < 272" using assms by (simp add: less_mult_imp_div_less)
      moreover have "u div 262144 = u div 4096 div 64" by (simp add: div_mult2_eq [symmetric])
      moreover assume "u div 262144 = 4"
      ultimately show ?thesis using div_mult_mod_eq [of "u div 4096" 64] by linarith
    qed
    have "u div 4096 mod 64 < 64" "u div 64 mod 64 < 64" "u mod 64 < 64" by simp_all
    with 4 d e f show ?thesis
      by (auto simp: str_ok_def encode_point_def utf8_lead_def byte_char_of)
  qed
qed

section \<open>Texts\<close>

lemma read_hex4_utf8:
  assumes "read_hex4 s = Inr (u, r)" "utf8 s"
  shows "u < 65536 \<and> utf8 r"
proof (cases s rule: read_hex4.cases)
  case (1 a b c d q)
  with assms obtain w x y z where h: "hex_digit_value a = Some w" "hex_digit_value b = Some x"
    "hex_digit_value c = Some y" "hex_digit_value d = Some z" and u: "u = ((w * 16 + x) * 16 + y) * 16 + z" "r = q"
    by (auto split: option.splits)
  with h [THEN hex_byte] assms(2) 1 show ?thesis by (simp add: utf8_ascii_Cons)
qed (use assms in auto)

lemma read_unicode_utf8:
  assumes "read_unicode s = Inr (t, r)" "utf8 s"
  shows "str_ok t \<and> utf8 r"
proof -
  obtain u p where u: "read_hex4 s = Inr (u, p)" using assms by (auto simp: read_unicode_def res_simps)
  note p = read_hex4_utf8 [OF u assms(2)]
  show ?thesis
  proof (cases "high_surrogate u \<and> take 2 p = [CHR 0x5C, CHR ''u'']")
    case True
    then have "p = [CHR 0x5C, CHR ''u''] @ drop 2 p" by (metis append_take_drop_id)
    moreover have "ascii [CHR 0x5C, CHR ''u'']" by (simp add: ascii_def byte_def)
    ultimately have d: "utf8 (drop 2 p)" using p utf8_ascii by metis
    from True assms u obtain l q where l: "read_hex4 (drop 2 p) = Inr (l, q)"
      and r: "low_surrogate l \<and> t = encode_point (0x10000 + (u - 0xD800) * 1024 + (l - 0xDC00)) \<and> r = q
        \<or> t = encode_point u \<and> r = p"
      by (auto simp: read_unicode_def res_simps split: if_splits)
    have q: "utf8 q" using read_hex4_utf8 [OF l d] by simp
    have "low_surrogate l \<Longrightarrow> 0x10000 + (u - 0xD800) * 1024 + (l - 0xDC00) < 0x110000"
    proof -
      assume "low_surrogate l"
      then have "u - 0xD800 \<le> 1023" "l - 0xDC00 \<le> 1023"
        using True unfolding low_surrogate_def high_surrogate_def by linarith+
      then show ?thesis by linarith
    qed
    moreover have "u < 0x110000" using p by simp
    ultimately show ?thesis using r p q encode_point_ok by blast
  next
    case False
    with assms u have "t = encode_point u" "r = p" by (auto simp: read_unicode_def)
    with p encode_point_ok [of u] show ?thesis by simp
  qed
qed

lemma read_escape_utf8:
  assumes "read_escape s = Inr (t, r)" "utf8 s"
  shows "str_ok t \<and> utf8 r"
proof (cases s)
  case (Cons c cs)
  show ?thesis
  proof (cases "c = CHR ''u''")
    case True
    with assms Cons have "read_unicode cs = Inr (t, r)" by (simp add: read_escape_def)
    moreover have "utf8 cs" using assms(2) Cons True by (simp add: utf8_ascii_Cons byte_def)
    ultimately show ?thesis by (rule read_unicode_utf8)
  next
    case False
    with assms Cons show ?thesis
      by (auto simp: read_escape_def utf8_ascii_Cons str_ok_ascii_Cons byte_def split: if_splits)
  qed
qed (use assms in \<open>simp add: read_escape_def\<close>)

lemma lead_wider:
  assumes "utf8_lead False b = Some ps" "utf8_after True ps t"
  shows "\<exists>qs. utf8_lead True b = Some qs \<and> utf8_after True qs t"
proof (cases "b = 237")
  case True
  with assms show ?thesis by (cases t) (auto simp: utf8_lead_def)
next
  case False
  then have "utf8_lead True b = utf8_lead False b" by (simp add: utf8_lead_def)
  with assms show ?thesis by simp
qed

lemma lead_continues: "utf8_lead sg b = Some ps \<Longrightarrow> list_all (\<lambda>p. 128 \<le> fst p) ps"
  by (auto simp: utf8_lead_def split: if_splits)

lemma read_string_utf8:
  "read_string s = Inr (t, r) \<Longrightarrow> utf8_after False ps s \<Longrightarrow> list_all (\<lambda>p. 128 \<le> fst p) ps \<Longrightarrow>
   utf8_after True ps t \<and> utf8 r"
proof (induction s arbitrary: t r ps rule: read_string.induct)
  case (2 c cs)
  have b: "byte (CHR 0x22) < 128" "byte (CHR 0x5C) < 128" by (simp_all add: byte_def)
  show ?case
  proof (cases ps)
    case Nil
    consider "c = CHR 0x22" | "c = CHR 0x5C" | "c \<noteq> CHR 0x22" "c \<noteq> CHR 0x5C" by blast
    then show ?thesis
    proof cases
      case 1
      with 2 Nil b show ?thesis by (simp add: utf8_def utf8_lead_def)
    next
      case c: 2
      then obtain a p t' where a: "read_escape cs = Inr (a, p)" "read_string p = Inr (t', r)" "t = a @ t'"
        using "2.prems"(1) by (auto simp: res_simps)
      have "utf8 cs" using "2.prems"(2) Nil c b by (simp add: utf8_def utf8_lead_def)
      then have "str_ok a" "utf8 p" using read_escape_utf8 [OF a(1)] by simp_all
      with "2.IH"(1) [of "(a, p)" t' r "[]"] a c show ?thesis
        by (simp add: Nil str_ok_append_iff [unfolded str_ok_def] utf8_def str_ok_def)
    next
      case 3
      then obtain t' where t': "read_string cs = Inr (t', r)" "t = c # t'" "\<not> byte c < 32"
        using "2.prems"(1) by (auto simp: res_simps split: if_splits)
      from "2.prems"(2) Nil obtain qs where qs: "utf8_lead False (byte c) = Some qs" "utf8_after False qs cs"
        by (auto split: option.splits)
      from "2.IH"(2) [OF 3 t'(3,1) qs(2) lead_continues [OF qs(1)]] have "utf8_after True qs t' \<and> utf8 r" .
      with lead_wider [OF qs(1), of t'] show ?thesis by (auto simp: t' Nil)
    qed
  next
    case (Cons p qs)
    obtain lo hi where p: "p = (lo, hi)" by fastforce
    with "2.prems"(2,3) Cons have h: "lo \<le> byte c" "byte c \<le> hi" "utf8_after False qs cs" "128 \<le> byte c"
      "list_all (\<lambda>p. 128 \<le> fst p) qs" by auto
    have c: "c \<noteq> CHR 0x22" "c \<noteq> CHR 0x5C" "\<not> byte c < 32" using b h(4) by auto
    then obtain t' where t': "read_string cs = Inr (t', r)" "t = c # t'"
      using "2.prems"(1) by (auto simp: res_simps)
    from "2.IH"(2) [OF c t'(1) h(3,5)] h show ?thesis by (simp add: t' Cons p)
  qed
qed simp

section \<open>Numbers\<close>

lemma digits_val_less: "list_all is_digit ds \<Longrightarrow> 0 \<le> digits_val 0 ds \<and> digits_val 0 ds < 10 ^ length ds"
proof (induction ds rule: rev_induct)
  case (snoc d ds)
  have "is_digit d" using snoc.prems by simp
  then have "48 \<le> byte d" "byte d \<le> 57" by (auto simp: is_digit_def digits_chars_def byte_def)
  with snoc show ?case by (simp add: digits_val_append)
qed simp

lemma utf8_read_fraction: "read_fraction s = (f, r) \<Longrightarrow> utf8 s \<Longrightarrow> utf8 r"
  by (cases s) (auto simp: read_fraction_def utf8_ascii_Cons byte_def intro!: utf8_dropWhile digit_byte split: if_splits)

lemma utf8_read_exponent:
  assumes "read_exponent s = (e, r)" "utf8 s"
  shows "utf8 r"
proof (cases s)
  case (Cons c t)
  have b: "byte (CHR ''e'') < 128" "byte (CHR ''E'') < 128" "byte (CHR ''+'') < 128" "byte (CHR ''-'') < 128"
    by (simp_all add: byte_def)
  show ?thesis
  proof (cases "c = CHR ''e'' \<or> c = CHR ''E''")
    case True
    then have t: "utf8 t" using assms(2) b Cons by (auto simp: utf8_ascii_Cons)
    then have "utf8 (tl t)" if "t \<noteq> []" "hd t = CHR ''-'' \<or> hd t = CHR ''+''"
      using that b by (cases t) (auto simp: utf8_ascii_Cons)
    with assms Cons t show ?thesis
      by (auto simp: read_exponent_def Let_def intro!: utf8_dropWhile digit_byte split: if_splits)
  qed (use assms Cons in \<open>auto simp: read_exponent_def Let_def\<close>)
qed (use assms in \<open>auto simp: read_exponent_def Let_def\<close>)

fun scalar_ok :: "pyval \<Rightarrow> bool" where
  "scalar_ok (PInt i) = (length (nat_text (nat \<bar>i\<bar>)) \<le> MAX_STR_DIGITS)"
| "scalar_ok (PFloat r) = True"
| "scalar_ok v = False"

lemma read_number_utf8:
  assumes "read_number s = Inr (v, r)" "utf8 s"
  shows "scalar_ok v \<and> utf8 r"
proof -
  define t where "t = (if s \<noteq> [] \<and> hd s = CHR ''-'' then tl s else s)"
  define w where "w = (if t \<noteq> [] \<and> hd t = CHR ''0'' then [CHR ''0''] else takeWhile is_digit t)"
  obtain f r1 where f: "read_fraction (drop (length w) t) = (f, r1)" by fastforce
  obtain e r2 where e: "read_exponent r1 = (e, r2)" by fastforce
  note unfold = read_number_def Let_def t_def [symmetric] w_def [symmetric] f e prod.case
  from assms(1) have w: "w \<noteq> []" and r: "r = r2"
    and v: "(\<exists>l. v = PFloat l) \<or> length w \<le> MAX_STR_DIGITS \<and> (v = PInt (digits_val 0 w) \<or> v = PInt (- digits_val 0 w))"
    unfolding unfold by (auto split: if_splits)
  have wd: "list_all is_digit w"
    by (auto simp: w_def is_digit_def digits_chars_def list_all_iff dest: set_takeWhileD)
  have tw: "t = w @ drop (length w) t"
    by (cases t) (auto simp: w_def takeWhile_eq_take [symmetric] dropWhile_eq_drop [symmetric])
  have "utf8 t"
    using assms(2) by (cases s) (auto simp: t_def utf8_ascii_Cons byte_def)
  then have "utf8 (drop (length w) t)"
    using tw utf8_ascii [of w "drop (length w) t"] wd digit_byte by (auto simp: ascii_def list_all_iff)
  then have "utf8 r" using utf8_read_fraction [OF f] utf8_read_exponent [OF e] r by simp
  moreover have "length (nat_text (nat (digits_val 0 w))) \<le> MAX_STR_DIGITS" if "length w \<le> MAX_STR_DIGITS"
  proof -
    have "nat (digits_val 0 w) < 10 ^ length w" using digits_val_less [OF wd] by (simp add: nat_less_iff)
    from nat_text_less [OF this] w that show ?thesis by simp
  qed
  ultimately show ?thesis using v digits_val_less [OF wd] by auto
qed

section \<open>Values\<close>

fun read_ok :: "nat \<Rightarrow> pyval \<Rightarrow> bool" where
  "read_ok n PNone = True"
| "read_ok n (PBool b) = True"
| "read_ok n (PInt i) = scalar_ok (PInt i)"
| "read_ok n (PFloat r) = True"
| "read_ok n (PStr s) = str_ok s"
| "read_ok n (PTime t) = False"
| "read_ok 0 (PList xs) = False"
| "read_ok (Suc n) (PList xs) = list_all (read_ok n) xs"
| "read_ok 0 (PDict kvs) = False"
| "read_ok (Suc n) (PDict kvs) =
     (distinct (map fst kvs) \<and> list_all (\<lambda>(k, v). is_str k \<and> str_ok (str_of k) \<and> read_ok n v) kvs)"

definition reads_ok :: "('a \<Rightarrow> bool) \<Rightarrow> (string \<Rightarrow> ('a \<times> string) res) \<Rightarrow> bool" where
  "reads_ok P f = (\<forall>s v r. utf8 s \<longrightarrow> f s = Inr (v, r) \<longrightarrow> P v \<and> utf8 r)"

lemma reads_okD: "reads_ok P f \<Longrightarrow> utf8 s \<Longrightarrow> f s = Inr x \<Longrightarrow> P (fst x) \<and> utf8 (snd x)"
  by (cases x) (auto simp: reads_ok_def)

lemma utf8_drop_token:
  assumes "utf8 s" "starts p s" "ascii p"
  shows "utf8 (drop (length p) s)"
proof -
  have "s = p @ drop (length p) s" using assms(2) unfolding starts_def by (metis append_take_drop_id)
  with assms utf8_ascii show ?thesis by metis
qed

lemma utf8_tl: "utf8 s \<Longrightarrow> s \<noteq> [] \<Longrightarrow> byte (hd s) < 128 \<Longrightarrow> utf8 (tl s)"
  by (cases s) (simp_all add: utf8_ascii_Cons)

lemma json_bytes:
  "byte (CHR 0x22) < 128" "byte (CHR ''['') < 128" "byte (CHR ''{'') < 128" "byte (CHR '']'') < 128"
  "byte (CHR ''}'') < 128" "byte (CHR '','') < 128" "byte (CHR '':'') < 128"
  by (simp_all add: byte_def)

lemma read_token_ok:
  assumes "\<And>s v r. utf8 s \<Longrightarrow> s \<noteq> [] \<Longrightarrow> hd s \<in> {CHR ''{'', CHR ''[''} \<Longrightarrow> container s = Inr (v, r) \<Longrightarrow> read_ok n v \<and> utf8 r"
  shows "reads_ok (read_ok n) (read_token nonfinite container)"
  unfolding reads_ok_def
proof (intro allI impI)
  fix s v r assume u: "utf8 s" and t: "read_token nonfinite container s = Inr (v, r)"
  have s: "s \<noteq> []" using t by (auto simp: read_token_def)
  show "read_ok n v \<and> utf8 r"
  proof (cases "hd s = CHR 0x22")
    case True
    then have "utf8 (tl s)" using utf8_tl u s json_bytes by simp
    then show ?thesis
      using t True s read_string_utf8 [of "tl s" _ _ "[]"]
      by (auto simp: read_token_def res_simps utf8_def str_ok_def)
  next
    case no_string: False
    show ?thesis
    proof (cases "hd s = CHR ''{'' \<or> hd s = CHR ''[''")
      case True
      with no_string t s have "container s = Inr (v, r)" by (auto simp: read_token_def)
      with assms [OF u s] True show ?thesis by blast
    next
      case False
      have a: "ascii ''null''" "ascii ''true''" "ascii ''false''" by (simp_all add: ascii_def byte_def)
      have "v = PNone \<and> starts ''null'' s \<and> r = drop 4 s \<or> v = PBool True \<and> starts ''true'' s \<and> r = drop 4 s
        \<or> v = PBool False \<and> starts ''false'' s \<and> r = drop 5 s \<or> read_number s = Inr (v, r)"
        using t s no_string False by (auto simp: read_token_def split: if_splits)
      then show ?thesis
        using utf8_drop_token [OF u _ a(1)] utf8_drop_token [OF u _ a(2)] utf8_drop_token [OF u _ a(3)]
          read_number_utf8 [OF _ u, of v r] by (cases v) (auto simp: eval_nat_numeral)
    qed
  qed
qed

lemma utf8_skip_Cons: "utf8 s \<Longrightarrow> skip_space s = c # t \<Longrightarrow> byte c < 128 \<Longrightarrow> utf8 t"
  using utf8_skip_space [of s] by (simp add: utf8_ascii_Cons)

lemma read_elements_ok:
  assumes "reads_ok P value"
  shows "read_elements value s = Inr (vs, r) \<Longrightarrow> utf8 s \<Longrightarrow> list_all P vs \<and> utf8 r"
proof (induction "length s" arbitrary: s vs r rule: less_induct)
  case less
  from less.prems(1) obtain x where x: "value s = Inr x"
    by (subst (asm) read_elements.simps) (auto simp: res_simps)
  note ok = reads_okD [OF assms less.prems(2) x]
  show ?case
  proof (cases "skip_space (snd x)")
    case Nil
    with less.prems x show ?thesis by (subst (asm) read_elements.simps) simp
  next
    case (Cons c t)
    note t = utf8_skip_Cons [OF conjunct2 [OF ok] Cons]
    consider "c = CHR '']''" "vs = [fst x]" "r = t"
      | ws where "c = CHR '',''" "length t < length s" "read_elements value (skip_space t) = Inr (ws, r)"
          "vs = fst x # ws"
      using less.prems x Cons by (subst (asm) read_elements.simps) (auto simp: res_simps split: if_splits)
    then show ?thesis
    proof cases
      case 1
      with ok t json_bytes show ?thesis by simp
    next
      case 2
      then have "utf8 (skip_space t)" using t json_bytes utf8_skip_space by simp
      with less.hyps [OF _ 2(3)] 2 length_skip_space [of t] ok show ?thesis by simp
    qed
  qed
qed

lemma read_members_ok:
  assumes "reads_ok P value"
  shows "read_members value s = Inr (vs, r) \<Longrightarrow> utf8 s \<Longrightarrow> list_all (\<lambda>(k, v). str_ok k \<and> P v) vs \<and> utf8 r"
proof (induction "length s" arbitrary: s vs r rule: less_induct)
  case less
  note unfold = read_members.simps [of "value" s]
  from less.prems have s: "\<not> (s = [] \<or> hd s \<noteq> CHR 0x22)" by (auto simp: unfold split: if_splits)
  from less.prems s obtain k where k: "read_string (tl s) = Inr k" by (auto simp: unfold res_simps)
  have "utf8 (tl s)" using s less.prems(2) utf8_tl json_bytes by simp
  then have ks: "str_ok (fst k)" "utf8 (snd k)"
    using read_string_utf8 [of "tl s" "fst k" "snd k" "[]"] k by (simp_all add: utf8_def str_ok_def)
  from less.prems s k obtain d t where t: "skip_space (snd k) = d # t" "d = CHR '':''"
    by (cases "skip_space (snd k)") (auto simp: unfold split: if_splits)
  then have "utf8 (skip_space t)" using utf8_skip_Cons [OF ks(2) t(1)] json_bytes utf8_skip_space by simp
  moreover from less.prems s k t obtain x where x: "value (skip_space t) = Inr x" by (auto simp: unfold res_simps)
  ultimately have ok: "P (fst x)" "utf8 (snd x)" using reads_okD [OF assms] by simp_all
  from less.prems s k t x obtain c y where y: "skip_space (snd x) = c # y"
    by (cases "skip_space (snd x)") (auto simp: unfold)
  note u = utf8_skip_Cons [OF ok(2) y]
  consider "c = CHR ''}''" "vs = [(fst k, fst x)]" "r = y"
    | ws where "c = CHR '',''" "length y < length s" "read_members value (skip_space y) = Inr (ws, r)"
        "vs = (fst k, fst x) # ws"
    using less.prems s k t x y by (auto simp: unfold res_simps split: if_splits)
  then show ?case
  proof cases
    case 1
    with ok ks u json_bytes show ?thesis by simp
  next
    case 2
    then have "utf8 (skip_space y)" using u json_bytes utf8_skip_space by simp
    with less.hyps [OF _ 2(3)] 2 length_skip_space [of y] ok ks show ?thesis by simp
  qed
qed

lemma read_container_ok:
  assumes v: "reads_ok (read_ok n) value" and s: "utf8 s" "s \<noteq> []" "hd s \<in> {CHR ''{'', CHR ''[''}"
    and c: "read_container duplicate value s = Inr (v, r)"
  shows "read_ok (Suc n) v \<and> utf8 r"
proof -
  define t where "t = skip_space (tl s)"
  have t: "utf8 t" using s json_bytes utf8_tl utf8_skip_space by (auto simp: t_def)
  have tl: "utf8 (tl t)" if "t \<noteq> []" "hd t \<in> {CHR '']'', CHR ''}''}"
    using that t utf8_tl json_bytes by auto
  show ?thesis
  proof (cases "hd s = CHR ''[''")
    case True
    with c t tl read_elements_ok [OF v, of t] show ?thesis
      by (auto simp: read_container_def t_def [symmetric] res_simps split: if_splits)
  next
    case False
    have d: "read_ok (Suc n) (py_dict kvs)" if "list_all (\<lambda>(k, v). str_ok k \<and> read_ok n v) kvs" "distinct (map fst kvs)" for kvs
    proof -
      have "map fst (map (\<lambda>(k, v). (PStr k, v)) kvs) = map PStr (map fst kvs)" by auto
      moreover have "distinct (map PStr (map fst kvs))" using that(2) by (simp add: distinct_map inj_on_def)
      ultimately have "distinct (map fst (map (\<lambda>(k, v). (PStr k, v)) kvs))" by (simp only:)
      then show ?thesis using that(1) unfolding py_dict_def read_ok.simps by (auto simp: list_all_iff)
    qed
    with False c t tl read_members_ok [OF v, of t] d [of "[]"] show ?thesis
      by (auto simp: read_container_def t_def [symmetric] res_simps object_pairs_Inr simp del: read_ok.simps split: if_splits)
  qed
qed

lemma read_value_ok: "reads_ok (read_ok n) (read_value nonfinite duplicate n)"
proof (induction n)
  case 0
  have "reads_ok (read_ok 0) (read_token nonfinite (\<lambda>_. Inl RecursionError))" by (rule read_token_ok) simp
  then show ?case by (simp add: reads_ok_def)
next
  case (Suc n)
  have "reads_ok (read_ok (Suc n)) (read_token nonfinite (read_container duplicate (read_value nonfinite duplicate n)))"
    using read_container_ok [OF Suc] by (intro read_token_ok) blast
  then show ?case by (simp add: reads_ok_def)
qed

theorem json_loads_ok: "utf8 s \<Longrightarrow> json_loads nonfinite duplicate n s = Inr v \<Longrightarrow> read_ok n v"
  using reads_okD [OF read_value_ok, of "skip_space s"] utf8_skip_space by (auto simp: json_loads_def res_simps split: if_splits)

section \<open>Printing what was read\<close>

fun float_free :: "pyval \<Rightarrow> bool" where
  "float_free (PFloat r) = False"
| "float_free (PList xs) = list_all float_free xs"
| "float_free (PDict kvs) = list_all (\<lambda>(k, v). float_free v) kvs"
| "float_free v = True"

lemma read_ok_readable: "read_ok n v \<Longrightarrow> float_free v \<Longrightarrow> readable n v"
proof (induction v arbitrary: n)
  case (PList xs)
  then show ?case by (cases n) (auto simp: list_all_iff)
next
  case (PDict kvs)
  obtain m where n: "n = Suc m" using PDict.prems by (cases n) simp_all
  have "is_str k \<and> readable m v" if "(k, v) \<in> set kvs" for k v
    using PDict.IH [of "(k, v)" v m] PDict.prems that by (auto simp: n list_all_iff)
  with PDict.prems show ?case by (auto simp: n list_all_iff)
qed simp_all

lemma json_escape_ascii:
  assumes "byte c < 128"
  shows "ascii (json_escape c)"
proof -
  have "list_all (\<lambda>n. byte (''0123456789abcdef'' ! n) < 128) [0..<16]" by code_simp
  then have h: "byte (hex_digit n) < 128" for n by (simp add: hex_digit_def list_all_iff)
  have e: "byte (CHR 0x5C) < 128" "byte (CHR ''n'') < 128" "byte (CHR ''r'') < 128" "byte (CHR ''t'') < 128"
    "byte (CHR ''f'') < 128" "byte (CHR ''b'') < 128" "byte (CHR ''u'') < 128" "byte (CHR ''0'') < 128"
    by (simp_all add: byte_def)
  show ?thesis using assms by (simp add: json_escape_def ascii_def h e json_bytes)
qed

lemma json_escape_plain: "128 \<le> byte c \<Longrightarrow> json_escape c = [c]"
proof -
  assume c: "128 \<le> byte c"
  have "byte d < 128 \<Longrightarrow> c \<noteq> d" for d using c by auto
  then have "c \<noteq> CHR 0x22" "c \<noteq> CHR 0x5C" "c \<noteq> CHR 0x0A" "c \<noteq> CHR 0x0D" "c \<noteq> CHR 0x09" "c \<noteq> CHR 0x0C" "c \<noteq> CHR 0x08"
    by (simp_all add: byte_def)
  with c show ?thesis by (simp add: json_escape_def)
qed

lemma utf8_escaped:
  "utf8_after False ps s \<Longrightarrow> list_all (\<lambda>p. 128 \<le> fst p) ps \<Longrightarrow> utf8_after False ps (concat (map json_escape s))"
proof (induction s arbitrary: ps)
  case (Cons c s)
  note b = json_escape_plain [of c]
  show ?case
  proof (cases ps)
    case Nil
    from Cons.prems(1) Nil obtain qs where qs: "utf8_lead False (byte c) = Some qs" "utf8_after False qs s"
      by (auto split: option.splits)
    note IH = Cons.IH [OF qs(2) lead_continues [OF qs(1)]]
    show ?thesis
    proof (cases "byte c < 128")
      case True
      then have "qs = []" using qs(1) by (simp add: utf8_lead_def)
      with IH utf8_ascii [OF json_escape_ascii [OF True]] show ?thesis by (simp add: Nil utf8_def)
    next
      case False
      with IH qs b show ?thesis by (simp add: Nil)
    qed
  next
    case ps: (Cons p qs)
    obtain lo hi where p: "p = (lo, hi)" by fastforce
    with Cons.prems ps have *: "lo \<le> byte c" "byte c \<le> hi" "utf8_after False qs s" "128 \<le> byte c"
      "list_all (\<lambda>p. 128 \<le> fst p) qs" by auto
    with Cons.IH [OF *(3,5)] b show ?thesis by (simp add: ps p)
  qed
qed simp

lemma utf8_json_string: "utf8 s \<Longrightarrow> utf8 (json_string s)"
  using utf8_escaped [of "[]" s] utf8_append_iff [of "concat (map json_escape s)" "[CHR 0x22]"]
  by (simp add: json_string_def utf8_ascii_Cons json_bytes) (simp add: utf8_def)

lemma utf8_nat_text: "utf8 (nat_text n)"
  using utf8_ascii [of "nat_text n" "[]"] nat_text_digits [of n] digit_byte by (auto simp: ascii_def list_all_iff)

lemma utf8_int_text: "utf8 (int_text i)"
  using utf8_nat_text by (simp add: int_text_def utf8_ascii_Cons byte_def)

lemma utf8_join: "\<forall>x\<in>set xs. utf8 x \<Longrightarrow> utf8 (join '','' xs)"
  by (induction xs) (simp_all add: join_Cons utf8_append_iff utf8_ascii_Cons json_bytes)

lemma utf8_text: "utf8 a \<Longrightarrow> byte c < 128 \<Longrightarrow> byte d < 128 \<Longrightarrow> utf8 (c # a @ [d])"
  by (simp add: utf8_ascii_Cons utf8_append_iff)

lemma utf8_json_text: "read_ok n v \<Longrightarrow> float_free v \<Longrightarrow> encodable v \<Longrightarrow> utf8 (json_text v)"
proof (induction v arbitrary: n)
  case (PStr s)
  then have "utf8 s" using str_ok_utf8 by (simp add: str_ok_def utf8_def)
  then show ?case by (simp add: utf8_json_string)
next
  case (PList xs)
  obtain m where n: "n = Suc m" using PList.prems by (cases n) simp_all
  have "\<forall>x\<in>set (map json_text xs). utf8 x" using PList by (auto simp: n list_all_iff)
  then have "utf8 (join '','' (map json_text xs))" by (rule utf8_join)
  from utf8_text [OF this] json_bytes show ?case by simp
next
  case (PDict kvs)
  obtain m where n: "n = Suc m" using PDict.prems by (cases n) simp_all
  have "utf8 (item_text (k, v))" if kv: "(k, v) \<in> set kvs" for k v
  proof -
    have k: "is_str k" "str_ok (str_of k)" "read_ok m v" "float_free v" "encodable k" "encodable v"
      using PDict.prems kv by (auto simp: n list_all_iff)
    have "utf8 (str_of k)" using k(1,2,5) str_ok_utf8 by (cases k) (auto simp: str_ok_def utf8_def)
    moreover have "utf8 (json_text v)" using PDict.IH [of "(k, v)" v m] kv k by simp
    ultimately show ?thesis by (simp add: item_text_def utf8_append_iff utf8_json_string utf8_ascii_Cons json_bytes)
  qed
  then have "\<forall>x\<in>set (map item_text kvs). utf8 x" by auto
  then have "utf8 (join '','' (map item_text kvs))" by (rule utf8_join)
  from utf8_text [OF this] json_bytes show ?case unfolding json_text_dict by simp
qed (auto simp: utf8_int_text utf8_ascii_Cons byte_def)

text \<open>\<open>_canonical\<close> only reorders.\<close>

lemma canonical_items:
  "set (sort_key (\<lambda>kv. str_of (fst kv)) (map (\<lambda>(k, v). (k, canonical v)) kvs)) = (\<lambda>(k, v). (k, canonical v)) ` set kvs"
  by simp

lemma canonical_keys_distinct:
  assumes "distinct (map fst kvs)"
  shows "distinct (map fst (sort_key (\<lambda>kv. str_of (fst kv)) (map (\<lambda>(k, v). (k, canonical v)) kvs)))"
proof -
  have "map fst (map (\<lambda>(k, v). (k, canonical v)) kvs) = map fst kvs" by auto
  with assms have "distinct (map fst (map (\<lambda>(k, v). (k, canonical v)) kvs))" by (simp only:)
  then show ?thesis by (metis mset_map mset_sort mset_eq_imp_distinct_iff)
qed

lemma canonical_read_ok:
  "read_ok n v \<Longrightarrow> float_free v \<Longrightarrow> encodable v \<Longrightarrow>
   read_ok n (canonical v) \<and> float_free (canonical v) \<and> encodable (canonical v)"
proof (induction v arbitrary: n)
  case (PList xs)
  obtain m where n: "n = Suc m" using PList.prems by (cases n) simp_all
  from PList show ?case by (auto simp: n list_all_iff)
next
  case (PDict kvs)
  obtain m where n: "n = Suc m" using PDict.prems by (cases n) simp_all
  have "read_ok m (canonical v) \<and> float_free (canonical v) \<and> encodable (canonical v) \<and>
      is_str k \<and> str_ok (str_of k) \<and> encodable k" if kv: "(k, v) \<in> set kvs" for k v
  proof -
    have "read_ok m v" "float_free v" "encodable v" "is_str k" "str_ok (str_of k)" "encodable k"
      using PDict.prems kv by (auto simp: n list_all_iff)
    with PDict.IH [of "(k, v)" v m] kv show ?thesis by simp
  qed
  moreover have "distinct (map fst (sort_key (\<lambda>kv. str_of (fst kv)) (map (\<lambda>(k, v). (k, canonical v)) kvs)))"
    using PDict.prems by (intro canonical_keys_distinct) (simp add: n)
  ultimately show ?case by (auto simp: n list_all_iff)
qed simp_all

theorem canonical_json_reads_back:
  assumes "read_ok n v" "float_free v" "encodable v"
  shows "bnd (decode_utf8 (canonical_json v)) (json_loads nonfinite duplicate n) = Inr (canonical v)"
proof -
  have c: "read_ok n (canonical v)" "float_free (canonical v)" "encodable (canonical v)"
    using canonical_read_ok [OF assms] by simp_all
  then show ?thesis
    using utf8_json_text [OF c] json_loads_text [OF read_ok_readable [OF c(1,2)]]
    by (simp add: canonical_json_def decode_utf8_def)
qed

end
