(* ===== verification/Protocol.thy ===== *)
theory Protocol
  imports JsonWellFormed ExecutionContracts
begin

text \<open>
  \<open>protocol.py\<close>: the line protocol between a run and the factory.  An event is one line of JSON.  The
  parser takes the bytes as they arrive, cuts them into lines and accepts a line when it is a JSON object
  without repeated keys, within the limits, that carries the identity of the run, the next sequence number, a
  known type for which the run declared the capability, and a payload with the fields of that type.

  A call may raise after it has changed the parser, so \<open>feed\<close> returns the new parser beside the
  result.  \<open>stack\<close> is the room the interpreter has for nested JSON containers.  Field prefixes: \<open>pl_\<close> limits,
  \<open>ev_\<close> event, \<open>ps_\<close> parser.
\<close>

section \<open>Constants\<close>

definition PROTOCOL_VERSION_V2 :: string where
  "PROTOCOL_VERSION_V2 = ''adaptive-factory.execution/v2''"

definition protocol_versions :: "string list" where
  "protocol_versions = [PROTOCOL_VERSION, PROTOCOL_VERSION_V2]"

definition TERMINAL_EVENTS :: "string list" where
  "TERMINAL_EVENTS = [''run.completed'', ''run.failed'', ''run.needs_human'']"

definition EVENTS :: "string list" where
  "EVENTS = [''adapter.ready'', ''run.started'', ''stage.reported'', ''note.proposed'', ''artifact.proposed'',
     ''usage.reported''] @ TERMINAL_EVENTS"

definition CAPABILITY :: "(string \<times> string) list" where
  "CAPABILITY = [(''note.proposed'', ''notes''), (''artifact.proposed'', ''artifacts''), (''usage.reported'', ''usage''),
     (''run.completed'', ''structured_output''), (''run.failed'', ''structured_output''),
     (''run.needs_human'', ''structured_output'')]"

definition FORBIDDEN_KEYS :: "string list" where
  "FORBIDDEN_KEYS = [''reasoning'', ''scratchpad'', ''chain_of_thought'', ''analysis'', ''raw_prompt'', ''prompt'',
     ''stdout'', ''stderr'', ''native_stream'']"

definition NOTE_TYPES_V1 :: "string list" where
  "NOTE_TYPES_V1 = [''finding'', ''conclusion'', ''decision.record'']"

definition V1_USAGE_FIELDS :: "string list" where
  "V1_USAGE_FIELDS = [''provider_call_id'', ''price_table_digest'', ''input_tokens'', ''output_tokens'',
     ''reasoning_tokens'', ''cost_usd_micros'', ''output_bytes'']"

definition V2_USAGE_FIELDS :: "string list" where
  "V2_USAGE_FIELDS = [''provider_call_id'', ''price_table'', ''price_table_digest'', ''input_tokens'', ''output_tokens'',
     ''reasoning_tokens'', ''cached_input_tokens'', ''cache_write_tokens'', ''output_bytes'']"

definition PAYLOAD_FIELDS :: "(string \<times> string list) list" where
  "PAYLOAD_FIELDS =
     [(''adapter.ready'', [''provider_id'', ''adapter_id'', ''adapter_version'', ''native_version'', ''model_id'', ''capabilities'']),
      (''run.started'', [''stage'']),
      (''stage.reported'', [''stage'', ''status'']),
      (''note.proposed'', [''note_type'', ''body'', ''evidence'']),
      (''artifact.proposed'', [''artifact_class'', ''path'', ''sha256'', ''size_bytes'', ''media_type'']),
      (''usage.reported'', V1_USAGE_FIELDS),
      (''run.completed'', [''summary'']),
      (''run.failed'', [''failure_class'', ''diagnostic'']),
      (''run.needs_human'', [''reason'', ''diagnostic''])]"

definition protocol_error :: "string \<Rightarrow> pyexn" where
  "protocol_error code = ProtocolError code []"

section \<open>Limits\<close>

record protocol_limits =
  pl_max_line_bytes :: int
  pl_max_stream_bytes :: int
  pl_max_events :: int
  pl_max_depth :: int
  pl_max_nodes :: int
  pl_max_string_bytes :: int

definition default_limits :: protocol_limits where
  "default_limits =
     \<lparr>pl_max_line_bytes = 65536, pl_max_stream_bytes = 1000000, pl_max_events = 1000, pl_max_depth = 12,
      pl_max_nodes = 4096, pl_max_string_bytes = 65536\<rparr>"

definition protocol_limits_post_init :: "protocol_limits \<Rightarrow> unit res" where
  "protocol_limits_post_init l =
     ensure (list_all (\<lambda>n. 1 \<le> n) [pl_max_line_bytes l, pl_max_stream_bytes l, pl_max_events l, pl_max_depth l,
       pl_max_nodes l, pl_max_string_bytes l]) (protocol_error ''invalid_limits'')"

section \<open>Reading one object\<close>

definition strict_json_object :: "nat \<Rightarrow> string \<Rightarrow> pyval res" where
  "strict_json_object stack raw =
     bnd (catch (decode_utf8 raw) (\<lambda>e. if e = UnicodeDecodeError then Inl (protocol_error ''invalid_utf8'') else Inl e)) (\<lambda>text.
     bnd (catch (json_loads (ProtocolError ''nonfinite_number'') (ProtocolError ''duplicate_key'') stack text)
            (\<lambda>e. if e = JSONDecodeError then Inl (protocol_error ''invalid_json'') else Inl e)) (\<lambda>v.
     bnd (ensure (is_mapping v) (protocol_error ''invalid_event'')) (\<lambda>_. Inr v)))"

section \<open>Walking a value\<close>

text \<open>
  \<open>str.casefold\<close>, exactly for the characters whose folding is ASCII; the others fold to characters no
  forbidden key has.
\<close>

definition casefold_char :: "string \<Rightarrow> string" where
  "casefold_char c =
     (let bs = map byte c in
      if length c = 1 then map lower_char c
      else if bs = [197, 191] then ''s''
      else if bs = [226, 132, 170] then ''k''
      else if bs = [195, 159] \<or> bs = [225, 186, 158] then ''ss''
      else if bs = [239, 172, 128] then ''ff''
      else if bs = [239, 172, 129] then ''fi''
      else if bs = [239, 172, 130] then ''fl''
      else if bs = [239, 172, 131] then ''ffi''
      else if bs = [239, 172, 132] then ''ffl''
      else if bs = [239, 172, 133] \<or> bs = [239, 172, 134] then ''st''
      else c)"

definition casefold :: "string \<Rightarrow> string" where
  "casefold s = concat (map casefold_char (code_points s))"

fun walk_leaf :: "protocol_limits \<Rightarrow> pyval \<Rightarrow> unit res" where
  "walk_leaf l (PStr s) =
     bnd (ensure (\<not> has_surrogate s) (protocol_error ''invalid_utf8'')) (\<lambda>_.
     ensure (int (length s) \<le> pl_max_string_bytes l) (protocol_error ''string_too_large''))"
| "walk_leaf l (PFloat r) = ensure (r \<notin> set [''inf'', ''-inf'', ''nan'']) (protocol_error ''nonfinite_number'')"
| "walk_leaf l (PTime t) = Inl (protocol_error ''invalid_value'')"
| "walk_leaf l v = Inr ()"

definition key_allowed :: "pyval \<Rightarrow> unit res" where
  "key_allowed k =
     (case k of
        PStr s \<Rightarrow> ensure (casefold s \<notin> set FORBIDDEN_KEYS) (ProtocolError ''forbidden_content'' s)
      | _ \<Rightarrow> Inl AttributeError)"

text \<open>\<open>_walk\<close>; the counter it shares between the calls goes in and comes out.\<close>

function (sequential) walk :: "protocol_limits \<Rightarrow> int \<Rightarrow> pyval \<Rightarrow> int \<Rightarrow> int res"
and walk_items :: "protocol_limits \<Rightarrow> int \<Rightarrow> (pyval \<times> pyval) list \<Rightarrow> int \<Rightarrow> int res"
and walk_all :: "protocol_limits \<Rightarrow> int \<Rightarrow> pyval list \<Rightarrow> int \<Rightarrow> int res" where
  "walk l depth v n =
     (if pl_max_nodes l < n + 1 then Inl (protocol_error ''structure_too_large'')
      else if pl_max_depth l < depth then Inl (protocol_error ''structure_too_deep'')
      else case v of
        PDict kvs \<Rightarrow> walk_items l (depth + 1) kvs (n + 1)
      | PList xs \<Rightarrow> walk_all l (depth + 1) xs (n + 1)
      | _ \<Rightarrow> bnd (walk_leaf l v) (\<lambda>_. Inr (n + 1)))"
| "walk_items l depth [] n = Inr n"
| "walk_items l depth ((k, v) # kvs) n =
     bnd (key_allowed k) (\<lambda>_.
     bnd (walk l depth k n) (\<lambda>c.
     bnd (walk l depth v c) (\<lambda>c'.
     walk_items l depth kvs c')))"
| "walk_all l depth [] n = Inr n"
| "walk_all l depth (x # xs) n = bnd (walk l depth x n) (\<lambda>c. walk_all l depth xs c)"
  by pat_completeness auto

termination
  by (relation "measure (case_sum (\<lambda>(l, d, v, n). size v)
        (case_sum (\<lambda>(l, d, kvs, n). size_list (size_prod size size) kvs) (\<lambda>(l, d, xs, n). size_list size xs)))") auto

declare walk.simps [simp del]

section \<open>Payloads\<close>

definition validate_note_type :: "pyval \<Rightarrow> string res" where
  "validate_note_type v =
     (case v of
        PStr s \<Rightarrow> (if s \<in> set NOTE_TYPES_V1 then Inr s else Inl (ProtocolError ''forbidden_content'' ''note_type''))
      | _ \<Rightarrow> Inl (protocol_error ''payload_fields''))"

fun is_int :: "pyval \<Rightarrow> bool" where
  "is_int (PInt i) = True"
| "is_int v = False"

fun str_list :: "pyval \<Rightarrow> string list option" where
  "str_list (PList xs) = (if list_all is_str xs then Some (map str_of xs) else None)"
| "str_list v = None"

text \<open>\<open>payload[name]\<close> for the names in turn, each of which must have the type.\<close>

definition all_typed :: "(pyval \<Rightarrow> bool) \<Rightarrow> pyval \<Rightarrow> string list \<Rightarrow> bool res" where
  "all_typed P payload names = bnd (map_res (getitem payload) names) (\<lambda>vs. Inr (list_all P vs))"

fun dict_values :: "pyval \<Rightarrow> pyval list" where
  "dict_values (PDict kvs) = map snd kvs"
| "dict_values v = []"

fun dict_names :: "pyval \<Rightarrow> string list" where
  "dict_names (PDict kvs) = map (\<lambda>(k, v). str_of k) kvs"
| "dict_names v = []"

definition usage_tokens_of :: "pyval \<Rightarrow> usage_tokens res" where
  "usage_tokens_of payload =
     bnd (getitem payload ''input_tokens'') (\<lambda>i.
     bnd (getitem payload ''output_tokens'') (\<lambda>o'.
     bnd (getitem payload ''reasoning_tokens'') (\<lambda>r.
     bnd (getitem payload ''cached_input_tokens'') (\<lambda>c.
     bnd (getitem payload ''cache_write_tokens'') (\<lambda>w.
     bnd (nonnegative_bigint i ''input_tokens'') (\<lambda>i'.
     bnd (nonnegative_bigint o' ''output_tokens'') (\<lambda>o''.
     bnd (nonnegative_bigint r ''reasoning_tokens'') (\<lambda>r'.
     bnd (nonnegative_bigint c ''cached_input_tokens'') (\<lambda>c'.
     bnd (nonnegative_bigint w ''cache_write_tokens'') (\<lambda>w'.
     let usage = \<lparr>ut_input_tokens = i', ut_output_tokens = o'', ut_reasoning_tokens = r',
                  ut_cached_input_tokens = c', ut_cache_write_tokens = w'\<rparr>
     in bnd (usage_post_init usage) (\<lambda>_. Inr usage)))))))))))"

fun pricing_error :: "pyexn \<Rightarrow> bool" where
  "pricing_error (PricingContractError c d) = True"
| "pricing_error e = False"

definition as_payload_error :: "'a res \<Rightarrow> 'a res" where
  "as_payload_error m = catch m (\<lambda>e. if pricing_error e then Inl (protocol_error ''payload_fields'') else Inl e)"

definition validate_ready :: "pyval \<Rightarrow> string list \<Rightarrow> unit res" where
  "validate_ready payload allowed =
     (let names = dict_names payload; needed = [''provider_id'', ''capabilities''] in
      bnd (ensure (\<not> (set names \<subset> set needed)) (protocol_error ''payload_fields'')) (\<lambda>_.
      bnd (all_typed is_str payload (filter (\<lambda>n. n \<in> set names \<and> n \<noteq> ''capabilities'') allowed)) (\<lambda>ok.
      bnd (ensure ok (protocol_error ''payload_fields'')) (\<lambda>_.
      bnd (getitem payload ''capabilities'') (\<lambda>caps.
      case str_list caps of
        None \<Rightarrow> Inl (protocol_error ''capability_list'')
      | Some cs \<Rightarrow> ensure (usort cs = cs) (protocol_error ''capability_list''))))))"

definition validate_note :: "pyval \<Rightarrow> unit res" where
  "validate_note payload =
     bnd (getitem payload ''note_type'') (\<lambda>t.
     bnd (validate_note_type t) (\<lambda>_.
     bnd (getitem payload ''body'') (\<lambda>b.
     bnd (getitem payload ''evidence'') (\<lambda>e.
     ensure (is_str b \<and> str_list e \<noteq> None) (protocol_error ''payload_fields'')))))"

definition validate_artifact :: "pyval \<Rightarrow> unit res" where
  "validate_artifact payload =
     bnd (all_typed is_str payload [''artifact_class'', ''path'', ''sha256'', ''media_type'']) (\<lambda>strs.
     bnd (getitem payload ''size_bytes'') (\<lambda>size.
     ensure (strs \<and> is_int size) (protocol_error ''payload_fields'')))"

definition validate_usage_v1 :: "pyval \<Rightarrow> unit res" where
  "validate_usage_v1 payload =
     bnd (all_typed is_str payload [''provider_call_id'', ''price_table_digest'']) (\<lambda>strs.
     bnd (all_typed is_int payload [''input_tokens'', ''output_tokens'', ''reasoning_tokens'', ''cost_usd_micros'', ''output_bytes'']) (\<lambda>ints.
     ensure (strs \<and> ints) (protocol_error ''payload_fields'')))"

definition validate_usage_v2 :: "pyval \<Rightarrow> unit res" where
  "validate_usage_v2 payload =
     bnd (as_payload_error (
       bnd (field payload ''price_table'' price_table_from_dict) (\<lambda>table.
       bnd (usage_tokens_of payload) (\<lambda>usage.
       field payload ''price_table_digest'' (\<lambda>digest. calculate_cost_usd_micros usage table digest))))) (\<lambda>_.
     bnd (getitem payload ''provider_call_id'') (\<lambda>id.
     bnd (getitem payload ''output_bytes'') (\<lambda>out.
     ensure (is_str id \<and> is_int out) (protocol_error ''payload_fields''))))"

text \<open>The checks of one event type on a payload that has exactly the fields of that type.\<close>

definition validate_fields :: "string \<Rightarrow> string \<Rightarrow> pyval \<Rightarrow> unit res" where
  "validate_fields event_type version payload =
     (if event_type \<in> set [''run.started'', ''stage.reported'']
      then ensure (list_all is_str (dict_values payload)) (protocol_error ''payload_fields'')
      else if event_type = ''note.proposed'' then validate_note payload
      else if event_type = ''artifact.proposed'' then validate_artifact payload
      else if event_type = ''usage.reported''
      then (if version = PROTOCOL_VERSION_V2 then validate_usage_v2 payload else validate_usage_v1 payload)
      else ensure (\<not> (event_type \<in> set TERMINAL_EVENTS \<and> \<not> list_all is_str (dict_values payload)))
             (protocol_error ''payload_fields''))"

definition allowed_fields :: "string \<Rightarrow> string \<Rightarrow> string list option" where
  "allowed_fields event_type version =
     (if event_type = ''usage.reported'' \<and> version = PROTOCOL_VERSION_V2 then Some V2_USAGE_FIELDS
      else assoc PAYLOAD_FIELDS event_type)"

definition validate_event_payload :: "pyval \<Rightarrow> pyval \<Rightarrow> protocol_limits \<Rightarrow> pyval \<Rightarrow> unit res" where
  "validate_event_payload event_type payload limits version =
     bnd (in_str_set version protocol_versions) (\<lambda>known_version.
     bnd (ensure known_version (protocol_error ''unsupported_version'')) (\<lambda>_.
     bnd (ensure (event_type \<in> PStr ` set EVENTS) (protocol_error ''unknown_event'')) (\<lambda>_.
     bnd (walk limits 1 payload 0) (\<lambda>_.
     let et = str_of event_type; pv = str_of version
     in case allowed_fields et pv of None \<Rightarrow> Inl (protocol_error ''payload_fields'')
        | Some fs \<Rightarrow>
            bnd (ensure (is_mapping payload \<and> set (dict_names payload) \<subseteq> set fs) (protocol_error ''payload_fields'')) (\<lambda>_.
            if et = ''adapter.ready'' then validate_ready payload fs
            else bnd (ensure (set (dict_names payload) = set fs) (protocol_error ''payload_fields'')) (\<lambda>_.
                 validate_fields et pv payload))))))"

section \<open>Events\<close>

record canonical_event =
  ev_protocol_version :: string
  ev_task_id :: string
  ev_run_id :: string
  ev_packet_digest :: string
  ev_sequence :: int
  ev_event_type :: string
  ev_payload :: pyval

text \<open>\<open>_freeze\<close>: the items of every dictionary in the order of their keys; tuples for lists.\<close>

fun freeze :: "pyval \<Rightarrow> pyval" where
  "freeze (PDict kvs) = PDict (sort_key (\<lambda>kv. str_of (fst kv)) (map (\<lambda>(k, v). (k, freeze v)) kvs))"
| "freeze (PList xs) = PList (map freeze xs)"
| "freeze v = v"

definition event_from_payload ::
  "string \<Rightarrow> string \<Rightarrow> string \<Rightarrow> pyval \<Rightarrow> pyval \<Rightarrow> pyval \<Rightarrow> protocol_limits \<Rightarrow> pyval \<Rightarrow> canonical_event res" where
  "event_from_payload task_id run_id packet_digest sequence event_type payload limits version =
     (case sequence of
        PInt n \<Rightarrow>
          (if n < 1 then Inl (protocol_error ''invalid_sequence'')
           else bnd (validate_event_payload event_type payload limits version) (\<lambda>_.
                Inr \<lparr>ev_protocol_version = str_of version, ev_task_id = task_id, ev_run_id = run_id,
                     ev_packet_digest = packet_digest, ev_sequence = n, ev_event_type = str_of event_type,
                     ev_payload = freeze payload\<rparr>))
      | _ \<Rightarrow> Inl (protocol_error ''invalid_sequence''))"

definition event_to_dict :: "canonical_event \<Rightarrow> pyval" where
  "event_to_dict e = py_dict
     [(''protocol_version'', PStr (ev_protocol_version e)), (''task_id'', PStr (ev_task_id e)),
      (''run_id'', PStr (ev_run_id e)), (''packet_digest'', PStr (ev_packet_digest e)),
      (''sequence'', PInt (ev_sequence e)), (''event_type'', PStr (ev_event_type e)), (''payload'', ev_payload e)]"

section \<open>The parser\<close>

record event_parser =
  ps_task_id :: string
  ps_run_id :: string
  ps_packet_digest :: string
  ps_capabilities :: "string list"
  ps_limits :: protocol_limits
  ps_buffer :: string
  ps_bytes :: int
  ps_events :: "canonical_event list"
  ps_terminal :: bool

definition new_parser :: "string \<Rightarrow> string \<Rightarrow> string \<Rightarrow> string list \<Rightarrow> protocol_limits \<Rightarrow> event_parser" where
  "new_parser task_id run_id packet_digest capabilities limits =
     \<lparr>ps_task_id = task_id, ps_run_id = run_id, ps_packet_digest = packet_digest, ps_capabilities = capabilities,
      ps_limits = limits, ps_buffer = [], ps_bytes = 0, ps_events = [], ps_terminal = False\<rparr>"

definition event_fields :: "string list" where
  "event_fields = [''protocol_version'', ''task_id'', ''run_id'', ''packet_digest'', ''sequence'', ''event_type'', ''payload'']"

text \<open>The checks of \<open>_parse\<close> on the value of a line, and on the line, up to where it marks the stream as ended.\<close>

definition check_event :: "event_parser \<Rightarrow> pyval \<Rightarrow> unit res" where
  "check_event p value =
     bnd (walk (ps_limits p) 1 value 0) (\<lambda>_.
     bnd (ensure (set (dict_names value) = set event_fields) (protocol_error ''event_fields'')) (\<lambda>_.
     bnd (field value ''protocol_version'' (\<lambda>v. in_str_set v protocol_versions)) (\<lambda>known_version.
     bnd (ensure known_version (protocol_error ''unsupported_version'')) (\<lambda>_.
     bnd (map_res (getitem value) [''task_id'', ''run_id'', ''packet_digest'']) (\<lambda>identity.
     bnd (ensure (identity = map PStr [ps_task_id p, ps_run_id p, ps_packet_digest p]) (protocol_error ''identity_mismatch'')) (\<lambda>_.
     bnd (getitem value ''sequence'') (\<lambda>sequence.
     bnd (ensure (sequence = PInt (int (length (ps_events p)) + 1)) (protocol_error ''invalid_sequence'')) (\<lambda>_.
     bnd (getitem value ''event_type'') (\<lambda>event_type.
     bnd (ensure (event_type \<in> PStr ` set EVENTS) (protocol_error ''unknown_event'')) (\<lambda>_.
     bnd (case assoc CAPABILITY (str_of event_type) of None \<Rightarrow> Inr ()
          | Some c \<Rightarrow> ensure (c \<in> set (ps_capabilities p)) (ProtocolError ''undeclared_capability'' c)) (\<lambda>_.
     bnd (getitem value ''payload'') (\<lambda>payload.
     bnd (field value ''protocol_version'' (validate_event_payload event_type payload (ps_limits p))) (\<lambda>_.
     if str_of event_type = ''adapter.ready''
     then field payload ''capabilities'' (\<lambda>cs. bnd (set_items cs) (\<lambda>items.
            ensure (set items \<subseteq> PStr ` set (ps_capabilities p)) (protocol_error ''undeclared_capability'')))
     else Inr ())))))))))))))"

definition check_line :: "nat \<Rightarrow> event_parser \<Rightarrow> string \<Rightarrow> pyval res" where
  "check_line stack p raw =
     bnd (ensure (int (length (ps_events p)) < pl_max_events (ps_limits p)) (protocol_error ''event_limit'')) (\<lambda>_.
     bnd (ensure (\<not> ps_terminal p) (protocol_error ''after_terminal'')) (\<lambda>_.
     bnd (strict_json_object stack raw) (\<lambda>value.
     bnd (check_event p value) (\<lambda>_. Inr value))))"

definition parse_line :: "nat \<Rightarrow> event_parser \<Rightarrow> string \<Rightarrow> event_parser \<times> canonical_event res" where
  "parse_line stack p raw =
     (case check_line stack p raw of
        Inl e \<Rightarrow> (p, Inl e)
      | Inr value \<Rightarrow>
          (if getitem value ''event_type'' \<in> (Inr \<circ> PStr) ` set TERMINAL_EVENTS then p\<lparr>ps_terminal := True\<rparr> else p,
           field value ''sequence'' (\<lambda>sequence.
           field value ''event_type'' (\<lambda>event_type.
           field value ''payload'' (\<lambda>payload.
           field value ''protocol_version'' (\<lambda>version.
           event_from_payload (ps_task_id p) (ps_run_id p) (ps_packet_digest p) sequence event_type payload
             (ps_limits p) version))))))"

definition newline :: char where "newline = CHR 0x0A"

lemma parse_line_buffer: "ps_buffer (fst (parse_line stack p raw)) = ps_buffer p"
  by (simp add: parse_line_def split: sum.splits)

text \<open>The loop of \<open>feed\<close>, and \<open>feed\<close>.\<close>

function feed_lines :: "nat \<Rightarrow> event_parser \<Rightarrow> canonical_event list \<Rightarrow> event_parser \<times> canonical_event list res" where
  "feed_lines stack p emitted =
     (if newline \<notin> set (ps_buffer p) then
        (p, if pl_max_line_bytes (ps_limits p) < int (length (ps_buffer p))
            then Inl (protocol_error ''line_too_large'') else Inr emitted)
      else
        let raw = takeWhile (\<lambda>c. c \<noteq> newline) (ps_buffer p);
            p' = p\<lparr>ps_buffer := drop (length raw + 1) (ps_buffer p)\<rparr>
        in if pl_max_line_bytes (ps_limits p) < int (length raw) then (p', Inl (protocol_error ''line_too_large''))
           else if raw = [] then (p', Inl (protocol_error ''invalid_json''))
           else case parse_line stack p' raw of
                  (q, Inl e) \<Rightarrow> (q, Inl e)
                | (q, Inr ev) \<Rightarrow> feed_lines stack (q\<lparr>ps_events := ps_events q @ [ev]\<rparr>) (emitted @ [ev]))"
  by pat_completeness auto

lemma parse_line_shorter:
  assumes "newline \<in> set (ps_buffer p)"
    and "parse_line stack (p\<lparr>ps_buffer := drop (length raw + 1) (ps_buffer p)\<rparr>) raw = (q, m)"
  shows "length (ps_buffer q) < length (ps_buffer p)"
proof -
  have "ps_buffer q = drop (length raw + 1) (ps_buffer p)"
    using parse_line_buffer [of stack "p\<lparr>ps_buffer := drop (length raw + 1) (ps_buffer p)\<rparr>" raw] assms(2) by simp
  with assms(1) show ?thesis by (cases "ps_buffer p") auto
qed

termination feed_lines
  by (relation "measure (\<lambda>(stack, p, emitted). length (ps_buffer p))")
    (auto dest!: parse_line_shorter [OF _ sym])

declare feed_lines.simps [simp del]

definition feed :: "nat \<Rightarrow> event_parser \<Rightarrow> string \<Rightarrow> event_parser \<times> canonical_event list res" where
  "feed stack p chunk =
     (let p' = p\<lparr>ps_bytes := ps_bytes p + int (length chunk)\<rparr> in
      if pl_max_stream_bytes (ps_limits p) < ps_bytes p' then (p', Inl (protocol_error ''stream_too_large''))
      else feed_lines stack (p'\<lparr>ps_buffer := ps_buffer p @ chunk\<rparr>) [])"

definition finish :: "event_parser \<Rightarrow> canonical_event list res" where
  "finish p =
     bnd (ensure (ps_buffer p = []) (protocol_error ''partial_line'')) (\<lambda>_.
     bnd (ensure (ps_terminal p) (protocol_error ''missing_terminal'')) (\<lambda>_.
     Inr (ps_events p)))"

end
