(* ===== verification/Broker.thy ===== *)
theory Broker
  imports Redaction Protocol Proposals
begin

text \<open>
  \<open>brokers.py\<close>, the proposal broker: it takes an event of a run and the context the control plane holds for
  that run, checks the one against the other, redacts the texts and answers with a proposal that carries its
  idempotency key.  The broker remembers the runs that have ended, so \<open>accept\<close> takes and returns that set.
  \<open>word\<close> and \<open>nfc\<close> are the two tables of the library (see \<open>PyRegex\<close> and \<open>Contracts\<close>).  Field prefix: \<open>pc_\<close>
  context.
\<close>

section \<open>Context\<close>

record proposal_context =
  pc_task_id :: string
  pc_run_id :: string
  pc_owner :: string
  pc_fence :: int
  pc_packet_digest :: string
  pc_role :: string
  pc_repository_id :: string
  pc_workspace_handle :: string
  pc_allowed_paths :: "string list"
  pc_allowed_artifact_classes :: "string list"
  pc_max_note_bytes :: int
  pc_max_artifact_bytes :: int
  pc_max_output_bytes :: int
  pc_max_cost_usd_micros :: int
  pc_max_token_units :: int
  pc_declared_capabilities :: "string list"

type_synonym identity = "string \<times> string \<times> string"

definition event_identity :: "canonical_event \<Rightarrow> identity" where
  "event_identity e = (ev_task_id e, ev_run_id e, ev_packet_digest e)"

definition context_identity :: "proposal_context \<Rightarrow> identity" where
  "context_identity c = (pc_task_id c, pc_run_id c, pc_packet_digest c)"

section \<open>Bounded proposals\<close>

definition MAX_PROPOSAL_ENVELOPE_BYTES :: int where "MAX_PROPOSAL_ENVELOPE_BYTES = 1048576"

definition base_items :: "string \<Rightarrow> string \<Rightarrow> string \<Rightarrow> int \<Rightarrow> int \<Rightarrow> string \<Rightarrow> (string \<times> pyval) list" where
  "base_items task_id run_id packet_digest fence sequence role =
     [(''task_id'', PStr task_id), (''run_id'', PStr run_id), (''packet_digest'', PStr packet_digest),
      (''fence'', PInt fence), (''sequence'', PInt sequence), (''author_role'', PStr role)]"

fun proposal_asdict :: "proposal \<Rightarrow> pyval" where
  "proposal_asdict (Note x) = py_dict (base_items (np_task_id x) (np_run_id x) (np_packet_digest x) (np_fence x)
     (np_sequence x) (np_author_role x) @
     [(''note_type'', PStr (np_note_type x)), (''body'', PStr (np_body x)),
      (''evidence'', PList (map PStr (np_evidence x))), (''idempotency_key'', PStr (np_idempotency_key x))])"
| "proposal_asdict (Artifact x) = py_dict (base_items (ap_task_id x) (ap_run_id x) (ap_packet_digest x) (ap_fence x)
     (ap_sequence x) (ap_author_role x) @
     [(''artifact_class'', PStr (ap_artifact_class x)), (''path'', PStr (ap_path x)), (''sha256'', PStr (ap_sha256 x)),
      (''size_bytes'', PInt (ap_size_bytes x)), (''media_type'', PStr (ap_media_type x)),
      (''artifact_attestation_digest'', PStr (ap_artifact_attestation_digest x)),
      (''idempotency_key'', PStr (ap_idempotency_key x))])"
| "proposal_asdict (Usage x) = py_dict (base_items (up_task_id x) (up_run_id x) (up_packet_digest x) (up_fence x)
     (up_sequence x) (up_author_role x) @
     [(''provider_call_id'', PStr (up_provider_call_id x)), (''price_table_digest'', PStr (up_price_table_digest x)),
      (''input_tokens'', PInt (up_input_tokens x)), (''output_tokens'', PInt (up_output_tokens x)),
      (''reasoning_tokens'', PInt (up_reasoning_tokens x)), (''cost_usd_micros'', PInt (up_cost_usd_micros x)),
      (''output_bytes'', PInt (up_output_bytes x)), (''idempotency_key'', PStr (up_idempotency_key x))])"
| "proposal_asdict (Usage_v2 x) = py_dict (base_items (uq_task_id x) (uq_run_id x) (uq_packet_digest x) (uq_fence x)
     (uq_sequence x) (uq_author_role x) @
     [(''provider_call_id'', PStr (uq_provider_call_id x)), (''price_table'', price_table_to_dict (uq_price_table x)),
      (''price_table_digest'', PStr (uq_price_table_digest x)), (''input_tokens'', PInt (uq_input_tokens x)),
      (''output_tokens'', PInt (uq_output_tokens x)), (''reasoning_tokens'', PInt (uq_reasoning_tokens x)),
      (''cached_input_tokens'', PInt (uq_cached_input_tokens x)), (''cache_write_tokens'', PInt (uq_cache_write_tokens x)),
      (''cost_usd_micros'', PInt (uq_cost_usd_micros x)), (''output_bytes'', PInt (uq_output_bytes x)),
      (''idempotency_key'', PStr (uq_idempotency_key x))])"
| "proposal_asdict (Terminal x) = py_dict (base_items (tm_task_id x) (tm_run_id x) (tm_packet_digest x) (tm_fence x)
     (tm_sequence x) (tm_author_role x) @
     [(''terminal_type'', PStr (tm_terminal_type x)), (''summary'', PStr (tm_summary x)),
      (''failure_class'', opt_str (tm_failure_class x)), (''reason'', opt_str (tm_reason x)),
      (''diagnostic'', opt_str (tm_diagnostic x)), (''idempotency_key'', PStr (tm_idempotency_key x))])"

text \<open>\<open>json.dumps\<close> with the separators \<open>", "\<close> and \<open>": "\<close>.\<close>

fun wire_text :: "pyval \<Rightarrow> string" where
  "wire_text (PList xs) = ''['' @ join '', '' (map wire_text xs) @ '']''"
| "wire_text (PDict kvs) =
     ''{'' @ join '', '' (map (\<lambda>(k, v). json_string (str_of k) @ '': '' @ wire_text v) kvs) @ ''}''"
| "wire_text v = json_text v"

definition bounded_proposal :: "proposal \<Rightarrow> proposal res" where
  "bounded_proposal p =
     (let v = proposal_asdict p in
      bnd (ensure (encodable v) UnicodeEncodeError) (\<lambda>_.
      bnd (ensure (int (length (wire_text (canonical v))) \<le> MAX_PROPOSAL_ENVELOPE_BYTES)
            (broker_error ''proposal_too_large'')) (\<lambda>_. Inr p)))"

section \<open>Texts and paths\<close>

definition result_text :: "(string \<Rightarrow> string) \<Rightarrow> (string \<Rightarrow> bool) \<Rightarrow> string \<Rightarrow> int \<Rightarrow> string res" where
  "result_text nfc word value max_bytes =
     bnd (ensure (nfc value = value \<and> \<not> has_control value) (broker_error ''terminal_text'')) (\<lambda>_.
     redact word value max_bytes)"

definition secret_free :: "(string \<Rightarrow> bool) \<Rightarrow> string \<Rightarrow> int \<Rightarrow> string res" where
  "secret_free word value maximum =
     bnd (ensure (\<not> contains_structural_secret word value) (broker_error ''secret_identity'')) (\<lambda>_.
     bnd (redact word value maximum) (\<lambda>redacted.
     bnd (ensure (redacted = value) (broker_error ''secret_identity'')) (\<lambda>_. Inr value)))"

definition secret_free_identity :: "(string \<Rightarrow> bool) \<Rightarrow> string \<Rightarrow> int \<Rightarrow> string res" where
  "secret_free_identity word value maximum = secret_free word value maximum"

definition safe_path :: "(string \<Rightarrow> bool) \<Rightarrow> pyval \<Rightarrow> string \<Rightarrow> string res" where
  "safe_path word v code =
     (case v of
        PStr s \<Rightarrow>
          bnd (ensure (s \<noteq> [] \<and> CHR 0x00 \<notin> set s) (broker_error code)) (\<lambda>_.
          bnd (secret_free word s (int MAX_DURABLE_PATH_BYTES)) (\<lambda>_.
          bnd (ensure (relative_path s) (broker_error code)) (\<lambda>_. Inr s)))
      | _ \<Rightarrow> Inl (broker_error code))"

definition allowed_path :: "(string \<Rightarrow> bool) \<Rightarrow> pyval \<Rightarrow> proposal_context \<Rightarrow> string \<Rightarrow> string res" where
  "allowed_path word v context code =
     bnd (safe_path word v code) (\<lambda>s.
     bnd (map_res (\<lambda>root. safe_path word (PStr root) ''invalid_allowed_path'') (pc_allowed_paths context)) (\<lambda>roots.
     bnd (ensure (list_ex (path_within s) roots) (broker_error ''path_forbidden'')) (\<lambda>_. Inr s)))"

definition event_key :: "canonical_event \<Rightarrow> proposal_context \<Rightarrow> (string \<times> pyval) list \<Rightarrow> string res" where
  "event_key event context body =
     proposal_key (pc_task_id context) (pc_run_id context) (pc_packet_digest context) (pc_fence context)
       (pc_role context) (ev_sequence event) (ev_event_type event) body"

text \<open>\<open>dict(payload)\<close>, and \<open>{**items, name: value}\<close>.\<close>

fun payload_items :: "pyval \<Rightarrow> (string \<times> pyval) list" where
  "payload_items (PDict kvs) = map (\<lambda>(k, v). (str_of k, v)) kvs"
| "payload_items v = []"

fun dict_put :: "string \<Rightarrow> pyval \<Rightarrow> (string \<times> pyval) list \<Rightarrow> (string \<times> pyval) list" where
  "dict_put k v [] = [(k, v)]"
| "dict_put k v ((l, w) # kvs) = (if l = k then (k, v) # kvs else (l, w) # dict_put k v kvs)"

definition payload_fields :: "canonical_event \<Rightarrow> string list \<Rightarrow> string \<Rightarrow> unit res" where
  "payload_fields event names code = ensure (set (dict_names (ev_payload event)) = set names) (broker_error code)"

text \<open>\<open>except BrokerError as exc: if exc.code == "text_too_large": raise BrokerError(code)\<close>.\<close>

definition too_large_as :: "string \<Rightarrow> 'a res \<Rightarrow> 'a res" where
  "too_large_as code m =
     catch m (\<lambda>e. case e of BrokerError c d \<Rightarrow> (if c = ''text_too_large'' then Inl (broker_error code) else Inl e) | _ \<Rightarrow> Inl e)"

text \<open>\<open>p in s\<close>.\<close>

fun has_text :: "string \<Rightarrow> string \<Rightarrow> bool" where
  "has_text p [] = (p = [])"
| "has_text p (c # cs) = (take (length p) (c # cs) = p \<or> has_text p cs)"

section \<open>The proposals of one event\<close>

definition note_of :: "(string \<Rightarrow> bool) \<Rightarrow> canonical_event \<Rightarrow> proposal_context \<Rightarrow> proposal res" where
  "note_of word event context =
     bnd (payload_fields event [''note_type'', ''body'', ''evidence''] ''note_fields'') (\<lambda>_.
     bnd (getitem (ev_payload event) ''note_type'') (\<lambda>note_type.
     bnd (getitem (ev_payload event) ''body'') (\<lambda>body.
     bnd (getitem (ev_payload event) ''evidence'') (\<lambda>evidence.
     bnd (ensure (pc_role context \<in> set [''reader'', ''writer''] \<and> is_str note_type \<and> note_type \<noteq> PStr [])
           (broker_error ''note_role'')) (\<lambda>_.
     bnd (catch (validate_note_type note_type)
           (\<lambda>e. case e of ProtocolError c d \<Rightarrow> Inl (broker_error ''forbidden_note_type'') | _ \<Rightarrow> Inl e)) (\<lambda>type.
     bnd (secret_free word type 64) (\<lambda>_.
     bnd (ensure (is_str body \<and> take 2 (str_of body) \<noteq> ''#!'' \<and> \<not> has_text (newline # ''git push'') (str_of body))
           (broker_error ''executable_note'')) (\<lambda>_.
     bnd (too_large_as ''note_too_large'' (redact word (str_of body) (pc_max_note_bytes context))) (\<lambda>redacted.
     bnd (case evidence of PList items \<Rightarrow> bnd (ensure (length items \<le> 64) (broker_error ''evidence'')) (\<lambda>_. Inr items)
          | _ \<Rightarrow> Inl (broker_error ''evidence'')) (\<lambda>items.
     bnd (map_res (\<lambda>item. allowed_path word item context ''evidence'') items) (\<lambda>safe_evidence.
     bnd (event_key event context
           [(''note_type'', PStr type), (''body'', PStr redacted), (''evidence'', PList (map PStr safe_evidence))]) (\<lambda>key.
     bounded_proposal (Note
       \<lparr>np_task_id = pc_task_id context, np_run_id = pc_run_id context, np_packet_digest = pc_packet_digest context,
        np_fence = pc_fence context, np_sequence = ev_sequence event, np_author_role = pc_role context,
        np_note_type = type, np_body = redacted, np_evidence = safe_evidence, np_idempotency_key = key\<rparr>)))))))))))))"

definition artifact_of :: "(string \<Rightarrow> bool) \<Rightarrow> canonical_event \<Rightarrow> proposal_context \<Rightarrow> pyval \<Rightarrow> proposal res" where
  "artifact_of word event context attestation =
     bnd (ensure (pc_role context = ''writer'') (broker_error ''artifact_role'')) (\<lambda>_.
     bnd (payload_fields event [''artifact_class'', ''path'', ''sha256'', ''size_bytes'', ''media_type''] ''artifact_fields'') (\<lambda>_.
     bnd (getitem (ev_payload event) ''artifact_class'') (\<lambda>class.
     bnd (ensure (class \<in> PStr ` set (pc_allowed_artifact_classes context)) (broker_error ''artifact_class'')) (\<lambda>_.
     bnd (field (ev_payload event) ''path'' (\<lambda>v. allowed_path word v context ''invalid_artifact_path'')) (\<lambda>path.
     bnd (getitem (ev_payload event) ''sha256'') (\<lambda>digest.
     bnd (ensure (is_str digest \<and> hex_string 64 (str_of digest)) (broker_error ''artifact_digest'')) (\<lambda>_.
     bnd (field (ev_payload event) ''size_bytes'' (\<lambda>v. case v of
            PInt n \<Rightarrow> (if 0 \<le> n \<and> n \<le> pc_max_artifact_bytes context then Inr n else Inl (broker_error ''artifact_size''))
          | _ \<Rightarrow> Inl (broker_error ''artifact_size''))) (\<lambda>size.
     bnd (getitem (ev_payload event) ''media_type'') (\<lambda>media.
     bnd (ensure (is_str media \<and> MEDIA_TYPE_match (str_of media)) (broker_error ''artifact_media_type'')) (\<lambda>_.
     bnd (ensure (is_str attestation \<and> hex_string 64 (str_of attestation)) (broker_error ''artifact_attestation'')) (\<lambda>_.
     bnd (event_key event context (dict_put ''artifact_attestation_digest'' attestation
           (dict_put ''author_role'' (PStr (pc_role context)) (payload_items (ev_payload event))))) (\<lambda>key.
     bounded_proposal (Artifact
       \<lparr>ap_task_id = pc_task_id context, ap_run_id = pc_run_id context, ap_packet_digest = pc_packet_digest context,
        ap_fence = pc_fence context, ap_sequence = ev_sequence event, ap_author_role = pc_role context,
        ap_artifact_class = str_of class, ap_path = path, ap_sha256 = str_of digest, ap_size_bytes = size,
        ap_media_type = str_of media, ap_artifact_attestation_digest = str_of attestation,
        ap_idempotency_key = key\<rparr>)))))))))))))"

definition usage_v1_of :: "(string \<Rightarrow> bool) \<Rightarrow> canonical_event \<Rightarrow> proposal_context \<Rightarrow> proposal res" where
  "usage_v1_of word event context =
     bnd (payload_fields event V1_USAGE_FIELDS ''missing_usage'') (\<lambda>_.
     bnd (getitem (ev_payload event) ''price_table_digest'') (\<lambda>digest.
     bnd (ensure (is_str digest \<and> hex_string 64 (str_of digest)) (broker_error ''missing_usage'')) (\<lambda>_.
     bnd (map_res (\<lambda>name. field (ev_payload event) name (\<lambda>v. case v of
            PInt n \<Rightarrow> (if 0 \<le> n then Inr n else Inl (broker_error ''invalid_usage''))
          | _ \<Rightarrow> Inl (broker_error ''invalid_usage'')))
          [''input_tokens'', ''output_tokens'', ''reasoning_tokens'', ''cost_usd_micros'', ''output_bytes'']) (\<lambda>numbers.
     bnd (ensure (\<not> (pc_max_token_units context < sum_list (take 3 numbers) \<or>
                     pc_max_cost_usd_micros context < numbers ! 3 \<or> pc_max_output_bytes context < numbers ! 4))
           (broker_error ''budget_exceeded'')) (\<lambda>_.
     bnd (getitem (ev_payload event) ''provider_call_id'') (\<lambda>id.
     bnd (ensure (is_str id \<and> id \<noteq> PStr []) (broker_error ''missing_usage'')) (\<lambda>_.
     bnd (secret_free word (str_of id) 128) (\<lambda>_.
     bnd (event_key event context (dict_put ''author_role'' (PStr (pc_role context)) (payload_items (ev_payload event)))) (\<lambda>key.
     bounded_proposal (Usage
       \<lparr>up_task_id = pc_task_id context, up_run_id = pc_run_id context, up_packet_digest = pc_packet_digest context,
        up_fence = pc_fence context, up_sequence = ev_sequence event, up_author_role = pc_role context,
        up_provider_call_id = str_of id, up_price_table_digest = str_of digest, up_input_tokens = numbers ! 0,
        up_output_tokens = numbers ! 1, up_reasoning_tokens = numbers ! 2, up_cost_usd_micros = numbers ! 3,
        up_output_bytes = numbers ! 4, up_idempotency_key = key\<rparr>))))))))))"

definition pricing_as_broker_error :: "'a res \<Rightarrow> 'a res" where
  "pricing_as_broker_error m =
     catch m (\<lambda>e. case e of PricingContractError c d \<Rightarrow> Inl (broker_error c) | _ \<Rightarrow> Inl e)"

definition usage_v2_of :: "(string \<Rightarrow> bool) \<Rightarrow> canonical_event \<Rightarrow> proposal_context \<Rightarrow> proposal res" where
  "usage_v2_of word event context =
     bnd (payload_fields event V2_USAGE_FIELDS ''missing_usage'') (\<lambda>_.
     bnd (getitem (ev_payload event) ''provider_call_id'') (\<lambda>id.
     bnd (ensure (is_str id \<and> id \<noteq> PStr []) (broker_error ''missing_usage'')) (\<lambda>_.
     bnd (secret_free word (str_of id) 128) (\<lambda>_.
     bnd (field (ev_payload event) ''output_bytes'' (\<lambda>v. case v of
            PInt n \<Rightarrow> (if 0 \<le> n then Inr n else Inl (broker_error ''invalid_usage''))
          | _ \<Rightarrow> Inl (broker_error ''invalid_usage''))) (\<lambda>output_bytes.
     bnd (pricing_as_broker_error
           (bnd (field (ev_payload event) ''price_table'' price_table_from_dict) (\<lambda>table.
            bnd (usage_tokens_of (ev_payload event)) (\<lambda>usage.
            bnd (getitem (ev_payload event) ''price_table_digest'') (\<lambda>digest.
            bnd (calculate_cost_usd_micros usage table digest) (\<lambda>cost. Inr (table, usage, str_of digest, cost))))))) (\<lambda>(table, usage, digest, cost).
     bnd (ensure (\<not> (pc_max_token_units context < total_tokens usage \<or> pc_max_cost_usd_micros context < cost \<or>
                     pc_max_output_bytes context < output_bytes)) (broker_error ''budget_exceeded'')) (\<lambda>_.
     bnd (event_key event context (dict_put ''cost_usd_micros'' (PInt cost) (dict_put ''author_role'' (PStr (pc_role context))
           (dict_put ''price_table'' (price_table_to_dict table) (payload_items (ev_payload event)))))) (\<lambda>key.
     bounded_proposal (Usage_v2
       \<lparr>uq_task_id = pc_task_id context, uq_run_id = pc_run_id context, uq_packet_digest = pc_packet_digest context,
        uq_fence = pc_fence context, uq_sequence = ev_sequence event, uq_author_role = pc_role context,
        uq_provider_call_id = str_of id, uq_price_table = table, uq_price_table_digest = digest,
        uq_input_tokens = ut_input_tokens usage, uq_output_tokens = ut_output_tokens usage,
        uq_reasoning_tokens = ut_reasoning_tokens usage, uq_cached_input_tokens = ut_cached_input_tokens usage,
        uq_cache_write_tokens = ut_cache_write_tokens usage, uq_cost_usd_micros = cost,
        uq_output_bytes = output_bytes, uq_idempotency_key = key\<rparr>)))))))))"

definition usage_of :: "(string \<Rightarrow> bool) \<Rightarrow> canonical_event \<Rightarrow> proposal_context \<Rightarrow> proposal res" where
  "usage_of word event context =
     (if ev_protocol_version event = PROTOCOL_VERSION then usage_v1_of word event context
      else if ev_protocol_version event = PROTOCOL_VERSION_V2 then usage_v2_of word event context
      else Inl (broker_error ''unsupported_version''))"

text \<open>A field of a terminal payload that must be a text, and one that must not be empty either.\<close>

definition terminal_field :: "canonical_event \<Rightarrow> string \<Rightarrow> bool \<Rightarrow> string res" where
  "terminal_field event name may_be_empty =
     field (ev_payload event) name (\<lambda>v. case v of
       PStr s \<Rightarrow> (if may_be_empty \<or> s \<noteq> [] then Inr s else Inl (broker_error ''terminal_fields''))
     | _ \<Rightarrow> Inl (broker_error ''terminal_fields''))"

text \<open>Summary, failure class, reason and diagnostic of a terminal event, redacted.\<close>

definition terminal_texts ::
  "(string \<Rightarrow> string) \<Rightarrow> (string \<Rightarrow> bool) \<Rightarrow> canonical_event \<Rightarrow> proposal_context \<Rightarrow>
   (string \<times> string option \<times> string option \<times> string option) res" where
  "terminal_texts nfc word event context =
     (let limit = pc_max_note_bytes context; small = min 4096 limit in
      if ev_event_type event = ''run.completed'' then
        bnd (payload_fields event [''summary''] ''terminal_fields'') (\<lambda>_.
        bnd (terminal_field event ''summary'' False) (\<lambda>summary.
        bnd (too_large_as ''terminal_too_large'' (redact word summary limit)) (\<lambda>summary'.
        Inr (summary', None, None, None))))
      else if ev_event_type event = ''run.failed'' then
        bnd (payload_fields event [''failure_class'', ''diagnostic''] ''terminal_fields'') (\<lambda>_.
        bnd (terminal_field event ''failure_class'' True) (\<lambda>failure_class.
        bnd (terminal_field event ''diagnostic'' False) (\<lambda>diagnostic.
        bnd (ensure (failure_class \<in> set failure_values) (broker_error ''failure_class'')) (\<lambda>_.
        too_large_as ''terminal_too_large''
          (bnd (result_text nfc word diagnostic small) (\<lambda>diagnostic'.
           bnd (redact word (failure_class @ '': '' @ diagnostic') limit) (\<lambda>summary.
           Inr (summary, Some failure_class, None, Some diagnostic'))))))))
      else
        bnd (payload_fields event [''reason'', ''diagnostic''] ''terminal_fields'') (\<lambda>_.
        bnd (terminal_field event ''reason'' False) (\<lambda>reason.
        bnd (terminal_field event ''diagnostic'' False) (\<lambda>diagnostic.
        too_large_as ''terminal_too_large''
          (bnd (result_text nfc word reason small) (\<lambda>reason'.
           bnd (redact word diagnostic limit) (\<lambda>diagnostic'.
           bnd (redact word (reason' @ '': '' @ diagnostic') limit) (\<lambda>summary.
           Inr (summary, None, Some reason', Some diagnostic')))))))))"

text \<open>The broker marks the run as ended before the last check of the proposal.\<close>

definition terminal_of ::
  "(string \<Rightarrow> string) \<Rightarrow> (string \<Rightarrow> bool) \<Rightarrow> identity set \<Rightarrow> canonical_event \<Rightarrow> proposal_context \<Rightarrow> identity set \<times> proposal res" where
  "terminal_of nfc word ended event context =
     (if context_identity context \<in> ended then (ended, Inl (broker_error ''duplicate_terminal''))
      else
        case bnd (terminal_texts nfc word event context) (\<lambda>(summary, failure_class, reason, diagnostic).
             bnd (event_key event context
               [(''terminal_type'', PStr (ev_event_type event)), (''author_role'', PStr (pc_role context)),
                (''summary'', PStr summary), (''failure_class'', opt_str failure_class),
                (''reason'', opt_str reason), (''diagnostic'', opt_str diagnostic)]) (\<lambda>key.
             Inr (Terminal
               \<lparr>tm_task_id = pc_task_id context, tm_run_id = pc_run_id context,
                tm_packet_digest = pc_packet_digest context, tm_fence = pc_fence context,
                tm_sequence = ev_sequence event, tm_author_role = pc_role context,
                tm_terminal_type = ev_event_type event, tm_summary = summary, tm_failure_class = failure_class,
                tm_reason = reason, tm_diagnostic = diagnostic, tm_idempotency_key = key\<rparr>)))
        of Inl e \<Rightarrow> (ended, Inl e)
         | Inr p \<Rightarrow> (insert (context_identity context) ended, bounded_proposal p))"

section \<open>The broker\<close>

definition accept_checks :: "canonical_event \<Rightarrow> proposal_context \<Rightarrow> string \<Rightarrow> int \<Rightarrow> unit res" where
  "accept_checks event context owner fence =
     bnd (ensure (event_identity event = context_identity context) (broker_error ''identity_mismatch'')) (\<lambda>_.
     bnd (ensure (owner = pc_owner context) (broker_error ''owner_mismatch'')) (\<lambda>_.
     bnd (ensure (fence = pc_fence context) (broker_error ''stale_fence'')) (\<lambda>_.
     case assoc CAPABILITY (ev_event_type event) of
       None \<Rightarrow> Inr ()
     | Some c \<Rightarrow> ensure (c \<in> set (pc_declared_capabilities context)) (BrokerError ''undeclared_capability'' c))))"

definition accept ::
  "(string \<Rightarrow> string) \<Rightarrow> (string \<Rightarrow> bool) \<Rightarrow> identity set \<Rightarrow> canonical_event \<Rightarrow> proposal_context \<Rightarrow> string \<Rightarrow> int \<Rightarrow>
   pyval \<Rightarrow> identity set \<times> proposal res" where
  "accept nfc word ended event context owner fence attestation =
     (case accept_checks event context owner fence of
        Inl e \<Rightarrow> (ended, Inl e)
      | Inr _ \<Rightarrow>
          let t = ev_event_type event; unexpected = Inl (broker_error ''unexpected_artifact_attestation'') in
          if t = ''note.proposed'' then (ended, if attestation \<noteq> PNone then unexpected else note_of word event context)
          else if t = ''artifact.proposed'' then (ended, artifact_of word event context attestation)
          else if attestation \<noteq> PNone then (ended, unexpected)
          else if t = ''usage.reported'' then (ended, usage_of word event context)
          else if t \<in> set TERMINAL_EVENTS then terminal_of nfc word ended event context
          else (ended, Inl (BrokerError ''unsupported_proposal'' t)))"

end
