(* ===== verification/EventPayload.thy ===== *)
theory EventPayload
  imports Protocol
begin

text \<open>
  What the checks of \<open>protocol.py\<close> accept: the bounded walk as a condition on the whole value, and the checks of
  a payload, which do not depend on the order of its keys and leave no room for a float.
\<close>

section \<open>The walk\<close>

fun nodes :: "pyval \<Rightarrow> int" where
  "nodes (PList xs) = 1 + sum_list (map nodes xs)"
| "nodes (PDict kvs) = 1 + sum_list (map (\<lambda>(k, v). nodes k + nodes v) kvs)"
| "nodes v = 1"

fun height :: "pyval \<Rightarrow> nat" where
  "height (PList xs) = foldr max (map (\<lambda>x. Suc (height x)) xs) 0"
| "height (PDict kvs) = foldr max (map (\<lambda>(k, v). Suc (max (height k) (height v))) kvs) 0"
| "height v = 0"

text \<open>No forbidden key, no text that is too long or not encodable, no infinite float.\<close>

fun admissible :: "protocol_limits \<Rightarrow> pyval \<Rightarrow> bool" where
  "admissible l (PList xs) = list_all (admissible l) xs"
| "admissible l (PDict kvs) =
     list_all (\<lambda>(k, v). key_allowed k = Inr () \<and> admissible l k \<and> admissible l v) kvs"
| "admissible l v = (walk_leaf l v = Inr ())"

lemma foldr_max_le: "foldr max ns (0::nat) \<le> m \<longleftrightarrow> (\<forall>n\<in>set ns. n \<le> m)"
  by (induction ns) auto

lemma nodes_pos: "1 \<le> nodes v"
proof (induction v)
  case (PList xs)
  have "0 \<le> sum_list (map nodes xs)" by (intro sum_list_nonneg) (use PList in force)
  then show ?case by simp
next
  case (PDict kvs)
  have "0 \<le> nodes k + nodes v" if "(k, v) \<in> set kvs" for k v
    using PDict [of "(k, v)" k] PDict [of "(k, v)" v] that by simp
  then have "0 \<le> sum_list (map (\<lambda>(k, v). nodes k + nodes v) kvs)" by (intro sum_list_nonneg) auto
  then show ?case by simp
qed simp_all

lemma walk_leaf_iff:
  assumes "\<not> (\<exists>xs. v = PList xs)" "\<not> (\<exists>kvs. v = PDict kvs)"
  shows "nodes v = 1" "height v = 0" "admissible l v \<longleftrightarrow> walk_leaf l v = Inr ()"
    "walk l d v n = (if pl_max_nodes l < n + 1 then Inl (protocol_error ''structure_too_large'')
       else if pl_max_depth l < d then Inl (protocol_error ''structure_too_deep'')
       else bnd (walk_leaf l v) (\<lambda>_. Inr (n + 1)))"
  using assms by (cases v; simp add: walk.simps)+

lemma bnd_unit_Inr: "bnd m (\<lambda>_. Inr c) = Inr x \<longleftrightarrow> m = Inr () \<and> x = c" for m :: "unit res"
  by (cases m) auto

lemma depth_le: "d + int (foldr max ns 0) \<le> D \<longleftrightarrow> d \<le> D \<and> (\<forall>n\<in>set ns. d + int n \<le> D)"
  by (induction ns) auto

lemma nodes_sum: "0 \<le> sum_list (map nodes xs)" "0 \<le> sum_list (map (\<lambda>(k, v). nodes k + nodes v) kvs)"
proof -
  have n: "0 \<le> nodes v" for v using nodes_pos [of v] by simp
  show "0 \<le> sum_list (map nodes xs)" "0 \<le> sum_list (map (\<lambda>(k, v). nodes k + nodes v) kvs)"
    by (intro sum_list_nonneg; use n in force)+
qed

lemma walk_container:
  "walk l d (PList xs) n = (if pl_max_nodes l < n + 1 then Inl (protocol_error ''structure_too_large'')
     else if pl_max_depth l < d then Inl (protocol_error ''structure_too_deep'') else walk_all l (d + 1) xs (n + 1))"
  "walk l d (PDict kvs) n = (if pl_max_nodes l < n + 1 then Inl (protocol_error ''structure_too_large'')
     else if pl_max_depth l < d then Inl (protocol_error ''structure_too_deep'') else walk_items l (d + 1) kvs (n + 1))"
  by (simp_all add: walk.simps)

lemma walk_Inr:
  "walk l d v n = Inr m \<longleftrightarrow>
     m = n + nodes v \<and> m \<le> pl_max_nodes l \<and> d + int (height v) \<le> pl_max_depth l \<and> admissible l v"
  "n \<le> pl_max_nodes l \<Longrightarrow> walk_items l d kvs n = Inr m \<longleftrightarrow>
     m = n + sum_list (map (\<lambda>(k, v). nodes k + nodes v) kvs) \<and> m \<le> pl_max_nodes l \<and>
     (\<forall>(k, v)\<in>set kvs. d + int (max (height k) (height v)) \<le> pl_max_depth l) \<and>
     list_all (\<lambda>(k, v). key_allowed k = Inr () \<and> admissible l k \<and> admissible l v) kvs"
  "n \<le> pl_max_nodes l \<Longrightarrow> walk_all l d xs n = Inr m \<longleftrightarrow>
     m = n + sum_list (map nodes xs) \<and> m \<le> pl_max_nodes l \<and>
     (\<forall>x\<in>set xs. d + int (height x) \<le> pl_max_depth l) \<and> list_all (admissible l) xs"
proof (induction l d v n and l d kvs n and l d xs n arbitrary: m and m and m
    rule: walk_walk_items_walk_all.induct)
  case (1 l d v n)
  consider xs where "v = PList xs" | kvs where "v = PDict kvs"
    | "\<not> (\<exists>xs. v = PList xs)" "\<not> (\<exists>kvs. v = PDict kvs)" by blast
  then show ?case
  proof cases
    case v: 1
    have "d + int (height v) \<le> pl_max_depth l \<longleftrightarrow>
        d \<le> pl_max_depth l \<and> (\<forall>x\<in>set xs. d + 1 + int (height x) \<le> pl_max_depth l)"
      unfolding v height.simps depth_le by (simp add: add.assoc)
    then show ?thesis
      using "1.IH"(1) [OF _ _ v] nodes_sum(1) [of xs] by (auto simp: walk_container v simp del: height.simps)
  next
    case v: 2
    have "d + int (height v) \<le> pl_max_depth l \<longleftrightarrow>
        d \<le> pl_max_depth l \<and> (\<forall>(k, w)\<in>set kvs. d + 1 + int (max (height k) (height w)) \<le> pl_max_depth l)"
      unfolding v height.simps depth_le by (auto simp: add.assoc)
    then show ?thesis
      using "1.IH"(2) [OF _ _ v] nodes_sum(2) [of kvs] by (auto simp: walk_container v simp del: height.simps)
  next
    case 3
    then show ?thesis by (auto simp: walk_leaf_iff bnd_unit_Inr)
  qed
next
  case (3 l d k v kvs n)
  let ?R = "m = n + sum_list (map (\<lambda>(k, v). nodes k + nodes v) ((k, v) # kvs)) \<and> m \<le> pl_max_nodes l \<and>
     (\<forall>(k, v)\<in>set ((k, v) # kvs). d + int (max (height k) (height v)) \<le> pl_max_depth l) \<and>
     list_all (\<lambda>(k, v). key_allowed k = Inr () \<and> admissible l k \<and> admissible l v) ((k, v) # kvs)"
  note sums = nodes_sum(2) [of kvs] nodes_pos [of k] nodes_pos [of v]
  show ?case
  proof
    assume "walk_items l d ((k, v) # kvs) n = Inr m"
    then obtain c c' where k: "key_allowed k = Inr ()" and c: "walk l d k n = Inr c" "walk l d v c = Inr c'"
      and r: "walk_items l d kvs c' = Inr m" by (auto simp: res_simps)
    have a: "c = n + nodes k" "d + int (height k) \<le> pl_max_depth l" "admissible l k"
      using "3.IH"(1) [OF k, of c] c(1) by simp_all
    have b: "c' = c + nodes v" "c' \<le> pl_max_nodes l" "d + int (height v) \<le> pl_max_depth l" "admissible l v"
      using "3.IH"(2) [OF k c(1), of c'] c(2) by simp_all
    show ?R using "3.IH"(3) [OF k c b(2), of m] r a b k by auto
  next
    assume R: ?R
    then have k: "key_allowed k = Inr ()" by simp
    have c: "walk l d k n = Inr (n + nodes k)" using "3.IH"(1) [OF k] R sums by auto
    have v: "walk l d v (n + nodes k) = Inr (n + nodes k + nodes v)" using "3.IH"(2) [OF k c] R sums by auto
    have "walk_items l d kvs (n + nodes k + nodes v) = Inr m" using "3.IH"(3) [OF k c v] R sums by auto
    with k c v show "walk_items l d ((k, v) # kvs) n = Inr m" by simp
  qed
next
  case (5 l d x xs n)
  show ?case
  proof (cases "n + nodes x \<le> pl_max_nodes l")
    case True
    then show ?thesis
      using "5.IH"(1) "5.IH"(2) nodes_sum(1) [of xs] by (auto simp: res_simps add.assoc)
  next
    case False
    then show ?thesis using "5.IH"(1) nodes_sum(1) [of xs] by (auto simp: res_simps)
  qed
qed auto

section \<open>The order of the keys\<close>

lemma sum_list_sort_key: "sum_list (map f (sort_key k xs)) = sum_list (map f xs)" for f :: "'a \<Rightarrow> int"
  by (metis mset_map mset_sort sum_mset_sum_list)

lemma foldr_max_set: "set xs = set ys \<Longrightarrow> foldr max xs (0::nat) = foldr max ys 0"
proof (rule antisym)
  assume "set xs = set ys"
  then show "foldr max xs (0::nat) \<le> foldr max ys 0" "foldr max ys (0::nat) \<le> foldr max xs 0"
    using foldr_max_le [of ys "foldr max ys 0"] foldr_max_le [of xs "foldr max xs 0"] by (auto simp: foldr_max_le)
qed

lemma canonical_walk:
  assumes "admissible l v"
  shows "nodes (canonical v) = nodes v \<and> height (canonical v) = height v \<and> admissible l (canonical v)"
  using assms
proof (induction v)
  case (PList xs)
  then show ?case by (simp add: list_all_iff cong: map_cong)
next
  case (PDict kvs)
  let ?c = "\<lambda>(k, v). (k, canonical v)" and ?key = "\<lambda>kv :: pyval \<times> pyval. str_of (fst kv)"
  have item: "nodes (canonical v) = nodes v" "height (canonical v) = height v" "admissible l (canonical v)"
    if "(k, v) \<in> set kvs" for k v
    using PDict.IH [of "(k, v)" v] PDict.prems that by (auto simp: list_all_iff)
  have "sum_list (map ((\<lambda>(k, v). nodes k + nodes v) \<circ> ?c) kvs) = sum_list (map (\<lambda>(k, v). nodes k + nodes v) kvs)"
    by (intro arg_cong [of _ _ sum_list] map_cong) (use item in auto)
  moreover have "(\<lambda>(k, v). Suc (max (height k) (height v))) ` ?c ` set kvs =
      (\<lambda>(k, v). Suc (max (height k) (height v))) ` set kvs"
    unfolding image_image by (intro image_cong refl) (use item in auto)
  then have "foldr max (map (\<lambda>(k, v). Suc (max (height k) (height v))) (sort_key ?key (map ?c kvs))) 0 =
      foldr max (map (\<lambda>(k, v). Suc (max (height k) (height v))) kvs) 0"
    by (intro foldr_max_set) simp
  moreover have "admissible l (canonical (PDict kvs))"
    using PDict.prems item by (auto simp: list_all_iff)
  ultimately show ?case by (simp add: sum_list_sort_key)
qed simp_all

lemma walk_canonical: "walk l d v n = Inr m \<Longrightarrow> walk l d (canonical v) n = Inr m"
  using canonical_walk [of l v] by (simp add: walk_Inr)

lemma freeze_canonical: "admissible l v \<Longrightarrow> freeze v = canonical v"
proof (induction v)
  case (PDict kvs)
  have "freeze v = canonical v" if "(k, v) \<in> set kvs" for k v
    using PDict.IH [of "(k, v)" v] PDict.prems that by (auto simp: list_all_iff)
  then have "map (\<lambda>(k, v). (k, freeze v)) kvs = map (\<lambda>(k, v). (k, canonical v)) kvs" by auto
  then show ?case by (simp only: freeze.simps canonical.simps)
qed (auto simp: list_all_iff)

lemma admissible_encodable: "admissible l v \<Longrightarrow> encodable v"
proof (induction v)
  case (PDict kvs)
  have "encodable k \<and> encodable v" if "(k, v) \<in> set kvs" for k v
    using PDict.IH [of "(k, v)" v] PDict.IH [of "(k, v)" k] PDict.prems that by (auto simp: list_all_iff)
  then show ?case by (auto simp: list_all_iff)
qed (auto simp: list_all_iff bnd_unit_Inr res_simps)

section \<open>Fields\<close>

lemma assoc_iff: "distinct (map fst kvs) \<Longrightarrow> assoc kvs k = Some v \<longleftrightarrow> (k, v) \<in> set kvs"
  by (induction kvs) (force simp: assoc.simps split: if_splits)+

lemma assoc_None: "assoc kvs k = None \<longleftrightarrow> k \<notin> fst ` set kvs"
  by (induction kvs) (auto simp: assoc.simps split: if_splits)

lemma getitem_py_dict_Inr: "getitem (py_dict kvs) k = Inr v \<longleftrightarrow> assoc kvs k = Some v"
  by (auto simp: getitem_py_dict split: option.splits)

lemma dict_names_py_dict [simp]: "dict_names (py_dict kvs) = map fst kvs"
  by (auto simp: py_dict_def)

lemma dict_names_canonical: "set (dict_names (canonical (py_dict kvs))) = fst ` set kvs"
  by (force simp: canonical_py_dict)

lemma dict_values_canonical: "set (dict_values (canonical (py_dict kvs))) = canonical ` snd ` set kvs"
  by (force simp: canonical_py_dict)

lemma dict_values_py_dict: "set (dict_values (py_dict kvs)) = snd ` set kvs"
  by (force simp: py_dict_def)

text \<open>Texts, integers and lists of texts: their canonical form is themselves.\<close>

definition simple :: "pyval \<Rightarrow> bool" where
  "simple v = (is_str v \<or> is_int v \<or> str_list v \<noteq> None)"

lemma simple_canonical: "simple v \<Longrightarrow> canonical v = v \<and> float_free v"
proof (cases v)
  case (PList xs)
  then show "simple v \<Longrightarrow> ?thesis"
    by (auto simp: simple_def list_all_iff is_str_iff intro!: map_idI split: if_splits)
qed (auto simp: simple_def)

lemma getitem_canonical_fixed:
  assumes "\<forall>(k, v)\<in>set kvs. canonical v = v" "distinct (map fst kvs)"
  shows "getitem (canonical (py_dict kvs)) = getitem (py_dict kvs)"
proof
  fix k
  show "getitem (canonical (py_dict kvs)) k = getitem (py_dict kvs) k"
    using assms(1) assoc_iff [OF assms(2), of k]
    by (cases "assoc kvs k") (auto simp: getitem_canonical getitem_py_dict)
qed

lemma all_typed_True: "all_typed P d names = Inr True \<longleftrightarrow> (\<forall>n\<in>set names. \<exists>v. getitem d n = Inr v \<and> P v)"
  unfolding all_typed_def by (induction names) (auto simp: res_simps)

lemma all_typed_cong: "getitem d = getitem e \<Longrightarrow> all_typed P d names = all_typed P e names"
  by (simp add: all_typed_def)

section \<open>Valid payloads\<close>

lemma ensure_then: "bnd (ensure b e) (\<lambda>_. m) = Inr y \<longleftrightarrow> b \<and> m = Inr y"
  by (simp add: ensure_def)

lemma bool_then: "bnd m (\<lambda>ok. bnd (ensure ok e) (\<lambda>_. k)) = Inr y \<longleftrightarrow> m = Inr True \<and> k = Inr y"
  by (cases m) (auto simp: ensure_def)

lemma event_type_fields:
  "t \<in> set EVENTS \<Longrightarrow> \<exists>fs. allowed_fields t v = Some fs"
proof -
  assume "t \<in> set EVENTS"
  then have "t \<in> fst ` set PAYLOAD_FIELDS" unfolding EVENTS_def TERMINAL_EVENTS_def PAYLOAD_FIELDS_def by force
  then have "assoc PAYLOAD_FIELDS t \<noteq> None" unfolding assoc_None by blast
  then show ?thesis by (auto simp: allowed_fields_def)
qed

lemma validate_known:
  assumes "t \<in> set EVENTS" "v \<in> set protocol_versions" "allowed_fields t v = Some fs"
  shows "validate_event_payload (PStr t) payload l (PStr v) = Inr () \<longleftrightarrow>
     (\<exists>m. walk l 1 payload 0 = Inr m) \<and> is_mapping payload \<and>
     (if t = ''adapter.ready'' then set (dict_names payload) \<subseteq> set fs \<and> validate_ready payload fs = Inr ()
      else set (dict_names payload) = set fs \<and> validate_fields t v payload = Inr ())"
  unfolding validate_event_payload_def in_str_set_PStr Let_def str_of.simps assms(3) option.case
  using assms(1,2) by (cases "walk l 1 payload 0") (auto simp: ensure_then)

lemma validate_Inr:
  "validate_event_payload event_type payload l version = Inr () \<longleftrightarrow>
     (\<exists>t v fs. event_type = PStr t \<and> version = PStr v \<and> t \<in> set EVENTS \<and> v \<in> set protocol_versions \<and>
        allowed_fields t v = Some fs \<and> (\<exists>m. walk l 1 payload 0 = Inr m) \<and> is_mapping payload \<and>
        (if t = ''adapter.ready'' then set (dict_names payload) \<subseteq> set fs \<and> validate_ready payload fs = Inr ()
         else set (dict_names payload) = set fs \<and> validate_fields t v payload = Inr ()))"
    (is "_ \<longleftrightarrow> ?R")
proof
  assume a: "validate_event_payload event_type payload l version = Inr ()"
  have "in_str_set version protocol_versions = Inr True" "event_type \<in> PStr ` set EVENTS"
    using a by (simp_all add: validate_event_payload_def bool_then ensure_then)
  then obtain v t where v: "version = PStr v" "v \<in> set protocol_versions" and t: "event_type = PStr t" "t \<in> set EVENTS"
    by (auto simp: in_str_set_True)
  obtain fs where "allowed_fields t v = Some fs" using event_type_fields t(2) by blast
  note fs = this and known = validate_known [OF t(2) v(2) this, of payload l]
  show ?R
    by (rule exI [of _ t], rule exI [of _ v], rule exI [of _ fs]) (use a [unfolded v t known] v t fs in simp)
next
  assume ?R
  then obtain t v fs where e: "event_type = PStr t" "version = PStr v"
    and k: "t \<in> set EVENTS" "v \<in> set protocol_versions" "allowed_fields t v = Some fs"
    and r: "(\<exists>m. walk l 1 payload 0 = Inr m) \<and> is_mapping payload \<and>
     (if t = ''adapter.ready'' then set (dict_names payload) \<subseteq> set fs \<and> validate_ready payload fs = Inr ()
      else set (dict_names payload) = set fs \<and> validate_fields t v payload = Inr ())" by metis
  show "validate_event_payload event_type payload l version = Inr ()"
    unfolding e validate_known [OF k] by (rule r)
qed

lemma str_list_Some: "str_list v = Some cs \<longleftrightarrow> v = PList (map PStr cs)"
proof (cases v)
  case (PList xs)
  have "list_all is_str xs \<Longrightarrow> xs = map PStr (map str_of xs)" by (induction xs) (auto simp: is_str_iff)
  then show ?thesis by (auto simp: PList list_all_iff comp_def)
qed auto

lemma str_list_map: "str_list (PList (map PStr cs)) = Some cs"
  using str_list_Some [of "PList (map PStr cs)" cs] by blast

lemma str_list_case:
  "(case str_list c of None \<Rightarrow> Inl e | Some cs \<Rightarrow> ensure (usort cs = cs) e) = Inr () \<longleftrightarrow>
     (\<exists>cs. c = PList (map PStr cs) \<and> usort cs = cs)"
proof (cases "str_list c")
  case None
  then have "c \<noteq> PList (map PStr cs)" for cs using str_list_Some [of c cs] by simp
  with None show ?thesis by simp
next
  case (Some cs)
  then have c: "c = PList (map PStr cs)" using str_list_Some by blast
  have "(c = PList (map PStr ds)) = (ds = cs)" for ds using c by auto
  then show ?thesis unfolding Some option.case ensure_Inr_iff by simp
qed

section \<open>What a valid payload holds\<close>

lemma ready_Inr:
  "validate_ready payload fs = Inr () \<longleftrightarrow>
     \<not> set (dict_names payload) \<subset> set [''provider_id'', ''capabilities''] \<and>
     all_typed is_str payload (filter (\<lambda>n. n \<in> set (dict_names payload) \<and> n \<noteq> ''capabilities'') fs) = Inr True \<and>
     (\<exists>cs. getitem payload ''capabilities'' = Inr (PList (map PStr cs)) \<and> usort cs = cs)"
  unfolding validate_ready_def Let_def ensure_then bool_then
  by (cases "getitem payload ''capabilities''")
    (simp_all only: bnd.simps str_list_case HOL.simp_thms sum.distinct sum.inject)

text \<open>The fields an event type requires are simple; \<open>price_table\<close> apart.\<close>

lemma ready_simple:
  assumes r: "validate_ready (py_dict kvs) fs = Inr ()" and f: "fst ` set kvs \<subseteq> set fs" and d: "distinct (map fst kvs)"
  shows "\<forall>(k, v)\<in>set kvs. simple v"
proof -
  obtain cs where cs: "assoc kvs ''capabilities'' = Some (PList (map PStr cs))"
    and t: "all_typed is_str (py_dict kvs) (filter (\<lambda>n. n \<in> fst ` set kvs \<and> n \<noteq> ''capabilities'') fs) = Inr True"
    using r by (auto simp only: ready_Inr getitem_py_dict_Inr dict_names_py_dict set_map)
  have "simple v" if kv: "(k, v) \<in> set kvs" for k v
  proof -
    have v: "assoc kvs k = Some v" using kv assoc_iff [OF d] by simp
    show ?thesis
    proof (cases "k = ''capabilities''")
      case True
      with v cs have "v = PList (map PStr cs)" by simp
      then show ?thesis using str_list_map [of cs] unfolding simple_def by blast
    next
      case False
      have "k \<in> set fs" "k \<in> fst ` set kvs" using f kv by force+
      with False have "k \<in> set (filter (\<lambda>n. n \<in> fst ` set kvs \<and> n \<noteq> ''capabilities'') fs)" by simp
      with t obtain w where "getitem (py_dict kvs) k = Inr w" "is_str w" unfolding all_typed_True by blast
      with v show ?thesis by (simp add: getitem_py_dict_Inr simple_def)
    qed
  qed
  then show ?thesis by auto
qed

text \<open>A payload whose every field is simple: its canonical form has the same items in another order.\<close>

lemma ready_order:
  assumes g: "getitem q = getitem p" and n: "set (dict_names q) = set (dict_names p)"
  shows "validate_ready q fs = Inr () \<longleftrightarrow> validate_ready p fs = Inr ()"
  unfolding ready_Inr n all_typed_def g ..

lemma fields_order:
  assumes g: "getitem q = getitem p" and v: "set (dict_values q) = set (dict_values p)"
  shows "validate_fields t ver q = validate_fields t ver p"
proof -
  have "list_all is_str (dict_values q) = list_all is_str (dict_values p)" using v by (simp add: list_all_iff)
  then show ?thesis
    unfolding validate_fields_def validate_note_def validate_artifact_def validate_usage_v1_def validate_usage_v2_def
      usage_tokens_of_def field_def all_typed_def g by simp
qed

lemma all_simple:
  assumes "\<And>k. k \<in> set fs \<Longrightarrow> \<exists>v. getitem (py_dict kvs) k = Inr v \<and> simple v"
    and "fst ` set kvs \<subseteq> set fs" "distinct (map fst kvs)"
  shows "\<forall>(k, v)\<in>set kvs. simple v"
proof -
  have "simple v" if kv: "(k, v) \<in> set kvs" for k v
  proof -
    have "k \<in> set fs" using assms(2) kv by force
    then obtain w where "assoc kvs k = Some w" "simple w" using assms(1) by (auto simp: getitem_py_dict_Inr)
    with kv assoc_iff [OF assms(3), of k v] show ?thesis by simp
  qed
  then show ?thesis by auto
qed

lemma simple_if: "is_str v \<Longrightarrow> simple v" "is_int v \<Longrightarrow> simple v" "str_list v = Some cs \<Longrightarrow> simple v"
  by (simp_all add: simple_def)

lemma note_simple:
  "validate_note p = Inr () \<Longrightarrow> k \<in> set [''note_type'', ''body'', ''evidence''] \<Longrightarrow> \<exists>v. getitem p k = Inr v \<and> simple v"
  unfolding validate_note_def
  by (auto simp only: bnd_Inr_iff ensure_Inr_iff list.set insert_iff empty_iff) 
    (auto simp: simple_def validate_note_type_def split: pyval.splits if_splits)

lemma all_typed_InrE: "all_typed P d names = Inr b \<Longrightarrow> b \<Longrightarrow> n \<in> set names \<Longrightarrow> \<exists>v. getitem d n = Inr v \<and> P v"
  using all_typed_True [of P d names] by simp

lemma artifact_simple:
  assumes "validate_artifact p = Inr ()" and k: "k \<in> set [''artifact_class'', ''path'', ''sha256'', ''size_bytes'', ''media_type'']"
  shows "\<exists>v. getitem p k = Inr v \<and> simple v"
proof -
  obtain size where s: "all_typed is_str p [''artifact_class'', ''path'', ''sha256'', ''media_type''] = Inr True"
    "getitem p ''size_bytes'' = Inr size" "is_int size"
    using assms(1) unfolding validate_artifact_def by (auto simp only: bnd_Inr_iff ensure_Inr_iff)
  show ?thesis
  proof (cases "k = ''size_bytes''")
    case True
    with s simple_if(2) show ?thesis by blast
  next
    case False
    with k have "k \<in> set [''artifact_class'', ''path'', ''sha256'', ''media_type'']" by auto
    with s(1) simple_if(1) show ?thesis unfolding all_typed_True by blast
  qed
qed

lemma usage_v1_simple:
  assumes "validate_usage_v1 p = Inr ()" and k: "k \<in> set V1_USAGE_FIELDS"
  shows "\<exists>v. getitem p k = Inr v \<and> simple v"
proof -
  have s: "all_typed is_str p [''provider_call_id'', ''price_table_digest''] = Inr True"
    "all_typed is_int p [''input_tokens'', ''output_tokens'', ''reasoning_tokens'', ''cost_usd_micros'', ''output_bytes''] = Inr True"
    using assms(1) unfolding validate_usage_v1_def by (auto simp only: bnd_Inr_iff ensure_Inr_iff)
  have "k \<in> set [''provider_call_id'', ''price_table_digest''] \<or>
      k \<in> set [''input_tokens'', ''output_tokens'', ''reasoning_tokens'', ''cost_usd_micros'', ''output_bytes'']"
    using k by (auto simp: V1_USAGE_FIELDS_def)
  with s simple_if(1,2) show ?thesis unfolding all_typed_True by blast
qed

lemma as_payload_error_Inr: "as_payload_error m = Inr x \<longleftrightarrow> m = Inr x"
  by (cases m) (auto simp: as_payload_error_def)

lemma usage_v2_simple:
  assumes "validate_usage_v2 p = Inr ()"
  shows "k \<in> set V2_USAGE_FIELDS \<Longrightarrow> k \<noteq> ''price_table'' \<Longrightarrow> \<exists>v. getitem p k = Inr v \<and> simple v"
    and "\<exists>v table. getitem p ''price_table'' = Inr v \<and> price_table_from_dict v = Inr table"
proof -
  obtain u pt table i out where u: "usage_tokens_of p = Inr u"
    and pt: "getitem p ''price_table'' = Inr pt" "price_table_from_dict pt = Inr table"
    and dig: "getitem p ''price_table_digest'' = Inr (PStr (price_table_digest table))"
    and io: "getitem p ''provider_call_id'' = Inr i" "is_str i" "getitem p ''output_bytes'' = Inr out" "is_int out"
    using assms unfolding validate_usage_v2_def
    by (auto simp only: bnd_Inr_iff ensure_Inr_iff as_payload_error_Inr field_def calculate_cost_usd_micros_def)
  have d: "\<exists>v. getitem p ''price_table_digest'' = Inr v \<and> is_str v" using dig is_str.simps(1) by blast
  have i: "\<exists>v. getitem p ''provider_call_id'' = Inr v \<and> is_str v" "\<exists>v. getitem p ''output_bytes'' = Inr v \<and> is_int v"
    using io by blast+
  have t: "\<exists>v table. getitem p ''price_table'' = Inr v \<and> price_table_from_dict v = Inr table" using pt by blast
  from t show "\<exists>v table. getitem p ''price_table'' = Inr v \<and> price_table_from_dict v = Inr table" .
  have b: "nonnegative_bigint v name = Inr n \<Longrightarrow> is_int v" for v name n by (simp add: nonnegative_bigint_Inr)
  have n: "\<exists>v. getitem p f = Inr v \<and> is_int v"
    if "f \<in> set [''input_tokens'', ''output_tokens'', ''reasoning_tokens'', ''cached_input_tokens'', ''cache_write_tokens'']" for f
    using u that b unfolding usage_tokens_of_def bnd_Inr_iff list.set by blast
  assume k: "k \<in> set V2_USAGE_FIELDS" "k \<noteq> ''price_table''"
  then have "k \<in> set [''input_tokens'', ''output_tokens'', ''reasoning_tokens'', ''cached_input_tokens'', ''cache_write_tokens'']
      \<or> k = ''price_table_digest'' \<or> k = ''provider_call_id'' \<or> k = ''output_bytes''"
    by (auto simp: V2_USAGE_FIELDS_def)
  with n d i simple_if(1,2) show "\<exists>v. getitem p k = Inr v \<and> simple v" by blast
qed

section \<open>Order does not matter\<close>

lemma py_dict_of:
  assumes "read_ok n (PDict kvs)"
  obtains items where "PDict kvs = py_dict items" "distinct (map fst items)"
    "\<forall>(k, v)\<in>set items. str_ok k \<and> (\<exists>m. n = Suc m \<and> read_ok m v)"
proof -
  obtain m where n: "n = Suc m" using assms by (cases n) simp_all
  let ?items = "map (\<lambda>(k, v). (str_of k, v)) kvs"
  have k: "k = PStr (str_of k)" "str_ok (str_of k)" "read_ok m v" if "(k, v) \<in> set kvs" for k v
    using assms that by (auto simp: n list_all_iff is_str_iff)
  have "map (\<lambda>(k, v). (PStr k, v)) ?items = kvs"
    unfolding map_map by (intro map_idI) (use k in auto)
  then have p: "PDict kvs = py_dict ?items" by (simp add: py_dict_def)
  have "map fst kvs = map PStr (map fst ?items)" using k by force
  moreover have "distinct (map fst kvs)" using assms by (simp add: n)
  ultimately have "distinct (map fst ?items)" by (metis distinct_map)
  moreover have "\<forall>(k, v)\<in>set ?items. str_ok k \<and> (\<exists>m. n = Suc m \<and> read_ok m v)" using k n by auto
  ultimately show ?thesis using that p by blast
qed

lemma price_table_keys:
  assumes "price_table_from_dict p = Inr t" "set_items p = Inr ks"
  shows "filter (\<lambda>k. k \<notin> PStr ` set price_table_fields) ks = []" "filter (\<lambda>f. PStr f \<notin> set ks) price_table_fields = []"
  using assms by (auto simp: price_table_from_dict_def res_simps Let_def split: if_splits)

lemma price_table_order:
  assumes g: "getitem q = getitem p" and m: "is_mapping q"
    and s: "set_items q = Inr ks'" "set_items p = Inr ks" "set ks' = set ks"
    and t: "price_table_from_dict p = Inr t"
  shows "price_table_from_dict q = Inr t"
proof -
  note u = price_table_keys [OF t s(2)]
  have u': "filter (\<lambda>k. k \<notin> PStr ` set price_table_fields) ks' = []"
    using u(1) s(3) by (simp add: filter_empty_conv)
  show ?thesis
    using t m unfolding price_table_from_dict_def s bnd.simps Let_def u u' field_def g by (auto simp: res_simps)
qed

lemma price_table_ints:
  assumes t: "price_table_from_dict (py_dict kvs) = Inr t" and d: "distinct (map fst kvs)"
  shows "\<forall>(k, v)\<in>set kvs. simple v"
proof (rule all_simple [OF _ _ d])
  note u = price_table_keys [OF t set_items_py_dict]
  show "fst ` set kvs \<subseteq> set price_table_fields" using u(1) by (auto simp: filter_empty_conv)
  fix k assume k: "k \<in> set price_table_fields"
  have s: "schema_field v = Inr i \<Longrightarrow> is_int v" "nonnegative_bigint v name = Inr i \<Longrightarrow> is_int v" for v i name
    by (auto simp: schema_field_def nonnegative_bigint_Inr split: if_splits)
  let ?f = "\<lambda>k. \<exists>v. getitem (py_dict kvs) k = Inr v \<and> is_int v"
  have "?f ''schema_version'' \<and> ?f ''input_usd_micros_per_million'' \<and> ?f ''output_usd_micros_per_million'' \<and>
      ?f ''reasoning_usd_micros_per_million'' \<and> ?f ''cached_input_usd_micros_per_million'' \<and>
      ?f ''cache_write_usd_micros_per_million''"
    using t unfolding price_table_from_dict_def set_items_py_dict bnd.simps Let_def u field_def if_False bnd_Inr_iff
      HOL.simp_thms
    by (elim exE conjE) (intro conjI; use s in blast)
  then have "?f k" using k unfolding price_table_fields_def by auto
  then show "\<exists>v. getitem (py_dict kvs) k = Inr v \<and> simple v" using simple_if(2) by blast
qed

lemma event_type_cases:
  assumes "t \<in> set EVENTS"
  shows "t = ''adapter.ready'' \<or> t \<in> set [''run.started'', ''stage.reported''] \<or> t = ''note.proposed'' \<or>
    t = ''artifact.proposed'' \<or> t = ''usage.reported'' \<or> t \<in> set TERMINAL_EVENTS"
  using assms unfolding EVENTS_def set_append list.set by (elim UnE insertE emptyE) simp_all

lemma fields_simple:
  assumes t: "t \<in> set EVENTS" "t \<noteq> ''adapter.ready''" "\<not> (t = ''usage.reported'' \<and> v = PROTOCOL_VERSION_V2)"
    and f: "allowed_fields t v = Some fs" "fst ` set kvs = set fs" and d: "distinct (map fst kvs)"
    and ok: "validate_fields t v (py_dict kvs) = Inr ()"
  shows "\<forall>(k, w)\<in>set kvs. simple w"
proof -
  have strs: "list_all is_str (dict_values (py_dict kvs)) \<Longrightarrow> \<forall>(k, w)\<in>set kvs. simple w"
    using dict_values_py_dict [of kvs] by (force simp: list_all_iff simple_def)
  have sub: "fst ` set kvs \<subseteq> set fs" using f(2) by simp
  note parts = all_simple [OF _ sub d]
  consider "t \<in> set [''run.started'', ''stage.reported'']" | "t = ''note.proposed''" | "t = ''artifact.proposed''"
    | "t = ''usage.reported''" | "t \<in> set TERMINAL_EVENTS"
    using event_type_cases [OF t(1)] t(2) by (elim disjE) simp_all
  then show ?thesis
  proof cases
    case 1
    then show ?thesis using ok strs by (simp add: validate_fields_def ensure_Inr_iff)
  next
    case 2
    then have "fs = [''note_type'', ''body'', ''evidence'']" "validate_note (py_dict kvs) = Inr ()"
      using f(1) ok by (simp_all add: allowed_fields_def PAYLOAD_FIELDS_def assoc_Cons validate_fields_def)
    with note_simple show ?thesis by (intro parts) blast
  next
    case 3
    then have "fs = [''artifact_class'', ''path'', ''sha256'', ''size_bytes'', ''media_type'']"
      "validate_artifact (py_dict kvs) = Inr ()"
      using f(1) ok by (simp_all add: allowed_fields_def PAYLOAD_FIELDS_def assoc_Cons validate_fields_def)
    with artifact_simple show ?thesis by (intro parts) blast
  next
    case 4
    then have "fs = V1_USAGE_FIELDS" "validate_usage_v1 (py_dict kvs) = Inr ()"
      using f(1) ok t(3) by (simp_all add: allowed_fields_def PAYLOAD_FIELDS_def assoc_Cons validate_fields_def)
    with usage_v1_simple show ?thesis by (intro parts) blast
  next
    case 5
    then have "t \<notin> set [''run.started'', ''stage.reported'', ''note.proposed'', ''artifact.proposed'', ''usage.reported'']"
      by (auto simp: TERMINAL_EVENTS_def)
    with 5 ok strs show ?thesis by (simp add: validate_fields_def ensure_Inr_iff)
  qed
qed

lemma float_free_py_dict: "float_free (py_dict kvs) \<longleftrightarrow> (\<forall>(k, v)\<in>set kvs. float_free v)"
  by (auto simp: py_dict_def list_all_iff)

lemma dict_names_order: "set (dict_names (canonical (py_dict kvs))) = set (dict_names (py_dict kvs))"
  by (simp add: dict_names_canonical)

lemma is_mapping_canonical: "is_mapping (canonical (py_dict kvs))"
  by (simp add: canonical_py_dict)

lemma simple_payload:
  assumes s: "\<forall>(k, v)\<in>set kvs. simple v" and d: "distinct (map fst kvs)"
  shows "float_free (py_dict kvs)" "getitem (canonical (py_dict kvs)) = getitem (py_dict kvs)"
    "set (dict_values (canonical (py_dict kvs))) = set (dict_values (py_dict kvs))"
proof -
  have c: "\<forall>(k, v)\<in>set kvs. canonical v = v \<and> float_free v" using s simple_canonical by fast
  then show "float_free (py_dict kvs)" by (auto simp: float_free_py_dict)
  show "getitem (canonical (py_dict kvs)) = getitem (py_dict kvs)" by (rule getitem_canonical_fixed [OF _ d]) (use c in auto)
  have "canonical ` snd ` set kvs = snd ` set kvs" unfolding image_image by (intro image_cong refl) (use c in auto)
  then show "set (dict_values (canonical (py_dict kvs))) = set (dict_values (py_dict kvs))"
    by (simp only: dict_values_canonical dict_values_py_dict)
qed

lemma set_items_canonical:
  "\<exists>ks'. set_items (canonical (py_dict kvs)) = Inr ks' \<and> set ks' = set (map (PStr \<circ> fst) kvs)"
  by (force simp: canonical_py_dict)

lemma price_table_canonical:
  assumes t: "price_table_from_dict v = Inr t" and ok: "read_ok n v"
  shows "float_free v \<and> price_table_from_dict (canonical v) = Inr t"
proof -
  obtain kvs0 where "v = PDict kvs0" using t by (cases v) (auto simp: price_table_from_dict_def)
  with ok obtain kvs where v: "v = py_dict kvs" and d: "distinct (map fst kvs)" using py_dict_of by metis
  note s = simple_payload [OF price_table_ints [OF t [unfolded v] d] d]
  obtain ks' where ks: "set_items (canonical (py_dict kvs)) = Inr ks'" "set ks' = set (map (PStr \<circ> fst) kvs)"
    using set_items_canonical by blast
  show ?thesis
    using s(1) price_table_order [OF s(2) is_mapping_canonical ks(1) set_items_py_dict ks(2) t [unfolded v]] v by simp
qed

lemma usage_v2_canonical:
  assumes ok: "validate_usage_v2 (py_dict kvs) = Inr ()" and f: "fst ` set kvs = set V2_USAGE_FIELDS"
    and d: "distinct (map fst kvs)" and r: "\<forall>(k, v)\<in>set kvs. read_ok m v"
  shows "float_free (py_dict kvs) \<and> validate_usage_v2 (canonical (py_dict kvs)) = Inr ()"
proof -
  let ?p = "py_dict kvs"
  obtain pt table where pt: "getitem ?p ''price_table'' = Inr pt" "price_table_from_dict pt = Inr table"
    using usage_v2_simple(2) [OF ok] by blast
  have pts: "read_ok m pt" using pt(1) r assoc_iff [OF d] by (auto simp: getitem_py_dict_Inr)
  note ptc = price_table_canonical [OF pt(2) pts]
  have simple: "simple v" if kv: "(k, v) \<in> set kvs" and nk: "k \<noteq> ''price_table''" for k v
  proof -
    have "k \<in> set V2_USAGE_FIELDS" using f kv by force
    then obtain w where "getitem ?p k = Inr w" "simple w" using usage_v2_simple(1) [OF ok _ nk] by blast
    with kv assoc_iff [OF d, of k v] show ?thesis by (simp add: getitem_py_dict_Inr)
  qed
  have fixed: "getitem (canonical ?p) k = getitem ?p k" if "k \<noteq> ''price_table''" for k
  proof (cases "assoc kvs k")
    case (Some v)
    then have "canonical v = v" using simple simple_canonical that assoc_iff [OF d, of k v] by blast
    with Some show ?thesis by (simp add: getitem_canonical getitem_py_dict)
  qed (simp add: getitem_canonical getitem_py_dict)
  have "getitem (canonical ?p) ''price_table'' = Inr (canonical pt)"
    using pt(1) by (simp add: getitem_canonical getitem_py_dict_Inr)
  then have t: "field (canonical ?p) ''price_table'' price_table_from_dict = field ?p ''price_table'' price_table_from_dict"
    using pt ptc by (simp add: field_def)
  have u: "usage_tokens_of (canonical ?p) = usage_tokens_of ?p" unfolding usage_tokens_of_def by (simp add: fixed)
  have g: "field (canonical ?p) ''price_table_digest'' = (field ?p ''price_table_digest'' :: _ \<Rightarrow> int res)"
    by (rule ext) (simp add: field_def fixed)
  have "validate_usage_v2 (canonical ?p) = validate_usage_v2 ?p"
    unfolding validate_usage_v2_def t u g by (simp add: fixed)
  moreover have "float_free v" if kv: "(k, v) \<in> set kvs" for k v
  proof (cases "k = ''price_table''")
    case True
    with kv pt(1) assoc_iff [OF d, of k v] ptc show ?thesis by (simp add: getitem_py_dict_Inr)
  qed (use simple [OF kv] simple_canonical in blast)
  ultimately show ?thesis using ok by (auto simp: float_free_py_dict)
qed

text \<open>A valid payload has no float, and it is valid in any order of its keys.\<close>

theorem valid_payload_canonical:
  assumes valid: "validate_event_payload event_type payload l version = Inr ()" and ok: "read_ok n payload"
  shows "float_free payload \<and> validate_event_payload event_type (canonical payload) l version = Inr ()"
proof -
  obtain t v fs where e: "event_type = PStr t" "version = PStr v" and k: "t \<in> set EVENTS" "v \<in> set protocol_versions"
      "allowed_fields t v = Some fs" and m: "is_mapping payload"
    using valid unfolding validate_Inr by blast
  note valid' = valid [unfolded e validate_known [OF k]]
  obtain kvs0 where p0: "payload = PDict kvs0" using m by (cases payload) auto
  obtain kvs where p1: "PDict kvs0 = py_dict kvs" and d: "distinct (map fst kvs)"
    and r0: "\<forall>(k, v)\<in>set kvs. str_ok k \<and> (\<exists>m. n = Suc m \<and> read_ok m v)"
    by (rule py_dict_of [OF ok [unfolded p0]])
  have p: "payload = py_dict kvs" using p0 p1 by simp
  have r: "\<forall>(k, v)\<in>set kvs. \<exists>m. n = Suc m \<and> read_ok m v" using r0 by auto
  have w: "\<exists>m. walk l 1 (canonical payload) 0 = Inr m" using valid' walk_canonical by blast
  have names: "set (dict_names payload) = fst ` set kvs" by (simp add: p)
  show ?thesis
  proof (cases "t = ''usage.reported'' \<and> v = PROTOCOL_VERSION_V2")
    case True
    then have fs: "fs = V2_USAGE_FIELDS" using k(3) by (simp add: allowed_fields_def)
    have "fst ` set kvs = set V2_USAGE_FIELDS" "validate_usage_v2 (py_dict kvs) = Inr ()"
      using valid' True names by (simp_all add: fs p validate_fields_def)
    moreover obtain m where "\<forall>(k, v)\<in>set kvs. read_ok m v" using r by (cases n) auto
    ultimately have "float_free (py_dict kvs) \<and> validate_usage_v2 (canonical (py_dict kvs)) = Inr ()"
      using usage_v2_canonical d by blast
    then show ?thesis
      unfolding e validate_known [OF k] using w valid' True dict_names_order [of kvs]
      by (simp add: p validate_fields_def is_mapping_canonical)
  next
    case False
    have "\<forall>(k, v)\<in>set kvs. simple v"
    proof (cases "t = ''adapter.ready''")
      case True
      have "validate_ready (py_dict kvs) fs = Inr ()" "fst ` set kvs \<subseteq> set fs"
        using valid' names True by (simp_all add: p)
      then show ?thesis by (rule ready_simple [OF _ _ d])
    next
      case no: False
      have "fst ` set kvs = set fs" "validate_fields t v (py_dict kvs) = Inr ()"
        using valid' names no by (simp_all add: p)
      then show ?thesis by (rule fields_simple [OF k(1) no False k(3) _ d])
    qed
    note s = simple_payload [OF this d]
    show ?thesis
      unfolding e validate_known [OF k]
      using w valid' s(1) ready_order [OF s(2) dict_names_order] fields_order [OF s(2,3)] dict_names_order [of kvs]
      by (auto simp: p is_mapping_canonical split: if_splits)
  qed
qed

end
