(* ===== verification/EventLine.thy ===== *)
theory EventLine
  imports EventPayload
begin

text \<open>
  The event parser of \<open>protocol.py\<close> on one line: what an accepted line holds, and the event it gives.
\<close>

section \<open>One line\<close>

text \<open>What an accepted line says, for a parser that has taken \<open>ps_events\<close> so far.\<close>

definition event_shape ::
  "event_parser \<Rightarrow> (string \<times> pyval) list \<Rightarrow> string \<Rightarrow> string \<Rightarrow> pyval \<Rightarrow> bool" where
  "event_shape p kvs t v payload =
     ((\<exists>m. walk (ps_limits p) 1 (py_dict kvs) 0 = Inr m) \<and> fst ` set kvs = set event_fields \<and>
      assoc kvs ''protocol_version'' = Some (PStr v) \<and> v \<in> set protocol_versions \<and>
      assoc kvs ''task_id'' = Some (PStr (ps_task_id p)) \<and> assoc kvs ''run_id'' = Some (PStr (ps_run_id p)) \<and>
      assoc kvs ''packet_digest'' = Some (PStr (ps_packet_digest p)) \<and>
      assoc kvs ''sequence'' = Some (PInt (int (length (ps_events p)) + 1)) \<and>
      assoc kvs ''event_type'' = Some (PStr t) \<and> t \<in> set EVENTS \<and>
      (\<forall>c. assoc CAPABILITY t = Some c \<longrightarrow> c \<in> set (ps_capabilities p)) \<and>
      assoc kvs ''payload'' = Some payload \<and>
      validate_event_payload (PStr t) payload (ps_limits p) (PStr v) = Inr () \<and>
      (t = ''adapter.ready'' \<longrightarrow>
         (\<exists>cs. getitem payload ''capabilities'' = Inr (PList (map PStr cs)) \<and> set cs \<subseteq> set (ps_capabilities p))))"

definition event_at :: "event_parser \<Rightarrow> string \<Rightarrow> string \<Rightarrow> pyval \<Rightarrow> canonical_event" where
  "event_at p t v payload =
     \<lparr>ev_protocol_version = v, ev_task_id = ps_task_id p, ev_run_id = ps_run_id p,
      ev_packet_digest = ps_packet_digest p, ev_sequence = int (length (ps_events p)) + 1, ev_event_type = t,
      ev_payload = canonical payload\<rparr>"

lemma set_items_strs: "set_items (PList (map PStr cs)) = Inr (map PStr cs)"
  by (auto simp: list_all_iff)

lemma ready_capabilities:
  assumes "validate_event_payload (PStr ''adapter.ready'') payload l (PStr v) = Inr ()"
  shows "\<exists>cs. getitem payload ''capabilities'' = Inr (PList (map PStr cs))"
  using assms unfolding validate_Inr by (auto simp only: ready_Inr pyval.inject if_True HOL.simp_thms)

lemma PStr_subset: "PStr ` A \<subseteq> PStr ` B \<longleftrightarrow> A \<subseteq> B"
  by auto

lemma check_ready:
  assumes "getitem payload ''capabilities'' = Inr (PList (map PStr cs))"
  shows "field payload ''capabilities'' (\<lambda>cs. bnd (set_items cs) (\<lambda>items. ensure (set items \<subseteq> PStr ` C) e)) = Inr () \<longleftrightarrow>
    set cs \<subseteq> C"
  by (simp only: field_def assms bnd.simps set_items_strs ensure_Inr_iff set_map PStr_subset)

lemma capability_Inr:
  "(case x of None \<Rightarrow> Inr () | Some c \<Rightarrow> ensure (c \<in> C) (e c)) = Inr () \<longleftrightarrow> (\<forall>c. x = Some c \<longrightarrow> c \<in> C)"
  by (cases x) (simp_all add: ensure_Inr_iff)

lemma version_then:
  "bnd (bnd m (\<lambda>v. in_str_set v vs)) (\<lambda>ok. bnd (ensure ok e) (\<lambda>_. k)) = Inr y \<longleftrightarrow>
     (\<exists>v\<in>set vs. m = Inr (PStr v)) \<and> k = Inr y"
  by (cases m) (auto simp: bool_then in_str_set_True)

lemma value_then: "bnd m (\<lambda>x. bnd (ensure (x = c) e) (k x)) = Inr y \<longleftrightarrow> m = Inr c \<and> k c () = Inr y"
  by (cases m) (auto simp: ensure_def)

lemma member_then:
  "bnd m (\<lambda>x. bnd (ensure (x \<in> PStr ` A) e) (k x)) = Inr y \<longleftrightarrow> (\<exists>t\<in>A. m = Inr (PStr t) \<and> k (PStr t) () = Inr y)"
  by (cases m) (auto simp: ensure_def)

lemma walk_then: "bnd (walk l d v n) (\<lambda>_. k) = Inr y \<longleftrightarrow> (\<exists>m. walk l d v n = Inr m) \<and> k = Inr y"
  by (cases "walk l d v n") auto

lemma capability_then:
  "bnd (case x of None \<Rightarrow> Inr () | Some c \<Rightarrow> ensure (c \<in> C) (e c)) (\<lambda>_. k) = Inr y \<longleftrightarrow>
     (\<forall>c. x = Some c \<longrightarrow> c \<in> C) \<and> k = Inr y"
  by (cases x) (auto simp: ensure_def)

lemma item_then:
  "bnd (getitem (py_dict kvs) ''payload'') k = Inr y \<longleftrightarrow> (\<exists>x. assoc kvs ''payload'' = Some x \<and> k x = Inr y)"
  by (auto simp only: bnd_Inr_iff getitem_py_dict_Inr)

lemma valid_then:
  "bnd (bnd (getitem (py_dict kvs) ''protocol_version'') (validate_event_payload (PStr t) payload l)) (\<lambda>_. k) = Inr y \<longleftrightarrow>
     (\<exists>v. assoc kvs ''protocol_version'' = Some (PStr v) \<and> validate_event_payload (PStr t) payload l (PStr v) = Inr ()) \<and>
     k = Inr y"
proof -
  have "bnd m (\<lambda>_. k) = Inr y \<longleftrightarrow> m = Inr () \<and> k = Inr y" for m :: "unit res" by (cases m) auto
  moreover have "bnd (getitem (py_dict kvs) ''protocol_version'') (validate_event_payload (PStr t) payload l) = Inr () \<longleftrightarrow>
      (\<exists>v. assoc kvs ''protocol_version'' = Some (PStr v) \<and> validate_event_payload (PStr t) payload l (PStr v) = Inr ())"
    unfolding bnd_Inr_iff getitem_py_dict_Inr using validate_Inr by metis
  ultimately show ?thesis by simp
qed

lemma check_event_Inr: "check_event p (py_dict kvs) = Inr () \<longleftrightarrow> (\<exists>t v payload. event_shape p kvs t v payload)"
proof -
  have ident: "map_res (getitem (py_dict kvs)) [''task_id'', ''run_id'', ''packet_digest''] = Inr (map PStr [a, b, c]) \<longleftrightarrow>
      assoc kvs ''task_id'' = Some (PStr a) \<and> assoc kvs ''run_id'' = Some (PStr b) \<and> assoc kvs ''packet_digest'' = Some (PStr c)"
    for a b c
    by (auto simp only: map_res_Inr_iff list.map list_all2_Cons list_all2_Nil getitem_py_dict_Inr HOL.simp_thms)
  let ?R = "\<lambda>t payload. (if t = ''adapter.ready''
     then field payload ''capabilities'' (\<lambda>cs. bnd (set_items cs) (\<lambda>items.
            ensure (set items \<subseteq> PStr ` set (ps_capabilities p)) (protocol_error ''undeclared_capability'')))
     else Inr ()) = Inr ()"
  have ready: "?R t payload \<longleftrightarrow> (t = ''adapter.ready'' \<longrightarrow>
      (\<exists>cs. getitem payload ''capabilities'' = Inr (PList (map PStr cs)) \<and> set cs \<subseteq> set (ps_capabilities p)))"
    if valid: "validate_event_payload (PStr t) payload (ps_limits p) (PStr v) = Inr ()" for t payload v
  proof (cases "t = ''adapter.ready''")
    case True
    with valid obtain cs where cs: "getitem payload ''capabilities'' = Inr (PList (map PStr cs))"
      using ready_capabilities by blast
    then have "(\<exists>ds. getitem payload ''capabilities'' = Inr (PList (map PStr ds)) \<and> set ds \<subseteq> C) \<longleftrightarrow> set cs \<subseteq> C" for C
      by (simp only: sum.inject pyval.inject map_PStr_eq) blast
    with True check_ready [OF cs] show ?thesis by (simp only: if_True HOL.simp_thms)
  next
    case False
    then show ?thesis by (simp only: if_False HOL.simp_thms)
  qed
  have "check_event p (py_dict kvs) = Inr () \<longleftrightarrow>
     (\<exists>m. walk (ps_limits p) 1 (py_dict kvs) 0 = Inr m) \<and> fst ` set kvs = set event_fields \<and>
     (\<exists>v\<in>set protocol_versions. assoc kvs ''protocol_version'' = Some (PStr v)) \<and>
     assoc kvs ''task_id'' = Some (PStr (ps_task_id p)) \<and> assoc kvs ''run_id'' = Some (PStr (ps_run_id p)) \<and>
     assoc kvs ''packet_digest'' = Some (PStr (ps_packet_digest p)) \<and>
     assoc kvs ''sequence'' = Some (PInt (int (length (ps_events p)) + 1)) \<and>
     (\<exists>t\<in>set EVENTS. assoc kvs ''event_type'' = Some (PStr t) \<and>
       (\<forall>c. assoc CAPABILITY t = Some c \<longrightarrow> c \<in> set (ps_capabilities p)) \<and>
       (\<exists>payload. assoc kvs ''payload'' = Some payload \<and>
         (\<exists>v. assoc kvs ''protocol_version'' = Some (PStr v) \<and>
           validate_event_payload (PStr t) payload (ps_limits p) (PStr v) = Inr ()) \<and> ?R t payload))"
    unfolding check_event_def field_def [of "py_dict kvs"]
    by (simp only: walk_then ensure_then version_then value_then member_then capability_then item_then valid_then
        ident getitem_py_dict_Inr dict_names_py_dict set_map str_of.simps conj_assoc)
  also have "\<dots> \<longleftrightarrow> (\<exists>t v payload. event_shape p kvs t v payload)" (is "?L \<longleftrightarrow> ?S")
  proof
    assume ?L
    then obtain v t payload w where *: "v \<in> set protocol_versions" "assoc kvs ''protocol_version'' = Some (PStr v)"
      "t \<in> set EVENTS" "assoc kvs ''event_type'' = Some (PStr t)" "assoc kvs ''payload'' = Some payload"
      "assoc kvs ''protocol_version'' = Some (PStr w)"
      "validate_event_payload (PStr t) payload (ps_limits p) (PStr w) = Inr ()" "?R t payload"
      "\<forall>c. assoc CAPABILITY t = Some c \<longrightarrow> c \<in> set (ps_capabilities p)"
      by (elim conjE bexE exE)
    then have "w = v" by simp
    with * \<open>?L\<close> have "event_shape p kvs t v payload" unfolding event_shape_def ready [OF *(7), symmetric]
      by (simp only: HOL.simp_thms)
    then show ?S by blast
  next
    assume ?S
    then obtain t v payload where e: "event_shape p kvs t v payload" by blast
    then have v: "validate_event_payload (PStr t) payload (ps_limits p) (PStr v) = Inr ()" by (simp only: event_shape_def)
    show ?L using e unfolding event_shape_def ready [OF v, symmetric] by blast
  qed
  finally show ?thesis .
qed

text \<open>The line without its terminal flag, and the event it gives.\<close>

lemma valid_freeze:
  assumes "validate_event_payload e payload l v = Inr ()"
  shows "freeze payload = canonical payload"
proof -
  obtain m where "walk l 1 payload 0 = Inr m" using assms unfolding validate_Inr by blast
  then show ?thesis using freeze_canonical [of l payload] by (simp add: walk_Inr)
qed

lemma strict_json_object_Inr:
  assumes "strict_json_object stack raw = Inr value"
  shows "is_mapping value \<and> read_ok stack value"
proof -
  have "utf8 raw" "json_loads (ProtocolError ''nonfinite_number'') (ProtocolError ''duplicate_key'') stack raw = Inr value"
    "is_mapping value"
    using assms by (auto simp: strict_json_object_def res_simps decode_utf8_def split: if_splits)
  then show ?thesis using json_loads_ok by blast
qed

lemma check_line_Inr:
  assumes "check_line stack p raw = Inr value"
  shows "\<exists>kvs t v payload. value = py_dict kvs \<and> distinct (map fst kvs) \<and> read_ok stack value \<and>
    (\<forall>(k, v)\<in>set kvs. \<exists>m. read_ok m v) \<and>
    strict_json_object stack raw = Inr value \<and> \<not> ps_terminal p \<and>
    int (length (ps_events p)) < pl_max_events (ps_limits p) \<and> event_shape p kvs t v payload"
proof -
  have c: "int (length (ps_events p)) < pl_max_events (ps_limits p)" "\<not> ps_terminal p"
    "strict_json_object stack raw = Inr value" "check_event p value = Inr ()"
    using assms by (auto simp: check_line_def bnd_Inr_iff ensure_Inr_iff)
  have s: "is_mapping value" "read_ok stack value" using strict_json_object_Inr [OF c(3)] by simp_all
  obtain kvs0 where v: "value = PDict kvs0" using s(1) by (cases "value") auto
  obtain kvs where k: "PDict kvs0 = py_dict kvs" "distinct (map fst kvs)"
    "\<forall>(k, v)\<in>set kvs. str_ok k \<and> (\<exists>m. stack = Suc m \<and> read_ok m v)"
    by (rule py_dict_of [OF s(2) [unfolded v]])
  then have e: "value = py_dict kvs" by (simp add: v)
  obtain t v payload where "event_shape p kvs t v payload" using c(4) check_event_Inr unfolding e by blast
  moreover have "\<forall>(k, v)\<in>set kvs. \<exists>m. read_ok m v" using k(3) by auto
  ultimately show ?thesis using c s k e by blast
qed

definition mark_end :: "event_parser \<Rightarrow> string \<Rightarrow> event_parser" where
  "mark_end p t = (if t \<in> set TERMINAL_EVENTS then p\<lparr>ps_terminal := True\<rparr> else p)"

lemma parse_line_shape:
  assumes c: "check_line stack p raw = Inr (py_dict kvs)" and e: "event_shape p kvs t v payload"
  shows "parse_line stack p raw = (mark_end p t, Inr (event_at p t v payload))"
proof -
  have a: "assoc kvs ''event_type'' = Some (PStr t)" "assoc kvs ''payload'' = Some payload"
    "assoc kvs ''protocol_version'' = Some (PStr v)" "assoc kvs ''sequence'' = Some (PInt (int (length (ps_events p)) + 1))"
    and valid: "validate_event_payload (PStr t) payload (ps_limits p) (PStr v) = Inr ()"
    using e by (simp_all only: event_shape_def)
  have m: "(getitem (py_dict kvs) ''event_type'' \<in> (Inr \<circ> PStr) ` set TERMINAL_EVENTS) = (t \<in> set TERMINAL_EVENTS)"
    by (auto simp: getitem_py_dict a(1))
  show ?thesis
    unfolding parse_line_def c sum.case m mark_end_def
    by (simp add: field_def getitem_py_dict a event_from_payload_def valid event_at_def valid_freeze [OF valid])
qed

lemma parse_line_Inr:
  assumes "parse_line stack p raw = (q, Inr ev)"
  obtains kvs t v payload where "check_line stack p raw = Inr (py_dict kvs)" "distinct (map fst kvs)"
    "read_ok stack (py_dict kvs)" "\<forall>(k, v)\<in>set kvs. \<exists>m. read_ok m v" "strict_json_object stack raw = Inr (py_dict kvs)"
    "\<not> ps_terminal p" "int (length (ps_events p)) < pl_max_events (ps_limits p)" "event_shape p kvs t v payload"
    "q = mark_end p t" "ev = event_at p t v payload"
proof (cases "check_line stack p raw")
  case (Inr x)
  obtain kvs t v payload where k: "x = py_dict kvs" "distinct (map fst kvs)" "read_ok stack x"
    "\<forall>(k, v)\<in>set kvs. \<exists>m. read_ok m v" "strict_json_object stack raw = Inr x" "\<not> ps_terminal p"
    "int (length (ps_events p)) < pl_max_events (ps_limits p)" "event_shape p kvs t v payload"
    using check_line_Inr [OF Inr] by blast
  have "parse_line stack p raw = (mark_end p t, Inr (event_at p t v payload))"
    by (rule parse_line_shape [OF Inr [unfolded k(1)] k(8)])
  with assms k Inr that show ?thesis by simp
qed (use assms in \<open>simp add: parse_line_def\<close>)

end
