(* ===== verification/JsonLength.thy ===== *)
theory JsonLength
  imports JsonWellFormed
begin

text \<open>
  The canonical text of a value is the shortest text the reader could have read it from, and it is one line.
\<close>

section \<open>Strings\<close>

definition escaped :: "string \<Rightarrow> nat" where
  "escaped s = length (concat (map json_escape s))"

lemma escaped_simps [simp]: "escaped [] = 0" "escaped (c # s) = length (json_escape c) + escaped s"
  "escaped (s @ t) = escaped s + escaped t"
  by (simp_all add: escaped_def)

lemma length_json_escape: "length (json_escape c) \<le> 6"
  by (simp add: json_escape_def)

lemma length_json_string: "length (json_string s) = escaped s + 2"
  by (simp add: json_string_def escaped_def)

lemma escaped_point: "escaped (encode_point u) \<le> 9" "u < 65536 \<Longrightarrow> escaped (encode_point u) \<le> 6"
proof -
  have b: "128 \<le> n \<Longrightarrow> n < 256 \<Longrightarrow> length (json_escape (char_of n)) = 1" for n :: nat
    by (simp add: json_escape_plain byte_char_of)
  have d: "length (json_escape (char_of (128 + n mod 64))) = 1" for n :: nat
    by (rule b) (use mod_less_divisor [of 64 n] in linarith)+
  show "escaped (encode_point u) \<le> 9"
    using length_json_escape [of "char_of u"] length_json_escape [of "char_of (192 + u div 64)"]
      length_json_escape [of "char_of (224 + u div 4096)"] length_json_escape [of "char_of (240 + u div 262144)"]
    by (simp add: encode_point_def d)
  assume u: "u < 65536"
  consider "u < 128" | "128 \<le> u" "u < 2048" | "2048 \<le> u" by linarith
  then show "escaped (encode_point u) \<le> 6"
  proof cases
    case 1
    then show ?thesis using length_json_escape by (simp add: encode_point_def)
  next
    case 2
    then show ?thesis by (simp add: encode_point_def b d less_mult_imp_div_less)
  next
    case 3
    have "u div 4096 < 16" using u by (simp add: less_mult_imp_div_less)
    with 3 u show ?thesis by (simp add: encode_point_def b d)
  qed
qed

lemma read_hex4_length: "read_hex4 s = Inr (u, r) \<Longrightarrow> length s = length r + 4 \<and> u < 65536"
proof (cases s rule: read_hex4.cases)
  case (1 a b c d q)
  moreover assume "read_hex4 s = Inr (u, r)"
  ultimately obtain w x y z where h: "hex_digit_value a = Some w" "hex_digit_value b = Some x"
    "hex_digit_value c = Some y" "hex_digit_value d = Some z" and u: "u = ((w * 16 + x) * 16 + y) * 16 + z" "r = q"
    by (auto split: option.splits)
  with h [THEN hex_byte] 1 show ?thesis by simp
qed auto

lemma read_unicode_length:
  assumes "read_unicode s = Inr (t, r)"
  shows "escaped t + length r \<le> length s + 2"
proof -
  obtain u p where u: "read_hex4 s = Inr (u, p)" using assms by (auto simp: read_unicode_def res_simps)
  note p = read_hex4_length [OF u]
  have e: "escaped (encode_point u) + length p \<le> length s + 2" using p escaped_point(2) [of u] by simp
  show ?thesis
  proof (cases "high_surrogate u \<and> take 2 p = [CHR 0x5C, CHR ''u'']")
    case True
    then have "length (take 2 p) = 2" by simp
    then have p2: "length p = length (drop 2 p) + 2" by simp
    from True assms u obtain l q where l: "read_hex4 (drop 2 p) = Inr (l, q)"
      and r: "low_surrogate l \<and> t = encode_point (0x10000 + (u - 0xD800) * 1024 + (l - 0xDC00)) \<and> r = q
        \<or> t = encode_point u \<and> r = p"
      by (auto simp: read_unicode_def res_simps split: if_splits)
    from r show ?thesis
    proof
      assume *: "low_surrogate l \<and> t = encode_point (0x10000 + (u - 0xD800) * 1024 + (l - 0xDC00)) \<and> r = q"
      have "length s = length q + 10"
        using conjunct1 [OF p] p2 conjunct1 [OF read_hex4_length [OF l]] by linarith
      moreover have "escaped t \<le> 9" using escaped_point(1) * by blast
      moreover have "r = q" using * by blast
      ultimately show ?thesis by simp
    qed (use e in simp)
  next
    case False
    with assms u e show ?thesis by (auto simp: read_unicode_def)
  qed
qed

lemma read_escape_length:
  assumes "read_escape s = Inr (t, r)"
  shows "escaped t + length r \<le> length s + 1"
proof (cases s)
  case (Cons c cs)
  show ?thesis
  proof (cases "c = CHR ''u''")
    case True
    with assms Cons read_unicode_length [of cs t r] show ?thesis by (simp add: read_escape_def)
  next
    case False
    with assms Cons show ?thesis by (auto simp: read_escape_def json_escape_def byte_def split: if_splits)
  qed
qed (use assms in \<open>simp add: read_escape_def\<close>)

lemma read_string_length: "read_string s = Inr (t, r) \<Longrightarrow> escaped t + length r + 1 \<le> length s"
proof (induction s arbitrary: t r rule: read_string.induct)
  case (2 c cs)
  consider "c = CHR 0x22" | "c = CHR 0x5C" | "c \<noteq> CHR 0x22" "c \<noteq> CHR 0x5C" by blast
  then show ?case
  proof cases
    case c: 2
    then obtain a p b where a: "read_escape cs = Inr (a, p)" "read_string p = Inr (b, r)" "t = a @ b"
      using "2.prems" by (auto simp: res_simps)
    with "2.IH"(1) [of "(a, p)" b r] c read_escape_length [OF a(1)] show ?thesis by simp
  next
    case 3
    then obtain b where b: "read_string cs = Inr (b, r)" "t = c # b" "\<not> byte c < 32"
      using "2.prems" by (auto simp: res_simps split: if_splits)
    have "c \<noteq> CHR 0x0A" "c \<noteq> CHR 0x0D" "c \<noteq> CHR 0x09" "c \<noteq> CHR 0x0C" "c \<noteq> CHR 0x08"
      using b(3) by (auto simp: byte_def)
    then have "json_escape c = [c]" using 3 b(3) by (simp add: json_escape_def)
    with "2.IH"(2) [OF 3 b(3,1)] b show ?thesis by simp
  qed (use "2.prems" in simp)
qed simp

section \<open>Numbers\<close>

lemma read_number_length:
  assumes "read_number s = Inr (PInt i, r)"
  shows "length (int_text i) + length r \<le> length s"
proof -
  define neg where "neg = (s \<noteq> [] \<and> hd s = CHR ''-'')"
  define t where "t = (if neg then tl s else s)"
  define w where "w = (if t \<noteq> [] \<and> hd t = CHR ''0'' then [CHR ''0''] else takeWhile is_digit t)"
  obtain f r1 where f: "read_fraction (drop (length w) t) = (f, r1)" by fastforce
  obtain e r2 where e: "read_exponent r1 = (e, r2)" by fastforce
  note unfold = read_number_def Let_def neg_def [symmetric] t_def [symmetric] w_def [symmetric] f e prod.case
  from assms have w: "w \<noteq> []" and r: "r = r2"
    and i: "i = (if neg then -1 else 1) * digits_val 0 w"
    unfolding unfold by (auto split: if_splits)
  have wd: "list_all is_digit w"
    by (auto simp: w_def is_digit_def digits_chars_def list_all_iff dest: set_takeWhileD)
  have "length w \<le> length t" unfolding w_def using length_takeWhile_le [of is_digit t] by (cases t) auto
  then have l: "length w + length r \<le> length t" using read_fraction_shorter [OF f] read_exponent_shorter [OF e] r by simp
  have d: "0 \<le> digits_val 0 w" "nat (digits_val 0 w) < 10 ^ length w" using digits_val_less [OF wd] by (simp_all add: nat_less_iff)
  have n: "length (nat_text (nat (digits_val 0 w))) \<le> length w" by (rule nat_text_less [OF d(2)]) (use w in simp)
  have s: "neg \<Longrightarrow> length s = length t + 1" by (cases s) (simp_all add: t_def neg_def)
  have a: "nat \<bar>i\<bar> = nat (digits_val 0 w)" "i < 0 \<Longrightarrow> neg" using d(1) unfolding i by (auto split: if_splits)
  have "length (int_text i) = length (nat_text (nat \<bar>i\<bar>)) + (if i < 0 then 1 else 0)"
    by (cases "i < 0") (simp_all add: int_text_def)
  then have "length (int_text i) \<le> length w + (if neg then 1 else 0)" using n a by (cases "i < 0") simp_all
  moreover have "length t + (if neg then 1 else 0) = length s" using s by (cases neg) (simp_all add: t_def)
  ultimately show ?thesis using l by simp
qed

lemma read_number_kind:
  assumes "read_number s = Inr (v, r)"
  shows "(\<exists>i. v = PInt i) \<or> (\<exists>l. v = PFloat l)"
proof -
  define t where "t = (if s \<noteq> [] \<and> hd s = CHR ''-'' then tl s else s)"
  define w where "w = (if t \<noteq> [] \<and> hd t = CHR ''0'' then [CHR ''0''] else takeWhile is_digit t)"
  obtain f r1 where f: "read_fraction (drop (length w) t) = (f, r1)" by fastforce
  obtain e r2 where e: "read_exponent r1 = (e, r2)" by fastforce
  show ?thesis
    using assms unfolding read_number_def Let_def t_def [symmetric] w_def [symmetric] f e prod.case by (auto split: if_splits)
qed

section \<open>Values\<close>

definition prints_within :: "(string \<Rightarrow> (pyval \<times> string) res) \<Rightarrow> bool" where
  "prints_within f = (\<forall>s v r. f s = Inr (v, r) \<longrightarrow> float_free v \<longrightarrow> length (json_text v) + length r \<le> length s)"

lemma prints_withinD:
  "prints_within f \<Longrightarrow> f s = Inr x \<Longrightarrow> float_free (fst x) \<Longrightarrow> length (json_text (fst x)) + length (snd x) \<le> length s"
  by (cases x) (simp add: prints_within_def)

lemma length_starts: "starts p s \<Longrightarrow> length p \<le> length s"
  unfolding starts_def by (metis length_take min.bounded_iff order_refl)

lemma read_token_prints:
  assumes "\<And>s v r. s \<noteq> [] \<Longrightarrow> hd s \<in> {CHR ''{'', CHR ''[''} \<Longrightarrow> container s = Inr (v, r) \<Longrightarrow> float_free v \<Longrightarrow>
     length (json_text v) + length r \<le> length s"
  shows "prints_within (read_token nonfinite container)"
  unfolding prints_within_def
proof (intro allI impI)
  fix s v r assume t: "read_token nonfinite container s = Inr (v, r)" and f: "float_free v"
  have s: "s \<noteq> []" using t by (auto simp: read_token_def)
  show "length (json_text v) + length r \<le> length s"
  proof (cases "hd s = CHR 0x22")
    case True
    with t s obtain u where "read_string (tl s) = Inr (u, r)" "v = PStr u" by (auto simp: read_token_def res_simps)
    with read_string_length [of "tl s" u r] s show ?thesis by (cases s) (simp_all add: length_json_string)
  next
    case no_string: False
    show ?thesis
    proof (cases "hd s = CHR ''{'' \<or> hd s = CHR ''[''")
      case True
      with no_string t s have "container s = Inr (v, r)" by (auto simp: read_token_def)
      with assms [OF s] True f show ?thesis by blast
    next
      case False
      have "v = PNone \<and> starts ''null'' s \<and> r = drop 4 s \<or> v = PBool True \<and> starts ''true'' s \<and> r = drop 4 s
        \<or> v = PBool False \<and> starts ''false'' s \<and> r = drop 5 s \<or> read_number s = Inr (v, r)"
        using t s no_string False by (auto simp: read_token_def split: if_splits)
      then show ?thesis
      proof (elim disjE)
        assume n: "read_number s = Inr (v, r)"
        then obtain i where "v = PInt i" using f read_number_kind [OF n] by auto
        with n read_number_length show ?thesis by simp
      next
        assume n: "v = PNone \<and> starts ''null'' s \<and> r = drop 4 s"
        with length_starts [of "''null''" s] show ?thesis by simp
      next
        assume n: "v = PBool True \<and> starts ''true'' s \<and> r = drop 4 s"
        with length_starts [of "''true''" s] show ?thesis by simp
      next
        assume n: "v = PBool False \<and> starts ''false'' s \<and> r = drop 5 s"
        with length_starts [of "''false''" s] show ?thesis by simp
      qed
    qed
  qed
qed

lemma skip_space_length: "skip_space s = c # t \<Longrightarrow> length t + 1 \<le> length s"
  using length_skip_space [of s] by simp

lemma read_elements_prints:
  assumes "prints_within value"
  shows "read_elements value s = Inr (vs, r) \<Longrightarrow> list_all float_free vs \<Longrightarrow>
    length (join '','' (map json_text vs)) + length r + 1 \<le> length s"
proof (induction "length s" arbitrary: s vs r rule: less_induct)
  case less
  from less.prems(1) obtain x where x: "value s = Inr x"
    by (subst (asm) read_elements.simps) (auto simp: res_simps)
  show ?case
  proof (cases "skip_space (snd x)")
    case Nil
    with less.prems x show ?thesis by (subst (asm) read_elements.simps) simp
  next
    case (Cons c t)
    note t = skip_space_length [OF Cons]
    consider "vs = [fst x]" "r = t"
      | ws where "length t < length s" "read_elements value (skip_space t) = Inr (ws, r)" "vs = fst x # ws"
      using less.prems(1) x Cons by (subst (asm) read_elements.simps) (auto simp: res_simps split: if_splits)
    then show ?thesis
    proof cases
      case 1
      with prints_withinD [OF assms x] less.prems(2) t show ?thesis by simp
    next
      case 2
      have "length (join '','' (map json_text ws)) + length r + 1 \<le> length t"
        using less.hyps [OF _ 2(2)] 2 length_skip_space [of t] less.prems(2) by fastforce
      with prints_withinD [OF assms x] less.prems(2) t 2(3) show ?thesis by (auto simp: join_Cons)
    qed
  qed
qed

lemma read_members_prints:
  assumes "prints_within value"
  shows "read_members value s = Inr (vs, r) \<Longrightarrow> list_all (\<lambda>(k, v). float_free v) vs \<Longrightarrow>
    length (join '','' (map (\<lambda>(k, v). item_text (PStr k, v)) vs)) + length r + 1 \<le> length s"
proof (induction "length s" arbitrary: s vs r rule: less_induct)
  case less
  note unfold = read_members.simps [of "value" s]
  from less.prems have s: "\<not> (s = [] \<or> hd s \<noteq> CHR 0x22)" by (auto simp: unfold split: if_splits)
  from less.prems s obtain k where k: "read_string (tl s) = Inr k" by (auto simp: unfold res_simps)
  have ks: "escaped (fst k) + length (snd k) + 2 \<le> length s"
    using read_string_length [of "tl s" "fst k" "snd k"] k s by (cases s) simp_all
  from less.prems s k obtain d t where t: "skip_space (snd k) = d # t" "d = CHR '':''"
    by (cases "skip_space (snd k)") (auto simp: unfold split: if_splits)
  from less.prems s k t obtain x where x: "value (skip_space t) = Inr x" by (auto simp: unfold res_simps)
  from less.prems s k t x obtain c y where y: "skip_space (snd x) = c # y"
    by (cases "skip_space (snd x)") (auto simp: unfold)
  have item: "float_free (fst x) \<Longrightarrow> length (item_text (PStr (fst k), fst x)) + length y + 1 \<le> length s"
    using prints_withinD [OF assms x] ks skip_space_length [OF t(1)] skip_space_length [OF y] length_skip_space [of t]
    by (simp add: item_text_def length_json_string)
  consider "vs = [(fst k, fst x)]" "r = y"
    | ws where "length y < length s" "read_members value (skip_space y) = Inr (ws, r)" "vs = (fst k, fst x) # ws"
    using less.prems(1) s k t x y by (auto simp: unfold res_simps split: if_splits)
  then show ?case
  proof cases
    case 1
    with item less.prems(2) show ?thesis by simp
  next
    case 2
    have "length (join '','' (map (\<lambda>(k, v). item_text (PStr k, v)) ws)) + length r + 1 \<le> length y"
      using less.hyps [OF _ 2(2)] 2 length_skip_space [of y] less.prems(2) by fastforce
    with item less.prems(2) 2(3) show ?thesis by (auto simp: join_Cons)
  qed
qed

lemma json_text_py_dict:
  "json_text (py_dict kvs) = CHR ''{'' # join '','' (map (\<lambda>(k, v). item_text (PStr k, v)) kvs) @ ''}''"
proof -
  have "item_text \<circ> (\<lambda>(k, v). (PStr k, v)) = (\<lambda>(k, v). item_text (PStr k, v))" by auto
  then show ?thesis unfolding py_dict_def json_text_dict by simp
qed

lemma float_free_items: "float_free (py_dict kvs) = list_all (\<lambda>(k, v). float_free v) kvs"
  by (auto simp: py_dict_def list_all_iff)

lemma read_container_prints:
  assumes v: "prints_within value" and s: "s \<noteq> []"
    and c: "read_container duplicate value s = Inr (v, r)" and f: "float_free v"
  shows "length (json_text v) + length r \<le> length s"
proof -
  define t where "t = skip_space (tl s)"
  have t: "length t + 1 \<le> length s" using length_skip_space [of "tl s"] s by (cases s) (simp_all add: t_def)
  show ?thesis
  proof (cases "hd s = CHR ''[''")
    case True
    show ?thesis
    proof (cases "t \<noteq> [] \<and> hd t = CHR '']''")
      case empty: True
      with c True t show ?thesis by (cases t) (auto simp: read_container_def t_def [symmetric])
    next
      case False
      with c True obtain vs where "read_elements value t = Inr (vs, r)" "v = PList vs"
        by (auto simp: read_container_def t_def [symmetric] res_simps)
      with read_elements_prints [OF v] f t show ?thesis by fastforce
    qed
  next
    case False
    show ?thesis
    proof (cases "t \<noteq> [] \<and> hd t = CHR ''}''")
      case True
      with c False t show ?thesis by (cases t) (auto simp: read_container_def t_def [symmetric] py_dict_def)
    next
      case no: False
      with c False obtain kvs where k: "read_members value t = Inr (kvs, r)" "v = py_dict kvs"
        by (auto simp: read_container_def t_def [symmetric] res_simps object_pairs_Inr)
      have "length (join '','' (map (\<lambda>(k, v). item_text (PStr k, v)) kvs)) + length r + 1 \<le> length t"
        using read_members_prints [OF v k(1)] f by (simp add: k(2) float_free_items)
      with t show ?thesis by (simp add: k(2) json_text_py_dict)
    qed
  qed
qed

lemma read_value_prints: "prints_within (read_value nonfinite duplicate n)"
proof (induction n)
  case 0
  have "prints_within (read_token nonfinite (\<lambda>_. Inl RecursionError))" by (rule read_token_prints) simp
  then show ?case by (simp add: prints_within_def)
next
  case (Suc n)
  have "prints_within (read_token nonfinite (read_container duplicate (read_value nonfinite duplicate n)))"
    using read_container_prints [OF Suc] by (intro read_token_prints) blast
  then show ?case by (simp add: prints_within_def)
qed

lemma json_loads_prints:
  assumes "json_loads nonfinite duplicate n s = Inr v" "float_free v"
  shows "length (json_text v) \<le> length s"
  using assms prints_withinD [OF read_value_prints, of nonfinite duplicate n "skip_space s"] length_skip_space [of s]
  by (fastforce simp: json_loads_def res_simps split: if_splits)

section \<open>The canonical text\<close>

lemma length_join: "length (join '','' xs) = sum_list (map length xs) + (length xs - 1)"
  by (induction xs) (simp_all add: join_Cons)

lemma sum_list_key_order: "sum_list (map f (sort_key k xs)) = sum_list (map f xs)" for f :: "'a \<Rightarrow> nat"
  by (metis mset_map mset_sort sum_mset_sum_list)

lemma length_canonical_text: "length (json_text (canonical v)) = length (json_text v)"
proof (induction v)
  case (PList xs)
  then have "map (\<lambda>x. length (json_text (canonical x))) xs = map (\<lambda>x. length (json_text x)) xs" by simp
  then have "(\<Sum>x\<leftarrow>xs. length (json_text (canonical x))) = (\<Sum>x\<leftarrow>xs. length (json_text x))" by (simp only:)
  then show ?case by (simp add: length_join comp_def)
next
  case (PDict kvs)
  let ?h = "\<lambda>(k, v). (k, canonical v)" and ?key = "\<lambda>kv :: pyval \<times> pyval. str_of (fst kv)"
  have "length (item_text (?h kv)) = length (item_text kv)" if "kv \<in> set kvs" for kv
    using PDict [of kv "snd kv"] that by (cases kv) (simp add: item_text_def)
  then have "map (length \<circ> item_text \<circ> ?h) kvs = map (length \<circ> item_text) kvs" by simp
  then have e: "sum_list (map (length \<circ> item_text) (map ?h kvs)) = sum_list (map (length \<circ> item_text) kvs)"
    by (simp only: map_map)
  have "sum_list (map (length \<circ> item_text) (sort_key ?key (map ?h kvs))) = sum_list (map (length \<circ> item_text) kvs)"
    unfolding sum_list_key_order by (rule e)
  then show ?case unfolding canonical.simps json_text_dict by (simp add: length_join)
qed simp_all

lemma newline_not: "\<not> is_digit (CHR 0x0A)" "\<not> is_hex (CHR 0x0A)"
  by (simp_all add: is_digit_def is_hex_def digits_chars_def)

lemma newline_escape: "CHR 0x0A \<notin> set (json_escape c)"
proof -
  have "CHR 0x0A \<noteq> hex_digit n" for n using is_hex_hex_digit [of n] newline_not by metis
  then show ?thesis by (simp add: json_escape_def)
qed

lemma newline_string: "CHR 0x0A \<notin> set (json_string s)"
  using newline_escape by (auto simp: json_string_def)

lemma newline_join: "(\<And>x. x \<in> set xs \<Longrightarrow> CHR 0x0A \<notin> set x) \<Longrightarrow> CHR 0x0A \<notin> set (join '','' xs)"
  by (induction xs) (auto simp: join_Cons)

lemma newline_int: "CHR 0x0A \<notin> set (int_text i)"
proof -
  have "CHR 0x0A \<notin> set (nat_text n)" for n
    using nat_text_digits [of n] newline_not by (auto simp: list_all_iff)
  then show ?thesis by (simp add: int_text_def)
qed

lemma newline_text: "plain v \<Longrightarrow> CHR 0x0A \<notin> set (json_text v)"
proof (induction v)
  case (PList xs)
  then show ?case using newline_join [of "map json_text xs"] by (auto simp: list_all_iff)
next
  case (PDict kvs)
  have "CHR 0x0A \<notin> set (item_text (k, v))" if "(k, v) \<in> set kvs" for k v
    using PDict.IH [of "(k, v)" v] PDict.prems that newline_string by (auto simp: item_text_def list_all_iff)
  then have "\<forall>x\<in>set (map item_text kvs). CHR 0x0A \<notin> set x" by auto
  then have "CHR 0x0A \<notin> set (join '','' (map item_text kvs))" using newline_join by blast
  then show ?case unfolding json_text_dict by simp
qed (simp_all add: newline_string newline_int)

end
