(* ===== verification/EventStream.thy ===== *)
theory EventStream
  imports EventLine JsonLength SemanticBridge
begin

text \<open>
  The event stream: the canonical text of an accepted event is accepted again and gives the same event; the
  parser's answer does not depend on how the bytes are cut into chunks; and what an accepted stream holds.
\<close>

section \<open>Canonical dictionaries\<close>

lemma sort_key_map_comp: "sort_key f (map h xs) = map h (sort_key (f \<circ> h) xs)"
proof (induction xs)
  case (Cons x xs)
  have "insort_key f (h x) (map h ys) = map h (insort_key (f \<circ> h) x ys)" for ys by (induction ys) auto
  then show ?case by (simp only: list.map sort_key_simps Cons)
qed simp

definition canonical_items :: "(string \<times> pyval) list \<Rightarrow> (string \<times> pyval) list" where
  "canonical_items kvs = sort_key fst (map (\<lambda>(k, v). (k, canonical v)) kvs)"

lemma canonical_items_dict: "canonical (py_dict kvs) = py_dict (canonical_items kvs)"
proof -
  let ?h = "\<lambda>(k, v). (PStr k, v)"
  have f: "(\<lambda>kv. str_of (fst kv)) \<circ> ?h = fst" by auto
  have "map (\<lambda>(k, v). (PStr k, canonical v)) kvs = map ?h (map (\<lambda>(k, v). (k, canonical v)) kvs)" by auto
  moreover have "sort_key (\<lambda>kv. str_of (fst kv)) (map ?h ys) = map ?h (sort_key fst ys)" for ys :: "(string \<times> pyval) list"
    using sort_key_map_comp [of "\<lambda>kv. str_of (fst kv)" ?h ys] unfolding f .
  ultimately show ?thesis unfolding canonical_py_dict canonical_items_def by (simp only: py_dict_def)
qed

lemma assoc_canonical_items: "assoc (canonical_items kvs) k = map_option canonical (assoc kvs k)"
  using getitem_canonical [of kvs k] unfolding canonical_items_dict getitem_py_dict
  by (cases "assoc kvs k"; cases "assoc (canonical_items kvs) k") simp_all

lemma canonical_items_keys: "set (map fst (canonical_items kvs)) = fst ` set kvs"
  by (force simp: canonical_items_def)

lemma canonical_items_distinct: "distinct (map fst kvs) \<Longrightarrow> distinct (map fst (canonical_items kvs))"
proof -
  have "map fst (map (\<lambda>(k, v). (k, canonical v)) kvs) = map fst kvs" by auto
  moreover have "mset (map fst (canonical_items kvs)) = mset (map fst (map (\<lambda>(k, v). (k, canonical v)) kvs))"
    unfolding canonical_items_def by (simp only: mset_map mset_sort)
  moreover assume "distinct (map fst kvs)"
  ultimately show ?thesis by (metis mset_eq_imp_distinct_iff)
qed

lemma canonical_items_sorted: "sorted (map fst (canonical_items kvs))"
  by (simp add: canonical_items_def)

text \<open>Two dictionaries that agree on every key have the same canonical form.\<close>

lemma canonical_eqI:
  assumes d: "distinct (map fst xs)" "distinct (map fst ys)"
    and a: "\<And>k. map_option canonical (assoc xs k) = map_option canonical (assoc ys k)"
  shows "canonical (py_dict xs) = canonical (py_dict ys)"
proof -
  note dx = canonical_items_distinct [OF d(1)] and dy = canonical_items_distinct [OF d(2)]
  have "(k, v) \<in> set (canonical_items xs) \<longleftrightarrow> (k, v) \<in> set (canonical_items ys)" for k v
    unfolding assoc_iff [OF dx, symmetric] assoc_iff [OF dy, symmetric] assoc_canonical_items a ..
  then have s: "set (canonical_items xs) = set (canonical_items ys)" by auto
  have "inj_on fst (set (canonical_items xs) \<union> set (canonical_items ys))"
    using dx unfolding s Un_absorb by (simp add: s distinct_map)
  then have "canonical_items xs = canonical_items ys"
    by (rule map_sorted_distinct_set_unique [OF _ canonical_items_sorted dx canonical_items_sorted dy s])
  then show ?thesis by (simp add: canonical_items_dict)
qed

lemma getitem_canonical_Inr:
  assumes "read_ok n p" "getitem p k = Inr v"
  shows "getitem (canonical p) k = Inr (canonical v)"
proof -
  obtain kvs0 where p: "p = PDict kvs0" using assms(2) by (cases p) auto
  obtain kvs where "PDict kvs0 = py_dict kvs" by (rule py_dict_of [OF assms(1) [unfolded p]])
  with assms(2) p show ?thesis by (simp add: getitem_py_dict_Inr getitem_canonical)
qed

section \<open>The canonical text of an event\<close>

definition event_line :: "canonical_event \<Rightarrow> string" where
  "event_line ev = canonical_json (event_to_dict ev)"

lemma event_shape_canonical:
  assumes e: "event_shape p kvs t v payload" and r: "read_ok n payload"
  shows "event_shape p (canonical_items kvs) t v (canonical payload)"
proof -
  have walk: "\<exists>m. walk (ps_limits p) 1 (py_dict (canonical_items kvs)) 0 = Inr m"
    using e walk_canonical unfolding event_shape_def canonical_items_dict [symmetric] by blast
  have keys: "fst ` set (canonical_items kvs) = fst ` set kvs" using canonical_items_keys by simp
  have valid: "validate_event_payload (PStr t) (canonical payload) (ps_limits p) (PStr v) = Inr ()"
    using e valid_payload_canonical [OF _ r] unfolding event_shape_def by blast
  have caps: "getitem payload ''capabilities'' = Inr (PList (map PStr cs)) \<Longrightarrow>
      getitem (canonical payload) ''capabilities'' = Inr (PList (map PStr cs))" for cs
    using getitem_canonical_Inr [OF r] by (force simp: comp_def)
  show ?thesis
    using e walk valid caps unfolding event_shape_def keys assoc_canonical_items
    by (simp add: option.simps) blast
qed

lemma event_dict_canonical:
  assumes e: "event_shape p kvs t v payload" and d: "distinct (map fst kvs)"
  shows "canonical (event_to_dict (event_at p t v payload)) = canonical (py_dict kvs)"
proof -
  let ?ev = "event_at p t v payload"
  let ?xs = "[(''protocol_version'', PStr (ev_protocol_version ?ev)), (''task_id'', PStr (ev_task_id ?ev)),
      (''run_id'', PStr (ev_run_id ?ev)), (''packet_digest'', PStr (ev_packet_digest ?ev)),
      (''sequence'', PInt (ev_sequence ?ev)), (''event_type'', PStr (ev_event_type ?ev)), (''payload'', ev_payload ?ev)]"
  have keys: "map fst ?xs = event_fields" by (simp add: event_fields_def)
  have a: "map_option canonical (assoc ?xs k) = map_option canonical (assoc kvs k)" for k
  proof (cases "k \<in> set event_fields")
    case True
    with e show ?thesis
      unfolding event_fields_def list.set event_shape_def
      by (elim insertE emptyE conjE exE) (simp_all add: assoc_Cons event_at_def canonical_idem)
  next
    case False
    have "fst ` set kvs = set event_fields" using e by (simp only: event_shape_def)
    moreover have "fst ` set ?xs = set event_fields" using keys by (metis set_map)
    ultimately show ?thesis using False assoc_None by metis
  qed
  have "distinct (map fst ?xs)" unfolding keys event_fields_def by simp
  from canonical_eqI [OF this d a] show ?thesis by (simp add: event_to_dict_def)
qed

lemma event_float_free:
  assumes e: "event_shape p kvs t v payload" and d: "distinct (map fst kvs)" and f: "float_free payload"
  shows "float_free (py_dict kvs)"
proof -
  have "float_free w" if kw: "(k, w) \<in> set kvs" for k w
  proof -
    have a: "assoc kvs k = Some w" using kw assoc_iff [OF d] by simp
    have "fst ` set kvs = set event_fields" using e by (simp only: event_shape_def)
    then have k: "k \<in> set event_fields" using kw by force
    have s: "assoc kvs ''protocol_version'' = Some (PStr v)" "assoc kvs ''task_id'' = Some (PStr (ps_task_id p))"
      "assoc kvs ''run_id'' = Some (PStr (ps_run_id p))" "assoc kvs ''packet_digest'' = Some (PStr (ps_packet_digest p))"
      "assoc kvs ''sequence'' = Some (PInt (int (length (ps_events p)) + 1))" "assoc kvs ''event_type'' = Some (PStr t)"
      "assoc kvs ''payload'' = Some payload"
      using e by (simp_all only: event_shape_def)
    show ?thesis
      using k unfolding event_fields_def list.set by (elim insertE emptyE) (use a s f in auto)
  qed
  then show ?thesis by (auto simp: float_free_py_dict)
qed

text \<open>What an accepted line and the line the factory would write for its event have in common.\<close>

lemma accepted_line:
  assumes "parse_line stack p raw = (q, Inr ev)"
  obtains kvs t v payload m where "event_line ev = canonical_json (py_dict kvs)"
    "read_ok stack (py_dict kvs)" "float_free (py_dict kvs)" "encodable (py_dict kvs)" "read_ok m payload"
    "strict_json_object stack raw = Inr (py_dict kvs)" "\<not> ps_terminal p"
    "int (length (ps_events p)) < pl_max_events (ps_limits p)" "event_shape p kvs t v payload"
    "q = mark_end p t" "ev = event_at p t v payload"
proof -
  obtain kvs t v payload where k: "distinct (map fst kvs)" "read_ok stack (py_dict kvs)"
    "\<forall>(k, v)\<in>set kvs. \<exists>m. read_ok m v" "strict_json_object stack raw = Inr (py_dict kvs)"
    and o: "\<not> ps_terminal p" "int (length (ps_events p)) < pl_max_events (ps_limits p)"
    and e: "event_shape p kvs t v payload" and q: "q = mark_end p t" "ev = event_at p t v payload"
    by (rule parse_line_Inr [OF assms])
  have "assoc kvs ''payload'' = Some payload" using e by (simp only: event_shape_def)
  then obtain m where r: "read_ok m payload" using k(3) assoc_iff [OF k(1)] by blast
  have valid: "validate_event_payload (PStr t) payload (ps_limits p) (PStr v) = Inr ()" using e by (simp only: event_shape_def)
  have f: "float_free (py_dict kvs)" using event_float_free [OF e k(1)] valid_payload_canonical [OF valid r] by blast
  obtain n where "walk (ps_limits p) 1 (py_dict kvs) 0 = Inr n" using e unfolding event_shape_def by blast
  then have c: "encodable (py_dict kvs)" using admissible_encodable [of "ps_limits p" "py_dict kvs"] by (simp add: walk_Inr)
  have l: "event_line ev = canonical_json (py_dict kvs)"
    by (simp add: event_line_def canonical_json_def q event_dict_canonical [OF e k(1)])
  show ?thesis by (rule that [OF l k(2) f c r k(4) o e q])
qed

text \<open>The line the factory itself would write for an accepted event is accepted, with the same result.\<close>

lemma parse_line_again:
  assumes "parse_line stack p raw = (q, Inr ev)"
  shows "parse_line stack p (event_line ev) = (q, Inr ev)"
proof -
  obtain kvs t v payload m where l: "event_line ev = canonical_json (py_dict kvs)"
    and k: "read_ok stack (py_dict kvs)" "float_free (py_dict kvs)" "encodable (py_dict kvs)" and r: "read_ok m payload"
    and o: "\<not> ps_terminal p" "int (length (ps_events p)) < pl_max_events (ps_limits p)"
    and e: "event_shape p kvs t v payload" and q: "q = mark_end p t" "ev = event_at p t v payload"
    by (rule accepted_line [OF assms])
  have "strict_json_object stack (event_line ev) = Inr (canonical (py_dict kvs))"
    using canonical_json_reads_back [OF k, of "ProtocolError ''nonfinite_number''" "ProtocolError ''duplicate_key''"]
    unfolding l strict_json_object_def
    by (cases "decode_utf8 (canonical_json (py_dict kvs))") (simp_all add: is_mapping_canonical)
  moreover have e': "event_shape p (canonical_items kvs) t v (canonical payload)" by (rule event_shape_canonical [OF e r])
  then have "check_event p (canonical (py_dict kvs)) = Inr ()" unfolding canonical_items_dict check_event_Inr by blast
  ultimately have "check_line stack p (event_line ev) = Inr (py_dict (canonical_items kvs))"
    using o by (simp add: check_line_def canonical_items_dict)
  from parse_line_shape [OF this e'] show ?thesis by (simp add: q event_at_def canonical_idem)
qed

lemma plain_read_ok: "read_ok n v \<Longrightarrow> float_free v \<Longrightarrow> plain v"
proof (induction v arbitrary: n)
  case (PList xs)
  then show ?case by (cases n) (auto simp: list_all_iff)
next
  case (PDict kvs)
  then show ?case by (cases n) (fastforce simp: list_all_iff)+
qed simp_all

text \<open>That line has no newline and is no longer than the line that was read.\<close>

lemma event_line_fits:
  assumes "parse_line stack p raw = (q, Inr ev)"
  shows "newline \<notin> set (event_line ev) \<and> event_line ev \<noteq> [] \<and> length (event_line ev) \<le> length raw"
proof -
  obtain kvs where l: "event_line ev = canonical_json (py_dict kvs)"
    and k: "read_ok stack (py_dict kvs)" "float_free (py_dict kvs)" "encodable (py_dict kvs)"
    and s: "strict_json_object stack raw = Inr (py_dict kvs)"
    by (rule accepted_line [OF assms]) blast
  have "json_loads (ProtocolError ''nonfinite_number'') (ProtocolError ''duplicate_key'') stack raw = Inr (py_dict kvs)"
    using s by (auto simp: strict_json_object_def res_simps decode_utf8_def split: if_splits)
  note short = json_loads_prints [OF this k(2)]
  have p: "plain (canonical (py_dict kvs))" using plain_read_ok canonical_read_ok [OF k] by blast
  show ?thesis
    using newline_text [OF p] json_text_head [OF p] short
    by (auto simp: l canonical_json_def length_canonical_text newline_def)
qed

section \<open>Lines and buffers\<close>

text \<open>The parser looks at its buffer and its count of bytes only in \<open>feed\<close>.\<close>

definition rebuffer :: "string \<Rightarrow> int \<Rightarrow> event_parser \<Rightarrow> event_parser" where
  "rebuffer b n p = p\<lparr>ps_buffer := b, ps_bytes := n\<rparr>"

lemma rebuffer_simps [simp]:
  "ps_task_id (rebuffer b n p) = ps_task_id p" "ps_run_id (rebuffer b n p) = ps_run_id p"
  "ps_packet_digest (rebuffer b n p) = ps_packet_digest p" "ps_capabilities (rebuffer b n p) = ps_capabilities p"
  "ps_limits (rebuffer b n p) = ps_limits p" "ps_events (rebuffer b n p) = ps_events p"
  "ps_terminal (rebuffer b n p) = ps_terminal p" "ps_buffer (rebuffer b n p) = b" "ps_bytes (rebuffer b n p) = n"
  "(rebuffer b n p)\<lparr>ps_buffer := c\<rparr> = rebuffer c n p" "rebuffer b n (rebuffer c m p) = rebuffer b n p"
  "(rebuffer b n p)\<lparr>ps_events := evs\<rparr> = rebuffer b n (p\<lparr>ps_events := evs\<rparr>)"
  "(rebuffer b n p)\<lparr>ps_terminal := t\<rparr> = rebuffer b n (p\<lparr>ps_terminal := t\<rparr>)"
  by (simp_all add: rebuffer_def)

lemma rebuffer_self: "rebuffer (ps_buffer p) (ps_bytes p) p = p"
  by (simp add: rebuffer_def)

lemma buffer_rebuffer: "p\<lparr>ps_buffer := b\<rparr> = rebuffer b (ps_bytes p) p"
  by (simp add: rebuffer_def)

lemma check_line_rebuffer: "check_line stack (rebuffer b n p) raw = check_line stack p raw"
  by (simp only: check_line_def check_event_def rebuffer_simps)

lemma parse_line_rebuffer:
  "parse_line stack p raw = (q, m) \<Longrightarrow> parse_line stack (rebuffer b n p) raw = (rebuffer b n q, m)"
  by (cases "check_line stack p raw") (auto simp: parse_line_def check_line_rebuffer split: if_splits)

lemma parse_line_kept:
  assumes "parse_line stack p raw = (q, m)"
  shows "ps_bytes q = ps_bytes p \<and> ps_buffer q = ps_buffer p \<and> ps_limits q = ps_limits p \<and> ps_events q = ps_events p"
  using assms by (auto simp: parse_line_def split: sum.splits if_splits)

text \<open>One accepted line, and then the rest.\<close>

definition taken :: "event_parser \<Rightarrow> canonical_event \<Rightarrow> event_parser" where
  "taken q ev = q\<lparr>ps_events := ps_events q @ [ev]\<rparr>"

lemma taken_simps [simp]: "ps_events (taken q ev) = ps_events q @ [ev]" "ps_buffer (taken q ev) = ps_buffer q"
  "ps_bytes (taken q ev) = ps_bytes q" "ps_limits (taken q ev) = ps_limits q" "ps_terminal (taken q ev) = ps_terminal q"
  "taken (rebuffer b n q) ev = rebuffer b n (taken q ev)"
  by (simp_all add: taken_def rebuffer_def)

lemma feed_lines_partial:
  "newline \<notin> set (ps_buffer p) \<Longrightarrow> feed_lines stack p em =
     (p, if pl_max_line_bytes (ps_limits p) < int (length (ps_buffer p))
         then Inl (protocol_error ''line_too_large'') else Inr em)"
  by (simp add: feed_lines.simps [of stack p em])

lemma feed_lines_line:
  assumes "newline \<notin> set raw"
  shows "feed_lines stack (rebuffer (raw @ newline # rest) n p) em =
     (let p' = rebuffer rest n p in
      if pl_max_line_bytes (ps_limits p) < int (length raw) then (p', Inl (protocol_error ''line_too_large''))
      else if raw = [] then (p', Inl (protocol_error ''invalid_json''))
      else case parse_line stack p' raw of
             (q, Inl e) \<Rightarrow> (q, Inl e)
           | (q, Inr ev) \<Rightarrow> feed_lines stack (taken q ev) (em @ [ev]))"
proof -
  have t: "takeWhile (\<lambda>c. c \<noteq> newline) (raw @ newline # rest) = raw"
    using assms by (induction raw) auto
  show ?thesis
    by (subst feed_lines.simps) (simp add: t Let_def taken_def)
qed

text \<open>A successful run of \<open>feed_lines\<close>, by induction on the lines it takes.\<close>

lemma feed_lines_induct [consumes 1, case_names partial line]:
  assumes "feed_lines stack p em = (q, Inr em')"
    and partial: "\<And>p em. newline \<notin> set (ps_buffer p) \<Longrightarrow> int (length (ps_buffer p)) \<le> pl_max_line_bytes (ps_limits p) \<Longrightarrow>
      P p em p em"
    and line: "\<And>p em q em' r ev raw rest. newline \<notin> set raw \<Longrightarrow> raw \<noteq> [] \<Longrightarrow>
      int (length raw) \<le> pl_max_line_bytes (ps_limits p) \<Longrightarrow> ps_buffer p = raw @ newline # rest \<Longrightarrow>
      parse_line stack (rebuffer rest (ps_bytes p) p) raw = (r, Inr ev) \<Longrightarrow>
      feed_lines stack (taken r ev) (em @ [ev]) = (q, Inr em') \<Longrightarrow> P (taken r ev) (em @ [ev]) q em' \<Longrightarrow> P p em q em'"
  shows "P p em q em'"
  using assms(1)
proof (induction "length (ps_buffer p)" arbitrary: p em rule: less_induct)
  case less
  show ?case
  proof (cases "newline \<in> set (ps_buffer p)")
    case False
    with less.prems partial show ?thesis by (auto simp: feed_lines_partial split: if_splits)
  next
    case True
    then obtain raw rest where b: "ps_buffer p = raw @ newline # rest" "newline \<notin> set raw"
      using split_list_first by metis
    have p: "p = rebuffer (raw @ newline # rest) (ps_bytes p) p" using rebuffer_self [of p] b(1) by simp
    have f: "feed_lines stack (rebuffer (raw @ newline # rest) (ps_bytes p) p) em = (q, Inr em')"
      using less.prems p by simp
    obtain r m where r: "parse_line stack (rebuffer rest (ps_bytes p) p) raw = (r, m)" by fastforce
    from f obtain ev where e: "m = Inr ev" "feed_lines stack (taken r ev) (em @ [ev]) = (q, Inr em')" "raw \<noteq> []"
      "int (length raw) \<le> pl_max_line_bytes (ps_limits p)"
      unfolding feed_lines_line [OF b(2)] Let_def r by (auto split: if_splits sum.splits)
    have "ps_buffer r = rest" using parse_line_kept [OF r] by simp
    then have "P (taken r ev) (em @ [ev]) q em'" using less.hyps [OF _ e(2)] b(1) by simp
    with line [OF b(2) e(3,4) b(1)] r e show ?thesis by simp
  qed
qed

end
