(* ===== verification/EventProperties.thy ===== *)
theory EventProperties
  imports EventStream
begin

text \<open>
  What the parser of \<open>protocol.py\<close> promises of a whole stream: it does not depend on how the bytes are cut
  into chunks, an accepted stream is a well-formed run of events, and the factory's own text of those events
  is accepted with the same result.
\<close>

section \<open>Emitting\<close>

lemma feed_lines_emitted:
  "feed_lines stack p (em0 @ em) = apsnd (\<lambda>m. bnd m (\<lambda>x. Inr (em0 @ x))) (feed_lines stack p em)"
proof (induction "length (ps_buffer p)" arbitrary: p em rule: less_induct)
  case less
  show ?case
  proof (cases "newline \<in> set (ps_buffer p)")
    case False
    then show ?thesis by (simp add: feed_lines_partial)
  next
    case True
    then obtain raw rest where b: "ps_buffer p = raw @ newline # rest" "newline \<notin> set raw"
      using split_list_first by metis
    have p: "p = rebuffer (raw @ newline # rest) (ps_bytes p) p" using rebuffer_self [of p] b(1) by simp
    obtain r m where r: "parse_line stack (rebuffer rest (ps_bytes p) p) raw = (r, m)" by fastforce
    have "ps_buffer r = rest" using parse_line_kept [OF r] by simp
    then have "feed_lines stack (taken r ev) (em0 @ em @ [ev]) =
        apsnd (\<lambda>m. bnd m (\<lambda>x. Inr (em0 @ x))) (feed_lines stack (taken r ev) (em @ [ev]))" for ev
      using less.hyps [of "taken r ev"] b(1) by simp
    then have "feed_lines stack (rebuffer (raw @ newline # rest) (ps_bytes p) p) (em0 @ em) =
        apsnd (\<lambda>m. bnd m (\<lambda>x. Inr (em0 @ x))) (feed_lines stack (rebuffer (raw @ newline # rest) (ps_bytes p) p) em)"
      unfolding feed_lines_line [OF b(2)] Let_def r by (simp split: sum.split)
    then show ?thesis using p by simp
  qed
qed

section \<open>The canonical log\<close>

definition log_text :: "canonical_event list \<Rightarrow> string" where
  "log_text evs = concat (map (\<lambda>e. event_line e @ [newline]) evs)"

lemma log_text_simps [simp]:
  "log_text [] = []" "log_text (e # evs) = event_line e @ newline # log_text evs"
  by (simp_all add: log_text_def)

lemma feed_lines_log:
  assumes "feed_lines stack p em = (q, Inr em')"
  shows "\<exists>new. em' = em @ new \<and> ps_events q = ps_events p @ new \<and> ps_limits q = ps_limits p \<and> ps_bytes q = ps_bytes p \<and>
    newline \<notin> set (ps_buffer q) \<and> int (length (ps_buffer q)) \<le> pl_max_line_bytes (ps_limits p) \<and>
    length (log_text new) + length (ps_buffer q) \<le> length (ps_buffer p) \<and>
    (\<forall>n em. feed_lines stack (rebuffer (log_text new) n p) em = (rebuffer [] n q, Inr (em @ new)))"
  using assms
proof (induction rule: feed_lines_induct)
  case (partial p em)
  then show ?case by (intro exI [of _ "[]"]) (simp add: feed_lines_partial)
next
  case (line p em q em' r ev raw rest)
  note kept = parse_line_kept [OF line(5)]
  note fits = event_line_fits [OF line(5)]
  from line.IH obtain new where new: "em' = (em @ [ev]) @ new" "ps_events q = ps_events (taken r ev) @ new"
    "ps_limits q = ps_limits (taken r ev)" "ps_bytes q = ps_bytes (taken r ev)" "newline \<notin> set (ps_buffer q)"
    "int (length (ps_buffer q)) \<le> pl_max_line_bytes (ps_limits (taken r ev))"
    "length (log_text new) + length (ps_buffer q) \<le> length (ps_buffer (taken r ev))"
    and f: "\<And>n em. feed_lines stack (rebuffer (log_text new) n (taken r ev)) em = (rebuffer [] n q, Inr (em @ new))"
    by blast
  have "feed_lines stack (rebuffer (event_line ev @ newline # log_text new) n p) em = (rebuffer [] n q, Inr (em @ ev # new))"
    for n em
  proof -
    have "parse_line stack (rebuffer (log_text new) n p) (event_line ev) = (rebuffer (log_text new) n r, Inr ev)"
      using parse_line_rebuffer [OF parse_line_again [OF line(5)], of "log_text new" n] by simp
    then show ?thesis
      using fits line(3) f [of n "em @ [ev]"] by (simp add: feed_lines_line Let_def)
  qed
  with new kept fits line(4) show ?case by (intro exI [of _ "ev # new"]) simp
qed

section \<open>Chunks\<close>

text \<open>Reading some of the bytes first makes no difference.\<close>

lemma feed_lines_more:
  assumes "feed_lines stack p em = (q, Inr em')"
  shows "feed_lines stack (rebuffer (ps_buffer p @ b) n p) em = feed_lines stack (rebuffer (ps_buffer q @ b) n q) em'"
  using assms
proof (induction rule: feed_lines_induct)
  case (line p em q em' r ev raw rest)
  note kept = parse_line_kept [OF line(5)]
  have "parse_line stack (rebuffer (rest @ b) n p) raw = (rebuffer (rest @ b) n r, Inr ev)"
    using parse_line_rebuffer [OF line(5), of "rest @ b" n] by simp
  then have "feed_lines stack (rebuffer (raw @ newline # rest @ b) n p) em =
      feed_lines stack (rebuffer (rest @ b) n (taken r ev)) (em @ [ev])"
    using line(1-3) by (simp add: feed_lines_line Let_def)
  with line.IH kept line(4) show ?case by simp
qed simp

lemma feed_lines_less:
  assumes "feed_lines stack p em = (q, Inr em')" "ps_buffer p = a @ b"
  shows "\<exists>r x. feed_lines stack (rebuffer a n p) em = (r, Inr x)"
  using assms
proof (induction arbitrary: a rule: feed_lines_induct)
  case (partial p em)
  then show ?case by (simp add: feed_lines_partial)
next
  case (line p em q em' r ev raw rest)
  from line.prems line(4) have "raw @ newline # rest = a @ b" by simp
  then obtain us where "raw = a @ us \<or> raw @ us = a \<and> newline # rest = us @ b"
    unfolding append_eq_append_conv2 by blast
  then consider c where "raw = a @ c" | c where "a = raw @ newline # c" "rest = c @ b"
    by (cases us) auto
  then show ?case
  proof cases
    case 1
    with line(1,3) show ?thesis by (simp add: feed_lines_partial)
  next
    case 2
    have "ps_buffer (taken r ev) = c @ b" using parse_line_kept [OF line(5)] 2(2) by simp
    from line.IH [OF this] obtain u x where
      u: "feed_lines stack (rebuffer c n (taken r ev)) (em @ [ev]) = (u, Inr x)" by blast
    have "parse_line stack (rebuffer c n p) raw = (rebuffer c n r, Inr ev)"
      using parse_line_rebuffer [OF line(5), of c n] by simp
    then have "feed_lines stack (rebuffer (raw @ newline # c) n p) em = (u, Inr x)"
      using line(1-3) u by (simp add: feed_lines_line Let_def)
    with 2 show ?thesis by simp
  qed
qed

section \<open>Feeding\<close>

text \<open>A parser between two calls of \<open>feed\<close>, none of which raised.\<close>

definition waiting :: "event_parser \<Rightarrow> bool" where
  "waiting p = (newline \<notin> set (ps_buffer p) \<and> int (length (ps_buffer p)) \<le> pl_max_line_bytes (ps_limits p) \<and>
     ps_bytes p \<le> pl_max_stream_bytes (ps_limits p))"

lemma feed_rebuffer:
  "feed stack p chunk =
     (let n = ps_bytes p + int (length chunk) in
      if pl_max_stream_bytes (ps_limits p) < n then (rebuffer (ps_buffer p) n p, Inl (protocol_error ''stream_too_large''))
      else feed_lines stack (rebuffer (ps_buffer p @ chunk) n p) [])"
  by (cases p) (simp add: feed_def rebuffer_def Let_def)

lemma feed_Inr:
  "feed stack p chunk = (q, Inr evs) \<longleftrightarrow>
     ps_bytes p + int (length chunk) \<le> pl_max_stream_bytes (ps_limits p) \<and>
     feed_lines stack (rebuffer (ps_buffer p @ chunk) (ps_bytes p + int (length chunk)) p) [] = (q, Inr evs)"
  by (auto simp: feed_rebuffer Let_def)

lemma feed_kept:
  assumes "feed stack p chunk = (q, Inr evs)"
  shows "waiting q \<and> ps_limits q = ps_limits p \<and> ps_bytes q = ps_bytes p + int (length chunk) \<and>
    ps_events q = ps_events p @ evs"
proof -
  note f = assms [unfolded feed_Inr]
  from feed_lines_log [OF conjunct2 [OF f]] f show ?thesis by (auto simp: waiting_def)
qed

lemma feed_append:
  assumes "feed stack p a = (q, Inr x)"
  shows "feed stack p (a @ b) = (r, Inr z) \<longleftrightarrow> (\<exists>y. feed stack q b = (r, Inr y) \<and> z = x @ y)"
proof -
  note k = feed_kept [OF assms]
  let ?n = "ps_bytes p + int (length a) + int (length b)"
  have "feed_lines stack (rebuffer (ps_buffer p @ a @ b) ?n p) [] = feed_lines stack (rebuffer (ps_buffer q @ b) ?n q) x"
    using feed_lines_more [OF conjunct2 [OF assms [unfolded feed_Inr]], of b ?n] by simp
  also have "\<dots> = apsnd (\<lambda>m. bnd m (\<lambda>y. Inr (x @ y))) (feed_lines stack (rebuffer (ps_buffer q @ b) ?n q) [])"
    using feed_lines_emitted [of stack _ x "[]"] by simp
  finally have e: "feed_lines stack (rebuffer (ps_buffer p @ a @ b) ?n p) [] = (r, Inr z) \<longleftrightarrow>
      (\<exists>y. feed_lines stack (rebuffer (ps_buffer q @ b) ?n q) [] = (r, Inr y) \<and> z = x @ y)"
    by (cases "feed_lines stack (rebuffer (ps_buffer q @ b) ?n q) []") (auto simp: bnd_Inr_iff)
  show ?thesis unfolding feed_Inr using k e by (simp add: add.assoc)
qed

lemma feed_prefix:
  assumes "feed stack p (a @ b) = (r, Inr z)"
  shows "\<exists>q x. feed stack p a = (q, Inr x)"
proof -
  note f = assms [unfolded feed_Inr]
  let ?n = "ps_bytes p + int (length a)"
  obtain q x where "feed_lines stack (rebuffer (ps_buffer p @ a) ?n p) [] = (q, Inr x)"
    using feed_lines_less [OF conjunct2 [OF f], of "ps_buffer p @ a" b ?n] by auto
  then have "feed stack p a = (q, Inr x)" using f by (simp add: feed_Inr)
  then show ?thesis by blast
qed

lemma feed_nothing: "waiting p \<Longrightarrow> feed stack p [] = (p, Inr [])"
  by (simp add: feed_Inr waiting_def feed_lines_partial rebuffer_self)

text \<open>A stream that arrives in chunks, each fed to the parser the one before it left.\<close>

fun feed_chunks :: "nat \<Rightarrow> event_parser \<Rightarrow> string list \<Rightarrow> event_parser \<times> canonical_event list res" where
  "feed_chunks stack p [] = (p, Inr [])"
| "feed_chunks stack p (c # cs) =
     (case feed stack p c of
        (q, Inl e) \<Rightarrow> (q, Inl e)
      | (q, Inr x) \<Rightarrow> apsnd (\<lambda>m. bnd m (\<lambda>y. Inr (x @ y))) (feed_chunks stack q cs))"

lemma feed_chunks_Cons:
  "feed_chunks stack p (c # cs) = (r, Inr z) \<longleftrightarrow>
     (\<exists>q x y. feed stack p c = (q, Inr x) \<and> feed_chunks stack q cs = (r, Inr y) \<and> z = x @ y)"
proof -
  have "apsnd (\<lambda>m. bnd m (\<lambda>y. Inr (x @ y))) s = (r, Inr z) \<longleftrightarrow> (\<exists>y. s = (r, Inr y) \<and> z = x @ y)" for x and s :: "event_parser \<times> canonical_event list res"
    by (cases s) (auto simp: bnd_Inr_iff)
  then show ?thesis by (cases "feed stack p c") (auto split: sum.splits)
qed

lemma feed_chunks_concat:
  "waiting p \<Longrightarrow> feed_chunks stack p cs = (r, Inr z) \<longleftrightarrow> feed stack p (concat cs) = (r, Inr z)"
proof (induction cs arbitrary: p z)
  case Nil
  then show ?case by (auto simp: feed_nothing)
next
  case (Cons c cs)
  show ?case
  proof (cases "\<exists>q x. feed stack p c = (q, Inr x)")
    case True
    then obtain q x where q: "feed stack p c = (q, Inr x)" by blast
    then show ?thesis
      using Cons.IH [of q] feed_kept [OF q] feed_append [OF q, of "concat cs"]
      by (auto simp: feed_chunks_Cons simp del: feed_chunks.simps)
  next
    case False
    then show ?thesis using feed_prefix [of stack p c "concat cs"]
      by (auto simp: feed_chunks_Cons simp del: feed_chunks.simps)
  qed
qed

section \<open>Accepted streams\<close>

text \<open>An event as the parser of a run may take it.\<close>

definition event_ok :: "event_parser \<Rightarrow> canonical_event \<Rightarrow> bool" where
  "event_ok p e =
     (ev_protocol_version e \<in> set protocol_versions \<and> ev_event_type e \<in> set EVENTS \<and>
      ev_task_id e = ps_task_id p \<and> ev_run_id e = ps_run_id p \<and> ev_packet_digest e = ps_packet_digest p \<and>
      (case assoc CAPABILITY (ev_event_type e) of None \<Rightarrow> True | Some c \<Rightarrow> c \<in> set (ps_capabilities p)) \<and>
      validate_event_payload (PStr (ev_event_type e)) (ev_payload e) (ps_limits p) (PStr (ev_protocol_version e)) = Inr ())"

definition terminal_event :: "canonical_event \<Rightarrow> bool" where
  "terminal_event e = (ev_event_type e \<in> set TERMINAL_EVENTS)"

text \<open>The events of a run: numbered from one, within the limit, and nothing after the first terminal one.\<close>

definition stream_ok :: "event_parser \<Rightarrow> canonical_event list \<Rightarrow> bool" where
  "stream_ok p evs =
     (map ev_sequence evs = map int [1..<Suc (length evs)] \<and> int (length evs) \<le> max 0 (pl_max_events (ps_limits p)) \<and>
      list_all (event_ok p) evs \<and> list_all (\<lambda>e. \<not> terminal_event e) (butlast evs))"

text \<open>A payload is a dictionary with distinct keys.\<close>

definition dict_payload :: "canonical_event \<Rightarrow> bool" where
  "dict_payload e = (\<exists>kvs. ev_payload e = py_dict kvs \<and> distinct (map fst kvs))"

definition parser_ok :: "event_parser \<Rightarrow> bool" where
  "parser_ok p = (stream_ok p (ps_events p) \<and> (ps_terminal p \<longleftrightarrow> list_ex terminal_event (ps_events p)) \<and>
     list_all dict_payload (ps_events p))"

lemma canonical_dict_payload:
  assumes "read_ok n payload" "is_mapping payload"
  shows "\<exists>kvs. canonical payload = py_dict kvs \<and> distinct (map fst kvs)"
proof -
  obtain kvs0 where p: "payload = PDict kvs0" using assms(2) by (cases payload) auto
  obtain kvs where "PDict kvs0 = py_dict kvs" "distinct (map fst kvs)" by (rule py_dict_of [OF assms(1) [unfolded p]])
  then show ?thesis using canonical_items_dict canonical_items_distinct p by auto
qed

lemma new_parser_ok: "parser_ok (new_parser t r d caps l)"
  by (simp add: parser_ok_def stream_ok_def new_parser_def)

lemma event_ok_cong:
  assumes "ps_task_id q = ps_task_id p" "ps_run_id q = ps_run_id p" "ps_packet_digest q = ps_packet_digest p"
    "ps_capabilities q = ps_capabilities p" "ps_limits q = ps_limits p"
  shows "event_ok q = event_ok p" "stream_ok q = stream_ok p"
proof -
  have "event_ok q e = event_ok p e" for e by (simp only: event_ok_def assms)
  then show e: "event_ok q = event_ok p" by blast
  show "stream_ok q = stream_ok p" by (simp only: stream_ok_def assms e fun_eq_iff) simp
qed

lemma parser_ok_line:
  assumes "parse_line stack p raw = (q, Inr ev)" "parser_ok p"
  shows "parser_ok (taken q ev) \<and> event_ok (taken q ev) = event_ok p \<and> stream_ok (taken q ev) = stream_ok p"
proof -
  obtain t v payload m where r: "read_ok m payload" and o: "\<not> ps_terminal p" "int (length (ps_events p)) < pl_max_events (ps_limits p)"
    and e: "\<exists>kvs. event_shape p kvs t v payload" and q: "q = mark_end p t" "ev = event_at p t v payload"
    by (rule accepted_line [OF assms(1)]) blast
  have valid: "validate_event_payload (PStr t) payload (ps_limits p) (PStr v) = Inr ()"
    and c: "v \<in> set protocol_versions" "t \<in> set EVENTS" "\<forall>c. assoc CAPABILITY t = Some c \<longrightarrow> c \<in> set (ps_capabilities p)"
    using e unfolding event_shape_def by blast+
  have "validate_event_payload (PStr t) (canonical payload) (ps_limits p) (PStr v) = Inr ()"
    using valid_payload_canonical [OF valid r] by blast
  then have ok: "event_ok p ev"
    using c by (auto simp: event_ok_def q event_at_def split: option.split)
  have same: "event_ok (taken q ev) = event_ok p" "stream_ok (taken q ev) = stream_ok p"
    by (rule event_ok_cong; simp add: taken_def q mark_end_def)+
  have none: "list_all (\<lambda>e. \<not> terminal_event e) (ps_events p)"
    using assms(2) o(1) by (auto simp: parser_ok_def list_ex_iff list_all_iff)
  have ends: "ps_terminal q \<longleftrightarrow> t \<in> set TERMINAL_EVENTS" using o(1) by (simp add: q mark_end_def)
  have events: "ps_events q = ps_events p" by (simp add: q mark_end_def)
  have "stream_ok p (ps_events p @ [ev])"
    using assms(2) o(2) none ok by (simp add: parser_ok_def stream_ok_def q event_at_def)
  moreover have "dict_payload ev"
    using canonical_dict_payload [OF r] valid unfolding validate_Inr by (auto simp: dict_payload_def q event_at_def)
  moreover have "list_all dict_payload (ps_events p)" using assms(2) by (simp add: parser_ok_def)
  moreover have "list_ex terminal_event (ps_events p @ [ev]) \<longleftrightarrow> t \<in> set TERMINAL_EVENTS"
    using none by (auto simp: list_ex_iff list_all_iff terminal_event_def q event_at_def)
  ultimately show ?thesis using same ends events by (simp add: parser_ok_def)
qed

lemma parser_ok_rebuffer: "parser_ok (rebuffer b n p) = parser_ok p" "stream_ok (rebuffer b n p) = stream_ok p"
  using event_ok_cong(2) [of "rebuffer b n p" p] by (simp_all add: parser_ok_def)

lemma feed_lines_ok:
  assumes "feed_lines stack p em = (q, Inr em')" "parser_ok p"
  shows "parser_ok q \<and> stream_ok q = stream_ok p"
  using assms
proof (induction rule: feed_lines_induct)
  case (line p em q em' r ev raw rest)
  with parser_ok_line [OF line(5)] show ?case by (simp add: parser_ok_rebuffer)
qed simp

lemma feed_ok: "feed stack p chunk = (q, Inr evs) \<Longrightarrow> parser_ok p \<Longrightarrow> parser_ok q \<and> stream_ok q = stream_ok p"
  unfolding feed_Inr by (elim conjE) (drule feed_lines_ok; simp add: parser_ok_rebuffer)

lemma feed_chunks_ok:
  "feed_chunks stack p cs = (q, Inr evs) \<Longrightarrow> parser_ok p \<Longrightarrow>
   parser_ok q \<and> stream_ok q = stream_ok p \<and> ps_events q = ps_events p @ evs"
proof (induction cs arbitrary: p evs)
  case (Cons c cs)
  then obtain r x y where "feed stack p c = (r, Inr x)" "feed_chunks stack r cs = (q, Inr y)" "evs = x @ y"
    by (auto simp: feed_chunks_Cons simp del: feed_chunks.simps)
  with Cons feed_ok [of stack p c r x] feed_kept [of stack p c r x] show ?case by auto
qed simp

lemma finish_Inr: "finish p = Inr evs \<longleftrightarrow> ps_buffer p = [] \<and> ps_terminal p \<and> evs = ps_events p"
  by (auto simp: finish_def bnd_Inr_iff ensure_Inr_iff)

text \<open>What \<open>finish\<close> returns.\<close>

lemma finished_stream:
  assumes "feed_chunks stack (new_parser task_id run_id packet_digest caps l) pieces = (q, Inr emitted)"
    and "finish q = Inr evs"
  shows "emitted = evs \<and> evs \<noteq> [] \<and> int (length evs) \<le> pl_max_events l \<and>
    map ev_sequence evs = map int [1..<Suc (length evs)] \<and>
    list_all (\<lambda>e. ev_protocol_version e \<in> set protocol_versions \<and> ev_event_type e \<in> set EVENTS \<and>
      ev_task_id e = task_id \<and> ev_run_id e = run_id \<and> ev_packet_digest e = packet_digest \<and>
      (case assoc CAPABILITY (ev_event_type e) of None \<Rightarrow> True | Some c \<Rightarrow> c \<in> set caps) \<and>
      validate_event_payload (PStr (ev_event_type e)) (ev_payload e) l (PStr (ev_protocol_version e)) = Inr ()) evs \<and>
    list_all (\<lambda>e. ev_event_type e \<notin> set TERMINAL_EVENTS) (butlast evs) \<and>
    ev_event_type (last evs) \<in> set TERMINAL_EVENTS"
proof -
  let ?p = "new_parser task_id run_id packet_digest caps l"
  have f: "ps_terminal q" "evs = ps_events q" using assms(2) by (simp_all add: finish_Inr)
  have p: "ps_events ?p = []" by (simp add: new_parser_def)
  have "parser_ok q \<and> stream_ok q = stream_ok ?p \<and> ps_events q = ps_events ?p @ emitted"
    by (rule feed_chunks_ok [OF assms(1) new_parser_ok])
  then have s: "stream_ok ?p evs" and emitted: "emitted = evs" and t: "list_ex terminal_event evs"
    using f by (auto simp: parser_ok_def p)
  then have "evs \<noteq> []" by auto
  then have evs: "evs = butlast evs @ [last evs]" by simp
  then have "list_ex terminal_event (butlast evs @ [last evs])" using t by simp
  then have "terminal_event (last evs)" using s by (auto simp: stream_ok_def list_ex_iff list_all_iff)
  moreover have "event_ok ?p = (\<lambda>e. ev_protocol_version e \<in> set protocol_versions \<and> ev_event_type e \<in> set EVENTS \<and>
      ev_task_id e = task_id \<and> ev_run_id e = run_id \<and> ev_packet_digest e = packet_digest \<and>
      (case assoc CAPABILITY (ev_event_type e) of None \<Rightarrow> True | Some c \<Rightarrow> c \<in> set caps) \<and>
      validate_event_payload (PStr (ev_event_type e)) (ev_payload e) l (PStr (ev_protocol_version e)) = Inr ())"
    by (rule ext) (unfold event_ok_def new_parser_def event_parser.simps, rule refl)
  moreover have "int (length evs) \<le> max 0 (pl_max_events l)" "0 < int (length evs)"
    using s \<open>evs \<noteq> []\<close> by (simp_all add: stream_ok_def new_parser_def)
  then have "int (length evs) \<le> pl_max_events l" by linarith
  ultimately show ?thesis using s emitted \<open>evs \<noteq> []\<close> unfolding stream_ok_def terminal_event_def by (simp only: HOL.simp_thms)
qed

section \<open>Example\<close>

definition example_limits :: protocol_limits where
  "example_limits =
     \<lparr>pl_max_line_bytes = 256, pl_max_stream_bytes = 512, pl_max_events = 4, pl_max_depth = 4,
      pl_max_nodes = 64, pl_max_string_bytes = 64\<rparr>"

definition example_parser :: event_parser where
  "example_parser = new_parser ''t'' ''r'' ''d'' [''notes'', ''structured_output''] example_limits"

definition example_line :: string where
  "example_line =
     ''{\"sequence\": 1, \"task_id\": \"t\", \"run_id\": \"r\", \"packet_digest\": \"d\", \"event_type\": \"run.completed\", \"protocol_version\": \"adaptive-factory.execution/v1\", \"payload\": {\"summary\": \"ok\"}}''"

definition example_event :: canonical_event where
  "example_event =
     \<lparr>ev_protocol_version = PROTOCOL_VERSION, ev_task_id = ''t'', ev_run_id = ''r'', ev_packet_digest = ''d'',
      ev_sequence = 1, ev_event_type = ''run.completed'', ev_payload = py_dict [(''summary'', PStr ''ok'')]\<rparr>"

lemma example_value:
  "strict_json_object 8 example_line = Inr (py_dict
     [(''sequence'', PInt 1), (''task_id'', PStr ''t''), (''run_id'', PStr ''r''), (''packet_digest'', PStr ''d''),
      (''event_type'', PStr ''run.completed''), (''protocol_version'', PStr ''adaptive-factory.execution/v1''),
      (''payload'', py_dict [(''summary'', PStr ''ok'')])])"
  by code_simp

lemma example_parse: "parse_line 8 example_parser example_line = (example_parser\<lparr>ps_terminal := True\<rparr>, Inr example_event)"
  by code_simp

lemma example_log: "feed 8 example_parser (example_line @ [newline]) =
    (example_parser\<lparr>ps_bytes := int (length example_line) + 1, ps_events := [example_event], ps_terminal := True\<rparr>, Inr [example_event])"
proof -
  let ?n = "int (length example_line) + 1" and ?p = example_parser
  have len: "length example_line < 200" "newline \<notin> set example_line" "example_line \<noteq> []"
    by (simp_all add: example_line_def newline_def)
  have p: "ps_buffer ?p = []" "ps_bytes ?p = 0" "ps_events ?p = []" "ps_limits ?p = example_limits"
    by (simp_all add: example_parser_def new_parser_def)
  have "parse_line 8 (rebuffer [] ?n ?p) example_line = (rebuffer [] ?n (?p\<lparr>ps_terminal := True\<rparr>), Inr example_event)"
    by (rule parse_line_rebuffer [OF example_parse])
  then have "feed 8 ?p (example_line @ [newline]) = (taken (rebuffer [] ?n (?p\<lparr>ps_terminal := True\<rparr>)) example_event, Inr [example_event])"
    using feed_lines_line [OF len(2), of 8 "[]" ?n ?p "[]"] len p
    by (simp add: feed_rebuffer feed_lines_partial example_limits_def add.commute [of 1])
  then show ?thesis by (simp add: taken_def rebuffer_def p)
qed

lemma example_finish: "finish (example_parser\<lparr>ps_bytes := n, ps_events := [example_event], ps_terminal := True\<rparr>) = Inr [example_event]"
  by (simp add: finish_Inr example_parser_def new_parser_def)

section \<open>Properties\<close>

text \<open>
  C5: The chunks in which the bytes of a run arrive make no difference: for a new parser with valid limits,
  feeding them one after the other succeeds exactly when feeding their concatenation in one piece does, with
  the same events and the same parser afterwards.
\<close>

theorem chunks_do_not_matter:
  assumes "protocol_limits_post_init l = Inr ()"
  shows "feed_chunks stack (new_parser task_id run_id packet_digest caps l) pieces = (q, Inr evs) \<longleftrightarrow>
    feed stack (new_parser task_id run_id packet_digest caps l) (concat pieces) = (q, Inr evs)"
proof -
  have "waiting (new_parser task_id run_id packet_digest caps l)"
    using assms by (simp add: waiting_def new_parser_def protocol_limits_post_init_def ensure_Inr_iff)
  then show ?thesis by (rule feed_chunks_concat)
qed

theorem chunks_do_not_matter_witness:
  "feed_chunks 8 example_parser [take 10 example_line, drop 10 example_line, [newline]] =
    (example_parser\<lparr>ps_bytes := int (length example_line) + 1, ps_events := [example_event], ps_terminal := True\<rparr>, Inr [example_event])"
proof -
  have l: "protocol_limits_post_init example_limits = Inr ()"
    by (simp add: protocol_limits_post_init_def ensure_def example_limits_def)
  show ?thesis
    using example_log append_take_drop_id [of 10 example_line]
    unfolding example_parser_def chunks_do_not_matter [OF l] by (simp flip: append_assoc del: append_assoc)
qed

text \<open>
  C4: An accepted stream is a well-formed run: the events that \<open>finish\<close> returns are those that the calls of
  \<open>feed\<close> returned; there is at least one and there are no more than the limit; they are numbered from one
  without a gap; each has a known version and type, the identity of the run, a payload valid for its type and
  a type whose capability the run declared; and exactly the last one is terminal.
\<close>

theorem accepted_stream:
  assumes "feed_chunks stack (new_parser task_id run_id packet_digest caps l) pieces = (q, Inr emitted)"
    and "finish q = Inr evs"
  shows "emitted = evs \<and> evs \<noteq> [] \<and> int (length evs) \<le> pl_max_events l \<and>
    map ev_sequence evs = map int [1..<Suc (length evs)] \<and>
    list_all (\<lambda>e. ev_protocol_version e \<in> set protocol_versions \<and> ev_event_type e \<in> set EVENTS \<and>
      ev_task_id e = task_id \<and> ev_run_id e = run_id \<and> ev_packet_digest e = packet_digest \<and>
      (case assoc CAPABILITY (ev_event_type e) of None \<Rightarrow> True | Some c \<Rightarrow> c \<in> set caps) \<and>
      validate_event_payload (PStr (ev_event_type e)) (ev_payload e) l (PStr (ev_protocol_version e)) = Inr ()) evs \<and>
    list_all (\<lambda>e. ev_event_type e \<notin> set TERMINAL_EVENTS) (butlast evs) \<and>
    ev_event_type (last evs) \<in> set TERMINAL_EVENTS"
  by (rule finished_stream [OF assms])

theorem accepted_stream_witness:
  "ev_sequence example_event = 1 \<and> ev_event_type (last [example_event]) \<in> set TERMINAL_EVENTS"
proof -
  let ?q = "example_parser\<lparr>ps_bytes := int (length example_line) + 1, ps_events := [example_event], ps_terminal := True\<rparr>"
  have "feed_chunks 8 (new_parser ''t'' ''r'' ''d'' [''notes'', ''structured_output''] example_limits) [example_line @ [newline]] = (?q, Inr [example_event])"
    using example_log by (simp add: example_parser_def)
  from accepted_stream [OF this example_finish] show ?thesis by simp
qed

text \<open>
  C6: The canonical log of an accepted stream is accepted as well: written out one canonical JSON object to a
  line, the events of the run are within the limits that the original bytes met, whatever spacing, escapes or
  order of keys those had, and give back the same events.
\<close>

theorem canonical_log_replays:
  assumes "feed stack (new_parser task_id run_id packet_digest caps l) bytes = (q, Inr emitted)"
    and "finish q = Inr evs"
  shows "\<exists>r. feed stack (new_parser task_id run_id packet_digest caps l) (log_text evs) = (r, Inr evs) \<and> finish r = Inr evs"
proof -
  let ?p = "new_parser task_id run_id packet_digest caps l" and ?n = "int (length (log_text evs))"
  note f = assms(1) [unfolded feed_Inr]
  have p: "ps_buffer ?p = []" "ps_events ?p = []" "ps_bytes ?p = 0" by (simp_all add: new_parser_def)
  have q: "ps_terminal q" "evs = ps_events q" using assms(2) by (simp_all add: finish_Inr)
  obtain new where new: "emitted = new" "ps_events q = new"
    and short: "length (log_text new) + length (ps_buffer q) \<le> length bytes"
    and g: "\<And>n em. feed_lines stack (rebuffer (log_text new) n ?p) em = (rebuffer [] n q, Inr (em @ new))"
    using feed_lines_log [OF conjunct2 [OF f]] by (auto simp: p)
  have "feed stack ?p (log_text evs) = (rebuffer [] ?n q, Inr evs)"
    using f short g [of ?n "[]"] new(2) q(2) by (simp add: feed_Inr p)
  moreover have "finish (rebuffer [] ?n q) = Inr evs" using q by (simp add: finish_Inr)
  ultimately show ?thesis by blast
qed

theorem canonical_log_replays_witness:
  "\<exists>r. feed 8 (new_parser ''t'' ''r'' ''d'' [''notes'', ''structured_output''] example_limits) (log_text [example_event]) =
    (r, Inr [example_event]) \<and> finish r = Inr [example_event]"
  by (rule canonical_log_replays [OF example_log [unfolded example_parser_def] example_finish [unfolded example_parser_def]])


lemma long_number: "MAX_STR_DIGITS < n \<Longrightarrow> strict_json_object stack (replicate n (CHR ''1'')) = Inl ValueError"
proof -
  let ?s = "replicate n (CHR ''1'')"
  assume n: "MAX_STR_DIGITS < n"
  then have h: "?s \<noteq> []" "hd ?s = CHR ''1''" by auto
  have d: "is_digit (CHR ''1'')" by code_simp
  have t: "takeWhile is_digit ?s = ?s" using d by (simp add: takeWhile_eq_all_conv)
  have number: "read_number ?s = Inl ValueError"
    using n h d by (simp add: read_number_def t read_fraction_def read_exponent_def Let_def)
  have "\<not> starts (c # cs) ?s" if "c \<noteq> CHR ''1''" for c cs using h that by (cases n) (auto simp: starts_def)
  then have token: "read_token nonfinite container ?s = Inl ValueError" for nonfinite container
    unfolding read_token_def using h number by simp
  have "read_value nonfinite duplicate stack ?s = Inl ValueError" for nonfinite duplicate
    by (cases stack) (simp_all add: token)
  moreover have "skip_space ?s = ?s" using n by (cases n) (simp_all add: skip_space_def json_space_def)
  moreover have "utf8 ?s" using utf8_ascii [of ?s "[]"] by (simp add: ascii_def list_all_iff byte_def)
  ultimately show ?thesis by (simp add: strict_json_object_def decode_utf8_def json_loads_def)
qed


end
