(* ===== verification/Adapters.thy ===== *)
theory Adapters
  imports EventProperties
begin

text \<open>
  The adapters, \<open>adapters/base.py\<close>, \<open>codex.py\<close>, \<open>grok.py\<close> and \<open>__init__.py\<close>: the registry that decides which
  execution selection a role may use, and the translation of the native records of a provider into the events of
  \<open>protocol.py\<close>, which the adapter feeds through the stream parser before it lets them out.

  \<open>repr\<close> is \<open>str(_)\<close> of a float, a list or a dictionary, whose tables of printable characters and float
  digits are not part of the code; nothing is assumed of it.  Field prefixes: \<open>cf_\<close> conformance, \<open>te_\<close>
  trusted profile.
\<close>

section \<open>Profiles\<close>

record adapter_conformance =
  cf_provider_id :: string
  cf_native_version :: string
  cf_distribution_digest_hint :: string
  cf_capabilities :: "string list"
  cf_missing_capabilities :: "string list"
  cf_fixture_conformant :: bool
  cf_execution_eligible :: bool
  cf_adapter_id :: "string option"
  cf_adapter_version :: "string option"
  cf_adapter_digest :: "string option"
  cf_native_digest :: "string option"

record trusted_profile =
  te_selection :: execution_selection
  te_conformance :: adapter_conformance
  te_allowed_roles :: "string list"

definition execution_error :: "string \<Rightarrow> pyexn" where
  "execution_error code = ExecutionContractError code []"

definition trusted_profile_post_init :: "trusted_profile \<Rightarrow> unit res" where
  "trusted_profile_post_init x =
     ensure (te_allowed_roles x \<noteq> [] \<and> usort (te_allowed_roles x) = te_allowed_roles x \<and>
             set (te_allowed_roles x) \<subseteq> set [''reader'', ''writer'']) (execution_error ''invalid_trusted_profile'')"

section \<open>The registry\<close>

definition READER_WRITE_TOOLS :: "string list" where
  "READER_WRITE_TOOLS = [''apply_patch'', ''exec'', ''git_write'', ''shell'', ''write_file'']"

definition READER_WRITE_ARTIFACTS :: "string list" where
  "READER_WRITE_ARTIFACTS = [''commit'', ''patch'', ''workspace_mutation'']"

definition READER_WRITE_CAPABILITIES :: "string list" where
  "READER_WRITE_CAPABILITIES = [''artifacts'', ''git_write'', ''workspace_write'']"

type_synonym registry = "(string \<times> trusted_profile) list"

definition profile_id :: "trusted_profile \<Rightarrow> string" where
  "profile_id x = pp_provider_id (el_provider (te_selection x))"

definition new_registry :: "trusted_profile list \<Rightarrow> registry res" where
  "new_registry profiles =
     bnd (ensure (length profiles \<le> 32) (execution_error ''trusted_profile_limit'')) (\<lambda>_.
     bnd (ensure (distinct (map profile_id profiles)) (execution_error ''duplicate_trusted_profile'')) (\<lambda>_.
     Inr (map (\<lambda>p. (profile_id p, p)) profiles)))"

definition conformance_exact :: "adapter_conformance \<Rightarrow> provider_profile \<Rightarrow> bool" where
  "conformance_exact c p =
     (cf_provider_id c = pp_provider_id p \<and> cf_adapter_id c = Some (pp_adapter_id p) \<and>
      cf_adapter_version c = Some (pp_adapter_version p) \<and> cf_adapter_digest c = Some (pp_adapter_digest p) \<and>
      cf_native_version c = pp_native_version p \<and> cf_native_digest c = Some (pp_native_digest p) \<and>
      cf_capabilities c = pp_capabilities p)"

definition reader_may_write :: "execution_selection \<Rightarrow> bool" where
  "reader_may_write s =
     (set READER_WRITE_TOOLS \<inter> set (cp_allowed_tools (el_capability_policy s)) \<noteq> {} \<or>
      set READER_WRITE_ARTIFACTS \<inter> set (cp_artifact_classes (el_capability_policy s)) \<noteq> {} \<or>
      set READER_WRITE_CAPABILITIES \<inter> set (pp_capabilities (el_provider s)) \<noteq> {})"

definition resolve :: "registry \<Rightarrow> execution_selection \<Rightarrow> string \<Rightarrow> execution_selection res" where
  "resolve reg requested role =
     (case assoc reg (pp_provider_id (el_provider requested)) of
        None \<Rightarrow> Inl (execution_error ''provider_ineligible'')
      | Some profile \<Rightarrow>
          let conformance = te_conformance profile; selection = te_selection profile in
          bnd (ensure (cf_fixture_conformant conformance \<and> cf_execution_eligible conformance)
                (execution_error ''provider_ineligible'')) (\<lambda>_.
          bnd (ensure (conformance_exact conformance (el_provider selection))
                (execution_error ''provider_conformance_mismatch'')) (\<lambda>_.
          bnd (ensure (execution_selection_to_dict requested = execution_selection_to_dict selection)
                (execution_error ''selection_mismatch'')) (\<lambda>_.
          bnd (ensure (role \<in> set (te_allowed_roles profile)) (execution_error ''role_capability_forbidden'')) (\<lambda>_.
          bnd (ensure (\<not> (role = ''reader'' \<and> reader_may_write requested))
                (execution_error ''role_capability_forbidden'')) (\<lambda>_.
          Inr selection))))))"

section \<open>Native records\<close>

text \<open>\<open>bytes.splitlines()\<close>.\<close>

fun splitlines :: "string \<Rightarrow> string list" where
  "splitlines [] = []"
| "splitlines (c # cs) =
     (if c = CHR 0x0D \<and> cs \<noteq> [] \<and> hd cs = CHR 0x0A then splitlines cs
      else if c = CHR 0x0A \<or> c = CHR 0x0D then [] # splitlines cs
      else (case splitlines cs of [] \<Rightarrow> [[c]] | l # ls \<Rightarrow> (c # l) # ls))"

definition MAX_NATIVE_BYTES :: nat where "MAX_NATIVE_BYTES = 1000000"
definition MAX_NATIVE_RECORDS :: nat where "MAX_NATIVE_RECORDS = 1000"

definition native_records :: "nat \<Rightarrow> string \<Rightarrow> nat \<Rightarrow> nat \<Rightarrow> pyval list res" where
  "native_records stack raw max_bytes max_records =
     bnd (ensure (length raw \<le> max_bytes) (AdapterError ''native_stream_too_large'')) (\<lambda>_.
     bnd (ensure (length (splitlines raw) \<le> max_records) (AdapterError ''native_event_limit'')) (\<lambda>_.
     catch (map_res (strict_json_object stack) (filter (\<lambda>l. l \<noteq> []) (splitlines raw)))
       (\<lambda>e. if value_error e then Inl (AdapterError ''invalid_native_stream'') else Inl e)))"

section \<open>Writing an event\<close>

text \<open>\<open>json.dumps\<close> with \<open>ensure_ascii\<close>: every character outside the printable ASCII ones is an escape.\<close>

definition hex4 :: "nat \<Rightarrow> string" where
  "hex4 u = [CHR 0x5C, CHR ''u'', hex_digit (u div 4096), hex_digit (u div 256), hex_digit (u div 16), hex_digit u]"

fun point_value :: "string \<Rightarrow> nat" where
  "point_value [b] = byte b"
| "point_value [b, c] = (byte b - 192) * 64 + (byte c - 128)"
| "point_value [b, c, d] = (byte b - 224) * 4096 + (byte c - 128) * 64 + (byte d - 128)"
| "point_value [b, c, d, e] =
     (byte b - 240) * 262144 + (byte c - 128) * 4096 + (byte d - 128) * 64 + (byte e - 128)"
| "point_value _ = 0"

definition ascii_units :: "nat \<Rightarrow> string" where
  "ascii_units u =
     (if u < 65536 then hex4 u else hex4 (0xD800 + (u - 0x10000) div 1024) @ hex4 (0xDC00 + (u - 0x10000) mod 1024))"

definition ascii_point :: "string \<Rightarrow> string" where
  "ascii_point p = (if point_value p < 127 then json_escape (hd p) else ascii_units (point_value p))"

definition ascii_string :: "string \<Rightarrow> string" where
  "ascii_string s = [CHR 0x22] @ concat (map ascii_point (code_points s)) @ [CHR 0x22]"

fun ascii_text :: "pyval \<Rightarrow> string" where
  "ascii_text (PStr s) = ascii_string s"
| "ascii_text (PList xs) = ''['' @ join '','' (map ascii_text xs) @ '']''"
| "ascii_text (PDict kvs) =
     ''{'' @ join '','' (map (\<lambda>(k, v). ascii_string (str_of k) @ '':'' @ ascii_text v) kvs) @ ''}''"
| "ascii_text v = json_text v"

text \<open>The encoder recurses once for every container around a value, as the reader does.\<close>

fun containers :: "pyval \<Rightarrow> nat" where
  "containers (PList xs) = Suc (foldr max (map containers xs) 0)"
| "containers (PDict kvs) = Suc (foldr max (map (\<lambda>(k, v). containers v) kvs) 0)"
| "containers v = 0"

definition dumps :: "nat \<Rightarrow> pyval \<Rightarrow> string res" where
  "dumps stack v = (if stack < containers v then Inl RecursionError else Inr (ascii_text (canonical v)))"

text \<open>\<open>event\<close>, with the identity of the run and the number of the events before it.\<close>

definition adapter_event :: "string \<times> string \<times> string \<Rightarrow> nat \<Rightarrow> string \<Rightarrow> pyval \<Rightarrow> pyval" where
  "adapter_event identity before event_type payload =
     (case identity of (task_id, run_id, packet_digest) \<Rightarrow> py_dict
       [(''protocol_version'', PStr PROTOCOL_VERSION), (''task_id'', PStr task_id), (''run_id'', PStr run_id),
        (''packet_digest'', PStr packet_digest), (''sequence'', PInt (int before + 1)),
        (''event_type'', PStr event_type), (''payload'', payload)])"

text \<open>The chunks that are fed for the events in turn; the first event that cannot be written ends the loop.\<close>

fun feed_events :: "nat \<Rightarrow> event_parser \<Rightarrow> pyval list \<Rightarrow> event_parser res" where
  "feed_events stack p [] = Inr p"
| "feed_events stack p (e # es) =
     bnd (dumps stack e) (\<lambda>text.
     case feed stack p (text @ [newline]) of
       (q, Inl x) \<Rightarrow> Inl x
     | (q, Inr _) \<Rightarrow> feed_events stack q es)"

definition canonicalize ::
  "nat \<Rightarrow> pyval list \<Rightarrow> string \<Rightarrow> string \<Rightarrow> string \<Rightarrow> string list \<Rightarrow> pyval list res" where
  "canonicalize stack events task_id run_id packet_digest capabilities =
     bnd (feed_events stack (new_parser task_id run_id packet_digest capabilities default_limits) events) (\<lambda>p.
     bnd (finish p) (\<lambda>evs. Inr (map event_to_dict evs)))"

section \<open>Values of a record\<close>

definition py_get :: "pyval \<Rightarrow> string \<Rightarrow> pyval \<Rightarrow> pyval" where
  "py_get d k otherwise = (case getitem d k of Inr v \<Rightarrow> v | Inl _ \<Rightarrow> otherwise)"

fun py_str :: "(pyval \<Rightarrow> string) \<Rightarrow> pyval \<Rightarrow> string" where
  "py_str repr (PStr s) = s"
| "py_str repr (PInt i) = int_text i"
| "py_str repr (PBool b) = (if b then ''True'' else ''False'')"
| "py_str repr PNone = ''None''"
| "py_str repr v = repr v"

text \<open>\<open>{"provider_call_id": "fixture-call", **values}\<close>.\<close>

fun with_call_id :: "pyval \<Rightarrow> pyval" where
  "with_call_id (PDict kvs) =
     PDict ((PStr ''provider_call_id'', py_get (PDict kvs) ''provider_call_id'' (PStr ''fixture-call'')) #
       filter (\<lambda>(k, v). k \<noteq> PStr ''provider_call_id'') kvs)"
| "with_call_id v = v"

fun without_key :: "string \<Rightarrow> pyval \<Rightarrow> pyval" where
  "without_key key (PDict kvs) = PDict (filter (\<lambda>(k, v). k \<noteq> PStr key) kvs)"
| "without_key key v = v"

fun fold_res :: "('a \<Rightarrow> 'b \<Rightarrow> 'b res) \<Rightarrow> 'a list \<Rightarrow> 'b \<Rightarrow> 'b res" where
  "fold_res f [] y = Inr y"
| "fold_res f (x # xs) y = bnd (f x y) (fold_res f xs)"

definition str_list_value :: "string list \<Rightarrow> pyval" where
  "str_list_value ss = PList (map PStr ss)"

definition ready_payload :: "string \<Rightarrow> string \<Rightarrow> string \<Rightarrow> string list \<Rightarrow> pyval" where
  "ready_payload provider_id adapter_id native_version capabilities = py_dict
     [(''provider_id'', PStr provider_id), (''adapter_id'', PStr adapter_id), (''adapter_version'', PStr ''1.0.0''),
      (''native_version'', PStr native_version), (''model_id'', PStr ''operator-configured''),
      (''capabilities'', str_list_value capabilities)]"

definition note_payload :: "(pyval \<Rightarrow> string) \<Rightarrow> pyval \<Rightarrow> pyval" where
  "note_payload repr source = py_dict
     [(''note_type'', PStr ''conclusion''), (''body'', PStr (py_str repr (py_get source ''text'' (PStr [])))),
      (''evidence'', py_get source ''evidence'' (PList []))]"

section \<open>Codex\<close>

definition codex_conformance :: adapter_conformance where
  "codex_conformance =
     \<lparr>cf_provider_id = ''codex'', cf_native_version = ''0.152.1'',
      cf_distribution_digest_hint = ''b8201824'' @ [CHR 0xE2, CHR 0x80, CHR 0xA6] @ ''06f9'',
      cf_capabilities = [''notes'', ''structured_output'', ''usage''],
      cf_missing_capabilities = [''rootless_host_isolation''], cf_fixture_conformant = True,
      cf_execution_eligible = False, cf_adapter_id = None, cf_adapter_version = None, cf_adapter_digest = None,
      cf_native_digest = None\<rparr>"

text \<open>One record: the events so far and those it adds.\<close>

definition codex_record ::
  "(pyval \<Rightarrow> string) \<Rightarrow> string \<times> string \<times> string \<Rightarrow> pyval \<Rightarrow> pyval list \<Rightarrow> pyval list res" where
  "codex_record repr identity record output =
     (let native_type = py_get record ''type'' PNone;
          emit = (\<lambda>out t payload. out @ [adapter_event identity (length out) t payload]);
          invalid = Inl (AdapterError ''invalid_native_event''); unknown = Inl (AdapterError ''unknown_native_event'')
      in if py_eq_str native_type ''thread.started'' then Inr output
         else if py_eq_str native_type ''turn.started''
         then Inr (emit output ''run.started'' (py_dict [(''stage'', PStr ''invoke'')]))
         else if py_eq_str native_type ''item.completed'' then
           (let item = py_get record ''item'' PNone in
            if \<not> is_mapping item then invalid
            else if py_eq_str (py_get item ''type'' PNone) ''reasoning'' then Inr output
            else if \<not> py_eq_str (py_get item ''type'' PNone) ''agent_message'' then unknown
            else Inr (emit output ''note.proposed'' (note_payload repr item)))
         else if py_eq_str native_type ''turn.completed'' then
           (let usage = py_get record ''usage'' PNone; final = py_get record ''final'' PNone in
            if \<not> is_mapping usage \<or> \<not> is_mapping final then invalid
            else
              let reported = emit output ''usage.reported'' (with_call_id usage);
                  summary = py_get final ''summary'' (PStr [])
              in Inr (if py_eq_str (py_get final ''status'' PNone) ''completed''
                 then emit reported ''run.completed'' (py_dict [(''summary'', summary)])
                 else emit reported ''run.needs_human''
                   (py_dict [(''reason'', PStr ''provider_terminal''), (''diagnostic'', PStr (py_str repr summary))])))
         else unknown)"

definition codex_translate ::
  "nat \<Rightarrow> (pyval \<Rightarrow> string) \<Rightarrow> string \<Rightarrow> string \<Rightarrow> string \<Rightarrow> string \<Rightarrow> pyval list res" where
  "codex_translate stack repr raw task_id run_id packet_digest =
     (let identity = (task_id, run_id, packet_digest); caps = cf_capabilities codex_conformance;
          ready = adapter_event identity 0 ''adapter.ready'' (ready_payload ''codex'' ''adaptive-factory.codex'' ''0.152.1'' caps)
      in bnd (native_records stack raw MAX_NATIVE_BYTES MAX_NATIVE_RECORDS) (\<lambda>records.
         bnd (fold_res (codex_record repr identity) records [ready]) (\<lambda>output.
         canonicalize stack output task_id run_id packet_digest caps)))"

section \<open>Grok\<close>

definition grok_conformance :: adapter_conformance where
  "grok_conformance =
     \<lparr>cf_provider_id = ''grok'', cf_native_version = ''1.0.17'',
      cf_distribution_digest_hint = ''82595e26'' @ [CHR 0xE2, CHR 0x80, CHR 0xA6] @ ''4568'',
      cf_capabilities = [''notes'', ''structured_output'', ''usage''],
      cf_missing_capabilities = [''cancellation'', ''rootless_host_isolation''], cf_fixture_conformant = False,
      cf_execution_eligible = False, cf_adapter_id = None, cf_adapter_version = None, cf_adapter_digest = None,
      cf_native_digest = None\<rparr>"

definition grok_record ::
  "(pyval \<Rightarrow> string) \<Rightarrow> string \<times> string \<times> string \<Rightarrow> pyval \<Rightarrow> pyval list \<Rightarrow> pyval list res" where
  "grok_record repr identity record output =
     (let native_type = py_get record ''event'' PNone;
          emit = (\<lambda>t payload. Inr (output @ [adapter_event identity (length output) t payload]));
          unknown = Inl (AdapterError ''unknown_native_event'')
      in if py_eq_str native_type ''session_started'' then emit ''run.started'' (py_dict [(''stage'', PStr ''invoke'')])
         else if py_eq_str native_type ''message'' then
           (if py_eq_str (py_get record ''kind'' PNone) ''analysis'' then Inr output
            else if \<not> py_eq_str (py_get record ''kind'' PNone) ''final'' then unknown
            else emit ''note.proposed'' (note_payload repr record))
         else if py_eq_str native_type ''usage''
         then emit ''usage.reported'' (with_call_id (without_key ''event'' record))
         else if py_eq_str native_type ''finished''
         then emit ''run.needs_human'' (py_dict [(''reason'', PStr ''provider_ineligible''),
                (''diagnostic'', PStr (py_str repr (py_get record ''reason'' (PStr []))))])
         else unknown)"

definition grok_translate ::
  "nat \<Rightarrow> (pyval \<Rightarrow> string) \<Rightarrow> string \<Rightarrow> string \<Rightarrow> string \<Rightarrow> string \<Rightarrow> pyval list res" where
  "grok_translate stack repr raw task_id run_id packet_digest =
     (let identity = (task_id, run_id, packet_digest); caps = cf_capabilities grok_conformance;
          ready = adapter_event identity 0 ''adapter.ready'' (ready_payload ''grok'' ''adaptive-factory.grok'' ''1.0.17'' caps)
      in bnd (native_records stack raw MAX_NATIVE_BYTES MAX_NATIVE_RECORDS) (\<lambda>records.
         bnd (fold_res (grok_record repr identity) records [ready]) (\<lambda>output.
         canonicalize stack output task_id run_id packet_digest caps)))"

section \<open>Selecting an adapter\<close>

datatype adapter = CodexAdapter | GrokAdapter

fun conformance :: "adapter \<Rightarrow> adapter_conformance" where
  "conformance CodexAdapter = codex_conformance"
| "conformance GrokAdapter = grok_conformance"

definition select_adapter :: "string \<Rightarrow> string \<Rightarrow> bool \<Rightarrow> adapter res" where
  "select_adapter provider_id native_version require_eligible =
     (case assoc [(''codex'', CodexAdapter), (''grok'', GrokAdapter)] provider_id of
        None \<Rightarrow> Inl (AdapterError ''unknown_provider'')
      | Some a \<Rightarrow>
          bnd (ensure (native_version = cf_native_version (conformance a)) (AdapterError ''unsupported_version'')) (\<lambda>_.
          bnd (ensure (\<not> (require_eligible \<and> \<not> cf_execution_eligible (conformance a)))
                (AdapterError ''provider_ineligible'')) (\<lambda>_. Inr a)))"

end
