(* ===== verification/AdapterProperties.thy ===== *)
theory AdapterProperties
  imports Adapters RunExample
begin

text \<open>
  What the adapters promise: the registry hands out a selection only to a role that may have it, and whatever the
  native records of a provider say, the events an adapter lets out are a well-formed run.
\<close>

section \<open>The registry\<close>

lemma assoc_map_key: "distinct (map f xs) \<Longrightarrow> assoc (map (\<lambda>x. (f x, x)) xs) k = Some x \<longleftrightarrow> x \<in> set xs \<and> f x = k"
  by (induction xs) (auto simp: assoc.simps image_iff)

lemma new_registry_Inr:
  "new_registry profiles = Inr reg \<longleftrightarrow>
     length profiles \<le> 32 \<and> distinct (map profile_id profiles) \<and> reg = map (\<lambda>p. (profile_id p, p)) profiles"
  by (auto simp: new_registry_def bnd_Inr_iff ensure_Inr_iff)

section \<open>Feeding events\<close>

lemma feed_events_chunks: "feed_events stack p es = Inr q \<Longrightarrow> \<exists>cs evs. feed_chunks stack p cs = (q, Inr evs)"
proof (induction es arbitrary: p)
  case Nil
  then have "feed_chunks stack p [] = (q, Inr [])" by simp
  then show ?case by blast
next
  case (Cons e es)
  obtain t where t: "dumps stack e = Inr t" using Cons.prems by (auto simp: bnd_Inr_iff)
  obtain r m where f: "feed stack p (t @ [newline]) = (r, m)" by fastforce
  with t Cons.prems obtain x where t: "feed stack p (t @ [newline]) = (r, Inr x)" "feed_events stack r es = Inr q"
    by (cases m) auto
  obtain cs evs where "feed_chunks stack r cs = (q, Inr evs)" using Cons.IH [OF t(2)] by blast
  with t(1) have "feed_chunks stack p ((t @ [newline]) # cs) = (q, Inr (x @ evs))"
    unfolding feed_chunks_Cons by blast
  then show ?case by blast
qed

text \<open>The events of a run that declared the capabilities \<open>caps\<close>.\<close>

definition run_events :: "string \<times> string \<times> string \<Rightarrow> string list \<Rightarrow> canonical_event list \<Rightarrow> bool" where
  "run_events identity caps evs =
     (evs \<noteq> [] \<and> length evs \<le> 1000 \<and> map ev_sequence evs = map int [1..<Suc (length evs)] \<and>
      list_all (\<lambda>e. (ev_task_id e, ev_run_id e, ev_packet_digest e) = identity \<and> ev_event_type e \<in> set EVENTS \<and>
        (case assoc CAPABILITY (ev_event_type e) of None \<Rightarrow> True | Some c \<Rightarrow> c \<in> set caps) \<and>
        validate_event_payload (PStr (ev_event_type e)) (ev_payload e) default_limits (PStr (ev_protocol_version e)) = Inr ()) evs \<and>
      list_all (\<lambda>e. ev_event_type e \<notin> set TERMINAL_EVENTS) (butlast evs) \<and> ev_event_type (last evs) \<in> set TERMINAL_EVENTS)"

lemma canonicalize_Inr:
  assumes "canonicalize stack events task_id run_id packet_digest caps = Inr out"
  shows "\<exists>evs. out = map event_to_dict evs \<and> run_events (task_id, run_id, packet_digest) caps evs"
proof -
  obtain p evs where f: "feed_events stack (new_parser task_id run_id packet_digest caps default_limits) events = Inr p"
    "finish p = Inr evs" "out = map event_to_dict evs"
    using assms by (auto simp: canonicalize_def bnd_Inr_iff)
  obtain cs em where "feed_chunks stack (new_parser task_id run_id packet_digest caps default_limits) cs = (p, Inr em)"
    using feed_events_chunks [OF f(1)] by blast
  note s = finished_stream [OF this f(2)]
  have "int (length evs) \<le> 1000" using s by (simp add: default_limits_def)
  moreover have "list_all (\<lambda>e. (ev_task_id e, ev_run_id e, ev_packet_digest e) = (task_id, run_id, packet_digest) \<and>
      ev_event_type e \<in> set EVENTS \<and>
      (case assoc CAPABILITY (ev_event_type e) of None \<Rightarrow> True | Some c \<Rightarrow> c \<in> set caps) \<and>
      validate_event_payload (PStr (ev_event_type e)) (ev_payload e) default_limits (PStr (ev_protocol_version e)) = Inr ()) evs"
    using s unfolding list_all_iff by blast
  ultimately have "run_events (task_id, run_id, packet_digest) caps evs" using s unfolding run_events_def by simp
  then show ?thesis using f(3) by blast
qed

section \<open>A run of the Grok adapter\<close>

lemma feed_line:
  assumes "parse_line stack p raw = (q, Inr e)" "newline \<notin> set raw" "raw \<noteq> []" "ps_buffer p = []"
    and "int (length raw) \<le> pl_max_line_bytes (ps_limits p)"
    and "ps_bytes p + int (length raw) + 1 \<le> pl_max_stream_bytes (ps_limits p)"
  shows "feed stack p (raw @ [newline]) = (rebuffer [] (ps_bytes p + int (length raw) + 1) (taken q e), Inr [e])"
proof -
  let ?n = "ps_bytes p + int (length raw) + 1"
  have "parse_line stack (rebuffer [] ?n p) raw = (rebuffer [] ?n q, Inr e)" by (rule parse_line_rebuffer [OF assms(1)])
  then show ?thesis
    using feed_lines_line [OF assms(2), of stack "[]" ?n p "[]"] assms
    by (simp add: feed_rebuffer feed_lines_partial ac_simps parse_line_kept [OF assms(1)])
qed

definition example_native :: string where
  "example_native = ''{\"event\": \"finished\", \"reason\": \"quota\"}'' @ [CHR 0x0A]"

lemma example_records:
  "native_records 20 example_native MAX_NATIVE_BYTES MAX_NATIVE_RECORDS =
     Inr [PDict [(PStr ''event'', PStr ''finished''), (PStr ''reason'', PStr ''quota'')]]"
proof -
  have l: "splitlines example_native = [''{\"event\": \"finished\", \"reason\": \"quota\"}'']" by code_simp
  have "strict_json_object 20 ''{\"event\": \"finished\", \"reason\": \"quota\"}'' =
      Inr (PDict [(PStr ''event'', PStr ''finished''), (PStr ''reason'', PStr ''quota'')])" by code_simp
  then show ?thesis unfolding native_records_def l
    by (simp add: ensure_def example_native_def MAX_NATIVE_BYTES_def MAX_NATIVE_RECORDS_def)
qed

definition example_identity :: "string \<times> string \<times> string" where
  "example_identity = (''t'', ''r'', ''d'')"

definition example_ready :: pyval where
  "example_ready = adapter_event example_identity 0 ''adapter.ready''
     (ready_payload ''grok'' ''adaptive-factory.grok'' ''1.0.17'' [''notes'', ''structured_output'', ''usage''])"

definition example_end :: pyval where
  "example_end = adapter_event example_identity 1 ''run.needs_human''
     (py_dict [(''reason'', PStr ''provider_ineligible''), (''diagnostic'', PStr ''quota'')])"

definition ready_line :: string where
  "ready_line =
     ''{\"event_type\":\"adapter.ready\",\"packet_digest\":\"d\",\"payload\":{\"adapter_id\":\"adaptive-factory.grok\",'' @
     ''\"adapter_version\":\"1.0.0\",\"capabilities\":[\"notes\",\"structured_output\",\"usage\"],'' @
     ''\"model_id\":\"operator-configured\",\"native_version\":\"1.0.17\",\"provider_id\":\"grok\"},'' @
     ''\"protocol_version\":\"adaptive-factory.execution/v1\",\"run_id\":\"r\",\"sequence\":1,\"task_id\":\"t\"}''"

definition end_line :: string where
  "end_line =
     ''{\"event_type\":\"run.needs_human\",\"packet_digest\":\"d\",\"payload\":{\"diagnostic\":\"quota\",'' @
     ''\"reason\":\"provider_ineligible\"},'' @
     ''\"protocol_version\":\"adaptive-factory.execution/v1\",\"run_id\":\"r\",\"sequence\":2,\"task_id\":\"t\"}''"

lemma example_canonical:
  "canonical example_ready = PDict
     [(PStr ''event_type'', PStr ''adapter.ready''), (PStr ''packet_digest'', PStr ''d''),
      (PStr ''payload'', PDict
         [(PStr ''adapter_id'', PStr ''adaptive-factory.grok''), (PStr ''adapter_version'', PStr ''1.0.0''),
          (PStr ''capabilities'', PList [PStr ''notes'', PStr ''structured_output'', PStr ''usage'']),
          (PStr ''model_id'', PStr ''operator-configured''), (PStr ''native_version'', PStr ''1.0.17''),
          (PStr ''provider_id'', PStr ''grok'')]),
      (PStr ''protocol_version'', PStr ''adaptive-factory.execution/v1''), (PStr ''run_id'', PStr ''r''),
      (PStr ''sequence'', PInt 1), (PStr ''task_id'', PStr ''t'')]"
  "canonical example_end = PDict
     [(PStr ''event_type'', PStr ''run.needs_human''), (PStr ''packet_digest'', PStr ''d''),
      (PStr ''payload'', PDict [(PStr ''diagnostic'', PStr ''quota''), (PStr ''reason'', PStr ''provider_ineligible'')]),
      (PStr ''protocol_version'', PStr ''adaptive-factory.execution/v1''), (PStr ''run_id'', PStr ''r''),
      (PStr ''sequence'', PInt 2), (PStr ''task_id'', PStr ''t'')]"
  by code_simp+

lemma example_dumps: "dumps 20 example_ready = Inr ready_line" "dumps 20 example_end = Inr end_line"
proof -
  have c: "containers example_ready \<le> 20" "containers example_end \<le> 20" by code_simp+
  have t: "ascii_text (canonical example_ready) = ready_line" "ascii_text (canonical example_end) = end_line"
    unfolding example_canonical by code_simp+
  show "dumps 20 example_ready = Inr ready_line" "dumps 20 example_end = Inr end_line"
    using c by (simp_all add: dumps_def t)
qed

definition example_start :: event_parser where
  "example_start = new_parser ''t'' ''r'' ''d'' [''notes'', ''structured_output'', ''usage''] default_limits"

definition ready_event :: canonical_event where
  "ready_event =
     \<lparr>ev_protocol_version = PROTOCOL_VERSION, ev_task_id = ''t'', ev_run_id = ''r'', ev_packet_digest = ''d'',
      ev_sequence = 1, ev_event_type = ''adapter.ready'', ev_payload = PDict
         [(PStr ''adapter_id'', PStr ''adaptive-factory.grok''), (PStr ''adapter_version'', PStr ''1.0.0''),
          (PStr ''capabilities'', PList [PStr ''notes'', PStr ''structured_output'', PStr ''usage'']),
          (PStr ''model_id'', PStr ''operator-configured''), (PStr ''native_version'', PStr ''1.0.17''),
          (PStr ''provider_id'', PStr ''grok'')]\<rparr>"

definition end_event :: canonical_event where
  "end_event =
     \<lparr>ev_protocol_version = PROTOCOL_VERSION, ev_task_id = ''t'', ev_run_id = ''r'', ev_packet_digest = ''d'',
      ev_sequence = 2, ev_event_type = ''run.needs_human'', ev_payload = PDict
         [(PStr ''diagnostic'', PStr ''quota''), (PStr ''reason'', PStr ''provider_ineligible'')]\<rparr>"

lemma example_ready_line: "parse_line 20 example_start ready_line = (example_start, Inr ready_event)"
  by code_simp

lemma example_end_line:
  "parse_line 20 (taken example_start ready_event) end_line = ((taken example_start ready_event)\<lparr>ps_terminal := True\<rparr>, Inr end_event)"
  by code_simp

lemma example_feed:
  "\<exists>p. feed_events 20 example_start [example_ready, example_end] = Inr p \<and> finish p = Inr [ready_event, end_event]"
proof -
  let ?p = "example_start" and ?q = "taken example_start ready_event"
  let ?n = "int (length ready_line) + 1"
  have p: "ps_buffer ?p = []" "ps_bytes ?p = 0" "ps_events ?p = []" "ps_limits ?p = default_limits"
    by (simp_all add: example_start_def new_parser_def)
  have len: "length ready_line < 400" "newline \<notin> set ready_line" "ready_line \<noteq> []"
    "length end_line < 400" "newline \<notin> set end_line" "end_line \<noteq> []"
    by (simp_all add: ready_line_def end_line_def newline_def)
  have one: "feed 20 ?p (ready_line @ [newline]) = (rebuffer [] ?n ?q, Inr [ready_event])"
    using feed_line [OF example_ready_line len(2,3)] len(1) p by (simp add: default_limits_def)
  have "parse_line 20 (rebuffer [] ?n ?q) end_line = (rebuffer [] ?n (?q\<lparr>ps_terminal := True\<rparr>), Inr end_event)"
    by (rule parse_line_rebuffer [OF example_end_line])
  from feed_line [OF this len(5,6)] len(1,4) p
  have two: "feed 20 (rebuffer [] ?n ?q) (end_line @ [newline]) =
      (rebuffer [] (?n + int (length end_line) + 1) (taken (?q\<lparr>ps_terminal := True\<rparr>) end_event), Inr [end_event])"
    by (simp add: default_limits_def rebuffer_def taken_def)
  show ?thesis
    using one two by (simp add: example_dumps finish_Inr p)
qed

lemma example_translates:
  "grok_translate 20 (\<lambda>_. []) example_native ''t'' ''r'' ''d'' = Inr (map event_to_dict [ready_event, end_event])"
proof -
  have caps: "cf_capabilities grok_conformance = [''notes'', ''structured_output'', ''usage'']"
    by (simp add: grok_conformance_def)
  have out: "fold_res (grok_record (\<lambda>_. []) example_identity)
      [PDict [(PStr ''event'', PStr ''finished''), (PStr ''reason'', PStr ''quota'')]] [example_ready] =
      Inr [example_ready, example_end]"
    unfolding example_ready_def example_end_def by code_simp
  obtain p where "feed_events 20 example_start [example_ready, example_end] = Inr p" "finish p = Inr [ready_event, end_event]"
    using example_feed by blast
  then have "canonicalize 20 [example_ready, example_end] ''t'' ''r'' ''d'' [''notes'', ''structured_output'', ''usage''] =
      Inr (map event_to_dict [ready_event, end_event])"
    by (simp add: canonicalize_def example_start_def)
  then show ?thesis
    using out unfolding grok_translate_def Let_def caps example_records example_ready_def example_identity_def by simp
qed

section \<open>Properties\<close>


definition example_selection :: execution_selection where
  "example_selection =
     \<lparr>el_provider = run_provider, el_capability_policy = run_policy, el_plan = run_plan, el_workspace_handle = run_workspace,
      el_prompt_template_digest = run_digest (CHR ''7''), el_role_definition_digest = run_digest (CHR ''8''),
      el_tool_policy_digest = run_digest (CHR ''9''), el_output_schema_digest = run_digest (CHR ''a'')\<rparr>"

definition example_profile :: trusted_profile where
  "example_profile =
     \<lparr>te_selection = example_selection,
      te_conformance =
        \<lparr>cf_provider_id = ''provider'', cf_native_version = ''2.0'', cf_distribution_digest_hint = [],
         cf_capabilities = [''artifacts'', ''notes''], cf_missing_capabilities = [], cf_fixture_conformant = True,
         cf_execution_eligible = True, cf_adapter_id = Some ''adapter'', cf_adapter_version = Some ''1.0'',
         cf_adapter_digest = Some (run_digest (CHR ''1'')), cf_native_digest = Some (run_digest (CHR ''2''))\<rparr>,
      te_allowed_roles = [''reader'', ''writer'']\<rparr>"


text \<open>
  C10: Whatever bytes a provider hands over, the events an adapter lets out are a well-formed run: numbered from one,
  at most a thousand, of the identity it was given, with valid payloads, exactly the last one terminal, and never an
  artifact, since no adapter declares that capability.
\<close>

theorem translated_run:
  assumes "codex_translate stack repr raw task_id run_id packet_digest = Inr out \<or>
    grok_translate stack repr raw task_id run_id packet_digest = Inr out"
  shows "\<exists>evs. out = map event_to_dict evs \<and>
    run_events (task_id, run_id, packet_digest) [''notes'', ''structured_output'', ''usage''] evs \<and>
    list_all (\<lambda>e. ev_event_type e \<noteq> ''artifact.proposed'') evs"
proof -
  have "\<exists>events. canonicalize stack events task_id run_id packet_digest [''notes'', ''structured_output'', ''usage''] = Inr out"
    using assms unfolding codex_translate_def grok_translate_def Let_def bnd_Inr_iff
    by (auto simp: codex_conformance_def grok_conformance_def)
  then obtain evs where e: "out = map event_to_dict evs"
    "run_events (task_id, run_id, packet_digest) [''notes'', ''structured_output'', ''usage''] evs"
    using canonicalize_Inr by blast
  have "assoc CAPABILITY ''artifact.proposed'' = Some ''artifacts''" by (simp add: CAPABILITY_def py_simps)
  then have "list_all (\<lambda>e. ev_event_type e \<noteq> ''artifact.proposed'') evs"
    using e(2) unfolding run_events_def list_all_iff by (auto split: option.splits)
  with e show ?thesis by blast
qed

theorem translated_run_witness:
  "run_events (''t'', ''r'', ''d'') [''notes'', ''structured_output'', ''usage''] [ready_event, end_event]"
proof -
  have "\<exists>evs. map event_to_dict [ready_event, end_event] = map event_to_dict evs \<and>
      run_events (''t'', ''r'', ''d'') [''notes'', ''structured_output'', ''usage''] evs"
    using translated_run [OF disjI2 [OF example_translates]] by blast
  then obtain e d where "event_to_dict ready_event = event_to_dict e" "event_to_dict end_event = event_to_dict d"
    "run_events (''t'', ''r'', ''d'') [''notes'', ''structured_output'', ''usage''] [e, d]"
    by (auto simp: map_eq_Cons_conv)
  moreover have "event_to_dict x = event_to_dict y \<longleftrightarrow> x = y" for x y
    by (cases x; cases y) (simp add: event_to_dict_def py_dict_def)
  ultimately show ?thesis by simp
qed

text \<open>No adapter of the factory is eligible for execution yet: asked for an eligible one, \<open>select_adapter\<close> never returns.\<close>

theorem no_adapter_eligible: "\<exists>code. select_adapter provider_id native_version True = Inl (AdapterError code)"
  by (auto simp: select_adapter_def assoc.simps ensure_def codex_conformance_def grok_conformance_def)

end
