(* ===== verification/Spec2Isabelle.thy ===== *)
theory Spec2Isabelle
  imports TaskState SemanticRepair AutonomyPolicy ExecutionProperties DigestBinding BrokerProperties AdapterProperties
begin

text \<open>
  A verification library for the decision core of the adaptive factory,
  \<open>factory/src/adaptive_factory/\<close>.

  \<^bold>\<open>The program.\<close>  The factory takes a task through a control plane (M4), an execution plane (M5),
  semantic validation (M6), shadow evaluation (M7) and bounded autonomy (M8).  Every stage hands the
  next a closed contract: a frozen dataclass, parsed from JSON by a \<open>from_dict\<close> that rejects every
  unknown field, rendered by a \<open>to_dict\<close>, and named by the SHA-256 digest of its canonical JSON.  The
  decisions in between are pure functions over such contracts.  What is modelled here is the
  contracts and those functions, that is the whole of \<open>contracts.py\<close>, \<open>state.py\<close>, \<open>pricing.py\<close>,
  \<open>execution_contracts.py\<close>, \<open>semantic_bridge.py\<close>, \<open>semantic_contracts.py\<close>, \<open>semantic_adjudication.py\<close>,
  \<open>semantic_repair.py\<close>, \<open>shadow_contracts.py\<close>, \<open>shadow_evaluation.py\<close>, \<open>m7_autonomy_bridge.py\<close> and
  \<open>autonomy.py\<close>, \<open>protocol.py\<close>, \<open>brokers.py\<close> and \<open>adapters/\<close>, the enumerations of \<open>models.py\<close> and the evidence
  contracts of \<open>workspace.py\<close>.

  \<^bold>\<open>How the parts interact.\<close>  \<open>TaskIntakeV1.from_dict\<close> admits work and gives it its idempotency key;
  \<open>authorize_transition\<close> and \<open>classify_retry\<close> decide every change of a task's state;
  \<open>calculate_cost_usd_micros\<close> prices its usage.  While a run works on its
  \<open>TaskPacketV1\<close>, the adapter of the provider (which \<open>AdapterRegistry.resolve\<close> chose) translates native records
  into events, \<open>EventStreamParser\<close> accepts them line by line in any chunks, and \<open>ProposalBroker.accept\<close> turns
  each into a redacted proposal with an idempotency key.  A run leaves a
  \<open>WorkspaceResultV1\<close>, a \<open>WorkspaceSnapshotV1\<close>, proposals and \<open>ArtifactAttestationV1\<close>s;
  \<open>build_semantic_subject\<close> checks all of it against each other and makes the \<open>SemanticSubjectV1\<close> of the run.
  \<open>adjudicate\<close> turns findings and coverage reports about
  one subject into a \<open>SemanticVerdictV1\<close>; \<open>plan_repair\<close> turns a repair verdict into one
  bounded \<open>RepairDirectiveV1\<close> or into a stop for a human.  A passing verdict crosses into
  \<open>M6PassVerdictV1\<close>, and with the M4 and M5 bridges makes the \<open>ShadowTaskEvidenceV1\<close> of a
  \<open>ReadyForPrBundleV1\<close>.  Outcomes of bundles make a \<open>ShadowCohortV1\<close>, which
  \<open>evaluate_shadow_cohort\<close> aggregates and judges; \<open>M7AutonomyBridgeV1\<close> carries cohort and bundles to
  \<open>evaluate_autonomy\<close>, whose \<open>AutonomyProfileV1\<close> lives on through further evaluations and through
  \<open>demote_profile\<close>.

  \<^bold>\<open>Theories.\<close>
  \<^item> \<open>Prelude\<close>: the exceptions, the result type \<open>'a res\<close>, sequencing (\<open>bnd\<close>, \<open>ensure\<close>, \<open>checks\<close>),
    \<open>sorted(set(..))\<close>, runs of a step relation, and the locales \<open>invariant_machine\<close> and
    \<open>guarded_machine\<close>.
  \<^item> \<open>PyString\<close>, \<open>PyTime\<close>, \<open>PyValue\<close>, \<open>PyCollections\<close>, \<open>Sha256\<close>: what the code uses of Python and
    its standard library - the patterns, aware datetimes with \<open>fromisoformat\<close> and \<open>isoformat\<close>, untyped
    values, \<open>Counter\<close> and \<open>defaultdict(set)\<close>, and the hash.
  \<^item> \<open>Contracts\<close>: canonical JSON, digests and field validators of \<open>contracts.py\<close>, and the locales
    \<open>stable_codec\<close> (what was parsed parses again from its rendering) and \<open>checked_codec\<close> (a class with a
    \<open>__post_init__\<close>: parsing yields checked values, checked values survive the round trip).  Every
    contract class with a parser and a renderer is an interpretation of one of them.
  \<^item> \<open>Intake\<close>, \<open>IntakeBinding\<close>: the handoffs, authority, limits and intake; what an accepted intake binds.
  \<^item> \<open>TaskState\<close>: the task graph, the transition policy and the retry classification.
  \<^item> \<open>Pricing\<close>: usage, price table and cost.
  \<^item> \<open>PyPath\<close>, \<open>PyRegex\<close>, \<open>ExecutionContracts\<close>, \<open>Workspace\<close>, \<open>Proposals\<close>: paths and the secret pattern; the M5
    contracts, the evidence of a workspace, the proposals of a run and their keys.
  \<^item> \<open>JsonReader\<close>, \<open>JsonRoundTrip\<close>, \<open>JsonWellFormed\<close>, \<open>JsonLength\<close>: \<open>bytes.decode\<close> and \<open>json.loads\<close> with their errors; that
    the reader inverts the canonical writer, what it returns, and that the canonical text is never the longer one.
  \<^item> \<open>Protocol\<close>, \<open>EventPayload\<close>, \<open>EventLine\<close>, \<open>EventStream\<close>, \<open>EventProperties\<close>: \<open>protocol.py\<close>; what a valid payload, an
    accepted line and an accepted stream hold, and that chunking and rewriting make no difference.
  \<^item> \<open>Redaction\<close>, \<open>Broker\<close>, \<open>BrokerProperties\<close>: the patterns and \<open>_redact\<close>, the whole of \<open>ProposalBroker\<close>, and what its
    answers promise to the control plane and the semantic bridge.
  \<^item> \<open>Adapters\<close>, \<open>AdapterProperties\<close>: the registry and the Codex and Grok adapters.
  \<^item> \<open>ExecutionBridge\<close>, \<open>EvidenceBinding\<close>, \<open>RunExample\<close>, \<open>ExecutionProperties\<close>, \<open>BridgeProperties\<close>: from the
    evidence of a run to its subject, what evidence is accepted, and a complete example run.
  \<^item> \<open>CanonicalJson\<close>, \<open>DigestBinding\<close>: the canonical text determines the value, so a digest names it up to a
    collision of the hash.
  \<^item> \<open>SemanticContracts\<close>, \<open>SemanticExamples\<close>, \<open>SemanticAdjudication\<close>: the M6 contracts and the adjudicator.
  \<^item> \<open>RepairContracts\<close>, \<open>SemanticRepair\<close>: the repair contracts and the repair policy.
  \<^item> \<open>ShadowContracts\<close>, \<open>BundleBinding\<close>, \<open>SemanticBridge\<close>: bridges, evidence, handoff and bundle, and the
    crossing of a verdict from M6.
  \<^item> \<open>ShadowCohort\<close>, \<open>ShadowEvaluation\<close>, \<open>ShadowThresholds\<close>: cohorts, their aggregate and their evaluation.
  \<^item> \<open>AutonomyBridge\<close>, \<open>AutonomyContracts\<close>, \<open>Autonomy\<close>, \<open>AutonomyMachine\<close>, \<open>AutonomyPolicy\<close>: the M7 to
    M8 bridge, the M8 contracts, the two policy functions, the life of a profile, and the properties.

  \<^bold>\<open>How the code is read.\<close>
  \<^item> A \<open>raise\<close> is \<open>Inl\<close> of an exception, a normal return is \<open>Inr\<close>; the exceptions that Python itself raises
    on unexpected input (\<open>TypeError\<close>, \<open>KeyError\<close>, \<open>OverflowError\<close> and so on) are values as well.
  \<^item> A value that comes from outside is a \<open>pyval\<close>, so that the type checks of the code are branches of the
    model.  A field that the code has parsed has its HOL type, and the \<open>isinstance\<close> checks on it hold by
    typing.  A frozen dataclass is a record; the statement that an object exists is that its \<open>__post_init__\<close>
    (\<open>x_post_init\<close>) accepted it, and \<open>construct\<close> is the constructor.
  \<^item> A Python \<open>str\<close> is its byte string (see \<open>PyString\<close>); an \<open>int\<close> is an \<open>int\<close>, since Python's are unbounded;
    the bounds of the database columns are checks of the code.
  \<^item> \<open>unicodedata.normalize("NFC", _)\<close> is the parameter \<open>nfc\<close>, whose tables are not part of the code.  The one
    law used of it is \<open>nfc_ascii\<close>: it leaves ASCII strings as they are.
  \<^item> Which characters outside ASCII are word characters of a regular expression is a table of the library: the
    parameter \<open>word\<close>, of which nothing is assumed.  Patterns are matched by \<open>PyRegex\<close>: the ends of all matches in the
    order in which the library tries them, greedy or lazy, so that the first one is the match it takes.
  \<^item> \<open>stack\<close> is the room that is left for nested JSON, beyond which the reader and the writer raise
    \<open>RecursionError\<close>; a float read from JSON keeps its literal, whose digits Python would print again; \<open>repr\<close> is
    \<open>str(_)\<close> of a float, a list or a dictionary in an adapter.  Nothing is assumed of them.
  \<^item> A broker's set of ended runs and a parser's fields are passed in and returned, after an error too.
  \<^item> SHA-256 is computed.  Nothing is assumed about collisions; a theorem that needs to speak of one names it.

  \<^bold>\<open>What the lemmas show.\<close>  For every contract, its round trips.  For the intake, that its parts are bound to each
  other and which fields the idempotency key depends on.  For the transition policy, that it refines a
  declarative table of rules, and what runs of it can and cannot reach.  For the adjudicator, when it returns,
  what each decision means about the evidence, that the order of the evidence does not matter, and that its
  verdict is always accepted by its own parser and by the next stage.  For the repair policy, an independent
  statement of when it allows a repair.  For the shadow evaluation, that its integer thresholds in millionths
  decide the rational ones, and that it always returns.  For the autonomy policy, when it returns, which gates
  decide, that no sequence of evaluations and demotions raises a level and that a halt lasts until expiry.  For the
  semantic bridge, a declarative statement of the evidence it accepts, the pairing of artifacts and attestations,
  that a passed run has the evidence the bundle needs, and that the envelope digest names the whole run.  For the
  event protocol, that an accepted stream is a well-formed run however its bytes are cut, and that its canonical log
  replays.  For the broker, that a proposal stays within its context, holds redacted texts and carries the key
  the bridge recomputes, and that a run ends once.  For the adapters, what the registry resolves and that every
  translation is a well-formed run.

  \<^bold>\<open>Bounds and fuel.\<close>  Every loop of the code runs over a finite list and is structural recursion, a list function
  or, for the lines in a parser's buffer and the JSON text still to read, a recursion whose argument gets shorter.
  The repetitions of a pattern are bounded by the number of characters that are left, which is enough because
  every further round has to take one.  \<open>stack\<close> bounds the nesting of JSON as the interpreter does; it is no fuel, the
  \<open>RecursionError\<close> is the behaviour of the code.  The bounds that matter to a proof (at most 10000 outcomes in a cohort, at most
  1000 requirements, findings and reports) are checks of the code.

  \<^bold>\<open>What modelling showed.\<close>  \<open>_time\<close> lets the \<open>OverflowError\<close> of \<open>astimezone\<close> escape; three membership tests
  of \<open>shadow_contracts.py\<close> raise \<open>TypeError\<close> on a JSON array or object; the edges out of \<open>inbox\<close> towards the
  queue belong to no operation; and since every bundle is blocked until a durable lookup exists,
  \<open>evaluate_autonomy\<close> never recommends a higher level.  The event parser lets four exceptions of Python out: \<open>KeyError\<close>
  for an \<open>adapter.ready\<close> without capabilities, \<open>TypeError\<close> for an array as protocol version, \<open>RecursionError\<close> for deep
  nesting and \<open>ValueError\<close> for long numbers.  The broker records the end of a run before it checks the size of the
  terminal proposal, so a refused one blocks the next.

  \<^bold>\<open>Not modelled.\<close>  The store and the services over it (\<open>store.py\<close>, \<open>service.py\<close>, \<open>migrations.py\<close>,
  \<open>recovery.py\<close>: their state is a PostgreSQL database), the HTTP and process layers, the brokers and the host probe of
  \<open>workspace.py\<close>, the landing-page generator (\<open>landing_*.py\<close>: provider calls, SQLite and HTTP around its contracts) and
  the repository tools under \<open>.grok-stack/\<close>.
\<close>

end
